(* ===== verification/Prelude.thy ===== *)
theory Prelude
  imports Main "HOL-Library.Word" "HOL-Library.Multiset" "HOL-Library.Char_ord" "HOL-Library.List_Lexorder"
begin

section \<open>Prelude: Go's strings, numbers and results\<close>

text \<open>
  What the model of the control plane takes from Go and its standard library: byte strings with
  the functions of \<open>strings\<close> the code calls, decimal printing and parsing as \<open>strconv\<close> does it,
  the results a call can have (a value, an error, a panic), and the generic lemmas on lists, maps
  and words that the components share. \<open>go_simps\<close> collects the equations that evaluate the
  string functions, \<open>go_intros\<close> the introduction rules for their preconditions.
\<close>

named_theorems go_simps \<open>evaluation of the Go library functions\<close>
named_theorems go_intros \<open>introduction rules for the side conditions of the Go library functions\<close>

subsection \<open>Integers at their width\<close>

type_synonym int64 = "64 word"
type_synonym uint64 = "64 word"
type_synonym uint32 = "32 word"
type_synonym uint16 = "16 word"
type_synonym uint8 = "8 word"

text \<open>\<open>int64\<close> is read as two's complement: comparisons are \<open><s\<close>, values \<open>sint\<close>.\<close>

lemma sint_diff_nonneg:
  fixes a b :: "'a::len word"
  assumes "0 \<le> sint b" and "sint b \<le> sint a"
  shows "sint (a - b) = sint a - sint b"
proof -
  have "sint a < 2 ^ (LENGTH('a) - 1)" by (rule sint_lt)
  moreover have "- (2 ^ (LENGTH('a) - 1)) \<le> (0::int)" by simp
  ultimately have "signed_take_bit (LENGTH('a) - 1) (sint a - sint b) = sint a - sint b"
    using assms by (intro signed_take_bit_int_eq_self) linarith+
  moreover have "sint (a - b) = signed_take_bit (LENGTH('a) - 1) (sint a - sint b)"
    by (simp add: sint_word_ariths)
  ultimately show ?thesis by simp
qed

lemma sint_of_small:
  "0 \<le> x \<Longrightarrow> x < 2 ^ (LENGTH('a) - 1) \<Longrightarrow> sint (word_of_int x :: 'a::len word) = x"
  by (simp add: signed_of_int signed_take_bit_int_eq_self)

lemma sint_neg_not_sless: "\<not> a <s b \<longleftrightarrow> sint b \<le> sint (a :: 'a::len word)"
  by (auto simp: word_sless_alt)

subsection \<open>Results of a call\<close>

text \<open>
  A Go function that returns \<open>(value, error)\<close> either returns a value, or an error (its message),
  or panics (a failed type assertion, an index out of range, a nil dereference).
\<close>

datatype 'a go = Ret 'a | Fail string | Panic

fun go_bind :: "'a go \<Rightarrow> ('a \<Rightarrow> 'b go) \<Rightarrow> 'b go" where
  "go_bind (Ret x) f = f x"
| "go_bind (Fail e) f = Fail e"
| "go_bind Panic f = Panic"

lemma go_bind_Ret_iff: "go_bind m f = Ret y \<longleftrightarrow> (\<exists>x. m = Ret x \<and> f x = Ret y)"
  by (cases m) auto

lemma go_bind_assoc: "go_bind (go_bind m f) g = go_bind m (\<lambda>x. go_bind (f x) g)"
  by (cases m) auto

subsection \<open>Byte strings: split, join, trim\<close>

text \<open>\<open>strings.Split(s, c)\<close> for a one byte separator: never empty.\<close>

fun split :: "char \<Rightarrow> string \<Rightarrow> string list" where
  "split c [] = [[]]"
| "split c (x # xs) =
     (if x = c then [] # split c xs
      else (case split c xs of [] \<Rightarrow> [[x]] | w # ws \<Rightarrow> (x # w) # ws))"

fun join :: "string \<Rightarrow> string list \<Rightarrow> string" where
  "join sep [] = []"
| "join sep [w] = w"
| "join sep (w # v # ws) = w @ sep @ join sep (v # ws)"

definition trim_left :: "char \<Rightarrow> string \<Rightarrow> string" where
  "trim_left c s = dropWhile (\<lambda>x. x = c) s"

definition trim :: "char \<Rightarrow> string \<Rightarrow> string" where
  "trim c s = rev (trim_left c (rev (trim_left c s)))"

definition is_space :: "char \<Rightarrow> bool" where
  "is_space c \<longleftrightarrow> c = CHR '' '' \<or> (9 \<le> (of_char c :: nat) \<and> (of_char c :: nat) \<le> 13)"

text \<open>\<open>strings.TrimSpace\<close> on ASCII text.\<close>

definition trim_space :: "string \<Rightarrow> string" where
  "trim_space s = rev (dropWhile is_space (rev (dropWhile is_space s)))"

definition has_prefix :: "string \<Rightarrow> string \<Rightarrow> bool" where
  "has_prefix p s \<longleftrightarrow> take (length p) s = p"

definition has_suffix :: "string \<Rightarrow> string \<Rightarrow> bool" where
  "has_suffix p s \<longleftrightarrow> length p \<le> length s \<and> drop (length s - length p) s = p"

fun contains :: "string \<Rightarrow> string \<Rightarrow> bool" where
  "contains p [] = (p = [])"
| "contains p (x # xs) = (has_prefix p (x # xs) \<or> contains p xs)"

definition to_lower_char :: "char \<Rightarrow> char" where
  "to_lower_char c =
     (if 65 \<le> (of_char c :: nat) \<and> (of_char c :: nat) \<le> 90 then char_of (of_char c + 32 :: nat) else c)"

definition to_lower :: "string \<Rightarrow> string" where
  "to_lower s = map to_lower_char s"

lemma split_not_Nil [simp]: "split c s \<noteq> []"
  by (induction s) (auto split: list.splits)

lemma split_no_sep: "c \<notin> set s \<Longrightarrow> split c s = [s]"
  by (induction s) auto

lemma split_append_sep: "c \<notin> set a \<Longrightarrow> split c (a @ c # b) = a # split c b"
  by (induction a) auto

lemma split_pieces_no_sep: "w \<in> set (split c s) \<Longrightarrow> c \<notin> set w"
proof (induction s arbitrary: w)
  case Nil
  then show ?case by simp
next
  case (Cons x s)
  obtain v vs where vs: "split c s = v # vs" by (cases "split c s") auto
  then have "c \<notin> set v" using Cons.IH by simp
  with Cons vs show ?case by (auto split: if_splits)
qed

lemma join_split: "join [c] (split c s) = s"
proof (induction s)
  case Nil
  then show ?case by simp
next
  case (Cons x s)
  obtain v vs where vs: "split c s = v # vs" by (cases "split c s") auto
  with Cons show ?case by (cases vs) auto
qed

lemma split_join:
  "ws \<noteq> [] \<Longrightarrow> (\<And>w. w \<in> set ws \<Longrightarrow> c \<notin> set w) \<Longrightarrow> split c (join [c] ws) = ws"
proof (induction ws rule: induct_list012)
  case (3 w v ws)
  then show ?case by (simp add: split_append_sep)
qed (auto simp: split_no_sep)

lemma trim_left_id: "s = [] \<or> hd s \<noteq> c \<Longrightarrow> trim_left c s = s"
  by (cases s) (auto simp: trim_left_def)

lemma trim_id: "s \<noteq> [] \<Longrightarrow> hd s \<noteq> c \<Longrightarrow> last s \<noteq> c \<Longrightarrow> trim c s = s"
  by (simp add: trim_def trim_left_id hd_rev)

lemma has_prefix_append [simp]: "has_prefix p (p @ s)"
  by (simp add: has_prefix_def)

lemma has_prefix_iff: "has_prefix p s \<longleftrightarrow> (\<exists>t. s = p @ t)"
  by (metis append_eq_conv_conj append_take_drop_id has_prefix_def)

lemma has_prefix_refl [simp]: "has_prefix s s"
  by (simp add: has_prefix_def)


lemma trim_key:
  "s \<noteq> [] \<Longrightarrow> hd s \<noteq> c \<Longrightarrow> t \<noteq> [] \<Longrightarrow> last t \<noteq> c \<Longrightarrow> trim c (s @ t) = s @ t"
  by (rule trim_id) auto

subsection \<open>strconv: printing and parsing decimal numbers\<close>

definition digit_char :: "nat \<Rightarrow> char" where
  "digit_char n = char_of (48 + n)"

definition digit_val :: "char \<Rightarrow> nat option" where
  "digit_val c =
     (if 48 \<le> (of_char c :: nat) \<and> (of_char c :: nat) \<le> 57 then Some (of_char c - 48) else None)"

fun utoa :: "nat \<Rightarrow> string" where
  "utoa n = (if n < 10 then [digit_char n] else utoa (n div 10) @ [digit_char (n mod 10)])"

declare utoa.simps [simp del]

definition itoa :: "int \<Rightarrow> string" where
  "itoa i = (if i < 0 then CHR ''-'' # utoa (nat (- i)) else utoa (nat i))"

fun digits_val :: "nat \<Rightarrow> string \<Rightarrow> nat option" where
  "digits_val acc [] = Some acc"
| "digits_val acc (c # cs) =
     (case digit_val c of None \<Rightarrow> None | Some d \<Rightarrow> digits_val (10 * acc + d) cs)"

text \<open>
  \<open>strconv.ParseUint(s, 10, bits)\<close>: \<open>(value, ok)\<close>. A syntax error gives 0; a value out of
  range gives the largest one, both with an error.
\<close>

definition parse_uint :: "nat \<Rightarrow> string \<Rightarrow> nat \<times> bool" where
  "parse_uint bits s =
     (if s = [] then (0, False)
      else case digits_val 0 s of
             None \<Rightarrow> (0, False)
           | Some n \<Rightarrow> if n < 2 ^ bits then (n, True) else (2 ^ bits - 1, False))"

text \<open>\<open>strconv.Atoi(s)\<close> and \<open>strconv.ParseInt(s, 10, 64)\<close>, on a 64 bit \<open>int\<close>.\<close>

definition atoi :: "string \<Rightarrow> int \<times> bool" where
  "atoi s =
     (let neg = (s \<noteq> [] \<and> hd s = CHR ''-'');
          body = (if s \<noteq> [] \<and> (hd s = CHR ''-'' \<or> hd s = CHR ''+'') then tl s else s)
      in if body = [] then (0, False)
         else case digits_val 0 body of
                None \<Rightarrow> (0, False)
              | Some n \<Rightarrow>
                  (if neg then (if n \<le> 2 ^ 63 then (- int n, True) else (- (2 ^ 63), False))
                   else (if n < 2 ^ 63 then (int n, True) else (2 ^ 63 - 1, False))))"

definition format_bool :: "bool \<Rightarrow> string" where
  "format_bool b = (if b then ''true'' else ''false'')"

definition parse_bool :: "string \<Rightarrow> bool \<times> bool" where
  "parse_bool s =
     (if s \<in> {''1'', ''t'', ''T'', ''TRUE'', ''true'', ''True''} then (True, True)
      else if s \<in> {''0'', ''f'', ''F'', ''FALSE'', ''false'', ''False''} then (False, True)
      else (False, False))"

lemma digit_val_char [simp]: "n < 10 \<Longrightarrow> digit_val (digit_char n) = Some n"
  by (simp add: digit_val_def digit_char_def)

lemma digits_val_append:
  "digits_val a (s @ t) = (case digits_val a s of None \<Rightarrow> None | Some b \<Rightarrow> digits_val b t)"
  by (induction s arbitrary: a) (auto split: option.splits)

lemma digits_val_utoa_acc: "digits_val 0 (utoa n) = Some n"
proof (induction n rule: utoa.induct)
  case (1 n)
  show ?case
  proof (cases "n < 10")
    case True
    then show ?thesis by (subst utoa.simps) simp
  next
    case False
    with "1.IH" show ?thesis by (subst utoa.simps) (simp add: digits_val_append)
  qed
qed

lemma utoa_not_Nil [simp]: "utoa n \<noteq> []"
  by (subst utoa.simps) simp

lemma digit_char_range: "n < 10 \<Longrightarrow> digit_val (digit_char n) \<noteq> None"
  by simp

lemma utoa_digits: "c \<in> set (utoa n) \<Longrightarrow> digit_val c \<noteq> None"
proof (induction n rule: utoa.induct)
  case (1 n)
  show ?case
  proof (cases "n < 10")
    case True
    with "1.prems" show ?thesis by (subst (asm) utoa.simps) auto
  next
    case False
    with "1.prems" have "c \<in> set (utoa (n div 10)) \<or> c = digit_char (n mod 10)"
      by (subst (asm) utoa.simps) auto
    with "1.IH" False show ?thesis by (auto simp: digit_char_range)
  qed
qed

lemma not_in_utoa: "digit_val c = None \<Longrightarrow> c \<notin> set (utoa n)"
  using utoa_digits by fastforce

lemma utoa_no_slash [simp]: "CHR ''/'' \<notin> set (utoa n)"
  by (rule not_in_utoa) (simp add: digit_val_def)

lemma utoa_no_dot [simp]: "CHR ''.'' \<notin> set (utoa n)"
  by (rule not_in_utoa) (simp add: digit_val_def)

lemma hd_utoa_not_sign: "hd (utoa n) \<noteq> CHR ''-''" "hd (utoa n) \<noteq> CHR ''+''"
proof -
  have "CHR ''-'' \<notin> set (utoa n)" "CHR ''+'' \<notin> set (utoa n)"
    by (rule not_in_utoa, simp add: digit_val_def)+
  then show "hd (utoa n) \<noteq> CHR ''-''" "hd (utoa n) \<noteq> CHR ''+''"
    using hd_in_set[OF utoa_not_Nil, of n] by metis+
qed

lemma utoa_inject: "utoa m = utoa n \<longleftrightarrow> m = n"
  by (metis digits_val_utoa_acc option.inject)

lemma parse_uint_utoa [simp]: "n < 2 ^ bits \<Longrightarrow> parse_uint bits (utoa n) = (n, True)"
  by (simp add: parse_uint_def digits_val_utoa_acc)

lemma atoi_itoa [simp]:
  assumes "- (2 ^ 63) \<le> i" and "i < 2 ^ 63"
  shows "atoi (itoa i) = (i, True)"
proof (cases "i < 0")
  case True
  with assms show ?thesis
    by (simp add: itoa_def atoi_def digits_val_utoa_acc nat_le_iff)
next
  case False
  with assms have "nat i < 2 ^ 63" by (simp add: nat_less_iff)
  with False show ?thesis
    by (simp add: itoa_def atoi_def digits_val_utoa_acc hd_utoa_not_sign)
qed

lemma itoa_not_Nil [simp]: "itoa i \<noteq> []"
  by (simp add: itoa_def)

lemma atoi_itoa_sint [simp]: "atoi (itoa (sint (w :: int64))) = (sint w, True)"
  using sint_lt[of w] sint_ge[of w] by (intro atoi_itoa) simp_all

lemma unat_bound_63: "LENGTH('a) \<le> 63 \<Longrightarrow> int (unat (w :: 'a::len word)) < 2 ^ 63"
proof -
  assume "LENGTH('a) \<le> 63"
  have "unat w < 2 ^ LENGTH('a)" by (rule unsigned_less)
  also have "\<dots> \<le> 2 ^ 63" using \<open>LENGTH('a) \<le> 63\<close> by (intro power_increasing) simp_all
  finally show ?thesis using of_nat_less_iff[where 'a = int, of "unat w" "2 ^ 63"] by simp
qed

lemma atoi_itoa_unat [simp]:
  "LENGTH('a) \<le> 63 \<Longrightarrow> atoi (itoa (int (unat (w :: 'a::len word)))) = (int (unat w), True)"
  using unat_bound_63[of w] by (intro atoi_itoa) (auto intro: order_trans[of _ 0])

lemma itoa_int [simp]: "itoa (int n) = utoa n"
  by (simp add: itoa_def)

lemma itoa_uint [simp]: "itoa (uint (w :: 'a::len word)) = utoa (unat w)"
  by (simp add: itoa_def)

lemma atoi_utoa [simp]: "n < 2 ^ 63 \<Longrightarrow> atoi (utoa n) = (int n, True)"
  using atoi_itoa[of "int n"] by simp

lemma atoi_utoa_unat [simp]:
  "LENGTH('a) \<le> 63 \<Longrightarrow> atoi (utoa (unat (w :: 'a::len word))) = (uint w, True)"
  using atoi_itoa_unat[of w] by simp

lemma parse_uint_utoa_unat [simp]:
  "LENGTH('a) \<le> bits \<Longrightarrow> parse_uint bits (utoa (unat (w :: 'a::len word))) = (unat w, True)"
proof -
  assume "LENGTH('a) \<le> bits"
  then have "2 ^ LENGTH('a) \<le> (2 ^ bits :: nat)" by (intro power_increasing) simp_all
  with unsigned_less[of w] show ?thesis by (intro parse_uint_utoa) (rule order_less_le_trans)
qed

lemma parse_bool_format [simp]: "parse_bool (format_bool b) = (b, True)"
  by (simp add: parse_bool_def format_bool_def)

lemma format_bool_not_Nil [simp]: "format_bool b \<noteq> []"
  by (simp add: format_bool_def)

subsection \<open>Association lists\<close>

text \<open>
  A Go map that is built up and then ranged over is a list of entries with distinct keys, in the
  order the \<open>range\<close> loop visits them; a map that is only looked up is a partial function.
\<close>

fun alist_update :: "'k \<Rightarrow> 'v \<Rightarrow> ('k \<times> 'v) list \<Rightarrow> ('k \<times> 'v) list" where
  "alist_update k v [] = [(k, v)]"
| "alist_update k v ((k', v') # m) =
     (if k = k' then (k, v) # m else (k', v') # alist_update k v m)"

lemma map_of_alist_update [simp]: "map_of (alist_update k v m) = (map_of m)(k \<mapsto> v)"
  by (induction k v m rule: alist_update.induct) (auto simp: fun_eq_iff)

lemma set_alist_update_keys [simp]:
  "fst ` set (alist_update k v m) = insert k (fst ` set m)"
  by (induction k v m rule: alist_update.induct) auto

lemma distinct_alist_update [simp]:
  "distinct (map fst m) \<Longrightarrow> distinct (map fst (alist_update k v m))"
  by (induction k v m rule: alist_update.induct) auto

lemma alist_update_present:
  "k \<in> fst ` set m \<Longrightarrow> map fst (alist_update k v m) = map fst m"
  by (induction k v m rule: alist_update.induct) auto

lemma alist_update_absent:
  "k \<notin> fst ` set m \<Longrightarrow> alist_update k v m = m @ [(k, v)]"
  by (induction k v m rule: alist_update.induct) auto

lemma foldl_invariant:
  "P a \<Longrightarrow> (\<And>a x. x \<in> set xs \<Longrightarrow> P a \<Longrightarrow> P (f a x)) \<Longrightarrow> P (foldl f a xs)"
  by (induction xs arbitrary: a) auto

subsection \<open>Folding in any order\<close>

text \<open>
  A loop whose steps commute, up to an equivalence that the steps respect, gives equivalent results
  in every visit order.
\<close>

lemma foldl_eqv_start:
  assumes "\<And>a b x. R a b \<Longrightarrow> R (f a x) (f b x)"
  shows "R a b \<Longrightarrow> R (foldl f a xs) (foldl f b xs)"
  by (induction xs arbitrary: a b) (auto intro: assms)

lemma foldl_move_front:
  assumes "equivp R" and "\<And>a b x. R a b \<Longrightarrow> R (f a x) (f b x)"
    and "\<And>a y. y \<in> set us \<Longrightarrow> R (f (f a y) x) (f (f a x) y)"
  shows "R (foldl f a (us @ x # vs)) (foldl f (f a x) (us @ vs))"
  using assms(3)
proof (induction us arbitrary: a)
  case Nil
  then show ?case by (simp add: equivp_reflp[OF assms(1)])
next
  case (Cons u us)
  have "R (foldl f (f a u) (us @ x # vs)) (foldl f (f (f a u) x) (us @ vs))"
    by (rule Cons.IH) (auto intro: Cons.prems)
  moreover have "R (foldl f (f (f a u) x) (us @ vs)) (foldl f (f (f a x) u) (us @ vs))"
    by (rule foldl_eqv_start[where R = R and f = f]) (auto intro: Cons.prems assms(2))
  ultimately show ?case by (auto intro: equivp_transp[OF assms(1)])
qed

lemma foldl_perm_eqv:
  assumes "equivp R" and "\<And>a b x. R a b \<Longrightarrow> R (f a x) (f b x)"
    and "mset xs = mset ys" and "distinct (map g xs)"
    and "\<And>a x y. x \<in> set xs \<Longrightarrow> y \<in> set xs \<Longrightarrow> g x \<noteq> g y \<Longrightarrow> R (f (f a y) x) (f (f a x) y)"
  shows "R (foldl f a xs) (foldl f a ys)"
  using assms(3-5)
proof (induction xs arbitrary: a ys)
  case Nil
  then show ?case by (simp add: equivp_reflp[OF assms(1)])
next
  case (Cons x xs)
  then have "x \<in> set ys" by (metis list.set_intros(1) set_mset_mset)
  then obtain us vs where ys: "ys = us @ x # vs" by (meson split_list)
  with Cons.prems(1) have m: "mset xs = mset (us @ vs)" by simp
  then have s: "set us \<subseteq> set xs" by (metis Un_upper1 mset_eq_setD set_append)
  have "R (foldl f (f a x) xs) (foldl f (f a x) (us @ vs))"
    by (rule Cons.IH[OF m]) (use Cons.prems in auto)
  moreover have "R (foldl f a (us @ x # vs)) (foldl f (f a x) (us @ vs))"
  proof (rule foldl_move_front[where R = R and f = f])
    fix b y assume "y \<in> set us"
    with s Cons.prems(2) have "y \<in> set xs" "g x \<noteq> g y" by auto
    then show "R (f (f b y) x) (f (f b x) y)" using Cons.prems(3)[of x y] by simp
  qed (use assms(1,2) in auto)
  ultimately show ?case unfolding ys foldl_Cons
    by (auto intro: equivp_transp[OF assms(1)] equivp_symp[OF assms(1)])
qed

end
