(* ===== verification/CPLib.thy ===== *)
theory CPLib
  imports Prelude "HOL-Library.Signed_Division"
begin

unbundle bit_operations_syntax

section \<open>The shared library: ctlplanefuncs/lib\<close>

text \<open>
  The data types of \<open>libctlplanefuncs.go\<close>, \<open>cpreq.go\<close> and \<open>cphelpers.go\<close> and the pure functions
  on them. Field names carry a prefix for their struct (\<open>n_\<close> for Nisd, \<open>v_\<close> for VdevConfig and so
  on) because record fields share one name space. Sizes are \<open>int64\<close>, counts have the width of
  the Go field. The XML tags and the name fields of the XML encoding are left out.
\<close>

subsection \<open>Constants and enumerations\<close>

abbreviation (input) PDU_IDX :: nat where "PDU_IDX \<equiv> 0"
abbreviation (input) RACK_IDX :: nat where "RACK_IDX \<equiv> 1"
abbreviation (input) HV_IDX :: nat where "HV_IDX \<equiv> 2"
abbreviation (input) DEVICE_IDX :: nat where "DEVICE_IDX \<equiv> 3"
abbreviation (input) PARTITION_IDX :: nat where "PARTITION_IDX \<equiv> 4"
abbreviation (input) FD_MAX :: nat where "FD_MAX \<equiv> 5"

text \<open>\<open>CHUNK_SIZE = 8 * 1024 * 1024 * 1024\<close>.\<close>

abbreviation (input) CHUNK_SIZE :: "'a::numeral" where "CHUNK_SIZE \<equiv> 8589934592"

abbreviation MntKey :: string where "MntKey \<equiv> ''m''"
abbreviation MOUNT_COUNTER :: string where "MOUNT_COUNTER \<equiv> ''mc''"
abbreviation LAST_UPDATED_LTS :: string where "LAST_UPDATED_LTS \<equiv> ''lu''"
abbreviation NISD_SECRET :: string where "NISD_SECRET \<equiv> ''Nisd-secret''"
abbreviation CP_SECRET :: string where "CP_SECRET \<equiv> ''ControlPlane-secret''"

text \<open>\<open>type FD int\<close>: the declared values, and any other integer a request can carry.\<close>

datatype fd = FD_ANY | FD_PDU | FD_RACK | FD_HV | FD_DEVICE | FD_PARTITION | FD_Other int

type_synonym redundancy_mode = int

abbreviation (input) RMReplica :: redundancy_mode where "RMReplica \<equiv> 0"
abbreviation (input) RMEC32K :: redundancy_mode where "RMEC32K \<equiv> 1"
abbreviation (input) RMEC64K :: redundancy_mode where "RMEC64K \<equiv> 2"
abbreviation (input) RMEC128K :: redundancy_mode where "RMEC128K \<equiv> 3"

definition IsEC :: "redundancy_mode \<Rightarrow> bool" where
  "IsEC r \<longleftrightarrow> r \<ge> RMEC32K"

datatype chunk_type = Replica | Data | Parity | CT_Other int

fun ChunkPrefix :: "chunk_type \<Rightarrow> string" where
  "ChunkPrefix Replica = ''D''"
| "ChunkPrefix Data = ''D''"
| "ChunkPrefix Parity = ''P''"
| "ChunkPrefix (CT_Other _) = ''?''"

abbreviation errKeyNotFoundMsg :: string where "errKeyNotFoundMsg \<equiv> ''Failed to lookup for key''"

text \<open>An \<open>error\<close> is its message, \<open>nil\<close> is \<open>None\<close>.\<close>

definition IsKeyNotFoundError :: "string option \<Rightarrow> bool" where
  "IsKeyNotFoundError err \<longleftrightarrow> err = Some errKeyNotFoundMsg"

fun GetFDIdx :: "fd \<Rightarrow> int" where
  "GetFDIdx FD_PDU = int PDU_IDX"
| "GetFDIdx FD_RACK = int RACK_IDX"
| "GetFDIdx FD_HV = int HV_IDX"
| "GetFDIdx FD_DEVICE = int DEVICE_IDX"
| "GetFDIdx FD_PARTITION = int PARTITION_IDX"
| "GetFDIdx _ = -1"

fun FDName :: "fd \<Rightarrow> string" where
  "FDName FD_PDU = ''pdu''"
| "FDName FD_RACK = ''rack''"
| "FDName FD_HV = ''hv''"
| "FDName FD_DEVICE = ''device''"
| "FDName FD_PARTITION = ''partition''"
| "FDName _ = ''any''"

definition ParseFD :: "string \<Rightarrow> fd go" where
  "ParseFD s =
     (let t = to_lower (trim_space s) in
      if t = [] \<or> t = ''any'' then Ret FD_ANY
      else if t = ''pdu'' then Ret FD_PDU
      else if t = ''rack'' then Ret FD_RACK
      else if t = ''hv'' then Ret FD_HV
      else if t = ''device'' then Ret FD_DEVICE
      else if t = ''partition'' then Ret FD_PARTITION
      else Fail (''unknown failure_domain '' @ s))"

subsection \<open>Structs\<close>

record snap_name = sn_Name :: string sn_Success :: bool
record chunk_xml = cx_Idx :: uint32 cx_Seq :: uint64
record snap_xml = sx_SnapName :: string sx_Vdev :: string sx_Chunks :: "chunk_xml list"

record response_xml =
  rx_Name :: string
  rx_ID :: string
  rx_Error :: string
  rx_Success :: bool

record device_partition =
  pt_PartitionID :: string
  pt_PartitionPath :: string
  pt_NISDUUID :: string
  pt_DevID :: string
  pt_Size :: int64

record device =
  d_ID :: string
  d_Name :: string
  d_DevicePath :: string
  d_SerialNumber :: string
  d_State :: uint16
  d_Size :: int64
  d_HypervisorID :: string
  d_FailureDomain :: string
  d_Partitions :: "device_partition list"

record nisd_args =
  na_Defrag :: bool
  na_AllowDefragMCIBCache :: bool
  na_MBCCnt :: int
  na_MergeHCnt :: int
  na_MCIBReadCache :: int
  na_S3 :: string
  na_DSync :: string

record network_info = ni_IPAddr :: string ni_Port :: uint16

record nisd =
  n_PeerPort :: uint16
  n_ID :: string
  n_FailureDomain :: "string list"
  n_TotalSize :: int64
  n_AvailableSize :: int64
  n_SocketPath :: string
  n_NetInfo :: "network_info list"
  n_NetInfoCnt :: int

record hypervisor =
  h_ID :: string
  h_RackID :: string
  h_Name :: string
  h_IPAddrs :: "string list"
  h_PortRange :: string
  h_SSHPort :: string
  h_Dev :: "device list"
  h_RDMAEnabled :: bool

record rack =
  r_ID :: string
  r_Name :: string
  r_PDUID :: string
  r_Location :: string
  r_Specification :: string
  r_Hypervisors :: "hypervisor list"

record pdu =
  p_ID :: string
  p_Name :: string
  p_Location :: string
  p_PowerCapacity :: string
  p_Specification :: string
  p_Racks :: "rack list"

record nisd_chunk = nc_Nisd :: nisd nc_Chunk :: "int list"

text \<open>\<open>time.Time\<close> is nanoseconds since Go's zero time.\<close>

type_synonym gotime = int

record vdev_mount_info = mi_MountCounter :: uint64 mi_LastUpdatedLTS :: gotime

record vdev_config =
  v_ID :: string
  v_Name :: string
  v_Size :: int64
  v_Redundancy :: redundancy_mode
  v_ChunkCnt :: uint32
  v_DataBlkCnt :: uint8
  v_ParityBlkCnt :: uint8
  v_VdevMountInfo :: vdev_mount_info
  v_PFSID :: string
  v_AccessToken :: string
  v_FilterType :: string
  v_FilterID :: string
  v_PFSName :: string

record pfs = pf_ID :: string pf_Name :: string pf_Offset :: int pf_VdevIDs :: "string list"

record chunk_placement = cp_Sequence :: uint8 cp_Type :: chunk_type cp_NisdID :: string

record chunk = c_Index :: uint32 c_Redundancy :: redundancy_mode c_Placements :: "chunk_placement list"

record vdev = vd_Cfg :: vdev_config vd_NisdToChkMap :: "nisd_chunk list"
record filter_req = f_ID :: string f_Type :: fd
record vdev_req = vr_Vdev :: vdev_config vr_Filter :: filter_req

record nisd_list_avail_size =
  na_ID :: string
  na_PDU :: string
  na_Rack :: string
  na_HV :: string
  na_TotalSize :: int64
  na_AvailableSize :: int64

record get_req = g_ID :: string g_GetAll :: bool g_Fields :: "string list"
record get_resource_req = gr_ResourceType :: string gr_ID :: string gr_GetAll :: bool

record resource_list_resp =
  rl_ResourceType :: string
  rl_Nisds :: "nisd list"
  rl_Racks :: "rack list"
  rl_PDUs :: "pdu list"
  rl_Hypervisors :: "hypervisor list"
  rl_Devices :: "device list"
  rl_Partitions :: "device_partition list"
  rl_Vdevs :: "vdev_config list"

subsection \<open>Vdev sizes\<close>

text \<open>The block counts are \<open>uint8\<close>: their sum wraps before it is widened to \<open>int\<close>.\<close>

definition TotalRedundancyBlocksPerChunk :: "vdev_config \<Rightarrow> int" where
  "TotalRedundancyBlocksPerChunk v =
     (if v_Redundancy v = RMReplica then int (unat (v_DataBlkCnt v))
      else int (unat (v_DataBlkCnt v + v_ParityBlkCnt v)))"

text \<open>Go's \<open>/\<close> and \<open>%\<close> on \<open>int64\<close> truncate towards zero.\<close>

definition go_div :: "int64 \<Rightarrow> int64 \<Rightarrow> int64" where
  "go_div a b = word_of_int (sint a sdiv sint b)"

definition go_mod :: "int64 \<Rightarrow> int64 \<Rightarrow> int64" where
  "go_mod a b = word_of_int (sint a smod sint b)"

definition Count8GBChunks :: "int64 \<Rightarrow> int64" where
  "Count8GBChunks sz =
     (let rem = go_mod sz CHUNK_SIZE;
          count = go_div sz CHUNK_SIZE
      in if rem = 0 then count else count + 1)"

text \<open>\<open>Init\<close> takes the identifier \<open>uuid.NewV7\<close> gave it, or its error.\<close>

definition Init :: "string go \<Rightarrow> vdev_config \<Rightarrow> vdev_config go" where
  "Init new_uuid v =
     (case new_uuid of
        Fail e \<Rightarrow> Fail e
      | Panic \<Rightarrow> Panic
      | Ret u \<Rightarrow> Ret (v\<lparr>v_ID := u, v_ChunkCnt := ucast (Count8GBChunks (v_Size v))\<rparr>))"

lemma Count8GBChunks_sint:
  assumes "0 \<le> sint sz"
  shows "sint (Count8GBChunks sz)
           = sint sz div CHUNK_SIZE + (if sint sz mod CHUNK_SIZE = 0 then 0 else 1)"
proof -
  let ?s = "sint sz"
  have le: "?s \<le> 2 ^ 63 - 1" using sint_lt[of sz] by simp
  have dle: "?s div CHUNK_SIZE \<le> 2 ^ 30" using le by simp
  have d0: "0 \<le> ?s div CHUNK_SIZE" using assms by simp
  have c: "sint (CHUNK_SIZE :: int64) = CHUNK_SIZE" by simp
  have q: "go_div sz CHUNK_SIZE = word_of_int (?s div CHUNK_SIZE)"
    using assms by (simp add: go_div_def signed_divide_int_def sgn_if)
  have r: "go_mod sz CHUNK_SIZE = word_of_int (?s mod CHUNK_SIZE)"
    using assms
    by (simp add: go_mod_def signed_modulo_int_def signed_divide_int_def sgn_if minus_div_mult_eq_mod)
  have mb: "0 \<le> ?s mod CHUNK_SIZE" "?s mod CHUNK_SIZE < CHUNK_SIZE" by simp_all
  have r0: "(word_of_int (?s mod CHUNK_SIZE) :: int64) = 0 \<longleftrightarrow> ?s mod CHUNK_SIZE = 0"
  proof
    assume "(word_of_int (?s mod CHUNK_SIZE) :: int64) = 0"
    then have "sint (word_of_int (?s mod CHUNK_SIZE) :: int64) = 0" by simp
    then show "?s mod CHUNK_SIZE = 0" using mb by (simp add: sint_of_small)
  qed simp
  have s: "sint (word_of_int x :: int64) = x" if "0 \<le> x" "x \<le> 2 ^ 31" for x :: int
    using that by (intro sint_of_small) simp_all
  have plus: "(word_of_int x :: int64) + 1 = word_of_int (x + 1)" for x :: int by simp
  show ?thesis
    unfolding Count8GBChunks_def Let_def q r r0
    using d0 dle s[of "?s div CHUNK_SIZE"] s[of "?s div CHUNK_SIZE + 1"] by (simp add: plus del: of_int_add)
qed

subsection \<open>Network addresses\<close>

fun index_byte :: "char \<Rightarrow> string \<Rightarrow> nat option" where
  "index_byte c [] = None"
| "index_byte c (x # xs) = (if x = c then Some 0 else map_option Suc (index_byte c xs))"

definition last_index :: "char \<Rightarrow> string \<Rightarrow> nat option" where
  "last_index c s = map_option (\<lambda>i. length s - 1 - i) (index_byte c (rev s))"

text \<open>\<open>net.SplitHostPort\<close>.\<close>

definition SplitHostPort :: "string \<Rightarrow> (string \<times> string) go" where
  "SplitHostPort hp =
     (let err = (\<lambda>why. Fail (''address '' @ hp @ '': '' @ why)) in
      case last_index (CHR '':'') hp of
        None \<Rightarrow> err ''missing port in address''
      | Some i \<Rightarrow>
          let finish = (\<lambda>host j k.
            if CHR ''['' \<in> set (drop j hp) then err ''unexpected '[' in address''
            else if CHR '']'' \<in> set (drop k hp) then err ''unexpected ']' in address''
            else Ret (host, drop (i + 1) hp))
          in if hp \<noteq> [] \<and> hd hp = CHR ''['' then
               (case index_byte (CHR '']'') hp of
                  None \<Rightarrow> err ''missing ']' in address''
                | Some e \<Rightarrow>
                    if e + 1 = length hp then err ''missing port in address''
                    else if e + 1 = i then finish (take (e - 1) (drop 1 hp)) 1 (e + 1)
                    else if hp ! (e + 1) = CHR '':'' then err ''too many colons in address''
                    else err ''missing port in address'')
             else if CHR '':'' \<in> set (take i hp) then err ''too many colons in address''
             else finish (take i hp) 0 0)"

definition MarshalText :: "network_info list \<Rightarrow> string" where
  "MarshalText n = join '', '' (map (\<lambda>i. ni_IPAddr i @ '':'' @ utoa (unat (ni_Port i))) n)"

fun unmarshal_entries :: "network_info list \<Rightarrow> string list \<Rightarrow> network_info list go" where
  "unmarshal_entries acc [] = Ret acc"
| "unmarshal_entries acc (e # es) =
     (case SplitHostPort (trim_space e) of
        Fail m \<Rightarrow> Fail m
      | Panic \<Rightarrow> Panic
      | Ret (host, port_str) \<Rightarrow>
          (case parse_uint 16 port_str of
             (p, True) \<Rightarrow>
               unmarshal_entries (acc @ [\<lparr>ni_IPAddr = host, ni_Port = of_nat p\<rparr>]) es
           | (p, False) \<Rightarrow> Fail (''strconv.ParseUint: parsing '' @ port_str)))"

text \<open>\<open>UnmarshalText\<close> appends to the list it is called on.\<close>

definition UnmarshalText :: "network_info list \<Rightarrow> string \<Rightarrow> network_info list go" where
  "UnmarshalText n text =
     (let raw = trim_space text
      in if raw = [] then Ret n else unmarshal_entries n (split (CHR '','') raw))"

definition GetPrimaryIP :: "hypervisor \<Rightarrow> string go" where
  "GetPrimaryIP hv =
     (if h_IPAddrs hv = [] then Fail ''invalid ip address'' else Ret (hd (h_IPAddrs hv)))"

text \<open>
  The parameter is \<open>net.ParseIP\<close> reduced to whether it returned an address. The code reports an
  error for an address that does parse.
\<close>

fun validate_ips_loop :: "(string \<Rightarrow> bool) \<Rightarrow> string list \<Rightarrow> string option" where
  "validate_ips_loop parse_ip [] = None"
| "validate_ips_loop parse_ip (ip # ips) =
     (if parse_ip (trim_space ip) then Some (''invalid ip '' @ ip @ '' '')
      else validate_ips_loop parse_ip ips)"

definition ValidateIPs :: "(string \<Rightarrow> bool) \<Rightarrow> hypervisor \<Rightarrow> string option" where
  "ValidateIPs parse_ip hv =
     (if h_IPAddrs hv = [] then Some ''no network info available''
      else validate_ips_loop parse_ip (h_IPAddrs hv))"

definition MatchIPs :: "string list \<Rightarrow> string list \<Rightarrow> bool" where
  "MatchIPs a b = list_all (\<lambda>v. v \<in> set a) b"

subsection \<open>Requests\<close>

definition ValidateRequest :: "get_req \<Rightarrow> string option" where
  "ValidateRequest req =
     (if g_ID req = [] then Some ''Invalid Request: Received empty ID'' else None)"

definition BuildCmdArgs :: "nisd_args \<Rightarrow> string" where
  "BuildCmdArgs a = join '' ''
     ((if na_Defrag a then [''-g''] else [])
      @ (if na_MBCCnt a \<noteq> 0 then [''-m'', itoa (na_MBCCnt a)] else [])
      @ (if na_MergeHCnt a \<noteq> 0 then [''-M'', itoa (na_MergeHCnt a)] else [])
      @ (if na_MCIBReadCache a \<noteq> 0 then [''-r'', itoa (na_MCIBReadCache a)] else [])
      @ (if na_S3 a \<noteq> [] then [''-s'', na_S3 a] else [])
      @ (if na_DSync a \<noteq> [] then [''-D'', na_DSync a] else [])
      @ (if na_AllowDefragMCIBCache a then [''-x''] else []))"

text \<open>\<open>fnv.New64a\<close>: FNV-1a on 64 bits.\<close>

definition NisdAllocHash :: "string \<Rightarrow> uint64" where
  "NisdAllocHash data =
     foldl (\<lambda>h c. (h XOR of_char c) * 1099511628211) 14695981039346656037 data"

text \<open>The parameter \<open>uuid_ok\<close> is \<open>uuid.Parse\<close> returning no error.\<close>

definition DeleteVdevReq_Validate :: "(string \<Rightarrow> bool) \<Rightarrow> string \<Rightarrow> string option" where
  "DeleteVdevReq_Validate uuid_ok vdev_id =
     (if uuid_ok vdev_id then None else Some ''invalid ID uuid'')"

fun validate_fd_loop :: "(string \<Rightarrow> bool) \<Rightarrow> string list \<Rightarrow> nat \<Rightarrow> nat \<Rightarrow> string option" where
  "validate_fd_loop uuid_ok fds i 0 = None"
| "validate_fd_loop uuid_ok fds i (Suc k) =
     (if uuid_ok (fds ! i) then validate_fd_loop uuid_ok fds (i + 1) k
      else Some (''invalid FailureDomain['' @ utoa i @ ''] uuid''))"

definition Nisd_Validate :: "(string \<Rightarrow> bool) \<Rightarrow> nisd \<Rightarrow> string option" where
  "Nisd_Validate uuid_ok n =
     (if \<not> uuid_ok (n_ID n) then Some ''invalid ID uuid''
      else if length (n_FailureDomain n) \<noteq> FD_MAX
        then Some (''invalid NISD failure domain info '' @ utoa (length (n_FailureDomain n)))
      else case validate_fd_loop uuid_ok (n_FailureDomain n) 0 DEVICE_IDX of
        Some e \<Rightarrow> Some e
      | None \<Rightarrow>
          if n_TotalSize n <s n_AvailableSize n then Some ''available Size exceeds total size''
          else if int (length (n_NetInfo n)) \<noteq> n_NetInfoCnt n
            then Some (''network interface cnt '' @ itoa (n_NetInfoCnt n) @
                       '' doesn't match with the total interface details provided '' @
                       utoa (length (n_NetInfo n)))
          else None)"

definition NextFailureDomain :: "int \<Rightarrow> int go" where
  "NextFailureDomain fd =
     (if fd < int PARTITION_IDX then Ret (fd + 1)
      else Fail (''max failure domain reached: '' @ itoa fd))"

end
