(* ===== verification/UserLib.thy ===== *)
theory UserLib
  imports Prelude
begin

section \<open>The user library: user/lib\<close>

text \<open>
  The user records of \<open>user.go\<close>, the secret key generator of \<open>keygen.go\<close> and the encryption of
  stored keys of \<open>encryption.go\<close>. The cipher (\<open>crypto/aes\<close> in GCM mode) is a record of functions:
  what the code needs of it is that opening undoes sealing (\<open>aead_ok\<close>). Random bytes are
  arguments: the outcome of \<open>io.ReadFull(rand.Reader, ...)\<close>. Base64 is written out.
\<close>

subsection \<open>Users\<close>

abbreviation AdminUsername :: string where "AdminUsername \<equiv> ''admin''"
abbreviation DefaultUserRole :: string where "DefaultUserRole \<equiv> ''user''"
abbreviation AdminUserRole :: string where "AdminUserRole \<equiv> ''admin''"

type_synonym status = uint8

abbreviation (input) StatusActive :: status where "StatusActive \<equiv> 0"
abbreviation (input) StatusInactive :: status where "StatusInactive \<equiv> 1"
abbreviation (input) StatusSuspended :: status where "StatusSuspended \<equiv> 2"

definition Status_String :: "status \<Rightarrow> string" where
  "Status_String s =
     (if s = StatusActive then ''active''
      else if s = StatusInactive then ''inactive''
      else if s = StatusSuspended then ''suspended''
      else ''unknown'')"

record user_req =
  uq_Username :: string
  uq_UserID :: string
  uq_NewSecretKey :: string
  uq_IsUpdate :: bool
  uq_IsAdmin :: bool

record user =
  u_Username :: string
  u_UserID :: string
  u_SecretKey :: string
  u_UserRole :: string
  u_Status :: status
  u_IsAdmin :: bool

record user_resp =
  ur_Username :: string
  ur_UserID :: string
  ur_SecretKey :: string
  ur_UserRole :: string
  ur_Status :: status
  ur_Error :: string
  ur_Success :: bool

record user_get_req = ug_UserID :: string ug_Username :: string

record login_resp =
  lr_AccessToken :: string
  lr_TokenType :: string
  lr_UserID :: string
  lr_Username :: string
  lr_UserRole :: string
  lr_Error :: string
  lr_ExpiresIn :: int
  lr_IsAdmin :: bool
  lr_Success :: bool

text \<open>Go's zero values.\<close>

definition new_user :: user where
  "new_user = \<lparr>u_Username = [], u_UserID = [], u_SecretKey = [], u_UserRole = [], u_Status = 0, u_IsAdmin = False\<rparr>"

definition UserReq_Validate :: "user_req \<Rightarrow> string option" where
  "UserReq_Validate u =
     (if trim_space (uq_Username u) = [] then Some ''username cannot be empty'' else None)"

definition User_Init :: "user_req \<Rightarrow> user \<Rightarrow> user" where
  "User_Init req u =
     u\<lparr>u_Username := uq_Username req,
       u_UserID := uq_UserID req,
       u_Status := StatusActive,
       u_IsAdmin := uq_IsAdmin req,
       u_UserRole := (if uq_IsAdmin req then AdminUserRole else DefaultUserRole)\<rparr>"

subsection \<open>encoding/base64, RawStdEncoding\<close>

definition b64_char :: "nat \<Rightarrow> char" where
  "b64_char i =
     (if i < 26 then char_of (65 + i)
      else if i < 52 then char_of (71 + i)
      else if i < 62 then char_of (i - 4)
      else if i = 62 then CHR ''+'' else CHR ''/'')"

definition b64_val :: "char \<Rightarrow> nat option" where
  "b64_val c =
     (let n = (of_char c :: nat) in
      if 65 \<le> n \<and> n \<le> 90 then Some (n - 65)
      else if 97 \<le> n \<and> n \<le> 122 then Some (n - 71)
      else if 48 \<le> n \<and> n \<le> 57 then Some (n + 4)
      else if n = 43 then Some 62 else if n = 47 then Some 63 else None)"

fun b64_sextets :: "nat list \<Rightarrow> nat list" where
  "b64_sextets [] = []"
| "b64_sextets [a] = [a div 4, a mod 4 * 16]"
| "b64_sextets [a, b] = [a div 4, a mod 4 * 16 + b div 16, b mod 16 * 4]"
| "b64_sextets (a # b # c # r) =
     [a div 4, a mod 4 * 16 + b div 16, b mod 16 * 4 + c div 64, c mod 64] @ b64_sextets r"

fun b64_bytes :: "nat list \<Rightarrow> nat list option" where
  "b64_bytes [] = Some []"
| "b64_bytes [x] = None"
| "b64_bytes [x, y] = Some [x * 4 + y div 16]"
| "b64_bytes [x, y, z] = Some [x * 4 + y div 16, y mod 16 * 16 + z div 4]"
| "b64_bytes (x # y # z # w # r) =
     map_option (\<lambda>bs. [x * 4 + y div 16, y mod 16 * 16 + z div 4, z mod 4 * 64 + w] @ bs) (b64_bytes r)"

fun opt_list :: "'a option list \<Rightarrow> 'a list option" where
  "opt_list [] = Some []"
| "opt_list (None # xs) = None"
| "opt_list (Some x # xs) = map_option ((#) x) (opt_list xs)"

definition b64_encode :: "string \<Rightarrow> string" where
  "b64_encode s = map b64_char (b64_sextets (map of_char s))"

text \<open>The decoder skips carriage returns and newlines.\<close>

definition b64_decode :: "string \<Rightarrow> string option" where
  "b64_decode s =
     (case opt_list (map b64_val (filter (\<lambda>c. (of_char c :: nat) \<notin> {10, 13}) s)) of
        None \<Rightarrow> None
      | Some xs \<Rightarrow> map_option (map char_of) (b64_bytes xs))"

lemma b64_val_char: "i < 64 \<Longrightarrow> b64_val (b64_char i) = Some i"
  by (cases "i < 26"; cases "i < 52"; cases "i < 62"; cases "i = 62")
    (simp_all add: b64_val_def b64_char_def Let_def, arith?)

lemma b64_char_printable: "i < 64 \<Longrightarrow> (of_char (b64_char i) :: nat) \<notin> {10, 13}"
  using b64_val_char[of i] by (auto simp: b64_val_def Let_def)

lemma opt_list_map_Some [simp]: "opt_list (map Some xs) = Some xs"
  by (induction xs) auto

lemma byte_parts:
  "a < 256 \<Longrightarrow> a div 4 < (64::nat)" "a < 256 \<Longrightarrow> a div 16 < (16::nat)" "a < 256 \<Longrightarrow> a div 64 < (4::nat)"
  by (simp_all add: less_mult_imp_div_less)

lemma sextet_bound:
  assumes "b < (256::nat)"
  shows "a mod 4 * 16 + b div 16 < 64" "a mod 16 * 4 + b div 64 < 64"
proof -
  have "a mod 4 \<le> 3" "a mod 16 \<le> 15" by (simp_all flip: less_Suc_eq_le)
  with byte_parts[OF assms] show "a mod 4 * 16 + b div 16 < 64" "a mod 16 * 4 + b div 64 < 64"
    by linarith+
qed

lemma b64_sextets_bound: "\<forall>b \<in> set bs. b < 256 \<Longrightarrow> \<forall>x \<in> set (b64_sextets bs). x < 64"
  by (induction bs rule: b64_sextets.induct)
    (auto simp: byte_parts sextet_bound sextet_bound[where b = 0, simplified] trans_less_add1)

lemma b64_bytes_sextets: "\<forall>b \<in> set bs. b < 256 \<Longrightarrow> b64_bytes (b64_sextets bs) = Some bs"
  by (induction bs rule: b64_sextets.induct) (simp_all add: byte_parts)

lemma of_char_bound: "b \<in> set (map of_char s) \<Longrightarrow> b < (256::nat)"
  by auto

lemma b64_decode_encode [simp]: "b64_decode (b64_encode s) = Some s"
proof -
  let ?x = "b64_sextets (map of_char s)"
  have bound: "\<forall>b \<in> set (map of_char s). b < (256::nat)" by auto
  have x: "\<forall>i \<in> set ?x. i < 64" using b64_sextets_bound[OF bound] .
  have f: "filter (\<lambda>c. (of_char c :: nat) \<notin> {10, 13}) (map b64_char ?x) = map b64_char ?x"
    using x b64_char_printable by (intro filter_True) auto
  have v: "map b64_val (map b64_char ?x) = map Some ?x"
    using x b64_val_char by auto
  have id: "map char_of (map of_char s :: nat list) = s"
    by (simp add: comp_def)
  show ?thesis
    unfolding b64_decode_def b64_encode_def f v opt_list_map_Some
    by (simp only: option.case b64_bytes_sextets[OF bound] option.map id)
qed

subsection \<open>Secret keys\<close>

abbreviation (input) SecretKeyLength :: nat where "SecretKeyLength \<equiv> 16"

definition GenerateSecretKey :: "string go \<Rightarrow> string go" where
  "GenerateSecretKey random_bytes =
     (case random_bytes of Fail e \<Rightarrow> Fail e | Panic \<Rightarrow> Panic | Ret key \<Rightarrow> Ret (b64_encode key))"

definition ValidateKey :: "string \<Rightarrow> bool" where
  "ValidateKey secretKey =
     (if secretKey = [] then False
      else case b64_decode secretKey of
             None \<Rightarrow> False
           | Some decoded \<Rightarrow> length decoded = SecretKeyLength)"

subsection \<open>Encryption\<close>

abbreviation (input) expectedKeyLength :: nat where "expectedKeyLength \<equiv> 32"

record encrypter =
  e_NonceSize :: nat
  e_Seal :: "string \<Rightarrow> string \<Rightarrow> string"
  e_Open :: "string \<Rightarrow> string \<Rightarrow> string option"

definition aead_ok :: "encrypter \<Rightarrow> bool" where
  "aead_ok e \<longleftrightarrow> 0 < e_NonceSize e \<and> (\<forall>nonce p. length nonce = e_NonceSize e \<longrightarrow> e_Open e nonce (e_Seal e nonce p) = Some p)"

text \<open>\<open>gcm.Seal(nonce, nonce, plaintext, nil)\<close> appends the sealed text to the nonce.\<close>

definition Encrypt :: "encrypter \<Rightarrow> string go \<Rightarrow> string \<Rightarrow> string go" where
  "Encrypt e nonce_bytes plaintext =
     (if plaintext = [] then Fail ''plaintext cannot be empty''
      else case nonce_bytes of
             Fail m \<Rightarrow> Fail (''nonce generation failed: '' @ m)
           | Panic \<Rightarrow> Panic
           | Ret nonce \<Rightarrow> Ret (b64_encode (nonce @ e_Seal e nonce plaintext)))"

definition Decrypt :: "encrypter \<Rightarrow> string \<Rightarrow> string go" where
  "Decrypt e encrypted =
     (if encrypted = [] then Fail ''encrypted text cannot be empty''
      else case b64_decode encrypted of
             None \<Rightarrow> Fail ''base64 decoding failed''
           | Some data \<Rightarrow>
               if length data < e_NonceSize e then Fail ''ciphertext too short''
               else (case e_Open e (take (e_NonceSize e) data) (drop (e_NonceSize e) data) of
                       None \<Rightarrow> Fail ''decryption failed (wrong key or corrupted data)''
                     | Some p \<Rightarrow> Ret p))"

text \<open>The package variables \<open>once\<close>, \<open>initErr\<close> and \<open>instance\<close>.\<close>

record enc_state =
  es_once :: bool
  es_initErr :: "string option"
  es_instance :: "encrypter option"

text \<open>
  \<open>Initialize\<close>: \<open>key_src\<close> is the environment variable, \<open>new_gcm\<close> is \<open>aes.NewCipher\<close> followed by
  \<open>cipher.NewGCM\<close>.
\<close>

definition initialize_once :: "string \<Rightarrow> (string \<Rightarrow> encrypter go) \<Rightarrow> enc_state \<Rightarrow> enc_state" where
  "initialize_once key_src new_gcm st =
     (if key_src = [] then st\<lparr>es_initErr := Some ''USER_ENCRYPTION_KEY environment variable is required''\<rparr>
      else case b64_decode key_src of
        None \<Rightarrow> st\<lparr>es_initErr := Some ''invalid base64 key''\<rparr>
      | Some key \<Rightarrow>
          if length key \<noteq> expectedKeyLength
          then st\<lparr>es_initErr := Some (''encryption key must be 32 bytes, got '' @ utoa (length key))\<rparr>
          else (case new_gcm key of
                  Ret e \<Rightarrow> st\<lparr>es_instance := Some e\<rparr>
                | Fail m \<Rightarrow> st\<lparr>es_initErr := Some m\<rparr>
                | Panic \<Rightarrow> st))"

definition Initialize :: "string \<Rightarrow> (string \<Rightarrow> encrypter go) \<Rightarrow> enc_state \<Rightarrow> string option \<times> enc_state" where
  "Initialize key_src new_gcm st =
     (let st' = (if es_once st then st else (initialize_once key_src new_gcm st)\<lparr>es_once := True\<rparr>)
      in (es_initErr st', st'))"

definition ensureInitialized :: "enc_state \<Rightarrow> string option" where
  "ensureInitialized st =
     (case es_initErr st of
        Some m \<Rightarrow> Some (''encryption initialization failed earlier: '' @ m)
      | None \<Rightarrow> (case es_instance st of
                   None \<Rightarrow> Some ''encryption not initialized - call userlib.Initialize() first''
                 | Some _ \<Rightarrow> None))"

definition EncryptSecretKey :: "enc_state \<Rightarrow> string go \<Rightarrow> string \<Rightarrow> string go" where
  "EncryptSecretKey st nonce_bytes plaintext =
     (case ensureInitialized st of
        Some m \<Rightarrow> Fail m
      | None \<Rightarrow> Encrypt (the (es_instance st)) nonce_bytes plaintext)"

definition DecryptSecretKey :: "enc_state \<Rightarrow> string \<Rightarrow> string go" where
  "DecryptSecretKey st encrypted =
     (case ensureInitialized st of
        Some m \<Rightarrow> Fail m
      | None \<Rightarrow> Decrypt (the (es_instance st)) encrypted)"

lemma Decrypt_Encrypt:
  assumes "aead_ok e" and "length nonce = e_NonceSize e"
    and "Encrypt e (Ret nonce) p = Ret c"
  shows "Decrypt e c = Ret p"
proof -
  from assms(3) have "p \<noteq> []" and c: "c = b64_encode (nonce @ e_Seal e nonce p)"
    by (auto simp: Encrypt_def split: if_splits)
  have "e_Open e nonce (e_Seal e nonce p) = Some p"
    using assms(1,2) by (simp add: aead_ok_def)
  moreover have "c \<noteq> []"
  proof
    assume "c = []"
    then have "b64_decode c = Some []" by (simp add: b64_decode_def)
    with c have "nonce = []" by simp
    with assms(1,2) show False by (simp add: aead_ok_def)
  qed
  ultimately show ?thesis using assms(2) by (simp add: Decrypt_def c)
qed

end
