(* ===== verification/Envelope.thy ===== *)
theory Envelope
  imports CPLib UserLib "HOL-Library.AList"
begin

section \<open>Envelopes, write-prep results and the data store\<close>

text \<open>
  The request and response envelopes of \<open>cpreq.go\<close> and \<open>cphelpers.go\<close>, the arguments PumiceDB hands
  to a callback, the changes a write-prep function returns, and the two functions of
  \<open>srvctlplanefuncs.go\<close> that write changes to the store. PumiceDB itself is not part of the
  repository: its data store is the record of operations \<open>data_store\<close> on a state \<open>'s\<close>, of one column
  family, and what the code relies on is stated by \<open>store_sound\<close> and \<open>store_exact\<close>. The GOB encoder
  is left out: a handler returns the value that it passes to the encoder, and a decoder gives back
  the encoded value or, as an argument of the model, an error.
\<close>

subsection \<open>Values of type any\<close>

datatype cp_err_code = ErrAuth | ErrFunc | ErrInternal

record cp_error = ce_Message :: string ce_Code :: cp_err_code
record pagination = pg_SeqNo :: uint64 pg_Consistent :: bool

text \<open>
  \<open>any\<close> lists the types that cross an interface: the structs registered by
  \<open>RegisterGOBStructs\<close>. A \<open>*VdevConfig\<close> may be nil. \<open>A_MountBytes\<close> is a byte slice holding an encoded
  \<open>VdevMountInfo\<close>, \<open>A_Bytes\<close> any other byte slice.
\<close>

datatype (plugins only: code) any =
    A_Nil
  | A_Bytes string
  | A_MountBytes vdev_mount_info
  | A_MountInfo vdev_mount_info
  | A_ResponseXML response_xml
  | A_SnapResponse snap_name
  | A_SnapXML snap_xml
  | A_Nisd nisd
  | A_Nisds "nisd list"
  | A_NisdSizes "nisd_list_avail_size list"
  | A_Device device
  | A_Devices "device list"
  | A_Partition device_partition
  | A_Partitions "device_partition list"
  | A_PDU pdu
  | A_PDUs "pdu list"
  | A_Rack rack
  | A_Racks "rack list"
  | A_Hypervisor hypervisor
  | A_Hypervisors "hypervisor list"
  | A_NisdArgs nisd_args
  | A_Vdevs "vdev list"
  | A_VdevConfig vdev_config
  | A_VdevConfigs "vdev_config list"
  | A_Chunk chunk
  | A_Chunks "chunk list"
  | A_ChunkNisd string
  | A_PFS pfs
  | A_PFSs "pfs list"
  | A_GetReq get_req
  | A_GetResourceReq get_resource_req
  | A_ResourceListResp resource_list_resp
  | A_VdevReq "vdev_config option" filter_req
  | A_DeleteVdevReq string
  | A_MountVdevRequest string
  | A_UserReq user_req
  | A_UserGetReq user_get_req
  | A_UserResp user_resp
  | A_UserResps "user_resp list"
  | A_LoginResp login_resp
  | A_CPResp cp_resp
and cp_resp = CPResp (resp_Error: "cp_error option") (resp_Page: "pagination option") (resp_Payload: any)

record cp_req =
  rq_Token :: string
  rq_Page :: "pagination option"
  rq_Payload :: any

definition Err :: "cp_resp \<Rightarrow> string option" where
  "Err r = map_option ce_Message (resp_Error r)"

subsection \<open>Changes and intermediate results\<close>

text \<open>\<open>OpApply\<close> is the zero value of \<open>CommitChg.Op\<close>.\<close>

datatype chg_op = OpApply | OpDelete | OpOther int

record commit_chg = cc_Key :: string cc_Value :: string cc_Op :: chg_op

abbreviation chg :: "string \<Rightarrow> string \<Rightarrow> commit_chg" where
  "chg k v \<equiv> \<lparr>cc_Key = k, cc_Value = v, cc_Op = OpApply\<rparr>"

record func_intrm = fi_Changes :: "commit_chg list" fi_Response :: any

text \<open>What a callback hands to the encoder.\<close>

datatype encoded = EncResp cp_resp | EncIntrm func_intrm

definition EncodeResponse :: "any \<Rightarrow> encoded go" where
  "EncodeResponse payload = Ret (EncResp (CPResp None None payload))"

definition encodeErrorResp :: "cp_err_code \<Rightarrow> string \<Rightarrow> encoded go" where
  "encodeErrorResp code msg = Ret (EncResp (CPResp (Some \<lparr>ce_Message = msg, ce_Code = code\<rparr>) None A_Nil))"

definition FuncError :: "string \<Rightarrow> encoded go" where
  "FuncError err = encodeErrorResp ErrFunc err"

definition AuthError :: "string \<Rightarrow> encoded go" where
  "AuthError err = encodeErrorResp ErrAuth err"

definition InternalError :: "string \<Rightarrow> encoded go" where
  "InternalError err = encodeErrorResp ErrInternal err"

definition WPError :: "cp_err_code \<Rightarrow> string \<Rightarrow> encoded go" where
  "WPError code err =
     Ret (EncIntrm \<lparr>fi_Changes = [],
       fi_Response = A_CPResp (CPResp (Some \<lparr>ce_Message = err, ce_Code = code\<rparr>) None A_Nil)\<rparr>)"

definition WPAuthError :: "string \<Rightarrow> encoded go" where
  "WPAuthError err = WPError ErrAuth err"

definition WPFuncError :: "string \<Rightarrow> encoded go" where
  "WPFuncError err = WPError ErrFunc err"

definition SendErrorResponse :: "string \<Rightarrow> string \<Rightarrow> encoded go" where
  "SendErrorResponse rid err =
     Ret (EncIntrm \<lparr>fi_Changes = [],
       fi_Response = A_ResponseXML \<lparr>rx_Name = rid, rx_ID = [], rx_Error = err, rx_Success = False\<rparr>\<rparr>)"

text \<open>The error a returned value carries, if any.\<close>

fun resp_err :: "encoded go \<Rightarrow> cp_error option" where
  "resp_err (Ret (EncResp r)) = resp_Error r"
| "resp_err (Ret (EncIntrm f)) = (case fi_Response f of A_CPResp r \<Rightarrow> resp_Error r | _ \<Rightarrow> None)"
| "resp_err _ = None"

lemma resp_err_simps [simp]:
  "resp_err (EncodeResponse p) = None"
  "resp_err (FuncError e) = Some \<lparr>ce_Message = e, ce_Code = ErrFunc\<rparr>"
  "resp_err (AuthError e) = Some \<lparr>ce_Message = e, ce_Code = ErrAuth\<rparr>"
  "resp_err (InternalError e) = Some \<lparr>ce_Message = e, ce_Code = ErrInternal\<rparr>"
  "resp_err (WPAuthError e) = Some \<lparr>ce_Message = e, ce_Code = ErrAuth\<rparr>"
  "resp_err (WPFuncError e) = Some \<lparr>ce_Message = e, ce_Code = ErrFunc\<rparr>"
  by (simp_all add: EncodeResponse_def FuncError_def AuthError_def InternalError_def encodeErrorResp_def
      WPAuthError_def WPFuncError_def WPError_def)

subsection \<open>Arguments of a callback\<close>

record cb_args = cb_AppData :: "string + func_intrm" cb_ReplySize :: int

datatype arg = ArgCPReq cp_req | ArgCbArgs cb_args | ArgSnapXML snap_xml | ArgBytes string | ArgOther

definition arg_at :: "arg list \<Rightarrow> nat \<Rightarrow> arg go" where
  "arg_at xs i = (if i < length xs then Ret (xs ! i) else Panic)"

fun as_CPReq :: "arg \<Rightarrow> cp_req option" where
  "as_CPReq (ArgCPReq r) = Some r"
| "as_CPReq _ = None"

fun as_CbArgs :: "arg \<Rightarrow> cb_args option" where
  "as_CbArgs (ArgCbArgs c) = Some c"
| "as_CbArgs _ = None"

fun as_SnapXML :: "arg \<Rightarrow> snap_xml option" where
  "as_SnapXML (ArgSnapXML x) = Some x"
| "as_SnapXML _ = None"

fun as_Bytes :: "arg \<Rightarrow> string option" where
  "as_Bytes (ArgBytes x) = Some x"
| "as_Bytes _ = None"

text \<open>A type assertion without a second result panics when it fails.\<close>

fun must :: "'a option \<Rightarrow> 'a go" where
  "must (Some x) = Ret x"
| "must None = Panic"

definition the_CPReq :: "arg list \<Rightarrow> nat \<Rightarrow> cp_req go" where
  "the_CPReq xs i = go_bind (arg_at xs i) (\<lambda>a. must (as_CPReq a))"

definition the_CbArgs :: "arg list \<Rightarrow> nat \<Rightarrow> cb_args go" where
  "the_CbArgs xs i = go_bind (arg_at xs i) (\<lambda>a. must (as_CbArgs a))"

lemmas arg_simps [go_simps] = arg_at_def the_CPReq_def the_CbArgs_def

text \<open>\<open>with_go m s f\<close> runs \<open>m\<close> before a computation on the state \<open>s\<close>.\<close>

fun with_go :: "'a go \<Rightarrow> 's \<Rightarrow> ('a \<Rightarrow> 'b go \<times> 's) \<Rightarrow> 'b go \<times> 's" where
  "with_go (Ret x) s f = f x"
| "with_go (Fail e) s f = (Fail e, s)"
| "with_go Panic s f = (Panic, s)"

subsection \<open>The data store\<close>

record range_args =
  ra_Key :: string
  ra_Prefix :: string
  ra_BufSize :: int
  ra_Consistent :: bool
  ra_SeqNum :: uint64

record range_result =
  rr_ResultMap :: "(string \<times> string) list"
  rr_LastKey :: string
  rr_SeqNum :: uint64
  rr_SnapMiss :: bool

record 's data_store =
  ds_Read :: "'s \<Rightarrow> string \<Rightarrow> string + string"
  ds_Write :: "'s \<Rightarrow> string \<Rightarrow> string \<Rightarrow> string option \<times> 's"
  ds_Delete :: "'s \<Rightarrow> string \<Rightarrow> string option \<times> 's"
  ds_RangeRead :: "'s \<Rightarrow> range_args \<Rightarrow> string + range_result"

text \<open>The first page of the keys with a prefix: how every range read but one is called.\<close>

definition prefix_args :: "cb_args \<Rightarrow> string \<Rightarrow> range_args" where
  "prefix_args cb key =
     \<lparr>ra_Key = key, ra_Prefix = key, ra_BufSize = cb_ReplySize cb, ra_Consistent = False, ra_SeqNum = 0\<rparr>"

text \<open>
  \<open>store_sound\<close>: \<open>cont\<close> reads the contents off the state; an operation that returns no error has done
  its work and one that returns an error has changed nothing, a read gives what is stored.
  \<open>store_exact\<close>: moreover nothing fails, an absent key is reported with the lookup message, and a
  range read returns every pair whose key has the prefix, each once, in one page.
\<close>

definition store_sound :: "'s data_store \<Rightarrow> ('s \<Rightarrow> string \<rightharpoonup> string) \<Rightarrow> bool" where
  "store_sound ds cont \<longleftrightarrow>
     (\<forall>s k v. let (e, s') = ds_Write ds s k v
              in cont s' = (if e = None then (cont s)(k \<mapsto> v) else cont s))
   \<and> (\<forall>s k. let (e, s') = ds_Delete ds s k
            in cont s' = (if e = None then (cont s)(k := None) else cont s))
   \<and> (\<forall>s k v. ds_Read ds s k = Inr v \<longrightarrow> cont s k = Some v)
   \<and> (\<forall>s a r. ds_RangeRead ds s a = Inr r \<longrightarrow>
        distinct (map fst (rr_ResultMap r)) \<and>
        (\<forall>(k, v) \<in> set (rr_ResultMap r). cont s k = Some v \<and> has_prefix (ra_Prefix a) k))"

definition store_exact :: "'s data_store \<Rightarrow> ('s \<Rightarrow> string \<rightharpoonup> string) \<Rightarrow> bool" where
  "store_exact ds cont \<longleftrightarrow>
     store_sound ds cont
   \<and> (\<forall>s k v. fst (ds_Write ds s k v) = None)
   \<and> (\<forall>s k. fst (ds_Delete ds s k) = None)
   \<and> (\<forall>s k. ds_Read ds s k = (case cont s k of None \<Rightarrow> Inl errKeyNotFoundMsg | Some v \<Rightarrow> Inr v))
   \<and> (\<forall>s a. if \<exists>k. cont s k \<noteq> None \<and> has_prefix (ra_Prefix a) k
            then \<exists>r. ds_RangeRead ds s a = Inr r \<and> rr_LastKey r = [] \<and>
                     map_of (rr_ResultMap r) = (\<lambda>k. if has_prefix (ra_Prefix a) k then cont s k else None)
            else ds_RangeRead ds s a = Inl errKeyNotFoundMsg)"

text \<open>A store that satisfies both: an association list.\<close>

definition mem_store :: "(string \<times> string) list data_store" where
  "mem_store = \<lparr>
     ds_Read = (\<lambda>s k. case map_of s k of None \<Rightarrow> Inl errKeyNotFoundMsg | Some v \<Rightarrow> Inr v),
     ds_Write = (\<lambda>s k v. (None, (k, v) # filter (\<lambda>p. fst p \<noteq> k) s)),
     ds_Delete = (\<lambda>s k. (None, filter (\<lambda>p. fst p \<noteq> k) s)),
     ds_RangeRead = (\<lambda>s a.
       let m = filter (\<lambda>(k, v). has_prefix (ra_Prefix a) k) (AList.clearjunk s)
       in if m = [] then Inl errKeyNotFoundMsg
          else Inr \<lparr>rr_ResultMap = m, rr_LastKey = [], rr_SeqNum = 0, rr_SnapMiss = False\<rparr>)\<rparr>"

lemma map_of_filter_neq: "map_of (filter (\<lambda>p. fst p \<noteq> k) s) = (map_of s)(k := None)"
  by (induction s) (auto simp: fun_eq_iff)

lemma map_of_filter_key: "map_of (filter (\<lambda>(k, v). P k) s) = (\<lambda>k. if P k then map_of s k else None)"
  by (induction s) (auto simp: fun_eq_iff)

lemma mem_store_range_sound:
  assumes "ds_RangeRead mem_store s a = Inr r"
  shows "distinct (map fst (rr_ResultMap r)) \<and>
         (\<forall>(k, v) \<in> set (rr_ResultMap r). map_of s k = Some v \<and> has_prefix (ra_Prefix a) k)"
proof -
  let ?m = "filter (\<lambda>(k, v). has_prefix (ra_Prefix a) k) (AList.clearjunk s)"
  from assms have r: "rr_ResultMap r = ?m"
    by (auto simp: mem_store_def Let_def split: if_splits)
  have "map_of s k = Some v" if "(k, v) \<in> set (AList.clearjunk s)" for k v
    using map_of_is_SomeI[OF distinct_clearjunk that] by (simp add: map_of_clearjunk)
  moreover have "distinct (map fst ?m)"
    by (rule distinct_map_filter) (rule distinct_clearjunk)
  ultimately show ?thesis unfolding r by auto
qed

lemma mem_store_ops [simp]:
  "ds_Write mem_store s k v = (None, (k, v) # filter (\<lambda>p. fst p \<noteq> k) s)"
  "ds_Delete mem_store s k = (None, filter (\<lambda>p. fst p \<noteq> k) s)"
  "ds_Read mem_store s k = (case map_of s k of None \<Rightarrow> Inl errKeyNotFoundMsg | Some v \<Rightarrow> Inr v)"
  by (simp_all add: mem_store_def)

lemma mem_store_sound: "store_sound mem_store map_of"
  unfolding store_sound_def
  using mem_store_range_sound by (auto simp: map_of_filter_neq split: option.splits)

lemma mem_store_range_none:
  assumes "\<not> (\<exists>k. map_of s k \<noteq> None \<and> has_prefix (ra_Prefix a) k)"
  shows "ds_RangeRead mem_store s a = Inl errKeyNotFoundMsg"
proof -
  have "\<not> has_prefix (ra_Prefix a) k" if "(k, v) \<in> set (AList.clearjunk s)" for k v
    using map_of_is_SomeI[OF distinct_clearjunk that] assms by (metis map_of_clearjunk option.distinct(1))
  then have "filter (\<lambda>(k, v). has_prefix (ra_Prefix a) k) (AList.clearjunk s) = []"
    by (auto simp: filter_empty_conv)
  then show ?thesis by (simp add: mem_store_def)
qed

lemma mem_store_range_some:
  assumes "map_of s k \<noteq> None" and "has_prefix (ra_Prefix a) k"
  shows "\<exists>r. ds_RangeRead mem_store s a = Inr r \<and> rr_LastKey r = [] \<and>
      map_of (rr_ResultMap r) = (\<lambda>k. if has_prefix (ra_Prefix a) k then map_of s k else None)"
proof -
  let ?m = "filter (\<lambda>(k, v). has_prefix (ra_Prefix a) k) (AList.clearjunk s)"
  have m: "map_of ?m = (\<lambda>k. if has_prefix (ra_Prefix a) k then map_of s k else None)"
    unfolding map_of_filter_key map_of_clearjunk ..
  have "?m \<noteq> []"
  proof
    assume "?m = []"
    with m have "(if has_prefix (ra_Prefix a) k then map_of s k else None) = None"
      by (metis map_of.simps(1))
    with assms show False by simp
  qed
  with m show ?thesis by (simp add: mem_store_def)
qed

lemma mem_store_exact: "store_exact mem_store map_of"
  unfolding store_exact_def
proof (intro conjI allI)
  fix s a
  show "if \<exists>k. map_of s k \<noteq> None \<and> has_prefix (ra_Prefix a) k
        then \<exists>r. ds_RangeRead mem_store s a = Inr r \<and> rr_LastKey r = [] \<and>
              map_of (rr_ResultMap r) = (\<lambda>k. if has_prefix (ra_Prefix a) k then map_of s k else None)
        else ds_RangeRead mem_store s a = Inl errKeyNotFoundMsg"
  proof (cases "\<exists>k. map_of s k \<noteq> None \<and> has_prefix (ra_Prefix a) k")
    case True
    then obtain k where "map_of s k \<noteq> None" "has_prefix (ra_Prefix a) k" by blast
    from mem_store_range_some[where s = s and k = k, OF this] show ?thesis
      by (simp only: True if_True)
  next
    case False
    show ?thesis
      by (simp only: False if_False mem_store_range_none[OF False])
  qed
qed (use mem_store_sound in simp_all)

subsection \<open>Applying changes\<close>

fun applyKV :: "'s data_store \<Rightarrow> commit_chg list \<Rightarrow> 's \<Rightarrow> string option \<times> 's" where
  "applyKV ds [] s = (None, s)"
| "applyKV ds (c # cs) s =
     (case cc_Op c of
        OpApply \<Rightarrow>
          (case ds_Write ds s (cc_Key c) (cc_Value c) of
             (None, s') \<Rightarrow> applyKV ds cs s'
           | (Some e, s') \<Rightarrow> (Some (''failed to apply changes for key: '' @ cc_Key c), s'))
      | OpDelete \<Rightarrow>
          (case ds_Delete ds s (cc_Key c) of
             (None, s') \<Rightarrow> applyKV ds cs s'
           | (Some e, s') \<Rightarrow> (Some (''failed to apply changes for key: '' @ cc_Key c), s'))
      | OpOther n \<Rightarrow> (Some (''unknown operation type '' @ itoa n @ '' for key '' @ cc_Key c), s))"

text \<open>A failing delete is \<open>log.Fatal\<close>, which ends the process: \<open>Panic\<close>.\<close>

fun deleteKV :: "'s data_store \<Rightarrow> commit_chg list \<Rightarrow> 's \<Rightarrow> unit go \<times> 's" where
  "deleteKV ds [] s = (Ret (), s)"
| "deleteKV ds (c # cs) s =
     (case ds_Delete ds s (cc_Key c) of
        (None, s') \<Rightarrow> deleteKV ds cs s'
      | (Some e, s') \<Rightarrow> (Panic, s'))"

text \<open>The effect of a list of changes on the contents.\<close>

fun chg_effect :: "(string \<rightharpoonup> string) \<Rightarrow> commit_chg \<Rightarrow> (string \<rightharpoonup> string)" where
  "chg_effect m c =
     (case cc_Op c of OpApply \<Rightarrow> m(cc_Key c \<mapsto> cc_Value c) | OpDelete \<Rightarrow> m(cc_Key c := None) | OpOther _ \<Rightarrow> m)"

definition chgs_effect :: "commit_chg list \<Rightarrow> (string \<rightharpoonup> string) \<Rightarrow> (string \<rightharpoonup> string)" where
  "chgs_effect cs m = foldl chg_effect m cs"

lemma chgs_effect_simps [simp]:
  "chgs_effect [] m = m"
  "chgs_effect (c # cs) m = chgs_effect cs (chg_effect m c)"
  by (simp_all add: chgs_effect_def)

lemma chgs_effect_append: "chgs_effect (cs @ ds) m = chgs_effect ds (chgs_effect cs m)"
  by (simp add: chgs_effect_def)

lemma sound_write: "store_sound ds cont \<Longrightarrow> ds_Write ds s k v = (e, s') \<Longrightarrow>
    cont s' = (if e = None then (cont s)(k \<mapsto> v) else cont s)"
  unfolding store_sound_def by (drule conjunct1, drule spec[of _ s], drule spec[of _ k], drule spec[of _ v]) simp

lemma sound_delete: "store_sound ds cont \<Longrightarrow> ds_Delete ds s k = (e, s') \<Longrightarrow>
    cont s' = (if e = None then (cont s)(k := None) else cont s)"
  unfolding store_sound_def by (drule conjunct2, drule conjunct1, drule spec[of _ s], drule spec[of _ k]) simp

lemma sound_read: "store_sound ds cont \<Longrightarrow> ds_Read ds s k = Inr v \<Longrightarrow> cont s k = Some v"
  by (simp add: store_sound_def)

lemma sound_range: "store_sound ds cont \<Longrightarrow> ds_RangeRead ds s a = Inr r \<Longrightarrow>
    distinct (map fst (rr_ResultMap r)) \<and>
    (\<forall>(k, v) \<in> set (rr_ResultMap r). cont s k = Some v \<and> has_prefix (ra_Prefix a) k)"
  by (simp add: store_sound_def)

lemma exact_sound: "store_exact ds cont \<Longrightarrow> store_sound ds cont"
  by (simp add: store_exact_def)

lemma exact_read: "store_exact ds cont \<Longrightarrow>
    ds_Read ds s k = (case cont s k of None \<Rightarrow> Inl errKeyNotFoundMsg | Some v \<Rightarrow> Inr v)"
  by (simp add: store_exact_def)

text \<open>
  C11: \<open>applyKV\<close> performs the changes in order and stops at the first that fails: what it leaves in
  the store is the effect of a prefix of the list, and the prefix is the whole list exactly when no
  error is returned. (The changes before a failing one stay applied.)
\<close>

theorem applyKV_applies_prefix:
  assumes "store_sound ds cont" and "applyKV ds cs s = (e, s')"
  shows "\<exists>n \<le> length cs. cont s' = chgs_effect (take n cs) (cont s) \<and> (e = None \<longleftrightarrow> n = length cs)"
  using assms(2)
proof (induction cs arbitrary: s)
  case Nil
  then show ?case by simp
next
  case (Cons c cs)
  have step: ?case if "applyKV ds cs s1 = (e, s')" "cont s1 = chg_effect (cont s) c" for s1
  proof -
    from Cons.IH[OF that(1)] obtain n where "n \<le> length cs"
      "cont s' = chgs_effect (take n cs) (cont s1)" "(e = None) = (n = length cs)" by blast
    with that(2) show ?thesis by (intro exI[of _ "Suc n"]) simp
  qed
  have stop: ?case if "cont s' = cont s" "e \<noteq> None"
    using that by (intro exI[of _ 0]) simp
  show ?case
  proof (cases "cc_Op c")
    case OpApply
    obtain e1 s1 where w: "ds_Write ds s (cc_Key c) (cc_Value c) = (e1, s1)" by fastforce
    note eff = sound_write[OF assms(1) w]
    show ?thesis
    proof (cases e1)
      case None
      show ?thesis by (rule step[of s1]) (use Cons.prems w eff None OpApply in simp_all)
    next
      case (Some m)
      show ?thesis by (rule stop) (use Cons.prems w eff Some OpApply in auto)
    qed
  next
    case OpDelete
    obtain e1 s1 where w: "ds_Delete ds s (cc_Key c) = (e1, s1)" by fastforce
    note eff = sound_delete[OF assms(1) w]
    show ?thesis
    proof (cases e1)
      case None
      show ?thesis by (rule step[of s1]) (use Cons.prems w eff None OpDelete in simp_all)
    next
      case (Some m)
      show ?thesis by (rule stop) (use Cons.prems w eff Some OpDelete in auto)
    qed
  next
    case (OpOther n)
    with Cons.prems stop show ?thesis by auto
  qed
qed

theorem applyKV_applies_prefix_witness:
  "\<exists>n \<le> length [chg ''a'' ''1'', \<lparr>cc_Key = ''b'', cc_Value = [], cc_Op = OpOther 7\<rparr>, chg ''c'' ''2''].
     map_of [(''a'', ''1'')] =
       chgs_effect (take n [chg ''a'' ''1'', \<lparr>cc_Key = ''b'', cc_Value = [], cc_Op = OpOther 7\<rparr>, chg ''c'' ''2''])
         (map_of []) \<and>
     (Some (''unknown operation type '' @ itoa 7 @ '' for key b'') = None \<longleftrightarrow>
       n = length [chg ''a'' ''1'', \<lparr>cc_Key = ''b'', cc_Value = [], cc_Op = OpOther 7\<rparr>, chg ''c'' ''2''])"
  by (rule applyKV_applies_prefix[OF mem_store_sound]) simp

lemma applyKV_done:
  assumes "store_sound ds cont" and "applyKV ds cs s = (None, s')"
  shows "cont s' = chgs_effect cs (cont s)"
  using assms(2)
proof (induction cs arbitrary: s)
  case (Cons c cs)
  then show ?case
    using sound_write[OF assms(1)] sound_delete[OF assms(1)]
    by (fastforce split: chg_op.splits prod.splits option.splits)
qed simp

lemma applyKV_exact:
  assumes "store_exact ds cont" and "\<forall>c \<in> set cs. cc_Op c = OpApply \<or> cc_Op c = OpDelete"
  shows "fst (applyKV ds cs s) = None"
  using assms(2)
proof (induction cs arbitrary: s)
  case (Cons c cs)
  have "fst (ds_Write ds s k v) = None" "fst (ds_Delete ds s k) = None" for k v
    using assms(1) by (simp_all add: store_exact_def)
  with Cons show ?case
    by (auto split: chg_op.splits prod.splits option.splits) (metis fst_conv option.distinct(1))+
qed simp

lemma deleteKV_done:
  assumes "store_sound ds cont" and "deleteKV ds cs s = (Ret (), s')"
  shows "cont s' = (\<lambda>k. if k \<in> cc_Key ` set cs then None else cont s k)"
  using assms(2)
proof (induction cs arbitrary: s)
  case (Cons c cs)
  then show ?case
    using sound_delete[OF assms(1)] by (fastforce split: prod.splits option.splits)
qed simp

end
