(* ===== verification/Hierarchy.thy ===== *)
theory Hierarchy
  imports Envelope
begin

section \<open>The failure domain hierarchy: hierarchy.go\<close>

text \<open>
  The five trees (PDU, rack, hypervisor, device, partition) that the allocator searches. A tree maps
  the identifier of an entity to the entity, an entity holds a tree of the devices below it, and a
  device lists the NISDs on it. The same \<open>*Nisd\<close> sits in all five trees and in the allocation map, so
  NISDs live in a memory \<open>hs_Mem\<close> and the trees hold addresses; entities and devices belong to one
  tree each and are kept by value, written back after a change. \<open>tidwall/btree\<close> is outside the
  repository: a tree is a type parameter with a record of operations, \<open>btree_ok\<close> its documented
  behaviour (an ordered map with a rank), \<open>alist_btree\<close> an instance.
\<close>

subsection \<open>Counted B-trees\<close>

record ('t, 'v) btree =
  bt_new :: 't
  bt_get :: "'t \<Rightarrow> string \<Rightarrow> 'v option"
  bt_set :: "'t \<Rightarrow> string \<Rightarrow> 'v \<Rightarrow> 't"
  bt_del :: "'t \<Rightarrow> string \<Rightarrow> 't"
  bt_len :: "'t \<Rightarrow> nat"
  bt_at :: "'t \<Rightarrow> int \<Rightarrow> 'v option"
  bt_items :: "'t \<Rightarrow> (string \<times> 'v) list"

definition btree_ok :: "('t, 'v) btree \<Rightarrow> bool" where
  "btree_ok B \<longleftrightarrow>
     bt_get B (bt_new B) = Map.empty \<and>
     (\<forall>t k v. bt_get B (bt_set B t k v) = (bt_get B t)(k \<mapsto> v)) \<and>
     (\<forall>t k. bt_get B (bt_del B t k) = (bt_get B t)(k := None)) \<and>
     (\<forall>t. map_of (bt_items B t) = bt_get B t \<and>
          sorted (map fst (bt_items B t)) \<and> distinct (map fst (bt_items B t))) \<and>
     (\<forall>t. bt_len B t = length (bt_items B t)) \<and>
     (\<forall>t i. bt_at B t i =
        (if 0 \<le> i \<and> i < int (length (bt_items B t)) then Some (snd (bt_items B t ! nat i)) else None))"

definition alist_btree :: "((string \<times> 'v) list, 'v) btree" where
  "alist_btree =
     (let items = (\<lambda>t. map (\<lambda>k. (k, the (map_of t k))) (sort (remdups (map fst t)))) in
      \<lparr>bt_new = [], bt_get = map_of, bt_set = (\<lambda>t k v. (k, v) # t),
       bt_del = (\<lambda>t k. filter (\<lambda>p. fst p \<noteq> k) t), bt_len = (\<lambda>t. length (items t)),
       bt_at = (\<lambda>t i. if 0 \<le> i \<and> i < int (length (items t)) then Some (snd (items t ! nat i)) else None),
       bt_items = items\<rparr>)"

lemma map_of_map_key: "map_of (map (\<lambda>k. (k, f k)) xs) k = (if k \<in> set xs then Some (f k) else None)"
  by (induction xs) auto

lemma alist_btree_ok: "btree_ok (alist_btree :: ((string \<times> 'v) list, 'v) btree)"
proof -
  have m: "map_of (map (\<lambda>k. (k, the (map_of t k))) (sort (remdups (map fst t)))) = map_of t"
    for t :: "(string \<times> 'v) list"
  proof
    fix k
    show "map_of (map (\<lambda>k. (k, the (map_of t k))) (sort (remdups (map fst t)))) k = map_of t k"
      using map_of_eq_None_iff[of t k] unfolding map_of_map_key by (cases "map_of t k") auto
  qed
  show ?thesis
    unfolding btree_ok_def alist_btree_def Let_def
    by (simp add: m map_of_filter_neq comp_def)
qed

subsection \<open>State\<close>

type_synonym addr = nat

record device_alloc = da_ID :: string da_AvailableSize :: int64 da_Nisds :: "addr list"

record nisd_vdev_alloc = nva_AvailableSize :: int64 nva_Ptr :: addr

record 'td entities = en_ID :: string en_Devices :: 'td

record 'te failure_domain = fd_Type :: uint8 fd_Tree :: 'te

text \<open>\<open>hs_FD\<close> is \<open>HR.FD\<close>; \<open>Init\<close> gives it \<open>FD_MAX\<close> elements and nothing changes their number.\<close>

record 'te hier = hs_FD :: "'te failure_domain list" hs_Mem :: "addr \<Rightarrow> nisd"

definition HR_Init :: "('te, 'td entities) btree \<Rightarrow> 'te hier \<Rightarrow> 'te hier" where
  "HR_Init EO hs =
     hs\<lparr>hs_FD := map (\<lambda>i. \<lparr>fd_Type = of_nat i, fd_Tree = bt_new EO\<rparr>) [0..<FD_MAX]\<rparr>"

definition fd_update :: "nat \<Rightarrow> ('te \<Rightarrow> 'te) \<Rightarrow> 'te hier \<Rightarrow> 'te hier" where
  "fd_update i g hs =
     hs\<lparr>hs_FD := (hs_FD hs)[i := (hs_FD hs ! i)\<lparr>fd_Tree := g (fd_Tree (hs_FD hs ! i))\<rparr>]\<rparr>"

subsection \<open>Adding and removing NISDs\<close>

text \<open>The entity with an identifier, a new one when there is none (then it is also put into the tree).\<close>

definition getOrCreateEntity ::
  "('te, 'td entities) btree \<Rightarrow> ('td, device_alloc) btree \<Rightarrow> 'te \<Rightarrow> string \<Rightarrow> 'td entities \<times> 'te" where
  "getOrCreateEntity EO DO tree eid =
     (case bt_get EO tree eid of
        Some e \<Rightarrow> (e, tree)
      | None \<Rightarrow> let e = \<lparr>en_ID = eid, en_Devices = bt_new DO\<rparr> in (e, bt_set EO tree eid e))"

definition deleteEmptyEntity ::
  "('te, 'td entities) btree \<Rightarrow> ('td, device_alloc) btree \<Rightarrow> 'te \<Rightarrow> string \<Rightarrow> 'te" where
  "deleteEmptyEntity EO DO tree eid =
     (case bt_get EO tree eid of
        None \<Rightarrow> tree
      | Some e \<Rightarrow> if bt_len DO (en_Devices e) = 0 then bt_del EO tree (en_ID e) else tree)"

definition getOrCreateDeviceInEntity ::
  "('td, device_alloc) btree \<Rightarrow> 'td entities \<Rightarrow> string \<Rightarrow> device_alloc \<times> 'td entities" where
  "getOrCreateDeviceInEntity DO ent devID =
     (case bt_get DO (en_Devices ent) devID of
        Some dn \<Rightarrow> (dn, ent)
      | None \<Rightarrow>
          let dn = \<lparr>da_ID = devID, da_AvailableSize = 0, da_Nisds = []\<rparr>
          in (dn, ent\<lparr>en_Devices := bt_set DO (en_Devices ent) devID dn\<rparr>))"

text \<open>The index of the first NISD of a device with an identifier.\<close>

fun find_nisd :: "(addr \<Rightarrow> nisd) \<Rightarrow> string \<Rightarrow> addr list \<Rightarrow> nat option" where
  "find_nisd mem nid [] = None"
| "find_nisd mem nid (a # as) = (if n_ID (mem a) = nid then Some 0 else map_option Suc (find_nisd mem nid as))"

definition addNisdToDevice :: "(addr \<Rightarrow> nisd) \<Rightarrow> device_alloc \<Rightarrow> addr \<Rightarrow> device_alloc" where
  "addNisdToDevice mem dn n =
     (case find_nisd mem (n_ID (mem n)) (da_Nisds dn) of
        Some i \<Rightarrow>
          dn\<lparr>da_AvailableSize := da_AvailableSize dn +
                (n_AvailableSize (mem n) - n_AvailableSize (mem (da_Nisds dn ! i))),
             da_Nisds := (da_Nisds dn)[i := n]\<rparr>
      | None \<Rightarrow>
          dn\<lparr>da_Nisds := da_Nisds dn @ [n],
             da_AvailableSize := da_AvailableSize dn + n_AvailableSize (mem n)\<rparr>)"

definition removeNisdFromDevice :: "(addr \<Rightarrow> nisd) \<Rightarrow> device_alloc \<Rightarrow> string \<Rightarrow> bool \<times> device_alloc" where
  "removeNisdFromDevice mem dn nisdID =
     (case find_nisd mem nisdID (da_Nisds dn) of
        Some i \<Rightarrow>
          let dn' = dn\<lparr>da_AvailableSize := da_AvailableSize dn - n_AvailableSize (mem (da_Nisds dn ! i)),
                       da_Nisds := take i (da_Nisds dn) @ drop (i + 1) (da_Nisds dn)\<rparr>
          in (da_Nisds dn' = [], dn')
      | None \<Rightarrow> (da_Nisds dn = [], dn))"

definition add_to_tree ::
  "('te, 'td entities) btree \<Rightarrow> ('td, device_alloc) btree \<Rightarrow> (addr \<Rightarrow> nisd) \<Rightarrow> string \<Rightarrow> addr \<Rightarrow> string \<Rightarrow> 'te \<Rightarrow> 'te" where
  "add_to_tree EO DO mem devID n eid tree =
     (let (e, tree1) = getOrCreateEntity EO DO tree eid;
          (dn, e1) = getOrCreateDeviceInEntity DO e devID;
          dn1 = addNisdToDevice mem dn n
      in bt_set EO tree1 eid (e1\<lparr>en_Devices := bt_set DO (en_Devices e1) devID dn1\<rparr>))"

fun add_loop ::
  "('te, 'td entities) btree \<Rightarrow> ('td, device_alloc) btree \<Rightarrow> string \<Rightarrow> addr \<Rightarrow> nat \<Rightarrow> string list \<Rightarrow> 'te hier \<Rightarrow> 'te hier" where
  "add_loop EO DO devID n i [] hs = hs"
| "add_loop EO DO devID n i (eid # ids) hs =
     add_loop EO DO devID n (i + 1) ids (fd_update i (add_to_tree EO DO (hs_Mem hs) devID n eid) hs)"

text \<open>A NISD below the chunk size is only logged as skipped: the code goes on and adds it.\<close>

definition AddNisd ::
  "('te, 'td entities) btree \<Rightarrow> ('td, device_alloc) btree \<Rightarrow> addr \<Rightarrow> 'te hier \<Rightarrow> string option \<times> 'te hier" where
  "AddNisd EO DO n hs =
     (let fds = n_FailureDomain (hs_Mem hs n) in
      if length fds \<noteq> FD_MAX then (Some ''failed to add nisd: not enough failure domain info'', hs)
      else (None, add_loop EO DO (fds ! DEVICE_IDX) n 0 fds hs))"

definition del_from_tree ::
  "('te, 'td entities) btree \<Rightarrow> ('td, device_alloc) btree \<Rightarrow> (addr \<Rightarrow> nisd) \<Rightarrow> string \<Rightarrow> string \<Rightarrow> string \<Rightarrow> 'te \<Rightarrow> 'te" where
  "del_from_tree EO DO mem devID nisdID eid tree =
     (case bt_get EO tree eid of
        None \<Rightarrow> tree
      | Some e \<Rightarrow>
          (case bt_get DO (en_Devices e) devID of
             None \<Rightarrow> tree
           | Some dn \<Rightarrow>
               let (empty, dn1) = removeNisdFromDevice mem dn nisdID;
                   devs = (if empty then bt_del DO (bt_set DO (en_Devices e) devID dn1) (da_ID dn1)
                           else bt_set DO (en_Devices e) devID dn1)
               in deleteEmptyEntity EO DO (bt_set EO tree eid (e\<lparr>en_Devices := devs\<rparr>)) eid))"

fun del_loop ::
  "('te, 'td entities) btree \<Rightarrow> ('td, device_alloc) btree \<Rightarrow> string \<Rightarrow> string \<Rightarrow> nat \<Rightarrow> string list \<Rightarrow> 'te hier \<Rightarrow> 'te hier" where
  "del_loop EO DO devID nisdID i [] hs = hs"
| "del_loop EO DO devID nisdID i (eid # ids) hs =
     del_loop EO DO devID nisdID (i + 1) ids (fd_update i (del_from_tree EO DO (hs_Mem hs) devID nisdID eid) hs)"

definition DeleteNisd ::
  "('te, 'td entities) btree \<Rightarrow> ('td, device_alloc) btree \<Rightarrow> addr \<Rightarrow> 'te hier \<Rightarrow> 'te hier" where
  "DeleteNisd EO DO n hs =
     (let fds = n_FailureDomain (hs_Mem hs n)
      in del_loop EO DO (fds ! DEVICE_IDX) (n_ID (hs_Mem hs n)) 0 fds hs)"

subsection \<open>Queries\<close>

fun fd_level_loop :: "('te, 'td entities) btree \<Rightarrow> int \<Rightarrow> 'te hier \<Rightarrow> nat \<Rightarrow> nat \<Rightarrow> int go" where
  "fd_level_loop EO ft hs i 0 =
     Fail (''failed to allocate vdev as the fault tolerance level '' @ itoa ft @ '' cannot be met'')"
| "fd_level_loop EO ft hs i (Suc k) =
     (if ft \<le> int (bt_len EO (fd_Tree (hs_FD hs ! i))) then Ret (int i) else fd_level_loop EO ft hs (i + 1) k)"

definition GetFDLevel :: "('te, 'td entities) btree \<Rightarrow> int \<Rightarrow> 'te hier \<Rightarrow> int go" where
  "GetFDLevel EO ft hs = fd_level_loop EO ft hs 0 (DEVICE_IDX + 1)"

definition GetEntityCnt :: "('te, 'td entities) btree \<Rightarrow> nat \<Rightarrow> 'te hier \<Rightarrow> nat" where
  "GetEntityCnt EO tierIDX hs =
     (if tierIDX \<ge> length (hs_FD hs) then 0 else bt_len EO (fd_Tree (hs_FD hs ! tierIDX)))"

text \<open>An index of -1 (any type but the five levels, unless it is the value -1 itself) panics.\<close>

definition GetEntityByID :: "('te, 'td entities) btree \<Rightarrow> filter_req \<Rightarrow> 'te hier \<Rightarrow> 'td entities go" where
  "GetEntityByID EO ft hs =
     (if f_Type ft = FD_Other (-1) then Fail ''invalid fd level''
      else
        let i = GetFDIdx (f_Type ft) in
        if i < 0 \<or> i \<ge> int (length (hs_FD hs)) then Panic
        else (case bt_get EO (fd_Tree (hs_FD hs ! nat i)) (f_ID ft) of
                None \<Rightarrow> Fail (''entityID '' @ f_ID ft @ '' not found in fd '' @ itoa i)
              | Some ent \<Rightarrow> Ret ent))"

fun scan_nisd :: "(addr \<Rightarrow> nisd) \<Rightarrow> string \<Rightarrow> (string \<times> device_alloc) list \<Rightarrow> addr option" where
  "scan_nisd mem nisdID [] = None"
| "scan_nisd mem nisdID ((_, dn) # ds) =
     (case find_nisd mem nisdID (da_Nisds dn) of
        Some i \<Rightarrow> Some (da_Nisds dn ! i)
      | None \<Rightarrow> scan_nisd mem nisdID ds)"

definition GetNisdByPDUID ::
  "('te, 'td entities) btree \<Rightarrow> ('td, device_alloc) btree \<Rightarrow> string \<Rightarrow> string \<Rightarrow> 'te hier \<Rightarrow> addr go" where
  "GetNisdByPDUID EO DO pduID nisdID hs =
     (case bt_get EO (fd_Tree (hs_FD hs ! PDU_IDX)) pduID of
        None \<Rightarrow> Fail (''PDU '' @ pduID @ '' not found'')
      | Some pduEntity \<Rightarrow>
          (case scan_nisd (hs_Mem hs) nisdID (bt_items DO (en_Devices pduEntity)) of
             None \<Rightarrow> Fail (''nisd '' @ nisdID @ '' not found in PDU '' @ pduID)
           | Some a \<Rightarrow> Ret a))"

definition GetIdxForNisdAlloc :: "uint64 \<Rightarrow> nat \<Rightarrow> nat go" where
  "GetIdxForNisdAlloc hash sz =
     (if sz = 0 then Fail (''invalid size: '' @ utoa sz) else Ret (unat hash mod sz))"

subsection \<open>Picking a device and a NISD\<close>

text \<open>These return an error or a value: \<open>Inl\<close> is the error.\<close>

definition LookupNAddNisd ::
  "('tm, nisd_vdev_alloc) btree \<Rightarrow> (addr \<Rightarrow> nisd) \<Rightarrow> addr \<Rightarrow> 'tm \<Rightarrow> nisd_vdev_alloc \<times> 'tm" where
  "LookupNAddNisd MO mem n nisdMap =
     (case bt_get MO nisdMap (n_ID (mem n)) of
        Some na \<Rightarrow> (na, nisdMap)
      | None \<Rightarrow>
          let ns = \<lparr>nva_AvailableSize = n_AvailableSize (mem n), nva_Ptr = n\<rparr>
          in (ns, bt_set MO nisdMap (n_ID (mem n)) ns))"

record usage_info = du_Usage :: int du_AvailableSize :: int64

text \<open>
  The scan of \<open>PickDevice\<close> over the positions \<open>offset, offset + 1, ...\<close> of the device tree: \<open>Inl\<close> is
  the device selected by an early stop, \<open>Inr\<close> the fallback with its usage and size. \<open>int\<close> offsets
  do not overflow in the model.
\<close>

fun pick_scan ::
  "('td, device_alloc) btree \<Rightarrow> 'td \<Rightarrow> string set \<Rightarrow> (string \<rightharpoonup> usage_info) \<Rightarrow> int \<Rightarrow> int \<Rightarrow> nat list
   \<Rightarrow> device_alloc option \<times> int \<times> int64 \<Rightarrow> device_alloc + (device_alloc option \<times> int \<times> int64)" where
  "pick_scan DO devs picked deviceUsage offset devCnt [] best = Inr best"
| "pick_scan DO devs picked deviceUsage offset devCnt (i # is) best =
     (case bt_at DO devs ((offset + int i) smod devCnt) of
        None \<Rightarrow> pick_scan DO devs picked deviceUsage offset devCnt is best
      | Some dn \<Rightarrow>
          let (usage, availSize) =
                (case deviceUsage (da_ID dn) of
                   Some info \<Rightarrow> (du_Usage info, du_AvailableSize info)
                 | None \<Rightarrow> (0, da_AvailableSize dn))
          in if availSize <s CHUNK_SIZE then pick_scan DO devs picked deviceUsage offset devCnt is best
             else if da_ID dn \<notin> picked then Inl dn
             else
               let (bestFallback, bestFallbackUsage, bestFallbackAvail) = best in
               if usage < bestFallbackUsage \<or> (usage = bestFallbackUsage \<and> bestFallbackAvail <s availSize)
               then pick_scan DO devs picked deviceUsage offset devCnt is (Some dn, usage, availSize)
               else pick_scan DO devs picked deviceUsage offset devCnt is best)"

definition PickDevice ::
  "('td, device_alloc) btree \<Rightarrow> 'td entities \<Rightarrow> string set \<Rightarrow> (string \<rightharpoonup> usage_info) \<Rightarrow> int \<Rightarrow> string + device_alloc" where
  "PickDevice DO ent pickedDevices deviceUsage startOffset =
     (let devCnt = bt_len DO (en_Devices ent) in
      if devCnt = 0 then Inl (''no devices in entity '' @ en_ID ent)
      else (case pick_scan DO (en_Devices ent) pickedDevices deviceUsage
                   (startOffset smod int devCnt) (int devCnt) [0..<devCnt] (None, 2 ^ 63 - 1, 0) of
              Inl selected \<Rightarrow> Inr selected
            | Inr (Some bestFallback, _) \<Rightarrow> Inr bestFallback
            | Inr (None, _) \<Rightarrow> Inl (''no suitable device found in entity '' @ en_ID ent)))"

text \<open>The loop over the NISDs of a device: the best candidate so far, by its key in the map.\<close>

fun pick_nisd_loop ::
  "('tm, nisd_vdev_alloc) btree \<Rightarrow> (addr \<Rightarrow> nisd) \<Rightarrow> string set \<Rightarrow> addr list \<Rightarrow> 'tm
   \<Rightarrow> (string \<times> nisd_vdev_alloc) option \<Rightarrow> (string \<times> nisd_vdev_alloc) option \<times> 'tm" where
  "pick_nisd_loop MO mem picked [] nisdMap optimal = (optimal, nisdMap)"
| "pick_nisd_loop MO mem picked (n # ns) nisdMap optimal =
     (let (na, nisdMap1) = LookupNAddNisd MO mem n nisdMap in
      if n_ID (mem (nva_Ptr na)) \<in> picked then pick_nisd_loop MO mem picked ns nisdMap1 optimal
      else if nva_AvailableSize na <s CHUNK_SIZE then pick_nisd_loop MO mem picked ns nisdMap1 optimal
      else if (case optimal of None \<Rightarrow> True | Some (_, o') \<Rightarrow> nva_AvailableSize o' <s nva_AvailableSize na)
      then pick_nisd_loop MO mem picked ns nisdMap1 (Some (n_ID (mem n), na))
      else pick_nisd_loop MO mem picked ns nisdMap1 optimal)"

definition PickNISDFromDevice ::
  "('tm, nisd_vdev_alloc) btree \<Rightarrow> (addr \<Rightarrow> nisd) \<Rightarrow> device_alloc \<Rightarrow> string set \<Rightarrow> 'tm
   \<Rightarrow> (string + nisd_vdev_alloc) \<times> string set \<times> 'tm" where
  "PickNISDFromDevice MO mem dn pickedNISD nisdMap =
     (case pick_nisd_loop MO mem pickedNISD (da_Nisds dn) nisdMap None of
        (None, nisdMap1) \<Rightarrow> (Inl (''no suitable nisd found in device '' @ da_ID dn), pickedNISD, nisdMap1)
      | (Some (key, na), nisdMap1) \<Rightarrow>
          let na1 = na\<lparr>nva_AvailableSize := nva_AvailableSize na - CHUNK_SIZE\<rparr>
          in (Inr na1, insert (n_ID (mem (nva_Ptr na1))) pickedNISD, bt_set MO nisdMap1 key na1))"

end
