(* ===== verification/Populate.thy ===== *)
theory Populate
  imports Envelope
begin

section \<open>The key schema: populate.go\<close>

text \<open>
  The key constants of \<open>srvctlplanefuncs.go\<close> and the populators of \<open>populate.go\<close>, which turn an
  entity into the list of key-value changes that represent it in the store. A populator loops over
  a list of field names and a switch gives the value of each; \<open>None\<close> is the \<open>default: continue\<close>.
\<close>

abbreviation DEVICE_ID :: string where "DEVICE_ID \<equiv> ''d''"
abbreviation SERIAL_NUM :: string where "SERIAL_NUM \<equiv> ''sn''"
abbreviation STATE :: string where "STATE \<equiv> ''s''"
abbreviation FAILURE_DOMAIN :: string where "FAILURE_DOMAIN \<equiv> ''fd''"
abbreviation PEER_PORT :: string where "PEER_PORT \<equiv> ''pp''"
abbreviation IP_ADDR :: string where "IP_ADDR \<equiv> ''ip''"
abbreviation TOTAL_SPACE :: string where "TOTAL_SPACE \<equiv> ''ts''"
abbreviation AVAIL_SPACE :: string where "AVAIL_SPACE \<equiv> ''as''"
abbreviation SIZE :: string where "SIZE \<equiv> ''sz''"
abbreviation NUM_CHUNKS :: string where "NUM_CHUNKS \<equiv> ''nc''"
abbreviation TOTAL_DATA_BLKS :: string where "TOTAL_DATA_BLKS \<equiv> ''nd''"
abbreviation TOTAL_PARITY_BLKS :: string where "TOTAL_PARITY_BLKS \<equiv> ''np''"
abbreviation REDUNDANCY_MODE :: string where "REDUNDANCY_MODE \<equiv> ''rm''"
abbreviation LOCATION :: string where "LOCATION \<equiv> ''l''"
abbreviation POWER_CAP :: string where "POWER_CAP \<equiv> ''pw''"
abbreviation SPEC :: string where "SPEC \<equiv> ''sp''"
abbreviation NAME :: string where "NAME \<equiv> ''nm''"
abbreviation PORT_RANGE :: string where "PORT_RANGE \<equiv> ''pr''"
abbreviation SSH_PORT :: string where "SSH_PORT \<equiv> ''ssh''"
abbreviation DEVICE_PATH :: string where "DEVICE_PATH \<equiv> ''dp''"
abbreviation PARTITION_PATH :: string where "PARTITION_PATH \<equiv> ''ptp''"
abbreviation NETWORK_INFO :: string where "NETWORK_INFO \<equiv> ''ni''"
abbreviation NETWORK_INFO_CNT :: string where "NETWORK_INFO_CNT \<equiv> ''nic''"
abbreviation SOCKET_PATH :: string where "SOCKET_PATH \<equiv> ''sck''"
abbreviation ENABLE_RDMA :: string where "ENABLE_RDMA \<equiv> ''rdma''"
abbreviation DEFRAG :: string where "DEFRAG \<equiv> ''dfg''"
abbreviation MBCCnt :: string where "MBCCnt \<equiv> ''mbc''"
abbreviation MergeHCnt :: string where "MergeHCnt \<equiv> ''mhc''"
abbreviation MCIReadCache :: string where "MCIReadCache \<equiv> ''mrc''"
abbreviation S3 :: string where "S3 \<equiv> ''s3''"
abbreviation DSYNC :: string where "DSYNC \<equiv> ''ds''"
abbreviation ALLOW_DEFRAG_MCIB_CACHE :: string where "ALLOW_DEFRAG_MCIB_CACHE \<equiv> ''admc''"
abbreviation FD_TYPE_KEY :: string where "FD_TYPE_KEY \<equiv> ''fdt''"
abbreviation FD_ID_KEY :: string where "FD_ID_KEY \<equiv> ''fdi''"
abbreviation cfgkey :: string where "cfgkey \<equiv> ''cfg''"
abbreviation NisdCfgKey :: string where "NisdCfgKey \<equiv> ''n_cfg''"
abbreviation deviceCfgKey :: string where "deviceCfgKey \<equiv> ''d_cfg''"
abbreviation pduKey :: string where "pduKey \<equiv> ''p''"
abbreviation rackKey :: string where "rackKey \<equiv> ''r''"
abbreviation nisdKey :: string where "nisdKey \<equiv> ''n''"
abbreviation vdevKey :: string where "vdevKey \<equiv> ''v''"
abbreviation vnameKey :: string where "vnameKey \<equiv> ''vname''"
abbreviation chunkKey :: string where "chunkKey \<equiv> ''c''"
abbreviation hvKey :: string where "hvKey \<equiv> ''hv''"
abbreviation ptKey :: string where "ptKey \<equiv> ''pt''"
abbreviation argsKey :: string where "argsKey \<equiv> ''na''"
abbreviation pfsKey :: string where "pfsKey \<equiv> ''pfs''"

definition getConfKey :: "string \<Rightarrow> string \<Rightarrow> string" where
  "getConfKey cfgType cid = cfgType @ ''/'' @ cid"

definition getVdevChunkKey :: "string \<Rightarrow> string" where
  "getVdevChunkKey vdevID = vdevKey @ ''/'' @ vdevID @ ''/'' @ chunkKey"

text \<open>The loop over the fields: \<open>populate_fields\<close> writes every value, \<open>populate_nonempty\<close> skips \<open>""\<close>.\<close>

fun populate_fields :: "string \<Rightarrow> (string \<Rightarrow> string option) \<Rightarrow> string list \<Rightarrow> commit_chg list" where
  "populate_fields key val [] = []"
| "populate_fields key val (f # fs) =
     (case val f of
        None \<Rightarrow> populate_fields key val fs
      | Some v \<Rightarrow> chg (getConfKey key f) v # populate_fields key val fs)"

definition populate_nonempty :: "string \<Rightarrow> (string \<Rightarrow> string option) \<Rightarrow> string list \<Rightarrow> commit_chg list" where
  "populate_nonempty key val fs = filter (\<lambda>c. cc_Value c \<noteq> []) (populate_fields key val fs)"

type_synonym 'e populator = "'e \<Rightarrow> commit_chg list \<Rightarrow> string \<Rightarrow> commit_chg list go"

definition PopulateEntities :: "'e \<Rightarrow> 'e populator \<Rightarrow> string \<Rightarrow> commit_chg list go" where
  "PopulateEntities entity infra entityKey = infra entity [] entityKey"

fun rack_value :: "rack \<Rightarrow> string \<Rightarrow> string option" where
  "rack_value r f =
     (if f = NAME then Some (r_Name r)
      else if f = LOCATION then Some (r_Location r)
      else if f = SPEC then Some (r_Specification r)
      else if f = pduKey then Some (r_PDUID r)
      else None)"

definition rackPopulator :: "rack populator" where
  "rackPopulator r chgs entityKey =
     Ret (chgs @ populate_fields (getConfKey entityKey (r_ID r)) (rack_value r) [NAME, LOCATION, SPEC, pduKey])"

fun partition_value :: "device_partition \<Rightarrow> string \<Rightarrow> string option" where
  "partition_value pt f =
     (if f = PARTITION_PATH then Some (pt_PartitionPath pt)
      else if f = nisdKey then Some (pt_NISDUUID pt)
      else if f = DEVICE_ID then Some (pt_DevID pt)
      else if f = SIZE then Some (itoa (sint (pt_Size pt)))
      else None)"

definition partitionPopulator :: "device_partition populator" where
  "partitionPopulator pt chgs entityKey =
     Ret (chgs @ populate_fields (getConfKey entityKey (pt_PartitionID pt)) (partition_value pt)
            [PARTITION_PATH, nisdKey, DEVICE_ID, SIZE])"

fun nisd_value :: "nisd \<Rightarrow> string \<Rightarrow> string option" where
  "nisd_value n f =
     (if f = PEER_PORT then Some (itoa (int (unat (n_PeerPort n))))
      else if f = hvKey then Some (n_FailureDomain n ! HV_IDX)
      else if f = pduKey then Some (n_FailureDomain n ! PDU_IDX)
      else if f = rackKey then Some (n_FailureDomain n ! RACK_IDX)
      else if f = TOTAL_SPACE then Some (itoa (sint (n_TotalSize n)))
      else if f = AVAIL_SPACE then Some (itoa (sint (n_AvailableSize n)))
      else if f = DEVICE_ID then Some (n_FailureDomain n ! DEVICE_IDX)
      else if f = SOCKET_PATH then Some (n_SocketPath n)
      else if f = ptKey then Some (n_FailureDomain n ! PARTITION_IDX)
      else if f = NETWORK_INFO_CNT then Some (itoa (n_NetInfoCnt n))
      else None)"

definition nisd_netinfo_chgs :: "string \<Rightarrow> network_info list \<Rightarrow> commit_chg list" where
  "nisd_netinfo_chgs key nis =
     map (\<lambda>i. chg (key @ ''/'' @ NETWORK_INFO @ ''/'' @ ni_IPAddr i) (itoa (int (unat (ni_Port i))))) nis"

text \<open>The switch indexes \<open>FailureDomain\<close> up to \<open>PARTITION_IDX\<close>: a shorter slice panics.\<close>

definition nisdPopulator :: "nisd populator" where
  "nisdPopulator n chgs entityKey =
     (if length (n_FailureDomain n) \<le> PARTITION_IDX then Panic
      else let key = getConfKey entityKey (n_ID n) in
           Ret (chgs
             @ populate_nonempty key (nisd_value n)
                 [DEVICE_ID, PEER_PORT, hvKey, FAILURE_DOMAIN, TOTAL_SPACE, AVAIL_SPACE, SOCKET_PATH,
                  pduKey, rackKey, ptKey, NETWORK_INFO_CNT]
             @ nisd_netinfo_chgs key (n_NetInfo n)))"

fun device_value :: "device \<Rightarrow> string \<Rightarrow> string option" where
  "device_value d f =
     (if f = SERIAL_NUM then Some (d_SerialNumber d)
      else if f = STATE then Some (itoa (int (unat (d_State d))))
      else if f = hvKey then Some (d_HypervisorID d)
      else if f = FAILURE_DOMAIN then Some (d_FailureDomain d)
      else if f = SIZE then Some (itoa (sint (d_Size d)))
      else if f = DEVICE_PATH then Some (d_DevicePath d)
      else if f = NAME then Some (d_Name d)
      else None)"

definition devicePopulator :: "device populator" where
  "devicePopulator d chgs entityKey =
     (let k = getConfKey entityKey (d_ID d) in
      Ret (chgs @ [chg k []]
        @ populate_nonempty k (device_value d)
            [NAME, DEVICE_PATH, STATE, SIZE, SERIAL_NUM, hvKey, FAILURE_DOMAIN]
        @ (if d_HypervisorID d \<noteq> []
           then [chg (hvKey @ ''/'' @ d_HypervisorID d @ ''/'' @ deviceCfgKey) (d_ID d)] else [])
        @ (if d_FailureDomain d \<noteq> []
           then [chg (FAILURE_DOMAIN @ ''/'' @ d_FailureDomain d @ ''/'' @ deviceCfgKey) (d_ID d)] else [])))"

fun hv_value :: "hypervisor \<Rightarrow> string \<Rightarrow> string option" where
  "hv_value h f =
     (if f = NAME then Some (h_Name h)
      else if f = PORT_RANGE then Some (h_PortRange h)
      else if f = SSH_PORT then Some (h_SSHPort h)
      else if f = rackKey then Some (h_RackID h)
      else if f = ENABLE_RDMA then Some (format_bool (h_RDMAEnabled h))
      else None)"

fun hv_ip_chgs :: "string \<Rightarrow> nat \<Rightarrow> string list \<Rightarrow> commit_chg list" where
  "hv_ip_chgs key i [] = []"
| "hv_ip_chgs key i (ip # ips) =
     chg (key @ ''/'' @ IP_ADDR @ ''/'' @ utoa i) ip # hv_ip_chgs key (i + 1) ips"

definition hvPopulator :: "hypervisor populator" where
  "hvPopulator h chgs entityKey =
     (let key = getConfKey entityKey (h_ID h) in
      Ret (chgs
        @ populate_fields key (hv_value h) [rackKey, NAME, IP_ADDR, PORT_RANGE, SSH_PORT, ENABLE_RDMA]
        @ hv_ip_chgs key 0 (h_IPAddrs h)))"

fun pdu_value :: "pdu \<Rightarrow> string \<Rightarrow> string option" where
  "pdu_value p f =
     (if f = NAME then Some (p_Name p)
      else if f = LOCATION then Some (p_Location p)
      else if f = SPEC then Some (p_Specification p)
      else if f = POWER_CAP then Some (p_PowerCapacity p)
      else None)"

definition pduPopulator :: "pdu populator" where
  "pduPopulator p chgs entityKey =
     Ret (chgs @ [chg (getConfKey pduKey (p_ID p)) []]
       @ populate_fields (getConfKey entityKey (p_ID p)) (pdu_value p) [NAME, LOCATION, SPEC, POWER_CAP])"

fun nisd_args_value :: "nisd_args \<Rightarrow> string \<Rightarrow> string option" where
  "nisd_args_value a f =
     (if f = DEFRAG then Some (format_bool (na_Defrag a))
      else if f = MBCCnt then Some (itoa (na_MBCCnt a))
      else if f = MergeHCnt then Some (itoa (na_MergeHCnt a))
      else if f = MCIReadCache then Some (itoa (na_MCIBReadCache a))
      else if f = DSYNC then Some (na_DSync a)
      else if f = S3 then Some (na_S3 a)
      else if f = ALLOW_DEFRAG_MCIB_CACHE then Some (format_bool (na_AllowDefragMCIBCache a))
      else None)"

definition nisdArgsPopulator :: "nisd_args populator" where
  "nisdArgsPopulator a chgs entityKey =
     Ret (chgs @ populate_fields argsKey (nisd_args_value a)
            [DEFRAG, MBCCnt, MergeHCnt, MCIReadCache, S3, DSYNC, ALLOW_DEFRAG_MCIB_CACHE])"

fun vdev_value :: "vdev_config \<Rightarrow> string \<Rightarrow> string option" where
  "vdev_value v f =
     (if f = SIZE then Some (itoa (sint (v_Size v)))
      else if f = NUM_CHUNKS then Some (itoa (int (unat (v_ChunkCnt v))))
      else if f = TOTAL_DATA_BLKS then Some (itoa (int (unat (v_DataBlkCnt v))))
      else if f = TOTAL_PARITY_BLKS then Some (itoa (int (unat (v_ParityBlkCnt v))))
      else if f = REDUNDANCY_MODE then Some (itoa (v_Redundancy v))
      else if f = NAME then Some (v_Name v)
      else None)"

definition vdevPopulator :: "vdev_config populator" where
  "vdevPopulator v chgs entityKey =
     Ret (chgs @ populate_nonempty (getConfKey (getConfKey entityKey (v_ID v)) cfgkey) (vdev_value v)
            [SIZE, NUM_CHUNKS, TOTAL_DATA_BLKS, TOTAL_PARITY_BLKS, REDUNDANCY_MODE, NAME])"

text \<open>Every change a populator makes is a write.\<close>

lemma populate_fields_write: "c \<in> set (populate_fields key val fs) \<Longrightarrow> cc_Op c = OpApply"
  by (induction fs) (auto split: option.splits)

lemma populate_nonempty_write: "c \<in> set (populate_nonempty key val fs) \<Longrightarrow> cc_Op c = OpApply"
  by (auto simp: populate_nonempty_def dest: populate_fields_write)

lemma hv_ip_chgs_write: "c \<in> set (hv_ip_chgs key i ips) \<Longrightarrow> cc_Op c = OpApply"
  by (induction key i ips rule: hv_ip_chgs.induct) auto

text \<open>The entry a change writes.\<close>

definition entry :: "commit_chg \<Rightarrow> string \<times> string" where
  "entry c = (cc_Key c, cc_Value c)"

declare rack_value.simps [simp del] partition_value.simps [simp del] nisd_value.simps [simp del]
  device_value.simps [simp del] hv_value.simps [simp del] pdu_value.simps [simp del]
  nisd_args_value.simps [simp del] vdev_value.simps [simp del]

lemmas value_simps = rack_value.simps partition_value.simps nisd_value.simps device_value.simps
  hv_value.simps pdu_value.simps nisd_args_value.simps vdev_value.simps

end
