(* ===== verification/Alloc.thy ===== *)
theory Alloc
  imports Hierarchy Populate
begin

section \<open>Allocation of NISDs for a vdev\<close>

text \<open>
  The allocator of \<open>srvctlplanefuncs.go\<close>: a vdev has chunks, a chunk has blocks (replicas, or data and
  parity blocks), and every block is placed on a NISD. \<open>pick_state\<close> holds what the code passes by
  reference while it allocates: the allocation map, the device usage of the whole vdev, the sets of
  what the current chunk has picked, and the changes generated so far. The retry loop over the
  entities need not end, so it is a partial function: \<open>None\<close> is a call that does not return.
\<close>

record 'tm pick_state =
  ps_Map :: 'tm
  ps_Usage :: "string \<rightharpoonup> usage_info"
  ps_PickedN :: "string set"
  ps_PickedD :: "string set"
  ps_Chgs :: "commit_chg list"

definition genAllocationKV ::
  "string \<Rightarrow> string \<Rightarrow> chunk_type \<Rightarrow> string \<Rightarrow> int \<Rightarrow> commit_chg list \<Rightarrow> commit_chg list" where
  "genAllocationKV vid chunk chunkType nisdID i commitChgs =
     (let vcKey = getVdevChunkKey vid;
          nKey = nisdKey @ ''/'' @ nisdID @ ''/'' @ vid;
          rmode = ChunkPrefix chunkType
      in commitChgs
         @ [chg (vcKey @ ''/'' @ chunk @ ''/'' @ rmode @ ''.'' @ itoa i) nisdID]
         @ [chg nKey (rmode @ ''.'' @ itoa i @ ''.'' @ chunk)])"

text \<open>The type and sequence number of block \<open>i\<close> of a chunk.\<close>

definition block_type :: "vdev_config \<Rightarrow> nat \<Rightarrow> chunk_type \<times> int" where
  "block_type v i =
     (if v_Redundancy v = RMReplica then (Replica, int i)
      else if i < unat (v_DataBlkCnt v) then (Data, int i)
      else (Parity, int i - int (unat (v_DataBlkCnt v))))"

fun chunk_type_int :: "chunk_type \<Rightarrow> int" where
  "chunk_type_int Replica = 0"
| "chunk_type_int Data = 1"
| "chunk_type_int Parity = 2"
| "chunk_type_int (CT_Other n) = n"

text \<open>A device has been used for a block: mark it and account for it.\<close>

definition mark_device :: "device_alloc \<Rightarrow> 'tm pick_state \<Rightarrow> 'tm pick_state" where
  "mark_device dev st =
     (let info = (case ps_Usage st (da_ID dev) of
                    Some info \<Rightarrow> info
                  | None \<Rightarrow> \<lparr>du_Usage = 0, du_AvailableSize = da_AvailableSize dev\<rparr>)
      in st\<lparr>ps_PickedD := insert (da_ID dev) (ps_PickedD st),
            ps_Usage := (ps_Usage st)(da_ID dev \<mapsto>
              \<lparr>du_Usage = du_Usage info + 1, du_AvailableSize = du_AvailableSize info - CHUNK_SIZE\<rparr>)\<rparr>)"

text \<open>Phases 1 and 2: a device of the entity, then a NISD of the device.\<close>

definition pick_in_entity ::
  "('td, device_alloc) btree \<Rightarrow> ('tm, nisd_vdev_alloc) btree \<Rightarrow> (addr \<Rightarrow> nisd) \<Rightarrow> 'td entities \<Rightarrow> int \<Rightarrow> 'tm pick_state
   \<Rightarrow> (string + device_alloc \<times> nisd_vdev_alloc) \<times> 'tm pick_state" where
  "pick_in_entity DO MO mem ent devOffset st =
     (case PickDevice DO ent (ps_PickedD st) (ps_Usage st) devOffset of
        Inl err \<Rightarrow> (Inl err, st)
      | Inr dev \<Rightarrow>
          (case PickNISDFromDevice MO mem dev (ps_PickedN st) (ps_Map st) of
             (Inl err, pickedN, nisdMap) \<Rightarrow> (Inl err, st\<lparr>ps_PickedN := pickedN, ps_Map := nisdMap\<rparr>)
           | (Inr na, pickedN, nisdMap) \<Rightarrow> (Inr (dev, na), st\<lparr>ps_PickedN := pickedN, ps_Map := nisdMap\<rparr>)))"

definition gen_block :: "vdev_config \<Rightarrow> nat \<Rightarrow> nat \<Rightarrow> string \<Rightarrow> commit_chg list \<Rightarrow> commit_chg list" where
  "gen_block v chunkIdx i nisdID chgs =
     genAllocationKV (v_ID v) (utoa chunkIdx) (fst (block_type v i)) nisdID (snd (block_type v i)) chgs"

text \<open>The filtered path: every block inside the one entity that the filter names.\<close>

fun filtered_blocks ::
  "('td, device_alloc) btree \<Rightarrow> ('tm, nisd_vdev_alloc) btree \<Rightarrow> (addr \<Rightarrow> nisd) \<Rightarrow> vdev_config \<Rightarrow> nat \<Rightarrow> int
   \<Rightarrow> 'td entities \<Rightarrow> nat list \<Rightarrow> 'tm pick_state \<Rightarrow> unit go \<times> 'tm pick_state" where
  "filtered_blocks DO MO mem v chunkIdx offset en [] st = (Ret (), st)"
| "filtered_blocks DO MO mem v chunkIdx offset en (i # is) st =
     (case pick_in_entity DO MO mem en (int chunkIdx + offset + int i) st of
        (Inl err, st1) \<Rightarrow> (Fail err, st1)
      | (Inr (dev, na), st1) \<Rightarrow>
          filtered_blocks DO MO mem v chunkIdx offset en is
            (mark_device dev (st1\<lparr>ps_Chgs := gen_block v chunkIdx i (n_ID (mem (nva_Ptr na))) (ps_Chgs st1)\<rparr>)))"

text \<open>
  The loop \<open>for tried < treeLen\<close>: \<open>used\<close> is \<open>pickedEntity\<close>; a used entity is skipped without counting as
  an attempt. The result is the entity and NISD picked (none: the last error), the next entity index
  and the state.
\<close>

partial_function (option) entity_loop ::
  "('te, 'td entities) btree \<Rightarrow> ('td, device_alloc) btree \<Rightarrow> ('tm, nisd_vdev_alloc) btree \<Rightarrow> (addr \<Rightarrow> nisd)
   \<Rightarrow> 'te \<Rightarrow> nat \<Rightarrow> nat \<Rightarrow> int \<Rightarrow> nat set \<Rightarrow> nat \<Rightarrow> nat \<Rightarrow> 'tm pick_state \<Rightarrow> string
   \<Rightarrow> ((string + nat \<times> nisd_vdev_alloc) \<times> nat \<times> 'tm pick_state) option" where
  "entity_loop EO DO MO mem tree treeLen fd devOffset used tried entityIdx st lastErr =
     (if tried < treeLen then
        (let curIdx = entityIdx; next = (entityIdx + 1) mod treeLen in
         if curIdx \<in> used
         then entity_loop EO DO MO mem tree treeLen fd devOffset used tried next st lastErr
         else
           (case bt_at EO tree (int curIdx) of
              None \<Rightarrow>
                entity_loop EO DO MO mem tree treeLen fd devOffset used (tried + 1) next st
                  (''failed to fetch entity idx='' @ utoa curIdx @ '' fd='' @ utoa fd)
            | Some ent \<Rightarrow>
                (case pick_in_entity DO MO mem ent devOffset st of
                   (Inl err, st1) \<Rightarrow>
                     entity_loop EO DO MO mem tree treeLen fd devOffset used (tried + 1) next st1 err
                 | (Inr (dev, na), st1) \<Rightarrow> Some (Inr (curIdx, na), next, mark_device dev st1))))
      else Some (Inl lastErr, entityIdx, st))"

fun alloc_blocks ::
  "('te, 'td entities) btree \<Rightarrow> ('td, device_alloc) btree \<Rightarrow> ('tm, nisd_vdev_alloc) btree \<Rightarrow> (addr \<Rightarrow> nisd)
   \<Rightarrow> 'te \<Rightarrow> nat \<Rightarrow> nat \<Rightarrow> vdev_config \<Rightarrow> nat \<Rightarrow> int \<Rightarrow> nat list \<Rightarrow> nat set \<Rightarrow> nat \<Rightarrow> 'tm pick_state
   \<Rightarrow> (unit go \<times> 'tm pick_state) option" where
  "alloc_blocks EO DO MO mem tree treeLen fd v chunkIdx offset [] used entityIdx st = Some (Ret (), st)"
| "alloc_blocks EO DO MO mem tree treeLen fd v chunkIdx offset (i # is) used entityIdx st =
     (case entity_loop EO DO MO mem tree treeLen fd (int chunkIdx + offset + int i) used 0 entityIdx st
             ''no entity attempted'' of
        None \<Rightarrow> None
      | Some (Inl lastErr, _, st1) \<Rightarrow>
          Some (Fail (''failed to allocate block '' @ utoa i @ '' (type '' @
                  itoa (chunk_type_int (fst (block_type v i))) @ '') for chunk '' @ utoa chunkIdx @ '': '' @ lastErr), st1)
      | Some (Inr (picked, na), next, st1) \<Rightarrow>
          alloc_blocks EO DO MO mem tree treeLen fd v chunkIdx offset is (insert picked used) next
            (st1\<lparr>ps_Chgs := gen_block v chunkIdx i (n_ID (mem (nva_Ptr na))) (ps_Chgs st1),
                 ps_PickedN := insert (n_ID (mem (nva_Ptr na))) (ps_PickedN st1)\<rparr>))"

text \<open>One chunk: the sets of picked NISDs, devices and entities start empty.\<close>

definition allocateNisdPerChunk ::
  "('te, 'td entities) btree \<Rightarrow> ('td, device_alloc) btree \<Rightarrow> ('tm, nisd_vdev_alloc) btree \<Rightarrow> 'te hier
   \<Rightarrow> vdev_config \<Rightarrow> filter_req \<Rightarrow> int \<Rightarrow> nat \<Rightarrow> int \<Rightarrow> 'tm pick_state \<Rightarrow> (unit go \<times> 'tm pick_state) option" where
  "allocateNisdPerChunk EO DO MO hs v ft fd chunkIdx offset st0 =
     (if fd < 0 \<or> fd \<ge> int FD_MAX then Some (Fail (''invalid failure domain: '' @ itoa fd), st0)
      else
        let st = st0\<lparr>ps_PickedN := {}, ps_PickedD := {}\<rparr>;
            tree = fd_Tree (hs_FD hs ! nat fd);
            treeLen = bt_len EO tree
        in if treeLen = 0 then Some (Fail (''no entities available in failure domain '' @ itoa fd), st)
        else
          let totalBlocks = nat (TotalRedundancyBlocksPerChunk v) in
          if f_ID ft \<noteq> [] then
            (case GetEntityByID EO ft hs of
               Fail err \<Rightarrow> Some (Fail err, st)
             | Panic \<Rightarrow> Some (Panic, st)
             | Ret en \<Rightarrow> Some (filtered_blocks DO MO (hs_Mem hs) v chunkIdx offset en [0..<totalBlocks] st))
          else
            (case GetIdxForNisdAlloc (NisdAllocHash (v_ID v @ utoa chunkIdx)) treeLen of
               Fail err \<Rightarrow> Some (Fail err, st)
             | Panic \<Rightarrow> Some (Panic, st)
             | Ret startIdx \<Rightarrow>
                 alloc_blocks EO DO MO (hs_Mem hs) tree treeLen (nat fd) v chunkIdx offset
                   [0..<totalBlocks] {} startIdx st))"

fun alloc_chunks ::
  "('te, 'td entities) btree \<Rightarrow> ('td, device_alloc) btree \<Rightarrow> ('tm, nisd_vdev_alloc) btree \<Rightarrow> 'te hier
   \<Rightarrow> vdev_config \<Rightarrow> filter_req \<Rightarrow> int \<Rightarrow> int \<Rightarrow> nat list \<Rightarrow> 'tm pick_state \<Rightarrow> (unit go \<times> 'tm pick_state) option" where
  "alloc_chunks EO DO MO hs v ft fd offset [] st = Some (Ret (), st)"
| "alloc_chunks EO DO MO hs v ft fd offset (i # is) st =
     (case allocateNisdPerChunk EO DO MO hs v ft fd i offset st of
        None \<Rightarrow> None
      | Some (Ret (), st1) \<Rightarrow> alloc_chunks EO DO MO hs v ft fd offset is st1
      | Some (Fail err, st1) \<Rightarrow> Some (Fail (''failed to allocate nisd from fd: '' @ itoa fd @ '', '' @ err), st1)
      | Some (Panic, st1) \<Rightarrow> Some (Panic, st1))"

text \<open>The changes of a whole vdev, and the allocation map as it is left also after an error.\<close>

definition allocateNisdPerVdev ::
  "('te, 'td entities) btree \<Rightarrow> ('td, device_alloc) btree \<Rightarrow> ('tm, nisd_vdev_alloc) btree \<Rightarrow> 'te hier
   \<Rightarrow> vdev_config \<Rightarrow> filter_req \<Rightarrow> int \<Rightarrow> 'tm \<Rightarrow> int \<Rightarrow> (commit_chg list go \<times> 'tm) option" where
  "allocateNisdPerVdev EO DO MO hs v ft fd nisdMap offset =
     (case alloc_chunks EO DO MO hs v ft fd offset [0..<unat (v_ChunkCnt v)]
             \<lparr>ps_Map = nisdMap, ps_Usage = Map.empty, ps_PickedN = {}, ps_PickedD = {}, ps_Chgs = []\<rparr> of
        None \<Rightarrow> None
      | Some (Ret (), st) \<Rightarrow> Some (Ret (ps_Chgs st), ps_Map st)
      | Some (Fail err, st) \<Rightarrow> Some (Fail err, ps_Map st)
      | Some (Panic, st) \<Rightarrow> Some (Panic, ps_Map st))"

definition allocateNisdsAtFailureDomain ::
  "('te, 'td entities) btree \<Rightarrow> ('td, device_alloc) btree \<Rightarrow> ('tm, nisd_vdev_alloc) btree \<Rightarrow> 'te hier
   \<Rightarrow> vdev_config \<Rightarrow> filter_req \<Rightarrow> int \<Rightarrow> 'tm \<Rightarrow> commit_chg list \<Rightarrow> int \<Rightarrow> (unit go \<times> 'tm \<times> commit_chg list) option" where
  "allocateNisdsAtFailureDomain EO DO MO hs v ft fd allocMap txn offset =
     (case allocateNisdPerVdev EO DO MO hs v ft fd allocMap offset of
        None \<Rightarrow> None
      | Some (Ret changes, m) \<Rightarrow> Some (Ret (), m, txn @ changes)
      | Some (Fail err, m) \<Rightarrow> Some (Fail err, m, txn)
      | Some (Panic, m) \<Rightarrow> Some (Panic, m, txn))"

fun fd_loop ::
  "('te, 'td entities) btree \<Rightarrow> ('td, device_alloc) btree \<Rightarrow> ('tm, nisd_vdev_alloc) btree \<Rightarrow> 'te hier
   \<Rightarrow> vdev_config \<Rightarrow> filter_req \<Rightarrow> int \<Rightarrow> int list \<Rightarrow> 'tm \<Rightarrow> commit_chg list \<Rightarrow> (unit go \<times> 'tm \<times> commit_chg list) option" where
  "fd_loop EO DO MO hs v ft offset [] m txn = Some (Fail (''unable to allocate NISDs for vdev '' @ v_ID v), m, txn)"
| "fd_loop EO DO MO hs v ft offset (fd # fds) m txn =
     (case allocateNisdsAtFailureDomain EO DO MO hs v ft fd m txn offset of
        None \<Rightarrow> None
      | Some (Ret (), m1, txn1) \<Rightarrow> Some (Ret (), m1, txn1)
      | Some (Fail err, m1, txn1) \<Rightarrow> fd_loop EO DO MO hs v ft offset fds (bt_new MO) txn1
      | Some (Panic, m1, txn1) \<Rightarrow> Some (Panic, m1, txn1))"

definition AllocNISDs ::
  "('te, 'td entities) btree \<Rightarrow> ('td, device_alloc) btree \<Rightarrow> ('tm, nisd_vdev_alloc) btree \<Rightarrow> 'te hier
   \<Rightarrow> vdev_config \<Rightarrow> filter_req \<Rightarrow> 'tm \<Rightarrow> commit_chg list \<Rightarrow> int \<Rightarrow> (unit go \<times> 'tm \<times> commit_chg list) option" where
  "AllocNISDs EO DO MO hs v ft allocMap txn offset =
     (if f_Type ft \<noteq> FD_ANY
      then allocateNisdsAtFailureDomain EO DO MO hs v ft (GetFDIdx (f_Type ft)) allocMap txn offset
      else (case GetFDLevel EO (TotalRedundancyBlocksPerChunk v) hs of
              Fail err \<Rightarrow> Some (Fail (''failed to resolve failure domain: '' @ err), allocMap, txn)
            | Panic \<Rightarrow> Some (Panic, allocMap, txn)
            | Ret startFD \<Rightarrow> fd_loop EO DO MO hs v ft offset (map int [nat startFD..<FD_MAX]) allocMap txn))"

subsection \<open>Committing an allocation\<close>

definition alloc_chgs :: "('tm, nisd_vdev_alloc) btree \<Rightarrow> (addr \<Rightarrow> nisd) \<Rightarrow> 'tm \<Rightarrow> commit_chg list" where
  "alloc_chgs MO mem allocMap =
     map (\<lambda>(_, na). chg (getConfKey (getConfKey NisdCfgKey (n_ID (mem (nva_Ptr na)))) AVAIL_SPACE)
                        (itoa (sint (nva_AvailableSize na)))) (bt_items MO allocMap)"

definition commitAllocChgs ::
  "'s data_store \<Rightarrow> ('tm, nisd_vdev_alloc) btree \<Rightarrow> (addr \<Rightarrow> nisd) \<Rightarrow> commit_chg list \<Rightarrow> 'tm \<Rightarrow> 's \<Rightarrow> string option \<times> 's" where
  "commitAllocChgs ds MO mem txn allocMap s = applyKV ds (txn @ alloc_chgs MO mem allocMap) s"

text \<open>The first of the failure domain identifiers whose entity in the tree has the device.\<close>

fun bump_tree ::
  "('te, 'td entities) btree \<Rightarrow> ('td, device_alloc) btree \<Rightarrow> string \<Rightarrow> int64 \<Rightarrow> string list \<Rightarrow> 'te \<Rightarrow> 'te" where
  "bump_tree EO DO devID delta [] tree = tree"
| "bump_tree EO DO devID delta (fdID # ids) tree =
     (case bt_get EO tree fdID of
        None \<Rightarrow> bump_tree EO DO devID delta ids tree
      | Some ent \<Rightarrow>
          (case bt_get DO (en_Devices ent) devID of
             None \<Rightarrow> bump_tree EO DO devID delta ids tree
           | Some dn \<Rightarrow>
               bt_set EO tree fdID (ent\<lparr>en_Devices := bt_set DO (en_Devices ent) devID
                 (dn\<lparr>da_AvailableSize := da_AvailableSize dn + delta\<rparr>)\<rparr>)))"

definition apply_one ::
  "('te, 'td entities) btree \<Rightarrow> ('td, device_alloc) btree \<Rightarrow> 'te hier \<Rightarrow> nisd_vdev_alloc \<Rightarrow> 'te hier" where
  "apply_one EO DO hs na =
     (let n = hs_Mem hs (nva_Ptr na);
          delta = nva_AvailableSize na - n_AvailableSize n;
          hs1 = hs\<lparr>hs_Mem := (hs_Mem hs)(nva_Ptr na := n\<lparr>n_AvailableSize := nva_AvailableSize na\<rparr>)\<rparr>
      in if nva_AvailableSize na <s CHUNK_SIZE then DeleteNisd EO DO (nva_Ptr na) hs1
         else hs1\<lparr>hs_FD := map (\<lambda>f. f\<lparr>fd_Tree :=
                bump_tree EO DO (n_FailureDomain n ! DEVICE_IDX) delta (n_FailureDomain n) (fd_Tree f)\<rparr>) (hs_FD hs1)\<rparr>)"

definition applyNISDAlloc ::
  "('te, 'td entities) btree \<Rightarrow> ('td, device_alloc) btree \<Rightarrow> ('tm, nisd_vdev_alloc) btree \<Rightarrow> 'tm \<Rightarrow> 'te hier \<Rightarrow> 'te hier" where
  "applyNISDAlloc EO DO MO allocMap hs =
     foldl (\<lambda>hs (_, na). apply_one EO DO hs na) hs (bt_items MO allocMap)"

end
