(* ===== verification/HierarchyInv.thy ===== *)
theory HierarchyInv
  imports Hierarchy
begin

section \<open>The hierarchy as a set of placements\<close>

text \<open>
  The invariant of the hierarchy (\<open>hier_ok\<close>) and its abstraction: the set \<open>habs\<close> of tuples (level,
  entity, device, NISD). \<open>AddNisd\<close> and \<open>DeleteNisd\<close> refine insertion and removal on that set and
  preserve the invariant, which includes that the free size of a device is the sum of the free
  sizes of its NISDs.
\<close>

subsection \<open>Laws of the trees\<close>

lemma btree_laws:
  assumes "btree_ok B"
  shows "bt_get B (bt_new B) = Map.empty"
    and "bt_get B (bt_set B t k v) = (bt_get B t)(k \<mapsto> v)"
    and "bt_get B (bt_del B t k) = (bt_get B t)(k := None)"
    and "map_of (bt_items B t) = bt_get B t"
    and "distinct (map fst (bt_items B t))"
    and "bt_len B t = length (bt_items B t)"
    and "bt_at B t i = (if 0 \<le> i \<and> i < int (length (bt_items B t)) then Some (snd (bt_items B t ! nat i)) else None)"
  using assms by (simp_all add: btree_ok_def)

lemma btree_items_iff: "btree_ok B \<Longrightarrow> (k, v) \<in> set (bt_items B t) \<longleftrightarrow> bt_get B t k = Some v"
  by (metis btree_laws(4,5) map_of_eq_Some_iff)

lemma btree_empty_iff: "btree_ok B \<Longrightarrow> bt_len B t = 0 \<longleftrightarrow> bt_get B t = Map.empty"
proof -
  assume ok: "btree_ok B"
  have "bt_items B t = [] \<longleftrightarrow> map_of (bt_items B t) = Map.empty"
    by (metis map_of.simps(1) map_of_eq_empty_iff)
  with btree_laws(4,6)[OF ok] show ?thesis by simp
qed

subsection \<open>Devices\<close>

definition nisd_ids :: "(addr \<Rightarrow> nisd) \<Rightarrow> addr list \<Rightarrow> string list" where
  "nisd_ids mem as = map (\<lambda>a. n_ID (mem a)) as"

definition dev_ok :: "(addr \<Rightarrow> nisd) \<Rightarrow> device_alloc \<Rightarrow> bool" where
  "dev_ok mem dn \<longleftrightarrow>
     da_AvailableSize dn = sum_list (map (\<lambda>a. n_AvailableSize (mem a)) (da_Nisds dn)) \<and>
     distinct (nisd_ids mem (da_Nisds dn))"

lemma find_nisd_Some:
  "find_nisd mem nid as = Some i \<Longrightarrow> i < length as \<and> n_ID (mem (as ! i)) = nid"
  by (induction as arbitrary: i) (auto split: if_splits)

lemma find_nisd_None: "find_nisd mem nid as = None \<longleftrightarrow> (\<forall>a \<in> set as. n_ID (mem a) \<noteq> nid)"
  by (induction as) auto

lemma sum_list_map_update:
  fixes f :: "'a \<Rightarrow> 'b::ab_group_add"
  shows "i < length xs \<Longrightarrow> sum_list (map f (xs[i := x])) = sum_list (map f xs) + (f x - f (xs ! i))"
  by (induction xs arbitrary: i) (auto simp: algebra_simps split: nat.split)

lemma sum_list_map_remove:
  fixes f :: "'a \<Rightarrow> 'b::ab_group_add"
  shows "i < length xs \<Longrightarrow> sum_list (map f (take i xs @ drop (i + 1) xs)) = sum_list (map f xs) - f (xs ! i)"
proof -
  assume i: "i < length xs"
  then have "sum_list (map f xs) = sum_list (map f (take i xs @ xs ! i # drop (Suc i) xs))"
    by (simp add: id_take_nth_drop[symmetric])
  then show ?thesis by (simp add: algebra_simps)
qed

lemma set_remove_nth:
  "distinct (map g xs) \<Longrightarrow> i < length xs \<Longrightarrow> set (take i xs @ drop (i + 1) xs) = {x \<in> set xs. g x \<noteq> g (xs ! i)}"
proof -
  assume d: "distinct (map g xs)" and i: "i < length xs"
  then have xs: "xs = take i xs @ xs ! i # drop (Suc i) xs" by (simp add: id_take_nth_drop)
  with d have "distinct (map g (take i xs @ xs ! i # drop (Suc i) xs))" by simp
  then have "\<forall>x \<in> set (take i xs) \<union> set (drop (Suc i) xs). g x \<noteq> g (xs ! i)"
    by (metis (no_types, lifting) Un_iff distinct.simps(2) distinct_append disjoint_iff imageI
        list.set_intros(1) list.simps(9) map_append set_map)
  moreover have "set xs = set (take i xs) \<union> {xs ! i} \<union> set (drop (Suc i) xs)"
    using arg_cong[OF xs, of set] by auto
  ultimately show ?thesis by auto
qed

lemma distinct_remove_nth: "distinct xs \<Longrightarrow> distinct (take i xs @ drop (i + 1) xs)"
  by (auto simp: set_take_disj_set_drop_if_distinct)

lemma addNisdToDevice_ok:
  assumes "dev_ok mem dn"
  shows "dev_ok mem (addNisdToDevice mem dn n)"
    and "set (da_Nisds (addNisdToDevice mem dn n)) = insert n {a \<in> set (da_Nisds dn). n_ID (mem a) \<noteq> n_ID (mem n)}"
    and "da_ID (addNisdToDevice mem dn n) = da_ID dn"
proof -
  let ?dn = "addNisdToDevice mem dn n"
  have d: "distinct (map (\<lambda>a. n_ID (mem a)) (da_Nisds dn))" using assms by (simp add: dev_ok_def nisd_ids_def)
  show "da_ID ?dn = da_ID dn" by (simp add: addNisdToDevice_def split: option.split)
  show "dev_ok mem ?dn"
  proof (cases "find_nisd mem (n_ID (mem n)) (da_Nisds dn)")
    case None
    with assms show ?thesis
      using None[unfolded find_nisd_None]
      by (auto simp only: addNisdToDevice_def option.case) (auto simp: dev_ok_def nisd_ids_def)
  next
    case (Some i)
    from find_nisd_Some[OF this] have i: "i < length (da_Nisds dn)" "n_ID (mem (da_Nisds dn ! i)) = n_ID (mem n)" by auto
    then have "map (\<lambda>a. n_ID (mem a)) ((da_Nisds dn)[i := n]) = map (\<lambda>a. n_ID (mem a)) (da_Nisds dn)"
      by (simp add: map_update list_update_same_conv)
    with Some i d assms show ?thesis
      by (simp add: addNisdToDevice_def dev_ok_def nisd_ids_def sum_list_map_update)
  qed
  show "set (da_Nisds ?dn) = insert n {a \<in> set (da_Nisds dn). n_ID (mem a) \<noteq> n_ID (mem n)}"
  proof (cases "find_nisd mem (n_ID (mem n)) (da_Nisds dn)")
    case None
    with None[unfolded find_nisd_None] show ?thesis by (auto simp: addNisdToDevice_def)
  next
    case (Some i)
    from find_nisd_Some[OF this] have i: "i < length (da_Nisds dn)" "n_ID (mem (da_Nisds dn ! i)) = n_ID (mem n)" by auto
    have "set ((da_Nisds dn)[i := n]) = insert n (set (take i (da_Nisds dn) @ drop (i + 1) (da_Nisds dn)))"
      using i(1) by (simp add: upd_conv_take_nth_drop Un_commute)
    also have "\<dots> = insert n {a \<in> set (da_Nisds dn). n_ID (mem a) \<noteq> n_ID (mem n)}"
      using set_remove_nth[OF d i(1)] i(2) by simp
    finally show ?thesis using Some by (simp add: addNisdToDevice_def)
  qed
qed

lemma removeNisdFromDevice_ok:
  assumes "dev_ok mem dn" and "removeNisdFromDevice mem dn nid = (emp, dn')"
  shows "dev_ok mem dn'" and "set (da_Nisds dn') = {a \<in> set (da_Nisds dn). n_ID (mem a) \<noteq> nid}"
    and "da_ID dn' = da_ID dn" and "emp = (da_Nisds dn' = [])"
proof -
  have d: "distinct (map (\<lambda>a. n_ID (mem a)) (da_Nisds dn))" using assms by (simp add: dev_ok_def nisd_ids_def)
  have "dev_ok mem dn' \<and> set (da_Nisds dn') = {a \<in> set (da_Nisds dn). n_ID (mem a) \<noteq> nid} \<and>
    da_ID dn' = da_ID dn \<and> emp = (da_Nisds dn' = [])"
  proof (cases "find_nisd mem nid (da_Nisds dn)")
    case None
    with assms None[unfolded find_nisd_None] show ?thesis by (auto simp: removeNisdFromDevice_def)
  next
    case (Some i)
    from find_nisd_Some[OF this] have i: "i < length (da_Nisds dn)" "n_ID (mem (da_Nisds dn ! i)) = nid" by auto
    let ?ns = "take i (da_Nisds dn) @ drop (i + 1) (da_Nisds dn)"
    have dn': "dn' = dn\<lparr>da_AvailableSize := da_AvailableSize dn - n_AvailableSize (mem (da_Nisds dn ! i)), da_Nisds := ?ns\<rparr>"
      "emp = (?ns = [])"
      using assms(2) Some by (auto simp: removeNisdFromDevice_def Let_def)
    have "distinct (nisd_ids mem ?ns)"
      using distinct_remove_nth[OF d, of i] by (simp add: nisd_ids_def take_map drop_map)
    moreover have "set ?ns = {a \<in> set (da_Nisds dn). n_ID (mem a) \<noteq> nid}"
      using set_remove_nth[OF d i(1)] i(2) by simp
    moreover have "da_AvailableSize dn - n_AvailableSize (mem (da_Nisds dn ! i)) = sum_list (map (\<lambda>a. n_AvailableSize (mem a)) ?ns)"
      using assms(1) sum_list_map_remove[OF i(1), of "\<lambda>a. n_AvailableSize (mem a)"] by (simp add: dev_ok_def)
    ultimately show ?thesis unfolding dn' dev_ok_def by simp
  qed
  then show "dev_ok mem dn'" "set (da_Nisds dn') = {a \<in> set (da_Nisds dn). n_ID (mem a) \<noteq> nid}"
    "da_ID dn' = da_ID dn" "emp = (da_Nisds dn' = [])" by auto
qed

subsection \<open>Trees\<close>

text \<open>
  What a tree of level \<open>i\<close> satisfies: entries are filed under their identifiers, no entity is without
  a device and no device without a NISD, and a NISD sits where its failure domains say.
\<close>

definition ent_ok :: "('td, device_alloc) btree \<Rightarrow> (addr \<Rightarrow> nisd) \<Rightarrow> nat \<Rightarrow> string \<Rightarrow> 'td entities \<Rightarrow> bool" where
  "ent_ok DO mem i eid e \<longleftrightarrow>
     en_ID e = eid \<and> bt_get DO (en_Devices e) \<noteq> Map.empty \<and>
     (\<forall>did dn. bt_get DO (en_Devices e) did = Some dn \<longrightarrow>
        da_ID dn = did \<and> dev_ok mem dn \<and> da_Nisds dn \<noteq> [] \<and>
        (\<forall>a \<in> set (da_Nisds dn). n_FailureDomain (mem a) ! i = eid \<and> n_FailureDomain (mem a) ! DEVICE_IDX = did))"

definition tree_ok ::
  "('te, 'td entities) btree \<Rightarrow> ('td, device_alloc) btree \<Rightarrow> (addr \<Rightarrow> nisd) \<Rightarrow> nat \<Rightarrow> 'te \<Rightarrow> bool" where
  "tree_ok EO DO mem i t \<longleftrightarrow> (\<forall>eid e. bt_get EO t eid = Some e \<longrightarrow> ent_ok DO mem i eid e)"

definition tabs :: "('te, 'td entities) btree \<Rightarrow> ('td, device_alloc) btree \<Rightarrow> 'te \<Rightarrow> (string \<times> string \<times> addr) set" where
  "tabs EO DO t =
     {(eid, did, a). \<exists>e dn. bt_get EO t eid = Some e \<and> bt_get DO (en_Devices e) did = Some dn \<and> a \<in> set (da_Nisds dn)}"

lemma add_to_tree_eq:
  assumes "btree_ok EO" "btree_ok DO"
  shows "add_to_tree EO DO mem devID n eid t =
    (let e = (case bt_get EO t eid of Some e \<Rightarrow> e | None \<Rightarrow> \<lparr>en_ID = eid, en_Devices = bt_new DO\<rparr>);
         t1 = (case bt_get EO t eid of Some e \<Rightarrow> t | None \<Rightarrow> bt_set EO t eid e);
         dn = (case bt_get DO (en_Devices e) devID of Some dn \<Rightarrow> dn
               | None \<Rightarrow> \<lparr>da_ID = devID, da_AvailableSize = 0, da_Nisds = []\<rparr>);
         ds = (case bt_get DO (en_Devices e) devID of Some _ \<Rightarrow> en_Devices e | None \<Rightarrow> bt_set DO (en_Devices e) devID dn)
     in bt_set EO t1 eid (e\<lparr>en_Devices := bt_set DO ds devID (addNisdToDevice mem dn n)\<rparr>))"
  by (auto simp: add_to_tree_def getOrCreateEntity_def getOrCreateDeviceInEntity_def Let_def split: option.splits)

lemma add_to_tree_refines:
  assumes EO: "btree_ok EO" and DO: "btree_ok DO" and ok: "tree_ok EO DO mem i t"
    and fd: "n_FailureDomain (mem n) ! i = eid" "n_FailureDomain (mem n) ! DEVICE_IDX = devID"
  shows "tree_ok EO DO mem i (add_to_tree EO DO mem devID n eid t)" (is ?ok)
    and "tabs EO DO (add_to_tree EO DO mem devID n eid t) =
      insert (eid, devID, n)
        {(e, d, a) \<in> tabs EO DO t. \<not> (e = eid \<and> d = devID \<and> n_ID (mem a) = n_ID (mem n))}" (is ?abs)
proof -
  define e0 where "e0 = (case bt_get EO t eid of Some e \<Rightarrow> e | None \<Rightarrow> \<lparr>en_ID = eid, en_Devices = bt_new DO\<rparr>)"
  define dn0 where "dn0 = (case bt_get DO (en_Devices e0) devID of Some dn \<Rightarrow> dn
      | None \<Rightarrow> \<lparr>da_ID = devID, da_AvailableSize = 0, da_Nisds = []\<rparr>)"
  define ds0 where "ds0 = (case bt_get DO (en_Devices e0) devID of Some _ \<Rightarrow> en_Devices e0
      | None \<Rightarrow> bt_set DO (en_Devices e0) devID dn0)"
  define e' where "e' = e0\<lparr>en_Devices := bt_set DO ds0 devID (addNisdToDevice mem dn0 n)\<rparr>"
  let ?t = "add_to_tree EO DO mem devID n eid t"
  have g: "bt_get EO ?t = (bt_get EO t)(eid \<mapsto> e')"
    unfolding add_to_tree_eq[OF EO DO] Let_def e'_def ds0_def dn0_def e0_def
    by (cases "bt_get EO t eid") (auto simp: btree_laws[OF EO])
  have "en_ID e' = eid" using ok by (auto simp: e'_def e0_def tree_ok_def ent_ok_def split: option.split)
  moreover have "bt_get DO (en_Devices e') = (bt_get DO (en_Devices e0))(devID \<mapsto> addNisdToDevice mem dn0 n)"
    by (cases "bt_get DO (en_Devices e0) devID") (auto simp: e'_def ds0_def btree_laws[OF DO])
  ultimately have e': "en_ID e' = eid"
    "bt_get DO (en_Devices e') = (bt_get DO (en_Devices e0))(devID \<mapsto> addNisdToDevice mem dn0 n)" by auto
  have old: "da_ID dn = did \<and> dev_ok mem dn \<and> da_Nisds dn \<noteq> [] \<and>
      (\<forall>a \<in> set (da_Nisds dn). n_FailureDomain (mem a) ! i = eid \<and> n_FailureDomain (mem a) ! DEVICE_IDX = did)"
    if "bt_get DO (en_Devices e0) did = Some dn" for did dn
    using that ok btree_laws(1)[OF DO]
    by (cases "bt_get EO t eid") (auto simp: e0_def tree_ok_def ent_ok_def)
  have dn: "dev_ok mem dn0" "da_ID dn0 = devID"
    "\<forall>a \<in> set (da_Nisds dn0). n_FailureDomain (mem a) ! i = eid \<and> n_FailureDomain (mem a) ! DEVICE_IDX = devID"
    using old[of devID] by (auto simp: dn0_def dev_ok_def nisd_ids_def split: option.split)
  note add = addNisdToDevice_ok[OF dn(1), of n]
  have ent: "ent_ok DO mem i eid e'"
    unfolding ent_ok_def e' using add dn fd old by auto
  show ?ok using ok ent unfolding tree_ok_def g by simp
  have te: "(e, d, a) \<in> tabs EO DO t \<longleftrightarrow> (\<exists>dn. bt_get DO (en_Devices e0) d = Some dn \<and> a \<in> set (da_Nisds dn))" if "e = eid" for e d a
    using that by (cases "bt_get EO t eid") (auto simp: tabs_def e0_def btree_laws[OF DO])
  have te': "(e, d, a) \<in> tabs EO DO ?t \<longleftrightarrow> (\<exists>dn. ((bt_get DO (en_Devices e0))(devID \<mapsto> addNisdToDevice mem dn0 n)) d = Some dn \<and> a \<in> set (da_Nisds dn))" if "e = eid" for e d a
    using that by (simp add: tabs_def g e')
  have to: "(e, d, a) \<in> tabs EO DO ?t \<longleftrightarrow> (e, d, a) \<in> tabs EO DO t" if "e \<noteq> eid" for e d a
    using that by (simp add: tabs_def g)
  have dd: "a \<in> set (da_Nisds dn0) \<longleftrightarrow> (eid, devID, a) \<in> tabs EO DO t" for a
    unfolding te[OF refl] by (cases "bt_get DO (en_Devices e0) devID") (auto simp: dn0_def)
  have "(e, d, a) \<in> tabs EO DO ?t \<longleftrightarrow> (e, d, a) = (eid, devID, n) \<or>
      ((e, d, a) \<in> tabs EO DO t \<and> \<not> (e = eid \<and> d = devID \<and> n_ID (mem a) = n_ID (mem n)))" for e d a
  proof (cases "e = eid")
    case False
    then show ?thesis using to by auto
  next
    case True
    show ?thesis
    proof (cases "d = devID")
      case d: True
      have "(e, d, a) \<in> tabs EO DO ?t \<longleftrightarrow> a \<in> set (da_Nisds (addNisdToDevice mem dn0 n))"
        unfolding te'[OF True] d by simp
      then show ?thesis unfolding add(2) using True d dd by auto
    next
      case False
      then show ?thesis unfolding te'[OF True] te[OF True] using True by simp
    qed
  qed
  then show ?abs by auto
qed


lemma del_from_tree_refines:
  assumes EO: "btree_ok EO" and DO: "btree_ok DO" and ok: "tree_ok EO DO mem i t"
  shows "tree_ok EO DO mem i (del_from_tree EO DO mem devID nid eid t)" (is ?ok)
    and "tabs EO DO (del_from_tree EO DO mem devID nid eid t) =
      {(e, d, a) \<in> tabs EO DO t. \<not> (e = eid \<and> d = devID \<and> n_ID (mem a) = nid)}" (is ?abs)
proof -
  let ?t = "del_from_tree EO DO mem devID nid eid t"
  show ?ok ?abs
  proof (atomize (full), cases "bt_get EO t eid")
    case None
    then show "?ok \<and> ?abs" using ok by (auto simp: del_from_tree_def tabs_def)
  next
    case (Some e)
    note e = this
    show "?ok \<and> ?abs"
    proof (cases "bt_get DO (en_Devices e) devID")
      case None
      with e ok show ?thesis by (auto simp: del_from_tree_def tabs_def)
    next
      case (Some dn)
      note dn = this
      obtain emp dn1 where rm: "removeNisdFromDevice mem dn nid = (emp, dn1)" by fastforce
      from ok e have ent: "ent_ok DO mem i eid e" by (simp add: tree_ok_def)
      with dn have dnok: "da_ID dn = devID" "dev_ok mem dn" by (auto simp: ent_ok_def)
      note r = removeNisdFromDevice_ok[OF dnok(2) rm]
      define devs where "devs = (if emp then bt_del DO (bt_set DO (en_Devices e) devID dn1) (da_ID dn1)
                           else bt_set DO (en_Devices e) devID dn1)"
      have gd: "bt_get DO devs = (bt_get DO (en_Devices e))(devID := (if emp then None else Some dn1))"
        by (simp add: devs_def btree_laws[OF DO] r(3) dnok(1))
      have eid: "en_ID e = eid" using ent by (simp add: ent_ok_def)
      have t: "?t = (if bt_get DO devs = Map.empty then bt_del EO (bt_set EO t eid (e\<lparr>en_Devices := devs\<rparr>)) eid
                     else bt_set EO t eid (e\<lparr>en_Devices := devs\<rparr>))"
        by (simp add: del_from_tree_def e dn rm Let_def deleteEmptyEntity_def btree_laws(2)[OF EO] eid
            btree_empty_iff[OF DO] flip: devs_def)
      have g: "bt_get EO ?t = (bt_get EO t)(eid := (if bt_get DO devs = Map.empty then None else Some (e\<lparr>en_Devices := devs\<rparr>)))"
        by (simp add: t btree_laws[OF EO])
      have "ent_ok DO mem i eid (e\<lparr>en_Devices := devs\<rparr>)" if "bt_get DO devs \<noteq> Map.empty"
      proof -
        have "da_ID dn' = did \<and> dev_ok mem dn' \<and> da_Nisds dn' \<noteq> [] \<and>
            (\<forall>a \<in> set (da_Nisds dn'). n_FailureDomain (mem a) ! i = eid \<and> n_FailureDomain (mem a) ! DEVICE_IDX = did)"
          if "bt_get DO devs did = Some dn'" for did dn'
        proof (cases "did = devID")
          case True
          with that gd have "\<not> emp" "dn' = dn1" by (auto split: if_splits)
          with True r dnok ent dn show ?thesis by (auto simp: ent_ok_def)
        next
          case False
          with that gd ent show ?thesis by (auto simp: ent_ok_def)
        qed
        with \<open>bt_get DO devs \<noteq> Map.empty\<close> eid show ?thesis unfolding ent_ok_def by simp
      qed
      then have ?ok using ok unfolding tree_ok_def g by auto
      moreover have "(e1, d, a) \<in> tabs EO DO ?t \<longleftrightarrow>
          (e1, d, a) \<in> tabs EO DO t \<and> \<not> (e1 = eid \<and> d = devID \<and> n_ID (mem a) = nid)" for e1 d a
      proof (cases "e1 = eid")
        case False
        then show ?thesis by (simp add: tabs_def g)
      next
        case True
        have "(e1, d, a) \<in> tabs EO DO ?t \<longleftrightarrow> (\<exists>dn'. bt_get DO devs d = Some dn' \<and> a \<in> set (da_Nisds dn'))"
          using True by (auto simp: tabs_def g)
        also have "\<dots> \<longleftrightarrow> (\<exists>dn'. bt_get DO (en_Devices e) d = Some dn' \<and> a \<in> set (da_Nisds dn')) \<and>
            \<not> (d = devID \<and> n_ID (mem a) = nid)"
          unfolding gd using r dn by (cases "d = devID") auto
        also have "\<dots> \<longleftrightarrow> (e1, d, a) \<in> tabs EO DO t \<and> \<not> (e1 = eid \<and> d = devID \<and> n_ID (mem a) = nid)"
          using True e by (auto simp: tabs_def)
        finally show ?thesis .
      qed
      then have ?abs by auto
      ultimately show ?thesis ..
    qed
  qed
qed

subsection \<open>The five trees\<close>

definition hier_ok ::
  "('te, 'td entities) btree \<Rightarrow> ('td, device_alloc) btree \<Rightarrow> 'te hier \<Rightarrow> bool" where
  "hier_ok EO DO hs \<longleftrightarrow>
     length (hs_FD hs) = FD_MAX \<and> (\<forall>i < FD_MAX. tree_ok EO DO (hs_Mem hs) i (fd_Tree (hs_FD hs ! i)))"

definition habs ::
  "('te, 'td entities) btree \<Rightarrow> ('td, device_alloc) btree \<Rightarrow> 'te hier \<Rightarrow> (nat \<times> string \<times> string \<times> addr) set" where
  "habs EO DO hs = {(i, e, d, a). i < FD_MAX \<and> (e, d, a) \<in> tabs EO DO (fd_Tree (hs_FD hs ! i))}"

lemma fd_update_simps [simp]:
  "hs_Mem (fd_update i g hs) = hs_Mem hs"
  "length (hs_FD (fd_update i g hs)) = length (hs_FD hs)"
  "i < length (hs_FD hs) \<Longrightarrow> fd_Tree (hs_FD (fd_update i g hs) ! j) =
     (if j = i then g (fd_Tree (hs_FD hs ! i)) else fd_Tree (hs_FD hs ! j))"
  by (auto simp: fd_update_def nth_list_update)

lemma fd_update_hier:
  assumes "hier_ok EO DO hs" and "i < FD_MAX"
    and "tree_ok EO DO (hs_Mem hs) i (g (fd_Tree (hs_FD hs ! i)))"
  shows "hier_ok EO DO (fd_update i g hs)"
    and "habs EO DO (fd_update i g hs) =
      {(j, e, d, a) \<in> habs EO DO hs. j \<noteq> i} \<union> {(j, e, d, a). j = i \<and> (e, d, a) \<in> tabs EO DO (g (fd_Tree (hs_FD hs ! i)))}"
  using assms by (auto simp: hier_ok_def habs_def split: if_splits)

lemma add_loop_refines:
  assumes EO: "btree_ok EO" and DO: "btree_ok DO" and ok: "hier_ok EO DO hs" and len: "i + length ids \<le> FD_MAX"
    and ids: "\<forall>k < length ids. n_FailureDomain (hs_Mem hs n) ! (i + k) = ids ! k"
    and dev: "n_FailureDomain (hs_Mem hs n) ! DEVICE_IDX = devID"
  shows "hier_ok EO DO (add_loop EO DO devID n i ids hs) \<and> hs_Mem (add_loop EO DO devID n i ids hs) = hs_Mem hs \<and>
    habs EO DO (add_loop EO DO devID n i ids hs) =
      {(i + k, ids ! k, devID, n) | k. k < length ids} \<union>
      {(j, e, d, a) \<in> habs EO DO hs.
         \<not> (\<exists>k < length ids. j = i + k \<and> e = ids ! k \<and> d = devID \<and> n_ID (hs_Mem hs a) = n_ID (hs_Mem hs n))}"
  using ok len ids dev
proof (induction ids arbitrary: i hs)
  case Nil
  then show ?case by auto
next
  case (Cons eid ids)
  let ?g = "add_to_tree EO DO (hs_Mem hs) devID n eid"
  let ?hs = "fd_update i ?g hs"
  have i: "i < FD_MAX" using Cons.prems by simp
  have fdi: "n_FailureDomain (hs_Mem hs n) ! i = eid" using Cons.prems(3) by (metis add_0_right length_greater_0_conv list.distinct(1) nth_Cons_0)
  have t: "tree_ok EO DO (hs_Mem hs) i (fd_Tree (hs_FD hs ! i))" using Cons.prems(1) i by (simp add: hier_ok_def)
  note a = add_to_tree_refines[OF EO DO t fdi Cons.prems(4)]
  note u = fd_update_hier[where g = ?g, OF Cons.prems(1) i a(1)]
  have ids': "\<forall>k < length ids. n_FailureDomain (hs_Mem ?hs n) ! (i + 1 + k) = ids ! k"
  proof (intro allI impI)
    fix k assume "k < length ids"
    with Cons.prems(3)[rule_format, of "Suc k"] show "n_FailureDomain (hs_Mem ?hs n) ! (i + 1 + k) = ids ! k" by simp
  qed
  have IH: "hier_ok EO DO (add_loop EO DO devID n (i + 1) ids ?hs) \<and>
      hs_Mem (add_loop EO DO devID n (i + 1) ids ?hs) = hs_Mem ?hs \<and>
      habs EO DO (add_loop EO DO devID n (i + 1) ids ?hs) =
      {(i + 1 + k, ids ! k, devID, n) | k. k < length ids} \<union>
      {(j, e, d, a) \<in> habs EO DO ?hs.
         \<not> (\<exists>k < length ids. j = i + 1 + k \<and> e = ids ! k \<and> d = devID \<and> n_ID (hs_Mem ?hs a) = n_ID (hs_Mem ?hs n))}"
    by (rule Cons.IH) (use u(1) Cons.prems(2,4) ids' in simp_all)
  have "habs EO DO (add_loop EO DO devID n (i + 1) ids ?hs) =
      {(i + k, (eid # ids) ! k, devID, n) | k. k < length (eid # ids)} \<union>
      {(j, e, d, a) \<in> habs EO DO hs.
         \<not> (\<exists>k < length (eid # ids). j = i + k \<and> e = (eid # ids) ! k \<and> d = devID \<and> n_ID (hs_Mem hs a) = n_ID (hs_Mem hs n))}"
    (is "?l = ?r")
  proof (rule set_eqI)
    fix x :: "nat \<times> string \<times> string \<times> addr"
    obtain j e d b where x: "x = (j, e, d, b)" by (cases x)
    have split: "(\<exists>k < length (eid # ids). j = i + k \<and> e = (eid # ids) ! k \<and> P) \<longleftrightarrow>
        (j = i \<and> e = eid \<and> P) \<or> (\<exists>k < length ids. j = i + 1 + k \<and> e = ids ! k \<and> P)" for P
      by (auto simp: less_Suc_eq_0_disj)
    have "x \<in> ?l \<longleftrightarrow> (\<exists>k < length ids. j = i + 1 + k \<and> e = ids ! k \<and> d = devID \<and> b = n) \<or>
        ((j, e, d, b) \<in> habs EO DO ?hs \<and>
         \<not> (\<exists>k < length ids. j = i + 1 + k \<and> e = ids ! k \<and> d = devID \<and> n_ID (hs_Mem hs b) = n_ID (hs_Mem hs n)))"
      using IH unfolding x by auto
    moreover have "(j, e, d, b) \<in> habs EO DO ?hs \<longleftrightarrow>
        (j, e, d, b) = (i, eid, devID, n) \<or>
        ((j, e, d, b) \<in> habs EO DO hs \<and> \<not> (j = i \<and> e = eid \<and> d = devID \<and> n_ID (hs_Mem hs b) = n_ID (hs_Mem hs n)))"
      unfolding u(2) a(2) using i by (auto simp: habs_def)
    moreover have "x \<in> ?r \<longleftrightarrow> (\<exists>k < length (eid # ids). j = i + k \<and> e = (eid # ids) ! k \<and> d = devID \<and> b = n) \<or>
        ((j, e, d, b) \<in> habs EO DO hs \<and>
         \<not> (\<exists>k < length (eid # ids). j = i + k \<and> e = (eid # ids) ! k \<and> d = devID \<and> n_ID (hs_Mem hs b) = n_ID (hs_Mem hs n)))"
      unfolding x by auto
    ultimately show "x \<in> ?l \<longleftrightarrow> x \<in> ?r" unfolding split by auto
  qed
  with IH show ?case by simp
qed


lemma del_loop_refines:
  assumes EO: "btree_ok EO" and DO: "btree_ok DO" and ok: "hier_ok EO DO hs" and len: "i + length ids \<le> FD_MAX"
  shows "hier_ok EO DO (del_loop EO DO devID nid i ids hs) \<and> hs_Mem (del_loop EO DO devID nid i ids hs) = hs_Mem hs \<and>
    habs EO DO (del_loop EO DO devID nid i ids hs) =
      {(j, e, d, a) \<in> habs EO DO hs.
         \<not> (\<exists>k < length ids. j = i + k \<and> e = ids ! k \<and> d = devID \<and> n_ID (hs_Mem hs a) = nid)}"
  using ok len
proof (induction ids arbitrary: i hs)
  case Nil
  then show ?case by auto
next
  case (Cons eid ids)
  let ?g = "del_from_tree EO DO (hs_Mem hs) devID nid eid"
  let ?hs = "fd_update i ?g hs"
  have i: "i < FD_MAX" using Cons.prems by simp
  have t: "tree_ok EO DO (hs_Mem hs) i (fd_Tree (hs_FD hs ! i))" using Cons.prems(1) i by (simp add: hier_ok_def)
  note a = del_from_tree_refines[OF EO DO t, of devID nid eid]
  note u = fd_update_hier[where g = ?g, OF Cons.prems(1) i a(1)]
  have IH: "hier_ok EO DO (del_loop EO DO devID nid (i + 1) ids ?hs) \<and>
      hs_Mem (del_loop EO DO devID nid (i + 1) ids ?hs) = hs_Mem ?hs \<and>
      habs EO DO (del_loop EO DO devID nid (i + 1) ids ?hs) =
      {(j, e, d, a) \<in> habs EO DO ?hs.
         \<not> (\<exists>k < length ids. j = i + 1 + k \<and> e = ids ! k \<and> d = devID \<and> n_ID (hs_Mem ?hs a) = nid)}"
    by (rule Cons.IH) (use u(1) Cons.prems(2) in simp_all)
  have "habs EO DO (del_loop EO DO devID nid (i + 1) ids ?hs) =
      {(j, e, d, a) \<in> habs EO DO hs.
         \<not> (\<exists>k < length (eid # ids). j = i + k \<and> e = (eid # ids) ! k \<and> d = devID \<and> n_ID (hs_Mem hs a) = nid)}"
    (is "?l = ?r")
  proof (rule set_eqI)
    fix x :: "nat \<times> string \<times> string \<times> addr"
    obtain j e d b where x: "x = (j, e, d, b)" by (cases x)
    have split: "(\<exists>k < length (eid # ids). j = i + k \<and> e = (eid # ids) ! k \<and> P) \<longleftrightarrow>
        (j = i \<and> e = eid \<and> P) \<or> (\<exists>k < length ids. j = i + 1 + k \<and> e = ids ! k \<and> P)" for P
      by (auto simp: less_Suc_eq_0_disj)
    have "x \<in> ?l \<longleftrightarrow> (j, e, d, b) \<in> habs EO DO ?hs \<and>
         \<not> (\<exists>k < length ids. j = i + 1 + k \<and> e = ids ! k \<and> d = devID \<and> n_ID (hs_Mem hs b) = nid)"
      using IH unfolding x by auto
    moreover have "(j, e, d, b) \<in> habs EO DO ?hs \<longleftrightarrow>
        (j, e, d, b) \<in> habs EO DO hs \<and> \<not> (j = i \<and> e = eid \<and> d = devID \<and> n_ID (hs_Mem hs b) = nid)"
      unfolding u(2) a(2) using i by (auto simp: habs_def)
    moreover have "x \<in> ?r \<longleftrightarrow> (j, e, d, b) \<in> habs EO DO hs \<and>
         \<not> (\<exists>k < length (eid # ids). j = i + k \<and> e = (eid # ids) ! k \<and> d = devID \<and> n_ID (hs_Mem hs b) = nid)"
      unfolding x by auto
    ultimately show "x \<in> ?l \<longleftrightarrow> x \<in> ?r" unfolding split by auto
  qed
  with IH show ?case by simp
qed

lemma HR_Init_ok: "btree_ok EO \<Longrightarrow> hier_ok EO DO (HR_Init EO hs) \<and> habs EO DO (HR_Init EO hs) = {}"
  by (auto simp: hier_ok_def habs_def HR_Init_def tree_ok_def tabs_def btree_laws)

lemma AddNisd_ok:
  assumes "btree_ok EO" and "btree_ok DO" and "hier_ok EO DO hs"
  shows "case AddNisd EO DO n hs of
      (Some _, hs') \<Rightarrow> length (n_FailureDomain (hs_Mem hs n)) \<noteq> FD_MAX \<and> hs' = hs
    | (None, hs') \<Rightarrow>
        length (n_FailureDomain (hs_Mem hs n)) = FD_MAX \<and> hier_ok EO DO hs' \<and> hs_Mem hs' = hs_Mem hs \<and>
        (let fds = n_FailureDomain (hs_Mem hs n); dev = fds ! DEVICE_IDX in
         habs EO DO hs' =
           {(i, fds ! i, dev, n) | i. i < FD_MAX} \<union>
           {(i, e, d, a) \<in> habs EO DO hs. \<not> (e = fds ! i \<and> d = dev \<and> n_ID (hs_Mem hs a) = n_ID (hs_Mem hs n))})"
proof (cases "length (n_FailureDomain (hs_Mem hs n)) = FD_MAX")
  case False
  then show ?thesis by (simp add: AddNisd_def Let_def)
next
  case True
  let ?fds = "n_FailureDomain (hs_Mem hs n)"
  have l: "0 + length ?fds \<le> FD_MAX" "\<forall>k < length ?fds. ?fds ! (0 + k) = ?fds ! k" using True by simp_all
  have lt: "i < FD_MAX" if "(i, x) \<in> habs EO DO hs" for i x using that by (cases x) (auto simp: habs_def)
  from add_loop_refines[OF assms l refl] show ?thesis
    using True lt by (simp add: AddNisd_def Let_def) blast
qed


text \<open>
  C3: \<open>AddNisd\<close> refines insertion: it succeeds exactly for a NISD with five failure domains, keeps the
  hierarchy invariant (a device's free size is the sum over its NISDs, no empty device or entity,
  every NISD where its failure domains say), and the placements afterwards are the new one in each
  of the five trees together with the old ones, less an older NISD of the same identifier on the same device.
\<close>

theorem AddNisd_refines:
  assumes "btree_ok EO" and "btree_ok DO" and "hier_ok EO DO hs"
  shows "case AddNisd EO DO n hs of
      (Some _, hs') \<Rightarrow> length (n_FailureDomain (hs_Mem hs n)) \<noteq> FD_MAX \<and> hs' = hs
    | (None, hs') \<Rightarrow>
        length (n_FailureDomain (hs_Mem hs n)) = FD_MAX \<and> hier_ok EO DO hs' \<and> hs_Mem hs' = hs_Mem hs \<and>
        (let fds = n_FailureDomain (hs_Mem hs n); dev = fds ! DEVICE_IDX in
         habs EO DO hs' =
           {(i, fds ! i, dev, n) | i. i < FD_MAX} \<union>
           {(i, e, d, a) \<in> habs EO DO hs. \<not> (e = fds ! i \<and> d = dev \<and> n_ID (hs_Mem hs a) = n_ID (hs_Mem hs n))})"
  by (rule AddNisd_ok[OF assms])

lemma DeleteNisd_ok:
  assumes "btree_ok EO" and "btree_ok DO" and "hier_ok EO DO hs"
    and "length (n_FailureDomain (hs_Mem hs n)) = FD_MAX"
  shows "hier_ok EO DO (DeleteNisd EO DO n hs) \<and> hs_Mem (DeleteNisd EO DO n hs) = hs_Mem hs \<and>
    habs EO DO (DeleteNisd EO DO n hs) =
      {(i, e, d, a) \<in> habs EO DO hs.
         \<not> (e = n_FailureDomain (hs_Mem hs n) ! i \<and> d = n_FailureDomain (hs_Mem hs n) ! DEVICE_IDX \<and>
            n_ID (hs_Mem hs a) = n_ID (hs_Mem hs n))}"
proof -
  let ?fds = "n_FailureDomain (hs_Mem hs n)"
  have l: "0 + length ?fds \<le> FD_MAX" using assms(4) by simp
  have lt: "i < FD_MAX" if "(i, x) \<in> habs EO DO hs" for i x using that by (cases x) (auto simp: habs_def)
  from del_loop_refines[OF assms(1-3) l, of "?fds ! DEVICE_IDX" "n_ID (hs_Mem hs n)"] show ?thesis
    using assms(4) lt by (simp add: DeleteNisd_def Let_def) blast
qed


text \<open>
  C4: \<open>DeleteNisd\<close> refines removal: the invariant is kept and the placements afterwards are those
  before, less the NISDs with that identifier on that device under the entities of its failure domains
  (devices and entities left empty disappear with them).
\<close>

theorem DeleteNisd_refines:
  assumes "btree_ok EO" and "btree_ok DO" and "hier_ok EO DO hs"
    and "length (n_FailureDomain (hs_Mem hs n)) = FD_MAX"
  shows "hier_ok EO DO (DeleteNisd EO DO n hs) \<and> hs_Mem (DeleteNisd EO DO n hs) = hs_Mem hs \<and>
    habs EO DO (DeleteNisd EO DO n hs) =
      {(i, e, d, a) \<in> habs EO DO hs.
         \<not> (e = n_FailureDomain (hs_Mem hs n) ! i \<and> d = n_FailureDomain (hs_Mem hs n) ! DEVICE_IDX \<and>
            n_ID (hs_Mem hs a) = n_ID (hs_Mem hs n))}"
  by (rule DeleteNisd_ok[OF assms])

text \<open>A concrete hierarchy: empty trees, and a memory with one NISD.\<close>

type_synonym dtree = "(string \<times> device_alloc) list"
type_synonym etree = "(string \<times> dtree entities) list"

definition one_nisd :: nisd where
  "one_nisd = \<lparr>n_PeerPort = 0, n_ID = ''n1'', n_FailureDomain = [''p'', ''r'', ''h'', ''d'', ''t''],
     n_TotalSize = 17179869184, n_AvailableSize = 17179869184, n_SocketPath = [], n_NetInfo = [], n_NetInfoCnt = 0\<rparr>"

definition empty_hier :: "etree hier" where
  "empty_hier = HR_Init alist_btree \<lparr>hs_FD = [], hs_Mem = (\<lambda>_. one_nisd)\<rparr>"

lemma empty_hier_ok: "hier_ok alist_btree (alist_btree :: (dtree, device_alloc) btree) empty_hier"
  unfolding empty_hier_def using HR_Init_ok[OF alist_btree_ok] by blast

theorem AddNisd_refines_witness:
  "case AddNisd alist_btree (alist_btree :: (dtree, device_alloc) btree) 0 empty_hier of
      (Some _, hs') \<Rightarrow> length (n_FailureDomain (hs_Mem empty_hier 0)) \<noteq> FD_MAX \<and> hs' = empty_hier
    | (None, hs') \<Rightarrow>
        length (n_FailureDomain (hs_Mem empty_hier 0)) = FD_MAX \<and>
        hier_ok alist_btree alist_btree hs' \<and> hs_Mem hs' = hs_Mem empty_hier \<and>
        (let fds = n_FailureDomain (hs_Mem empty_hier 0); dev = fds ! DEVICE_IDX in
         habs alist_btree alist_btree hs' =
           {(i, fds ! i, dev, 0) | i. i < FD_MAX} \<union>
           {(i, e, d, a) \<in> habs alist_btree alist_btree empty_hier.
              \<not> (e = fds ! i \<and> d = dev \<and> n_ID (hs_Mem empty_hier a) = n_ID (hs_Mem empty_hier 0))})"
  by (rule AddNisd_refines[OF alist_btree_ok alist_btree_ok empty_hier_ok])

theorem DeleteNisd_refines_witness:
  "hier_ok alist_btree (alist_btree :: (dtree, device_alloc) btree) (DeleteNisd alist_btree alist_btree 0 empty_hier)"
  using DeleteNisd_refines[OF alist_btree_ok alist_btree_ok empty_hier_ok, of 0]
  by (simp add: empty_hier_def HR_Init_def one_nisd_def)

end
