(* ===== verification/AllocSpec.thy ===== *)
theory AllocSpec
  imports Alloc HierarchyInv
begin

section \<open>What the allocator guarantees\<close>

text \<open>
  \<open>spend\<close> is the abstract allocator: a table of free sizes by NISD identifier, from which a list of
  picks takes one chunk each and fails when less than a chunk is left. \<open>free_of\<close> reads that table off
  the allocation map and the NISDs in memory. The lemmas on \<open>PickDevice\<close> and \<open>PickNISDFromDevice\<close> say
  what is picked; the loops above them are refinements of \<open>spend\<close>. The last part is about
  termination: when the retry loop returns, and when it does not.
\<close>

subsection \<open>The abstract allocator\<close>

fun spend :: "(string \<Rightarrow> int64) \<Rightarrow> string list \<Rightarrow> (string \<Rightarrow> int64) option" where
  "spend f [] = Some f"
| "spend f (k # ks) = (if f k <s CHUNK_SIZE then None else spend (f(k := f k - CHUNK_SIZE)) ks)"

lemma spend_append: "spend f (ks @ ls) = (case spend f ks of None \<Rightarrow> None | Some g \<Rightarrow> spend g ls)"
  by (induction f ks rule: spend.induct) (simp_all del: fun_upd_apply)

lemma smod_nonneg: "0 \<le> (a :: int) \<Longrightarrow> 0 < b \<Longrightarrow> a smod b = a mod b"
  by (cases "a = 0") (simp_all add: signed_modulo_int_def signed_divide_int_def minus_div_mult_eq_mod sgn_if)

lemma sint_spend: "\<not> x <s CHUNK_SIZE \<Longrightarrow> sint (x - (CHUNK_SIZE :: int64)) = sint x - CHUNK_SIZE \<and> 0 \<le> sint (x - (CHUNK_SIZE :: int64))"
proof -
  assume "\<not> x <s CHUNK_SIZE"
  then have "CHUNK_SIZE \<le> sint x" by (simp add: sint_neg_not_sless)
  then show ?thesis using sint_diff_nonneg[of "CHUNK_SIZE :: int64" x] by simp
qed

lemma spend_count:
  "spend f ks = Some g \<Longrightarrow>
     sint (g k) = sint (f k) - CHUNK_SIZE * int (count_list ks k) \<and> (k \<in> set ks \<longrightarrow> 0 \<le> sint (g k))"
proof (induction f ks arbitrary: g rule: spend.induct)
  case (1 f)
  then show ?case by simp
next
  case (2 f k0 ks)
  from "2.prems" have ok: "\<not> f k0 <s CHUNK_SIZE" and sp: "spend (f(k0 := f k0 - CHUNK_SIZE)) ks = Some g"
    by (auto split: if_splits)
  note IH = "2.IH"[OF ok sp]
  show ?case
  proof (cases "k = k0")
    case False
    with IH show ?thesis by auto
  next
    case True
    with IH sint_spend[OF ok] show ?thesis
    proof (cases "k \<in> set ks")
      case kin: True
      with True IH sint_spend[OF ok] show ?thesis by (simp add: algebra_simps)
    next
      case False
      then have "count_list ks k = 0" by (simp add: count_list_0_iff)
      with True IH sint_spend[OF ok] show ?thesis by simp
    qed
  qed
qed

subsection \<open>Picking a device\<close>

definition dev_usage :: "(string \<rightharpoonup> usage_info) \<Rightarrow> device_alloc \<Rightarrow> int" where
  "dev_usage u dn = (case u (da_ID dn) of Some info \<Rightarrow> du_Usage info | None \<Rightarrow> 0)"

definition dev_avail :: "(string \<rightharpoonup> usage_info) \<Rightarrow> device_alloc \<Rightarrow> int64" where
  "dev_avail u dn = (case u (da_ID dn) of Some info \<Rightarrow> du_AvailableSize info | None \<Rightarrow> da_AvailableSize dn)"

definition dev_eligible :: "(string \<rightharpoonup> usage_info) \<Rightarrow> device_alloc \<Rightarrow> bool" where
  "dev_eligible u dn \<longleftrightarrow> \<not> dev_avail u dn <s CHUNK_SIZE"

definition scanned :: "('td, device_alloc) btree \<Rightarrow> 'td \<Rightarrow> int \<Rightarrow> int \<Rightarrow> nat list \<Rightarrow> device_alloc set" where
  "scanned DO devs offset cnt is = {dn. \<exists>i \<in> set is. bt_at DO devs ((offset + int i) smod cnt) = Some dn}"

lemma pick_scan_Cons:
  "pick_scan DO devs picked u offset cnt (i # is) best =
     (case bt_at DO devs ((offset + int i) smod cnt) of
        None \<Rightarrow> pick_scan DO devs picked u offset cnt is best
      | Some dn \<Rightarrow>
          if \<not> dev_eligible u dn then pick_scan DO devs picked u offset cnt is best
          else if da_ID dn \<notin> picked then Inl dn
          else if dev_usage u dn < fst (snd best) \<or> (dev_usage u dn = fst (snd best) \<and> snd (snd best) <s dev_avail u dn)
          then pick_scan DO devs picked u offset cnt is (Some dn, dev_usage u dn, dev_avail u dn)
          else pick_scan DO devs picked u offset cnt is best)"
  by (auto simp: dev_eligible_def dev_usage_def dev_avail_def split: option.split prod.split)

declare pick_scan.simps(2) [simp del]

text \<open>A fallback candidate is consistent when it is a device seen so far, or none and the initial bounds.\<close>

definition fallback_ok :: "(string \<rightharpoonup> usage_info) \<Rightarrow> string set \<Rightarrow> device_alloc set \<Rightarrow> device_alloc option \<times> int \<times> int64 \<Rightarrow> bool" where
  "fallback_ok u picked D best \<longleftrightarrow>
     (case fst best of
        None \<Rightarrow> fst (snd best) = 2 ^ 63 - 1 \<and> snd (snd best) = 0 \<and> (\<forall>dn \<in> D. \<not> dev_eligible u dn)
      | Some b \<Rightarrow> b \<in> D \<and> dev_eligible u b \<and> fst (snd best) = dev_usage u b \<and>
          (\<forall>dn \<in> D. dev_eligible u dn \<longrightarrow> da_ID dn \<in> picked \<and> dev_usage u b \<le> dev_usage u dn))"

lemma pick_scan_spec:
  assumes "\<forall>dn. dev_usage u dn < 2 ^ 63" and "fallback_ok u picked D best"
  shows "case pick_scan DO devs picked u offset cnt is best of
      Inl dn \<Rightarrow> dn \<in> scanned DO devs offset cnt is \<and> dev_eligible u dn \<and> da_ID dn \<notin> picked
    | Inr best' \<Rightarrow> fallback_ok u picked (D \<union> scanned DO devs offset cnt is) best'"
  using assms(2)
proof (induction "is" arbitrary: D best)
  case Nil
  then show ?case by (simp add: scanned_def)
next
  case (Cons i "is")
  let ?r = "bt_at DO devs ((offset + int i) smod cnt)"
  have sc: "scanned DO devs offset cnt (i # is) =
      (case ?r of None \<Rightarrow> {} | Some dn \<Rightarrow> {dn}) \<union> scanned DO devs offset cnt is"
    by (auto simp: scanned_def split: option.split)
  have skip: ?case if st: "pick_scan DO devs picked u offset cnt (i # is) best = pick_scan DO devs picked u offset cnt is best'"
    and ok: "fallback_ok u picked (D \<union> (case ?r of None \<Rightarrow> {} | Some dn \<Rightarrow> {dn})) best'" for best'
    using Cons.IH[OF ok] unfolding st sc by (auto simp: Un_assoc split: sum.splits)
  show ?case
  proof (cases ?r)
    case None
    then show ?thesis by (intro skip[of best]) (use Cons.prems in \<open>simp_all add: pick_scan_Cons\<close>)
  next
    case (Some dn)
    show ?thesis
    proof (cases "dev_eligible u dn")
      case False
      show ?thesis
        by (rule skip[of best])
          (use Some False Cons.prems in \<open>auto simp: pick_scan_Cons fallback_ok_def split: option.splits\<close>)
    next
      case el: True
      show ?thesis
      proof (cases "da_ID dn \<in> picked")
        case False
        with Some el show ?thesis by (simp add: pick_scan_Cons sc)
      next
        case True
        let ?take = "dev_usage u dn < fst (snd best) \<or> (dev_usage u dn = fst (snd best) \<and> snd (snd best) <s dev_avail u dn)"
        show ?thesis
        proof (cases ?take)
          case t: True
          have "fallback_ok u picked (D \<union> {dn}) (Some dn, dev_usage u dn, dev_avail u dn)"
            using Cons.prems t el True by (fastforce simp: fallback_ok_def split: option.splits)
          with skip[of "(Some dn, dev_usage u dn, dev_avail u dn)"] Some el True t show ?thesis
            by (simp add: pick_scan_Cons)
        next
          case nt: False
          have "(0 :: int64) <s dev_avail u dn"
            using el by (simp add: dev_eligible_def word_sless_alt)
          then have "fst best \<noteq> None"
            using nt Cons.prems assms(1)[rule_format, of dn] by (cases "fst best") (auto simp: fallback_ok_def)
          then have "fallback_ok u picked (D \<union> {dn}) best"
            using Cons.prems nt el True by (auto simp: fallback_ok_def)
          moreover have "pick_scan DO devs picked u offset cnt (i # is) best = pick_scan DO devs picked u offset cnt is best"
            using Some el True nt by (simp only: pick_scan_Cons option.case if_False if_True not_True_eq_False not_not)
          ultimately show ?thesis using Some by (intro skip[of best]) simp_all
        qed
      qed
    qed
  qed
qed

lemma rotation_covers:
  assumes "0 < n" "j < n" "0 \<le> (offset :: int)"
  shows "\<exists>i \<in> {0..<n}. (offset + int i) smod int n = int j"
proof
  let ?i = "nat ((int j - offset) mod int n)"
  show "?i \<in> {0..<n}" using assms by (auto simp: nat_less_iff)
  have "(offset + int ?i) smod int n = (offset + (int j - offset) mod int n) mod int n"
    using assms by (simp add: smod_nonneg)
  also have "\<dots> = int j" using assms by (simp add: mod_add_right_eq)
  finally show "(offset + int ?i) smod int n = int j" .
qed

text \<open>
  \<open>PickDevice\<close> finds a device exactly when one has room: an error means that no device of the
  entity has a chunk free; otherwise the device is one of the entity's with a chunk free, and when it
  has been picked for this chunk before, then so have all the others with room and none of them is
  used less (every position is looked at, whatever the rotation offset).
\<close>

theorem PickDevice_spec:
  assumes "btree_ok DO" and "0 \<le> startOffset" and "\<forall>info \<in> ran deviceUsage. du_Usage info < 2 ^ 63"
  shows "case PickDevice DO ent pickedDevices deviceUsage startOffset of
      Inl err \<Rightarrow> \<forall>did dn. bt_get DO (en_Devices ent) did = Some dn \<longrightarrow> \<not> dev_eligible deviceUsage dn
    | Inr dn \<Rightarrow> (\<exists>did. bt_get DO (en_Devices ent) did = Some dn) \<and> dev_eligible deviceUsage dn \<and>
        (da_ID dn \<in> pickedDevices \<longrightarrow>
          (\<forall>did' dn'. bt_get DO (en_Devices ent) did' = Some dn' \<and> dev_eligible deviceUsage dn' \<longrightarrow>
             da_ID dn' \<in> pickedDevices \<and> dev_usage deviceUsage dn \<le> dev_usage deviceUsage dn'))"
proof -
  let ?t = "en_Devices ent" and ?n = "bt_len DO (en_Devices ent)"
  let ?S = "scanned DO ?t (startOffset smod int ?n) (int ?n) [0..<?n]"
  have usage: "\<forall>dn. dev_usage deviceUsage dn < 2 ^ 63"
    using assms(3) by (auto simp: dev_usage_def ran_def split: option.split)
  have S: "dn \<in> ?S \<longleftrightarrow> (\<exists>did. bt_get DO ?t did = Some dn)" if "?n \<noteq> 0" for dn
  proof
    assume "dn \<in> ?S"
    then obtain i where "bt_at DO ?t i = Some dn" by (auto simp: scanned_def)
    then have "dn \<in> snd ` set (bt_items DO ?t)"
      by (auto simp: btree_laws[OF assms(1)] split: if_splits intro!: imageI)
    then show "\<exists>did. bt_get DO ?t did = Some dn" by (auto simp flip: btree_items_iff[OF assms(1)])
  next
    assume "\<exists>did. bt_get DO ?t did = Some dn"
    then obtain did where "(did, dn) \<in> set (bt_items DO ?t)" by (auto simp flip: btree_items_iff[OF assms(1)])
    then obtain j where j: "j < ?n" "bt_items DO ?t ! j = (did, dn)"
      by (auto simp: in_set_conv_nth btree_laws(6)[OF assms(1)])
    have off: "0 \<le> startOffset smod int ?n"
      using assms(2) that by (simp add: smod_nonneg)
    from rotation_covers[OF _ j(1) off] that obtain i where i: "i \<in> {0..<?n}"
      "(startOffset smod int ?n + int i) smod int ?n = int j" by auto
    then show "dn \<in> ?S" using j unfolding scanned_def btree_laws(7)[OF assms(1)]
      by (auto simp: btree_laws(6)[OF assms(1)] intro!: bexI[of _ i])
  qed
  show ?thesis
  proof (cases "?n = 0")
    case True
    then have "bt_get DO ?t = Map.empty" by (simp add: btree_empty_iff[OF assms(1)])
    with True show ?thesis by (simp add: PickDevice_def)
  next
    case False
    have "fallback_ok deviceUsage pickedDevices {} (None, 2 ^ 63 - 1, 0)" by (simp add: fallback_ok_def)
    from pick_scan_spec[OF usage this, of DO ?t "startOffset smod int ?n" "int ?n" "[0..<?n]"]
    show ?thesis
      using False S[OF False]
      by (auto simp: PickDevice_def Let_def fallback_ok_def split: sum.splits option.splits prod.splits)
  qed
qed

definition sample_devs :: "(string \<times> device_alloc) list" where
  "sample_devs =
     [(''d1'', \<lparr>da_ID = ''d1'', da_AvailableSize = 5, da_Nisds = [0]\<rparr>),
      (''d2'', \<lparr>da_ID = ''d2'', da_AvailableSize = 9000000000, da_Nisds = [1]\<rparr>)]"

lemma PickDevice_spec_witness:
  "PickDevice alist_btree \<lparr>en_ID = ''e'', en_Devices = sample_devs\<rparr> {''d2''} Map.empty 1 =
     Inr \<lparr>da_ID = ''d2'', da_AvailableSize = 9000000000, da_Nisds = [1]\<rparr> \<and>
   (\<exists>did. bt_get alist_btree sample_devs did = Some \<lparr>da_ID = ''d2'', da_AvailableSize = 9000000000, da_Nisds = [1]\<rparr>)"
proof -
  have eq: "PickDevice alist_btree \<lparr>en_ID = ''e'', en_Devices = sample_devs\<rparr> {''d2''} Map.empty 1 =
      Inr \<lparr>da_ID = ''d2'', da_AvailableSize = 9000000000, da_Nisds = [1]\<rparr>"
    by code_simp
  have "case PickDevice alist_btree \<lparr>en_ID = ''e'', en_Devices = sample_devs\<rparr> {''d2''} Map.empty 1 of
      Inl err \<Rightarrow> True | Inr dn \<Rightarrow> (\<exists>did. bt_get alist_btree sample_devs did = Some dn)"
    using PickDevice_spec[OF alist_btree_ok, of 1 Map.empty "\<lparr>en_ID = ''e'', en_Devices = sample_devs\<rparr>" "{''d2''}"]
    by (simp split: sum.splits)
  with eq show ?thesis by simp
qed

subsection \<open>Picking a NISD\<close>

text \<open>
  The allocation map names its entries by NISD; \<open>free_of\<close> reads the free size of a NISD: the map's
  if the NISD has been looked at, and otherwise the size in memory, \<open>init\<close>.
\<close>

definition map_ok :: "('tm, nisd_vdev_alloc) btree \<Rightarrow> (addr \<Rightarrow> nisd) \<Rightarrow> 'tm \<Rightarrow> bool" where
  "map_ok MO mem m \<longleftrightarrow> (\<forall>k na. bt_get MO m k = Some na \<longrightarrow> n_ID (mem (nva_Ptr na)) = k)"

definition free_of :: "('tm, nisd_vdev_alloc) btree \<Rightarrow> (string \<Rightarrow> int64) \<Rightarrow> 'tm \<Rightarrow> string \<Rightarrow> int64" where
  "free_of MO init m k = (case bt_get MO m k of Some na \<Rightarrow> nva_AvailableSize na | None \<Rightarrow> init k)"

definition sized :: "(addr \<Rightarrow> nisd) \<Rightarrow> (string \<Rightarrow> int64) \<Rightarrow> addr list \<Rightarrow> bool" where
  "sized mem init as \<longleftrightarrow> (\<forall>a \<in> set as. n_AvailableSize (mem a) = init (n_ID (mem a)))"

definition nisd_id :: "(addr \<Rightarrow> nisd) \<Rightarrow> nisd_vdev_alloc \<Rightarrow> string" where
  "nisd_id mem na = n_ID (mem (nva_Ptr na))"

lemma map_ok_new: "btree_ok MO \<Longrightarrow> map_ok MO mem (bt_new MO)"
  by (simp add: map_ok_def btree_laws)

lemma free_of_new: "btree_ok MO \<Longrightarrow> free_of MO init (bt_new MO) = init"
  by (rule ext) (simp add: free_of_def btree_laws)

lemma LookupNAddNisd_spec:
  assumes "btree_ok MO" "map_ok MO mem m" "n_AvailableSize (mem n) = init (n_ID (mem n))"
    and "LookupNAddNisd MO mem n m = (na, m1)"
  shows "map_ok MO mem m1" "free_of MO init m1 = free_of MO init m" "nisd_id mem na = n_ID (mem n)"
    "nva_AvailableSize na = free_of MO init m (n_ID (mem n))"
proof -
  show "map_ok MO mem m1" "nisd_id mem na = n_ID (mem n)"
    "nva_AvailableSize na = free_of MO init m (n_ID (mem n))" "free_of MO init m1 = free_of MO init m"
    using assms(2-4)
    by (auto simp: LookupNAddNisd_def map_ok_def free_of_def nisd_id_def btree_laws[OF assms(1)] Let_def fun_eq_iff
        split: option.splits if_splits)
qed

definition nisd_room :: "(addr \<Rightarrow> nisd) \<Rightarrow> string set \<Rightarrow> (string \<Rightarrow> int64) \<Rightarrow> addr \<Rightarrow> bool" where
  "nisd_room mem picked f a \<longleftrightarrow> n_ID (mem a) \<notin> picked \<and> \<not> f (n_ID (mem a)) <s CHUNK_SIZE"

definition optimal_ok ::
  "(addr \<Rightarrow> nisd) \<Rightarrow> string set \<Rightarrow> (string \<Rightarrow> int64) \<Rightarrow> addr set \<Rightarrow> (string \<times> nisd_vdev_alloc) option \<Rightarrow> bool" where
  "optimal_ok mem picked f A opt \<longleftrightarrow>
     (case opt of
        None \<Rightarrow> \<forall>a \<in> A. \<not> nisd_room mem picked f a
      | Some (k, na) \<Rightarrow> k = nisd_id mem na \<and> nva_AvailableSize na = f k \<and>
          (\<exists>a \<in> A. n_ID (mem a) = k \<and> nisd_room mem picked f a) \<and>
          (\<forall>a \<in> A. nisd_room mem picked f a \<longrightarrow> f (n_ID (mem a)) <=s f k))"

lemma pick_nisd_loop_spec:
  assumes "btree_ok MO"
  shows "map_ok MO mem m \<Longrightarrow> sized mem init ns \<Longrightarrow> optimal_ok mem picked (free_of MO init m) A opt \<Longrightarrow>
     pick_nisd_loop MO mem picked ns m opt = (opt', m') \<Longrightarrow>
     map_ok MO mem m' \<and> free_of MO init m' = free_of MO init m \<and>
     optimal_ok mem picked (free_of MO init m) (A \<union> set ns) opt'"
proof (induction ns arbitrary: m opt A)
  case Nil
  then show ?case by simp
next
  case (Cons n ns)
  obtain na m1 where lk: "LookupNAddNisd MO mem n m = (na, m1)" by fastforce
  have "n_AvailableSize (mem n) = init (n_ID (mem n))" using Cons.prems(2) by (simp add: sized_def)
  note sp = LookupNAddNisd_spec[where init = init, OF assms Cons.prems(1) this lk]
  let ?f = "free_of MO init m"
  have go: ?case if "pick_nisd_loop MO mem picked ns m1 opt1 = (opt', m')"
    and "optimal_ok mem picked ?f (insert n A) opt1" for opt1
    using Cons.IH[OF sp(1), of "insert n A" opt1] that Cons.prems(2) by (simp add: sp(2) sized_def)
  show ?case
  proof (cases "nisd_room mem picked ?f n \<and> (case opt of None \<Rightarrow> True | Some (_, o') \<Rightarrow> nva_AvailableSize o' <s nva_AvailableSize na)")
    case True
    have "optimal_ok mem picked ?f (insert n A) (Some (n_ID (mem n), na))"
      using Cons.prems(3) True
      by (fastforce simp: optimal_ok_def sp(3,4) nisd_room_def word_sle_eq word_sless_alt split: option.splits)
    with True show ?thesis
      using Cons.prems(4) by (intro go[of "Some (n_ID (mem n), na)"])
        (simp_all add: lk nisd_room_def sp(3)[unfolded nisd_id_def] sp(4))
  next
    case False
    have "optimal_ok mem picked ?f (insert n A) opt"
      using Cons.prems(3) False
      by (cases opt) (auto simp: optimal_ok_def sp(3,4) word_sle_eq word_sless_alt)
    moreover have "pick_nisd_loop MO mem picked ns m1 opt = (opt', m')"
      using Cons.prems(4) False by (auto simp: lk nisd_room_def sp(3)[unfolded nisd_id_def] sp(4) split: if_splits)
    ultimately show ?thesis by (intro go[of opt])
  qed
qed

lemma PickNISDFromDevice_picks:
  assumes "btree_ok MO" and "map_ok MO mem m" and "sized mem init (da_Nisds dn)"
    and "PickNISDFromDevice MO mem dn picked m = (r, picked', m')"
  shows "map_ok MO mem m' \<and>
    (case r of
       Inl err \<Rightarrow> picked' = picked \<and> free_of MO init m' = free_of MO init m \<and>
         (\<forall>a \<in> set (da_Nisds dn). \<not> nisd_room mem picked (free_of MO init m) a)
     | Inr na \<Rightarrow>
         (\<exists>a \<in> set (da_Nisds dn). n_ID (mem a) = nisd_id mem na \<and> nisd_room mem picked (free_of MO init m) a) \<and>
         (\<forall>a \<in> set (da_Nisds dn). nisd_room mem picked (free_of MO init m) a \<longrightarrow>
            free_of MO init m (n_ID (mem a)) <=s free_of MO init m (nisd_id mem na)) \<and>
         picked' = insert (nisd_id mem na) picked \<and>
         free_of MO init m' = (free_of MO init m)(nisd_id mem na := free_of MO init m (nisd_id mem na) - CHUNK_SIZE))"
proof -
  obtain opt m1 where lp: "pick_nisd_loop MO mem picked (da_Nisds dn) m None = (opt, m1)" by fastforce
  have "optimal_ok mem picked (free_of MO init m) {} None" by (simp add: optimal_ok_def)
  from pick_nisd_loop_spec[OF assms(1-3) this lp]
  have sp: "map_ok MO mem m1" "free_of MO init m1 = free_of MO init m"
    "optimal_ok mem picked (free_of MO init m) (set (da_Nisds dn)) opt" by simp_all
  show ?thesis
  proof (cases opt)
    case None
    with assms(4) lp sp show ?thesis by (auto simp: PickNISDFromDevice_def optimal_ok_def)
  next
    case (Some kna)
    obtain k na where kna: "kna = (k, na)" by fastforce
    have r: "r = Inr (na\<lparr>nva_AvailableSize := nva_AvailableSize na - CHUNK_SIZE\<rparr>)"
      "picked' = insert (nisd_id mem na) picked"
      "m' = bt_set MO m1 k (na\<lparr>nva_AvailableSize := nva_AvailableSize na - CHUNK_SIZE\<rparr>)"
      using assms(4) lp Some kna by (simp_all add: PickNISDFromDevice_def nisd_id_def Let_def)
    have op: "k = nisd_id mem na" "nva_AvailableSize na = free_of MO init m k"
      using sp(3) Some kna by (simp_all add: optimal_ok_def)
    have id: "nisd_id mem (na\<lparr>nva_AvailableSize := x\<rparr>) = nisd_id mem na" for x by (simp add: nisd_id_def)
    have "map_ok MO mem m'"
      using sp(1) op(1) by (auto simp: r map_ok_def btree_laws[OF assms(1)] nisd_id_def)
    moreover have "free_of MO init m' = (free_of MO init m)(k := free_of MO init m k - CHUNK_SIZE)"
      unfolding sp(2)[symmetric] r using op(2)[folded sp(2)]
      by (auto simp: free_of_def btree_laws[OF assms(1)] fun_eq_iff)
    ultimately show ?thesis using sp(3) Some kna by (simp add: r(1,2) id op optimal_ok_def)
  qed
qed


text \<open>
  \<open>PickNISDFromDevice\<close> takes one chunk from the NISD of the device with the most free space among
  those not yet picked, and accounts for it: the free table loses exactly \<open>CHUNK_SIZE\<close> at that NISD.
  An error means no NISD has room, and changes nothing.
\<close>

lemma PickNISDFromDevice_spec:
  assumes "btree_ok MO" and "map_ok MO mem m" and "sized mem init (da_Nisds dn)"
    and "PickNISDFromDevice MO mem dn picked m = (r, picked', m')"
  shows "map_ok MO mem m' \<and>
    (case r of
       Inl err \<Rightarrow> picked' = picked \<and> free_of MO init m' = free_of MO init m \<and>
         (\<forall>a \<in> set (da_Nisds dn). \<not> nisd_room mem picked (free_of MO init m) a)
     | Inr na \<Rightarrow>
         (\<exists>a \<in> set (da_Nisds dn). n_ID (mem a) = nisd_id mem na \<and> nisd_room mem picked (free_of MO init m) a) \<and>
         (\<forall>a \<in> set (da_Nisds dn). nisd_room mem picked (free_of MO init m) a \<longrightarrow>
            free_of MO init m (n_ID (mem a)) <=s free_of MO init m (nisd_id mem na)) \<and>
         picked' = insert (nisd_id mem na) picked \<and>
         free_of MO init m' = (free_of MO init m)(nisd_id mem na := free_of MO init m (nisd_id mem na) - CHUNK_SIZE))"
  by (rule PickNISDFromDevice_picks[OF assms])

definition two_nisds :: "addr \<Rightarrow> nisd" where
  "two_nisds a = (if a = 0 then one_nisd else one_nisd\<lparr>n_ID := ''n2'', n_AvailableSize := 34359738368\<rparr>)"

theorem PickNISDFromDevice_spec_witness:
  "\<exists>na picked' m'. PickNISDFromDevice alist_btree two_nisds \<lparr>da_ID = ''d'', da_AvailableSize = 51539607552, da_Nisds = [0, 1]\<rparr>
       {} [] = (Inr na, picked', m') \<and> nisd_id two_nisds na = ''n2'' \<and> map_ok alist_btree two_nisds m' \<and>
     picked' = insert (nisd_id two_nisds na) {} \<and> nva_AvailableSize na = 25769803776"
proof -
  let ?dn = "\<lparr>da_ID = ''d'', da_AvailableSize = 51539607552, da_Nisds = [0, 1]\<rparr>"
  let ?init = "\<lambda>k. if k = ''n1'' then 17179869184 else 34359738368 :: int64"
  let ?na = "\<lparr>nva_AvailableSize = 25769803776, nva_Ptr = 1\<rparr>"
  let ?m' = "[(''n2'', ?na), (''n2'', \<lparr>nva_AvailableSize = 34359738368, nva_Ptr = 1\<rparr>),
    (''n1'', \<lparr>nva_AvailableSize = 17179869184, nva_Ptr = 0\<rparr>)]"
  have eq: "PickNISDFromDevice alist_btree two_nisds ?dn {} [] =
      (Inr ?na, {''n2''}, ?m')"
    by code_simp
  have "map_ok alist_btree two_nisds []" by (simp add: map_ok_def alist_btree_def)
  moreover have "sized two_nisds ?init (da_Nisds ?dn)" by (simp add: sized_def two_nisds_def one_nisd_def)
  ultimately have ok: "map_ok alist_btree two_nisds ?m'"
    "{''n2''} = insert (nisd_id two_nisds ?na) {}"
    using PickNISDFromDevice_spec[OF alist_btree_ok _ _ eq, of ?init] by (simp_all add: nisd_id_def two_nisds_def)
  show ?thesis
  proof (rule exI[of _ ?na], rule exI[of _ "{''n2''}"], rule exI[of _ ?m'], intro conjI)
    show "nisd_id two_nisds ?na = ''n2''" by (simp add: nisd_id_def two_nisds_def)
  qed (fact eq ok | simp)+
qed

end
