(* ===== verification/AllocRefine.thy ===== *)
theory AllocRefine
  imports AllocSpec
begin

section \<open>The allocation loops refine the abstract allocator\<close>

text \<open>
  Lifts the picks of \<open>AllocSpec\<close> through the loops of \<open>Alloc\<close>: entity, block, chunk, vdev, failure
  domain. Each loop performs a list of picks that \<open>spend\<close> accepts on the free table of its allocation
  map, also when it ends in an error, so a NISD is never over-committed; and a chunk that is placed
  has all its blocks on different NISDs of different entities.
\<close>

subsection \<open>One pick\<close>

text \<open>Sizes in memory are given by the identifier, for the NISDs of an entity, of a hierarchy.\<close>

definition ent_sized :: "('td, device_alloc) btree \<Rightarrow> (addr \<Rightarrow> nisd) \<Rightarrow> (string \<Rightarrow> int64) \<Rightarrow> 'td entities \<Rightarrow> bool" where
  "ent_sized DO mem init en \<longleftrightarrow> (\<forall>did dn. bt_get DO (en_Devices en) did = Some dn \<longrightarrow> sized mem init (da_Nisds dn))"

definition tree_sized ::
  "('te, 'td entities) btree \<Rightarrow> ('td, device_alloc) btree \<Rightarrow> (addr \<Rightarrow> nisd) \<Rightarrow> (string \<Rightarrow> int64) \<Rightarrow> 'te \<Rightarrow> bool" where
  "tree_sized EO DO mem init t \<longleftrightarrow> (\<forall>eid en. bt_get EO t eid = Some en \<longrightarrow> ent_sized DO mem init en)"

definition hier_sized ::
  "('te, 'td entities) btree \<Rightarrow> ('td, device_alloc) btree \<Rightarrow> (string \<Rightarrow> int64) \<Rightarrow> 'te hier \<Rightarrow> bool" where
  "hier_sized EO DO init hs \<longleftrightarrow> (\<forall>f \<in> set (hs_FD hs). tree_sized EO DO (hs_Mem hs) init (fd_Tree f))"

text \<open>What a pick changes: nothing but the allocation map and the sets, and one chunk of the NISD picked.\<close>

abbreviation ps_free :: "('tm, nisd_vdev_alloc) btree \<Rightarrow> (string \<Rightarrow> int64) \<Rightarrow> 'tm pick_state \<Rightarrow> string \<Rightarrow> int64" where
  "ps_free MO init st \<equiv> free_of MO init (ps_Map st)"

definition unchanged ::
  "('tm, nisd_vdev_alloc) btree \<Rightarrow> (addr \<Rightarrow> nisd) \<Rightarrow> (string \<Rightarrow> int64) \<Rightarrow> 'tm pick_state \<Rightarrow> 'tm pick_state \<Rightarrow> bool" where
  "unchanged MO mem init st st' \<longleftrightarrow>
     map_ok MO mem (ps_Map st') \<and> ps_free MO init st' = ps_free MO init st \<and>
     ps_Chgs st' = ps_Chgs st \<and> ps_PickedN st' = ps_PickedN st"

definition picked_one ::
  "('tm, nisd_vdev_alloc) btree \<Rightarrow> (addr \<Rightarrow> nisd) \<Rightarrow> (string \<Rightarrow> int64) \<Rightarrow> 'tm pick_state \<Rightarrow> string \<Rightarrow> 'tm pick_state \<Rightarrow> bool" where
  "picked_one MO mem init st k st' \<longleftrightarrow>
     map_ok MO mem (ps_Map st') \<and> \<not> ps_free MO init st k <s CHUNK_SIZE \<and>
     ps_free MO init st' = (ps_free MO init st)(k := ps_free MO init st k - CHUNK_SIZE) \<and>
     ps_Chgs st' = ps_Chgs st \<and> k \<notin> ps_PickedN st \<and> ps_PickedN st' = insert k (ps_PickedN st)"

lemma unchanged_refl: "map_ok MO mem (ps_Map st) \<Longrightarrow> unchanged MO mem init st st"
  by (simp add: unchanged_def)

lemma unchanged_trans [trans]:
  "unchanged MO mem init st st1 \<Longrightarrow> unchanged MO mem init st1 st2 \<Longrightarrow> unchanged MO mem init st st2"
  by (simp add: unchanged_def)

lemma unchanged_picked:
  "unchanged MO mem init st st1 \<Longrightarrow> picked_one MO mem init st1 k st2 \<Longrightarrow> picked_one MO mem init st k st2"
  by (simp add: unchanged_def picked_one_def)

lemma mark_device_simps [simp]:
  "ps_Map (mark_device dev st) = ps_Map st" "ps_Chgs (mark_device dev st) = ps_Chgs st"
  "ps_PickedN (mark_device dev st) = ps_PickedN st"
  by (simp_all add: mark_device_def Let_def)

lemma picked_one_mark [simp]: "picked_one MO mem init st k (mark_device dev st') = picked_one MO mem init st k st'"
  by (simp add: picked_one_def)

lemma pick_scan_Inl:
  "pick_scan DO devs picked u offset cnt is best = Inl dn \<Longrightarrow> \<exists>i. bt_at DO devs i = Some dn"
  by (induction "is" arbitrary: best) (auto simp: pick_scan_Cons split: option.splits if_splits)

lemma pick_scan_Inr:
  "pick_scan DO devs picked u offset cnt is best = Inr (Some dn, r) \<Longrightarrow>
     fst best = Some dn \<or> (\<exists>i. bt_at DO devs i = Some dn)"
  by (induction "is" arbitrary: best) (fastforce simp: pick_scan_Cons split: option.splits if_splits)+

lemma bt_at_get: "btree_ok B \<Longrightarrow> bt_at B t i = Some v \<Longrightarrow> \<exists>k. bt_get B t k = Some v"
proof -
  assume ok: "btree_ok B" and "bt_at B t i = Some v"
  then have "v \<in> snd ` set (bt_items B t)" by (auto simp: btree_laws(7)[OF ok] split: if_splits)
  then show ?thesis by (auto simp flip: btree_items_iff[OF ok])
qed

lemma PickDevice_get:
  assumes "btree_ok DO" "PickDevice DO ent picked u off = Inr dn"
  shows "\<exists>did. bt_get DO (en_Devices ent) did = Some dn"
  using assms pick_scan_Inl pick_scan_Inr
  by (fastforce simp: PickDevice_def Let_def split: if_splits sum.splits option.splits prod.splits dest: bt_at_get)

definition ent_has :: "('td, device_alloc) btree \<Rightarrow> (addr \<Rightarrow> nisd) \<Rightarrow> 'td entities \<Rightarrow> string \<Rightarrow> bool" where
  "ent_has DO mem en k \<longleftrightarrow>
     (\<exists>did dn a. bt_get DO (en_Devices en) did = Some dn \<and> a \<in> set (da_Nisds dn) \<and> n_ID (mem a) = k)"

lemma pick_in_entity_spec:
  assumes "btree_ok DO" "btree_ok MO" "map_ok MO mem (ps_Map st)" "ent_sized DO mem init ent"
    and "pick_in_entity DO MO mem ent off st = (r, st')"
  shows "case r of Inl err \<Rightarrow> unchanged MO mem init st st'
           | Inr (dev, na) \<Rightarrow> picked_one MO mem init st (nisd_id mem na) st' \<and> ent_has DO mem ent (nisd_id mem na)"
proof (cases "PickDevice DO ent (ps_PickedD st) (ps_Usage st) off")
  case (Inl err)
  with assms(3,5) show ?thesis by (auto simp: pick_in_entity_def unchanged_refl)
next
  case (Inr dev)
  obtain r1 p m where pk: "PickNISDFromDevice MO mem dev (ps_PickedN st) (ps_Map st) = (r1, p, m)"
    by (metis prod_cases3)
  obtain did where did: "bt_get DO (en_Devices ent) did = Some dev" using PickDevice_get[OF assms(1) Inr] by blast
  then have "sized mem init (da_Nisds dev)" using assms(4) by (auto simp: ent_sized_def)
  note sp = PickNISDFromDevice_picks[OF assms(2,3) this pk]
  show ?thesis
  proof (cases r1)
    case (Inl err)
    with sp assms(5) \<open>PickDevice DO ent _ _ _ = _\<close> pk show ?thesis
      by (auto simp: pick_in_entity_def unchanged_def)
  next
    case r1: (Inr na)
    then have "ent_has DO mem ent (nisd_id mem na)" using sp did unfolding ent_has_def by fastforce
    with r1 sp assms(5) Inr pk show ?thesis
      by (auto simp: pick_in_entity_def picked_one_def nisd_room_def)
  qed
qed


subsection \<open>The blocks of a chunk\<close>

definition at_entity ::
  "('te, 'td entities) btree \<Rightarrow> ('td, device_alloc) btree \<Rightarrow> (addr \<Rightarrow> nisd) \<Rightarrow> 'te \<Rightarrow> nat \<Rightarrow> string \<Rightarrow> bool" where
  "at_entity EO DO mem tree e k \<longleftrightarrow> (\<exists>en. bt_at EO tree (int e) = Some en \<and> ent_has DO mem en k)"

lemma entity_loop_spec:
  assumes "entity_loop EO DO MO mem tree treeLen fd off used tried idx st le = Some res"
    and "btree_ok EO" "btree_ok DO" "btree_ok MO" "tree_sized EO DO mem init tree"
    and "map_ok MO mem (ps_Map st)" "idx < treeLen"
  shows "case res of (r, next, st') \<Rightarrow> next < treeLen \<and>
    (case r of
       Inl e \<Rightarrow> unchanged MO mem init st st'
     | Inr (cur, na) \<Rightarrow> cur \<notin> used \<and> picked_one MO mem init st (nisd_id mem na) st' \<and>
         at_entity EO DO mem tree cur (nisd_id mem na))"
  using assms
proof (induction rule: entity_loop.raw_induct[rotated, consumes 1, case_names step])
  case (step loop EO DO MO mem tree treeLen fd off used tried idx st le res)
  note IH = step.IH and hyp = step.prems
  show ?case
  proof (cases "tried < treeLen")
    case False
    with step.hyps hyp show ?thesis by (auto simp: unchanged_refl)
  next
    case tr: True
    have nx: "(idx + 1) mod treeLen < treeLen" using tr by simp
    show ?thesis
    proof (cases "idx \<in> used")
      case True
      with step.hyps tr have "loop EO DO MO mem tree treeLen fd off used tried ((idx + 1) mod treeLen) st le = Some res"
        by (simp add: Let_def)
      from IH[OF this hyp(1-5) nx] show ?thesis .
    next
      case nu: False
      show ?thesis
      proof (cases "bt_at EO tree (int idx)")
        case None
        with step.hyps tr nu have "loop EO DO MO mem tree treeLen fd off used (tried + 1) ((idx + 1) mod treeLen) st
            (''failed to fetch entity idx='' @ utoa idx @ '' fd='' @ utoa fd) = Some res"
          by (simp add: Let_def)
        from IH[OF this hyp(1-5) nx] show ?thesis .
      next
        case (Some ent)
        then obtain eid where "bt_get EO tree eid = Some ent" using bt_at_get[OF hyp(1)] by blast
        then have es: "ent_sized DO mem init ent" using hyp(4) by (simp add: tree_sized_def)
        obtain r st1 where pk: "pick_in_entity DO MO mem ent off st = (r, st1)" by fastforce
        note sp = pick_in_entity_spec[OF hyp(2,3,5) es pk]
        show ?thesis
        proof (cases r)
          case (Inl err)
          with step.hyps tr nu Some pk have
            "loop EO DO MO mem tree treeLen fd off used (tried + 1) ((idx + 1) mod treeLen) st1 err = Some res"
            by (simp add: Let_def)
          moreover have un: "unchanged MO mem init st st1" using sp Inl by simp
          moreover have "map_ok MO mem (ps_Map st1)" using un by (simp add: unchanged_def)
          ultimately show ?thesis using IH[OF _ hyp(1-4) _ nx] un
            by (fastforce split: sum.splits prod.splits intro: unchanged_trans unchanged_picked)
        next
          case (Inr dn)
          obtain dev na where "dn = (dev, na)" by fastforce
          with step.hyps tr nu Some pk Inr have "res = (Inr (idx, na), (idx + 1) mod treeLen, mark_device dev st1)"
            by (simp add: Let_def)
          with sp Inr \<open>dn = _\<close> nu nx Some show ?thesis by (auto simp: at_entity_def)
        qed
      qed
    qed
  qed
qed


definition add_blocks :: "vdev_config \<Rightarrow> nat \<Rightarrow> (nat \<times> string) list \<Rightarrow> commit_chg list \<Rightarrow> commit_chg list" where
  "add_blocks v chunkIdx iks chgs = foldl (\<lambda>c (i, k). gen_block v chunkIdx i k c) chgs iks"

lemma add_blocks_simps [simp]:
  "add_blocks v c [] chgs = chgs"
  "add_blocks v c ((i, k) # iks) chgs = add_blocks v c iks (gen_block v c i k chgs)"
  by (simp_all add: add_blocks_def)

text \<open>
  A run over blocks \<open>is\<close>: it placed a prefix of them on the NISDs \<open>ks\<close>, all different and new to the
  chunk; all of them when it returns.
\<close>

definition placed ::
  "('tm, nisd_vdev_alloc) btree \<Rightarrow> (addr \<Rightarrow> nisd) \<Rightarrow> (string \<Rightarrow> int64) \<Rightarrow> vdev_config \<Rightarrow> nat \<Rightarrow> nat list
   \<Rightarrow> 'tm pick_state \<Rightarrow> string list \<Rightarrow> unit go \<times> 'tm pick_state \<Rightarrow> bool" where
  "placed MO mem init v chunkIdx is st ks res \<longleftrightarrow>
     map_ok MO mem (ps_Map (snd res)) \<and> spend (ps_free MO init st) ks = Some (ps_free MO init (snd res)) \<and>
     distinct ks \<and> set ks \<inter> ps_PickedN st = {} \<and> length ks \<le> length is \<and>
     ps_Chgs (snd res) = add_blocks v chunkIdx (zip is ks) (ps_Chgs st) \<and>
     (fst res = Ret () \<longrightarrow> length ks = length is)"

lemma placed_Nil: "map_ok MO mem (ps_Map st) \<Longrightarrow> placed MO mem init v c [] st [] (Ret (), st)"
  by (simp add: placed_def)

lemma placed_stop:
  "unchanged MO mem init st st1 \<Longrightarrow> placed MO mem init v c is st [] (Fail err, st1)"
  by (simp add: placed_def unchanged_def)

lemma placed_Cons:
  assumes "picked_one MO mem init st k st1" and "placed MO mem init v c is st2 ks res"
    and "ps_Map st2 = ps_Map st1" "ps_Chgs st2 = gen_block v c i k (ps_Chgs st1)" "ps_PickedN st2 = ps_PickedN st1"
  shows "placed MO mem init v c (i # is) st (k # ks) res"
  using assms by (auto simp: placed_def picked_one_def simp del: fun_upd_apply)

lemma filtered_blocks_spec:
  assumes ok: "btree_ok DO" "btree_ok MO" and sz: "ent_sized DO mem init en"
  shows "map_ok MO mem (ps_Map st) \<Longrightarrow>
     \<exists>ks. placed MO mem init v c is st ks (filtered_blocks DO MO mem v c off en is st) \<and>
       (\<forall>k \<in> set ks. ent_has DO mem en k) \<and> fst (filtered_blocks DO MO mem v c off en is st) \<noteq> Panic"
proof (induction "is" arbitrary: st)
  case Nil
  then show ?case using placed_Nil by fastforce
next
  case (Cons i "is")
  obtain r st1 where pk: "pick_in_entity DO MO mem en (int c + off + int i) st = (r, st1)" by fastforce
  note sp = pick_in_entity_spec[OF ok Cons.prems sz pk]
  show ?case
  proof (cases r)
    case (Inl err)
    with sp pk show ?thesis using placed_stop by fastforce
  next
    case (Inr dn)
    obtain dev na where dn: "dn = (dev, na)" by fastforce
    let ?k = "nisd_id mem na"
    let ?st2 = "mark_device dev (st1\<lparr>ps_Chgs := gen_block v c i ?k (ps_Chgs st1)\<rparr>)"
    have one: "picked_one MO mem init st ?k st1" "ent_has DO mem en ?k" using sp Inr dn by simp_all
    then have "map_ok MO mem (ps_Map ?st2)" by (simp add: picked_one_def)
    from Cons.IH[OF this] obtain ks where ks: "placed MO mem init v c is ?st2 ks (filtered_blocks DO MO mem v c off en is ?st2)"
      "\<forall>k \<in> set ks. ent_has DO mem en k" "fst (filtered_blocks DO MO mem v c off en is ?st2) \<noteq> Panic" by blast
    have step: "filtered_blocks DO MO mem v c off en (i # is) st = filtered_blocks DO MO mem v c off en is ?st2"
      using pk Inr dn by (simp add: nisd_id_def)
    have "placed MO mem init v c (i # is) st (?k # ks) (filtered_blocks DO MO mem v c off en is ?st2)"
      by (rule placed_Cons[OF one(1) ks(1)]) simp_all
    with ks(2,3) one(2) show ?thesis unfolding step by (intro exI[of _ "?k # ks"]) simp
  qed
qed


definition spread ::
  "('te, 'td entities) btree \<Rightarrow> ('td, device_alloc) btree \<Rightarrow> (addr \<Rightarrow> nisd) \<Rightarrow> 'te \<Rightarrow> nat set \<Rightarrow> string list \<Rightarrow> bool" where
  "spread EO DO mem tree used ks \<longleftrightarrow>
     (\<exists>es. distinct es \<and> set es \<inter> used = {} \<and> list_all2 (at_entity EO DO mem tree) es ks)"

lemma spread_Nil [simp]: "spread EO DO mem tree used []"
  by (auto simp: spread_def intro: exI[of _ "[]"])

lemma spread_Cons:
  "spread EO DO mem tree (insert e used) ks \<Longrightarrow> e \<notin> used \<Longrightarrow> at_entity EO DO mem tree e k \<Longrightarrow>
     spread EO DO mem tree used (k # ks)"
  unfolding spread_def
proof (elim exE conjE)
  fix es
  assume "e \<notin> used" "at_entity EO DO mem tree e k" "distinct es" "set es \<inter> insert e used = {}"
    "list_all2 (at_entity EO DO mem tree) es ks"
  then show "\<exists>es. distinct es \<and> set es \<inter> used = {} \<and> list_all2 (at_entity EO DO mem tree) es (k # ks)"
    by (intro exI[of _ "e # es"]) auto
qed

lemma alloc_blocks_spec:
  assumes ok: "btree_ok EO" "btree_ok DO" "btree_ok MO" and sz: "tree_sized EO DO mem init tree"
  shows "map_ok MO mem (ps_Map st) \<Longrightarrow> idx < treeLen \<Longrightarrow>
     alloc_blocks EO DO MO mem tree treeLen fd v c off is used idx st = Some res \<Longrightarrow>
     \<exists>ks. placed MO mem init v c is st ks res \<and> spread EO DO mem tree used ks \<and> fst res \<noteq> Panic"
proof (induction "is" arbitrary: used idx st)
  case Nil
  then show ?case using placed_Nil by fastforce
next
  case (Cons i "is")
  let ?loop = "entity_loop EO DO MO mem tree treeLen fd (int c + off + int i) used 0 idx st ''no entity attempted''"
  obtain r nx st1 where lp: "?loop = Some (r, nx, st1)"
    using Cons.prems(3) by (cases ?loop) auto
  have sp: "nx < treeLen" "case r of Inl e \<Rightarrow> unchanged MO mem init st st1
     | Inr (cur, na) \<Rightarrow> cur \<notin> used \<and> picked_one MO mem init st (nisd_id mem na) st1 \<and>
         at_entity EO DO mem tree cur (nisd_id mem na)"
    using entity_loop_spec[OF lp ok sz Cons.prems(1,2)] by simp_all
  show ?case
  proof (cases r)
    case (Inl err)
    then have "\<exists>e. res = (Fail e, st1)" using Cons.prems(3) lp by auto
    with sp(2) Inl show ?thesis using placed_stop by fastforce
  next
    case (Inr dn)
    obtain cur na where dn: "dn = (cur, na)" by fastforce
    let ?k = "nisd_id mem na"
    let ?st2 = "st1\<lparr>ps_Chgs := gen_block v c i ?k (ps_Chgs st1), ps_PickedN := insert ?k (ps_PickedN st1)\<rparr>"
    have one: "cur \<notin> used" "picked_one MO mem init st ?k st1" "at_entity EO DO mem tree cur ?k"
      using sp(2) Inr dn by simp_all
    have step: "alloc_blocks EO DO MO mem tree treeLen fd v c off is (insert cur used) nx ?st2 = Some res"
      using Cons.prems(3) lp Inr dn by (simp add: nisd_id_def)
    have "map_ok MO mem (ps_Map ?st2)" using one(2) by (simp add: picked_one_def)
    from Cons.IH[OF this sp(1) step] obtain ks where ks: "placed MO mem init v c is ?st2 ks res"
      "spread EO DO mem tree (insert cur used) ks" "fst res \<noteq> Panic" by blast
    have "placed MO mem init v c (i # is) st (?k # ks) res"
      by (rule placed_Cons[OF one(2) ks(1)]) (use one(2) in \<open>simp_all add: picked_one_def insert_absorb\<close>)
    with ks(3) spread_Cons[OF ks(2) one(1,3)] show ?thesis by blast
  qed
qed

subsection \<open>Chunks and vdevs\<close>

definition block_count :: "vdev_config \<Rightarrow> nat" where
  "block_count v = nat (TotalRedundancyBlocksPerChunk v)"

definition fresh_chunk :: "'tm pick_state \<Rightarrow> 'tm pick_state" where
  "fresh_chunk st = st\<lparr>ps_PickedN := {}, ps_PickedD := {}\<rparr>"

lemma fresh_chunk_simps [simp]:
  "ps_Map (fresh_chunk st) = ps_Map st" "ps_Chgs (fresh_chunk st) = ps_Chgs st" "ps_PickedN (fresh_chunk st) = {}"
  by (simp_all add: fresh_chunk_def)

lemma GetEntityByID_sized:
  assumes "GetEntityByID EO ft hs = Ret en" "hier_sized EO DO init hs" "length (hs_FD hs) = FD_MAX"
  shows "ent_sized DO (hs_Mem hs) init en"
proof -
  have "\<exists>f \<in> set (hs_FD hs). bt_get EO (fd_Tree f) (f_ID ft) = Some en"
    using assms(1,3)
    by (auto simp: GetEntityByID_def Let_def intro!: bexI[of _ "hs_FD hs ! nat (GetFDIdx (f_Type ft))"]
        split: if_splits option.splits)
  with assms(2) show ?thesis by (auto simp: hier_sized_def tree_sized_def)
qed

lemma allocateNisdPerChunk_spec:
  assumes ok: "btree_ok EO" "btree_ok DO" "btree_ok MO" and sz: "hier_sized EO DO init hs" and len: "length (hs_FD hs) = FD_MAX"
    and m: "map_ok MO (hs_Mem hs) (ps_Map st)"
    and run: "allocateNisdPerChunk EO DO MO hs v ft fd c off st = Some res"
  shows "\<exists>ks. placed MO (hs_Mem hs) init v c [0..<block_count v] (fresh_chunk st) ks res \<and>
     (f_ID ft = [] \<longrightarrow> spread EO DO (hs_Mem hs) (fd_Tree (hs_FD hs ! nat fd)) {} ks) \<and>
     (fst res = Ret () \<longrightarrow> 0 \<le> fd \<and> fd < int FD_MAX) \<and> (fst res = Panic \<longrightarrow> f_ID ft \<noteq> [])"
proof -
  let ?tree = "fd_Tree (hs_FD hs ! nat fd)" and ?st = "fresh_chunk st" and ?n = "[0..<block_count v]"
  have stop: ?thesis if "fst res = Fail err \<or> (fst res = Panic \<and> f_ID ft \<noteq> [])" "ps_Map (snd res) = ps_Map st"
    "ps_Chgs (snd res) = ps_Chgs st" for err
    using that m by (intro exI[of _ "[]"]) (auto simp: placed_def)
  consider (bad) "fd < 0 \<or> fd \<ge> int FD_MAX" | (empty) "0 \<le> fd" "fd < int FD_MAX" "bt_len EO ?tree = 0"
    | (good) "0 \<le> fd" "fd < int FD_MAX" "bt_len EO ?tree \<noteq> 0" by linarith
  then show ?thesis
  proof cases
    case bad
    with run stop show ?thesis by (auto simp: allocateNisdPerChunk_def)
  next
    case empty
    with run stop show ?thesis by (auto simp: allocateNisdPerChunk_def Let_def)
  next
    case good
    have ts: "tree_sized EO DO (hs_Mem hs) init ?tree"
      using sz len good by (auto simp: hier_sized_def)
    show ?thesis
    proof (cases "f_ID ft = []")
      case True
      have idx: "unat h mod bt_len EO ?tree < bt_len EO ?tree" for h :: uint64 using good by simp
      from run good True have "alloc_blocks EO DO MO (hs_Mem hs) ?tree (bt_len EO ?tree) (nat fd) v c off ?n {}
          (unat (NisdAllocHash (v_ID v @ utoa c)) mod bt_len EO ?tree) ?st = Some res"
        by (simp add: allocateNisdPerChunk_def Let_def GetIdxForNisdAlloc_def fresh_chunk_def block_count_def)
      from alloc_blocks_spec[OF ok ts _ idx this] m good show ?thesis by auto
    next
      case False
      then have run': "(case GetEntityByID EO ft hs of
             Fail err \<Rightarrow> Some (Fail err, ?st) | Panic \<Rightarrow> Some (Panic, ?st)
           | Ret en \<Rightarrow> Some (filtered_blocks DO MO (hs_Mem hs) v c off en ?n ?st)) = Some res"
        using run good unfolding fresh_chunk_def block_count_def by (simp add: allocateNisdPerChunk_def Let_def)
      show ?thesis
      proof (cases "GetEntityByID EO ft hs")
        case (Ret en)
        from filtered_blocks_spec[OF ok(2,3) GetEntityByID_sized[OF Ret sz len], of ?st v c ?n off] m
        obtain ks where "placed MO (hs_Mem hs) init v c ?n ?st ks (filtered_blocks DO MO (hs_Mem hs) v c off en ?n ?st)" by auto
        with run' Ret good False show ?thesis by auto
      next
        case (Fail err)
        with run' stop show ?thesis by auto
      next
        case Panic
        with run' stop False show ?thesis by auto
      qed
    qed
  qed
qed


lemma case_unit_id [simp]: "(case u of () \<Rightarrow> x) = x"
  by (rule case_unit_Unity)

definition add_chunks :: "vdev_config \<Rightarrow> (nat \<times> string list) list \<Rightarrow> commit_chg list \<Rightarrow> commit_chg list" where
  "add_chunks v ckss chgs = foldl (\<lambda>cs (c, ks). add_blocks v c (zip [0..<block_count v] ks) cs) chgs ckss"

lemma add_chunks_simps [simp]:
  "add_chunks v [] chgs = chgs"
  "add_chunks v ((c, ks) # ckss) chgs = add_chunks v ckss (add_blocks v c (zip [0..<block_count v] ks) chgs)"
  by (simp_all add: add_chunks_def)

definition chunk_ok ::
  "('te, 'td entities) btree \<Rightarrow> ('td, device_alloc) btree \<Rightarrow> 'te hier \<Rightarrow> vdev_config \<Rightarrow> filter_req \<Rightarrow> int \<Rightarrow> string list \<Rightarrow> bool" where
  "chunk_ok EO DO hs v ft fd ks \<longleftrightarrow>
     distinct ks \<and> length ks = block_count v \<and>
     (f_ID ft = [] \<longrightarrow> spread EO DO (hs_Mem hs) (fd_Tree (hs_FD hs ! nat fd)) {} ks)"

lemma alloc_chunks_spec:
  assumes ok: "btree_ok EO" "btree_ok DO" "btree_ok MO" and sz: "hier_sized EO DO init hs" and len: "length (hs_FD hs) = FD_MAX"
  shows "map_ok MO (hs_Mem hs) (ps_Map st) \<Longrightarrow> alloc_chunks EO DO MO hs v ft fd off cs st = Some res \<Longrightarrow>
     \<exists>kss. map_ok MO (hs_Mem hs) (ps_Map (snd res)) \<and>
       spend (ps_free MO init st) (concat kss) = Some (ps_free MO init (snd res)) \<and>
       (fst res = Ret () \<longrightarrow> length kss = length cs \<and> (\<forall>ks \<in> set kss. chunk_ok EO DO hs v ft fd ks) \<and>
          ps_Chgs (snd res) = add_chunks v (zip cs kss) (ps_Chgs st)) \<and>
       (fst res = Panic \<longrightarrow> f_ID ft \<noteq> [])"
proof (induction cs arbitrary: st)
  case Nil
  then show ?case by (intro exI[of _ "[]"]) auto
next
  case (Cons c cs)
  let ?run = "allocateNisdPerChunk EO DO MO hs v ft fd c off st"
  obtain r st1 where run: "?run = Some (r, st1)"
    using Cons.prems(2) by (cases ?run) auto
  obtain ks where ks: "placed MO (hs_Mem hs) init v c [0..<block_count v] (fresh_chunk st) ks (r, st1)"
    "f_ID ft = [] \<longrightarrow> spread EO DO (hs_Mem hs) (fd_Tree (hs_FD hs ! nat fd)) {} ks" "r = Panic \<longrightarrow> f_ID ft \<noteq> []"
    using allocateNisdPerChunk_spec[OF ok sz len Cons.prems(1) run] by auto
  have one: "map_ok MO (hs_Mem hs) (ps_Map st1)" "spend (ps_free MO init st) ks = Some (ps_free MO init st1)"
    "ps_Chgs st1 = add_blocks v c (zip [0..<block_count v] ks) (ps_Chgs st)"
    "r = Ret () \<longrightarrow> chunk_ok EO DO hs v ft fd ks"
    using ks by (simp_all add: placed_def chunk_ok_def)
  show ?case
  proof (cases r)
    case (Ret u)
    with Cons.prems(2) run have "alloc_chunks EO DO MO hs v ft fd off cs st1 = Some res" by simp
    from Cons.IH[OF one(1) this] obtain kss where
      "map_ok MO (hs_Mem hs) (ps_Map (snd res))" "spend (ps_free MO init st1) (concat kss) = Some (ps_free MO init (snd res))"
      "fst res = Ret () \<longrightarrow> length kss = length cs \<and> (\<forall>ks \<in> set kss. chunk_ok EO DO hs v ft fd ks) \<and>
          ps_Chgs (snd res) = add_chunks v (zip cs kss) (ps_Chgs st1)"
      "fst res = Panic \<longrightarrow> f_ID ft \<noteq> []" by blast
    with one Ret show ?thesis by (intro exI[of _ "ks # kss"]) (simp add: spend_append)
  next
    case (Fail err)
    then have "\<exists>e. res = (Fail e, st1)" using Cons.prems(2) run by auto
    with one show ?thesis by (intro exI[of _ "[ks]"]) auto
  next
    case Panic
    then have "res = (Panic, st1)" using Cons.prems(2) run by simp
    with one ks(3) Panic show ?thesis by (intro exI[of _ "[ks]"]) auto
  qed
qed

text \<open>What an allocation promises of a result: the changes made and the map.\<close>

definition allocated ::
  "('te, 'td entities) btree \<Rightarrow> ('td, device_alloc) btree \<Rightarrow> ('tm, nisd_vdev_alloc) btree \<Rightarrow> (string \<Rightarrow> int64)
   \<Rightarrow> 'te hier \<Rightarrow> vdev_config \<Rightarrow> filter_req \<Rightarrow> int \<Rightarrow> 'tm \<Rightarrow> string list list \<Rightarrow> bool" where
  "allocated EO DO MO init hs v ft fd m kss \<longleftrightarrow>
     length kss = unat (v_ChunkCnt v) \<and> (\<forall>ks \<in> set kss. chunk_ok EO DO hs v ft fd ks) \<and>
     spend init (concat kss) = Some (free_of MO init m)"

lemma allocateNisdPerVdev_spec:
  assumes ok: "btree_ok EO" "btree_ok DO" "btree_ok MO" and sz: "hier_sized EO DO init hs" and len: "length (hs_FD hs) = FD_MAX"
    and run: "allocateNisdPerVdev EO DO MO hs v ft fd (bt_new MO) off = Some (r, m)"
  shows "map_ok MO (hs_Mem hs) m \<and> (\<exists>ks. spend init ks = Some (free_of MO init m)) \<and>
     (\<forall>chgs. r = Ret chgs \<longrightarrow> (\<exists>kss. allocated EO DO MO init hs v ft fd m kss \<and>
        chgs = add_chunks v (zip [0..<unat (v_ChunkCnt v)] kss) [])) \<and>
     (r = Panic \<longrightarrow> f_ID ft \<noteq> [])"
proof -
  let ?st = "\<lparr>ps_Map = bt_new MO, ps_Usage = Map.empty, ps_PickedN = {}, ps_PickedD = {}, ps_Chgs = []\<rparr>"
  let ?run = "alloc_chunks EO DO MO hs v ft fd off [0..<unat (v_ChunkCnt v)] ?st"
  obtain r1 st1 where lp: "?run = Some (r1, st1)"
    using run by (cases ?run) (auto simp: allocateNisdPerVdev_def)
  have r: "m = ps_Map st1" "r = (case r1 of Ret _ \<Rightarrow> Ret (ps_Chgs st1) | Fail e \<Rightarrow> Fail e | Panic \<Rightarrow> Panic)"
    using run lp by (auto simp: allocateNisdPerVdev_def split: go.splits)
  have "map_ok MO (hs_Mem hs) (ps_Map ?st)" by (simp add: map_ok_new[OF ok(3)])
  from alloc_chunks_spec[OF ok sz len this lp, unfolded fst_conv snd_conv] obtain kss where
    kss: "map_ok MO (hs_Mem hs) (ps_Map st1)" "spend (ps_free MO init ?st) (concat kss) = Some (ps_free MO init st1)"
    "r1 = Ret () \<longrightarrow> length kss = length [0..<unat (v_ChunkCnt v)] \<and> (\<forall>ks \<in> set kss. chunk_ok EO DO hs v ft fd ks) \<and>
       ps_Chgs st1 = add_chunks v (zip [0..<unat (v_ChunkCnt v)] kss) (ps_Chgs ?st)"
    "r1 = Panic \<longrightarrow> f_ID ft \<noteq> []" by blast
  have sp: "spend init (concat kss) = Some (free_of MO init m)"
    using kss(2) by (simp add: free_of_new[OF ok(3)] r(1))
  show ?thesis
  proof (cases r1)
    case (Ret u)
    then have "allocated EO DO MO init hs v ft fd m kss" "r = Ret (add_chunks v (zip [0..<unat (v_ChunkCnt v)] kss) [])"
      using kss(3) sp by (simp_all add: allocated_def r(2))
    with kss(1) sp show ?thesis by (auto simp: r(1))
  qed (use kss(1,4) sp in \<open>auto simp: r\<close>)
qed


definition vdev_result ::
  "('te, 'td entities) btree \<Rightarrow> ('td, device_alloc) btree \<Rightarrow> ('tm, nisd_vdev_alloc) btree \<Rightarrow> (string \<Rightarrow> int64)
   \<Rightarrow> 'te hier \<Rightarrow> vdev_config \<Rightarrow> filter_req \<Rightarrow> unit go \<Rightarrow> 'tm \<Rightarrow> commit_chg list \<Rightarrow> commit_chg list \<Rightarrow> bool" where
  "vdev_result EO DO MO init hs v ft r m txn txn' \<longleftrightarrow>
     map_ok MO (hs_Mem hs) m \<and>
     (\<exists>kss. spend init (concat kss) = Some (free_of MO init m) \<and>
       (case r of
          Ret _ \<Rightarrow> (\<exists>fd. allocated EO DO MO init hs v ft fd m kss) \<and>
            txn' = txn @ add_chunks v (zip [0..<unat (v_ChunkCnt v)] kss) []
        | Fail err \<Rightarrow> txn' = txn
        | Panic \<Rightarrow> f_ID ft \<noteq> []))"

lemma allocateNisdsAtFailureDomain_spec:
  assumes ok: "btree_ok EO" "btree_ok DO" "btree_ok MO" and sz: "hier_sized EO DO init hs" and len: "length (hs_FD hs) = FD_MAX"
    and run: "allocateNisdsAtFailureDomain EO DO MO hs v ft fd (bt_new MO) txn off = Some (r, m, txn')"
  shows "vdev_result EO DO MO init hs v ft r m txn txn'"
proof -
  let ?run = "allocateNisdPerVdev EO DO MO hs v ft fd (bt_new MO) off"
  obtain r1 m1 where lp: "?run = Some (r1, m1)"
    using run by (cases ?run) (auto simp: allocateNisdsAtFailureDomain_def)
  note sp = allocateNisdPerVdev_spec[OF ok sz len lp]
  show ?thesis
  proof (cases r1)
    case (Ret chgs)
    then obtain kss where "allocated EO DO MO init hs v ft fd m1 kss"
      "chgs = add_chunks v (zip [0..<unat (v_ChunkCnt v)] kss) []" using sp by blast
    moreover have "m = m1" "r = Ret ()" "txn' = txn @ chgs" using run lp Ret
      by (simp_all add: allocateNisdsAtFailureDomain_def)
    ultimately show ?thesis using sp unfolding vdev_result_def
      by (intro conjI exI[of _ kss]) (auto simp: allocated_def)
  next
    case (Fail err)
    obtain ks where "spend init ks = Some (free_of MO init m1)" using sp by blast
    then have "\<exists>kss. spend init (concat kss) = Some (free_of MO init m1)" by (intro exI[of _ "[ks]"]) simp
    with run lp Fail sp show ?thesis by (auto simp: allocateNisdsAtFailureDomain_def vdev_result_def)
  next
    case Panic
    obtain ks where "spend init ks = Some (free_of MO init m1)" using sp by blast
    then have "\<exists>kss. spend init (concat kss) = Some (free_of MO init m1)" by (intro exI[of _ "[ks]"]) simp
    with run lp Panic sp show ?thesis by (auto simp: allocateNisdsAtFailureDomain_def vdev_result_def)
  qed
qed

lemma fd_loop_spec:
  assumes ok: "btree_ok EO" "btree_ok DO" "btree_ok MO" and sz: "hier_sized EO DO init hs" and len: "length (hs_FD hs) = FD_MAX"
  shows "fd_loop EO DO MO hs v ft off fds (bt_new MO) txn = Some (r, m, txn') \<Longrightarrow>
     vdev_result EO DO MO init hs v ft r m txn txn'"
proof (induction fds)
  case Nil
  then show ?case by (auto simp: vdev_result_def map_ok_new[OF ok(3)] free_of_new[OF ok(3)] intro: exI[of _ "[]"])
next
  case (Cons fd fds)
  let ?run = "allocateNisdsAtFailureDomain EO DO MO hs v ft fd (bt_new MO) txn off"
  obtain r1 m1 txn1 where lp: "?run = Some (r1, m1, txn1)" using Cons.prems by (cases ?run) auto
  note sp = allocateNisdsAtFailureDomain_spec[OF ok sz len lp]
  show ?case
  proof (cases r1)
    case (Fail err)
    then have "txn1 = txn" using sp by (auto simp: vdev_result_def)
    with Cons lp Fail show ?thesis by simp
  qed (use Cons.prems lp sp in auto)
qed

lemma AllocNISDs_spec:
  assumes ok: "btree_ok EO" "btree_ok DO" "btree_ok MO" and sz: "hier_sized EO DO init hs" and len: "length (hs_FD hs) = FD_MAX"
    and run: "AllocNISDs EO DO MO hs v ft (bt_new MO) txn off = Some (r, m, txn')"
  shows "vdev_result EO DO MO init hs v ft r m txn txn'"
proof (cases "f_Type ft = FD_ANY")
  case False
  with run allocateNisdsAtFailureDomain_spec[OF ok sz len] show ?thesis by (simp add: AllocNISDs_def)
next
  case True
  have np: "fd_level_loop EO t hs i k \<noteq> Panic" for t i k by (induction k arbitrary: i) auto
  show ?thesis
  proof (cases "GetFDLevel EO (TotalRedundancyBlocksPerChunk v) hs")
    case (Ret fd)
    with run True fd_loop_spec[OF ok sz len] show ?thesis by (simp add: AllocNISDs_def)
  next
    case (Fail err)
    with run True show ?thesis
      by (auto simp: AllocNISDs_def vdev_result_def map_ok_new[OF ok(3)] free_of_new[OF ok(3)] intro: exI[of _ "[]"])
  next
    case Panic
    with np show ?thesis by (simp add: GetFDLevel_def)
  qed
qed


end
