(* ===== verification/AllocTerm.thy ===== *)
theory AllocTerm
  imports AllocRefine
begin

section \<open>When the allocator returns\<close>

text \<open>
  The retry loop over the entities skips an entity that this chunk has used without counting the
  attempt. It returns as long as one entity is unused, so a chunk returns when the failure domain
  has as many entities as the chunk has blocks (or none at all); when all entities are used and a
  block is still to be placed, it runs forever.
\<close>

lemma entity_loop_range:
  assumes "entity_loop EO DO MO mem tree treeLen fd off used tried idx st le = Some res" and "idx < treeLen"
  shows "case res of (r, next, st') \<Rightarrow> next < treeLen \<and> (\<forall>cur na. r = Inr (cur, na) \<longrightarrow> cur < treeLen \<and> cur \<notin> used)"
  using assms
proof (induction rule: entity_loop.raw_induct[rotated, consumes 1, case_names step])
  case (step loop EO DO MO mem tree treeLen fd off used tried idx st le res)
  have nx: "(idx + 1) mod treeLen < treeLen" using step.prems by simp
  note IH = step.IH[OF _ nx]
  show ?case
  proof (cases "tried < treeLen")
    case False
    then show ?thesis using step.hyps step.prems by auto
  next
    case tr: True
    show ?thesis
    proof (cases "idx \<in> used")
      case True
      with step.hyps tr show ?thesis by (intro IH[of EO DO MO mem tree fd off used tried st le]) (simp add: Let_def)
    next
      case nu: False
      show ?thesis
      proof (cases "bt_at EO tree (int idx)")
        case None
        with step.hyps tr nu show ?thesis by (intro IH) (simp add: Let_def)
      next
        case (Some ent)
        obtain r st1 where pk: "pick_in_entity DO MO mem ent off st = (r, st1)" by fastforce
        show ?thesis
        proof (cases r)
          case (Inl err)
          with Some pk step.hyps tr nu show ?thesis by (intro IH) (simp add: Let_def)
        next
          case (Inr dn)
          obtain dev na where "dn = (dev, na)" by fastforce
          with Inr Some pk step.hyps tr nu have "res = (Inr (idx, na), (idx + 1) mod treeLen, mark_device dev st1)"
            by (simp add: Let_def)
          with nu nx step.prems show ?thesis by simp
        qed
      qed
    qed
  qed
qed

lemma entity_loop_diverges:
  assumes "{..<treeLen} \<subseteq> used" "idx < treeLen" "tried < treeLen"
  shows "entity_loop EO DO MO mem tree treeLen fd off used tried idx st le = None"
proof -
  have False if "entity_loop EO DO MO mem tree treeLen fd off used tried idx st le = Some res" for res
    using that assms
  proof (induction rule: entity_loop.raw_induct[rotated, consumes 1, case_names step])
    case (step loop EO DO MO mem tree treeLen fd off used tried idx st le res)
    have "idx \<in> used" using step.prems by auto
    with step.hyps step.prems
    have "loop EO DO MO mem tree treeLen fd off used tried ((idx + 1) mod treeLen) st le = Some res"
      by (simp add: Let_def)
    from step.IH[OF this] step.prems show False by simp
  qed
  then show ?thesis by (cases "entity_loop EO DO MO mem tree treeLen fd off used tried idx st le") auto
qed

text \<open>The distance from the current index to an unused one falls with each skip.\<close>

lemma dist_step:
  assumes "e < n" "idx < n" "idx \<noteq> (e :: nat)"
  shows "(e + n - (idx + 1) mod n) mod n < (e + n - idx) mod n"
proof (cases "idx + 1 < n")
  case True
  then have l: "(idx + 1) mod n = idx + 1" by simp
  show ?thesis
  proof (cases "idx < e")
    case True
    then have "(e + n - idx) mod n = e - idx" "(e + n - (idx + 1)) mod n = e - (idx + 1)"
      using assms by (simp_all add: mod_if)
    with True show ?thesis by (simp only: l)
  next
    case False
    then have "(e + n - idx) mod n = e + n - idx" "(e + n - (idx + 1)) mod n = e + n - (idx + 1)"
      using assms by simp_all
    with assms(2) show ?thesis by (simp only: l)
  qed
next
  case False
  then have n: "n = idx + 1" "e < idx" using assms by simp_all
  moreover have "(e + n) mod n = e" using n by (simp only: mod_add_self2 mod_less)
  ultimately have "(idx + 1) mod n = 0" "(e + n - idx) mod n = e + 1" "(e + n) mod n = e" by simp_all
  then show ?thesis by (simp only: diff_zero)
qed

lemma entity_loop_returns:
  assumes "e < treeLen" "e \<notin> used"
  shows "idx < treeLen \<Longrightarrow> \<exists>res. entity_loop EO DO MO mem tree treeLen fd off used tried idx st le = Some res"
proof (induction "treeLen - tried" arbitrary: tried idx st le)
  case 0
  then show ?case by (subst entity_loop.simps) simp
next
  case (Suc k)
  note outer = Suc.hyps(1)[of "tried + 1"]
  from \<open>Suc k = treeLen - tried\<close> have tr: "tried < treeLen" "k = treeLen - (tried + 1)" by simp_all
  from Suc.prems show ?case
  proof (induction "(e + treeLen - idx) mod treeLen" arbitrary: idx st le rule: less_induct)
    case less
    have nx: "(idx + 1) mod treeLen < treeLen" using tr by simp
    show ?case
    proof (cases "idx \<in> used")
      case True
      then have "idx \<noteq> e" using assms(2) by auto
      from less.hyps[OF dist_step[OF assms(1) less.prems this] nx] tr True show ?thesis
        by (subst entity_loop.simps) (simp add: Let_def)
    next
      case nu: False
      note next_try = outer[OF tr(2) nx]
      show ?thesis
      proof (cases "bt_at EO tree (int idx)")
        case None
        with nu tr next_try show ?thesis by (subst entity_loop.simps) (simp add: Let_def)
      next
        case (Some ent)
        obtain r st1 where pk: "pick_in_entity DO MO mem ent off st = (r, st1)" by fastforce
        with Some nu tr next_try show ?thesis
          by (subst entity_loop.simps) (cases r; auto simp: Let_def)
      qed
    qed
  qed
qed

lemma alloc_blocks_returns:
  assumes "used \<subseteq> {..<treeLen}" "length is + card used \<le> treeLen" "idx < treeLen"
  shows "\<exists>res. alloc_blocks EO DO MO mem tree treeLen fd v c off is used idx st = Some res"
  using assms
proof (induction "is" arbitrary: used idx st)
  case Nil
  then show ?case by simp
next
  case (Cons i "is")
  have "card used < card {..<treeLen}" using Cons.prems(2) by simp
  then obtain e where e: "e < treeLen" "e \<notin> used" using Cons.prems(1) by (metis lessThan_iff psubset_card_mono subsetI subset_antisym less_irrefl)
  let ?loop = "entity_loop EO DO MO mem tree treeLen fd (int c + off + int i) used 0 idx st ''no entity attempted''"
  obtain r nx st1 where lp: "?loop = Some (r, nx, st1)"
    using entity_loop_returns[OF e Cons.prems(3)] by (metis prod_cases3)
  note rg = entity_loop_range[OF lp Cons.prems(3)]
  show ?case
  proof (cases r)
    case (Inl err)
    with lp show ?thesis by simp
  next
    case (Inr dn)
    obtain cur na where dn: "dn = (cur, na)" by fastforce
    then have cur: "cur < treeLen" "cur \<notin> used" "nx < treeLen" using rg Inr by auto
    have "insert cur used \<subseteq> {..<treeLen}" "length is + card (insert cur used) \<le> treeLen"
      using Cons.prems cur finite_subset[OF Cons.prems(1)] by auto
    from Cons.IH[OF this cur(3)] lp Inr dn show ?thesis by simp
  qed
qed

definition enough_entities :: "('te, 'td entities) btree \<Rightarrow> 'te hier \<Rightarrow> vdev_config \<Rightarrow> filter_req \<Rightarrow> bool" where
  "enough_entities EO hs v ft \<longleftrightarrow>
     f_ID ft \<noteq> [] \<or> (\<forall>f \<in> set (hs_FD hs). bt_len EO (fd_Tree f) = 0 \<or> block_count v \<le> bt_len EO (fd_Tree f))"

lemma allocateNisdPerChunk_returns:
  assumes "enough_entities EO hs v ft" "length (hs_FD hs) = FD_MAX"
  shows "\<exists>res. allocateNisdPerChunk EO DO MO hs v ft fd c off st = Some res"
proof -
  let ?n = "bt_len EO (fd_Tree (hs_FD hs ! nat fd))"
  consider "fd < 0 \<or> fd \<ge> int FD_MAX" | "?n = 0" | "f_ID ft \<noteq> []"
    | (run) "f_ID ft = []" "0 \<le> fd" "fd < int FD_MAX" "?n \<noteq> 0" by linarith
  then show ?thesis
  proof cases
    case run
    then have "hs_FD hs ! nat fd \<in> set (hs_FD hs)" using assms(2) by simp
    with run have "block_count v \<le> ?n" using assms(1) by (auto simp: enough_entities_def)
    then have "\<exists>res. alloc_blocks EO DO MO (hs_Mem hs) (fd_Tree (hs_FD hs ! nat fd)) ?n (nat fd) v c off [0..<block_count v] {}
        (unat (NisdAllocHash (v_ID v @ utoa c)) mod ?n) (fresh_chunk st) = Some res"
      by (intro alloc_blocks_returns) (use run in simp_all)
    with run show ?thesis unfolding block_count_def fresh_chunk_def
      by (simp add: allocateNisdPerChunk_def Let_def GetIdxForNisdAlloc_def)
  qed (auto simp: allocateNisdPerChunk_def Let_def split: go.split)
qed

lemma alloc_chunks_returns:
  assumes "enough_entities EO hs v ft" "length (hs_FD hs) = FD_MAX"
  shows "\<exists>res. alloc_chunks EO DO MO hs v ft fd off cs st = Some res"
proof (induction cs arbitrary: st)
  case Nil
  then show ?case by simp
next
  case (Cons c cs)
  obtain r st1 where run: "allocateNisdPerChunk EO DO MO hs v ft fd c off st = Some (r, st1)"
    using allocateNisdPerChunk_returns[OF assms, of DO MO fd c off st] by auto
  then show ?case using Cons.IH[of st1] by (cases r) auto
qed

lemma allocateNisdsAtFailureDomain_returns:
  assumes "enough_entities EO hs v ft" "length (hs_FD hs) = FD_MAX"
  shows "\<exists>r m t. allocateNisdsAtFailureDomain EO DO MO hs v ft fd m0 txn off = Some (r, m, t)"
proof -
  let ?st = "\<lparr>ps_Map = m0, ps_Usage = Map.empty, ps_PickedN = {}, ps_PickedD = {}, ps_Chgs = []\<rparr>"
  obtain r st1 where "alloc_chunks EO DO MO hs v ft fd off [0..<unat (v_ChunkCnt v)] ?st = Some (r, st1)"
    using alloc_chunks_returns[OF assms, of DO MO fd off "[0..<unat (v_ChunkCnt v)]" ?st] by auto
  then show ?thesis
    by (cases r) (simp_all add: allocateNisdsAtFailureDomain_def allocateNisdPerVdev_def)
qed

text \<open>
  C5: the allocation of a vdev returns, with changes or with an error, when every level of the
  hierarchy is empty or has at least as many entities as a chunk has blocks (or the request names an
  entity).
\<close>

theorem AllocNISDs_returns:
  assumes "enough_entities EO hs v ft" and "length (hs_FD hs) = FD_MAX"
  shows "\<exists>r m txn'. AllocNISDs EO DO MO hs v ft m0 txn off = Some (r, m, txn')"
proof -
  have loop: "\<exists>r m t. fd_loop EO DO MO hs v ft off fds m0 txn = Some (r, m, t)" for fds m0 txn
  proof (induction fds arbitrary: m0 txn)
    case (Cons fd fds)
    obtain r m t where "allocateNisdsAtFailureDomain EO DO MO hs v ft fd m0 txn off = Some (r, m, t)"
      using allocateNisdsAtFailureDomain_returns[OF assms, of DO MO fd m0 txn off] by blast
    then show ?case using Cons.IH by (cases r) auto
  qed simp
  show ?thesis
    using allocateNisdsAtFailureDomain_returns[OF assms, of DO MO _ m0 txn off] loop
    by (auto simp: AllocNISDs_def split: go.split)
qed


lemma alloc_blocks_full:
  assumes "used \<subseteq> {..<treeLen}" "length is + card used = treeLen" "idx < treeLen"
    and "alloc_blocks EO DO MO mem tree treeLen fd v c off is used idx st = Some (Ret (), st1)"
  shows "alloc_blocks EO DO MO mem tree treeLen fd v c off (is @ i # js) used idx st = None"
  using assms
proof (induction "is" arbitrary: used idx st)
  case Nil
  then have "used = {..<treeLen}" by (intro card_subset_eq) simp_all
  with Nil.prems entity_loop_diverges[of treeLen used idx 0 EO DO MO mem tree fd "int c + off + int i" st]
  show ?case by simp
next
  case (Cons j "is")
  let ?loop = "entity_loop EO DO MO mem tree treeLen fd (int c + off + int j) used 0 idx st ''no entity attempted''"
  obtain r nx st2 where lp: "?loop = Some (r, nx, st2)" using Cons.prems(4) by (cases ?loop) auto
  obtain cur na where r: "r = Inr (cur, na)" using Cons.prems(4) lp by (cases r) auto
  have cur: "cur < treeLen" "cur \<notin> used" "nx < treeLen" using entity_loop_range[OF lp Cons.prems(3)] r by auto
  have "insert cur used \<subseteq> {..<treeLen}" "length is + card (insert cur used) = treeLen"
    using Cons.prems cur finite_subset[OF Cons.prems(1)] by auto
  from Cons.IH[OF this cur(3)] Cons.prems(4) lp r show ?case by simp
qed

text \<open>
  C6: when a chunk has more blocks than the failure domain has entities, and each entity takes one,
  the call does not return: the next block finds every entity used, and the retry loop skips them
  forever. (The automatic choice of the failure domain starts at a level with enough entities; a
  request that names the level is not checked.)
\<close>

theorem alloc_blocks_diverges:
  assumes "alloc_blocks EO DO MO mem tree treeLen fd v c off [0..<treeLen] {} idx st = Some (Ret (), st1)"
    and "idx < treeLen" and "treeLen < m"
  shows "alloc_blocks EO DO MO mem tree treeLen fd v c off [0..<m] {} idx st = None"
proof -
  have "[0..<m] = [0..<treeLen] @ treeLen # [Suc treeLen..<m]"
    using assms(3) by (metis le_add_diff_inverse less_imp_le_nat upt_add_eq_append upt_conv_Cons zero_le)
  then show ?thesis using alloc_blocks_full[OF _ _ assms(2,1)] by simp
qed

definition sample_hier :: "etree hier" where
  "sample_hier = snd (AddNisd alist_btree (alist_btree :: (dtree, device_alloc) btree) 0 empty_hier)"

abbreviation sample_map :: "((string \<times> nisd_vdev_alloc) list, nisd_vdev_alloc) btree" where
  "sample_map \<equiv> alist_btree"


definition sample_vdev :: vdev_config where
  "sample_vdev = \<lparr>v_ID = ''v'', v_Name = [], v_Size = 8589934592, v_Redundancy = RMReplica, v_ChunkCnt = 1,
     v_DataBlkCnt = 1, v_ParityBlkCnt = 0, v_VdevMountInfo = \<lparr>mi_MountCounter = 0, mi_LastUpdatedLTS = 0\<rparr>,
     v_PFSID = [], v_AccessToken = [], v_FilterType = [], v_FilterID = [], v_PFSName = []\<rparr>"

definition sample_state :: "(string \<times> nisd_vdev_alloc) list pick_state" where
  "sample_state = \<lparr>ps_Map = [], ps_Usage = Map.empty, ps_PickedN = {}, ps_PickedD = {}, ps_Chgs = []\<rparr>"

abbreviation dev_trees :: "(dtree, device_alloc) btree" where "dev_trees \<equiv> alist_btree"
abbreviation ent_trees :: "(etree, dtree entities) btree" where "ent_trees \<equiv> alist_btree"

declare entity_loop.simps [code]

lemma option_go_eq: "r \<noteq> None \<Longrightarrow> fst (the r) = x \<Longrightarrow> \<exists>y. r = Some (x, y)"
  by (cases r) auto

lemma add_loop_mem: "hs_Mem (add_loop EO DO devID n i ids hs) = hs_Mem hs"
  by (induction ids arbitrary: i hs) simp_all

lemma AddNisd_mem: "hs_Mem (snd (AddNisd EO DO n hs)) = hs_Mem hs"
  by (simp add: AddNisd_def add_loop_mem Let_def)

lemma sample_hier_mem: "hs_Mem sample_hier = (\<lambda>_. one_nisd)"
  by (simp add: sample_hier_def AddNisd_mem empty_hier_def HR_Init_def)

theorem alloc_blocks_diverges_witness:
  "alloc_blocks ent_trees dev_trees sample_map (hs_Mem sample_hier) (fd_Tree (hs_FD sample_hier ! HV_IDX)) 1 HV_IDX
     sample_vdev 0 0 [0..<2] {} 0 sample_state = None"
proof -
  let ?r = "alloc_blocks ent_trees dev_trees sample_map (hs_Mem sample_hier) (fd_Tree (hs_FD sample_hier ! HV_IDX)) 1 HV_IDX
     sample_vdev 0 0 [0..<1] {} 0 sample_state"
  have "?r \<noteq> None \<and> fst (the ?r) = Ret ()" by code_simp
  then have "\<exists>y. ?r = Some (Ret (), y)" by (elim conjE) (rule option_go_eq)
  then obtain st1 where "?r = Some (Ret (), st1)" ..
  then show ?thesis by (rule alloc_blocks_diverges) simp_all
qed

theorem AllocNISDs_returns_witness:
  "\<exists>r m txn'. AllocNISDs ent_trees dev_trees sample_map sample_hier sample_vdev \<lparr>f_ID = [], f_Type = FD_ANY\<rparr> [] [] 0 =
     Some (r, m, txn')"
proof (rule AllocNISDs_returns)
  show "enough_entities ent_trees sample_hier sample_vdev \<lparr>f_ID = [], f_Type = FD_ANY\<rparr>"
    unfolding enough_entities_def by code_simp
  show "length (hs_FD sample_hier) = FD_MAX" by code_simp
qed


end
