(* ===== verification/Authorizer.thy ===== *)
theory Authorizer
  imports Envelope
begin

section \<open>Access control: authorizer\<close>

text \<open>
  \<open>authorizer.go\<close>: the policy table, the role check and the ownership check. Ownership is a key
  \<open>/u/<user>/<prefix><value>\<close> with the value \<open>1\<close>; the store enters as its read function on the
  current state. The check ranges over a map from argument to prefixes, whose order does not
  matter for the result (\<open>CheckABAC_iff\<close>): the model visits it in the order the rules are listed.
\<close>

datatype (plugins only: code) function_name =
    F_WPCreateVdev | F_WPNisdCfg | F_ApplyNisd | F_WPDeviceInfo | F_WPCreatePartition | F_WPPDUCfg
  | F_WPRackCfg | F_WPHyperVisorCfg | F_WPNisdArgs | F_ReadAllNisdConfigs | F_ReadNisdConfig
  | F_ReadAllResources | F_RdDeviceInfo | F_ReadPartition | F_ReadPDUCfg | F_ReadRackCfg
  | F_ReadHyperVisorCfg | F_ReadVdevsInfoWithChunkMapping | F_ReadVdevInfo | F_APDeleteVdev
  | F_ReadAllVdevInfo | F_ReadChunk | F_ReadChunkNisd | F_RdNisdArgs | F_WPMountVdev | F_APMountVdev
  | F_WPPFSCfg | F_ReadPFSCfg | F_PutUser | F_GetUser | F_CreateAdminUser | F_Login
  | F_Other string

record abac_rule = ab_Argument :: string ab_Prefix :: string

record function_policy =
  fp_RBAC :: "string list"
  fp_ABAC :: "abac_rule list"

type_synonym config = "function_name \<Rightarrow> function_policy option"

abbreviation rbac :: "string list \<Rightarrow> function_policy option" where
  "rbac roles \<equiv> Some \<lparr>fp_RBAC = roles, fp_ABAC = []\<rparr>"

abbreviation rbac_abac :: "string list \<Rightarrow> (string \<times> string) list \<Rightarrow> function_policy option" where
  "rbac_abac roles rules \<equiv>
     Some \<lparr>fp_RBAC = roles, fp_ABAC = map (\<lambda>(a, p). \<lparr>ab_Argument = a, ab_Prefix = p\<rparr>) rules\<rparr>"

fun defaultPolicies :: config where
  "defaultPolicies F_WPCreateVdev = rbac [''admin'', ''user'']"
| "defaultPolicies F_WPNisdCfg = rbac [''admin'']"
| "defaultPolicies F_ApplyNisd = rbac [''admin'']"
| "defaultPolicies F_WPDeviceInfo = rbac [''admin'']"
| "defaultPolicies F_WPCreatePartition = rbac [''admin'']"
| "defaultPolicies F_WPPDUCfg = rbac [''admin'']"
| "defaultPolicies F_WPRackCfg = rbac [''admin'']"
| "defaultPolicies F_WPHyperVisorCfg = rbac [''admin'']"
| "defaultPolicies F_WPNisdArgs = rbac [''admin'']"
| "defaultPolicies F_ReadAllNisdConfigs = rbac [''admin'']"
| "defaultPolicies F_ReadNisdConfig = rbac [''admin'', ''user'']"
| "defaultPolicies F_RdDeviceInfo = rbac [''admin'']"
| "defaultPolicies F_ReadPartition = rbac [''admin'']"
| "defaultPolicies F_ReadPDUCfg = rbac [''admin'']"
| "defaultPolicies F_ReadRackCfg = rbac [''admin'']"
| "defaultPolicies F_ReadHyperVisorCfg = rbac [''admin'']"
| "defaultPolicies F_ReadVdevsInfoWithChunkMapping =
     rbac_abac [''user'', ''admin''] [(''vdev'', ''v/''), (''vdev'', ''vname/'')]"
| "defaultPolicies F_ReadVdevInfo =
     rbac_abac [''user'', ''admin''] [(''vdev'', ''v/''), (''vdev'', ''vname/'')]"
| "defaultPolicies F_APDeleteVdev = rbac [''admin'']"
| "defaultPolicies F_ReadAllVdevInfo = rbac [''admin'']"
| "defaultPolicies F_ReadChunk = rbac_abac [''user'', ''admin''] [(''vdev'', ''v/'')]"
| "defaultPolicies F_ReadChunkNisd = rbac_abac [''user'', ''admin''] [(''vdev'', ''v/'')]"
| "defaultPolicies F_RdNisdArgs = rbac [''admin'']"
| "defaultPolicies F_WPPFSCfg = rbac [''admin'']"
| "defaultPolicies F_ReadPFSCfg = rbac [''admin'', ''user'']"
| "defaultPolicies F_WPMountVdev = rbac [''admin'', ''user'']"
| "defaultPolicies F_APMountVdev = rbac_abac [''admin'', ''user''] [(''vdev'', ''v/'')]"
| "defaultPolicies F_ReadAllResources = rbac [''admin'']"
| "defaultPolicies F_PutUser = rbac [''admin'']"
| "defaultPolicies F_GetUser = rbac [''admin'', ''user'']"
| "defaultPolicies F_CreateAdminUser = rbac [''admin'']"
| "defaultPolicies F_Login = rbac [''admin'', ''user'']"
| "defaultPolicies (F_Other _) = None"

definition NewAuthorizer :: config where
  "NewAuthorizer = defaultPolicies"

definition NewAuthorizerWithConfig :: "config \<Rightarrow> config" where
  "NewAuthorizerWithConfig cfg = cfg"

definition getPolicy :: "config \<Rightarrow> function_name \<Rightarrow> function_policy option" where
  "getPolicy a fn = a fn"

definition CheckRBAC :: "config \<Rightarrow> function_name \<Rightarrow> string list \<Rightarrow> bool" where
  "CheckRBAC a fn userRoles =
     (case getPolicy a fn of
        None \<Rightarrow> False
      | Some policy \<Rightarrow> list_ex (\<lambda>allowedRole. allowedRole \<in> set userRoles) (fp_RBAC policy))"

type_synonym reader = "string \<Rightarrow> string + string"

definition prefixQuery :: "string \<Rightarrow> string \<Rightarrow> string \<Rightarrow> reader \<Rightarrow> bool" where
  "prefixQuery prefix userID val rd =
     (case rd (''/u/'' @ userID @ ''/'' @ prefix @ val) of
        Inl err \<Rightarrow> False
      | Inr res \<Rightarrow> res = ''1'')"

fun group_prefixes :: "(string \<times> string list) list \<Rightarrow> abac_rule list \<Rightarrow> (string \<times> string list) list" where
  "group_prefixes m [] = m"
| "group_prefixes m (r # rs) =
     group_prefixes
       (alist_update (ab_Argument r)
         ((case map_of m (ab_Argument r) of None \<Rightarrow> [] | Some ps \<Rightarrow> ps) @ [ab_Prefix r]) m) rs"

fun check_args ::
  "string \<Rightarrow> (string \<rightharpoonup> string) \<Rightarrow> reader \<Rightarrow> (string \<times> string list) list \<Rightarrow> bool" where
  "check_args userID attributes rd [] = True"
| "check_args userID attributes rd ((arg, prefixes) # rest) =
     (case attributes arg of
        None \<Rightarrow> False
      | Some val \<Rightarrow>
          if list_ex (\<lambda>prefix. prefixQuery prefix userID val rd) prefixes
          then check_args userID attributes rd rest else False)"

definition CheckABAC ::
  "config \<Rightarrow> function_name \<Rightarrow> string \<Rightarrow> (string \<rightharpoonup> string) \<Rightarrow> reader \<Rightarrow> bool" where
  "CheckABAC a fn userID attributes rd =
     (case getPolicy a fn of
        None \<Rightarrow> False
      | Some policy \<Rightarrow> check_args userID attributes rd (group_prefixes [] (fp_ABAC policy)))"

definition Authorize ::
  "config \<Rightarrow> function_name \<Rightarrow> string \<Rightarrow> string list \<Rightarrow> (string \<rightharpoonup> string) \<Rightarrow> reader \<Rightarrow> bool" where
  "Authorize a fn userID userRoles attributes rd \<longleftrightarrow>
     CheckRBAC a fn userRoles \<and> CheckABAC a fn userID attributes rd"

text \<open>The grouped map: every argument once, with the prefixes of its rules.\<close>

definition rule_prefixes :: "abac_rule list \<Rightarrow> string \<Rightarrow> string list" where
  "rule_prefixes rs arg = map ab_Prefix (filter (\<lambda>r. ab_Argument r = arg) rs)"

lemma group_prefixes_lookup:
  "map_of (group_prefixes m rs) arg =
     (if arg \<in> ab_Argument ` set rs \<or> map_of m arg \<noteq> None
      then Some ((case map_of m arg of None \<Rightarrow> [] | Some ps \<Rightarrow> ps) @ rule_prefixes rs arg) else None)"
  by (induction m rs rule: group_prefixes.induct) (auto simp: rule_prefixes_def split: option.splits)

lemma group_prefixes_distinct:
  "distinct (map fst m) \<Longrightarrow> distinct (map fst (group_prefixes m rs))"
  by (induction m rs rule: group_prefixes.induct) auto

lemma check_args_iff:
  "check_args uid attrs rd m \<longleftrightarrow>
     (\<forall>(arg, ps) \<in> set m. \<exists>v. attrs arg = Some v \<and> (\<exists>p \<in> set ps. prefixQuery p uid v rd))"
  by (induction uid attrs rd m rule: check_args.induct) (auto simp: list_ex_iff split: option.splits)

lemma group_prefixes_entry:
  "(arg, ps) \<in> set (group_prefixes [] rs) \<longleftrightarrow>
     arg \<in> ab_Argument ` set rs \<and> ps = rule_prefixes rs arg"
proof -
  have "(arg, ps) \<in> set (group_prefixes [] rs) \<longleftrightarrow> map_of (group_prefixes [] rs) arg = Some ps"
    by (rule map_of_eq_Some_iff[symmetric]) (rule group_prefixes_distinct, simp)
  also have "\<dots> \<longleftrightarrow> arg \<in> ab_Argument ` set rs \<and> ps = rule_prefixes rs arg"
    unfolding group_prefixes_lookup by auto
  finally show ?thesis .
qed

text \<open>
  The ownership check passes exactly when the function has a policy and, for every argument its
  rules name, the request has that attribute and at least one of the rules on the argument is
  satisfied by an ownership key: a conjunction over the arguments of a disjunction over the rules,
  whatever the order in which the code visits its map.
\<close>

lemma CheckABAC_iff:
  "CheckABAC a fn uid attrs rd \<longleftrightarrow>
     (\<exists>policy. a fn = Some policy \<and>
       (\<forall>r \<in> set (fp_ABAC policy). \<exists>v. attrs (ab_Argument r) = Some v \<and>
          (\<exists>r' \<in> set (fp_ABAC policy). ab_Argument r' = ab_Argument r \<and>
             rd (''/u/'' @ uid @ ''/'' @ ab_Prefix r' @ v) = Inr ''1'')))"
proof -
  have q: "prefixQuery p uid v rd \<longleftrightarrow> rd (''/u/'' @ uid @ ''/'' @ p @ v) = Inr ''1''" for p v
    by (auto simp: prefixQuery_def split: sum.splits)
  show ?thesis
  proof (cases "a fn")
    case None
    then show ?thesis by (simp add: CheckABAC_def getPolicy_def)
  next
    case (Some policy)
    then show ?thesis
      by (auto simp: CheckABAC_def getPolicy_def check_args_iff group_prefixes_entry rule_prefixes_def q
          Ball_def Bex_def)
  qed
qed

theorem CheckABAC_iff_witness:
  "\<not> CheckABAC defaultPolicies F_ReadChunk ''bob'' [''vdev'' \<mapsto> ''x''] (\<lambda>k. Inl ''no'')"
proof
  assume "CheckABAC defaultPolicies F_ReadChunk ''bob'' [''vdev'' \<mapsto> ''x''] (\<lambda>k. Inl ''no'')"
  then show False by (subst (asm) CheckABAC_iff) simp
qed

lemma CheckRBAC_iff:
  "CheckRBAC a fn roles \<longleftrightarrow> (\<exists>policy. a fn = Some policy \<and> set (fp_RBAC policy) \<inter> set roles \<noteq> {})"
  by (auto simp: CheckRBAC_def getPolicy_def list_ex_iff split: option.splits)

lemma CheckABAC_default_free:
  "\<exists>roles. a fn = rbac roles \<Longrightarrow> CheckABAC a fn uid attrs rd"
  by (auto simp: CheckABAC_def getPolicy_def)

text \<open>Every function of the default policy: which roles it admits.\<close>

lemma default_rbac_roles:
  "defaultPolicies fn = Some p \<Longrightarrow> set (fp_RBAC p) = {''admin''} \<or> set (fp_RBAC p) = {''admin'', ''user''}"
  by (cases fn) (auto simp: insert_commute)

end
