(* ===== verification/Auth.thy ===== *)
theory Auth
  imports Authorizer
begin

section \<open>Tokens and the checks every handler starts with\<close>

text \<open>
  \<open>jwt-token.go\<close> and the token checks of \<open>srvctlplanefuncs.go\<close>. The record \<open>env\<close> holds the package
  variables \<open>authorizer\<close> (nil is \<open>None\<close>) and \<open>authEnabled\<close>, and the functions of packages outside the
  repository or of the operating system: golang-jwt, google/uuid, and the RFC 3339 layout of the
  \<open>time\<close> package. \<open>jwt_ok\<close> states what the code relies on in golang-jwt: a signed token parses back
  to its claims under the key it was signed with until it expires, and is refused otherwise.
\<close>

datatype claim = CStr string | CBool bool | CNum int | CDate gotime

type_synonym claims = "(string \<times> claim) list"

record env =
  e_authorizer :: "config option"
  e_authEnabled :: bool
  e_ParseWithClaims :: "string \<Rightarrow> (string \<Rightarrow> string go) \<Rightarrow> (claims \<times> bool) go"
  e_SignedString :: "claims \<Rightarrow> string \<Rightarrow> string go"
  e_uuid_Parse :: "string \<Rightarrow> bool"
  e_uuid_Validate :: "string \<Rightarrow> bool"
  e_Format :: "gotime \<Rightarrow> string"
  e_TimeParse :: "string \<Rightarrow> gotime option"

abbreviation TokenIssuer :: string where "TokenIssuer \<equiv> ''ControlPlane''"

record token = tk_Secret :: string tk_TTL :: int

text \<open>
  \<open>now\<close> is the value of \<open>time.Now()\<close> in the call; a duration is in nanoseconds. \<open>jwt.NewNumericDate\<close>
  cuts a time to the second.
\<close>

definition numeric_date :: "gotime \<Rightarrow> gotime" where
  "numeric_date t = t - t mod 10 ^ 9"

definition CreateToken :: "env \<Rightarrow> gotime \<Rightarrow> token \<Rightarrow> claims \<Rightarrow> string go" where
  "CreateToken env now tc customClaims =
     (let claims = alist_update ''exp'' (CDate (numeric_date (now + tk_TTL tc)))
                     (alist_update ''iss'' (CStr TokenIssuer) customClaims)
      in e_SignedString env claims (tk_Secret tc))"

definition VerifyToken :: "env \<Rightarrow> token \<Rightarrow> string \<Rightarrow> claims go" where
  "VerifyToken env tc tokenString =
     go_bind
       (e_ParseWithClaims env tokenString
         (\<lambda>alg. if alg \<noteq> ''HS512'' then Fail (''unexpected signing method: '' @ alg)
                else Ret (tk_Secret tc)))
       (\<lambda>(claims, valid). if \<not> valid then Fail ''invalid token'' else Ret claims)"

definition jwt_ok :: "env \<Rightarrow> gotime \<Rightarrow> bool" where
  "jwt_ok env now \<longleftrightarrow>
     (\<forall>claims secret tok kf key t.
        e_SignedString env claims secret = Ret tok \<longrightarrow> map_of claims ''exp'' = Some (CDate t) \<longrightarrow>
        kf ''HS512'' = Ret key \<longrightarrow>
        (if key = secret \<and> now < t then e_ParseWithClaims env tok kf = Ret (claims, True)
         else \<exists>e. e_ParseWithClaims env tok kf = Fail e))"

lemma VerifyToken_CreateToken:
  assumes "jwt_ok env now'" and "CreateToken env now tc custom = Ret tok"
  shows "if tk_Secret tc' = tk_Secret tc \<and> now' < numeric_date (now + tk_TTL tc)
         then VerifyToken env tc' tok =
                Ret (alist_update ''exp'' (CDate (numeric_date (now + tk_TTL tc))) (alist_update ''iss'' (CStr TokenIssuer) custom))
         else \<exists>e. VerifyToken env tc' tok = Fail e"
proof -
  let ?c = "alist_update ''exp'' (CDate (numeric_date (now + tk_TTL tc))) (alist_update ''iss'' (CStr TokenIssuer) custom)"
  let ?kf = "\<lambda>alg. if alg \<noteq> ''HS512'' then Fail (''unexpected signing method: '' @ alg) else Ret (tk_Secret tc')"
  have "if tk_Secret tc' = tk_Secret tc \<and> now' < numeric_date (now + tk_TTL tc)
        then e_ParseWithClaims env tok ?kf = Ret (?c, True)
        else \<exists>e. e_ParseWithClaims env tok ?kf = Fail e"
    using assms by (auto simp: jwt_ok_def CreateToken_def Let_def)
  then show ?thesis by (auto simp: VerifyToken_def split: if_splits)
qed

subsection \<open>ValidateToken\<close>

record token_claims = tc_UserID :: string tc_Role :: string tc_IsAdmin :: bool

fun claim_string :: "claim option \<Rightarrow> string option" where
  "claim_string (Some (CStr s)) = Some s"
| "claim_string _ = None"

fun claim_bool :: "claim option \<Rightarrow> bool" where
  "claim_bool (Some (CBool b)) = b"
| "claim_bool _ = False"

definition anonymous :: token_claims where
  "anonymous = \<lparr>tc_UserID = ''anonymous'', tc_Role = ''anonymous'', tc_IsAdmin = False\<rparr>"

definition claims_identity :: "claims \<Rightarrow> token_claims go" where
  "claims_identity claims =
     (case claim_string (map_of claims ''userID'') of
        None \<Rightarrow> Fail ''invalid token: missing userID''
      | Some userID \<Rightarrow>
          if userID = [] then Fail ''invalid token: missing userID''
          else (case claim_string (map_of claims ''role'') of
                  None \<Rightarrow> Fail ''invalid token: missing role''
                | Some userRole \<Rightarrow>
                    if userRole = [] then Fail ''invalid token: missing role''
                    else Ret \<lparr>tc_UserID = userID, tc_Role = userRole,
                              tc_IsAdmin = claim_bool (map_of claims ''isAdmin'')\<rparr>))"

definition ValidateToken :: "env \<Rightarrow> string \<Rightarrow> token_claims go" where
  "ValidateToken env token =
     (if \<not> e_authEnabled env then Ret anonymous
      else if token = [] then Fail ''user token is required''
      else case VerifyToken env \<lparr>tk_Secret = CP_SECRET, tk_TTL = 0\<rparr> token of
             Fail err \<Rightarrow> Fail (''authentication failed: '' @ err)
           | Panic \<Rightarrow> Panic
           | Ret claims \<Rightarrow> claims_identity claims)"

definition validateAndAuthorizeRBAC :: "env \<Rightarrow> string \<Rightarrow> function_name \<Rightarrow> token_claims go" where
  "validateAndAuthorizeRBAC env token fn =
     (case ValidateToken env token of
        Fail err \<Rightarrow> Fail err
      | Panic \<Rightarrow> Panic
      | Ret tc \<Rightarrow>
          (case e_authorizer env of
             None \<Rightarrow> Ret tc
           | Some a \<Rightarrow>
               if e_authEnabled env \<and> \<not> CheckRBAC a fn [tc_Role tc]
               then Fail ''authorization failed: insufficient permissions''
               else Ret tc))"

text \<open>The guard of the handlers that check ownership: no authorizer, no check.\<close>

definition authorized :: "env \<Rightarrow> function_name \<Rightarrow> token_claims \<Rightarrow> (string \<rightharpoonup> string) \<Rightarrow> reader \<Rightarrow> bool" where
  "authorized env fn tc attributes rd =
     (case e_authorizer env of
        None \<Rightarrow> True
      | Some a \<Rightarrow> Authorize a fn (tc_UserID tc) [tc_Role tc] attributes rd)"

lemma ValidateToken_Ret:
  "ValidateToken env token = Ret tc \<longleftrightarrow>
     (if \<not> e_authEnabled env then tc = anonymous
      else token \<noteq> [] \<and>
        (\<exists>claims. VerifyToken env \<lparr>tk_Secret = CP_SECRET, tk_TTL = 0\<rparr> token = Ret claims \<and>
           map_of claims ''userID'' = Some (CStr (tc_UserID tc)) \<and> tc_UserID tc \<noteq> [] \<and>
           map_of claims ''role'' = Some (CStr (tc_Role tc)) \<and> tc_Role tc \<noteq> [] \<and>
           tc_IsAdmin tc = (map_of claims ''isAdmin'' = Some (CBool True))))"
proof -
  have s: "claim_string x = Some v \<longleftrightarrow> x = Some (CStr v)" for x v
    by (cases x rule: claim_string.cases) auto
  have b: "claim_bool x \<longleftrightarrow> x = Some (CBool True)" for x
    by (cases x rule: claim_bool.cases) auto
  have id: "claims_identity claims = Ret tc \<longleftrightarrow>
      map_of claims ''userID'' = Some (CStr (tc_UserID tc)) \<and> tc_UserID tc \<noteq> [] \<and>
      map_of claims ''role'' = Some (CStr (tc_Role tc)) \<and> tc_Role tc \<noteq> [] \<and>
      tc_IsAdmin tc = (map_of claims ''isAdmin'' = Some (CBool True))" for claims
    unfolding claims_identity_def s[symmetric] b[symmetric]
    by (cases tc; cases "claim_string (map_of claims ''userID'')"; cases "claim_string (map_of claims ''role'')")
      auto
  show ?thesis
    unfolding ValidateToken_def id[symmetric]
    by (cases "VerifyToken env \<lparr>tk_Secret = CP_SECRET, tk_TTL = 0\<rparr> token") auto
qed

text \<open>
  C9: a request passes the role check exactly when checking is switched off (then as the anonymous
  user), or its token is not empty, verifies under the control plane secret, names a user and a role,
  and the role is one that the policy of the function lists; while no authorizer is installed (the
  server answers requests before it calls \<open>InitAuthorizer\<close>) a valid token of any role passes.
\<close>

theorem validateAndAuthorizeRBAC_passes_iff:
  "validateAndAuthorizeRBAC env token fn = Ret tc \<longleftrightarrow>
     (if \<not> e_authEnabled env then tc = anonymous
      else token \<noteq> [] \<and>
        (\<exists>claims. VerifyToken env \<lparr>tk_Secret = CP_SECRET, tk_TTL = 0\<rparr> token = Ret claims \<and>
           map_of claims ''userID'' = Some (CStr (tc_UserID tc)) \<and> tc_UserID tc \<noteq> [] \<and>
           map_of claims ''role'' = Some (CStr (tc_Role tc)) \<and> tc_Role tc \<noteq> [] \<and>
           tc_IsAdmin tc = (map_of claims ''isAdmin'' = Some (CBool True))) \<and>
        (case e_authorizer env of
           None \<Rightarrow> True
         | Some a \<Rightarrow> \<exists>policy. a fn = Some policy \<and> tc_Role tc \<in> set (fp_RBAC policy)))"
proof -
  have "validateAndAuthorizeRBAC env token fn = Ret tc \<longleftrightarrow>
     ValidateToken env token = Ret tc \<and>
     (e_authEnabled env \<longrightarrow> (case e_authorizer env of None \<Rightarrow> True | Some a \<Rightarrow> CheckRBAC a fn [tc_Role tc]))"
    by (auto simp: validateAndAuthorizeRBAC_def split: go.splits option.splits if_splits)
  then show ?thesis
    by (auto simp: ValidateToken_Ret CheckRBAC_iff split: option.splits)
qed

lemma ValidateToken_CreateToken:
  assumes "jwt_ok env now'" and "e_authEnabled env"
    and "CreateToken env now tc custom = Ret tok" and "tok \<noteq> []"
    and "map_of custom ''userID'' = Some (CStr uid)" "uid \<noteq> []"
    and "map_of custom ''role'' = Some (CStr role)" "role \<noteq> []"
    and "map_of custom ''isAdmin'' = Some (CBool adm)"
  shows "if tk_Secret tc = CP_SECRET \<and> now' < numeric_date (now + tk_TTL tc)
         then ValidateToken env tok = Ret \<lparr>tc_UserID = uid, tc_Role = role, tc_IsAdmin = adm\<rparr>
         else \<exists>e. ValidateToken env tok = Fail e"
proof -
  note v = VerifyToken_CreateToken[OF assms(1,3), of "\<lparr>tk_Secret = CP_SECRET, tk_TTL = 0\<rparr>"]
  show ?thesis
  proof (cases "tk_Secret tc = CP_SECRET \<and> now' < numeric_date (now + tk_TTL tc)")
    case True
    with v assms show ?thesis by (simp add: ValidateToken_def claims_identity_def)
  next
    case False
    with v obtain e where "VerifyToken env \<lparr>tk_Secret = CP_SECRET, tk_TTL = 0\<rparr> tok = Fail e"
      by (auto split: if_splits)
    with False assms show ?thesis by (simp add: ValidateToken_def del: de_Morgan_conj)
  qed
qed

text \<open>
  C10: a login token and a mount token are not interchangeable: what \<open>CreateToken\<close> signs under the
  control plane secret with a user, a role and the administrator flag authenticates exactly that
  identity until it expires, and a token signed under another secret (that of the NISDs) is refused.
\<close>

theorem ValidateToken_of_CreateToken:
  assumes "jwt_ok env now'" and "e_authEnabled env"
    and "CreateToken env now tc custom = Ret tok" and "tok \<noteq> []"
    and "map_of custom ''userID'' = Some (CStr uid)" "uid \<noteq> []"
    and "map_of custom ''role'' = Some (CStr role)" "role \<noteq> []"
    and "map_of custom ''isAdmin'' = Some (CBool adm)"
  shows "if tk_Secret tc = CP_SECRET \<and> now' < numeric_date (now + tk_TTL tc)
         then ValidateToken env tok = Ret \<lparr>tc_UserID = uid, tc_Role = role, tc_IsAdmin = adm\<rparr>
         else \<exists>e. ValidateToken env tok = Fail e"
  by (rule ValidateToken_CreateToken[OF assms])

text \<open>
  An instance of the environment: the one token \<open>''tok''\<close> signs the claims of the administrator.
\<close>

definition sample_claims :: claims where
  "sample_claims = [(''userID'', CStr ''u1''), (''role'', CStr ''admin''), (''isAdmin'', CBool True)]"

definition sample_signed :: claims where
  "sample_signed = alist_update ''exp'' (CDate 900000000000) (alist_update ''iss'' (CStr TokenIssuer) sample_claims)"

definition sample_env :: env where
  "sample_env = \<lparr>
     e_authorizer = Some defaultPolicies,
     e_authEnabled = True,
     e_ParseWithClaims = (\<lambda>t kf.
       if t = ''tok'' then
         (case kf ''HS512'' of
            Ret key \<Rightarrow> if key = CP_SECRET then Ret (sample_signed, True) else Fail ''signature is invalid''
          | Fail e \<Rightarrow> Fail e
          | Panic \<Rightarrow> Panic)
       else Fail ''token is malformed''),
     e_SignedString = (\<lambda>c k. if c = sample_signed \<and> k = CP_SECRET then Ret ''tok'' else Fail ''key''),
     e_uuid_Parse = (\<lambda>s. length s = 2),
     e_uuid_Validate = (\<lambda>s. length s = 2),
     e_Format = (\<lambda>t. itoa t),
     e_TimeParse = (\<lambda>s. if snd (atoi s) then Some (fst (atoi s)) else None)\<rparr>"

lemma sample_jwt_ok: "now < 900000000000 \<Longrightarrow> jwt_ok sample_env now"
  by (auto simp: jwt_ok_def sample_env_def sample_signed_def sample_claims_def)

theorem ValidateToken_of_CreateToken_witness:
  "ValidateToken sample_env ''tok'' = Ret \<lparr>tc_UserID = ''u1'', tc_Role = ''admin'', tc_IsAdmin = True\<rparr>"
proof -
  have "if tk_Secret \<lparr>tk_Secret = CP_SECRET, tk_TTL = 900000000000\<rparr> = CP_SECRET \<and> 5 < numeric_date (0 + tk_TTL \<lparr>tk_Secret = CP_SECRET, tk_TTL = 900000000000\<rparr>)
        then ValidateToken sample_env ''tok'' = Ret \<lparr>tc_UserID = ''u1'', tc_Role = ''admin'', tc_IsAdmin = True\<rparr>
        else \<exists>e. ValidateToken sample_env ''tok'' = Fail e"
    by (rule ValidateToken_of_CreateToken[where now = 0 and custom = sample_claims])
      (simp_all add: sample_jwt_ok, simp_all add: sample_env_def CreateToken_def sample_signed_def sample_claims_def numeric_date_def)
  then show ?thesis by (simp add: numeric_date_def)
qed

theorem validateAndAuthorizeRBAC_passes_iff_witness:
  "validateAndAuthorizeRBAC sample_env ''tok'' F_PutUser
     = Ret \<lparr>tc_UserID = ''u1'', tc_Role = ''admin'', tc_IsAdmin = True\<rparr>"
  by (subst validateAndAuthorizeRBAC_passes_iff)
    (simp add: sample_env_def VerifyToken_def sample_signed_def sample_claims_def)

end
