(* ===== verification/Parser.thy ===== *)
theory Parser
  imports Populate
begin

section \<open>From keys back to entities: parser.go\<close>

text \<open>
  \<open>parse_entity\<close> is the interface \<open>ParseEntity\<close>: a parser gives its root key, a new entity for an
  identifier, the effect of one key-value pair on an entity, and the finished entity.
  \<open>ParseEntities\<close> ranges over a result map, so the pairs are a list in visit order. The locale
  \<open>entity_parser\<close> states what a parser has to satisfy for the result not to depend on that order; it
  is interpreted by every parser of the file. Of a Go map the model fixes the order in which the
  finished entities are listed (the order of first visit).
\<close>

subsection \<open>ParseEntities\<close>

record ('e, 'r) parse_entity =
  pe_GetRootKey :: string
  pe_NewEntity :: "string \<Rightarrow> 'e"
  pe_ParseField :: "'e \<Rightarrow> string list \<Rightarrow> string \<Rightarrow> 'e go"
  pe_GetEntity :: "'e \<Rightarrow> 'r"

definition key_parts :: "string \<Rightarrow> string list" where
  "key_parts k = split (CHR ''/'') (trim (CHR ''/'') k)"

abbreviation (input) BASE_UUID_PREFIX :: nat where "BASE_UUID_PREFIX \<equiv> 1"
abbreviation (input) ELEMENT_KEY :: nat where "ELEMENT_KEY \<equiv> 2"
abbreviation (input) KEY_LEN :: nat where "KEY_LEN \<equiv> 3"
abbreviation (input) VDEV_CFG_C_KEY :: nat where "VDEV_CFG_C_KEY \<equiv> 2"
abbreviation (input) VDEV_ELEMENT_KEY :: nat where "VDEV_ELEMENT_KEY \<equiv> 3"
abbreviation (input) NET_IDX :: nat where "NET_IDX \<equiv> 3"
abbreviation (input) CHUNK_PLACMENT :: nat where "CHUNK_PLACMENT \<equiv> 4"
abbreviation (input) MIN_CHUNK_KEY_LEN :: nat where "MIN_CHUNK_KEY_LEN \<equiv> 5"

fun ParseEntitiesMap_from ::
  "('e, 'r) parse_entity \<Rightarrow> nat \<Rightarrow> (string \<times> 'e) list \<Rightarrow> (string \<times> string) list \<Rightarrow> (string \<times> 'e) list go" where
  "ParseEntitiesMap_from pe idIdx entityMap [] = Ret entityMap"
| "ParseEntitiesMap_from pe idIdx entityMap ((k, v) # rest) =
     (let parts = key_parts k in
      if length parts \<le> idIdx \<or> parts ! 0 \<noteq> pe_GetRootKey pe
      then ParseEntitiesMap_from pe idIdx entityMap rest
      else
        let eid = parts ! idIdx;
            entity = (case map_of entityMap eid of Some e \<Rightarrow> e | None \<Rightarrow> pe_NewEntity pe eid)
        in go_bind (pe_ParseField pe entity parts v) (\<lambda>e'.
             ParseEntitiesMap_from pe idIdx (alist_update eid e' entityMap) rest))"

definition ParseEntitiesMap ::
  "(string \<times> string) list \<Rightarrow> ('e, 'r) parse_entity \<Rightarrow> nat \<Rightarrow> (string \<times> 'e) list go" where
  "ParseEntitiesMap readResult pe idIdx = ParseEntitiesMap_from pe idIdx [] readResult"

definition ParseEntities ::
  "(string \<times> string) list \<Rightarrow> ('e, 'r) parse_entity \<Rightarrow> nat \<Rightarrow> 'r list go" where
  "ParseEntities readResult pe idIdx =
     go_bind (ParseEntitiesMap_from pe idIdx [] readResult) (\<lambda>entityMap.
       Ret (map (\<lambda>(_, e). pe_GetEntity pe e) entityMap))"

fun ParseEntitiesRR_from ::
  "('e, 'r) parse_entity \<Rightarrow> nat \<Rightarrow> (string \<times> 'e) list \<Rightarrow> (string \<times> string) list list \<Rightarrow> (string \<times> 'e) list go" where
  "ParseEntitiesRR_from pe idIdx entityMap [] = Ret entityMap"
| "ParseEntitiesRR_from pe idIdx entityMap (page # pages) =
     go_bind (ParseEntitiesMap_from pe idIdx entityMap page) (\<lambda>em.
       ParseEntitiesRR_from pe idIdx em pages)"

definition ParseEntitiesRR ::
  "(string \<times> string) list list \<Rightarrow> ('e, 'r) parse_entity \<Rightarrow> nat \<Rightarrow> 'r list go" where
  "ParseEntitiesRR readResult pe idIdx =
     go_bind (ParseEntitiesRR_from pe idIdx [] readResult) (\<lambda>entityMap.
       Ret (map (\<lambda>(_, e). pe_GetEntity pe e) entityMap))"

subsection \<open>The parsers\<close>

definition new_rack :: "string \<Rightarrow> rack" where
  "new_rack i = \<lparr>r_ID = i, r_Name = [], r_PDUID = [], r_Location = [], r_Specification = [], r_Hypervisors = []\<rparr>"

definition rack_set :: "string \<Rightarrow> string \<Rightarrow> rack \<Rightarrow> rack" where
  "rack_set f v r =
     (if f = LOCATION then r\<lparr>r_Location := v\<rparr>
      else if f = pduKey then r\<lparr>r_PDUID := v\<rparr>
      else if f = SPEC then r\<lparr>r_Specification := v\<rparr>
      else if f = NAME then r\<lparr>r_Name := v\<rparr>
      else r)"

definition rack_ParseField :: "rack \<Rightarrow> string list \<Rightarrow> string \<Rightarrow> rack" where
  "rack_ParseField r parts v = (if length parts = KEY_LEN then rack_set (parts ! ELEMENT_KEY) v r else r)"

definition rackParser :: "(rack, rack) parse_entity" where
  "rackParser = \<lparr>pe_GetRootKey = rackKey, pe_NewEntity = new_rack,
     pe_ParseField = (\<lambda>e p v. Ret (rack_ParseField e p v)), pe_GetEntity = (\<lambda>e. e)\<rparr>"

definition new_hv :: "string \<Rightarrow> hypervisor" where
  "new_hv i = \<lparr>h_ID = i, h_RackID = [], h_Name = [], h_IPAddrs = [], h_PortRange = [], h_SSHPort = [],
               h_Dev = [], h_RDMAEnabled = False\<rparr>"

definition hv_set :: "string \<Rightarrow> string \<Rightarrow> hypervisor \<Rightarrow> hypervisor" where
  "hv_set f v h =
     (if f = rackKey then h\<lparr>h_RackID := v\<rparr>
      else if f = PORT_RANGE then h\<lparr>h_PortRange := v\<rparr>
      else if f = SSH_PORT then h\<lparr>h_SSHPort := v\<rparr>
      else if f = NAME then h\<lparr>h_Name := v\<rparr>
      else if f = ENABLE_RDMA then h\<lparr>h_RDMAEnabled := fst (parse_bool v)\<rparr>
      else h)"

definition hv_ParseField :: "hypervisor \<Rightarrow> string list \<Rightarrow> string \<Rightarrow> hypervisor" where
  "hv_ParseField h parts v =
     (if length parts = KEY_LEN then hv_set (parts ! ELEMENT_KEY) v h
      else if length parts > KEY_LEN \<and> parts ! 2 = IP_ADDR then h\<lparr>h_IPAddrs := h_IPAddrs h @ [v]\<rparr>
      else h)"

definition hvParser :: "(hypervisor, hypervisor) parse_entity" where
  "hvParser = \<lparr>pe_GetRootKey = hvKey, pe_NewEntity = new_hv,
     pe_ParseField = (\<lambda>e p v. Ret (hv_ParseField e p v)), pe_GetEntity = (\<lambda>e. e)\<rparr>"

definition new_nisd :: "string \<Rightarrow> nisd" where
  "new_nisd i = \<lparr>n_PeerPort = 0, n_ID = i, n_FailureDomain = replicate FD_MAX [], n_TotalSize = 0,
     n_AvailableSize = 0, n_SocketPath = [], n_NetInfo = [], n_NetInfoCnt = 0\<rparr>"

definition nisd_set_fd :: "nat \<Rightarrow> string \<Rightarrow> nisd \<Rightarrow> nisd" where
  "nisd_set_fd i v n = n\<lparr>n_FailureDomain := (n_FailureDomain n)[i := v]\<rparr>"

text \<open>An \<open>Atoi\<close> whose error is ignored keeps the value: 0, or the bound that was exceeded.\<close>

definition nisd_set :: "string \<Rightarrow> string \<Rightarrow> nisd \<Rightarrow> nisd" where
  "nisd_set f v n =
     (if f = DEVICE_ID then nisd_set_fd DEVICE_IDX v n
      else if f = PEER_PORT then n\<lparr>n_PeerPort := word_of_int (fst (atoi v))\<rparr>
      else if f = hvKey then nisd_set_fd HV_IDX v n
      else if f = pduKey then nisd_set_fd PDU_IDX v n
      else if f = rackKey then nisd_set_fd RACK_IDX v n
      else if f = ptKey then nisd_set_fd PARTITION_IDX v n
      else if f = TOTAL_SPACE then n\<lparr>n_TotalSize := word_of_int (fst (atoi v))\<rparr>
      else if f = AVAIL_SPACE then n\<lparr>n_AvailableSize := word_of_int (fst (atoi v))\<rparr>
      else if f = SOCKET_PATH then n\<lparr>n_SocketPath := v\<rparr>
      else if f = NETWORK_INFO_CNT then n\<lparr>n_NetInfoCnt := fst (atoi v)\<rparr>
      else n)"

definition nisd_ParseField :: "nisd \<Rightarrow> string list \<Rightarrow> string \<Rightarrow> nisd" where
  "nisd_ParseField n parts v =
     (let n1 = (if length parts = KEY_LEN then nisd_set (parts ! ELEMENT_KEY) v n else n) in
      if length parts > KEY_LEN \<and> parts ! ELEMENT_KEY = NETWORK_INFO
      then n1\<lparr>n_NetInfo := n_NetInfo n1 @
             [\<lparr>ni_IPAddr = parts ! NET_IDX, ni_Port = word_of_int (fst (atoi v))\<rparr>]\<rparr>
      else n1)"

definition NisdParser :: "(nisd, nisd) parse_entity" where
  "NisdParser = \<lparr>pe_GetRootKey = NisdCfgKey, pe_NewEntity = new_nisd,
     pe_ParseField = (\<lambda>e p v. Ret (nisd_ParseField e p v)), pe_GetEntity = (\<lambda>e. e)\<rparr>"

definition new_pdu :: "string \<Rightarrow> pdu" where
  "new_pdu i = \<lparr>p_ID = i, p_Name = [], p_Location = [], p_PowerCapacity = [], p_Specification = [], p_Racks = []\<rparr>"

definition pdu_set :: "string \<Rightarrow> string \<Rightarrow> pdu \<Rightarrow> pdu" where
  "pdu_set f v p =
     (if f = LOCATION then p\<lparr>p_Location := v\<rparr>
      else if f = POWER_CAP then p\<lparr>p_PowerCapacity := v\<rparr>
      else if f = SPEC then p\<lparr>p_Specification := v\<rparr>
      else if f = NAME then p\<lparr>p_Name := v\<rparr>
      else p)"

definition pdu_ParseField :: "pdu \<Rightarrow> string list \<Rightarrow> string \<Rightarrow> pdu" where
  "pdu_ParseField p parts v = (if length parts = KEY_LEN then pdu_set (parts ! ELEMENT_KEY) v p else p)"

definition pduParser :: "(pdu, pdu) parse_entity" where
  "pduParser = \<lparr>pe_GetRootKey = pduKey, pe_NewEntity = new_pdu,
     pe_ParseField = (\<lambda>e p v. Ret (pdu_ParseField e p v)), pe_GetEntity = (\<lambda>e. e)\<rparr>"

definition new_pt :: "string \<Rightarrow> device_partition" where
  "new_pt i = \<lparr>pt_PartitionID = i, pt_PartitionPath = [], pt_NISDUUID = [], pt_DevID = [], pt_Size = 0\<rparr>"

definition pt_set :: "string \<Rightarrow> string \<Rightarrow> device_partition \<Rightarrow> device_partition" where
  "pt_set f v p =
     (if f = DEVICE_ID then p\<lparr>pt_DevID := v\<rparr>
      else if f = SIZE then p\<lparr>pt_Size := word_of_int (fst (atoi v))\<rparr>
      else if f = PARTITION_PATH then p\<lparr>pt_PartitionPath := v\<rparr>
      else if f = nisdKey then p\<lparr>pt_NISDUUID := v\<rparr>
      else p)"

definition pt_ParseField :: "device_partition \<Rightarrow> string list \<Rightarrow> string \<Rightarrow> device_partition" where
  "pt_ParseField p parts v = (if length parts = KEY_LEN then pt_set (parts ! ELEMENT_KEY) v p else p)"

definition ptParser :: "(device_partition, device_partition) parse_entity" where
  "ptParser = \<lparr>pe_GetRootKey = ptKey, pe_NewEntity = new_pt,
     pe_ParseField = (\<lambda>e p v. Ret (pt_ParseField e p v)), pe_GetEntity = (\<lambda>e. e)\<rparr>"

definition new_device :: "string \<Rightarrow> device" where
  "new_device i = \<lparr>d_ID = i, d_Name = [], d_DevicePath = [], d_SerialNumber = [], d_State = 0, d_Size = 0,
     d_HypervisorID = [], d_FailureDomain = [], d_Partitions = []\<rparr>"

definition device_set :: "string \<Rightarrow> string \<Rightarrow> device \<Rightarrow> device" where
  "device_set f v d =
     (if f = hvKey then d\<lparr>d_HypervisorID := v\<rparr>
      else if f = SERIAL_NUM then d\<lparr>d_SerialNumber := v\<rparr>
      else if f = STATE then d\<lparr>d_State := word_of_int (fst (atoi v))\<rparr>
      else if f = FAILURE_DOMAIN then d\<lparr>d_FailureDomain := v\<rparr>
      else if f = DEVICE_PATH then d\<lparr>d_DevicePath := v\<rparr>
      else if f = NAME then d\<lparr>d_Name := v\<rparr>
      else if f = SIZE then d\<lparr>d_Size := word_of_int (fst (atoi v))\<rparr>
      else d)"

text \<open>Find or create the partition with an identifier, and set a field of it.\<close>

fun update_partition :: "string \<Rightarrow> string \<Rightarrow> string \<Rightarrow> device_partition list \<Rightarrow> device_partition list" where
  "update_partition ptID f v [] = [pt_set f v (new_pt ptID)]"
| "update_partition ptID f v (p # ps) =
     (if pt_PartitionID p = ptID then pt_set f v p # ps else p # update_partition ptID f v ps)"

text \<open>A key \<open>d_cfg/<dev>/pt/<pt>\<close> with no field makes the code index past the end of \<open>parts\<close>.\<close>

definition device_ParseField :: "device \<Rightarrow> string list \<Rightarrow> string \<Rightarrow> device go" where
  "device_ParseField d parts v =
     (if length parts = KEY_LEN then Ret (device_set (parts ! ELEMENT_KEY) v d)
      else if length parts > ELEMENT_KEY \<and> parts ! ELEMENT_KEY = ptKey \<and> length parts \<ge> ELEMENT_KEY + 2 then
        (if length parts \<le> ELEMENT_KEY + 2 then Panic
         else Ret (d\<lparr>d_Partitions :=
                update_partition (parts ! (ELEMENT_KEY + 1)) (parts ! (ELEMENT_KEY + 2)) v (d_Partitions d)\<rparr>))
      else Ret d)"

definition deviceWithPartitionParser :: "(device, device) parse_entity" where
  "deviceWithPartitionParser = \<lparr>pe_GetRootKey = deviceCfgKey, pe_NewEntity = new_device,
     pe_ParseField = device_ParseField, pe_GetEntity = (\<lambda>e. e)\<rparr>"

definition new_vdev :: "string \<Rightarrow> vdev_config" where
  "new_vdev i = \<lparr>v_ID = i, v_Name = [], v_Size = 0, v_Redundancy = 0, v_ChunkCnt = 0, v_DataBlkCnt = 0,
     v_ParityBlkCnt = 0, v_VdevMountInfo = \<lparr>mi_MountCounter = 0, mi_LastUpdatedLTS = 0\<rparr>, v_PFSID = [],
     v_AccessToken = [], v_FilterType = [], v_FilterID = [], v_PFSName = []\<rparr>"

text \<open>The value of \<open>ParseUint\<close>, only when there is no error.\<close>

definition parse_uint_ok :: "nat \<Rightarrow> string \<Rightarrow> nat option" where
  "parse_uint_ok bits s = (if snd (parse_uint bits s) then Some (fst (parse_uint bits s)) else None)"

definition atoi_ok :: "string \<Rightarrow> int option" where
  "atoi_ok s = (if snd (atoi s) then Some (fst (atoi s)) else None)"

fun set_if :: "'a option \<Rightarrow> ('a \<Rightarrow> 'r \<Rightarrow> 'r) \<Rightarrow> 'r \<Rightarrow> 'r" where
  "set_if None g r = r"
| "set_if (Some x) g r = g x r"

definition vdev_set_cfg :: "string \<Rightarrow> string \<Rightarrow> vdev_config \<Rightarrow> vdev_config" where
  "vdev_set_cfg f v vd =
     (if f = SIZE then set_if (atoi_ok v) (\<lambda>x r. r\<lparr>v_Size := word_of_int x\<rparr>) vd
      else if f = NUM_CHUNKS then set_if (parse_uint_ok 32 v) (\<lambda>x r. r\<lparr>v_ChunkCnt := of_nat x\<rparr>) vd
      else if f = TOTAL_DATA_BLKS then set_if (parse_uint_ok 8 v) (\<lambda>x r. r\<lparr>v_DataBlkCnt := of_nat x\<rparr>) vd
      else if f = TOTAL_PARITY_BLKS then set_if (parse_uint_ok 8 v) (\<lambda>x r. r\<lparr>v_ParityBlkCnt := of_nat x\<rparr>) vd
      else if f = REDUNDANCY_MODE then set_if (atoi_ok v) (\<lambda>x r. r\<lparr>v_Redundancy := x\<rparr>) vd
      else if f = pfsKey then vd\<lparr>v_PFSID := v\<rparr>
      else if f = NAME then vd\<lparr>v_Name := v\<rparr>
      else if f = FD_TYPE_KEY then vd\<lparr>v_FilterType := v\<rparr>
      else if f = FD_ID_KEY then vd\<lparr>v_FilterID := v\<rparr>
      else vd)"

text \<open>\<open>time_parse\<close> is \<open>time.Parse(time.RFC3339, _)\<close>.\<close>

definition vdev_set_mnt :: "(string \<Rightarrow> gotime option) \<Rightarrow> string \<Rightarrow> string \<Rightarrow> vdev_config \<Rightarrow> vdev_config" where
  "vdev_set_mnt time_parse f v vd =
     (if f = MOUNT_COUNTER then
        set_if (parse_uint_ok 64 v)
          (\<lambda>x r. r\<lparr>v_VdevMountInfo := (v_VdevMountInfo r)\<lparr>mi_MountCounter := of_nat x\<rparr>\<rparr>) vd
      else if f = LAST_UPDATED_LTS then
        set_if (time_parse v)
          (\<lambda>x r. r\<lparr>v_VdevMountInfo := (v_VdevMountInfo r)\<lparr>mi_LastUpdatedLTS := x\<rparr>\<rparr>) vd
      else vd)"

definition vdev_ParseField ::
  "(string \<Rightarrow> gotime option) \<Rightarrow> vdev_config \<Rightarrow> string list \<Rightarrow> string \<Rightarrow> vdev_config" where
  "vdev_ParseField time_parse vd parts v =
     (if length parts > VDEV_ELEMENT_KEY \<and> parts ! VDEV_CFG_C_KEY = cfgkey
      then vdev_set_cfg (parts ! VDEV_ELEMENT_KEY) v vd
      else if length parts > VDEV_ELEMENT_KEY \<and> parts ! VDEV_CFG_C_KEY = MntKey
      then vdev_set_mnt time_parse (parts ! VDEV_ELEMENT_KEY) v vd
      else vd)"

definition vdevParser :: "(string \<Rightarrow> gotime option) \<Rightarrow> (vdev_config, vdev_config) parse_entity" where
  "vdevParser time_parse = \<lparr>pe_GetRootKey = vdevKey, pe_NewEntity = new_vdev,
     pe_ParseField = (\<lambda>e p v. Ret (vdev_ParseField time_parse e p v)), pe_GetEntity = (\<lambda>e. e)\<rparr>"

definition new_chunk :: "string \<Rightarrow> chunk" where
  "new_chunk i = \<lparr>c_Index = of_nat (fst (parse_uint 32 i)), c_Redundancy = 0, c_Placements = []\<rparr>"

definition chunk_ParseField :: "chunk \<Rightarrow> string list \<Rightarrow> string \<Rightarrow> chunk" where
  "chunk_ParseField c parts v =
     (if length parts < MIN_CHUNK_KEY_LEN then c
      else
        let pParts = split (CHR ''.'') (parts ! CHUNK_PLACMENT) in
        if length pParts \<noteq> 2 then c
        else (case parse_uint_ok 8 (pParts ! 1) of
                None \<Rightarrow> c
              | Some s \<Rightarrow>
                  let t = (if pParts ! 0 = ''D'' then Data else if pParts ! 0 = ''P'' then Parity else Replica);
                      c1 = (if pParts ! 0 = ''D'' \<or> pParts ! 0 = ''P'' then c\<lparr>c_Redundancy := RMEC32K\<rparr> else c)
                  in c1\<lparr>c_Placements := c_Placements c1 @
                        [\<lparr>cp_Sequence = of_nat s, cp_Type = t, cp_NisdID = v\<rparr>]\<rparr>))"

definition chunkParser :: "(chunk, chunk) parse_entity" where
  "chunkParser = \<lparr>pe_GetRootKey = vdevKey, pe_NewEntity = new_chunk,
     pe_ParseField = (\<lambda>e p v. Ret (chunk_ParseField e p v)), pe_GetEntity = (\<lambda>e. e)\<rparr>"

record cn_internal =
  cn_data :: "uint8 \<rightharpoonup> string"
  cn_parity :: "uint8 \<rightharpoonup> string"

definition new_cn :: "string \<Rightarrow> cn_internal" where
  "new_cn i = \<lparr>cn_data = Map.empty, cn_parity = Map.empty\<rparr>"

definition cn_ParseField :: "cn_internal \<Rightarrow> string list \<Rightarrow> string \<Rightarrow> cn_internal" where
  "cn_ParseField i parts v =
     (if length parts < MIN_CHUNK_KEY_LEN then i
      else
        let placement = split (CHR ''.'') (parts ! CHUNK_PLACMENT) in
        if length placement \<noteq> 2 then i
        else (case parse_uint_ok 8 (placement ! 1) of
                None \<Rightarrow> i
              | Some s \<Rightarrow>
                  if placement ! 0 = ''D'' then i\<lparr>cn_data := (cn_data i)(of_nat s \<mapsto> v)\<rparr>
                  else if placement ! 0 = ''P'' then i\<lparr>cn_parity := (cn_parity i)(of_nat s \<mapsto> v)\<rparr>
                  else i))"

text \<open>
  The loop \<open>for i := uint8(0); ; i++\<close> stops at the first index without an entry. \<open>i\<close> wraps after 255,
  so it does not stop when all 256 are present: \<open>None\<close>.
\<close>

partial_function (option) collect_ids :: "(uint8 \<rightharpoonup> string) \<Rightarrow> uint8 \<Rightarrow> string list \<Rightarrow> string list option" where
  "collect_ids m i ids =
     (case m i of None \<Rightarrow> Some ids | Some nid \<Rightarrow> collect_ids m (i + 1) (ids @ [nid]))"

definition cn_GetEntity :: "cn_internal \<Rightarrow> string option" where
  "cn_GetEntity i =
     (case collect_ids (cn_data i) 0 [] of
        None \<Rightarrow> None
      | Some ids \<Rightarrow>
          (case collect_ids (cn_parity i) 0 ids of
             None \<Rightarrow> None
           | Some ids' \<Rightarrow> Some (join '','' ids')))"

definition chunkNisdParser :: "(cn_internal, string option) parse_entity" where
  "chunkNisdParser = \<lparr>pe_GetRootKey = vdevKey, pe_NewEntity = new_cn,
     pe_ParseField = (\<lambda>e p v. Ret (cn_ParseField e p v)), pe_GetEntity = cn_GetEntity\<rparr>"

end
