(* ===== verification/Vdev.thy ===== *)
theory Vdev
  imports Alloc Auth Parser
begin

section \<open>Creating, deleting and mounting a vdev\<close>

text \<open>
  The write handlers of \<open>srvctlplanefuncs.go\<close> that change a vdev. A request runs twice: the leader
  prepares it (\<open>WP...\<close>: the changes and the response, encoded), every replica applies it (\<open>AP...\<close>: on
  the store and, for create and delete, the hierarchy in memory). The state of an apply handler is
  the pair of both; \<open>None\<close> is a call that does not return. \<open>log.Fatal\<close> is \<open>Panic\<close>.
\<close>

subsection \<open>WPCreateVdev\<close>

definition name_char :: "char \<Rightarrow> bool" where
  "name_char c \<longleftrightarrow>
     (CHR ''a'' \<le> c \<and> c \<le> CHR ''z'') \<or> (CHR ''A'' \<le> c \<and> c \<le> CHR ''Z'') \<or>
     (CHR ''0'' \<le> c \<and> c \<le> CHR ''9'') \<or> c = CHR ''-'' \<or> c = CHR ''_''"

definition isAlphanumeric :: "string \<Rightarrow> bool" where
  "isAlphanumeric s \<longleftrightarrow> s \<noteq> [] \<and> list_all name_char s"

text \<open>\<open>%q\<close> of an ASCII string; bytes from 128 on are left as they are.\<close>

definition quote_char :: "char \<Rightarrow> string" where
  "quote_char c =
     (if c = CHR 0x22 \<or> c = CHR 0x5C then [CHR 0x5C, c]
      else if c = CHR 0x07 then [CHR 0x5C, CHR ''a''] else if c = CHR 0x08 then [CHR 0x5C, CHR ''b'']
      else if c = CHR 0x0C then [CHR 0x5C, CHR ''f''] else if c = CHR 0x0A then [CHR 0x5C, CHR ''n'']
      else if c = CHR 0x0D then [CHR 0x5C, CHR ''r''] else if c = CHR 0x09 then [CHR 0x5C, CHR ''t'']
      else if c = CHR 0x0B then [CHR 0x5C, CHR ''v'']
      else if c < CHR 0x20 \<or> c = CHR 0x7F then
        [CHR 0x5C, CHR ''x'', ''0123456789abcdef'' ! (of_char c div 16), ''0123456789abcdef'' ! (of_char c mod 16)]
      else [c])"

definition quote :: "string \<Rightarrow> string" where
  "quote s = CHR 0x22 # concat (map quote_char s) @ [CHR 0x22]"

definition vdev_cfg_key :: "string \<Rightarrow> string \<Rightarrow> string" where
  "vdev_cfg_key vid f = getConfKey vdevKey vid @ ''/'' @ cfgkey @ ''/'' @ f"

definition pfs_vdev_key :: "string \<Rightarrow> string \<Rightarrow> string" where
  "pfs_vdev_key pfsID vid = pfsKey @ ''/'' @ pfsID @ ''/v/'' @ vid"

definition pfs_offset_key :: "string \<Rightarrow> string" where
  "pfs_offset_key pfsID = pfsKey @ ''/'' @ pfsID @ ''/offset''"

text \<open>The changes of a new vdev, after its fields.\<close>

definition create_chgs :: "string \<Rightarrow> vdev_config \<Rightarrow> filter_req \<Rightarrow> commit_chg list" where
  "create_chgs userID v ft =
     [chg (vnameKey @ ''/'' @ v_Name v) (v_ID v)]
     @ [chg (vdev_cfg_key (v_ID v) FD_TYPE_KEY) (FDName (f_Type ft))]
     @ (if f_ID ft \<noteq> [] then [chg (vdev_cfg_key (v_ID v) FD_ID_KEY) (f_ID ft)] else [])
     @ [chg (''/u/'' @ userID @ ''/v/'' @ v_ID v) ''1'']
     @ (if v_PFSID v \<noteq> []
        then [chg (vdev_cfg_key (v_ID v) ''pfs'') (v_PFSID v), chg (pfs_vdev_key (v_PFSID v) (v_ID v)) []] else [])
     @ (if v_Name v \<noteq> [] then [chg (''/u/'' @ userID @ ''/vname/'' @ v_Name v) ''1''] else [])"

definition WPCreateVdev :: "env \<Rightarrow> string go \<Rightarrow> arg list \<Rightarrow> encoded go" where
  "WPCreateVdev env new_uuid args =
     go_bind (arg_at args 0) (\<lambda>a.
       case as_CPReq a of
         None \<Rightarrow> WPFuncError ''invalid argument: expecting type CPReq''
       | Some cpReq \<Rightarrow>
         (case rq_Payload cpReq of
            A_VdevReq vp ft \<Rightarrow>
              (case validateAndAuthorizeRBAC env (rq_Token cpReq) F_WPCreateVdev of
                 Panic \<Rightarrow> Panic
               | Fail err \<Rightarrow> WPAuthError err
               | Ret tc \<Rightarrow>
                 go_bind (must vp) (\<lambda>v0.
                   if v_Name v0 \<noteq> [] \<and> \<not> isAlphanumeric (v_Name v0)
                   then WPFuncError (''vdev name '' @ quote (v_Name v0) @
                     '' is invalid: must be non-empty and contain only letters, digits and hyphen(-)'')
                   else (case Init new_uuid v0 of
                      Panic \<Rightarrow> Panic
                    | Fail err \<Rightarrow> WPFuncError err
                    | Ret v \<Rightarrow>
                      go_bind (PopulateEntities v vdevPopulator vdevKey) (\<lambda>vdevChgs.
                        Ret (EncIntrm \<lparr>fi_Changes = vdevChgs @ create_chgs (tc_UserID tc) v ft,
                          fi_Response = A_ResponseXML
                            \<lparr>rx_Name = [], rx_ID = v_ID v, rx_Error = [], rx_Success = False\<rparr>\<rparr>)))))
          | _ \<Rightarrow> WPFuncError ''invalid payload: expecting type VdevReq''))"

subsection \<open>APCreateVdev\<close>

text \<open>\<open>PFSName\<close> is resolved to an identifier here, and the keys that the preparation left out are added.\<close>

definition resolve_pfs ::
  "'s data_store \<Rightarrow> 's \<Rightarrow> vdev_config \<Rightarrow> commit_chg list \<Rightarrow> string + vdev_config \<times> commit_chg list" where
  "resolve_pfs ds s v chgs =
     (if v_PFSName v \<noteq> [] \<and> v_PFSID v = [] then
        (case ds_Read ds s (getConfKey pfsKey (v_PFSName v)) of
           Inl err \<Rightarrow> Inl (''PFS '' @ quote (v_PFSName v) @ '' not found'')
         | Inr raw \<Rightarrow> Inr (v\<lparr>v_PFSID := raw\<rparr>,
             chgs @ [chg (vdev_cfg_key (v_ID v) ''pfs'') raw, chg (pfs_vdev_key raw (v_ID v)) []]))
      else Inr (v, chgs))"

definition atoi_error :: "string \<Rightarrow> string" where
  "atoi_error s = ''strconv.Atoi: parsing '' @ quote s @ '': '' @
     (if fst (atoi s) = 0 then ''invalid syntax'' else ''value out of range'')"

text \<open>The rotation offset: random, or the one stored with the PFS. \<open>n\<close> is the value of \<open>rand.Intn\<close>.\<close>

definition create_offset :: "'s data_store \<Rightarrow> 's \<Rightarrow> vdev_config \<Rightarrow> nat \<Rightarrow> string + int" where
  "create_offset ds s v n =
     (if v_PFSID v \<noteq> [] then
        (case ds_Read ds s (pfs_offset_key (v_PFSID v)) of
           Inl err \<Rightarrow> Inl err
         | Inr res \<Rightarrow> (case atoi res of (i, ok) \<Rightarrow> if ok then Inr i else Inl (atoi_error res)))
      else Inr (int n))"

definition no_response :: response_xml where
  "no_response = \<lparr>rx_Name = [], rx_ID = [], rx_Error = [], rx_Success = False\<rparr>"

text \<open>From the allocation on: allocate, add the PFS offset, commit, update the hierarchy.\<close>

definition create_alloc ::
  "('te, 'td entities) btree \<Rightarrow> ('td, device_alloc) btree \<Rightarrow> ('tm, nisd_vdev_alloc) btree \<Rightarrow> 's data_store
   \<Rightarrow> vdev_config \<Rightarrow> filter_req \<Rightarrow> commit_chg list \<Rightarrow> response_xml \<Rightarrow> int \<Rightarrow> 's \<times> 'te hier
   \<Rightarrow> (encoded go \<times> 's \<times> 'te hier) option" where
  "create_alloc EO DO MO ds v ft chgs resp offset st =
     (case AllocNISDs EO DO MO (snd st) v ft (bt_new MO) chgs offset of
        None \<Rightarrow> None
      | Some (Panic, _) \<Rightarrow> Some (Panic, st)
      | Some (Fail err, _) \<Rightarrow> Some (FuncError err, st)
      | Some (Ret _, allocMap, txn) \<Rightarrow>
          let txn1 = txn @ (if v_PFSID v \<noteq> []
                then [chg (pfs_offset_key (v_PFSID v)) (itoa (offset + TotalRedundancyBlocksPerChunk v))] else [])
          in (case commitAllocChgs ds MO (hs_Mem (snd st)) txn1 allocMap (fst st) of
                (Some err, s1) \<Rightarrow> Some (FuncError err, s1, snd st)
              | (None, s1) \<Rightarrow>
                  Some (EncodeResponse (A_ResponseXML (resp\<lparr>rx_Success := True\<rparr>)),
                        s1, applyNISDAlloc EO DO MO allocMap (snd st))))"

text \<open>After the prepared changes are decoded.\<close>

definition create_prepared ::
  "('te, 'td entities) btree \<Rightarrow> ('td, device_alloc) btree \<Rightarrow> ('tm, nisd_vdev_alloc) btree \<Rightarrow> 's data_store
   \<Rightarrow> (nat \<Rightarrow> nat) \<Rightarrow> vdev_config \<Rightarrow> filter_req \<Rightarrow> func_intrm \<Rightarrow> 's \<times> 'te hier \<Rightarrow> (encoded go \<times> 's \<times> 'te hier) option" where
  "create_prepared EO DO MO ds rnd v0 ft intrm st =
     (let resp = (case fi_Response intrm of A_ResponseXML x \<Rightarrow> x | _ \<Rightarrow> no_response);
          ok4 = (case fi_Response intrm of A_ResponseXML x \<Rightarrow> True | _ \<Rightarrow> False)
      in if \<not> ok4 \<and> rx_Error resp \<noteq> [] then Some (FuncError ''invalid response type'', st)
      else case resolve_pfs ds (fst st)
                  (v0\<lparr>v_ID := rx_ID resp, v_ChunkCnt := ucast (Count8GBChunks (v_Size v0))\<rparr>) (fi_Changes intrm) of
             Inl err \<Rightarrow> Some (FuncError err, st)
           | Inr (v, chgs) \<Rightarrow>
               (case create_offset ds (fst st) v (rnd (GetEntityCnt EO DEVICE_IDX (snd st) + 1)) of
                  Inl err \<Rightarrow> Some (FuncError err, st)
                | Inr offset \<Rightarrow> create_alloc EO DO MO ds v ft chgs resp offset st))"

definition APCreateVdev ::
  "('te, 'td entities) btree \<Rightarrow> ('td, device_alloc) btree \<Rightarrow> ('tm, nisd_vdev_alloc) btree \<Rightarrow> 's data_store
   \<Rightarrow> (nat \<Rightarrow> nat) \<Rightarrow> arg list \<Rightarrow> 's \<times> 'te hier \<Rightarrow> (encoded go \<times> 's \<times> 'te hier) option" where
  "APCreateVdev EO DO MO ds rnd args st =
     (if length args < 2 then Some (Panic, st)
      else case (map_option rq_Payload (as_CPReq (args ! 0)), as_CbArgs (args ! 1)) of
        (Some (A_VdevReq vp ft), Some cbArgs) \<Rightarrow>
          (case vp of
             None \<Rightarrow> Some (Panic, st)
           | Some v \<Rightarrow>
              (case (if v_Name v = [] then Inl [] else ds_Read ds (fst st) (vnameKey @ ''/'' @ v_Name v)) of
                 Inr (e # existing) \<Rightarrow>
                   Some (FuncError (''vdev with name '' @ quote (v_Name v) @ '' already exists (ID: '' @
                     (e # existing) @ '')''), st)
               | _ \<Rightarrow>
                 (case cb_AppData cbArgs of
                    Inl err \<Rightarrow> Some (FuncError (''failed to decode apply changes: '' @ err), st)
                  | Inr intrm \<Rightarrow>
                      (case fi_Response intrm of
                         A_CPResp (CPResp (Some e) page payload) \<Rightarrow> Some (Ret (EncResp (CPResp (Some e) page payload)), st)
                       | _ \<Rightarrow> create_prepared EO DO MO ds rnd v ft intrm st))))
      | _ \<Rightarrow> Some (InternalError ''invalid argument'', st))"


subsection \<open>APDeleteVdev\<close>

text \<open>
  What the scan of the keys of the vdev collects: its name and PFS, the keys to delete and the NISDs
  that get space back, with the size they will have. Go's map of NISDs is an association list.
\<close>

record delete_state =
  dl_Name :: string
  dl_PFSID :: string
  dl_Chgs :: "commit_chg list"
  dl_Refund :: "(string \<times> nisd) list"

text \<open>The NISD of a chunk key: read once, then credited one chunk per key.\<close>

definition refund_chunk ::
  "'s data_store \<Rightarrow> 's \<Rightarrow> cb_args \<Rightarrow> string \<Rightarrow> (string \<times> nisd) list \<Rightarrow> (string \<times> nisd) list go" where
  "refund_chunk ds s cb nisdID m =
     go_bind
       (if map_of m nisdID \<noteq> None then Ret m
        else (case ds_RangeRead ds s (prefix_args cb (getConfKey NisdCfgKey nisdID)) of
                Inl err \<Rightarrow> Fail err
              | Inr r \<Rightarrow>
                  go_bind (ParseEntities (rr_ResultMap r) NisdParser BASE_UUID_PREFIX) (\<lambda>nisdList.
                    Ret (if nisdList \<noteq> [] then alist_update nisdID (hd nisdList) m else m))))
       (\<lambda>m1. Ret (case map_of m1 nisdID of
          None \<Rightarrow> m1
        | Some n \<Rightarrow> alist_update nisdID (n\<lparr>n_AvailableSize := n_AvailableSize n + CHUNK_SIZE\<rparr>) m1))"

definition is_chunk_key :: "string \<Rightarrow> bool" where
  "is_chunk_key k \<longleftrightarrow> contains ''/c/'' k \<and> (contains ''/D.'' k \<or> contains ''/P.'' k)"

definition delete_key ::
  "'s data_store \<Rightarrow> 's \<Rightarrow> cb_args \<Rightarrow> string \<Rightarrow> string \<times> string \<Rightarrow> delete_state \<Rightarrow> delete_state go" where
  "delete_key ds s cb vid kv st =
     (case kv of (k, v) \<Rightarrow>
       let st1 = st\<lparr>dl_Name := if has_suffix (''/'' @ cfgkey @ ''/'' @ NAME) k then v else dl_Name st,
                    dl_PFSID := if has_suffix (''/'' @ cfgkey @ ''/'' @ pfsKey) k then v else dl_PFSID st,
                    dl_Chgs := dl_Chgs st @ [chg k []]\<rparr>
       in if is_chunk_key k then
            go_bind (refund_chunk ds s cb v (dl_Refund st1)) (\<lambda>m.
              Ret (st1\<lparr>dl_Refund := m,
                       dl_Chgs := dl_Chgs st1 @ [chg (nisdKey @ ''/'' @ v @ ''/'' @ vid) []]\<rparr>))
          else Ret st1)"

fun delete_keys ::
  "'s data_store \<Rightarrow> 's \<Rightarrow> cb_args \<Rightarrow> string \<Rightarrow> (string \<times> string) list \<Rightarrow> delete_state \<Rightarrow> delete_state go" where
  "delete_keys ds s cb vid [] st = Ret st"
| "delete_keys ds s cb vid (kv # kvs) st = go_bind (delete_key ds s cb vid kv st) (delete_keys ds s cb vid kvs)"

text \<open>The loop over the pages; it ends when the store gives no last key.\<close>

partial_function (option) delete_pages ::
  "'s data_store \<Rightarrow> 's \<Rightarrow> cb_args \<Rightarrow> string \<Rightarrow> range_args \<Rightarrow> delete_state \<Rightarrow> delete_state go option" where
  "delete_pages ds s cb vid rrArgs st =
     (case ds_RangeRead ds s rrArgs of
        Inl err \<Rightarrow> Some (Fail err)
      | Inr rrOp \<Rightarrow>
          (case delete_keys ds s cb vid (rr_ResultMap rrOp) st of
             Fail err \<Rightarrow> Some (Fail err)
           | Panic \<Rightarrow> Some Panic
           | Ret st1 \<Rightarrow>
               if rr_LastKey rrOp = [] then Some (Ret st1)
               else delete_pages ds s cb vid (rrArgs\<lparr>ra_Key := rr_LastKey rrOp, ra_SeqNum := rr_SeqNum rrOp\<rparr>) st1))"

definition delete_chgs :: "string \<Rightarrow> string \<Rightarrow> delete_state \<Rightarrow> commit_chg list" where
  "delete_chgs userID vid st =
     dl_Chgs st @ [chg (''/u/'' @ userID @ ''/v/'' @ vid) []]
     @ (if dl_Name st \<noteq> [] then [chg (vnameKey @ ''/'' @ dl_Name st) []] else [])
     @ (if dl_PFSID st \<noteq> [] then [chg (pfs_vdev_key (dl_PFSID st) vid) []] else [])"

definition refund_chgs :: "delete_state \<Rightarrow> commit_chg list" where
  "refund_chgs st = map (\<lambda>(nisdID, n).
     chg (getConfKey NisdCfgKey nisdID @ ''/'' @ AVAIL_SPACE) (itoa (sint (n_AvailableSize n)))) (dl_Refund st)"

text \<open>The sizes in memory; the first NISD that is not in the hierarchy stops the loop.\<close>

fun refund_mem ::
  "('te, 'td entities) btree \<Rightarrow> ('td, device_alloc) btree \<Rightarrow> (string \<times> nisd) list \<Rightarrow> 'te hier \<Rightarrow> unit go \<times> 'te hier" where
  "refund_mem EO DO [] hs = (Ret (), hs)"
| "refund_mem EO DO ((nisdID, n) # ns) hs =
     (if length (n_FailureDomain n) \<le> PDU_IDX then (Panic, hs)
      else case GetNisdByPDUID EO DO (n_FailureDomain n ! PDU_IDX) nisdID hs of
        Panic \<Rightarrow> (Panic, hs)
      | Fail err \<Rightarrow> (Fail err, hs)
      | Ret a \<Rightarrow> refund_mem EO DO ns
          (hs\<lparr>hs_Mem := (hs_Mem hs)(a := (hs_Mem hs a)\<lparr>n_AvailableSize := n_AvailableSize n\<rparr>)\<rparr>))"

definition delete_commit ::
  "('te, 'td entities) btree \<Rightarrow> ('td, device_alloc) btree \<Rightarrow> 's data_store \<Rightarrow> string \<Rightarrow> string \<Rightarrow> delete_state
   \<Rightarrow> 's \<times> 'te hier \<Rightarrow> encoded go \<times> 's \<times> 'te hier" where
  "delete_commit EO DO ds userID vid dl st =
     (case applyKV ds (refund_chgs dl) (fst st) of
        (Some err, s1) \<Rightarrow> (FuncError err, s1, snd st)
      | (None, s1) \<Rightarrow>
          (case deleteKV ds (delete_chgs userID vid dl) s1 of
             (Ret _, s2) \<Rightarrow>
               (case refund_mem EO DO (dl_Refund dl) (snd st) of
                  (Ret _, hs) \<Rightarrow> (EncodeResponse (A_ResponseXML
                      \<lparr>rx_Name = ''vdev'', rx_ID = vid, rx_Error = [], rx_Success = True\<rparr>), s2, hs)
                | (Fail err, hs) \<Rightarrow> (FuncError err, s2, hs)
                | (Panic, hs) \<Rightarrow> (Panic, s2, hs))
           | (_, s2) \<Rightarrow> (Panic, s2, snd st)))"

definition vdev_args :: "cb_args \<Rightarrow> string \<Rightarrow> range_args" where
  "vdev_args cb vid = prefix_args cb (getConfKey vdevKey vid)"

definition APDeleteVdev ::
  "('te, 'td entities) btree \<Rightarrow> ('td, device_alloc) btree \<Rightarrow> env \<Rightarrow> 's data_store \<Rightarrow> arg list
   \<Rightarrow> 's \<times> 'te hier \<Rightarrow> (encoded go \<times> 's \<times> 'te hier) option" where
  "APDeleteVdev EO DO env ds args st =
     (case the_CbArgs args 1 of
        Ret cb \<Rightarrow>
          (case map_option (\<lambda>r. (rq_Token r, rq_Payload r)) (as_CPReq (args ! 0)) of
             Some (tok, A_DeleteVdevReq vid) \<Rightarrow>
               (case DeleteVdevReq_Validate (e_uuid_Parse env) vid of
                  Some err \<Rightarrow> Some (FuncError err, st)
                | None \<Rightarrow>
                    (case validateAndAuthorizeRBAC env tok F_APDeleteVdev of
                       Panic \<Rightarrow> Some (Panic, st)
                     | Fail err \<Rightarrow> Some (FuncError err, st)
                     | Ret tc \<Rightarrow>
                         (case delete_pages ds (fst st) cb vid (vdev_args cb vid)
                                 \<lparr>dl_Name = [], dl_PFSID = [], dl_Chgs = [], dl_Refund = []\<rparr> of
                            None \<Rightarrow> None
                          | Some Panic \<Rightarrow> Some (Panic, st)
                          | Some (Fail err) \<Rightarrow> Some (FuncError err, st)
                          | Some (Ret dl) \<Rightarrow> Some (delete_commit EO DO ds (tc_UserID tc) vid dl st))))
           | _ \<Rightarrow> Some (Fail ''invalid request type'', st))
      | _ \<Rightarrow> Some (Panic, st))"

subsection \<open>Mounting\<close>

text \<open>\<open>now\<close> is \<open>time.Now()\<close>. The role check here does not ask whether checking is switched on.\<close>

definition WPMountVdev :: "env \<Rightarrow> gotime \<Rightarrow> arg list \<Rightarrow> encoded go" where
  "WPMountVdev env now args =
     go_bind (arg_at args 0) (\<lambda>a.
       case as_CPReq a of
         None \<Rightarrow> Fail ''invalid request type''
       | Some cpReq \<Rightarrow>
           (case ValidateToken env (rq_Token cpReq) of
              Panic \<Rightarrow> Panic
            | Fail err \<Rightarrow> WPAuthError err
            | Ret tc \<Rightarrow>
                if (case e_authorizer env of None \<Rightarrow> False | Some az \<Rightarrow> \<not> CheckRBAC az F_WPMountVdev [tc_Role tc])
                then WPAuthError ''User is not authorized''
                else Ret (EncIntrm \<lparr>fi_Changes = [],
                       fi_Response = A_MountBytes \<lparr>mi_MountCounter = 0, mi_LastUpdatedLTS = now\<rparr>\<rparr>)))"

abbreviation VDEV_MOUNT_LIMIT :: int where "VDEV_MOUNT_LIMIT \<equiv> 30 * 10 ^ 9"

definition mount_key :: "string \<Rightarrow> string \<Rightarrow> string" where
  "mount_key vid f = vdevKey @ ''/'' @ vid @ ''/'' @ MntKey @ ''/'' @ f"

text \<open>A name is looked up by a range read; the last key of two parts gives the identifier.\<close>

definition resolve_vdev_name ::
  "env \<Rightarrow> 's data_store \<Rightarrow> 's \<Rightarrow> cb_args \<Rightarrow> string \<Rightarrow> string + string" where
  "resolve_vdev_name env ds s cb vid =
     (if e_uuid_Validate env vid then Inr vid
      else case ds_RangeRead ds s (prefix_args cb (getConfKey vnameKey vid)) of
             Inl err \<Rightarrow> Inl err
           | Inr r \<Rightarrow> Inr (foldl (\<lambda>acc (k, v). if length (key_parts k) = ELEMENT_KEY then v else acc) vid (rr_ResultMap r)))"

text \<open>The counter and the time of the last mount, and the counter of this one.\<close>

definition mount_counter :: "env \<Rightarrow> gotime \<Rightarrow> string \<Rightarrow> (string \<times> string) list \<Rightarrow> uint64 go" where
  "mount_counter env now vid m =
     (let counter = (case map_of m (mount_key vid MOUNT_COUNTER) of
                       Some v \<Rightarrow> of_nat (fst (parse_uint 64 v)) | None \<Rightarrow> 0);
          lastUpdated = (case map_of m (mount_key vid LAST_UPDATED_LTS) of
                           Some v \<Rightarrow> (case e_TimeParse env v of Some t \<Rightarrow> t | None \<Rightarrow> 0) | None \<Rightarrow> 0)
      in if m = [] then Ret counter
         else if now - lastUpdated < VDEV_MOUNT_LIMIT then Fail ''mount request within active window''
         else Ret (counter + 1))"

definition mount_claims :: "env \<Rightarrow> string \<Rightarrow> uint64 \<Rightarrow> gotime \<Rightarrow> claims" where
  "mount_claims env vid counter t =
     [(''vi'', CStr vid), (''mc'', CNum (int (unat counter))), (''ia'', CStr (e_Format env t))]"

definition mount_chgs :: "env \<Rightarrow> string \<Rightarrow> uint64 \<Rightarrow> gotime \<Rightarrow> commit_chg list" where
  "mount_chgs env vid counter t =
     [chg (mount_key vid MOUNT_COUNTER) (utoa (unat counter)), chg (mount_key vid LAST_UPDATED_LTS) (e_Format env t)]"

text \<open>From the mount state on: \<open>clock\<close> is the \<open>time.Now()\<close> of \<open>CreateToken\<close>, \<open>t\<close> the time of the request.\<close>

definition mount_vdev ::
  "env \<Rightarrow> gotime \<Rightarrow> 's data_store \<Rightarrow> cb_args \<Rightarrow> string \<Rightarrow> gotime \<Rightarrow> 's \<Rightarrow> encoded go \<times> 's" where
  "mount_vdev env clock ds cb vid t s =
     (case ds_RangeRead ds s (prefix_args cb (vdevKey @ ''/'' @ vid @ ''/'')) of
        Inl err \<Rightarrow> (FuncError err, s)
      | Inr r \<Rightarrow>
          (case mount_counter env t vid (rr_ResultMap r) of
             Panic \<Rightarrow> (Panic, s)
           | Fail err \<Rightarrow> (FuncError err, s)
           | Ret counter \<Rightarrow>
               (case CreateToken env clock \<lparr>tk_Secret = NISD_SECRET, tk_TTL = 30 * 60 * 10 ^ 9\<rparr> (mount_claims env vid counter t) of
                  Panic \<Rightarrow> (Panic, s)
                | Fail err \<Rightarrow> (FuncError err, s)
                | Ret token \<Rightarrow>
                    with_go (ParseEntities (rr_ResultMap r) (vdevParser (e_TimeParse env)) BASE_UUID_PREFIX) s (\<lambda>vdevList.
                      if vdevList = [] then (FuncError ''vdev not found'', s)
                      else case applyKV ds (mount_chgs env vid counter t) s of
                             (Some err, s1) \<Rightarrow> (FuncError err, s1)
                           | (None, s1) \<Rightarrow> (EncodeResponse (A_VdevConfig ((hd vdevList)
                               \<lparr>v_VdevMountInfo := \<lparr>mi_MountCounter = counter, mi_LastUpdatedLTS = t\<rparr>,
                                v_AccessToken := token\<rparr>)), s1)))))"

text \<open>\<open>gob_err\<close> is the decoder's error for bytes that do not hold a \<open>VdevMountInfo\<close>.\<close>

definition APMountVdev ::
  "env \<Rightarrow> (string \<Rightarrow> string) \<Rightarrow> gotime \<Rightarrow> 's data_store \<Rightarrow> arg list \<Rightarrow> 's \<Rightarrow> encoded go \<times> 's" where
  "APMountVdev env gob_err clock ds args s =
     (if length args < 2 then (Panic, s)
      else case (as_CPReq (args ! 0), as_CbArgs (args ! 1)) of
        (Some cpReq, Some cb) \<Rightarrow>
          (case rq_Payload cpReq of
             A_MountVdevRequest req \<Rightarrow>
               (case ValidateToken env (rq_Token cpReq) of
                  Panic \<Rightarrow> (Panic, s)
                | Fail err \<Rightarrow> (AuthError err, s)
                | Ret tc \<Rightarrow>
                    (case resolve_vdev_name env ds s cb req of
                       Inl err \<Rightarrow> (FuncError err, s)
                     | Inr vid \<Rightarrow>
                         if \<not> authorized env F_APMountVdev tc [''vdev'' \<mapsto> vid] (ds_Read ds s)
                         then (AuthError ''User is not authorized'', s)
                         else (case cb_AppData cb of
                            Inl err \<Rightarrow> (FuncError err, s)
                          | Inr intrm \<Rightarrow>
                              (case fi_Response intrm of
                                 A_MountBytes mnt \<Rightarrow> mount_vdev env clock ds cb vid (mi_LastUpdatedLTS mnt) s
                               | A_Bytes b \<Rightarrow> (FuncError (gob_err b), s)
                               | _ \<Rightarrow> (Panic, s)))))
           | _ \<Rightarrow> (Fail ''invalid payload type'', s))
      | _ \<Rightarrow> (Fail ''invalid arguments to APMountVdev'', s))"

end
