(* ===== verification/StoreLemmas.thy ===== *)
theory StoreLemmas
  imports Populate
begin

section \<open>Changes and range reads on a store that works\<close>

text \<open>
  What a list of changes leaves under a key, and what a read of a prefix returns, on a store that
  satisfies \<open>store_exact\<close>. Shared by the theories that follow an entity from the request that writes it
  to the request that reads it.
\<close>

subsection \<open>The effect of changes on one key\<close>

lemma chgs_effect_other: "\<forall>c \<in> set cs. cc_Key c \<noteq> k \<Longrightarrow> chgs_effect cs m k = m k"
  by (induction cs arbitrary: m) (auto split: chg_op.split)

text \<open>When every change of a key writes the same value, that value is there afterwards.\<close>

lemma chgs_effect_unique:
  assumes "\<exists>c \<in> set cs. cc_Key c = k" and "\<forall>c \<in> set cs. cc_Key c = k \<longrightarrow> cc_Op c = OpApply \<and> cc_Value c = v"
  shows "chgs_effect cs m k = Some v"
proof -
  have "chgs_effect cs m k = Some v" if "(\<exists>c \<in> set cs. cc_Key c = k) \<or> m k = Some v" for m
    using that assms(2)
  proof (induction cs arbitrary: m)
    case (Cons c cs)
    have "(\<exists>c \<in> set cs. cc_Key c = k) \<or> chg_effect m c k = Some v"
      using Cons.prems by (cases "cc_Key c = k") (auto split: chg_op.split)
    with Cons.IH Cons.prems(2) show ?case by simp
  qed simp
  with assms(1) show ?thesis by blast
qed

text \<open>Writes with different keys: afterwards the store has the pairs written, and elsewhere what it had.\<close>

lemma chgs_effect_entries:
  assumes "distinct (map cc_Key cs)" and "\<forall>c \<in> set cs. cc_Op c = OpApply"
  shows "chgs_effect cs m = (\<lambda>k. case map_of (map entry cs) k of Some v \<Rightarrow> Some v | None \<Rightarrow> m k)"
  using assms
proof (induction cs arbitrary: m)
  case (Cons c cs)
  have none: "map_of (map entry cs) (cc_Key c) = None"
    using Cons.prems(1) by (auto simp: map_of_eq_None_iff entry_def image_image)
  have step: "chg_effect m c = m(cc_Key c \<mapsto> cc_Value c)" using Cons.prems(2) by simp
  have ih: "chgs_effect cs m' = (\<lambda>k. case map_of (map entry cs) k of Some v \<Rightarrow> Some v | None \<Rightarrow> m' k)" for m'
    using Cons by simp
  have e: "entry c = (cc_Key c, cc_Value c)" by (simp add: entry_def)
  show ?case
    unfolding chgs_effect_simps(2) step ih list.map(2) e map_of.simps fst_conv snd_conv
    using none by (auto simp: fun_eq_iff split: option.split)
qed simp

text \<open>Writes of a function of an item: each item has its value afterwards.\<close>

lemma chgs_effect_map:
  assumes "distinct (map f xs)" "x \<in> set xs"
  shows "chgs_effect (map (\<lambda>x. chg (f x) (g x)) xs) m (f x) = Some (g x)"
  using assms
proof (induction xs arbitrary: m)
  case (Cons y ys)
  show ?case
  proof (cases "x = y")
    case True
    with Cons.prems have "\<forall>c \<in> set (map (\<lambda>x. chg (f x) (g x)) ys). cc_Key c \<noteq> f x"
      by (simp add: image_iff) metis
    from chgs_effect_other[OF this] True show ?thesis by simp
  qed (use Cons in auto)
qed simp

subsection \<open>Reading a prefix\<close>

lemma exact_range_cases:
  assumes "store_exact ds cont"
  shows "if \<exists>k. cont s k \<noteq> None \<and> has_prefix (ra_Prefix a) k
         then \<exists>r. ds_RangeRead ds s a = Inr r \<and> rr_LastKey r = [] \<and>
                map_of (rr_ResultMap r) = (\<lambda>k. if has_prefix (ra_Prefix a) k then cont s k else None)
         else ds_RangeRead ds s a = Inl errKeyNotFoundMsg"
  using assms unfolding store_exact_def by (elim conjE) (drule spec, erule spec)

lemma exact_range:
  assumes "store_exact ds cont" and "cont s k0 = Some v0" "has_prefix p k0"
  shows "\<exists>r. ds_RangeRead ds s (prefix_args cb p) = Inr r \<and> rr_LastKey r = [] \<and>
     (\<forall>k v. (k, v) \<in> set (rr_ResultMap r) \<longleftrightarrow> has_prefix p k \<and> cont s k = Some v)"
proof -
  let ?a = "prefix_args cb p"
  have p: "ra_Prefix ?a = p" by (simp add: prefix_args_def)
  have "\<exists>k. cont s k \<noteq> None \<and> has_prefix (ra_Prefix ?a) k" using assms(2,3) p by auto
  from exact_range_cases[OF assms(1), of s ?a, unfolded if_P[OF this]]
  obtain r where r: "ds_RangeRead ds s ?a = Inr r" "rr_LastKey r = []"
    "map_of (rr_ResultMap r) = (\<lambda>k. if has_prefix (ra_Prefix ?a) k then cont s k else None)" by blast
  have "distinct (map fst (rr_ResultMap r))"
    using sound_range[OF exact_sound[OF assms(1)] r(1)] by blast
  then have "(k, v) \<in> set (rr_ResultMap r) \<longleftrightarrow> map_of (rr_ResultMap r) k = Some v" for k v by simp
  with r show ?thesis unfolding r(3) p by auto
qed

lemma exact_range_none:
  assumes "store_exact ds cont" and "\<forall>k. has_prefix p k \<longrightarrow> cont s k = None"
  shows "ds_RangeRead ds s (prefix_args cb p) = Inl errKeyNotFoundMsg"
proof -
  have "\<not> (\<exists>k. cont s k \<noteq> None \<and> has_prefix (ra_Prefix (prefix_args cb p)) k)"
    using assms(2) by (auto simp: prefix_args_def)
  from exact_range_cases[OF assms(1), of s "prefix_args cb p", unfolded if_not_P[OF this]] show ?thesis .
qed

end
