(* ===== verification/VdevSpec.thy ===== *)
theory VdevSpec
  imports Vdev AllocTerm StoreLemmas
begin

section \<open>What creating a vdev does to the store and to the hierarchy\<close>

text \<open>
  On a store that works (\<open>store_exact\<close>) a creation is all or nothing: an error leaves the store and the
  hierarchy as they were, and after a success the store holds the changes of the vdev and, for every
  NISD that was picked, the same free size as the hierarchy in memory.
\<close>

subsection \<open>Committing an allocation\<close>

definition avail_key :: "string \<Rightarrow> string" where
  "avail_key nid = getConfKey (getConfKey NisdCfgKey nid) AVAIL_SPACE"

lemma avail_key_inj [simp]: "avail_key a = avail_key b \<longleftrightarrow> a = b"
  by (simp add: avail_key_def getConfKey_def)

lemma alloc_chgs_effect:
  assumes "btree_ok MO" "map_ok MO mem m" "bt_get MO m k = Some na"
  shows "chgs_effect (alloc_chgs MO mem m) c (avail_key k) = Some (itoa (sint (nva_AvailableSize na)))"
proof -
  let ?f = "\<lambda>p :: string \<times> nisd_vdev_alloc. avail_key (n_ID (mem (nva_Ptr (snd p))))"
  have id: "n_ID (mem (nva_Ptr v)) = j" if "(j, v) \<in> set (bt_items MO m)" for j v
    using that assms(2) by (simp add: btree_items_iff[OF assms(1)] map_ok_def)
  then have eq: "map ?f (bt_items MO m) = map (\<lambda>p. avail_key (fst p)) (bt_items MO m)" by auto
  moreover have "distinct (map (\<lambda>p. avail_key (fst p)) (bt_items MO m))"
    using btree_laws(5)[OF assms(1), of m]
    by (simp add: distinct_map inj_on_def)
  ultimately have d: "distinct (map ?f (bt_items MO m))" by (simp only: eq)
  have mem: "(k, na) \<in> set (bt_items MO m)" using assms(3) by (simp add: btree_items_iff[OF assms(1)])
  have "alloc_chgs MO mem m = map (\<lambda>p. chg (?f p) (itoa (sint (nva_AvailableSize (snd p))))) (bt_items MO m)"
    by (auto simp: alloc_chgs_def avail_key_def)
  with chgs_effect_map[OF d mem, of "\<lambda>p. itoa (sint (nva_AvailableSize (snd p)))" c] id[OF mem] show ?thesis by simp
qed

lemma alloc_chgs_write: "c \<in> set (alloc_chgs MO mem m) \<Longrightarrow> cc_Op c = OpApply"
  by (auto simp: alloc_chgs_def)

text \<open>In memory: only the sizes of the NISDs of the map change.\<close>

lemma del_loop_mem: "hs_Mem (del_loop EO DO devID nid i ids hs) = hs_Mem hs"
  by (induction ids arbitrary: i hs) simp_all

lemma apply_one_mem:
  "hs_Mem (apply_one EO DO hs na) =
     (hs_Mem hs)(nva_Ptr na := (hs_Mem hs (nva_Ptr na))\<lparr>n_AvailableSize := nva_AvailableSize na\<rparr>)"
  by (simp add: apply_one_def DeleteNisd_def del_loop_mem Let_def)

lemma applyNISDAlloc_mem:
  assumes "btree_ok MO" "map_ok MO (hs_Mem hs) m"
  shows "hs_Mem (applyNISDAlloc EO DO MO m hs) =
     (\<lambda>a. case bt_get MO m (n_ID (hs_Mem hs a)) of
        Some na \<Rightarrow> if nva_Ptr na = a then (hs_Mem hs a)\<lparr>n_AvailableSize := nva_AvailableSize na\<rparr> else hs_Mem hs a
      | None \<Rightarrow> hs_Mem hs a)"
proof -
  have step: "hs_Mem (foldl (\<lambda>hs (_, na). apply_one EO DO hs na) hs xs) a =
      (case List.find (\<lambda>p. nva_Ptr (snd p) = a) xs of
         Some p \<Rightarrow> (hs_Mem hs a)\<lparr>n_AvailableSize := nva_AvailableSize (snd p)\<rparr> | None \<Rightarrow> hs_Mem hs a)"
    if "distinct (map (\<lambda>p. nva_Ptr (snd p)) xs)" for xs :: "(string \<times> nisd_vdev_alloc) list" and a hs
    using that
  proof (induction xs arbitrary: hs)
    case (Cons p ps)
    obtain k na where p: "p = (k, na)" by fastforce
    show ?case
    proof (cases "nva_Ptr na = a")
      case True
      then have "List.find (\<lambda>p. nva_Ptr (snd p) = a) ps = None"
        using Cons.prems p unfolding find_None_iff by (auto simp: image_iff)
      with Cons True p show ?thesis by (simp add: apply_one_mem)
    next
      case False
      with Cons p show ?thesis by (simp add: apply_one_mem split: option.split)
    qed
  qed simp
  let ?xs = "bt_items MO m"
  have id: "n_ID (hs_Mem hs (nva_Ptr (snd p))) = fst p" if "p \<in> set ?xs" for p
  proof -
    obtain k v where p: "p = (k, v)" by fastforce
    show ?thesis using that assms(2) unfolding p by (simp add: btree_items_iff[OF assms(1)] map_ok_def)
  qed
  have dk: "distinct (map fst ?xs)" by (rule btree_laws(5)[OF assms(1)])
  have "inj_on (\<lambda>p. nva_Ptr (snd p)) (set ?xs)"
  proof (rule inj_onI)
    fix p q
    assume pq: "p \<in> set ?xs" "q \<in> set ?xs" "nva_Ptr (snd p) = nva_Ptr (snd q)"
    then have "fst p = fst q" using id[of p] id[of q] by simp
    with pq dk show "p = q" by (simp add: distinct_map inj_on_def)
  qed
  with dk have d: "distinct (map (\<lambda>p. nva_Ptr (snd p)) ?xs)" by (simp add: distinct_map)
  show ?thesis
  proof
    fix a
    show "hs_Mem (applyNISDAlloc EO DO MO m hs) a =
      (case bt_get MO m (n_ID (hs_Mem hs a)) of
         Some na \<Rightarrow> if nva_Ptr na = a then (hs_Mem hs a)\<lparr>n_AvailableSize := nva_AvailableSize na\<rparr> else hs_Mem hs a
       | None \<Rightarrow> hs_Mem hs a)"
    proof (cases "List.find (\<lambda>p. nva_Ptr (snd p) = a) ?xs")
      case None
      then have "nva_Ptr na \<noteq> a" if "bt_get MO m k = Some na" for k na
        using that by (auto simp: find_None_iff btree_items_iff[OF assms(1), symmetric])
      with None show ?thesis by (auto simp: applyNISDAlloc_def step[OF d] split: option.split)
    next
      case (Some p)
      then have p: "p \<in> set ?xs" "nva_Ptr (snd p) = a" by (auto simp: find_Some_iff)
      then have "bt_get MO m (n_ID (hs_Mem hs a)) = Some (snd p)"
        using id[OF p(1)] btree_items_iff[OF assms(1), of "fst p" "snd p" m] by auto
      with Some p(2) show ?thesis by (simp add: applyNISDAlloc_def step[OF d])
    qed
  qed
qed


subsection \<open>The keys of the blocks\<close>

definition block_key :: "vdev_config \<Rightarrow> nat \<Rightarrow> nat \<Rightarrow> string" where
  "block_key v c i = getVdevChunkKey (v_ID v) @ ''/'' @ utoa c @ ''/'' @
     ChunkPrefix (fst (block_type v i)) @ ''.'' @ itoa (snd (block_type v i))"

definition block_chgs :: "vdev_config \<Rightarrow> nat \<Rightarrow> nat \<Rightarrow> string \<Rightarrow> commit_chg list" where
  "block_chgs v c i k =
     [chg (block_key v c i) k,
      chg (nisdKey @ ''/'' @ k @ ''/'' @ v_ID v)
          (ChunkPrefix (fst (block_type v i)) @ ''.'' @ itoa (snd (block_type v i)) @ ''.'' @ utoa c)]"

lemma gen_block_eq: "gen_block v c i k chgs = chgs @ block_chgs v c i k"
  by (simp add: gen_block_def genAllocationKV_def block_chgs_def block_key_def Let_def)

lemma add_blocks_eq: "add_blocks v c iks chgs = chgs @ concat (map (\<lambda>(i, k). block_chgs v c i k) iks)"
  by (induction iks arbitrary: chgs) (auto simp: gen_block_eq)

definition chunk_chgs :: "vdev_config \<Rightarrow> nat \<times> string list \<Rightarrow> commit_chg list" where
  "chunk_chgs v cks = concat (map (\<lambda>(i, k). block_chgs v (fst cks) i k) (zip [0..<block_count v] (snd cks)))"

lemma add_chunks_eq: "add_chunks v ckss chgs = chgs @ concat (map (chunk_chgs v) ckss)"
proof (induction ckss arbitrary: chgs)
  case (Cons cks ckss)
  then show ?case by (cases cks) (simp add: add_blocks_eq chunk_chgs_def)
qed simp

lemma add_chunks_elem:
  "x \<in> set (add_chunks v ckss []) \<longleftrightarrow>
     (\<exists>c ks i k. (c, ks) \<in> set ckss \<and> (i, k) \<in> set (zip [0..<block_count v] ks) \<and> x \<in> set (block_chgs v c i k))"
proof -
  have e: "x \<in> set (chunk_chgs v (c, ks)) \<longleftrightarrow>
      (\<exists>i k. (i, k) \<in> set (zip [0..<block_count v] ks) \<and> x \<in> set (block_chgs v c i k))" for c ks
    unfolding chunk_chgs_def set_concat set_map fst_conv snd_conv by auto
  have "x \<in> set (add_chunks v ckss []) \<longleftrightarrow> (\<exists>cks \<in> set ckss. x \<in> set (chunk_chgs v cks))"
    unfolding add_chunks_eq append_Nil set_concat set_map by blast
  also have "\<dots> \<longleftrightarrow> (\<exists>c ks. (c, ks) \<in> set ckss \<and> x \<in> set (chunk_chgs v (c, ks)))"
    unfolding Bex_def split_paired_Ex ..
  finally show ?thesis unfolding e by blast
qed

lemma add_chunks_write: "x \<in> set (add_chunks v ckss []) \<Longrightarrow> cc_Op x = OpApply"
  unfolding add_chunks_elem by (auto simp: block_chgs_def)

lemma hd_block_key: "hd (block_key v c i) = CHR ''v''" "block_key v c i \<noteq> []"
  by (simp_all add: block_key_def getVdevChunkKey_def)

lemma block_type_inj:
  assumes "ChunkPrefix (fst (block_type v i)) = ChunkPrefix (fst (block_type v j))"
    and "snd (block_type v i) = snd (block_type v j)"
  shows "i = j"
  using assms by (auto simp: block_type_def split: if_splits)

lemma itoa_inject: "itoa a = itoa b \<longleftrightarrow> a = b"
proof
  assume "itoa a = itoa b"
  then show "a = b"
    using hd_utoa_not_sign(1)[of "nat a"] hd_utoa_not_sign(1)[of "nat b"]
    by (cases "a < 0"; cases "b < 0") (auto simp: itoa_def utoa_inject eq_nat_nat_iff split: if_splits, (metis list.sel(1))+)
qed simp

lemma block_key_inj:
  assumes "block_key v c i = block_key v d j"
  shows "c = d \<and> i = j"
proof -
  have "utoa c @ CHR ''/'' # ChunkPrefix (fst (block_type v i)) @ ''.'' @ itoa (snd (block_type v i)) =
      utoa d @ CHR ''/'' # ChunkPrefix (fst (block_type v j)) @ ''.'' @ itoa (snd (block_type v j))"
    using assms by (simp add: block_key_def)
  then have "split (CHR ''/'') (utoa c @ CHR ''/'' # ChunkPrefix (fst (block_type v i)) @ ''.'' @ itoa (snd (block_type v i))) =
      split (CHR ''/'') (utoa d @ CHR ''/'' # ChunkPrefix (fst (block_type v j)) @ ''.'' @ itoa (snd (block_type v j)))"
    by (rule arg_cong)
  then have c: "utoa c = utoa d" by (simp only: split_append_sep utoa_no_slash not_False_eq_True list.inject)
  have p: "ChunkPrefix (fst (block_type v i)) = [CHR ''D''] \<or> ChunkPrefix (fst (block_type v i)) = [CHR ''P'']" for i
    by (auto simp: block_type_def)
  have "ChunkPrefix (fst (block_type v i)) = ChunkPrefix (fst (block_type v j))"
    "itoa (snd (block_type v i)) = itoa (snd (block_type v j))"
    using assms c p[of i] p[of j] by (auto simp: block_key_def)
  then have "i = j" using block_type_inj itoa_inject by blast
  with c show ?thesis by (simp add: utoa_inject)
qed


subsection \<open>All or nothing\<close>

text \<open>What a successful creation leaves: the placement \<open>kss\<close>, readable, and sizes that agree.\<close>

definition vdev_created ::
  "('s \<Rightarrow> string \<rightharpoonup> string) \<Rightarrow> (string \<Rightarrow> int64) \<Rightarrow> vdev_config \<Rightarrow> string list list \<Rightarrow> 's \<Rightarrow> (addr \<Rightarrow> nisd) \<Rightarrow> bool" where
  "vdev_created cont init v kss s mem \<longleftrightarrow>
     length kss = unat (v_ChunkCnt v) \<and>
     (\<forall>ks \<in> set kss. distinct ks \<and> length ks = block_count v) \<and>
     (\<forall>c < length kss. \<forall>i < block_count v. cont s (block_key v c i) = Some (kss ! c ! i)) \<and>
     (\<forall>k \<in> set (concat kss).
        let left = sint (init k) - CHUNK_SIZE * int (count_list (concat kss) k)
        in 0 \<le> left \<and> cont s (avail_key k) = Some (itoa left) \<and>
           (\<exists>a. n_ID (mem a) = k \<and> sint (n_AvailableSize (mem a)) = left))"

lemma in_set_zip_upt: "(i, x) \<in> set (zip [0..<length xs] xs) \<longleftrightarrow> i < length xs \<and> x = xs ! i"
proof
  assume "(i, x) \<in> set (zip [0..<length xs] xs)"
  then obtain n where "[0..<length xs] ! n = i" "xs ! n = x" "n < length xs" unfolding in_set_zip by auto
  then show "i < length xs \<and> x = xs ! i" by auto
next
  assume "i < length xs \<and> x = xs ! i"
  then show "(i, x) \<in> set (zip [0..<length xs] xs)" unfolding in_set_zip by (intro exI[of _ i]) simp
qed

lemma block_keys_written:
  assumes "\<forall>c \<in> set later. hd (cc_Key c) \<noteq> CHR ''v'' \<and> cc_Key c \<noteq> []"
    and "\<forall>ks \<in> set kss. length ks = block_count v" and "c < length kss" and "i < block_count v"
  shows "chgs_effect (pre @ add_chunks v (zip [0..<length kss] kss) [] @ later) m (block_key v c i) = Some (kss ! c ! i)"
proof -
  let ?ac = "add_chunks v (zip [0..<length kss] kss) []"
  note zip = in_set_zip_upt
  have zip2: "(i, k) \<in> set (zip [0..<block_count v] ks) \<longleftrightarrow> i < block_count v \<and> k = ks ! i"
    if "length ks = block_count v" for i k ks
    using in_set_zip_upt[of i k ks] that by simp
  have ck: "length (kss ! c) = block_count v" using assms(2,3) by simp
  have "(c, kss ! c) \<in> set (zip [0..<length kss] kss)" "(i, kss ! c ! i) \<in> set (zip [0..<block_count v] (kss ! c))"
    "chg (block_key v c i) (kss ! c ! i) \<in> set (block_chgs v c i (kss ! c ! i))"
    using assms(3,4) by (simp_all only: zip zip2[OF ck]) (simp_all add: block_chgs_def)
  then have "chg (block_key v c i) (kss ! c ! i) \<in> set ?ac" unfolding add_chunks_elem by blast
  then have "\<exists>x \<in> set ?ac. cc_Key x = block_key v c i" by (rule bexI[rotated]) simp
  moreover have "cc_Op x = OpApply \<and> cc_Value x = kss ! c ! i" if "x \<in> set ?ac" "cc_Key x = block_key v c i" for x
  proof -
    from that(1) obtain d ks j k where x: "d < length kss" "ks = kss ! d" "j < block_count v" "k = ks ! j"
      "x \<in> set (block_chgs v d j k)"
      unfolding add_chunks_elem zip using assms(2) zip2 by (metis nth_mem)
    then consider "x = chg (block_key v d j) k" | "hd (cc_Key x) = CHR ''n''"
      by (auto simp: block_chgs_def)
    then show ?thesis
    proof cases
      case 1
      with that(2) have "d = c \<and> j = i" by (intro block_key_inj[of v]) simp
      with 1 x show ?thesis by simp
    next
      case 2
      with that(2) hd_block_key(1)[of v c i] show ?thesis by simp
    qed
  qed
  ultimately have "chgs_effect ?ac m' (block_key v c i) = Some (kss ! c ! i)" for m'
    by (intro chgs_effect_unique) blast+
  moreover have "chgs_effect later m' (block_key v c i) = m' (block_key v c i)" for m'
    using assms(1) hd_block_key(1)[of v c i] by (intro chgs_effect_other) metis
  ultimately show ?thesis by (simp add: chgs_effect_append)
qed


lemma create_alloc_spec:
  assumes ok: "btree_ok EO" "btree_ok DO" "btree_ok MO" and store: "store_exact ds cont"
    and sz: "hier_sized EO DO init hs" and len: "length (hs_FD hs) = FD_MAX"
    and ops: "\<forall>c \<in> set chgs. cc_Op c = OpApply \<or> cc_Op c = OpDelete"
    and run: "create_alloc EO DO MO ds v ft chgs resp off (s, hs) = Some (r, s', hs')"
  shows "(s' = s \<and> hs' = hs \<and> (resp_err r \<noteq> None \<or> r = Panic)) \<or>
     (r = EncodeResponse (A_ResponseXML (resp\<lparr>rx_Success := True\<rparr>)) \<and> (\<exists>kss. vdev_created cont init v kss s' (hs_Mem hs')))"
proof -
  obtain r1 m txn where al: "AllocNISDs EO DO MO hs v ft (bt_new MO) chgs off = Some (r1, m, txn)"
    using run by (auto simp: create_alloc_def split: option.splits)
  note spec = AllocNISDs_spec[OF ok sz len al]
  show ?thesis
  proof (cases r1)
    case (Fail err)
    with run al show ?thesis by (auto simp: create_alloc_def)
  next
    case Panic
    with run al show ?thesis by (auto simp: create_alloc_def)
  next
    case (Ret u)
    with spec obtain kss fd where mok: "map_ok MO (hs_Mem hs) m" and alloc: "allocated EO DO MO init hs v ft fd m kss"
      and txn: "txn = chgs @ add_chunks v (zip [0..<unat (v_ChunkCnt v)] kss) []"
      by (auto simp: vdev_result_def)
    from alloc have n: "length kss = unat (v_ChunkCnt v)" "\<forall>ks \<in> set kss. distinct ks \<and> length ks = block_count v"
      "spend init (concat kss) = Some (free_of MO init m)" by (auto simp: allocated_def chunk_ok_def)
    define pfs where "pfs = (if v_PFSID v \<noteq> []
      then [chg (pfs_offset_key (v_PFSID v)) (itoa (off + TotalRedundancyBlocksPerChunk v))] else [])"
    let ?cs = "chgs @ add_chunks v (zip [0..<length kss] kss) [] @ pfs @ alloc_chgs MO (hs_Mem hs) m"
    have wr: "\<forall>c \<in> set ?cs. cc_Op c = OpApply \<or> cc_Op c = OpDelete"
      using ops add_chunks_write alloc_chgs_write by (fastforce simp: pfs_def)
    obtain e s1 where kv: "applyKV ds ?cs s = (e, s1)" by fastforce
    with applyKV_exact[OF store wr, of s] have e: "e = None" by simp
    have c: "cont s1 = chgs_effect ?cs (cont s)"
      by (rule applyKV_done[OF exact_sound[OF store] kv[unfolded e]])
    have res: "r = EncodeResponse (A_ResponseXML (resp\<lparr>rx_Success := True\<rparr>))" "s' = s1"
      "hs' = applyNISDAlloc EO DO MO m hs"
      using run al kv Ret by (auto simp: create_alloc_def commitAllocChgs_def Let_def txn pfs_def e n(1))
    have blocks: "cont s' (block_key v c i) = Some (kss ! c ! i)" if "c < length kss" "i < block_count v" for c i
      unfolding res(2) \<open>cont s1 = _\<close>
      by (rule block_keys_written) (use n(2) that in \<open>auto simp: pfs_def alloc_chgs_def getConfKey_def pfs_offset_key_def split: if_splits\<close>)
    have sizes: "let left = sint (init k) - CHUNK_SIZE * int (count_list (concat kss) k)
        in 0 \<le> left \<and> cont s' (avail_key k) = Some (itoa left) \<and>
           (\<exists>a. n_ID (hs_Mem hs' a) = k \<and> sint (n_AvailableSize (hs_Mem hs' a)) = left)"
      if k: "k \<in> set (concat kss)" for k
    proof -
      note cnt = spend_count[OF n(3), of k]
      have "0 < count_list (concat kss) k" using k count_list_0_iff[of "concat kss" k] by (simp only: neq0_conv[symmetric]) simp
      with cnt have "free_of MO init m k \<noteq> init k" by auto
      then obtain na where na: "bt_get MO m k = Some na" "free_of MO init m k = nva_AvailableSize na"
        by (cases "bt_get MO m k") (auto simp: free_of_def)
      have "n_ID (hs_Mem hs (nva_Ptr na)) = k" using mok na(1) by (simp add: map_ok_def)
      then have "n_ID (hs_Mem hs' (nva_Ptr na)) = k" "n_AvailableSize (hs_Mem hs' (nva_Ptr na)) = nva_AvailableSize na"
        using na(1) by (simp_all add: res(3) applyNISDAlloc_mem[OF ok(3) mok])
      moreover have "cont s' (avail_key k) = Some (itoa (sint (nva_AvailableSize na)))"
        unfolding res(2) c chgs_effect_append by (rule alloc_chgs_effect[OF ok(3) mok na(1)])
      ultimately show ?thesis using cnt k na(2) by (auto simp: Let_def)
    qed
    show ?thesis
      by (rule disjI2, intro conjI res(1) exI[of _ kss])
        (unfold vdev_created_def, intro conjI ballI n(1) allI impI blocks sizes; use n(2) in blast)
  qed
qed


lemma create_prepared_spec:
  assumes ok: "btree_ok EO" "btree_ok DO" "btree_ok MO" and store: "store_exact ds cont"
    and sz: "hier_sized EO DO init hs" and len: "length (hs_FD hs) = FD_MAX"
    and ops: "\<forall>c \<in> set (fi_Changes intrm). cc_Op c = OpApply \<or> cc_Op c = OpDelete"
    and run: "create_prepared EO DO MO ds rnd v0 ft intrm (s, hs) = Some (r, s', hs')"
  shows "(s' = s \<and> hs' = hs \<and> (resp_err r \<noteq> None \<or> r = Panic)) \<or>
     (\<exists>resp v kss. r = EncodeResponse (A_ResponseXML (resp\<lparr>rx_Success := True\<rparr>)) \<and>
        v = v0\<lparr>v_ID := rx_ID resp, v_ChunkCnt := ucast (Count8GBChunks (v_Size v0)), v_PFSID := v_PFSID v\<rparr> \<and>
        vdev_created cont init v kss s' (hs_Mem hs'))"
proof -
  define resp where "resp = (case fi_Response intrm of A_ResponseXML x \<Rightarrow> x | _ \<Rightarrow> no_response)"
  define v1 where "v1 = v0\<lparr>v_ID := rx_ID resp, v_ChunkCnt := ucast (Count8GBChunks (v_Size v0))\<rparr>"
  have P: "create_prepared EO DO MO ds rnd v0 ft intrm (s, hs) =
      (if \<not> (case fi_Response intrm of A_ResponseXML x \<Rightarrow> True | _ \<Rightarrow> False) \<and> rx_Error resp \<noteq> []
       then Some (FuncError ''invalid response type'', s, hs)
       else case resolve_pfs ds s v1 (fi_Changes intrm) of
             Inl err \<Rightarrow> Some (FuncError err, s, hs)
           | Inr (v, chgs) \<Rightarrow>
               (case create_offset ds s v (rnd (GetEntityCnt EO DEVICE_IDX hs + 1)) of
                  Inl err \<Rightarrow> Some (FuncError err, s, hs)
                | Inr offset \<Rightarrow> create_alloc EO DO MO ds v ft chgs resp offset (s, hs)))"
    unfolding create_prepared_def resp_def[symmetric] Let_def v1_def fst_conv snd_conv ..
  show ?thesis
  proof (cases "\<not> (case fi_Response intrm of A_ResponseXML x \<Rightarrow> True | _ \<Rightarrow> False) \<and> rx_Error resp \<noteq> []")
    case True
    with run P show ?thesis by auto
  next
    case False
    note P1 = run[unfolded P if_not_P[OF False]]
    show ?thesis
    proof (cases "resolve_pfs ds s v1 (fi_Changes intrm)")
      case (Inl err)
      with P1 show ?thesis by auto
    next
      case (Inr p)
      obtain v chgs where p: "p = (v, chgs)" by fastforce
      have v: "v = v1\<lparr>v_PFSID := v_PFSID v\<rparr>" and c: "\<forall>c \<in> set chgs. cc_Op c = OpApply \<or> cc_Op c = OpDelete"
        using Inr p ops by (auto simp: resolve_pfs_def split: if_splits sum.splits)
      show ?thesis
      proof (cases "create_offset ds s v (rnd (GetEntityCnt EO DEVICE_IDX hs + 1))")
        case (Inl err)
        with P1 Inr p show ?thesis by auto
      next
        case (Inr off)
        with P1 \<open>resolve_pfs ds s v1 (fi_Changes intrm) = Inr p\<close> p
        have "create_alloc EO DO MO ds v ft chgs resp off (s, hs) = Some (r, s', hs')" by simp
        from create_alloc_spec[OF ok store sz len c this] v show ?thesis
          unfolding v1_def by auto
      qed
    qed
  qed
qed



definition create_req :: "arg list" where
  "create_req =
     [ArgCPReq \<lparr>rq_Token = [], rq_Page = None, rq_Payload = A_VdevReq (Some sample_vdev) \<lparr>f_ID = ''h'', f_Type = FD_HV\<rparr>\<rparr>,
      ArgCbArgs \<lparr>cb_AppData = Inr \<lparr>fi_Changes = [chg ''v/x/cfg/sz'' ''8589934592''],
          fi_Response = A_ResponseXML \<lparr>rx_Name = [], rx_ID = ''x'', rx_Error = [], rx_Success = False\<rparr>\<rparr>,
        cb_ReplySize = 4096\<rparr>]"

lemma create_alloc_succeeds:
  assumes ok: "btree_ok EO" "btree_ok DO" "btree_ok MO" and store: "store_exact ds cont"
    and sz: "hier_sized EO DO init hs" and len: "length (hs_FD hs) = FD_MAX"
    and ops: "\<forall>c \<in> set chgs. cc_Op c = OpApply \<or> cc_Op c = OpDelete"
    and al: "AllocNISDs EO DO MO hs v ft (bt_new MO) chgs off = Some (Ret u, m, txn)"
  shows "\<exists>y. create_alloc EO DO MO ds v ft chgs resp off (s, hs) =
     Some (EncodeResponse (A_ResponseXML (resp\<lparr>rx_Success := True\<rparr>)), y)"
proof -
  have "\<forall>c \<in> set txn. cc_Op c = OpApply \<or> cc_Op c = OpDelete"
    using AllocNISDs_spec[OF ok sz len al] ops add_chunks_write by (fastforce simp: vdev_result_def)
  then have wr: "\<forall>c \<in> set ((txn @ (if v_PFSID v \<noteq> []
      then [chg (pfs_offset_key (v_PFSID v)) (itoa (off + TotalRedundancyBlocksPerChunk v))] else []))
      @ alloc_chgs MO (hs_Mem hs) m). cc_Op c = OpApply \<or> cc_Op c = OpDelete"
    using alloc_chgs_write by fastforce
  obtain e s1 where "applyKV ds ((txn @ (if v_PFSID v \<noteq> []
      then [chg (pfs_offset_key (v_PFSID v)) (itoa (off + TotalRedundancyBlocksPerChunk v))] else []))
      @ alloc_chgs MO (hs_Mem hs) m) s = (e, s1)" by fastforce
  with applyKV_exact[OF store wr, of s] al show ?thesis
    by (simp add: create_alloc_def commitAllocChgs_def Let_def)
qed


end
