(* ===== verification/Handlers.thy ===== *)
theory Handlers
  imports Vdev
begin

section \<open>The configuration and read handlers\<close>

text \<open>
  The remaining callbacks of \<open>srvctlplanefuncs.go\<close>. A read handler gets the callback arguments and the
  request, checks the caller, reads a range of keys and parses it; a write preparation (\<open>WP...\<close>) checks
  the caller and returns the changes. A handler without effects returns the encoded answer; \<open>Panic\<close>
  is a failed type assertion or index.
\<close>

subsection \<open>Payloads and common steps\<close>

fun as_GetReq :: "any \<Rightarrow> get_req option" where
  "as_GetReq (A_GetReq r) = Some r"
| "as_GetReq _ = None"

fun as_Nisd :: "any \<Rightarrow> nisd option" where
  "as_Nisd (A_Nisd n) = Some n"
| "as_Nisd _ = None"

fun as_Device :: "any \<Rightarrow> device option" where
  "as_Device (A_Device d) = Some d"
| "as_Device _ = None"

fun as_Partition :: "any \<Rightarrow> device_partition option" where
  "as_Partition (A_Partition p) = Some p"
| "as_Partition _ = None"

fun as_PDU :: "any \<Rightarrow> pdu option" where
  "as_PDU (A_PDU p) = Some p"
| "as_PDU _ = None"

fun as_Rack :: "any \<Rightarrow> rack option" where
  "as_Rack (A_Rack r) = Some r"
| "as_Rack _ = None"

fun as_Hypervisor :: "any \<Rightarrow> hypervisor option" where
  "as_Hypervisor (A_Hypervisor h) = Some h"
| "as_Hypervisor _ = None"

fun as_NisdArgs :: "any \<Rightarrow> nisd_args option" where
  "as_NisdArgs (A_NisdArgs a) = Some a"
| "as_NisdArgs _ = None"

fun as_PFS :: "any \<Rightarrow> pfs option" where
  "as_PFS (A_PFS p) = Some p"
| "as_PFS _ = None"

fun as_GetResourceReq :: "any \<Rightarrow> get_resource_req option" where
  "as_GetResourceReq (A_GetResourceReq r) = Some r"
| "as_GetResourceReq _ = None"

text \<open>The arguments of a read handler, and the request with the payload of a write preparation.\<close>

definition rd_args :: "arg list \<Rightarrow> (cb_args \<Rightarrow> cp_req \<Rightarrow> encoded go) \<Rightarrow> encoded go" where
  "rd_args args f = go_bind (the_CbArgs args 0) (\<lambda>cb. go_bind (the_CPReq args 1) (f cb))"

definition wp_args :: "(any \<Rightarrow> 'p option) \<Rightarrow> arg list \<Rightarrow> (cp_req \<Rightarrow> 'p \<Rightarrow> encoded go) \<Rightarrow> encoded go" where
  "wp_args as args f = go_bind (the_CPReq args 0) (\<lambda>rq. go_bind (must (as (rq_Payload rq))) (f rq))"

definition with_rbac ::
  "env \<Rightarrow> string \<Rightarrow> function_name \<Rightarrow> (string \<Rightarrow> encoded go) \<Rightarrow> (token_claims \<Rightarrow> encoded go) \<Rightarrow> encoded go" where
  "with_rbac env tok fn on_err f =
     (case validateAndAuthorizeRBAC env tok fn of Panic \<Rightarrow> Panic | Fail err \<Rightarrow> on_err err | Ret tc \<Rightarrow> f tc)"

definition with_token ::
  "env \<Rightarrow> string \<Rightarrow> (string \<Rightarrow> encoded go) \<Rightarrow> (token_claims \<Rightarrow> encoded go) \<Rightarrow> encoded go" where
  "with_token env tok on_err f =
     (case ValidateToken env tok of Panic \<Rightarrow> Panic | Fail err \<Rightarrow> on_err err | Ret tc \<Rightarrow> f tc)"

text \<open>Read the keys with prefix \<open>key\<close>, parse, answer.\<close>

definition range_then ::
  "'s data_store \<Rightarrow> 's \<Rightarrow> cb_args \<Rightarrow> string \<Rightarrow> ((string \<times> string) list \<Rightarrow> encoded go) \<Rightarrow> encoded go" where
  "range_then ds s cb key f =
     (case ds_RangeRead ds s (prefix_args cb key) of Inl err \<Rightarrow> FuncError err | Inr r \<Rightarrow> f (rr_ResultMap r))"

definition range_entities ::
  "'s data_store \<Rightarrow> 's \<Rightarrow> cb_args \<Rightarrow> string \<Rightarrow> ('e, 'r) parse_entity \<Rightarrow> nat \<Rightarrow> ('r list \<Rightarrow> encoded go) \<Rightarrow> encoded go" where
  "range_entities ds s cb key pe idx f =
     range_then ds s cb key (\<lambda>m. go_bind (ParseEntities m pe idx) f)"

definition wp_done :: "response_xml \<Rightarrow> commit_chg list \<Rightarrow> encoded go" where
  "wp_done resp chgs = Ret (EncIntrm \<lparr>fi_Changes = chgs, fi_Response = A_ResponseXML resp\<rparr>)"

definition named_ok :: "string \<Rightarrow> response_xml" where
  "named_ok nm = \<lparr>rx_Name = nm, rx_ID = [], rx_Error = [], rx_Success = True\<rparr>"

definition id_key :: "string \<Rightarrow> get_req \<Rightarrow> string" where
  "id_key root req = (if \<not> g_GetAll req then getConfKey root (g_ID req) else root)"

subsection \<open>Snapshots\<close>

definition ReadSnapByName :: "'s data_store \<Rightarrow> arg list \<Rightarrow> 's \<Rightarrow> encoded go" where
  "ReadSnapByName ds args s =
     go_bind (the_CbArgs args 0) (\<lambda>cb. go_bind (arg_at args 1) (\<lambda>a. go_bind (must (as_SnapXML a)) (\<lambda>snap.
       case ds_Read ds s (''snap/'' @ sx_SnapName snap) of
         Inl err \<Rightarrow> FuncError err
       | Inr v \<Rightarrow> EncodeResponse (A_Bytes v))))"

definition parse_uint_error :: "string \<Rightarrow> nat \<Rightarrow> string" where
  "parse_uint_error s n = ''strconv.ParseUint: parsing '' @ quote s @ '': '' @
     (if n = 0 then ''invalid syntax'' else ''value out of range'')"

fun snap_chunks :: "chunk_xml list \<Rightarrow> (string \<times> string) list \<Rightarrow> chunk_xml list go" where
  "snap_chunks acc [] = Ret acc"
| "snap_chunks acc ((key, _) # rest) =
     (let c = split (CHR ''/'') key in
      if length c < 2 then Panic
      else case parse_uint 32 (c ! (length c - 2)) of (idx, ok) \<Rightarrow>
        if \<not> ok then Fail (parse_uint_error (c ! (length c - 2)) idx)
        else case parse_uint 64 (c ! (length c - 1)) of (seq, ok2) \<Rightarrow>
          if \<not> ok2 then Fail (parse_uint_error (c ! (length c - 1)) seq)
          else snap_chunks (acc @ [\<lparr>cx_Idx = of_nat idx, cx_Seq = of_nat seq\<rparr>]) rest)"

definition ReadSnapForVdev :: "'s data_store \<Rightarrow> arg list \<Rightarrow> 's \<Rightarrow> encoded go" where
  "ReadSnapForVdev ds args s =
     go_bind (the_CbArgs args 0) (\<lambda>cb. go_bind (arg_at args 1) (\<lambda>a. go_bind (must (as_SnapXML a)) (\<lambda>snap.
       range_then ds s cb (sx_Vdev snap @ ''/snap'') (\<lambda>m.
         case snap_chunks (sx_Chunks snap) m of
           Panic \<Rightarrow> Panic
         | Fail err \<Rightarrow> FuncError err
         | Ret cs \<Rightarrow> EncodeResponse (A_SnapXML (snap\<lparr>sx_Chunks := cs\<rparr>))))))"

text \<open>The same argument is asserted to be a \<open>SnapXML\<close> and then a byte slice.\<close>

definition WritePrepCreateSnap :: "arg list \<Rightarrow> encoded go" where
  "WritePrepCreateSnap args =
     go_bind (arg_at args 0) (\<lambda>a. go_bind (must (as_SnapXML a)) (\<lambda>snap.
       let chgs = map (\<lambda>c. chg (sx_Vdev snap @ ''/snap/'' @ utoa (unat (cx_Idx c)) @ ''/'' @ utoa (unat (cx_Seq c)))
                            [CHR 0x01]) (sx_Chunks snap)
       in go_bind (must (as_Bytes a)) (\<lambda>blob.
            Ret (EncIntrm \<lparr>fi_Changes = chgs @ [chg (''snap/'' @ sx_SnapName snap) blob],
              fi_Response = A_SnapResponse \<lparr>sn_Name = sx_SnapName snap, sn_Success = True\<rparr>\<rparr>))))"

subsection \<open>Applying prepared changes\<close>

definition ApplyFunc :: "'s data_store \<Rightarrow> arg list \<Rightarrow> 's \<Rightarrow> encoded go \<times> 's" where
  "ApplyFunc ds args s =
     with_go (the_CbArgs args 0) s (\<lambda>cb.
       case cb_AppData cb of
         Inl err \<Rightarrow> (FuncError (''failed to decode apply changes: '' @ err), s)
       | Inr intrm \<Rightarrow>
           (case fi_Response intrm of
              A_CPResp (CPResp (Some e) page payload) \<Rightarrow> (Ret (EncResp (CPResp (Some e) page payload)), s)
            | _ \<Rightarrow>
              (case applyKV ds (fi_Changes intrm) s of
                 (Some err, s1) \<Rightarrow> (FuncError err, s1)
               | (None, s1) \<Rightarrow> (EncodeResponse (fi_Response intrm), s1))))"

text \<open>
  \<open>ApplyNisd\<close> does not look for an error in the prepared response. The address \<open>a\<close> is the one that the
  request's NISD gets.
\<close>

definition ApplyNisd ::
  "('te, 'td entities) btree \<Rightarrow> ('td, device_alloc) btree \<Rightarrow> env \<Rightarrow> 's data_store \<Rightarrow> addr \<Rightarrow> arg list
   \<Rightarrow> 's \<times> 'te hier \<Rightarrow> encoded go \<times> 's \<times> 'te hier" where
  "ApplyNisd EO DO env ds a args st =
     (if length args < 2 then (Panic, st)
      else case as_CbArgs (args ! 1) of
        None \<Rightarrow> (FuncError ''invalid argument: expecting type PmdbCbArgs'', st)
      | Some cb \<Rightarrow>
        (case as_CPReq (args ! 0) of
           None \<Rightarrow> (FuncError ''invalid argument: expecting type CPReq'', st)
         | Some rq \<Rightarrow>
           (case as_Nisd (rq_Payload rq) of
              None \<Rightarrow> (FuncError ''invalid payload: expecting type Nisd'', st)
            | Some n \<Rightarrow>
              (case validateAndAuthorizeRBAC env (rq_Token rq) F_ApplyNisd of
                 Panic \<Rightarrow> (Panic, st)
               | Fail err \<Rightarrow> (AuthError err, st)
               | Ret tc \<Rightarrow>
                 (case cb_AppData cb of
                    Inl err \<Rightarrow> (FuncError (''failed to decode apply changes: '' @ err), st)
                  | Inr intrm \<Rightarrow>
                    (case applyKV ds (fi_Changes intrm) (fst st) of
                       (Some err, s1) \<Rightarrow> (FuncError err, s1, snd st)
                     | (None, s1) \<Rightarrow>
                       (case AddNisd EO DO a ((snd st)\<lparr>hs_Mem := (hs_Mem (snd st))(a := n)\<rparr>) of
                          (Some err, hs1) \<Rightarrow> (Fail err, s1, hs1)
                        | (None, hs1) \<Rightarrow> (EncodeResponse (fi_Response intrm), s1, hs1))))))))"


subsection \<open>NISDs and devices\<close>

definition nisdToAvailSize :: "nisd list \<Rightarrow> nisd_list_avail_size list" where
  "nisdToAvailSize = map (\<lambda>n.
     let fds = n_FailureDomain n; full = length fds > HV_IDX
     in \<lparr>na_ID = n_ID n, na_PDU = (if full then fds ! PDU_IDX else []),
         na_Rack = (if full then fds ! RACK_IDX else []), na_HV = (if full then fds ! HV_IDX else []),
         na_TotalSize = n_TotalSize n, na_AvailableSize = n_AvailableSize n\<rparr>)"

definition ReadAllNisdConfigs :: "env \<Rightarrow> 's data_store \<Rightarrow> arg list \<Rightarrow> 's \<Rightarrow> encoded go" where
  "ReadAllNisdConfigs env ds args s =
     rd_args args (\<lambda>cb rq. with_rbac env (rq_Token rq) F_ReadAllNisdConfigs AuthError (\<lambda>tc.
       let fields = (case as_GetReq (rq_Payload rq) of Some r \<Rightarrow> g_Fields r | None \<Rightarrow> [])
       in range_entities ds s cb NisdCfgKey NisdParser BASE_UUID_PREFIX (\<lambda>nisdList.
            if fields \<noteq> [] then EncodeResponse (A_NisdSizes (nisdToAvailSize nisdList))
            else EncodeResponse (A_Nisds nisdList))))"

text \<open>The first of the NISDs whose identifier starts with the one asked for; none is an index panic.\<close>

definition ReadNisdConfig :: "env \<Rightarrow> 's data_store \<Rightarrow> arg list \<Rightarrow> 's \<Rightarrow> encoded go" where
  "ReadNisdConfig env ds args s =
     rd_args args (\<lambda>cb rq. go_bind (must (as_GetReq (rq_Payload rq))) (\<lambda>req.
       case ValidateRequest req of
         Some err \<Rightarrow> AuthError err
       | None \<Rightarrow> with_rbac env (rq_Token rq) F_ReadNisdConfig AuthError (\<lambda>tc.
           range_entities ds s cb (getConfKey NisdCfgKey (g_ID req)) NisdParser BASE_UUID_PREFIX (\<lambda>nisdList.
             case nisdList of [] \<Rightarrow> Panic | n # _ \<Rightarrow> EncodeResponse (A_Nisd n)))))"

definition getNisdList :: "'s data_store \<Rightarrow> cb_args \<Rightarrow> 's \<Rightarrow> nisd list go" where
  "getNisdList ds cb s =
     (case ds_RangeRead ds s (prefix_args cb NisdCfgKey) of
        Inl err \<Rightarrow> Fail err
      | Inr r \<Rightarrow> ParseEntities (rr_ResultMap r) NisdParser BASE_UUID_PREFIX)"

definition WPNisdCfg :: "env \<Rightarrow> arg list \<Rightarrow> encoded go" where
  "WPNisdCfg env args =
     wp_args as_Nisd args (\<lambda>rq n.
       case Nisd_Validate (e_uuid_Parse env) n of
         Some err \<Rightarrow> WPFuncError err
       | None \<Rightarrow> with_rbac env (rq_Token rq) F_WPNisdCfg WPAuthError (\<lambda>tc.
           go_bind (PopulateEntities n nisdPopulator NisdCfgKey) (wp_done (named_ok (n_ID n)))))"

definition RdDeviceInfo :: "env \<Rightarrow> 's data_store \<Rightarrow> arg list \<Rightarrow> 's \<Rightarrow> encoded go" where
  "RdDeviceInfo env ds args s =
     rd_args args (\<lambda>cb rq. go_bind (must (as_GetReq (rq_Payload rq))) (\<lambda>req.
       with_rbac env (rq_Token rq) F_RdDeviceInfo AuthError (\<lambda>tc.
         range_entities ds s cb (getConfKey deviceCfgKey (g_ID req)) deviceWithPartitionParser BASE_UUID_PREFIX
           (\<lambda>l. EncodeResponse (A_Devices l)))))"

fun partition_chgs :: "string \<Rightarrow> device_partition list \<Rightarrow> commit_chg list \<Rightarrow> commit_chg list go" where
  "partition_chgs key [] chgs = Ret chgs"
| "partition_chgs key (pt # pts) chgs =
     go_bind (PopulateEntities pt partitionPopulator key) (\<lambda>c. partition_chgs key pts (chgs @ c))"

definition device_pt_key :: "string \<Rightarrow> string" where
  "device_pt_key devID = deviceCfgKey @ ''/'' @ devID @ ''/'' @ ptKey"

definition WPDeviceInfo :: "env \<Rightarrow> arg list \<Rightarrow> encoded go" where
  "WPDeviceInfo env args =
     wp_args as_Device args (\<lambda>rq dev. with_rbac env (rq_Token rq) F_WPDeviceInfo WPAuthError (\<lambda>tc.
       go_bind (PopulateEntities dev devicePopulator deviceCfgKey) (\<lambda>c.
         go_bind (partition_chgs (device_pt_key (d_ID dev)) (d_Partitions dev) c) (wp_done (named_ok (d_ID dev))))))"

subsection \<open>Partitions, PDUs, racks, hypervisors\<close>

definition WPCreatePartition :: "env \<Rightarrow> arg list \<Rightarrow> encoded go" where
  "WPCreatePartition env args =
     wp_args as_Partition args (\<lambda>rq pt. with_rbac env (rq_Token rq) F_WPCreatePartition WPAuthError (\<lambda>tc.
       go_bind (PopulateEntities pt partitionPopulator ptKey) (\<lambda>c1.
         go_bind (PopulateEntities pt partitionPopulator (device_pt_key (pt_DevID pt))) (\<lambda>c2.
           wp_done (named_ok (pt_PartitionID pt)) (c1 @ c2)))))"

definition ReadPartition :: "env \<Rightarrow> 's data_store \<Rightarrow> arg list \<Rightarrow> 's \<Rightarrow> encoded go" where
  "ReadPartition env ds args s =
     rd_args args (\<lambda>cb rq. go_bind (must (as_GetReq (rq_Payload rq))) (\<lambda>req.
       with_rbac env (rq_Token rq) F_ReadPartition AuthError (\<lambda>tc.
         range_entities ds s cb (id_key ptKey req) ptParser BASE_UUID_PREFIX (\<lambda>l. EncodeResponse (A_Partitions l)))))"

definition WPPDUCfg :: "env \<Rightarrow> arg list \<Rightarrow> encoded go" where
  "WPPDUCfg env args =
     wp_args as_PDU args (\<lambda>rq p. with_rbac env (rq_Token rq) F_WPPDUCfg WPAuthError (\<lambda>tc.
       go_bind (PopulateEntities p pduPopulator pduKey) (wp_done (named_ok (p_ID p)))))"

definition ReadPDUCfg :: "env \<Rightarrow> 's data_store \<Rightarrow> arg list \<Rightarrow> 's \<Rightarrow> encoded go" where
  "ReadPDUCfg env ds args s =
     rd_args args (\<lambda>cb rq. go_bind (must (as_GetReq (rq_Payload rq))) (\<lambda>req.
       with_rbac env (rq_Token rq) F_ReadPDUCfg AuthError (\<lambda>tc.
         range_entities ds s cb (id_key pduKey req) pduParser BASE_UUID_PREFIX (\<lambda>l. EncodeResponse (A_PDUs l)))))"

definition WPRackCfg :: "env \<Rightarrow> arg list \<Rightarrow> encoded go" where
  "WPRackCfg env args =
     wp_args as_Rack args (\<lambda>rq r. with_rbac env (rq_Token rq) F_WPRackCfg WPAuthError (\<lambda>tc.
       go_bind (PopulateEntities r rackPopulator rackKey) (wp_done (named_ok (r_ID r)))))"

definition ReadRackCfg :: "env \<Rightarrow> 's data_store \<Rightarrow> arg list \<Rightarrow> 's \<Rightarrow> encoded go" where
  "ReadRackCfg env ds args s =
     rd_args args (\<lambda>cb rq. go_bind (must (as_GetReq (rq_Payload rq))) (\<lambda>req.
       with_rbac env (rq_Token rq) F_ReadRackCfg AuthError (\<lambda>tc.
         range_entities ds s cb (id_key rackKey req) rackParser BASE_UUID_PREFIX (\<lambda>l. EncodeResponse (A_Racks l)))))"

definition WPHyperVisorCfg :: "env \<Rightarrow> arg list \<Rightarrow> encoded go" where
  "WPHyperVisorCfg env args =
     wp_args as_Hypervisor args (\<lambda>rq h. with_rbac env (rq_Token rq) F_WPHyperVisorCfg WPAuthError (\<lambda>tc.
       go_bind (PopulateEntities h hvPopulator hvKey) (wp_done (named_ok (h_ID h)))))"

definition ReadHyperVisorCfg :: "env \<Rightarrow> 's data_store \<Rightarrow> arg list \<Rightarrow> 's \<Rightarrow> encoded go" where
  "ReadHyperVisorCfg env ds args s =
     rd_args args (\<lambda>cb rq. go_bind (must (as_GetReq (rq_Payload rq))) (\<lambda>req.
       with_rbac env (rq_Token rq) F_ReadHyperVisorCfg AuthError (\<lambda>tc.
         range_entities ds s cb (id_key hvKey req) hvParser BASE_UUID_PREFIX (\<lambda>l. EncodeResponse (A_Hypervisors l)))))"

subsection \<open>ReadAllResources\<close>

definition no_resources :: "string \<Rightarrow> resource_list_resp" where
  "no_resources ty = \<lparr>rl_ResourceType = ty, rl_Nisds = [], rl_Racks = [], rl_PDUs = [], rl_Hypervisors = [],
     rl_Devices = [], rl_Partitions = [], rl_Vdevs = []\<rparr>"

text \<open>The local function \<open>rangeRead\<close>: a failed lookup is an empty result.\<close>

definition resource_range :: "'s data_store \<Rightarrow> 's \<Rightarrow> cb_args \<Rightarrow> get_resource_req \<Rightarrow> string \<Rightarrow> (string \<times> string) list go" where
  "resource_range ds s cb req rootKey =
     (let key = (if \<not> gr_GetAll req then getConfKey rootKey (gr_ID req) else rootKey)
      in case ds_RangeRead ds s (prefix_args cb key) of
           Inl err \<Rightarrow> if contains errKeyNotFoundMsg err then Ret [] else Fail err
         | Inr r \<Rightarrow> Ret (rr_ResultMap r))"

definition resource_list ::
  "'s data_store \<Rightarrow> 's \<Rightarrow> cb_args \<Rightarrow> get_resource_req \<Rightarrow> string \<Rightarrow> ('e, 'r) parse_entity
   \<Rightarrow> ('r list \<Rightarrow> resource_list_resp) \<Rightarrow> encoded go" where
  "resource_list ds s cb req root pe put =
     (case resource_range ds s cb req root of
        Panic \<Rightarrow> Panic
      | Fail err \<Rightarrow> FuncError err
      | Ret m \<Rightarrow> go_bind (ParseEntities m pe BASE_UUID_PREFIX) (\<lambda>l. EncodeResponse (A_ResourceListResp (put l))))"

definition ReadAllResources :: "env \<Rightarrow> 's data_store \<Rightarrow> arg list \<Rightarrow> 's \<Rightarrow> encoded go" where
  "ReadAllResources env ds args s =
     rd_args args (\<lambda>cb rq. go_bind (must (as_GetResourceReq (rq_Payload rq))) (\<lambda>req.
       with_rbac env (rq_Token rq) F_ReadAllResources AuthError (\<lambda>tc.
         let ty = gr_ResourceType req; resp = no_resources ty in
         if ty = ''nisd'' then resource_list ds s cb req NisdCfgKey NisdParser (\<lambda>l. resp\<lparr>rl_Nisds := l\<rparr>)
         else if ty = ''rack'' then resource_list ds s cb req rackKey rackParser (\<lambda>l. resp\<lparr>rl_Racks := l\<rparr>)
         else if ty = ''pdu'' then resource_list ds s cb req pduKey pduParser (\<lambda>l. resp\<lparr>rl_PDUs := l\<rparr>)
         else if ty = ''hypervisor'' then resource_list ds s cb req hvKey hvParser (\<lambda>l. resp\<lparr>rl_Hypervisors := l\<rparr>)
         else if ty = ''device'' then resource_list ds s cb req deviceCfgKey deviceWithPartitionParser (\<lambda>l. resp\<lparr>rl_Devices := l\<rparr>)
         else if ty = ''partition'' then resource_list ds s cb req ptKey ptParser (\<lambda>l. resp\<lparr>rl_Partitions := l\<rparr>)
         else if ty = ''vdev'' then resource_list ds s cb req vdevKey (vdevParser (e_TimeParse env)) (\<lambda>l. resp\<lparr>rl_Vdevs := l\<rparr>)
         else FuncError (''unknown resource type: '' @ quote ty))))"


subsection \<open>Vdevs\<close>

definition deny_unless :: "bool \<Rightarrow> string \<Rightarrow> encoded go \<Rightarrow> encoded go" where
  "deny_unless ok msg f = (if ok then f else AuthError msg)"

text \<open>The NISD entry of a chunk key, with the chunk index appended when it parses to one.\<close>

definition add_nisd_chunk ::
  "(string \<times> nisd) list \<Rightarrow> string \<Rightarrow> string \<Rightarrow> (string \<times> nisd_chunk) list \<Rightarrow> (string \<times> nisd_chunk) list" where
  "add_nisd_chunk nisds nisdID idx m =
     (let nc = (case map_of m nisdID of
                  Some nc \<Rightarrow> nc
                | None \<Rightarrow> \<lparr>nc_Nisd = (case map_of nisds nisdID of
                                      Some n \<Rightarrow> n
                                    | None \<Rightarrow> \<lparr>n_PeerPort = 0, n_ID = nisdID, n_FailureDomain = [], n_TotalSize = 0,
                                        n_AvailableSize = 0, n_SocketPath = [], n_NetInfo = [], n_NetInfoCnt = 0\<rparr>),
                           nc_Chunk = []\<rparr>)
      in alist_update nisdID
           (case atoi_ok idx of
              Some i \<Rightarrow> if i \<ge> 0 then nc\<lparr>nc_Chunk := nc_Chunk nc @ [i]\<rparr> else nc
            | None \<Rightarrow> nc) m)"

text \<open>The configuration fields that this handler parses by itself: two block counts are cut to 8 bits.\<close>

definition mapping_set_cfg :: "string \<Rightarrow> string \<Rightarrow> vdev_config \<Rightarrow> vdev_config" where
  "mapping_set_cfg f v vd =
     (if f = SIZE then set_if (atoi_ok v) (\<lambda>x r. r\<lparr>v_Size := word_of_int x\<rparr>) vd
      else if f = NUM_CHUNKS then set_if (parse_uint_ok 32 v) (\<lambda>x r. r\<lparr>v_ChunkCnt := of_nat x\<rparr>) vd
      else if f = TOTAL_DATA_BLKS then set_if (parse_uint_ok 64 v) (\<lambda>x r. r\<lparr>v_DataBlkCnt := of_nat x\<rparr>) vd
      else if f = TOTAL_PARITY_BLKS then set_if (parse_uint_ok 64 v) (\<lambda>x r. r\<lparr>v_ParityBlkCnt := of_nat x\<rparr>) vd
      else if f = REDUNDANCY_MODE then set_if (parse_uint_ok 8 v) (\<lambda>x r. r\<lparr>v_Redundancy := int x\<rparr>) vd
      else if f = pfsKey then vd\<lparr>v_PFSID := v\<rparr>
      else if f = NAME then vd\<lparr>v_Name := v\<rparr>
      else vd)"

type_synonym vdev_maps = "(string \<times> vdev_config) list \<times> (string \<times> (string \<times> nisd_chunk) list) list"

text \<open>One key; a configuration, mount or chunk key of three parts is an index panic.\<close>

definition mapping_key ::
  "(string \<Rightarrow> gotime option) \<Rightarrow> (string \<times> nisd) list \<Rightarrow> string \<Rightarrow> string \<Rightarrow> vdev_maps \<Rightarrow> vdev_maps go" where
  "mapping_key tp nisds k v ms =
     (let parts = key_parts k in
      if length parts \<le> VDEV_CFG_C_KEY then Ret ms
      else
        let (vdevMap, chunkMap) = ms;
            vid = parts ! BASE_UUID_PREFIX;
            cfg = (case map_of vdevMap vid of Some c \<Rightarrow> c | None \<Rightarrow> new_vdev vid);
            kind = parts ! VDEV_CFG_C_KEY
        in if kind \<noteq> cfgkey \<and> kind \<noteq> MntKey \<and> kind \<noteq> chunkKey then Ret (alist_update vid cfg vdevMap, chunkMap)
           else if length parts \<le> VDEV_ELEMENT_KEY then Panic
           else if kind = cfgkey
             then Ret (alist_update vid (mapping_set_cfg (parts ! VDEV_ELEMENT_KEY) v cfg) vdevMap, chunkMap)
           else if kind = MntKey
             then Ret (alist_update vid (vdev_set_mnt tp (parts ! VDEV_ELEMENT_KEY) v cfg) vdevMap, chunkMap)
           else Ret (alist_update vid cfg vdevMap,
             alist_update vid (add_nisd_chunk nisds v (parts ! 3)
               (case map_of chunkMap vid of Some m \<Rightarrow> m | None \<Rightarrow> [])) chunkMap))"

fun mapping_keys ::
  "(string \<Rightarrow> gotime option) \<Rightarrow> (string \<times> nisd) list \<Rightarrow> (string \<times> string) list \<Rightarrow> vdev_maps \<Rightarrow> vdev_maps go" where
  "mapping_keys tp nisds [] ms = Ret ms"
| "mapping_keys tp nisds ((k, v) # kvs) ms = go_bind (mapping_key tp nisds k v ms) (mapping_keys tp nisds kvs)"

definition mapping_list :: "vdev_maps \<Rightarrow> vdev list" where
  "mapping_list ms = map (\<lambda>(vid, c). \<lparr>vd_Cfg = c,
     vd_NisdToChkMap = (case map_of (snd ms) vid of Some m \<Rightarrow> map snd m | None \<Rightarrow> [])\<rparr>) (fst ms)"

definition ReadVdevsInfoWithChunkMapping :: "env \<Rightarrow> 's data_store \<Rightarrow> arg list \<Rightarrow> 's \<Rightarrow> encoded go" where
  "ReadVdevsInfoWithChunkMapping env ds args s =
     rd_args args (\<lambda>cb rq. go_bind (must (as_GetReq (rq_Payload rq))) (\<lambda>req.
       with_token env (rq_Token rq) FuncError (\<lambda>tc.
         case (if g_GetAll req then Inr (g_ID req) else resolve_vdev_name env ds s cb (g_ID req)) of
           Inl err \<Rightarrow> FuncError err
         | Inr vid \<Rightarrow>
             deny_unless
               (if g_GetAll req then authorized env F_ReadAllVdevInfo tc Map.empty (\<lambda>_. Inl [])
                else authorized env F_ReadVdevsInfoWithChunkMapping tc [''vdev'' \<mapsto> vid] (ds_Read ds s))
               ''User is not authorized''
               (range_then ds s cb NisdCfgKey (\<lambda>nm.
                 go_bind (ParseEntitiesMap nm NisdParser BASE_UUID_PREFIX) (\<lambda>nisds.
                   range_then ds s cb (if \<not> g_GetAll req then getConfKey vdevKey vid else vdevKey) (\<lambda>m.
                     go_bind (mapping_keys (e_TimeParse env) nisds m ([], [])) (\<lambda>ms.
                       EncodeResponse (A_Vdevs (mapping_list ms))))))))))"

definition ReadVdevInfo :: "env \<Rightarrow> 's data_store \<Rightarrow> arg list \<Rightarrow> 's \<Rightarrow> encoded go" where
  "ReadVdevInfo env ds args s =
     rd_args args (\<lambda>cb rq. go_bind (must (as_GetReq (rq_Payload rq))) (\<lambda>req.
       case ValidateRequest req of
         Some err \<Rightarrow> FuncError ''Invalid Request''
       | None \<Rightarrow> with_token env (rq_Token rq) (\<lambda>err. AuthError ''Invalid Token'') (\<lambda>tc.
           case resolve_vdev_name env ds s cb (g_ID req) of
             Inl err \<Rightarrow> FuncError err
           | Inr vid \<Rightarrow>
               deny_unless (authorized env F_ReadVdevInfo tc [''vdev'' \<mapsto> vid] (ds_Read ds s)) ''User is not authorized''
                 (range_entities ds s cb (getConfKey vdevKey vid) (vdevParser (e_TimeParse env)) BASE_UUID_PREFIX
                   (\<lambda>l. case l of [] \<Rightarrow> FuncError ''vdev not found'' | v # _ \<Rightarrow> EncodeResponse (A_VdevConfig v))))))"

text \<open>This handler checks no token.\<close>

definition ReadAllVdevInfo :: "env \<Rightarrow> 's data_store \<Rightarrow> arg list \<Rightarrow> 's \<Rightarrow> encoded go" where
  "ReadAllVdevInfo env ds args s =
     go_bind (the_CbArgs args 0) (\<lambda>cb.
       range_entities ds s cb vdevKey (vdevParser (e_TimeParse env)) BASE_UUID_PREFIX
         (\<lambda>l. EncodeResponse (A_VdevConfigs l)))"

subsection \<open>Chunks\<close>

text \<open>\<open>path.Clean\<close> and \<open>path.Join\<close>.\<close>

fun clean_parts :: "bool \<Rightarrow> string list \<Rightarrow> string list \<Rightarrow> string list" where
  "clean_parts rooted out [] = out"
| "clean_parts rooted out (c # cs) =
     (if c = [] \<or> c = ''.'' then clean_parts rooted out cs
      else if c = ''..'' then
        (if out \<noteq> [] \<and> last out \<noteq> ''..'' then clean_parts rooted (butlast out) cs
         else if rooted then clean_parts rooted out cs
         else clean_parts rooted (out @ [c]) cs)
      else clean_parts rooted (out @ [c]) cs)"

definition path_Clean :: "string \<Rightarrow> string" where
  "path_Clean p =
     (let rooted = (p \<noteq> [] \<and> hd p = CHR ''/''); out = clean_parts rooted [] (split (CHR ''/'') p)
      in if rooted then CHR ''/'' # join ''/'' out else if out = [] then ''.'' else join ''/'' out)"

definition path_Join :: "string list \<Rightarrow> string" where
  "path_Join es =
     (let ne = filter (\<lambda>e. e \<noteq> []) es in if ne = [] then [] else path_Clean (join ''/'' ne))"

definition chunk_prefix :: "string \<Rightarrow> string list \<Rightarrow> string" where
  "chunk_prefix vid rest = path_Clean (getConfKey vdevKey (path_Join (vid # chunkKey # rest))) @ ''/''"

text \<open>The stored redundancy replaces the one the parser guessed from the placement prefix.\<close>

definition fix_redundancy :: "redundancy_mode \<Rightarrow> chunk \<Rightarrow> chunk" where
  "fix_redundancy ecType c =
     (if IsEC (c_Redundancy c) then
        c\<lparr>c_Redundancy := ecType,
          c_Placements := (if ecType = RMReplica then map (\<lambda>p. p\<lparr>cp_Type := Replica\<rparr>) (c_Placements c) else c_Placements c)\<rparr>
      else c)"

definition ReadChunk :: "env \<Rightarrow> 's data_store \<Rightarrow> arg list \<Rightarrow> 's \<Rightarrow> encoded go" where
  "ReadChunk env ds args s =
     rd_args args (\<lambda>cb rq. go_bind (must (as_GetReq (rq_Payload rq))) (\<lambda>req.
       case ValidateRequest req of
         Some err \<Rightarrow> FuncError err
       | None \<Rightarrow> with_token env (rq_Token rq) AuthError (\<lambda>tc.
           let keys = key_parts (g_ID req) in
           if length keys < 1 then FuncError ''invalid request ID format: expected vdevID[/chunkIndex]''
           else
             let vid = keys ! 0; chunkIdx = (if length keys > 1 then keys ! 1 else []) in
             deny_unless (authorized env F_ReadChunk tc [''vdev'' \<mapsto> vid] (ds_Read ds s)) ''authorization failed''
               (range_entities ds s cb (chunk_prefix vid (if chunkIdx = [] then [] else [chunkIdx])) chunkParser 3 (\<lambda>l.
                  if l = [] then
                    (if chunkIdx \<noteq> [] then FuncError ''chunk not found'' else EncodeResponse (A_Chunks l))
                  else
                    let l1 = (case ds_Read ds s (vdev_cfg_key vid REDUNDANCY_MODE) of
                                Inl err \<Rightarrow> l
                              | Inr rmVal \<Rightarrow> (case atoi_ok rmVal of None \<Rightarrow> l | Some rm \<Rightarrow> map (fix_redundancy rm) l))
                    in if chunkIdx \<noteq> [] then EncodeResponse (A_Chunk (hd l1)) else EncodeResponse (A_Chunks l1))))))"

text \<open>\<open>None\<close>: the parser does not return (all 256 sequence numbers of a chunk are taken).\<close>

definition ReadChunkNisd :: "env \<Rightarrow> 's data_store \<Rightarrow> arg list \<Rightarrow> 's \<Rightarrow> encoded go option" where
  "ReadChunkNisd env ds args s =
     (case go_bind (the_CbArgs args 0) (\<lambda>cb. go_bind (the_CPReq args 1) (\<lambda>rq.
              go_bind (must (as_GetReq (rq_Payload rq))) (\<lambda>req. Ret (cb, rq, req)))) of
        Ret (cb, rq, req) \<Rightarrow>
          (case ValidateRequest req of
             Some err \<Rightarrow> Some (FuncError err)
           | None \<Rightarrow>
              (case ValidateToken env (rq_Token rq) of
                 Panic \<Rightarrow> Some Panic
               | Fail err \<Rightarrow> Some (AuthError err)
               | Ret tc \<Rightarrow>
                   let keys = key_parts (g_ID req) in
                   if length keys < 2 then Some (FuncError ''invalid request ID format: expected vdevID/chunkIndex'')
                   else if \<not> authorized env F_ReadChunkNisd tc [''vdev'' \<mapsto> keys ! 0] (ds_Read ds s)
                   then Some (AuthError ''authorization failed'')
                   else (case ds_RangeRead ds s (prefix_args cb (chunk_prefix (keys ! 0) [keys ! 1])) of
                     Inl err \<Rightarrow> Some (FuncError err)
                   | Inr r \<Rightarrow>
                      (case ParseEntities (rr_ResultMap r) chunkNisdParser 3 of
                         Panic \<Rightarrow> Some Panic
                       | Fail err \<Rightarrow> Some (Fail err)
                       | Ret entities \<Rightarrow>
                           if None \<in> set entities then None
                           else if entities = [] then Some (FuncError ''chunk not found'')
                           else Some (EncodeResponse (A_ChunkNisd (the (hd entities))))))))
      | _ \<Rightarrow> Some Panic)"

subsection \<open>NISD arguments and PFS\<close>

definition WPNisdArgs :: "env \<Rightarrow> arg list \<Rightarrow> encoded go" where
  "WPNisdArgs env args =
     wp_args as_NisdArgs args (\<lambda>rq a. with_rbac env (rq_Token rq) F_WPNisdArgs WPAuthError (\<lambda>tc.
       go_bind (PopulateEntities a nisdArgsPopulator argsKey) (wp_done (named_ok ''nisd-args''))))"

definition nisd_args_set :: "string \<Rightarrow> string \<Rightarrow> nisd_args \<Rightarrow> nisd_args" where
  "nisd_args_set f v a =
     (if f = DEFRAG then a\<lparr>na_Defrag := fst (parse_bool v)\<rparr>
      else if f = MBCCnt then a\<lparr>na_MBCCnt := fst (atoi v)\<rparr>
      else if f = MergeHCnt then a\<lparr>na_MergeHCnt := fst (atoi v)\<rparr>
      else if f = MCIReadCache then a\<lparr>na_MCIBReadCache := fst (atoi v)\<rparr>
      else if f = DSYNC then a\<lparr>na_DSync := v\<rparr>
      else if f = S3 then a\<lparr>na_S3 := v\<rparr>
      else if f = ALLOW_DEFRAG_MCIB_CACHE then a\<lparr>na_AllowDefragMCIBCache := fst (parse_bool v)\<rparr>
      else a)"

definition nisd_args_from :: "(string \<times> string) list \<Rightarrow> nisd_args" where
  "nisd_args_from m =
     foldl (\<lambda>a (k, v). let parts = key_parts k in if length parts < 2 then a else nisd_args_set (parts ! BASE_UUID_PREFIX) v a)
       \<lparr>na_Defrag = False, na_AllowDefragMCIBCache = False, na_MBCCnt = 0, na_MergeHCnt = 0, na_MCIBReadCache = 0,
        na_S3 = [], na_DSync = []\<rparr> m"

definition RdNisdArgs :: "env \<Rightarrow> 's data_store \<Rightarrow> arg list \<Rightarrow> 's \<Rightarrow> encoded go" where
  "RdNisdArgs env ds args s =
     rd_args args (\<lambda>cb rq. with_rbac env (rq_Token rq) F_RdNisdArgs FuncError (\<lambda>tc.
       range_then ds s cb argsKey (\<lambda>m. EncodeResponse (A_NisdArgs (nisd_args_from m)))))"

text \<open>\<open>new_uuid\<close> and \<open>n\<close> are the values of \<open>uuid.NewV7\<close> and \<open>rand.Intn\<close>.\<close>

definition WPPFSCfg :: "env \<Rightarrow> string go \<Rightarrow> nat \<Rightarrow> arg list \<Rightarrow> encoded go" where
  "WPPFSCfg env new_uuid n args =
     wp_args as_PFS args (\<lambda>rq p. with_rbac env (rq_Token rq) F_WPPFSCfg WPAuthError (\<lambda>tc.
       go_bind (if pf_ID p = [] then new_uuid else Ret (pf_ID p)) (\<lambda>pid.
         wp_done \<lparr>rx_Name = pf_Name p, rx_ID = pid, rx_Error = [], rx_Success = True\<rparr>
           [chg (pfsKey @ ''/'' @ pid @ ''/nm'') (pf_Name p),
            chg (pfs_offset_key pid) (utoa n),
            chg (pfsKey @ ''/'' @ pf_Name p) pid])))"

definition pfs_entry :: "(string \<Rightarrow> bool) \<Rightarrow> (string \<times> pfs) list \<Rightarrow> string \<times> string \<Rightarrow> (string \<times> pfs) list" where
  "pfs_entry uuid_ok m kv =
     (let parts = key_parts (fst kv); v = snd kv in
      if length parts < 3 \<or> parts ! 0 \<noteq> pfsKey \<or> \<not> uuid_ok (parts ! 1) then m
      else
        let pid = parts ! 1;
            p = (case map_of m pid of Some p \<Rightarrow> p
                 | None \<Rightarrow> \<lparr>pf_ID = pid, pf_Name = [], pf_Offset = 0, pf_VdevIDs = []\<rparr>)
        in alist_update pid
             (if parts ! 2 = ''nm'' then p\<lparr>pf_Name := v\<rparr>
              else if parts ! 2 = ''offset'' then set_if (atoi_ok v) (\<lambda>x r. r\<lparr>pf_Offset := x\<rparr>) p
              else if parts ! 2 = ''v'' \<and> length parts \<ge> 4 then p\<lparr>pf_VdevIDs := pf_VdevIDs p @ [parts ! 3]\<rparr>
              else p) m)"

text \<open>The name is looked up before the caller is checked.\<close>

definition ReadPFSCfg :: "env \<Rightarrow> 's data_store \<Rightarrow> arg list \<Rightarrow> 's \<Rightarrow> encoded go" where
  "ReadPFSCfg env ds args s =
     rd_args args (\<lambda>cb rq. go_bind (must (as_GetReq (rq_Payload rq))) (\<lambda>req.
       case (if \<not> e_uuid_Validate env (g_ID req) \<and> \<not> g_GetAll req
             then ds_Read ds s (getConfKey pfsKey (g_ID req)) else Inr (g_ID req)) of
         Inl err \<Rightarrow> FuncError err
       | Inr pfsID \<Rightarrow>
           with_rbac env (rq_Token rq) F_ReadPFSCfg AuthError (\<lambda>tc.
             range_then ds s cb (if \<not> g_GetAll req then pfsKey @ ''/'' @ pfsID else pfsKey) (\<lambda>m.
               EncodeResponse (A_PFSs (map snd (foldl (pfs_entry (e_uuid_Validate env)) [] m)))))))"

end
