(* ===== verification/UserServer.thy ===== *)
theory UserServer
  imports Handlers
begin

section \<open>The user service: user/server\<close>

text \<open>
  Users are stored under \<open>u/<id>/<field>\<close> with an index \<open>u-idx/un/<name>\<close>. The theory has the
  serializer and deserializer, the lookups, and the callbacks \<open>PutUser\<close> (a write preparation), \<open>GetUser\<close>
  and \<open>Login\<close> (reads) and \<open>CreateAdminUser\<close> (an apply handler). What is random or comes from the
  clock is an argument: \<open>new_uuid\<close>, \<open>rand_key\<close> (the bytes of a new secret key), \<open>nonce\<close>, \<open>now\<close>.
\<close>

subsection \<open>Deserializer\<close>

abbreviation secretKeyField :: string where "secretKeyField \<equiv> ''sk''"
abbreviation usernameField :: string where "usernameField \<equiv> ''un''"
abbreviation statusField :: string where "statusField \<equiv> ''st''"
abbreviation userTypeField :: string where "userTypeField \<equiv> ''ut''"
abbreviation userRoleField :: string where "userRoleField \<equiv> ''ur''"
abbreviation userKeyPrefix :: string where "userKeyPrefix \<equiv> ''u''"
abbreviation userIndexPrefix :: string where "userIndexPrefix \<equiv> ''u-idx''"
abbreviation usernameIdxPrefix :: string where "usernameIdxPrefix \<equiv> ''un''"

definition user_ParseField :: "user \<Rightarrow> string list \<Rightarrow> string \<Rightarrow> user" where
  "user_ParseField u parts v =
     (if length parts < 3 then u
      else let f = parts ! 2 in
        if f = secretKeyField then u\<lparr>u_SecretKey := v\<rparr>
        else if f = usernameField then u\<lparr>u_Username := v\<rparr>
        else if f = statusField then (if v \<noteq> [] then u\<lparr>u_Status := of_char (hd v)\<rparr> else u)
        else if f = userTypeField then u\<lparr>u_IsAdmin := (v = AdminUsername)\<rparr>
        else if f = userRoleField then u\<lparr>u_UserRole := v\<rparr>
        else u)"

fun users_from :: "(string \<times> user) list \<Rightarrow> (string \<times> string) list \<Rightarrow> (string \<times> user) list" where
  "users_from m [] = m"
| "users_from m ((k, v) # rest) =
     (let parts = key_parts k in
      if length parts < 3 \<or> parts ! 0 \<noteq> userKeyPrefix \<or> parts ! 1 = [] then users_from m rest
      else
        let uid = parts ! 1;
            u = (case map_of m uid of Some u \<Rightarrow> u | None \<Rightarrow> new_user\<lparr>u_UserID := uid\<rparr>)
        in users_from (alist_update uid (user_ParseField u parts v) m) rest)"

definition DeserializeUsers :: "(string \<times> string) list \<Rightarrow> user list" where
  "DeserializeUsers readResult = map snd (users_from [] readResult)"

definition DeserializeSingleUser :: "(string \<times> string) list \<Rightarrow> string \<Rightarrow> user option" where
  "DeserializeSingleUser readResult userID = List.find (\<lambda>u. u_UserID u = userID) (DeserializeUsers readResult)"

subsection \<open>Serializer\<close>

definition user_key :: "string \<Rightarrow> string \<Rightarrow> string" where
  "user_key uid f = userKeyPrefix @ ''/'' @ uid @ ''/'' @ f"

definition username_key :: "string \<Rightarrow> string" where
  "username_key name = userIndexPrefix @ ''/'' @ usernameIdxPrefix @ ''/'' @ name"

definition SerializeUser :: "user \<Rightarrow> commit_chg list" where
  "SerializeUser u =
     (if u_Username u \<noteq> [] then [chg (user_key (u_UserID u) usernameField) (u_Username u)] else [])
     @ (if u_SecretKey u \<noteq> [] then [chg (user_key (u_UserID u) secretKeyField) (u_SecretKey u)] else [])
     @ [chg (user_key (u_UserID u) userTypeField) (if u_IsAdmin u then ''admin'' else ''non-admin'')]
     @ (if u_UserRole u \<noteq> [] then [chg (user_key (u_UserID u) userRoleField) (u_UserRole u)] else [])
     @ [chg (user_key (u_UserID u) statusField) [char_of (unat (u_Status u))]]
     @ (if u_Username u \<noteq> [] then [chg (username_key (u_Username u)) (u_UserID u)] else [])"

definition SerializeUsernameIndexDelete :: "string \<Rightarrow> commit_chg" where
  "SerializeUsernameIndexDelete oldUsername =
     \<lparr>cc_Key = username_key oldUsername, cc_Value = [], cc_Op = OpDelete\<rparr>"

subsection \<open>Lookups\<close>

definition checkUserExistsByID :: "'s data_store \<Rightarrow> 's \<Rightarrow> cb_args \<Rightarrow> string \<Rightarrow> user option go" where
  "checkUserExistsByID ds s cb userID =
     (if userID = [] then Ret None
      else case ds_RangeRead ds s (prefix_args cb (userKeyPrefix @ ''/'' @ userID)) of
             Inl err \<Rightarrow> if IsKeyNotFoundError (Some err) then Ret None else Fail (''range read failure: '' @ err)
           | Inr r \<Rightarrow> Ret (DeserializeSingleUser (rr_ResultMap r) userID))"

text \<open>The first non-empty value in the order of the map.\<close>

definition getUserIDByUsername :: "'s data_store \<Rightarrow> 's \<Rightarrow> cb_args \<Rightarrow> string \<Rightarrow> string go" where
  "getUserIDByUsername ds s cb username =
     (if username = [] then Ret []
      else case ds_RangeRead ds s (prefix_args cb (username_key username)) of
             Inl err \<Rightarrow> if IsKeyNotFoundError (Some err) then Ret [] else Fail (''index lookup failure: '' @ err)
           | Inr r \<Rightarrow> Ret (case List.find (\<lambda>v. v \<noteq> []) (map snd (rr_ResultMap r)) of None \<Rightarrow> [] | Some v \<Rightarrow> v))"

definition checkUsernameExists :: "'s data_store \<Rightarrow> 's \<Rightarrow> cb_args \<Rightarrow> string \<Rightarrow> string go" where
  "checkUsernameExists ds s cb username = getUserIDByUsername ds s cb username"

subsection \<open>PutUser\<close>

abbreviation defaultAdminSecretKey :: string where "defaultAdminSecretKey \<equiv> ''niova-admin-secret-key''"

definition handleCreateUser ::
  "enc_state \<Rightarrow> string go \<Rightarrow> string go \<Rightarrow> string go \<Rightarrow> user_req \<Rightarrow> user \<Rightarrow> (string \<times> user) go" where
  "handleCreateUser es new_uuid rand_key nonce req u =
     (case (if uq_UserID req = [] then new_uuid else Ret (uq_UserID req)) of
        Panic \<Rightarrow> Panic
      | Fail err \<Rightarrow> Fail (''failed to generate UUID: '' @ err)
      | Ret uid \<Rightarrow>
          let u1 = User_Init (req\<lparr>uq_UserID := uid\<rparr>) u in
          (case (if uq_IsAdmin req then Ret defaultAdminSecretKey else GenerateSecretKey rand_key) of
             Panic \<Rightarrow> Panic
           | Fail err \<Rightarrow> Fail (''failed to generate secret key: '' @ err)
           | Ret plain \<Rightarrow>
               (case EncryptSecretKey es nonce plain of
                  Panic \<Rightarrow> Panic
                | Fail err \<Rightarrow> Fail (''failed to encrypt secret key: '' @ err)
                | Ret enc \<Rightarrow> Ret (plain, u1\<lparr>u_SecretKey := enc\<rparr>))))"

definition update_username :: "user_req \<Rightarrow> user \<Rightarrow> user go" where
  "update_username req ex =
     (if uq_Username req \<noteq> [] \<and> uq_Username req \<noteq> u_Username ex then
        if u_IsAdmin ex then Fail ''admin user cannot change username''
        else if uq_Username req = AdminUsername
        then Fail (''username '' @ quote AdminUsername @ '' is reserved for admin user'')
        else Ret (ex\<lparr>u_Username := uq_Username req\<rparr>)
      else Ret ex)"

definition handleUpdateUser :: "enc_state \<Rightarrow> string go \<Rightarrow> user_req \<Rightarrow> user \<Rightarrow> (string \<times> user) go" where
  "handleUpdateUser es nonce req ex =
     go_bind (update_username req ex) (\<lambda>u.
       if uq_NewSecretKey req \<noteq> [] then
         (if \<not> u_IsAdmin u then Fail ''only admin users can update their secret key''
          else case EncryptSecretKey es nonce (uq_NewSecretKey req) of
                 Panic \<Rightarrow> Panic
               | Fail err \<Rightarrow> Fail (''failed to encrypt new secret key: '' @ err)
               | Ret enc \<Rightarrow> Ret (uq_NewSecretKey req, u\<lparr>u_SecretKey := enc\<rparr>))
       else Ret ([], u))"

definition user_error :: "string \<Rightarrow> user_resp" where
  "user_error msg = \<lparr>ur_Username = [], ur_UserID = [], ur_SecretKey = [], ur_UserRole = [], ur_Status = 0,
     ur_Error = msg, ur_Success = False\<rparr>"

text \<open>An error is a \<open>UserResp\<close> here, not a \<open>CPResp\<close> with an error.\<close>

definition returnError :: "string \<Rightarrow> encoded go" where
  "returnError errMsg = Ret (EncIntrm \<lparr>fi_Changes = [], fi_Response = A_UserResp (user_error errMsg)\<rparr>)"

definition user_answer :: "user \<Rightarrow> string \<Rightarrow> user_resp" where
  "user_answer u plain = \<lparr>ur_Username = u_Username u, ur_UserID = u_UserID u, ur_SecretKey = plain,
     ur_UserRole = u_UserRole u, ur_Status = u_Status u, ur_Error = [], ur_Success = True\<rparr>"

text \<open>Who may call it; \<open>None\<close> is permission.\<close>

definition putuser_denied :: "env \<Rightarrow> token_claims \<Rightarrow> user_req \<Rightarrow> string option" where
  "putuser_denied env tc req =
     (if (case e_authorizer env of None \<Rightarrow> False
          | Some a \<Rightarrow> e_authEnabled env \<and> \<not> CheckRBAC a F_PutUser [tc_Role tc])
      then Some ''authorization failed: insufficient permissions''
      else if \<not> uq_IsUpdate req \<and> e_authEnabled env \<and> (\<not> tc_IsAdmin tc \<or> tc_Role tc \<noteq> AdminUserRole)
      then Some ''permission denied: only admin users can create new users''
      else None)"

text \<open>The user to update and the username whose index entry goes (\<open>""\<close>: none).\<close>

definition putuser_existing ::
  "env \<Rightarrow> 's data_store \<Rightarrow> 's \<Rightarrow> cb_args \<Rightarrow> token_claims \<Rightarrow> user_req \<Rightarrow> (user \<times> string) go" where
  "putuser_existing env ds s cb tc req =
     (if uq_UserID req = [] then Fail ''userID is required for update operation''
      else case checkUserExistsByID ds s cb (uq_UserID req) of
        Panic \<Rightarrow> Panic
      | Fail err \<Rightarrow> Fail (''failed to check user existence: '' @ err)
      | Ret None \<Rightarrow> Fail (''user not found: '' @ uq_UserID req)
      | Ret (Some ex) \<Rightarrow>
          if e_authEnabled env \<and> \<not> tc_IsAdmin tc \<and> tc_UserID tc \<noteq> uq_UserID req
          then Fail ''permission denied: you can only update your own record''
          else if uq_Username req \<noteq> [] \<and> uq_Username req \<noteq> u_Username ex then
            (case checkUsernameExists ds s cb (uq_Username req) of
               Panic \<Rightarrow> Panic
             | Fail err \<Rightarrow> Fail (''failed to check username uniqueness: '' @ err)
             | Ret uid \<Rightarrow>
                 if uid \<noteq> [] then Fail (''username '' @ [CHR 0x27] @ uq_Username req @ [CHR 0x27] @ '' already exists'')
                 else Ret (ex, u_Username ex))
          else Ret (ex, []))"

definition putuser_new :: "'s data_store \<Rightarrow> 's \<Rightarrow> cb_args \<Rightarrow> user_req \<Rightarrow> unit go" where
  "putuser_new ds s cb req =
     (if trim_space (uq_Username req) = [] then Fail ''username cannot be empty''
      else if uq_Username req = AdminUsername
      then Fail (''username '' @ quote AdminUsername @ '' is reserved for admin user'')
      else case checkUsernameExists ds s cb (uq_Username req) of
        Panic \<Rightarrow> Panic
      | Fail err \<Rightarrow> Fail (''failed to check username uniqueness: '' @ err)
      | Ret uid \<Rightarrow>
          if uid \<noteq> [] then Fail (''username '' @ [CHR 0x27] @ uq_Username req @ [CHR 0x27] @ '' already exists'')
          else Ret ())"

text \<open>The secret key to show, the user to store and the index entry to delete.\<close>

definition putuser_user ::
  "env \<Rightarrow> enc_state \<Rightarrow> string go \<Rightarrow> string go \<Rightarrow> string go \<Rightarrow> 's data_store \<Rightarrow> 's \<Rightarrow> cb_args \<Rightarrow> token_claims
   \<Rightarrow> user_req \<Rightarrow> (string \<times> user \<times> string) go" where
  "putuser_user env es new_uuid rand_key nonce ds s cb tc req =
     (if uq_IsUpdate req then
        go_bind (putuser_existing env ds s cb tc req) (\<lambda>(ex, old).
          go_bind (handleUpdateUser es nonce (req\<lparr>uq_IsAdmin := u_IsAdmin ex\<rparr>) ex) (\<lambda>(plain, u). Ret (plain, u, old)))
      else
        go_bind (putuser_new ds s cb req) (\<lambda>_.
          go_bind (handleCreateUser es new_uuid rand_key nonce req new_user) (\<lambda>(plain, u). Ret (plain, u, []))))"

definition PutUser ::
  "env \<Rightarrow> enc_state \<Rightarrow> string go \<Rightarrow> string go \<Rightarrow> string go \<Rightarrow> 's data_store \<Rightarrow> arg list \<Rightarrow> 's \<Rightarrow> encoded go" where
  "PutUser env es new_uuid rand_key nonce ds args s =
     go_bind (the_CPReq args 0) (\<lambda>rq.
       case rq_Payload rq of
         A_UserReq req \<Rightarrow>
           go_bind (the_CbArgs args 1) (\<lambda>cb.
             case ValidateToken env (rq_Token rq) of
               Panic \<Rightarrow> Panic
             | Fail err \<Rightarrow> returnError err
             | Ret tc \<Rightarrow>
                 (case putuser_denied env tc req of
                    Some msg \<Rightarrow> returnError msg
                  | None \<Rightarrow>
                      (case putuser_user env es new_uuid rand_key nonce ds s cb tc req of
                         Panic \<Rightarrow> Panic
                       | Fail err \<Rightarrow> returnError err
                       | Ret (plain, u, old) \<Rightarrow>
                           Ret (EncIntrm \<lparr>fi_Changes = SerializeUser u @
                                   (if old \<noteq> [] then [SerializeUsernameIndexDelete old] else []),
                                 fi_Response = A_UserResp (user_answer u plain)\<rparr>))))
       | _ \<Rightarrow> Panic)"


subsection \<open>GetUser\<close>

definition user_resp_of :: "enc_state \<Rightarrow> user \<Rightarrow> user_resp" where
  "user_resp_of es u =
     user_answer u (if u_SecretKey u = [] then []
                    else case DecryptSecretKey es (u_SecretKey u) of Ret p \<Rightarrow> p | _ \<Rightarrow> [])"

text \<open>The user asked for (\<open>""\<close>: all users); \<open>None\<close> is a name that is not in the index.\<close>

definition getuser_target :: "'s data_store \<Rightarrow> 's \<Rightarrow> cb_args \<Rightarrow> user_get_req \<Rightarrow> string option go" where
  "getuser_target ds s cb req =
     (if ug_UserID req \<noteq> [] then Ret (Some (ug_UserID req))
      else if ug_Username req \<noteq> [] then
        (case getUserIDByUsername ds s cb (ug_Username req) of
           Panic \<Rightarrow> Panic
         | Fail err \<Rightarrow> Fail (''failed to lookup user by username: '' @ err)
         | Ret uid \<Rightarrow> if uid = [] then Ret None else Ret (Some uid))
      else Ret (Some []))"

definition getuser_denied :: "env \<Rightarrow> token_claims \<Rightarrow> user_get_req \<Rightarrow> string \<Rightarrow> string option" where
  "getuser_denied env tc req target =
     (if e_authEnabled env \<and> \<not> tc_IsAdmin tc \<and> target \<noteq> [] \<and> target \<noteq> tc_UserID tc
      then Some ''authorization failed: you can only view your own information''
      else if e_authEnabled env \<and> \<not> tc_IsAdmin tc \<and> ug_UserID req = [] \<and> ug_Username req = []
      then Some ''authorization failed: only admins can list all users''
      else None)"

definition getuser_read :: "enc_state \<Rightarrow> 's data_store \<Rightarrow> 's \<Rightarrow> cb_args \<Rightarrow> string \<Rightarrow> encoded go" where
  "getuser_read es ds s cb target =
     (case ds_RangeRead ds s (prefix_args cb (if target = [] then userKeyPrefix else userKeyPrefix @ ''/'' @ target)) of
        Inl err \<Rightarrow>
          if IsKeyNotFoundError (Some err) then EncodeResponse (A_UserResps [])
          else FuncError (''range read failure: '' @ err)
      | Inr r \<Rightarrow> EncodeResponse (A_UserResps (map (user_resp_of es) (DeserializeUsers (rr_ResultMap r)))))"

definition GetUser :: "env \<Rightarrow> enc_state \<Rightarrow> 's data_store \<Rightarrow> arg list \<Rightarrow> 's \<Rightarrow> encoded go" where
  "GetUser env es ds args s =
     rd_args args (\<lambda>cb rq.
       case rq_Payload rq of
         A_UserGetReq req \<Rightarrow>
           with_token env (rq_Token rq) AuthError (\<lambda>tc.
             if (case e_authorizer env of None \<Rightarrow> False
                 | Some a \<Rightarrow> e_authEnabled env \<and> \<not> CheckRBAC a F_GetUser [tc_Role tc])
             then AuthError ''authorization failed: insufficient permissions''
             else case getuser_target ds s cb req of
               Panic \<Rightarrow> Panic
             | Fail err \<Rightarrow> FuncError err
             | Ret None \<Rightarrow> EncodeResponse (A_UserResps [])
             | Ret (Some target) \<Rightarrow>
                 (case getuser_denied env tc req target of
                    Some msg \<Rightarrow> AuthError msg
                  | None \<Rightarrow> getuser_read es ds s cb target))
       | _ \<Rightarrow> Panic)"

subsection \<open>CreateAdminUser\<close>

text \<open>Like \<open>applyKV\<close>, but with the store's own error.\<close>

fun applyCommitChanges :: "'s data_store \<Rightarrow> commit_chg list \<Rightarrow> 's \<Rightarrow> string option \<times> 's" where
  "applyCommitChanges ds [] s = (None, s)"
| "applyCommitChanges ds (c # cs) s =
     (case cc_Op c of
        OpApply \<Rightarrow>
          (case ds_Write ds s (cc_Key c) (cc_Value c) of
             (None, s') \<Rightarrow> applyCommitChanges ds cs s'
           | (Some e, s') \<Rightarrow> (Some e, s'))
      | OpDelete \<Rightarrow>
          (case ds_Delete ds s (cc_Key c) of
             (None, s') \<Rightarrow> applyCommitChanges ds cs s'
           | (Some e, s') \<Rightarrow> (Some e, s'))
      | OpOther n \<Rightarrow> (Some (''unknown operation type '' @ itoa n @ '' for key '' @ cc_Key c), s))"

definition adminID :: string where
  "adminID = ''00000000-0000-0000-0000-000000000000''"

definition admin_user :: "string \<Rightarrow> user" where
  "admin_user enc = \<lparr>u_Username = AdminUsername, u_UserID = adminID, u_SecretKey = enc, u_UserRole = AdminUserRole,
     u_Status = StatusActive, u_IsAdmin = True\<rparr>"

text \<open>There is no token: any caller gets here. The answer to a second call carries the stored key.\<close>

definition create_admin ::
  "enc_state \<Rightarrow> string go \<Rightarrow> 's data_store \<Rightarrow> cb_args \<Rightarrow> string \<Rightarrow> 's \<Rightarrow> encoded go \<times> 's" where
  "create_admin es nonce ds cb secretKey s =
     (case checkUserExistsByID ds s cb adminID of
        Panic \<Rightarrow> (Panic, s)
      | Fail err \<Rightarrow> (Fail (''datastore lookup failed: '' @ err), s)
      | Ret (Some ex) \<Rightarrow>
          (EncodeResponse (A_UserResp ((user_answer ex
              (case DecryptSecretKey es (u_SecretKey ex) of Ret p \<Rightarrow> p | _ \<Rightarrow> []))
            \<lparr>ur_Error := ''admin user already exists''\<rparr>)), s)
      | Ret None \<Rightarrow>
          (case EncryptSecretKey es nonce secretKey of
             Panic \<Rightarrow> (Panic, s)
           | Fail err \<Rightarrow> (Fail (''failed to encrypt secret key: '' @ err), s)
           | Ret enc \<Rightarrow>
               (case applyCommitChanges ds (SerializeUser (admin_user enc)) s of
                  (Some err, s1) \<Rightarrow> (Fail (''failed to persist admin user: '' @ err), s1)
                | (None, s1) \<Rightarrow> (EncodeResponse (A_UserResp (user_answer (admin_user enc) secretKey)), s1))))"

definition CreateAdminUser ::
  "enc_state \<Rightarrow> string go \<Rightarrow> 's data_store \<Rightarrow> arg list \<Rightarrow> 's \<Rightarrow> encoded go \<times> 's" where
  "CreateAdminUser es nonce ds args s =
     (if length args < 2 then (Fail ''missing arguments: expected UserReq and PmdbCbArgs'', s)
      else case (map_option rq_Payload (as_CPReq (args ! 0)), as_CbArgs (args ! 1)) of
        (Some (A_UserReq req), Some cb) \<Rightarrow>
          (let username = trim_space (uq_Username req) in
           if username = [] then (FuncError ''username cannot be empty'', s)
           else if username \<noteq> AdminUsername
           then (FuncError (''unauthorized: username must be '' @ quote AdminUsername), s)
           else create_admin es nonce ds cb
             (if uq_NewSecretKey req = [] then defaultAdminSecretKey else uq_NewSecretKey req) s)
      | _ \<Rightarrow> (Fail ''type assertion failed: invalid argument types'', s))"

subsection \<open>Login\<close>

abbreviation defaultTokenTTL :: int where "defaultTokenTTL \<equiv> 15 * 60 * 10 ^ 9"

definition login_claims :: "user \<Rightarrow> claims" where
  "login_claims u = [(''userID'', CStr (u_UserID u)), (''username'', CStr (u_Username u)),
     (''role'', CStr (u_UserRole u)), (''isAdmin'', CBool (u_IsAdmin u))]"

definition login_answer :: "user \<Rightarrow> string \<Rightarrow> login_resp" where
  "login_answer u tok = \<lparr>lr_AccessToken = tok, lr_TokenType = ''Bearer'', lr_UserID = u_UserID u,
     lr_Username = u_Username u, lr_UserRole = u_UserRole u, lr_Error = [], lr_ExpiresIn = 900,
     lr_IsAdmin = u_IsAdmin u, lr_Success = True\<rparr>"

text \<open>The user behind the credentials, by the index.\<close>

definition login_user :: "'s data_store \<Rightarrow> 's \<Rightarrow> cb_args \<Rightarrow> string \<Rightarrow> user option go" where
  "login_user ds s cb username =
     (case getUserIDByUsername ds s cb username of
        Panic \<Rightarrow> Panic
      | Fail err \<Rightarrow> Ret None
      | Ret uid \<Rightarrow>
          if uid = [] then Ret None
          else (case checkUserExistsByID ds s cb uid of
                  Panic \<Rightarrow> Panic
                | Fail err \<Rightarrow> Ret None
                | Ret u \<Rightarrow> Ret u))"

definition login_check :: "env \<Rightarrow> enc_state \<Rightarrow> gotime \<Rightarrow> user \<Rightarrow> string \<Rightarrow> encoded go" where
  "login_check env es now u secretKey =
     (if u_Status u \<noteq> StatusActive then FuncError ''account not available''
      else case DecryptSecretKey es (u_SecretKey u) of
        Panic \<Rightarrow> Panic
      | Fail err \<Rightarrow> InternalError ''internal error''
      | Ret storedKey \<Rightarrow>
          if storedKey \<noteq> secretKey then FuncError ''invalid credentials''
          else (case CreateToken env now \<lparr>tk_Secret = CP_SECRET, tk_TTL = defaultTokenTTL\<rparr> (login_claims u) of
                  Panic \<Rightarrow> Panic
                | Fail err \<Rightarrow> InternalError ''failed to generate token''
                | Ret tok \<Rightarrow> EncodeResponse (A_LoginResp (login_answer u tok))))"

definition Login :: "env \<Rightarrow> enc_state \<Rightarrow> gotime \<Rightarrow> 's data_store \<Rightarrow> arg list \<Rightarrow> 's \<Rightarrow> encoded go" where
  "Login env es now ds args s =
     rd_args args (\<lambda>cb rq. go_bind (must (as_GetReq (rq_Payload rq))) (\<lambda>req.
       case split (CHR '':'') (g_ID req) of
         [username, secretKey] \<Rightarrow>
           if trim_space username = [] then FuncError ''username cannot be empty''
           else if trim_space secretKey = [] then FuncError ''secretKey cannot be empty''
           else (case login_user ds s cb username of
                   Panic \<Rightarrow> Panic
                 | Fail err \<Rightarrow> Fail err
                 | Ret None \<Rightarrow> FuncError ''invalid credentials''
                 | Ret (Some u) \<Rightarrow> login_check env es now u secretKey)
       | _ \<Rightarrow> FuncError ''username:secretKey missing''))"

end
