(* ===== verification/PmdbServer.thy ===== *)
theory PmdbServer
  imports Handlers UserServer
begin

section \<open>The server process: pmdbServer\<close>

text \<open>
  \<open>pmdbServer.go\<close>: which handler answers which request (the calls of \<open>RegisterWritePrepFunc\<close>,
  \<open>RegisterApplyFunc\<close> and \<open>RegisterReadFunc\<close> in \<open>main\<close>), the construction of the hierarchy at the start, the
  callbacks \<open>Apply\<close> and \<open>Read\<close>, and the helpers that read the configuration files. How PumiceDB calls the
  registered functions is not part of the repository; what the handlers themselves show of it is that a
  write preparation gets the request and the callback arguments, a named apply handler the same, and
  the handler registered under \<open>*\<close> the callback arguments alone. \<open>server_step\<close> puts no order between
  preparing and applying but that of the log.
\<close>

subsection \<open>Names of the requests\<close>

abbreviation PUT_DEVICE :: string where "PUT_DEVICE \<equiv> ''PutDevice''"
abbreviation GET_DEVICE :: string where "GET_DEVICE \<equiv> ''GetDevice''"
abbreviation PUT_NISD :: string where "PUT_NISD \<equiv> ''PutNisd''"
abbreviation GET_NISD :: string where "GET_NISD \<equiv> ''GetNisd''"
abbreviation GET_NISD_LIST :: string where "GET_NISD_LIST \<equiv> ''GetAllNisd''"
abbreviation CREATE_VDEV :: string where "CREATE_VDEV \<equiv> ''CreateVdev''"
abbreviation DELETE_VDEV :: string where "DELETE_VDEV \<equiv> ''DeleteVdev''"
abbreviation GET_VDEV_CHUNK_INFO :: string where "GET_VDEV_CHUNK_INFO \<equiv> ''GetVdevsWithChunkInfo''"
abbreviation CREATE_SNAP :: string where "CREATE_SNAP \<equiv> ''CreateSnap''"
abbreviation READ_SNAP_NAME :: string where "READ_SNAP_NAME \<equiv> ''ReadSnapByName''"
abbreviation READ_SNAP_VDEV :: string where "READ_SNAP_VDEV \<equiv> ''ReadSnapForVdev''"
abbreviation PUT_PDU :: string where "PUT_PDU \<equiv> ''PutPDU''"
abbreviation GET_PDU :: string where "GET_PDU \<equiv> ''GetPDU''"
abbreviation GET_RACK :: string where "GET_RACK \<equiv> ''GetRack''"
abbreviation PUT_RACK :: string where "PUT_RACK \<equiv> ''PutRack''"
abbreviation GET_HYPERVISOR :: string where "GET_HYPERVISOR \<equiv> ''GetHypervisor''"
abbreviation PUT_HYPERVISOR :: string where "PUT_HYPERVISOR \<equiv> ''PutHypervisor''"
abbreviation PUT_PARTITION :: string where "PUT_PARTITION \<equiv> ''PutPartition''"
abbreviation GET_PARTITION :: string where "GET_PARTITION \<equiv> ''GetPartition''"
abbreviation PUT_PFS :: string where "PUT_PFS \<equiv> ''PutPFS''"
abbreviation GET_PFS :: string where "GET_PFS \<equiv> ''GetPFS''"
abbreviation PUT_NISD_ARGS :: string where "PUT_NISD_ARGS \<equiv> ''PutNisdArgs''"
abbreviation GET_NISD_ARGS :: string where "GET_NISD_ARGS \<equiv> ''GetNisdArgs''"
abbreviation MOUNT_VDEV :: string where "MOUNT_VDEV \<equiv> ''mount_vdev''"
abbreviation GET_CHUNK :: string where "GET_CHUNK \<equiv> ''get_chunk''"
abbreviation GET_VDEV_INFO :: string where "GET_VDEV_INFO \<equiv> ''get_vdev_info''"
abbreviation GET_ALL_VDEV :: string where "GET_ALL_VDEV \<equiv> ''get_all_vdev''"
abbreviation GET_CHUNK_NISD :: string where "GET_CHUNK_NISD \<equiv> ''get_chunk_nisd''"
abbreviation GET_NISD_AVAILABLE_SIZES :: string where "GET_NISD_AVAILABLE_SIZES \<equiv> ''GetNisdAvailableSizes''"
abbreviation GET_ALL_RESOURCES :: string where "GET_ALL_RESOURCES \<equiv> ''GetAllResources''"
abbreviation PutUserAPI :: string where "PutUserAPI \<equiv> ''PutUser''"
abbreviation GetUserAPI :: string where "GetUserAPI \<equiv> ''GetUser''"
abbreviation AdminUserAPI :: string where "AdminUserAPI \<equiv> ''CreateAdminUser''"
abbreviation LoginAPI :: string where "LoginAPI \<equiv> ''Login''"

subsection \<open>The handlers\<close>

text \<open>
  What a server process has (\<open>sv_\<close>): the trees, the store, the tokens, the cipher and the decoder's
  error. What is new for every call (\<open>in_\<close>): random values, clock readings, the address a NISD gets.
\<close>

record ('te, 'td, 'tm, 's) server_cfg =
  sv_EO :: "('te, 'td entities) btree"
  sv_DO :: "('td, device_alloc) btree"
  sv_MO :: "('tm, nisd_vdev_alloc) btree"
  sv_ds :: "'s data_store"
  sv_env :: env
  sv_enc :: enc_state
  sv_gob :: "string \<Rightarrow> string"

record inputs =
  in_uuid :: "string go"
  in_rand_key :: "string go"
  in_nonce :: "string go"
  in_n :: nat
  in_rnd :: "nat \<Rightarrow> nat"
  in_now :: gotime
  in_clock :: gotime
  in_addr :: addr

type_synonym 's prep_fn = "inputs \<Rightarrow> arg list \<Rightarrow> 's \<Rightarrow> encoded go"
type_synonym ('te, 's) apply_fn = "inputs \<Rightarrow> arg list \<Rightarrow> 's \<times> 'te hier \<Rightarrow> (encoded go \<times> 's \<times> 'te hier) option"
type_synonym 's read_fn = "inputs \<Rightarrow> arg list \<Rightarrow> 's \<Rightarrow> encoded go option"

definition write_prep_funcs :: "('te, 'td, 'tm, 's) server_cfg \<Rightarrow> (string \<times> 's prep_fn) list" where
  "write_prep_funcs c =
     [(PUT_NISD, \<lambda>i args s. WPNisdCfg (sv_env c) args),
      (PUT_DEVICE, \<lambda>i args s. WPDeviceInfo (sv_env c) args),
      (PUT_PDU, \<lambda>i args s. WPPDUCfg (sv_env c) args),
      (PUT_PFS, \<lambda>i args s. WPPFSCfg (sv_env c) (in_uuid i) (in_n i) args),
      (PUT_RACK, \<lambda>i args s. WPRackCfg (sv_env c) args),
      (PUT_HYPERVISOR, \<lambda>i args s. WPHyperVisorCfg (sv_env c) args),
      (CREATE_SNAP, \<lambda>i args s. WritePrepCreateSnap args),
      (PUT_PARTITION, \<lambda>i args s. WPCreatePartition (sv_env c) args),
      (PUT_NISD_ARGS, \<lambda>i args s. WPNisdArgs (sv_env c) args),
      (PutUserAPI, \<lambda>i args s. PutUser (sv_env c) (sv_enc c) (in_uuid i) (in_rand_key i) (in_nonce i) (sv_ds c) args s),
      (CREATE_VDEV, \<lambda>i args s. WPCreateVdev (sv_env c) (in_uuid i) args),
      (MOUNT_VDEV, \<lambda>i args s. WPMountVdev (sv_env c) (in_now i) args)]"

text \<open>A handler that leaves the hierarchy alone.\<close>

definition on_store :: "('s \<Rightarrow> encoded go \<times> 's) \<Rightarrow> 's \<times> 'te hier \<Rightarrow> (encoded go \<times> 's \<times> 'te hier) option" where
  "on_store f st = (case f (fst st) of (r, s1) \<Rightarrow> Some (r, s1, snd st))"

definition apply_funcs :: "('te, 'td, 'tm, 's) server_cfg \<Rightarrow> (string \<times> ('te, 's) apply_fn) list" where
  "apply_funcs c =
     [(DELETE_VDEV, \<lambda>i args. APDeleteVdev (sv_EO c) (sv_DO c) (sv_env c) (sv_ds c) args),
      (AdminUserAPI, \<lambda>i args. on_store (CreateAdminUser (sv_enc c) (in_nonce i) (sv_ds c) args)),
      (CREATE_VDEV, \<lambda>i args. APCreateVdev (sv_EO c) (sv_DO c) (sv_MO c) (sv_ds c) (in_rnd i) args),
      (''*'', \<lambda>i args. on_store (ApplyFunc (sv_ds c) args)),
      (PUT_NISD, \<lambda>i args st. Some (ApplyNisd (sv_EO c) (sv_DO c) (sv_env c) (sv_ds c) (in_addr i) args st)),
      (MOUNT_VDEV, \<lambda>i args. on_store (APMountVdev (sv_env c) (sv_gob c) (in_clock i) (sv_ds c) args))]"

definition read_funcs :: "('te, 'td, 'tm, 's) server_cfg \<Rightarrow> (string \<times> 's read_fn) list" where
  "read_funcs c =
     [(GET_NISD_LIST, \<lambda>i args s. Some (ReadAllNisdConfigs (sv_env c) (sv_ds c) args s)),
      (GET_NISD, \<lambda>i args s. Some (ReadNisdConfig (sv_env c) (sv_ds c) args s)),
      (GET_DEVICE, \<lambda>i args s. Some (RdDeviceInfo (sv_env c) (sv_ds c) args s)),
      (GET_PDU, \<lambda>i args s. Some (ReadPDUCfg (sv_env c) (sv_ds c) args s)),
      (GET_PFS, \<lambda>i args s. Some (ReadPFSCfg (sv_env c) (sv_ds c) args s)),
      (GET_RACK, \<lambda>i args s. Some (ReadRackCfg (sv_env c) (sv_ds c) args s)),
      (GET_HYPERVISOR, \<lambda>i args s. Some (ReadHyperVisorCfg (sv_env c) (sv_ds c) args s)),
      (READ_SNAP_NAME, \<lambda>i args s. Some (ReadSnapByName (sv_ds c) args s)),
      (READ_SNAP_VDEV, \<lambda>i args s. Some (ReadSnapForVdev (sv_ds c) args s)),
      (GET_PARTITION, \<lambda>i args s. Some (ReadPartition (sv_env c) (sv_ds c) args s)),
      (GET_VDEV_CHUNK_INFO, \<lambda>i args s. Some (ReadVdevsInfoWithChunkMapping (sv_env c) (sv_ds c) args s)),
      (GET_NISD_ARGS, \<lambda>i args s. Some (RdNisdArgs (sv_env c) (sv_ds c) args s)),
      (GET_VDEV_INFO, \<lambda>i args s. Some (ReadVdevInfo (sv_env c) (sv_ds c) args s)),
      (GET_ALL_VDEV, \<lambda>i args s. Some (ReadAllVdevInfo (sv_env c) (sv_ds c) args s)),
      (GET_CHUNK, \<lambda>i args s. Some (ReadChunk (sv_env c) (sv_ds c) args s)),
      (GET_CHUNK_NISD, \<lambda>i args s. ReadChunkNisd (sv_env c) (sv_ds c) args s),
      (GET_NISD_AVAILABLE_SIZES, \<lambda>i args s. Some (ReadAllNisdConfigs (sv_env c) (sv_ds c) args s)),
      (GET_ALL_RESOURCES, \<lambda>i args s. Some (ReadAllResources (sv_env c) (sv_ds c) args s)),
      (GetUserAPI, \<lambda>i args s. Some (GetUser (sv_env c) (sv_enc c) (sv_ds c) args s)),
      (LoginAPI, \<lambda>i args s. Some (Login (sv_env c) (sv_enc c) (in_clock i) (sv_ds c) args s))]"

subsection \<open>A replica and its log\<close>

text \<open>
  A write request is prepared against the state of the leader (its result, the application data, goes to
  the log) and applied later, in the order of the log. Requests without a preparation enter the log
  with application data that do not decode.
\<close>

type_synonym proposal = "string \<times> cp_req \<times> (string + func_intrm)"

record ('te, 's) server =
  sr_store :: 's
  sr_hier :: "'te hier"
  sr_log :: "proposal list"

definition apply_request ::
  "('te, 'td, 'tm, 's) server_cfg \<Rightarrow> inputs \<Rightarrow> int \<Rightarrow> proposal \<Rightarrow> 's \<times> 'te hier \<Rightarrow> (encoded go \<times> 's \<times> 'te hier) option" where
  "apply_request c i bufsz p st =
     (case p of (name, rq, app) \<Rightarrow>
        let cb = ArgCbArgs \<lparr>cb_AppData = app, cb_ReplySize = bufsz\<rparr>
        in (case map_of (apply_funcs c) name of
              Some h \<Rightarrow> h i [ArgCPReq rq, cb] st
            | None \<Rightarrow> the (map_of (apply_funcs c) ''*'') i [cb] st))"

inductive server_step ::
  "('te, 'td, 'tm, 's) server_cfg \<Rightarrow> ('te, 's) server \<Rightarrow> ('te, 's) server \<Rightarrow> bool"
  for c :: "('te, 'td, 'tm, 's) server_cfg"
where
  prepare: "map_of (write_prep_funcs c) name = Some h \<Longrightarrow>
     h i [ArgCPReq rq, ArgCbArgs \<lparr>cb_AppData = Inl e, cb_ReplySize = bufsz\<rparr>] (sr_store st) = Ret (EncIntrm f) \<Longrightarrow>
     server_step c st (st\<lparr>sr_log := sr_log st @ [(name, rq, Inr f)]\<rparr>)"
| submit: "map_of (write_prep_funcs c) name = None \<Longrightarrow>
     server_step c st (st\<lparr>sr_log := sr_log st @ [(name, rq, Inl e)]\<rparr>)"
| apply_next: "sr_log st = p # log \<Longrightarrow>
     apply_request c i bufsz p (sr_store st, sr_hier st) = Some (r, s', hs') \<Longrightarrow>
     server_step c st \<lparr>sr_store = s', sr_hier = hs', sr_log = log\<rparr>"

subsection \<open>PopulateHierarchy\<close>

text \<open>\<open>filepath.Dir\<close>.\<close>

definition filepath_Dir :: "string \<Rightarrow> string" where
  "filepath_Dir p = path_Clean (rev (dropWhile (\<lambda>c. c \<noteq> CHR ''/'') (rev p)))"

abbreviation MAX_REPLY_SIZE :: int where "MAX_REPLY_SIZE \<equiv> 4 * 1024 * 1024"

text \<open>The pages of the NISD keys; the loop ends when the store gives no last key.\<close>

partial_function (option) nisd_pages ::
  "'s data_store \<Rightarrow> 's \<Rightarrow> string \<Rightarrow> string \<Rightarrow> (string \<times> string) list list \<Rightarrow> (string + (string \<times> string) list list) option" where
  "nisd_pages ds s key prefix acc =
     (case ds_RangeRead ds s \<lparr>ra_Key = key, ra_Prefix = prefix, ra_BufSize = MAX_REPLY_SIZE,
             ra_Consistent = False, ra_SeqNum = 0\<rparr> of
        Inl err \<Rightarrow> Some (Inl err)
      | Inr r \<Rightarrow>
          if rr_LastKey r = [] then Some (Inr (acc @ [rr_ResultMap r]))
          else nisd_pages ds s (rr_LastKey r) (filepath_Dir (rr_LastKey r)) (acc @ [rr_ResultMap r]))"

text \<open>The list of NISDs is in memory from \<open>base\<close> on; the first that is refused ends the loop.\<close>

fun add_nisds ::
  "('te, 'td entities) btree \<Rightarrow> ('td, device_alloc) btree \<Rightarrow> addr \<Rightarrow> nisd list \<Rightarrow> 'te hier \<Rightarrow> string option \<times> 'te hier" where
  "add_nisds EO DO base [] hs = (None, hs)"
| "add_nisds EO DO base (n # ns) hs =
     (case AddNisd EO DO base (hs\<lparr>hs_Mem := (hs_Mem hs)(base := n)\<rparr>) of
        (Some err, hs1) \<Rightarrow> (Some err, hs1)
      | (None, hs1) \<Rightarrow> add_nisds EO DO (base + 1) ns hs1)"

definition PopulateHierarchy ::
  "('te, 'td entities) btree \<Rightarrow> ('td, device_alloc) btree \<Rightarrow> 's data_store \<Rightarrow> 's \<Rightarrow> addr \<Rightarrow> 'te hier
   \<Rightarrow> (string option \<times> 'te hier) go option" where
  "PopulateHierarchy EO DO ds s base hs =
     (case nisd_pages ds s NisdCfgKey NisdCfgKey [] of
        None \<Rightarrow> None
      | Some (Inl err) \<Rightarrow> Some (Ret (Some err, hs))
      | Some (Inr pages) \<Rightarrow>
          Some (go_bind (ParseEntitiesRR pages NisdParser BASE_UUID_PREFIX) (\<lambda>nisdList.
            Ret (add_nisds EO DO base nisdList hs))))"

text \<open>The state when \<open>main\<close> has set up the hierarchy; an error is only logged.\<close>

definition start_hierarchy ::
  "('te, 'td entities) btree \<Rightarrow> ('td, device_alloc) btree \<Rightarrow> 's data_store \<Rightarrow> 's \<Rightarrow> addr \<Rightarrow> 'te hier \<Rightarrow> 'te hier go option" where
  "start_hierarchy EO DO ds s base hs =
     map_option (\<lambda>r. go_bind r (\<lambda>(err, hs1). Ret hs1)) (PopulateHierarchy EO DO ds s base (HR_Init EO hs))"

end
