(* ===== verification/RestTypes.thy ===== *)
theory RestTypes
  imports CPLib
begin

section \<open>The REST wire contract: restapi\<close>

text \<open>
  The request and payload structs of \<open>restapi/*.go\<close>, the status codes and the response writers of
  \<open>response.go\<close>. A response is its HTTP status and the value that is handed to the JSON encoder; the
  encoder, which cannot fail on these structs, is left out. A Go \<open>int\<close> that is only stored is an
  \<open>int\<close>; the conversions to a smaller width are written where the code makes them.
\<close>

subsection \<open>Infrastructure\<close>

record rest_net = rn_ip_addr :: string rn_port :: int

record nisd_node =
  nn_id :: string
  nn_peer_port :: int
  nn_total_size :: int64
  nn_available_size :: int64
  nn_socket_path :: string
  nn_net_info :: "rest_net list"

record device_node =
  dn_id :: string
  dn_name :: string
  dn_device_path :: string
  dn_serial_number :: string
  dn_state :: int
  dn_size :: int64
  dn_failure_domain :: string
  dn_nisds :: "nisd_node list"

record hypervisor_node =
  hn_id :: string
  hn_name :: string
  hn_port_range :: string
  hn_ssh_port :: string
  hn_rdma_enabled :: bool
  hn_ip_addrs :: "string list"
  hn_devices :: "device_node list"

record rack_node =
  kn_id :: string
  kn_name :: string
  kn_location :: string
  kn_specification :: string
  kn_hypervisors :: "hypervisor_node list"

record pdu_node =
  pn_id :: string
  pn_name :: string
  pn_location :: string
  pn_specification :: string
  pn_power_cap :: string
  pn_racks :: "rack_node list"

record rest_pdu =
  rp_id :: string
  rp_name :: string
  rp_location :: string
  rp_specification :: string
  rp_power_cap :: string

record rest_rack =
  rr_id :: string
  rr_pdu_id :: string
  rr_name :: string
  rr_location :: string
  rr_specification :: string

record rest_hypervisor =
  rh_id :: string
  rh_rack_id :: string
  rh_name :: string
  rh_port_range :: string
  rh_ssh_port :: string
  rh_rdma_enabled :: bool
  rh_ip_addrs :: "string list"

record rest_device =
  rd_id :: string
  rd_hypervisor_id :: string
  rd_name :: string
  rd_device_path :: string
  rd_serial_number :: string
  rd_state :: int
  rd_size :: int64
  rd_failure_domain :: string

record rest_nisd =
  rs_id :: string
  rs_peer_port :: int
  rs_failure_domain :: "string list"
  rs_total_size :: int64
  rs_available_size :: int64
  rs_socket_path :: string
  rs_net_info :: "rest_net list"

record rest_pfs = rf_id :: string rf_name :: string rf_offset :: int rf_vdev_ids :: "string list"

record rest_partition =
  ra_partition_id :: string
  ra_partition_path :: string
  ra_nisd_uuid :: string
  ra_dev_id :: string
  ra_size :: int64

record rest_nisd_args =
  rg_defrag :: bool
  rg_allow_defrag_mcib_cache :: bool
  rg_mbc_cnt :: int
  rg_merge_h_cnt :: int
  rg_mcib_read_cache :: int
  rg_s3 :: string
  rg_dsync :: string

subsection \<open>Vdevs\<close>

record create_vdev_request =
  cv_size_bytes :: int64
  cv_data_blk_cnt :: int
  cv_parity_blk_cnt :: int
  cv_redundancy :: int
  cv_failure_domain :: string
  cv_entity_ids :: "string list"
  cv_pfs :: string
  cv_name :: string

record create_vdev_payload =
  cvp_vdev_id :: string
  cvp_name :: string
  cvp_num_chunks :: int
  cvp_failure_domain :: string
  cvp_pfs_id :: string

record get_vdev_payload =
  gv_id :: string
  gv_name :: string
  gv_size :: int64
  gv_num_chunks :: int
  gv_num_replicas :: int
  gv_failure_domain :: string

record get_nisd_payload = gn_id :: string gn_peer_port :: int gn_net_info :: "rest_net list"
record get_chunk_payload = gc_vdev_id :: string gc_chunk_idx :: int gc_nisd_ids :: "string list"
record write_payload = wp_id :: string wp_message :: string
record create_snap_request = cs_vdev_id :: string cs_snap_name :: string cs_chunk_seq :: "uint64 list"

record mount_vdev_payload =
  mv_id :: string
  mv_name :: string
  mv_size :: int64
  mv_num_chunks :: int
  mv_num_replica :: int
  mv_mount_counter :: uint64
  mv_last_updated_lts :: gotime
  mv_pfs_id :: string
  mv_access_token :: string
  mv_data_blk_cnt :: uint8
  mv_parity_blk_cnt :: uint8

subsection \<open>Users\<close>

record login_request = lq_username :: string lq_password :: string lq_tenant_uuid :: string

record login_payload =
  lp_access_token :: string
  lp_token_type :: string
  lp_expires_in :: int
  lp_user_id :: string
  lp_username :: string
  lp_role :: string
  lp_is_admin :: bool

record create_admin_user_request = ca_username :: string ca_secret_key :: string
record create_user_request = cu_username :: string cu_role :: string
record user_data = ud_id :: string ud_username :: string ud_role :: string ud_status :: int
record user_payload = up_user_data :: user_data up_secret_key :: string
record update_user_request = uu_username :: string uu_new_secret_key :: string

subsection \<open>Status codes\<close>

text \<open>\<open>Status\<close> is an \<open>int\<close> with these constants.\<close>

type_synonym rest_status = int

abbreviation (input) StatusOK :: rest_status where "StatusOK \<equiv> 0"
abbreviation (input) StatusFailure :: rest_status where "StatusFailure \<equiv> 1"
abbreviation (input) StatusInvalidRequest :: rest_status where "StatusInvalidRequest \<equiv> 100"
abbreviation (input) StatusUnsupportedResource :: rest_status where "StatusUnsupportedResource \<equiv> 101"
abbreviation (input) StatusMethodNotAllowed :: rest_status where "StatusMethodNotAllowed \<equiv> 102"
abbreviation (input) StatusUnauthorized :: rest_status where "StatusUnauthorized \<equiv> 200"
abbreviation (input) StatusForbidden :: rest_status where "StatusForbidden \<equiv> 201"
abbreviation (input) StatusNotFound :: rest_status where "StatusNotFound \<equiv> 300"
abbreviation (input) StatusConflict :: rest_status where "StatusConflict \<equiv> 301"
abbreviation (input) StatusInfraAlreadyExists :: rest_status where "StatusInfraAlreadyExists \<equiv> 302"
abbreviation (input) StatusMountCooldown :: rest_status where "StatusMountCooldown \<equiv> 303"
abbreviation (input) StatusCapacityRace :: rest_status where "StatusCapacityRace \<equiv> 400"
abbreviation (input) StatusInsufficientCapacity :: rest_status where "StatusInsufficientCapacity \<equiv> 401"
abbreviation (input) StatusInternalError :: rest_status where "StatusInternalError \<equiv> 500"
abbreviation (input) StatusUnavailable :: rest_status where "StatusUnavailable \<equiv> 501"

definition httpStatus :: "rest_status \<Rightarrow> int" where
  "httpStatus s =
     (if s = StatusOK then 200
      else if s = StatusFailure then 400
      else if s = StatusInvalidRequest then 400
      else if s = StatusUnsupportedResource then 400
      else if s = StatusMethodNotAllowed then 405
      else if s = StatusUnauthorized then 401
      else if s = StatusForbidden then 403
      else if s = StatusNotFound then 404
      else if s = StatusConflict then 409
      else if s = StatusInfraAlreadyExists then 409
      else if s = StatusMountCooldown then 429
      else if s = StatusCapacityRace then 409
      else if s = StatusInsufficientCapacity then 507
      else if s = StatusInternalError then 500
      else if s = StatusUnavailable then 503
      else 500)"

subsection \<open>Responses\<close>

text \<open>An element of \<open>resources\<close>, raw JSON in the code, is the struct it was encoded from.\<close>

datatype resource =
    R_PDU rest_pdu
  | R_Rack rest_rack
  | R_Hypervisor rest_hypervisor
  | R_Device rest_device
  | R_Nisd rest_nisd
  | R_Partition rest_partition
  | R_Vdev get_vdev_payload

datatype payload =
    P_Write write_payload
  | P_CreateVdev create_vdev_payload
  | P_GetVdev get_vdev_payload
  | P_GetNisd get_nisd_payload
  | P_GetChunk get_chunk_payload
  | P_CreateSnap string
  | P_MountVdev mount_vdev_payload
  | P_GetResource string "resource list"
  | P_GetPFS "rest_pfs list"
  | P_GetNisdArgs rest_nisd_args
  | P_GetInfra "pdu_node list"
  | P_Login login_payload
  | P_User user_payload
  | P_Users "user_data list"

text \<open>\<open>ErrorResponse\<close>, \<open>APIResponse[T]\<close>, and the plain text of the router.\<close>

datatype rest_body = ErrorBody rest_status string | DataBody payload | TextBody string

record http_resp = rw_code :: int rw_body :: rest_body

definition WriteDataStatus :: "int \<Rightarrow> payload \<Rightarrow> http_resp" where
  "WriteDataStatus code p = \<lparr>rw_code = code, rw_body = DataBody p\<rparr>"

definition WriteData :: "payload \<Rightarrow> http_resp" where
  "WriteData p = WriteDataStatus 200 p"

definition WriteMethodError :: "rest_status \<Rightarrow> string \<Rightarrow> http_resp" where
  "WriteMethodError code msg = \<lparr>rw_code = 200, rw_body = ErrorBody code msg\<rparr>"

definition WriteError :: "rest_status \<Rightarrow> string \<Rightarrow> http_resp" where
  "WriteError code msg = \<lparr>rw_code = httpStatus code, rw_body = ErrorBody code msg\<rparr>"

end
