(* ===== verification/Proxy.thy ===== *)
theory Proxy
  imports PmdbServer RestTypes
begin

section \<open>The REST front end: proxy\<close>

text \<open>
  \<open>restapi.go\<close>, \<open>restapi_reads.go\<close>, \<open>restapi_writes.go\<close>, \<open>restapi_resource.go\<close> and \<open>restapi_user.go\<close>: the HTTP
  handlers, the route table and \<open>callFunc\<close>, which sends a request to PMDB and decodes the reply. A
  handler maps a request and the state \<open>'s\<close> of what lies behind the PMDB client to a response and the
  new state. The PMDB client is a parameter; its reply is what the bytes decode to. The JSON decoder
  of the request bodies, \<open>uuid.Validate\<close> and \<open>strconv.Quote\<close> are parameters as well.
\<close>

subsection \<open>Requests to PMDB\<close>

datatype req_type = FUNC_REQ | LEASE_REQ | APP_REQ

text \<open>The bytes of a request: an encoded \<open>FuncReq\<close>, or bytes that are passed through.\<close>

datatype pmdb_request = FuncReq string cp_req | RawReq string

record pmdb_req =
  pq_Rncui :: string
  pq_Request :: pmdb_request
  pq_ReqType :: req_type
  pq_GetReply :: int
  pq_WriteSeqNum :: int

text \<open>Reply bytes: none, bytes that are no \<open>CPResp\<close> (with the decoder's error), or a \<open>CPResp\<close>.\<close>

datatype reply = NoBytes | Undecodable string | Reply cp_resp

text \<open>\<open>Put\<close> and \<open>Get\<close> return an error and the reply pointer, \<open>None\<close> for nil.\<close>

record 's pmdb_client =
  pc_Put :: "pmdb_req \<Rightarrow> 's \<Rightarrow> (string option \<times> reply option) \<times> 's"
  pc_Get :: "pmdb_req \<Rightarrow> 's \<Rightarrow> (string option \<times> reply option) \<times> 's"

type_synonym 's send_fn = "string \<Rightarrow> cp_req \<Rightarrow> bool \<Rightarrow> string \<Rightarrow> int \<Rightarrow> 's \<Rightarrow> (string + reply) \<times> 's"

text \<open>What \<open>json.Decode\<close> makes of a request body, for each type of body.\<close>

record json_codec =
  js_CreateVdev :: "string \<Rightarrow> string + create_vdev_request"
  js_PDU :: "string \<Rightarrow> string + rest_pdu"
  js_Rack :: "string \<Rightarrow> string + rest_rack"
  js_Hypervisor :: "string \<Rightarrow> string + rest_hypervisor"
  js_Device :: "string \<Rightarrow> string + rest_device"
  js_NISD :: "string \<Rightarrow> string + rest_nisd"
  js_Partition :: "string \<Rightarrow> string + rest_partition"
  js_PFS :: "string \<Rightarrow> string + rest_pfs"
  js_NisdArgs :: "string \<Rightarrow> string + rest_nisd_args"
  js_CreateSnap :: "string \<Rightarrow> string + create_snap_request"
  js_MountVdev :: "string \<Rightarrow> string + string"
  js_Login :: "string \<Rightarrow> string + login_request"
  js_CreateUser :: "string \<Rightarrow> string + create_user_request"
  js_CreateAdminUser :: "string \<Rightarrow> string + create_admin_user_request"
  js_UpdateUser :: "string \<Rightarrow> string + update_user_request"

text \<open>The fields of \<open>proxyHandler\<close> that the handlers use, and the parameters.\<close>

record 's proxy =
  px_pmdbClientObj :: "'s pmdb_client"
  px_sendFuncReqFn :: "'s send_fn option"
  px_json :: json_codec
  px_uuid_ok :: "string \<Rightarrow> bool"
  px_quote :: "string \<Rightarrow> string"

text \<open>
  An HTTP request. \<open>hq_Segs\<close> are the segments of the path, cleaned and unescaped; a header, a query
  parameter or a path variable that is missing is empty.
\<close>

record http_req =
  hq_Method :: string
  hq_Segs :: "string list"
  hq_Header :: "string \<Rightarrow> string"
  hq_Query :: "string \<Rightarrow> string"
  hq_PathValue :: "string \<Rightarrow> string"
  hq_Body :: string

type_synonym 's handler = "http_req \<Rightarrow> 's \<Rightarrow> http_resp \<times> 's"

subsection \<open>Headers\<close>

definition tokenFromRequest :: "http_req \<Rightarrow> string" where
  "tokenFromRequest r =
     (let auth = hq_Header r ''Authorization'' in
      if auth = [] then []
      else if length ''Bearer '' < length auth
              \<and> to_lower (take (length ''Bearer '') auth) = to_lower ''Bearer ''
        then drop (length ''Bearer '') auth
      else auth)"

abbreviation rncuiHeader :: string where "rncuiHeader \<equiv> ''X-RNCUI''"

definition rncuiFromRequest :: "http_req \<Rightarrow> string + string" where
  "rncuiFromRequest r =
     (let rncui = trim_space (hq_Header r rncuiHeader) in
      if rncui = [] then Inl (''missing required '' @ rncuiHeader @ '' header'') else Inr rncui)"

subsection \<open>Calls\<close>

definition sendFuncReq :: "'s pmdb_client \<Rightarrow> 's send_fn" where
  "sendFuncReq pc name cpReq isWrite rncui wsn s =
     (let q = \<lparr>pq_Rncui = [], pq_Request = FuncReq name cpReq, pq_ReqType = FUNC_REQ, pq_GetReply = 1,
               pq_WriteSeqNum = 0\<rparr>;
          ((err, rep), s1) = (if isWrite then pc_Put pc (q\<lparr>pq_Rncui := rncui, pq_WriteSeqNum := wsn\<rparr>) s
                              else pc_Get pc q s)
      in (case err of
            Some e \<Rightarrow> (Inl e, s1)
          | None \<Rightarrow>
              (case rep of
                 None \<Rightarrow> (Inl (''nil reply received from pmdb for '' @ name), s1)
               | Some b \<Rightarrow> (Inr b, s1))))"

text \<open>What \<open>%T\<close> prints for a payload.\<close>

fun go_type :: "any \<Rightarrow> string" where
  "go_type A_Nil = ''<nil>''"
| "go_type (A_Bytes _) = ''[]uint8''"
| "go_type (A_MountBytes _) = ''[]uint8''"
| "go_type (A_MountInfo _) = ''libctlplanefuncs.VdevMountInfo''"
| "go_type (A_ResponseXML _) = ''libctlplanefuncs.ResponseXML''"
| "go_type (A_SnapResponse _) = ''libctlplanefuncs.SnapResponseXML''"
| "go_type (A_SnapXML _) = ''libctlplanefuncs.SnapXML''"
| "go_type (A_Nisd _) = ''libctlplanefuncs.Nisd''"
| "go_type (A_Nisds _) = ''[]libctlplanefuncs.Nisd''"
| "go_type (A_NisdSizes _) = ''[]libctlplanefuncs.NisdListAvailSize''"
| "go_type (A_Device _) = ''libctlplanefuncs.Device''"
| "go_type (A_Devices _) = ''[]libctlplanefuncs.Device''"
| "go_type (A_Partition _) = ''libctlplanefuncs.DevicePartition''"
| "go_type (A_Partitions _) = ''[]libctlplanefuncs.DevicePartition''"
| "go_type (A_PDU _) = ''libctlplanefuncs.PDU''"
| "go_type (A_PDUs _) = ''[]libctlplanefuncs.PDU''"
| "go_type (A_Rack _) = ''libctlplanefuncs.Rack''"
| "go_type (A_Racks _) = ''[]libctlplanefuncs.Rack''"
| "go_type (A_Hypervisor _) = ''libctlplanefuncs.Hypervisor''"
| "go_type (A_Hypervisors _) = ''[]libctlplanefuncs.Hypervisor''"
| "go_type (A_NisdArgs _) = ''libctlplanefuncs.NisdArgs''"
| "go_type (A_Vdevs _) = ''[]libctlplanefuncs.Vdev''"
| "go_type (A_VdevConfig _) = ''libctlplanefuncs.VdevConfig''"
| "go_type (A_VdevConfigs _) = ''[]libctlplanefuncs.VdevConfig''"
| "go_type (A_Chunk _) = ''libctlplanefuncs.Chunk''"
| "go_type (A_Chunks _) = ''[]libctlplanefuncs.Chunk''"
| "go_type (A_ChunkNisd _) = ''libctlplanefuncs.ChunkNisd''"
| "go_type (A_PFS _) = ''libctlplanefuncs.PFS''"
| "go_type (A_PFSs _) = ''[]libctlplanefuncs.PFS''"
| "go_type (A_GetReq _) = ''libctlplanefuncs.GetReq''"
| "go_type (A_GetResourceReq _) = ''libctlplanefuncs.GetResourceReq''"
| "go_type (A_ResourceListResp _) = ''libctlplanefuncs.ResourceListResp''"
| "go_type (A_VdevReq _ _) = ''libctlplanefuncs.VdevReq''"
| "go_type (A_DeleteVdevReq _) = ''libctlplanefuncs.DeleteVdevReq''"
| "go_type (A_MountVdevRequest _) = ''libctlplanefuncs.MountVdevRequest''"
| "go_type (A_UserReq _) = ''userlib.UserReq''"
| "go_type (A_UserGetReq _) = ''userlib.GetReq''"
| "go_type (A_UserResp _) = ''userlib.UserResp''"
| "go_type (A_UserResps _) = ''[]userlib.UserResp''"
| "go_type (A_LoginResp _) = ''userlib.LoginResp''"
| "go_type (A_CPResp _) = ''libctlplanefuncs.CPResp''"

text \<open>
  The destination of a payload: the pointer \<open>respPayload\<close> to a variable with its zero value, which a
  payload of the same type is copied to.
\<close>

record 'a dest = de_type :: string de_assign :: "any \<Rightarrow> 'a option" de_zero :: 'a

definition callFunc ::
  "'s proxy \<Rightarrow> string \<Rightarrow> cp_req \<Rightarrow> bool \<Rightarrow> string \<Rightarrow> int \<Rightarrow> 'a dest \<Rightarrow> 's
   \<Rightarrow> (cp_resp option \<times> string option \<times> 'a) \<times> 's" where
  "callFunc px name cpReq isWrite rncui wsn d s =
     (let send = (case px_sendFuncReqFn px of Some f \<Rightarrow> f | None \<Rightarrow> sendFuncReq (px_pmdbClientObj px))
      in (case send name cpReq isWrite rncui wsn s of
            (Inl e, s1) \<Rightarrow> ((None, Some e, de_zero d), s1)
          | (Inr NoBytes, s1) \<Rightarrow> ((None, Some (''empty reply from pmdb for '' @ name), de_zero d), s1)
          | (Inr (Undecodable e), s1) \<Rightarrow> ((None, Some e, de_zero d), s1)
          | (Inr (Reply cpResp), s1) \<Rightarrow>
              if resp_Payload cpResp \<noteq> A_Nil
              then (case de_assign d (resp_Payload cpResp) of
                      None \<Rightarrow> ((Some cpResp, Some (''callFunc: '' @ name @ '' returned payload of type ''
                                 @ go_type (resp_Payload cpResp) @ '', not assignable to '' @ de_type d), de_zero d), s1)
                    | Some v \<Rightarrow> ((Some cpResp, None, v), s1))
              else ((Some cpResp, None, de_zero d), s1)))"

subsection \<open>Errors\<close>

definition requireMethod :: "http_req \<Rightarrow> string \<Rightarrow> http_resp option" where
  "requireMethod r m =
     (if hq_Method r \<noteq> m
      then Some (WriteError StatusMethodNotAllowed (''method '' @ hq_Method r @ '' not allowed; use '' @ m))
      else None)"

definition cpErrOf :: "cp_resp option \<Rightarrow> cp_error option" where
  "cpErrOf resp = (case resp of None \<Rightarrow> None | Some r \<Rightarrow> resp_Error r)"

definition statusForCPError :: "cp_error \<Rightarrow> rest_status" where
  "statusForCPError e =
     (case ce_Code e of
        ErrAuth \<Rightarrow> StatusUnauthorized
      | ErrInternal \<Rightarrow> StatusInternalError
      | ErrFunc \<Rightarrow> StatusFailure)"

definition writeCPError :: "string option \<Rightarrow> cp_error option \<Rightarrow> http_resp" where
  "writeCPError err cpErr =
     (case cpErr of
        Some e \<Rightarrow> WriteError (statusForCPError e) (ce_Message e)
      | None \<Rightarrow>
          if IsKeyNotFoundError err then WriteError StatusNotFound (the err)
          else (case err of
                  Some m \<Rightarrow> WriteError StatusInternalError m
                | None \<Rightarrow> WriteError StatusInternalError ''unknown control-plane error''))"

definition writeMethodCPError :: "string option \<Rightarrow> cp_error option \<Rightarrow> http_resp" where
  "writeMethodCPError err cpErr =
     (case cpErr of
        Some e \<Rightarrow> WriteMethodError (statusForCPError e) (ce_Message e)
      | None \<Rightarrow>
          if IsKeyNotFoundError err then WriteMethodError StatusNotFound (the err)
          else (case err of
                  Some m \<Rightarrow> WriteMethodError StatusInternalError m
                | None \<Rightarrow> WriteMethodError StatusInternalError ''unknown control-plane error''))"

definition splitCSV :: "string \<Rightarrow> string list" where
  "splitCSV s =
     (let t = trim_space s in
      if t = [] then []
      else filter (\<lambda>p. p \<noteq> []) (map trim_space (split CHR '','' t)))"

text \<open>
  The line every handler has after \<open>callFunc\<close>: an error of the transport or of the control plane ends
  it with \<open>werr\<close>, otherwise it goes on with the payload.
\<close>

definition after_call ::
  "(string option \<Rightarrow> cp_error option \<Rightarrow> http_resp) \<Rightarrow> (cp_resp option \<times> string option \<times> 'a) \<times> 's
   \<Rightarrow> ('a \<Rightarrow> 's \<Rightarrow> http_resp \<times> 's) \<Rightarrow> http_resp \<times> 's" where
  "after_call werr res k =
     (case res of ((cpResp, err, v), s) \<Rightarrow>
        if err \<noteq> None \<or> cpErrOf cpResp \<noteq> None then (werr err (cpErrOf cpResp), s) else k v s)"

text \<open>The early returns at the head of a handler.\<close>

definition require :: "http_req \<Rightarrow> string \<Rightarrow> 's \<Rightarrow> (http_resp \<times> 's) \<Rightarrow> http_resp \<times> 's" where
  "require r m s k = (case requireMethod r m of Some resp \<Rightarrow> (resp, s) | None \<Rightarrow> k)"

definition decodeJSONBody :: "string + 'a \<Rightarrow> 's \<Rightarrow> ('a \<Rightarrow> http_resp \<times> 's) \<Rightarrow> http_resp \<times> 's" where
  "decodeJSONBody b s k =
     (case b of Inl e \<Rightarrow> (WriteError StatusInvalidRequest (''invalid request body: '' @ e), s) | Inr req \<Rightarrow> k req)"

definition decodeJSONBodyMethod :: "string + 'a \<Rightarrow> 's \<Rightarrow> ('a \<Rightarrow> http_resp \<times> 's) \<Rightarrow> http_resp \<times> 's" where
  "decodeJSONBodyMethod b s k =
     (case b of Inl e \<Rightarrow> (WriteMethodError StatusInvalidRequest (''invalid request body: '' @ e), s) | Inr req \<Rightarrow> k req)"

subsection \<open>Zero values\<close>

definition zero_ResponseXML :: "response_xml dest" where
  "zero_ResponseXML = \<lparr>de_type = ''libctlplanefuncs.ResponseXML'',
     de_assign = (\<lambda>a. case a of A_ResponseXML x \<Rightarrow> Some x | _ \<Rightarrow> None),
     de_zero = \<lparr>rx_Name = [], rx_ID = [], rx_Error = [], rx_Success = False\<rparr>\<rparr>"

definition zero_VdevConfig :: "vdev_config dest" where
  "zero_VdevConfig = \<lparr>de_type = ''libctlplanefuncs.VdevConfig'',
     de_assign = (\<lambda>a. case a of A_VdevConfig x \<Rightarrow> Some x | _ \<Rightarrow> None), de_zero = new_vdev []\<rparr>"

definition zero_Nisd :: "nisd dest" where
  "zero_Nisd = \<lparr>de_type = ''libctlplanefuncs.Nisd'', de_assign = (\<lambda>a. case a of A_Nisd x \<Rightarrow> Some x | _ \<Rightarrow> None),
     de_zero = \<lparr>n_PeerPort = 0, n_ID = [], n_FailureDomain = [], n_TotalSize = 0, n_AvailableSize = 0,
                n_SocketPath = [], n_NetInfo = [], n_NetInfoCnt = 0\<rparr>\<rparr>"

definition zero_ChunkNisd :: "string dest" where
  "zero_ChunkNisd = \<lparr>de_type = ''libctlplanefuncs.ChunkNisd'',
     de_assign = (\<lambda>a. case a of A_ChunkNisd x \<Rightarrow> Some x | _ \<Rightarrow> None), de_zero = []\<rparr>"

definition zero_ResourceListResp :: "resource_list_resp dest" where
  "zero_ResourceListResp = \<lparr>de_type = ''libctlplanefuncs.ResourceListResp'',
     de_assign = (\<lambda>a. case a of A_ResourceListResp x \<Rightarrow> Some x | _ \<Rightarrow> None),
     de_zero = \<lparr>rl_ResourceType = [], rl_Nisds = [], rl_Racks = [], rl_PDUs = [], rl_Hypervisors = [],
                rl_Devices = [], rl_Partitions = [], rl_Vdevs = []\<rparr>\<rparr>"

definition zero_PFSs :: "pfs list dest" where
  "zero_PFSs = \<lparr>de_type = ''[]libctlplanefuncs.PFS'', de_assign = (\<lambda>a. case a of A_PFSs x \<Rightarrow> Some x | _ \<Rightarrow> None), de_zero = []\<rparr>"

definition zero_NisdArgs :: "nisd_args dest" where
  "zero_NisdArgs = \<lparr>de_type = ''libctlplanefuncs.NisdArgs'', de_assign = (\<lambda>a. case a of A_NisdArgs x \<Rightarrow> Some x | _ \<Rightarrow> None),
     de_zero = \<lparr>na_Defrag = False, na_AllowDefragMCIBCache = False, na_MBCCnt = 0, na_MergeHCnt = 0,
                na_MCIBReadCache = 0, na_S3 = [], na_DSync = []\<rparr>\<rparr>"

definition zero_SnapResponse :: "snap_name dest" where
  "zero_SnapResponse = \<lparr>de_type = ''libctlplanefuncs.SnapResponseXML'',
     de_assign = (\<lambda>a. case a of A_SnapResponse x \<Rightarrow> Some x | _ \<Rightarrow> None), de_zero = \<lparr>sn_Name = [], sn_Success = False\<rparr>\<rparr>"

definition zero_LoginResp :: "login_resp dest" where
  "zero_LoginResp = \<lparr>de_type = ''userlib.LoginResp'', de_assign = (\<lambda>a. case a of A_LoginResp x \<Rightarrow> Some x | _ \<Rightarrow> None),
     de_zero = \<lparr>lr_AccessToken = [], lr_TokenType = [], lr_UserID = [], lr_Username = [], lr_UserRole = [],
                lr_Error = [], lr_ExpiresIn = 0, lr_IsAdmin = False, lr_Success = False\<rparr>\<rparr>"

definition zero_UserResp :: "user_resp dest" where
  "zero_UserResp = \<lparr>de_type = ''userlib.UserResp'', de_assign = (\<lambda>a. case a of A_UserResp x \<Rightarrow> Some x | _ \<Rightarrow> None),
     de_zero = \<lparr>ur_Username = [], ur_UserID = [], ur_SecretKey = [], ur_UserRole = [], ur_Status = 0,
                ur_Error = [], ur_Success = False\<rparr>\<rparr>"

definition zero_UserResps :: "user_resp list dest" where
  "zero_UserResps = \<lparr>de_type = ''[]userlib.UserResp'', de_assign = (\<lambda>a. case a of A_UserResps x \<Rightarrow> Some x | _ \<Rightarrow> None), de_zero = []\<rparr>"

end
