(* ===== verification/ProxyRest.thy ===== *)
theory ProxyRest
  imports Proxy
begin

section \<open>The REST handlers\<close>

text \<open>
  Every handler of the route table \<open>restMux\<close>, in the order of the files. A handler that reads sends
  with the flag \<open>False\<close> and no RNCUI, a handler that writes with \<open>True\<close> and the RNCUI of the request.
\<close>

subsection \<open>Reads\<close>

definition rest_net_of :: "network_info \<Rightarrow> rest_net" where
  "rest_net_of ni = \<lparr>rn_ip_addr = ni_IPAddr ni, rn_port = int (unat (ni_Port ni))\<rparr>"

definition get_req_id :: "string \<Rightarrow> any" where
  "get_req_id i = A_GetReq \<lparr>g_ID = i, g_GetAll = False, g_Fields = []\<rparr>"

definition cpreq :: "string \<Rightarrow> any \<Rightarrow> cp_req" where
  "cpreq token p = \<lparr>rq_Token = token, rq_Page = None, rq_Payload = p\<rparr>"

definition handleGetVdev :: "'s proxy \<Rightarrow> 's handler" where
  "handleGetVdev px r s = require r ''GET'' s
     (let i = trim_space (hq_Query r ''id'') in
      if i = [] then (WriteMethodError StatusInvalidRequest ''missing required query parameter: id'', s)
      else after_call writeMethodCPError
        (callFunc px GET_VDEV_INFO (cpreq (tokenFromRequest r) (get_req_id i)) False [] 0 zero_VdevConfig s)
        (\<lambda>vdev s1.
          if v_ID vdev = [] then (WriteMethodError StatusNotFound (''vdev '' @ i @ '' not found''), s1)
          else (WriteData (P_GetVdev \<lparr>gv_id = v_ID vdev, gv_name = v_Name vdev, gv_size = v_Size vdev,
                  gv_num_chunks = int (unat (v_ChunkCnt vdev)), gv_num_replicas = int (unat (v_DataBlkCnt vdev)),
                  gv_failure_domain = v_FilterType vdev\<rparr>), s1)))"

definition handleGetNisd :: "'s proxy \<Rightarrow> 's handler" where
  "handleGetNisd px r s = require r ''GET'' s
     (let i = trim_space (hq_Query r ''id'') in
      if i = [] then (WriteMethodError StatusInvalidRequest ''missing required query parameter: id'', s)
      else after_call writeMethodCPError
        (callFunc px GET_NISD (cpreq (tokenFromRequest r) (get_req_id i)) False [] 0 zero_Nisd s)
        (\<lambda>nisd s1.
          if n_ID nisd = [] then (WriteMethodError StatusNotFound (''nisd '' @ i @ '' not found''), s1)
          else (WriteData (P_GetNisd \<lparr>gn_id = n_ID nisd, gn_peer_port = int (unat (n_PeerPort nisd)),
                  gn_net_info = map rest_net_of (n_NetInfo nisd)\<rparr>), s1)))"

definition handleGetChunk :: "'s proxy \<Rightarrow> 's handler" where
  "handleGetChunk px r s = require r ''GET'' s
     (let vdevID = trim_space (hq_Query r ''vdev_id''); chunkStr = trim_space (hq_Query r ''chunk_idx'') in
      if vdevID = [] \<or> chunkStr = []
        then (WriteMethodError StatusInvalidRequest ''missing required query parameters: vdev_id and chunk_idx'', s)
      else case atoi chunkStr of (chunkIdx, ok) \<Rightarrow>
        if \<not> ok \<or> chunkIdx < 0
          then (WriteMethodError StatusInvalidRequest
                  (''invalid chunk_idx '' @ px_quote px chunkStr @ '': must be a non-negative integer''), s)
        else after_call writeMethodCPError
          (callFunc px GET_CHUNK_NISD (cpreq (tokenFromRequest r) (get_req_id (vdevID @ ''/'' @ itoa chunkIdx)))
             False [] 0 zero_ChunkNisd s)
          (\<lambda>cn s1.
            let ids = splitCSV cn in
            if ids = []
              then (WriteMethodError StatusNotFound (''chunk '' @ itoa chunkIdx @ '' not found for vdev '' @ vdevID), s1)
            else (WriteData (P_GetChunk \<lparr>gc_vdev_id = vdevID, gc_chunk_idx = chunkIdx, gc_nisd_ids = ids\<rparr>), s1)))"

definition handleGetRecoveryAssignment :: "'s proxy \<Rightarrow> 's handler" where
  "handleGetRecoveryAssignment px r s = require r ''GET'' s
     (let vdevID = trim_space (hq_Query r ''vdev_id''); chunkStr = trim_space (hq_Query r ''chunk_idx'') in
      if vdevID = [] \<or> chunkStr = []
        then (WriteMethodError StatusInvalidRequest ''missing required query parameters: vdev_id and chunk_idx'', s)
      else if \<not> snd (atoi chunkStr)
        then (WriteMethodError StatusInvalidRequest
                (''invalid chunk_idx '' @ px_quote px chunkStr @ '': must be a non-negative integer''), s)
      else if trim_space (hq_Query r ''client_snapshot_seqno'') = []
        then (WriteMethodError StatusInvalidRequest ''missing required query parameter: client_snapshot_seqno'', s)
      else (WriteMethodError StatusInternalError ''recovery assignment not yet implemented'', s))"

subsection \<open>Writes\<close>

abbreviation (input) maxVdevReplicas :: int where "maxVdevReplicas \<equiv> 255"

text \<open>The vdev configuration that a request asks for.\<close>

definition vdevCfg_of :: "(string \<Rightarrow> bool) \<Rightarrow> create_vdev_request \<Rightarrow> vdev_config" where
  "vdevCfg_of uuid_ok req =
     (let cfg = (new_vdev [])\<lparr>v_Size := cv_size_bytes req, v_Redundancy := RMReplica,
                  v_DataBlkCnt := word_of_int (cv_data_blk_cnt req), v_Name := trim_space (cv_name req)\<rparr>;
          pfs = trim_space (cv_pfs req)
      in if pfs = [] then cfg
         else if uuid_ok pfs then cfg\<lparr>v_PFSID := pfs\<rparr>
         else cfg\<lparr>v_PFSName := pfs\<rparr>)"

definition handleCreateVdev :: "'s proxy \<Rightarrow> 's handler" where
  "handleCreateVdev px r s = require r ''POST'' s
     (decodeJSONBodyMethod (js_CreateVdev (px_json px) (hq_Body r)) s (\<lambda>req.
       if cv_size_bytes req <s 1 then (WriteMethodError StatusInvalidRequest ''size_bytes must be >= 1'', s)
       else if cv_data_blk_cnt req < 1 \<or> cv_data_blk_cnt req > maxVdevReplicas
         then (WriteMethodError StatusInvalidRequest
                 (''num_replicas must be between 1 and '' @ itoa maxVdevReplicas), s)
       else case rncuiFromRequest r of
         Inl err \<Rightarrow> (WriteMethodError StatusInvalidRequest err, s)
       | Inr rncui \<Rightarrow>
           (case ParseFD (cv_failure_domain req) of
              Ret fdType \<Rightarrow>
                (let flt = \<lparr>f_ID = (if cv_entity_ids req \<noteq> [] then cv_entity_ids req ! 0 else []), f_Type = fdType\<rparr>;
                     vdevCfg = vdevCfg_of (px_uuid_ok px) req
                 in after_call writeMethodCPError
                      (callFunc px CREATE_VDEV (cpreq (tokenFromRequest r) (A_VdevReq (Some vdevCfg) flt))
                         True rncui 0 zero_ResponseXML s)
                      (\<lambda>resp s1.
                        if rx_ID resp = []
                          then (WriteMethodError StatusInternalError ''vdev creation returned no id'', s1)
                        else (WriteData (P_CreateVdev \<lparr>cvp_vdev_id = rx_ID resp, cvp_name = v_Name vdevCfg,
                                cvp_num_chunks = sint (Count8GBChunks (cv_size_bytes req)),
                                cvp_failure_domain = FDName fdType, cvp_pfs_id = v_PFSID vdevCfg\<rparr>), s1)))
            | Fail err \<Rightarrow> (WriteMethodError StatusInvalidRequest err, s)
            | Panic \<Rightarrow> (WriteMethodError StatusInvalidRequest [], s))))"

definition runEntityWrite :: "'s proxy \<Rightarrow> http_req \<Rightarrow> string \<Rightarrow> any \<Rightarrow> string \<Rightarrow> 's \<Rightarrow> http_resp \<times> 's" where
  "runEntityWrite px r op p fallbackID s =
     (case rncuiFromRequest r of
        Inl err \<Rightarrow> (WriteMethodError StatusInvalidRequest err, s)
      | Inr rncui \<Rightarrow>
          after_call writeMethodCPError (callFunc px op (cpreq (tokenFromRequest r) p) True rncui 0 zero_ResponseXML s)
            (\<lambda>resp s1. (WriteData (P_Write \<lparr>wp_id = (if rx_ID resp = [] then fallbackID else rx_ID resp),
                                            wp_message = []\<rparr>), s1)))"

definition handlePutPFS :: "'s proxy \<Rightarrow> 's handler" where
  "handlePutPFS px r s = require r ''POST'' s
     (decodeJSONBodyMethod (js_PFS (px_json px) (hq_Body r)) s (\<lambda>req.
       runEntityWrite px r PUT_PFS
         (A_PFS \<lparr>pf_ID = rf_id req, pf_Name = rf_name req, pf_Offset = rf_offset req, pf_VdevIDs = rf_vdev_ids req\<rparr>)
         (rf_id req) s))"

definition handlePutNisdArgs :: "'s proxy \<Rightarrow> 's handler" where
  "handlePutNisdArgs px r s = require r ''POST'' s
     (decodeJSONBodyMethod (js_NisdArgs (px_json px) (hq_Body r)) s (\<lambda>req.
       runEntityWrite px r PUT_NISD_ARGS
         (A_NisdArgs \<lparr>na_Defrag = rg_defrag req, na_AllowDefragMCIBCache = rg_allow_defrag_mcib_cache req,
            na_MBCCnt = rg_mbc_cnt req, na_MergeHCnt = rg_merge_h_cnt req, na_MCIBReadCache = rg_mcib_read_cache req,
            na_S3 = rg_s3 req, na_DSync = rg_dsync req\<rparr>) [] s))"

definition handleCreateSnap :: "'s proxy \<Rightarrow> 's handler" where
  "handleCreateSnap px r s = require r ''POST'' s
     (decodeJSONBodyMethod (js_CreateSnap (px_json px) (hq_Body r)) s (\<lambda>req.
       if cs_vdev_id req = [] \<or> cs_snap_name req = []
         then (WriteMethodError StatusInvalidRequest ''vdev_id and snap_name are required'', s)
       else case rncuiFromRequest r of
         Inl err \<Rightarrow> (WriteMethodError StatusInvalidRequest err, s)
       | Inr rncui \<Rightarrow>
           (let chunks = map (\<lambda>(idx, q). \<lparr>cx_Idx = of_nat idx, cx_Seq = q\<rparr>)
                           (zip [0..<length (cs_chunk_seq req)] (cs_chunk_seq req))
            in after_call writeMethodCPError
                 (callFunc px CREATE_SNAP
                    (cpreq (tokenFromRequest r)
                       (A_SnapXML \<lparr>sx_SnapName = cs_snap_name req, sx_Vdev = cs_vdev_id req, sx_Chunks = chunks\<rparr>))
                    True rncui 0 zero_SnapResponse s)
                 (\<lambda>resp s1.
                   if \<not> sn_Success resp
                     then (WriteMethodError StatusInternalError
                             (''snapshot '' @ px_quote px (cs_snap_name req) @ '' was not created''), s1)
                   else (WriteData (P_CreateSnap (sn_Name resp)), s1)))))"

definition handleDeleteVdev :: "'s proxy \<Rightarrow> 's handler" where
  "handleDeleteVdev px r s =
     (let i = trim_space (hq_PathValue r ''id'') in
      if i = [] then (WriteMethodError StatusInvalidRequest ''vdev id is required'', s)
      else runEntityWrite px r DELETE_VDEV (A_DeleteVdevReq i) i s)"

definition handleMountVdev :: "'s proxy \<Rightarrow> 's handler" where
  "handleMountVdev px r s = require r ''POST'' s
     (decodeJSONBodyMethod (js_MountVdev (px_json px) (hq_Body r)) s (\<lambda>vdev_id.
       if vdev_id = [] then (WriteMethodError StatusInvalidRequest ''vdev_id is required'', s)
       else case rncuiFromRequest r of
         Inl err \<Rightarrow> (WriteMethodError StatusInvalidRequest err, s)
       | Inr rncui \<Rightarrow>
           after_call writeMethodCPError
             (callFunc px MOUNT_VDEV (cpreq (tokenFromRequest r) (A_MountVdevRequest vdev_id)) True rncui 0 zero_VdevConfig s)
             (\<lambda>resp s1. (WriteData (P_MountVdev \<lparr>mv_id = v_ID resp, mv_name = v_Name resp, mv_size = v_Size resp,
                mv_num_chunks = int (unat (v_ChunkCnt resp)), mv_num_replica = int (unat (v_DataBlkCnt resp)),
                mv_mount_counter = mi_MountCounter (v_VdevMountInfo resp),
                mv_last_updated_lts = mi_LastUpdatedLTS (v_VdevMountInfo resp), mv_pfs_id = v_PFSID resp,
                mv_access_token = v_AccessToken resp, mv_data_blk_cnt = v_DataBlkCnt resp,
                mv_parity_blk_cnt = v_ParityBlkCnt resp\<rparr>), s1))))"

subsection \<open>Resources\<close>

definition toRestPDU :: "pdu \<Rightarrow> rest_pdu" where
  "toRestPDU p = \<lparr>rp_id = p_ID p, rp_name = p_Name p, rp_location = p_Location p,
     rp_specification = p_Specification p, rp_power_cap = p_PowerCapacity p\<rparr>"

definition toRestRack :: "rack \<Rightarrow> rest_rack" where
  "toRestRack r = \<lparr>rr_id = r_ID r, rr_pdu_id = r_PDUID r, rr_name = r_Name r, rr_location = r_Location r,
     rr_specification = r_Specification r\<rparr>"

definition toRestHypervisor :: "hypervisor \<Rightarrow> rest_hypervisor" where
  "toRestHypervisor h = \<lparr>rh_id = h_ID h, rh_rack_id = h_RackID h, rh_name = h_Name h, rh_port_range = h_PortRange h,
     rh_ssh_port = h_SSHPort h, rh_rdma_enabled = h_RDMAEnabled h, rh_ip_addrs = h_IPAddrs h\<rparr>"

definition toRestDevice :: "device \<Rightarrow> rest_device" where
  "toRestDevice d = \<lparr>rd_id = d_ID d, rd_hypervisor_id = d_HypervisorID d, rd_name = d_Name d,
     rd_device_path = d_DevicePath d, rd_serial_number = d_SerialNumber d, rd_state = int (unat (d_State d)),
     rd_size = d_Size d, rd_failure_domain = d_FailureDomain d\<rparr>"

definition toRestNISD :: "nisd \<Rightarrow> rest_nisd" where
  "toRestNISD n = \<lparr>rs_id = n_ID n, rs_peer_port = int (unat (n_PeerPort n)), rs_failure_domain = n_FailureDomain n,
     rs_total_size = n_TotalSize n, rs_available_size = n_AvailableSize n, rs_socket_path = n_SocketPath n,
     rs_net_info = map rest_net_of (n_NetInfo n)\<rparr>"

definition toRestPartition :: "device_partition \<Rightarrow> rest_partition" where
  "toRestPartition p = \<lparr>ra_partition_id = pt_PartitionID p, ra_partition_path = pt_PartitionPath p,
     ra_nisd_uuid = pt_NISDUUID p, ra_dev_id = pt_DevID p, ra_size = pt_Size p\<rparr>"

definition toRestPFS :: "pfs \<Rightarrow> rest_pfs" where
  "toRestPFS p = \<lparr>rf_id = pf_ID p, rf_name = pf_Name p, rf_offset = pf_Offset p, rf_vdev_ids = pf_VdevIDs p\<rparr>"

definition toRestVdev :: "vdev_config \<Rightarrow> get_vdev_payload" where
  "toRestVdev v = \<lparr>gv_id = v_ID v, gv_name = v_Name v, gv_size = v_Size v, gv_num_chunks = int (unat (v_ChunkCnt v)),
     gv_num_replicas = int (unat (v_DataBlkCnt v)), gv_failure_domain = v_FilterType v\<rparr>"

text \<open>The payloads \<open>handlePutResource\<close> builds from a request body.\<close>

definition put_pdu :: "rest_pdu \<Rightarrow> pdu" where
  "put_pdu q = \<lparr>p_ID = rp_id q, p_Name = rp_name q, p_Location = rp_location q, p_PowerCapacity = rp_power_cap q,
     p_Specification = rp_specification q, p_Racks = []\<rparr>"

definition put_rack :: "rest_rack \<Rightarrow> rack" where
  "put_rack q = \<lparr>r_ID = rr_id q, r_Name = rr_name q, r_PDUID = rr_pdu_id q, r_Location = rr_location q,
     r_Specification = rr_specification q, r_Hypervisors = []\<rparr>"

definition put_hypervisor :: "rest_hypervisor \<Rightarrow> hypervisor" where
  "put_hypervisor q = \<lparr>h_ID = rh_id q, h_RackID = rh_rack_id q, h_Name = rh_name q, h_IPAddrs = rh_ip_addrs q,
     h_PortRange = rh_port_range q, h_SSHPort = rh_ssh_port q, h_Dev = [], h_RDMAEnabled = rh_rdma_enabled q\<rparr>"

definition put_device :: "rest_device \<Rightarrow> device" where
  "put_device q = \<lparr>d_ID = rd_id q, d_Name = rd_name q, d_DevicePath = rd_device_path q,
     d_SerialNumber = rd_serial_number q, d_State = word_of_int (rd_state q), d_Size = rd_size q,
     d_HypervisorID = rd_hypervisor_id q, d_FailureDomain = rd_failure_domain q, d_Partitions = []\<rparr>"

definition put_nisd :: "rest_nisd \<Rightarrow> nisd" where
  "put_nisd q = \<lparr>n_PeerPort = word_of_int (rs_peer_port q), n_ID = rs_id q, n_FailureDomain = rs_failure_domain q,
     n_TotalSize = rs_total_size q, n_AvailableSize = rs_available_size q, n_SocketPath = rs_socket_path q,
     n_NetInfo = map (\<lambda>ni. \<lparr>ni_IPAddr = rn_ip_addr ni, ni_Port = word_of_int (rn_port ni)\<rparr>) (rs_net_info q),
     n_NetInfoCnt = int (length (rs_net_info q))\<rparr>"

definition put_partition :: "rest_partition \<Rightarrow> device_partition" where
  "put_partition q = \<lparr>pt_PartitionID = ra_partition_id q, pt_PartitionPath = ra_partition_path q,
     pt_NISDUUID = ra_nisd_uuid q, pt_DevID = ra_dev_id q, pt_Size = ra_size q\<rparr>"

text \<open>One case of the switch of \<open>handlePutResource\<close>.\<close>

definition put_case ::
  "'s proxy \<Rightarrow> http_req \<Rightarrow> string + 'a \<Rightarrow> ('a \<Rightarrow> string) \<Rightarrow> string \<Rightarrow> string \<Rightarrow> ('a \<Rightarrow> any) \<Rightarrow> 's \<Rightarrow> http_resp \<times> 's" where
  "put_case px r b key missing op build s =
     decodeJSONBodyMethod b s (\<lambda>req.
       if key req = [] then (WriteMethodError StatusInvalidRequest missing, s)
       else runEntityWrite px r op (build req) (key req) s)"

definition handlePutResource :: "'s proxy \<Rightarrow> 's handler" where
  "handlePutResource px r s =
     (let rtype = to_lower (trim_space (hq_Query r ''type'')); js = px_json px; body = hq_Body r in
      if rtype = [] then (WriteMethodError StatusInvalidRequest ''missing required query parameter: type'', s)
      else if rtype = ''pdu''
        then put_case px r (js_PDU js body) rp_id ''id is required'' PUT_PDU (\<lambda>q. A_PDU (put_pdu q)) s
      else if rtype = ''rack''
        then put_case px r (js_Rack js body) rr_id ''id is required'' PUT_RACK (\<lambda>q. A_Rack (put_rack q)) s
      else if rtype = ''hypervisor''
        then put_case px r (js_Hypervisor js body) rh_id ''id is required'' PUT_HYPERVISOR (\<lambda>q. A_Hypervisor (put_hypervisor q)) s
      else if rtype = ''device''
        then put_case px r (js_Device js body) rd_id ''id is required'' PUT_DEVICE (\<lambda>q. A_Device (put_device q)) s
      else if rtype = ''nisd''
        then put_case px r (js_NISD js body) rs_id ''id is required'' PUT_NISD (\<lambda>q. A_Nisd (put_nisd q)) s
      else if rtype = ''partition''
        then put_case px r (js_Partition js body) ra_partition_id ''partition_id is required'' PUT_PARTITION
               (\<lambda>q. A_Partition (put_partition q)) s
      else (WriteMethodError StatusUnsupportedResource (''unsupported resource type: '' @ rtype), s))"

definition getResourcesByType ::
  "'s proxy \<Rightarrow> http_req \<Rightarrow> string \<Rightarrow> string \<Rightarrow> 's \<Rightarrow> (cp_resp option \<times> string option \<times> resource_list_resp) \<times> 's" where
  "getResourcesByType px r rtype i s =
     callFunc px GET_ALL_RESOURCES
       (cpreq (tokenFromRequest r) (A_GetResourceReq \<lparr>gr_ResourceType = rtype, gr_ID = i, gr_GetAll = (i = [])\<rparr>))
       False [] 0 zero_ResourceListResp s"

definition resources_of :: "string \<Rightarrow> resource_list_resp \<Rightarrow> resource list" where
  "resources_of rtype rl =
     (if rtype = ''pdu'' then map (\<lambda>x. R_PDU (toRestPDU x)) (rl_PDUs rl)
      else if rtype = ''rack'' then map (\<lambda>x. R_Rack (toRestRack x)) (rl_Racks rl)
      else if rtype = ''hypervisor'' then map (\<lambda>x. R_Hypervisor (toRestHypervisor x)) (rl_Hypervisors rl)
      else if rtype = ''device'' then map (\<lambda>x. R_Device (toRestDevice x)) (rl_Devices rl)
      else if rtype = ''nisd'' then map (\<lambda>x. R_Nisd (toRestNISD x)) (rl_Nisds rl)
      else if rtype = ''partition'' then map (\<lambda>x. R_Partition (toRestPartition x)) (rl_Partitions rl)
      else if rtype = ''vdev'' then map (\<lambda>x. R_Vdev (toRestVdev x)) (rl_Vdevs rl)
      else [])"

definition handleGetResource :: "'s proxy \<Rightarrow> 's handler" where
  "handleGetResource px r s =
     (let rtype = to_lower (trim_space (hq_Query r ''type'')) in
      if rtype = [] then (WriteMethodError StatusInvalidRequest ''missing required query parameter: type'', s)
      else if rtype \<notin> {''pdu'', ''rack'', ''hypervisor'', ''device'', ''nisd'', ''partition'', ''vdev''}
        then (WriteMethodError StatusUnsupportedResource (''unsupported resource type: '' @ rtype), s)
      else after_call writeMethodCPError (getResourcesByType px r rtype (trim_space (hq_Query r ''id'')) s)
             (\<lambda>rl s1. (WriteData (P_GetResource rtype (resources_of rtype rl)), s1)))"

definition handleGetPFS :: "'s proxy \<Rightarrow> 's handler" where
  "handleGetPFS px r s =
     (let i = trim_space (hq_Query r ''id'') in
      after_call writeMethodCPError
        (callFunc px GET_PFS (cpreq (tokenFromRequest r) (A_GetReq \<lparr>g_ID = i, g_GetAll = (i = []), g_Fields = []\<rparr>))
           False [] 0 zero_PFSs s)
        (\<lambda>pfs s1. (WriteData (P_GetPFS (map toRestPFS pfs)), s1)))"

definition handleGetNisdArgs :: "'s proxy \<Rightarrow> 's handler" where
  "handleGetNisdArgs px r s =
     after_call writeMethodCPError
       (callFunc px GET_NISD_ARGS (cpreq (tokenFromRequest r) (get_req_id [])) False [] 0 zero_NisdArgs s)
       (\<lambda>a s1. (WriteData (P_GetNisdArgs \<lparr>rg_defrag = na_Defrag a, rg_allow_defrag_mcib_cache = na_AllowDefragMCIBCache a,
          rg_mbc_cnt = na_MBCCnt a, rg_merge_h_cnt = na_MergeHCnt a, rg_mcib_read_cache = na_MCIBReadCache a,
          rg_s3 = na_S3 a, rg_dsync = na_DSync a\<rparr>), s1))"

subsection \<open>The infrastructure tree\<close>

text \<open>
  \<open>m[key] = append(m[key], node)\<close> over a list. A Go map that is read where it has no entry gives the
  empty list, so the map is a function.
\<close>

definition group_nodes :: "('a \<Rightarrow> string) \<Rightarrow> ('a \<Rightarrow> 'b) \<Rightarrow> 'a list \<Rightarrow> string \<Rightarrow> 'b list" where
  "group_nodes key node xs = foldl (\<lambda>m x. m(key x := m (key x) @ [node x])) (\<lambda>_. []) xs"

definition nisd_node_of :: "nisd \<Rightarrow> nisd_node" where
  "nisd_node_of n = \<lparr>nn_id = n_ID n, nn_peer_port = int (unat (n_PeerPort n)), nn_total_size = n_TotalSize n,
     nn_available_size = n_AvailableSize n, nn_socket_path = n_SocketPath n,
     nn_net_info = map rest_net_of (n_NetInfo n)\<rparr>"

definition device_node_of :: "(string \<Rightarrow> nisd_node list) \<Rightarrow> device \<Rightarrow> device_node" where
  "device_node_of nisdsByDev d = \<lparr>dn_id = d_ID d, dn_name = d_Name d, dn_device_path = d_DevicePath d,
     dn_serial_number = d_SerialNumber d, dn_state = int (unat (d_State d)), dn_size = d_Size d,
     dn_failure_domain = d_FailureDomain d, dn_nisds = nisdsByDev (d_ID d)\<rparr>"

definition hypervisor_node_of :: "(string \<Rightarrow> device_node list) \<Rightarrow> hypervisor \<Rightarrow> hypervisor_node" where
  "hypervisor_node_of devsByHV h = \<lparr>hn_id = h_ID h, hn_name = h_Name h, hn_port_range = h_PortRange h,
     hn_ssh_port = h_SSHPort h, hn_rdma_enabled = h_RDMAEnabled h, hn_ip_addrs = h_IPAddrs h,
     hn_devices = devsByHV (h_ID h)\<rparr>"

definition rack_node_of :: "(string \<Rightarrow> hypervisor_node list) \<Rightarrow> rack \<Rightarrow> rack_node" where
  "rack_node_of hvsByRack k = \<lparr>kn_id = r_ID k, kn_name = r_Name k, kn_location = r_Location k,
     kn_specification = r_Specification k, kn_hypervisors = hvsByRack (r_ID k)\<rparr>"

definition pdu_node_of :: "(string \<Rightarrow> rack_node list) \<Rightarrow> pdu \<Rightarrow> pdu_node" where
  "pdu_node_of racksByPDU p = \<lparr>pn_id = p_ID p, pn_name = p_Name p, pn_location = p_Location p,
     pn_specification = p_Specification p, pn_power_cap = p_PowerCapacity p, pn_racks = racksByPDU (p_ID p)\<rparr>"

definition infra_tree ::
  "pdu list \<Rightarrow> rack list \<Rightarrow> hypervisor list \<Rightarrow> device list \<Rightarrow> nisd list \<Rightarrow> pdu_node list" where
  "infra_tree pdus racks hvs devs nisds =
     (let nisdsByDev = group_nodes (\<lambda>n. n_FailureDomain n ! 3) nisd_node_of
                         (filter (\<lambda>n. \<not> length (n_FailureDomain n) \<le> 3) nisds);
          devsByHV = group_nodes d_HypervisorID (device_node_of nisdsByDev) devs;
          hvsByRack = group_nodes h_RackID (hypervisor_node_of devsByHV) hvs;
          racksByPDU = group_nodes r_PDUID (rack_node_of hvsByRack) racks
      in map (pdu_node_of racksByPDU) pdus)"

definition handleGetInfra :: "'s proxy \<Rightarrow> 's handler" where
  "handleGetInfra px r s =
     after_call writeMethodCPError (getResourcesByType px r ''pdu'' [] s) (\<lambda>pduRL s1.
     after_call writeMethodCPError (getResourcesByType px r ''rack'' [] s1) (\<lambda>rackRL s2.
     after_call writeMethodCPError (getResourcesByType px r ''hypervisor'' [] s2) (\<lambda>hvRL s3.
     after_call writeMethodCPError (getResourcesByType px r ''device'' [] s3) (\<lambda>devRL s4.
     after_call writeMethodCPError (getResourcesByType px r ''nisd'' [] s4) (\<lambda>nisdRL s5.
       (WriteData (P_GetInfra (infra_tree (rl_PDUs pduRL) (rl_Racks rackRL) (rl_Hypervisors hvRL)
          (rl_Devices devRL) (rl_Nisds nisdRL))), s5))))))"

subsection \<open>Users\<close>

definition statusForUserMsg :: "string \<Rightarrow> rest_status" where
  "statusForUserMsg msg =
     (let m = to_lower msg in
      if contains m ''not found'' then StatusNotFound
      else if contains m ''already exists'' then StatusConflict
      else if contains m ''permission denied'' \<or> contains m ''not authorized'' \<or> contains m ''only admin''
              \<or> contains m ''reserved'' then StatusForbidden
      else if contains m ''token'' \<or> contains m ''invalid credentials'' \<or> contains m ''unauthorized''
        then StatusUnauthorized
      else StatusInvalidRequest)"

definition userDataFromResp :: "user_resp \<Rightarrow> user_data" where
  "userDataFromResp u = \<lparr>ud_id = ur_UserID u, ud_username = ur_Username u, ud_role = ur_UserRole u,
     ud_status = int (unat (ur_Status u))\<rparr>"

definition user_payload_of :: "user_resp \<Rightarrow> user_payload" where
  "user_payload_of u = \<lparr>up_user_data = userDataFromResp u, up_secret_key = ur_SecretKey u\<rparr>"

text \<open>A user operation that was refused inside a successful envelope.\<close>

definition unless_refused :: "user_resp \<Rightarrow> 's \<Rightarrow> http_resp \<Rightarrow> http_resp \<times> 's" where
  "unless_refused resp s ok =
     (if \<not> ur_Success resp then (WriteError (statusForUserMsg (ur_Error resp)) (ur_Error resp), s) else (ok, s))"

definition handleLogin :: "'s proxy \<Rightarrow> 's handler" where
  "handleLogin px r s = require r ''POST'' s
     (decodeJSONBody (js_Login (px_json px) (hq_Body r)) s (\<lambda>req.
       if trim_space (lq_username req) = [] \<or> lq_password req = []
         then (WriteError StatusInvalidRequest ''username and password are required'', s)
       else case callFunc px LoginAPI (cpreq [] (get_req_id (lq_username req @ '':'' @ lq_password req)))
                   False [] 0 zero_LoginResp s of
         ((cpResp, err, lr), s1) \<Rightarrow>
           if err \<noteq> None \<or> cpErrOf cpResp \<noteq> None \<or> \<not> lr_Success lr
             then (WriteError StatusUnauthorized ''invalid credentials'', s1)
           else (WriteData (P_Login \<lparr>lp_access_token = lr_AccessToken lr, lp_token_type = lr_TokenType lr,
                   lp_expires_in = lr_ExpiresIn lr, lp_user_id = lr_UserID lr, lp_username = lr_Username lr,
                   lp_role = lr_UserRole lr, lp_is_admin = lr_IsAdmin lr\<rparr>), s1)))"

definition handleCreateUser :: "'s proxy \<Rightarrow> 's handler" where
  "handleCreateUser px r s = require r ''POST'' s
     (decodeJSONBody (js_CreateUser (px_json px) (hq_Body r)) s (\<lambda>req.
       let username = trim_space (cu_username req); role = cu_role req in
       if username = [] then (WriteError StatusInvalidRequest ''username is required'', s)
       else if role \<noteq> [] \<and> role \<noteq> DefaultUserRole \<and> role \<noteq> AdminUserRole
         then (WriteError StatusInvalidRequest (''role must be one of: '' @ DefaultUserRole @ '' '' @ AdminUserRole), s)
       else case rncuiFromRequest r of
         Inl err \<Rightarrow> (WriteError StatusInvalidRequest err, s)
       | Inr rncui \<Rightarrow>
           after_call writeCPError
             (callFunc px PutUserAPI
                (cpreq (tokenFromRequest r) (A_UserReq \<lparr>uq_Username = username, uq_UserID = [], uq_NewSecretKey = [],
                   uq_IsUpdate = False, uq_IsAdmin = (role = AdminUserRole)\<rparr>))
                True rncui 0 zero_UserResp s)
             (\<lambda>resp s1. unless_refused resp s1 (WriteDataStatus 201 (P_User (user_payload_of resp))))))"

definition handleCreateAdminUser :: "'s proxy \<Rightarrow> 's handler" where
  "handleCreateAdminUser px r s = require r ''POST'' s
     (decodeJSONBody (js_CreateAdminUser (px_json px) (hq_Body r)) s (\<lambda>req.
       if trim_space (ca_username req) = [] then (WriteError StatusInvalidRequest ''username is required'', s)
       else case rncuiFromRequest r of
         Inl err \<Rightarrow> (WriteError StatusInvalidRequest err, s)
       | Inr rncui \<Rightarrow>
           after_call writeCPError
             (callFunc px AdminUserAPI
                (cpreq [] (A_UserReq \<lparr>uq_Username = ca_username req, uq_UserID = [],
                   uq_NewSecretKey = ca_secret_key req, uq_IsUpdate = False, uq_IsAdmin = False\<rparr>))
                True rncui 0 zero_UserResp s)
             (\<lambda>resp s1. unless_refused resp s1 (WriteData (P_User (user_payload_of resp))))))"

definition user_get_request :: "string \<Rightarrow> string \<Rightarrow> string \<Rightarrow> cp_req" where
  "user_get_request token uid username = cpreq token (A_UserGetReq \<lparr>ug_UserID = uid, ug_Username = username\<rparr>)"

definition handleListUsers :: "'s proxy \<Rightarrow> 's handler" where
  "handleListUsers px r s = require r ''GET'' s
     (after_call writeCPError
        (callFunc px GetUserAPI (user_get_request (tokenFromRequest r) [] (trim_space (hq_Query r ''username'')))
           False [] 0 zero_UserResps s)
        (\<lambda>users s1. (WriteData (P_Users (map userDataFromResp users)), s1)))"

definition handleGetUser :: "'s proxy \<Rightarrow> 's handler" where
  "handleGetUser px r s = require r ''GET'' s
     (let i = trim_space (hq_PathValue r ''id'') in
      if \<not> px_uuid_ok px i then (WriteError StatusInvalidRequest ''invalid user id'', s)
      else after_call writeCPError
        (callFunc px GetUserAPI (user_get_request (tokenFromRequest r) i []) False [] 0 zero_UserResps s)
        (\<lambda>users s1. case users of
             [] \<Rightarrow> (WriteError StatusNotFound (''user not found: '' @ i), s1)
           | u # _ \<Rightarrow> (WriteData (P_User (user_payload_of u)), s1)))"

definition rest_handleUpdateUser :: "'s proxy \<Rightarrow> 's handler" where
  "rest_handleUpdateUser px r s = require r ''PUT'' s
     (let i = trim_space (hq_PathValue r ''id'') in
      if \<not> px_uuid_ok px i then (WriteError StatusInvalidRequest ''invalid user id'', s)
      else decodeJSONBody (js_UpdateUser (px_json px) (hq_Body r)) s (\<lambda>req.
        let username = trim_space (uu_username req) in
        if username = [] \<and> uu_new_secret_key req = []
          then (WriteError StatusInvalidRequest ''nothing to update: provide username and/or new_secret_key'', s)
        else case rncuiFromRequest r of
          Inl err \<Rightarrow> (WriteError StatusInvalidRequest err, s)
        | Inr rncui \<Rightarrow>
            after_call writeCPError
              (callFunc px PutUserAPI
                 (cpreq (tokenFromRequest r) (A_UserReq \<lparr>uq_Username = username, uq_UserID = i,
                    uq_NewSecretKey = uu_new_secret_key req, uq_IsUpdate = True, uq_IsAdmin = False\<rparr>))
                 True rncui 0 zero_UserResp s)
              (\<lambda>resp s1. unless_refused resp s1 (WriteData (P_User (user_payload_of resp))))))"

subsection \<open>The router\<close>

text \<open>
  \<open>http.ServeMux\<close> with patterns of a method and path segments: a wildcard takes one segment that is not
  empty, a GET pattern matches HEAD as well, a path known under other methods only answers 405.
\<close>

datatype seg = Lit string | Wild string

fun match_segs :: "seg list \<Rightarrow> string list \<Rightarrow> (string \<times> string) list option" where
  "match_segs [] [] = Some []"
| "match_segs (Lit l # ps) (x # xs) = (if l = x then match_segs ps xs else None)"
| "match_segs (Wild v # ps) (x # xs) = (if x = [] then None else map_option (\<lambda>b. (v, x) # b) (match_segs ps xs))"
| "match_segs _ _ = None"

type_synonym 's route = "string \<times> seg list \<times> 's handler"

abbreviation (input) user_id_path :: "seg list" where "user_id_path \<equiv> [Lit ''api'', Lit ''users'', Wild ''id'']"

definition rest_routes :: "'s proxy \<Rightarrow> 's route list" where
  "rest_routes px =
     [(''POST'', [Lit ''api'', Lit ''vdev''], handleCreateVdev px),
      (''GET'', [Lit ''api'', Lit ''vdev''], handleGetVdev px),
      (''DELETE'', [Lit ''api'', Lit ''vdev'', Wild ''id''], handleDeleteVdev px),
      (''POST'', [Lit ''api'', Lit ''snap''], handleCreateSnap px),
      (''POST'', [Lit ''api'', Lit ''vdev'', Lit ''mount''], handleMountVdev px),
      (''GET'', [Lit ''api'', Lit ''resource''], handleGetResource px),
      (''PUT'', [Lit ''api'', Lit ''resource''], handlePutResource px),
      (''GET'', [Lit ''api'', Lit ''infra''], handleGetInfra px),
      (''POST'', [Lit ''api'', Lit ''pfs''], handlePutPFS px),
      (''GET'', [Lit ''api'', Lit ''pfs''], handleGetPFS px),
      (''POST'', [Lit ''api'', Lit ''nisd_args''], handlePutNisdArgs px),
      (''GET'', [Lit ''api'', Lit ''nisd_args''], handleGetNisdArgs px),
      (''GET'', [Lit ''api'', Lit ''nisd''], handleGetNisd px),
      (''GET'', [Lit ''api'', Lit ''chunk''], handleGetChunk px),
      (''GET'', [Lit ''api'', Lit ''recovery_assignment''], handleGetRecoveryAssignment px),
      (''POST'', [Lit ''users'', Lit ''login''], handleLogin px),
      (''POST'', [Lit ''users'', Lit ''admin''], handleCreateAdminUser px),
      (''POST'', [Lit ''api'', Lit ''users''], handleCreateUser px),
      (''GET'', [Lit ''api'', Lit ''users''], handleListUsers px),
      (''GET'', user_id_path, handleGetUser px),
      (''PUT'', user_id_path, rest_handleUpdateUser px)]"

definition route_matches :: "http_req \<Rightarrow> 's route \<Rightarrow> bool" where
  "route_matches r = (\<lambda>(m, p, h). (m = hq_Method r \<or> m = ''GET'' \<and> hq_Method r = ''HEAD'')
                                   \<and> match_segs p (hq_Segs r) \<noteq> None)"

definition restMux :: "'s proxy \<Rightarrow> 's handler" where
  "restMux px r s =
     (case find (route_matches r) (rest_routes px) of
        Some (m, p, h) \<Rightarrow>
          h (r\<lparr>hq_PathValue := (\<lambda>v. case map_of (the (match_segs p (hq_Segs r))) v of Some x \<Rightarrow> x | None \<Rightarrow> [])\<rparr>) s
      | None \<Rightarrow>
          if \<exists>(m, p, h) \<in> set (rest_routes px). match_segs p (hq_Segs r) \<noteq> None
          then (\<lparr>rw_code = 405, rw_body = TextBody ''Method Not Allowed''\<rparr>, s)
          else (\<lparr>rw_code = 404, rw_body = TextBody ''404 page not found''\<rparr>, s))"

end
