(* ===== verification/ProxySpec.thy ===== *)
theory ProxySpec
  imports ProxyRest
begin

section \<open>What the REST front end promises\<close>

text \<open>
  The calls a request leads to, whatever PMDB answers; the shape of the responses; the vdev that a
  request asks for; and the tree of \<open>GET /api/infra\<close>.
\<close>

named_theorems handler_rules

subsection \<open>Responses\<close>

text \<open>
  An envelope with an error has a status other than 0, and its HTTP status is 200 (a method error) or
  the one its status maps to; an envelope with data has 200 or 201.
\<close>

fun envelope_ok :: "http_resp \<Rightarrow> bool" where
  "envelope_ok \<lparr>rw_code = c, rw_body = ErrorBody st msg\<rparr> \<longleftrightarrow> st \<noteq> StatusOK \<and> (c = 200 \<or> c = httpStatus st)"
| "envelope_ok \<lparr>rw_code = c, rw_body = DataBody p\<rparr> \<longleftrightarrow> c = 200 \<or> c = 201"
| "envelope_ok \<lparr>rw_code = c, rw_body = TextBody t\<rparr> \<longleftrightarrow> c = 404 \<or> c = 405"

text \<open>A response of an endpoint other than those of users: 200, but 405 for a method it does not have.\<close>

definition method_ok :: "http_req \<Rightarrow> http_resp \<Rightarrow> bool" where
  "method_ok r resp \<longleftrightarrow> envelope_ok resp \<and> (hq_Method r \<noteq> ''HEAD'' \<longrightarrow> rw_code resp = 200)"

lemma writers_ok [simp]:
  "envelope_ok (WriteData p)"
  "envelope_ok (WriteDataStatus 201 p)"
  "st \<noteq> StatusOK \<Longrightarrow> envelope_ok (WriteError st msg)"
  "st \<noteq> StatusOK \<Longrightarrow> envelope_ok (WriteMethodError st msg)"
  "rw_code (WriteData p) = 200"
  "rw_code (WriteMethodError st msg) = 200"
  by (simp_all add: WriteData_def WriteDataStatus_def WriteError_def WriteMethodError_def)

lemma statusForCPError_not_ok [simp]: "statusForCPError e \<noteq> StatusOK"
  by (simp add: statusForCPError_def split: cp_err_code.split)

lemma statusForUserMsg_not_ok [simp]: "statusForUserMsg m \<noteq> StatusOK"
  by (simp add: statusForUserMsg_def Let_def)

lemma cp_errors_ok [simp]:
  "envelope_ok (writeCPError err e)"
  "envelope_ok (writeMethodCPError err e)"
  "rw_code (writeMethodCPError err e) = 200"
  by (simp_all add: writeCPError_def writeMethodCPError_def split: option.split)

lemma method_ok_writers [simp]:
  "method_ok r (WriteData p)"
  "st \<noteq> StatusOK \<Longrightarrow> method_ok r (WriteMethodError st msg)"
  "method_ok r (writeMethodCPError err e)"
  by (simp_all add: method_ok_def)

lemma after_call_method [handler_rules]:
  "(\<And>v s1. method_ok r (fst (k v s1))) \<Longrightarrow> method_ok r (fst (after_call writeMethodCPError res k))"
  by (cases res) (auto simp: after_call_def)

lemma after_call_user [handler_rules]:
  "(\<And>v s1. envelope_ok (fst (k v s1))) \<Longrightarrow> envelope_ok (fst (after_call writeCPError res k))"
  by (cases res) (auto simp: after_call_def)

lemma require_method [handler_rules]:
  assumes "method_ok r (fst k)" and "hq_Method r = m \<or> hq_Method r = ''HEAD''"
  shows "method_ok r (fst (require r m s k))"
  using assms by (auto simp: require_def requireMethod_def method_ok_def)

lemma require_user [handler_rules]: "envelope_ok (fst k) \<Longrightarrow> envelope_ok (fst (require r m s k))"
  by (simp add: require_def requireMethod_def)

lemma decode_method [handler_rules]:
  "(\<And>req. method_ok r (fst (k req))) \<Longrightarrow> method_ok r (fst (decodeJSONBodyMethod b s k))"
  by (cases b) (simp_all add: decodeJSONBodyMethod_def)

lemma decode_user [handler_rules]:
  "(\<And>req. envelope_ok (fst (k req))) \<Longrightarrow> envelope_ok (fst (decodeJSONBody b s k))"
  by (cases b) (simp_all add: decodeJSONBody_def)

lemma unless_refused_ok [handler_rules]: "envelope_ok ok \<Longrightarrow> envelope_ok (fst (unless_refused resp s ok))"
  by (simp add: unless_refused_def)

lemma runEntityWrite_method [handler_rules]: "method_ok r (fst (runEntityWrite px r op p i s))"
  unfolding runEntityWrite_def by (cases "rncuiFromRequest r") (auto intro: handler_rules)

lemma put_case_method [handler_rules]: "method_ok r (fst (put_case px r b key missing op build s))"
  unfolding put_case_def by (rule decode_method) (simp add: runEntityWrite_method)

text \<open>The handlers outside the user endpoints, under the method of their route.\<close>

lemma method_handlers:
  "hq_Method r = ''GET'' \<or> hq_Method r = ''HEAD'' \<Longrightarrow> method_ok r (fst (handleGetVdev px r s))"
  "hq_Method r = ''GET'' \<or> hq_Method r = ''HEAD'' \<Longrightarrow> method_ok r (fst (handleGetNisd px r s))"
  "hq_Method r = ''GET'' \<or> hq_Method r = ''HEAD'' \<Longrightarrow> method_ok r (fst (handleGetChunk px r s))"
  "hq_Method r = ''GET'' \<or> hq_Method r = ''HEAD'' \<Longrightarrow> method_ok r (fst (handleGetRecoveryAssignment px r s))"
  "hq_Method r = ''POST'' \<Longrightarrow> method_ok r (fst (handleCreateVdev px r s))"
  "hq_Method r = ''POST'' \<Longrightarrow> method_ok r (fst (handlePutPFS px r s))"
  "hq_Method r = ''POST'' \<Longrightarrow> method_ok r (fst (handlePutNisdArgs px r s))"
  "hq_Method r = ''POST'' \<Longrightarrow> method_ok r (fst (handleCreateSnap px r s))"
  "hq_Method r = ''POST'' \<Longrightarrow> method_ok r (fst (handleMountVdev px r s))"
  "method_ok r (fst (handleDeleteVdev px r s))"
  "method_ok r (fst (handlePutResource px r s))"
  "method_ok r (fst (handleGetResource px r s))"
  "method_ok r (fst (handleGetPFS px r s))"
  "method_ok r (fst (handleGetNisdArgs px r s))"
  "method_ok r (fst (handleGetInfra px r s))"
  subgoal by (auto simp: handleGetVdev_def Let_def intro!: handler_rules)
  subgoal by (auto simp: handleGetNisd_def Let_def intro!: handler_rules)
  subgoal by (auto simp: handleGetChunk_def Let_def intro!: handler_rules split: prod.split)
  subgoal by (auto simp: handleGetRecoveryAssignment_def Let_def intro!: handler_rules)
  subgoal by (auto simp: handleCreateVdev_def Let_def intro!: handler_rules split: sum.split go.split)
  subgoal by (auto simp: handlePutPFS_def Let_def intro!: handler_rules)
  subgoal by (auto simp: handlePutNisdArgs_def Let_def intro!: handler_rules)
  subgoal by (auto simp: handleCreateSnap_def Let_def intro!: handler_rules split: sum.split)
  subgoal by (auto simp: handleMountVdev_def Let_def intro!: handler_rules split: sum.split)
  subgoal by (auto simp: handleDeleteVdev_def Let_def intro!: handler_rules)
  subgoal by (auto simp: handlePutResource_def Let_def intro!: handler_rules)
  subgoal by (auto simp: handleGetResource_def Let_def intro!: handler_rules)
  subgoal by (auto simp: handleGetPFS_def Let_def intro!: handler_rules)
  subgoal by (auto simp: handleGetNisdArgs_def Let_def intro!: handler_rules)
  subgoal by (auto simp: handleGetInfra_def Let_def intro!: handler_rules)
  done

lemma user_handlers:
  "envelope_ok (fst (handleLogin px r s))"
  "envelope_ok (fst (handleCreateUser px r s))"
  "envelope_ok (fst (handleCreateAdminUser px r s))"
  "envelope_ok (fst (handleListUsers px r s))"
  "envelope_ok (fst (handleGetUser px r s))"
  "envelope_ok (fst (rest_handleUpdateUser px r s))"
  subgoal by (auto simp: handleLogin_def Let_def intro!: handler_rules split: prod.split)
  subgoal by (auto simp: handleCreateUser_def Let_def intro!: handler_rules split: sum.split)
  subgoal by (auto simp: handleCreateAdminUser_def Let_def intro!: handler_rules split: sum.split)
  subgoal by (auto simp: handleListUsers_def Let_def intro!: handler_rules)
  subgoal by (auto simp: handleGetUser_def Let_def intro!: handler_rules split: list.split)
  subgoal by (auto simp: rest_handleUpdateUser_def Let_def intro!: handler_rules split: sum.split)
  done

subsection \<open>Calls\<close>

text \<open>A call, and what it does to the state behind the transport of the proxy.\<close>

record call = cl_name :: string cl_req :: cp_req cl_write :: bool cl_rncui :: string cl_wsn :: int

definition transport :: "'s proxy \<Rightarrow> 's send_fn" where
  "transport px = (case px_sendFuncReqFn px of Some f \<Rightarrow> f | None \<Rightarrow> sendFuncReq (px_pmdbClientObj px))"

definition run_call :: "'s send_fn \<Rightarrow> call \<Rightarrow> 's \<Rightarrow> 's" where
  "run_call send c s = snd (send (cl_name c) (cl_req c) (cl_write c) (cl_rncui c) (cl_wsn c) s)"

text \<open>
  A write carries the RNCUI of the request and the write sequence number 0, answers a method that
  writes, and is a write of the server; a read has neither and is a read of the server.
\<close>

definition write_call_ok :: "http_req \<Rightarrow> call \<Rightarrow> bool" where
  "write_call_ok r c \<longleftrightarrow> rncuiFromRequest r = Inr (cl_rncui c) \<and> cl_wsn c = 0 \<and> hq_Method r \<in> {''POST'', ''PUT'', ''DELETE''}
     \<and> cl_name c \<in> {CREATE_VDEV, DELETE_VDEV, MOUNT_VDEV, CREATE_SNAP, PUT_PDU, PUT_RACK, PUT_HYPERVISOR, PUT_DEVICE,
                     PUT_NISD, PUT_PARTITION, PUT_PFS, PUT_NISD_ARGS, PutUserAPI, AdminUserAPI}
     \<and> rq_Token (cl_req c) = (if cl_name c = AdminUserAPI then [] else tokenFromRequest r)"

definition read_call_ok :: "http_req \<Rightarrow> call \<Rightarrow> bool" where
  "read_call_ok r c \<longleftrightarrow> cl_rncui c = []
     \<and> cl_name c \<in> {GET_VDEV_INFO, GET_NISD, GET_CHUNK_NISD, GET_ALL_RESOURCES, GET_PFS, GET_NISD_ARGS, GetUserAPI, LoginAPI}
     \<and> rq_Token (cl_req c) = (if cl_name c = LoginAPI then [] else tokenFromRequest r)"

text \<open>The calls of a request: reads, or one write and nothing else.\<close>

definition call_list_ok :: "http_req \<Rightarrow> call list \<Rightarrow> bool" where
  "call_list_ok r cs \<longleftrightarrow> list_all (\<lambda>c. \<not> cl_write c \<and> read_call_ok r c) cs
     \<or> (\<exists>c. cs = [c] \<and> cl_write c \<and> write_call_ok r c)"

definition calls_ok :: "'s send_fn \<Rightarrow> http_req \<Rightarrow> 's \<Rightarrow> 's \<Rightarrow> bool" where
  "calls_ok send r s s' \<longleftrightarrow> (\<exists>cs. s' = fold (run_call send) cs s \<and> call_list_ok r cs)"

definition reads_ok :: "'s send_fn \<Rightarrow> http_req \<Rightarrow> 's \<Rightarrow> 's \<Rightarrow> bool" where
  "reads_ok send r s s' \<longleftrightarrow>
     (\<exists>cs. s' = fold (run_call send) cs s \<and> list_all (\<lambda>c. \<not> cl_write c \<and> read_call_ok r c) cs)"

lemma reads_calls: "reads_ok send r s s' \<Longrightarrow> calls_ok send r s s'"
  unfolding reads_ok_def calls_ok_def call_list_ok_def by blast

lemma reads_ok_refl [simp]: "reads_ok send r s s"
  unfolding reads_ok_def by (rule exI[of _ "[]"]) simp

lemma calls_ok_refl [simp]: "calls_ok send r s s"
  by (rule reads_calls) simp

lemma snd_callFunc:
  "snd (callFunc px name rq w rncui wsn d s)
     = run_call (transport px) \<lparr>cl_name = name, cl_req = rq, cl_write = w, cl_rncui = rncui, cl_wsn = wsn\<rparr> s"
proof -
  obtain a s1 where t: "transport px name rq w rncui wsn s = (a, s1)" by fastforce
  note defs = callFunc_def transport_def[symmetric] run_call_def t
  show ?thesis
  proof (cases a)
    case (Inl e)
    then show ?thesis by (simp add: defs)
  next
    case (Inr b)
    then show ?thesis by (cases b) (simp_all add: defs split: option.split)
  qed
qed

text \<open>A transport that records the calls and answers anything: PMDB as the proxy sees it.\<close>

definition recording :: "(call list \<Rightarrow> string + reply) \<Rightarrow> call list send_fn" where
  "recording ans name rq w rncui wsn log =
     (let c = \<lparr>cl_name = name, cl_req = rq, cl_write = w, cl_rncui = rncui, cl_wsn = wsn\<rparr>
      in (ans (log @ [c]), log @ [c]))"

definition records :: "call list proxy \<Rightarrow> bool" where
  "records px \<longleftrightarrow> (\<exists>ans. px_sendFuncReqFn px = Some (recording ans))"

lemma run_call_recording [simp]: "run_call (recording ans) c log = log @ [c]"
  by (simp add: run_call_def recording_def Let_def)

lemma fold_recording [simp]: "fold (run_call (recording ans)) cs log = log @ cs"
  by (induction cs arbitrary: log) simp_all

lemma records_transport: "records px \<Longrightarrow> run_call (transport px) c log = log @ [c]"
  by (auto simp: records_def transport_def)

lemma after_call_keeps: "(\<And>v s1. snd (k v s1) = s1) \<Longrightarrow> snd (after_call werr res k) = snd res"
  by (cases res) (auto simp: after_call_def)

lemma after_call_reads:
  assumes "reads_ok send r log (snd res)" and "\<And>v s1. reads_ok send r log s1 \<Longrightarrow> reads_ok send r log (snd (k v s1))"
  shows "reads_ok send r log (snd (after_call werr res k))"
  using assms by (cases res) (auto simp: after_call_def)

named_theorems call_rules

lemma require_calls [call_rules]:
  "(hq_Method r = m \<Longrightarrow> calls_ok send r s (snd k)) \<Longrightarrow> calls_ok send r s (snd (require r m s k))"
  by (simp add: require_def requireMethod_def)

lemma decode_calls [call_rules]:
  "(\<And>req. calls_ok send r s (snd (k req))) \<Longrightarrow> calls_ok send r s (snd (decodeJSONBodyMethod b s k))"
  "(\<And>req. calls_ok send r s (snd (k req))) \<Longrightarrow> calls_ok send r s (snd (decodeJSONBody b s k))"
  by (simp_all add: decodeJSONBodyMethod_def decodeJSONBody_def split: sum.split)

lemma read_calls:
  assumes "reads_ok (transport px) r log0 log"
    and "name \<in> {GET_VDEV_INFO, GET_NISD, GET_CHUNK_NISD, GET_ALL_RESOURCES, GET_PFS, GET_NISD_ARGS, GetUserAPI, LoginAPI}"
    and "rq_Token rq = (if name = LoginAPI then [] else tokenFromRequest r)"
  shows "reads_ok (transport px) r log0 (snd (callFunc px name rq False [] n d log))"
proof -
  obtain cs where cs: "log = fold (run_call (transport px)) cs log0" "list_all (\<lambda>c. \<not> cl_write c \<and> read_call_ok r c) cs"
    using assms(1) by (auto simp: reads_ok_def)
  have "read_call_ok r \<lparr>cl_name = name, cl_req = rq, cl_write = False, cl_rncui = [], cl_wsn = n\<rparr>"
    using assms(2,3) by (simp add: read_call_ok_def)
  with cs show ?thesis unfolding snd_callFunc reads_ok_def
    by (intro exI[of _ "cs @ [\<lparr>cl_name = name, cl_req = rq, cl_write = False, cl_rncui = [], cl_wsn = n\<rparr>]"]) simp
qed

lemma after_read [call_rules]:
  assumes "\<And>v s1. snd (k v s1) = s1"
    and "name \<in> {GET_VDEV_INFO, GET_NISD, GET_CHUNK_NISD, GET_ALL_RESOURCES, GET_PFS, GET_NISD_ARGS, GetUserAPI, LoginAPI}"
    and "rq_Token rq = (if name = LoginAPI then [] else tokenFromRequest r)"
  shows "calls_ok (transport px) r log (snd (after_call werr (callFunc px name rq False [] n d log) k))"
  unfolding after_call_keeps[OF assms(1)] by (rule reads_calls, rule read_calls) (use assms in auto)

lemma after_write [call_rules]:
  assumes "\<And>v s1. snd (k v s1) = s1"
    and "rncuiFromRequest r = Inr rncui" and "hq_Method r \<in> {''POST'', ''PUT'', ''DELETE''}"
    and "name \<in> {CREATE_VDEV, DELETE_VDEV, MOUNT_VDEV, CREATE_SNAP, PUT_PDU, PUT_RACK, PUT_HYPERVISOR, PUT_DEVICE,
                  PUT_NISD, PUT_PARTITION, PUT_PFS, PUT_NISD_ARGS, PutUserAPI, AdminUserAPI}"
    and "rq_Token rq = (if name = AdminUserAPI then [] else tokenFromRequest r)"
  shows "calls_ok (transport px) r log (snd (after_call werr (callFunc px name rq True rncui 0 d log) k))"
proof -
  have "write_call_ok r \<lparr>cl_name = name, cl_req = rq, cl_write = True, cl_rncui = rncui, cl_wsn = 0\<rparr>"
    using assms(2-) by (simp add: write_call_ok_def)
  then show ?thesis unfolding after_call_keeps[OF assms(1)] snd_callFunc calls_ok_def call_list_ok_def
    by (intro exI[of _ "[\<lparr>cl_name = name, cl_req = rq, cl_write = True, cl_rncui = rncui, cl_wsn = 0\<rparr>]"]) simp
qed

lemma cpreq_token [simp]: "rq_Token (cpreq t p) = t" "rq_Token (user_get_request t u n) = t"
  by (simp_all add: cpreq_def user_get_request_def)

lemma unless_refused_state [simp]: "snd (unless_refused resp s ok) = s"
  by (simp add: unless_refused_def)

lemma runEntityWrite_calls [call_rules]:
  assumes "hq_Method r \<in> {''POST'', ''PUT'', ''DELETE''}"
    and "op \<in> {DELETE_VDEV, PUT_PDU, PUT_RACK, PUT_HYPERVISOR, PUT_DEVICE, PUT_NISD, PUT_PARTITION, PUT_PFS, PUT_NISD_ARGS}"
  shows "calls_ok (transport px) r log (snd (runEntityWrite px r op p i log))"
  unfolding runEntityWrite_def using assms
  by (cases "rncuiFromRequest r") (auto intro!: after_write)

lemma put_case_calls [call_rules]:
  assumes "hq_Method r \<in> {''POST'', ''PUT'', ''DELETE''}"
    and "op \<in> {DELETE_VDEV, PUT_PDU, PUT_RACK, PUT_HYPERVISOR, PUT_DEVICE, PUT_NISD, PUT_PARTITION, PUT_PFS, PUT_NISD_ARGS}"
  shows "calls_ok (transport px) r log (snd (put_case px r b key missing op build log))"
  unfolding put_case_def using runEntityWrite_calls[OF assms] by (auto intro!: decode_calls)

lemma read_handlers_calls:
  shows "calls_ok (transport px) r s (snd (handleGetVdev px r s))"
    "calls_ok (transport px) r s (snd (handleGetNisd px r s))"
    "calls_ok (transport px) r s (snd (handleGetChunk px r s))"
    "calls_ok (transport px) r s (snd (handleGetRecoveryAssignment px r s))"
    "calls_ok (transport px) r s (snd (handleGetResource px r s))"
    "calls_ok (transport px) r s (snd (handleGetPFS px r s))"
    "calls_ok (transport px) r s (snd (handleGetNisdArgs px r s))"
    "calls_ok (transport px) r s (snd (handleListUsers px r s))"
    "calls_ok (transport px) r s (snd (handleGetUser px r s))"
  subgoal by (auto simp: handleGetVdev_def Let_def intro!: call_rules)
  subgoal by (auto simp: handleGetNisd_def Let_def intro!: call_rules)
  subgoal by (auto simp: handleGetChunk_def Let_def intro!: call_rules split: prod.split)
  subgoal by (auto simp: handleGetRecoveryAssignment_def Let_def intro!: call_rules)
  subgoal by (auto simp: handleGetResource_def getResourcesByType_def Let_def intro!: call_rules)
  subgoal by (auto simp: handleGetPFS_def Let_def intro!: call_rules)
  subgoal by (auto simp: handleGetNisdArgs_def Let_def intro!: call_rules)
  subgoal by (auto simp: handleListUsers_def Let_def intro!: call_rules)
  subgoal by (auto simp: handleGetUser_def Let_def intro!: call_rules split: list.split)
  done

lemma handleGetInfra_calls:
  shows "calls_ok (transport px) r s (snd (handleGetInfra px r s))"
  unfolding handleGetInfra_def getResourcesByType_def
  by (rule reads_calls) (intro after_call_reads read_calls reads_ok_refl, simp_all)

lemma handleLogin_calls:
  shows "calls_ok (transport px) r s (snd (handleLogin px r s))"
proof -
  have "calls_ok (transport px) r s (snd (callFunc px LoginAPI (cpreq [] p) False [] n zero_LoginResp s))" for p n
    by (rule reads_calls, rule read_calls) simp_all
  then show ?thesis
    unfolding handleLogin_def by (auto simp: split_beta intro!: require_calls decode_calls)
qed

lemma write_handlers_calls:
  shows "hq_Method r = ''POST'' \<Longrightarrow> calls_ok (transport px) r s (snd (handleCreateVdev px r s))"
    "hq_Method r = ''POST'' \<Longrightarrow> calls_ok (transport px) r s (snd (handlePutPFS px r s))"
    "hq_Method r = ''POST'' \<Longrightarrow> calls_ok (transport px) r s (snd (handlePutNisdArgs px r s))"
    "hq_Method r = ''POST'' \<Longrightarrow> calls_ok (transport px) r s (snd (handleCreateSnap px r s))"
    "hq_Method r = ''POST'' \<Longrightarrow> calls_ok (transport px) r s (snd (handleMountVdev px r s))"
    "hq_Method r = ''DELETE'' \<Longrightarrow> calls_ok (transport px) r s (snd (handleDeleteVdev px r s))"
    "hq_Method r = ''PUT'' \<Longrightarrow> calls_ok (transport px) r s (snd (handlePutResource px r s))"
    "hq_Method r = ''POST'' \<Longrightarrow> calls_ok (transport px) r s (snd (handleCreateUser px r s))"
    "hq_Method r = ''POST'' \<Longrightarrow> calls_ok (transport px) r s (snd (handleCreateAdminUser px r s))"
    "hq_Method r = ''PUT'' \<Longrightarrow> calls_ok (transport px) r s (snd (rest_handleUpdateUser px r s))"
  subgoal by (auto simp: handleCreateVdev_def Let_def intro!: call_rules split: sum.split go.split)
  subgoal by (auto simp: handlePutPFS_def Let_def intro!: call_rules)
  subgoal by (auto simp: handlePutNisdArgs_def Let_def intro!: call_rules)
  subgoal by (auto simp: handleCreateSnap_def Let_def intro!: call_rules split: sum.split)
  subgoal by (auto simp: handleMountVdev_def Let_def intro!: call_rules split: sum.split)
  subgoal by (auto simp: handleDeleteVdev_def Let_def intro!: call_rules)
  subgoal by (auto simp: handlePutResource_def Let_def intro!: call_rules)
  subgoal by (auto simp: handleCreateUser_def Let_def intro!: call_rules split: sum.split)
  subgoal by (auto simp: handleCreateAdminUser_def Let_def intro!: call_rules split: sum.split)
  subgoal by (auto simp: rest_handleUpdateUser_def Let_def intro!: call_rules split: sum.split)
  done

subsection \<open>The router\<close>

text \<open>A request is answered by the handler of a route that matches, or with a text and no call.\<close>

lemma restMux_cases:
  obtains (route) m p h r' where "(m, p, h) \<in> set (rest_routes px)" and "m = hq_Method r \<or> m = ''GET'' \<and> hq_Method r = ''HEAD''"
      and "match_segs p (hq_Segs r) \<noteq> None" and "hq_Method r' = hq_Method r" and "hq_Header r' = hq_Header r"
      and "restMux px r s = h r' s"
  | (none) c t where "restMux px r s = (\<lparr>rw_code = c, rw_body = TextBody t\<rparr>, s)" and "c = 404 \<or> c = 405"
proof (cases "find (route_matches r) (rest_routes px)")
  case None
  then have "\<exists>c t. restMux px r s = (\<lparr>rw_code = c, rw_body = TextBody t\<rparr>, s) \<and> (c = 404 \<or> c = 405)"
    by (simp add: restMux_def)
  then show ?thesis using none by blast
next
  case (Some x)
  obtain m p h where x: "x = (m, p, h)" by (cases x)
  have "x \<in> set (rest_routes px)" and "route_matches r x"
    using Some by (auto simp: find_Some_iff dest: nth_mem)
  then show ?thesis using Some by (intro route[of m p h]) (auto simp: x route_matches_def restMux_def)
qed

text \<open>The HTTP method and the headers are all that a response or a call depends on here.\<close>

lemma same_head:
  assumes "hq_Method r' = hq_Method r" and "hq_Header r' = hq_Header r"
  shows "method_ok r' = method_ok r" and "calls_ok send r' = calls_ok send r"
proof -
  have t: "tokenFromRequest r' = tokenFromRequest r" "rncuiFromRequest r' = rncuiFromRequest r"
    by (simp_all add: tokenFromRequest_def rncuiFromRequest_def assms)
  show "method_ok r' = method_ok r" by (rule ext) (simp add: method_ok_def assms)
  have "read_call_ok r' = read_call_ok r" "write_call_ok r' = write_call_ok r"
    by (rule ext, simp add: read_call_ok_def t, rule ext, simp add: write_call_ok_def t assms)
  then show "calls_ok send r' = calls_ok send r" by (intro ext) (simp add: calls_ok_def call_list_ok_def)
qed

lemma route_responses:
  assumes "(m, p, h) \<in> set (rest_routes px)" and "m = hq_Method r \<or> m = ''GET'' \<and> hq_Method r = ''HEAD''"
  shows "envelope_ok (fst (h r s))"
    and "\<not> (\<exists>ps. p = Lit ''users'' # ps \<or> p = Lit ''api'' # Lit ''users'' # ps) \<Longrightarrow> method_ok r (fst (h r s))"
proof -
  note method_ok_envelope = iffD1[OF method_ok_def, THEN conjunct1]
  show "envelope_ok (fst (h r s))"
    using assms unfolding rest_routes_def
    by (simp only: list.set insert_iff empty_iff prod.inject)
       (elim disjE conjE; clarsimp simp: user_handlers method_handlers[THEN method_ok_envelope])
  show "method_ok r (fst (h r s))" if "\<not> (\<exists>ps. p = Lit ''users'' # ps \<or> p = Lit ''api'' # Lit ''users'' # ps)"
    using assms that unfolding rest_routes_def
    by (simp only: list.set insert_iff empty_iff prod.inject)
       (elim disjE conjE; clarsimp simp: method_handlers)
qed

lemma route_calls:
  assumes "(m, p, h) \<in> set (rest_routes px)" and "m = hq_Method r \<or> m = ''GET'' \<and> hq_Method r = ''HEAD''"
  shows "calls_ok (transport px) r s (snd (h r s))"
  using assms(1,2) unfolding rest_routes_def
  by (simp only: list.set insert_iff empty_iff prod.inject)
     (elim disjE conjE; clarsimp simp: read_handlers_calls write_handlers_calls handleGetInfra_calls handleLogin_calls)

section \<open>Properties\<close>

text \<open>
  The status of a response. Whatever PMDB answers, an error envelope has a status other than 0
  and data come with a success code; outside \<open>/users\<close> and \<open>/api/users\<close>, a request that is not a HEAD
  request gets HTTP 200 with an envelope, or the router's 404 or 405.
\<close>

lemma rest_status:
  "envelope_ok (fst (restMux px r s))
   \<and> (hq_Method r \<noteq> ''HEAD'' \<and> take 1 (hq_Segs r) \<noteq> [''users''] \<and> take 2 (hq_Segs r) \<noteq> [''api'', ''users'']
      \<longrightarrow> rw_code (fst (restMux px r s)) = 200 \<or> (\<exists>t. rw_body (fst (restMux px r s)) = TextBody t))"
proof (cases rule: restMux_cases[of px r s])
  case (route m p h r')
  have m: "m = hq_Method r' \<or> m = ''GET'' \<and> hq_Method r' = ''HEAD''" using route(2,4) by simp
  have "method_ok r' (fst (h r' s))"
    if "take 1 (hq_Segs r) \<noteq> [''users'']" "take 2 (hq_Segs r) \<noteq> [''api'', ''users'']"
  proof (rule route_responses(2)[OF route(1) m], rule notI, elim exE)
    fix ps assume p: "p = Lit ''users'' # ps \<or> p = Lit ''api'' # Lit ''users'' # ps"
    show False using route(3) that p
      by (cases "hq_Segs r"; cases "tl (hq_Segs r)") (auto split: if_splits)
  qed
  then show ?thesis
    using route_responses(1)[OF route(1) m, of s] route(4,6) by (auto simp: method_ok_def)
next
  case (none c t)
  then show ?thesis by auto
qed

lemma restMux_calls: "calls_ok (transport px) r s (snd (restMux px r s))"
proof (cases rule: restMux_cases[of px r s])
  case (route m p h r')
  have m: "m = hq_Method r' \<or> m = ''GET'' \<and> hq_Method r' = ''HEAD''" using route(2,4) by simp
  from route_calls[OF route(1) m] show ?thesis
    unfolding route(6) same_head(2)[OF route(4,5)] .
next
  case (none c t)
  then show ?thesis by simp
qed

text \<open>
  C18: the calls of a request. A request does nothing to what lies behind the transport but the calls of
  a list that has reads only, or one write and nothing else: the write carries the trimmed, non-empty
  \<open>X-RNCUI\<close> header of the request and the sequence number 0, and answers POST, PUT or DELETE. Every call
  has the bearer token of the request, but a login and the creation of the administrator, which have
  none. When the transport records its calls, that list is the record, whatever PMDB answers.
\<close>

theorem rest_calls:
  "calls_ok (transport px) r s (snd (restMux px r s))
   \<and> (px_sendFuncReqFn px' = Some (recording ans) \<longrightarrow> (\<exists>cs. snd (restMux px' r log) = log @ cs \<and> call_list_ok r cs))"
  using restMux_calls[of px r s] restMux_calls[of px' r log] by (auto simp: calls_ok_def transport_def)

section \<open>Witnesses\<close>

definition sample_vdev_request :: create_vdev_request where
  "sample_vdev_request = \<lparr>cv_size_bytes = 8589934593, cv_data_blk_cnt = 255, cv_parity_blk_cnt = 2, cv_redundancy = 1,
     cv_failure_domain = '' Rack'', cv_entity_ids = [''r1''], cv_pfs = [], cv_name = ''vol''\<rparr>"

definition sample_codec :: json_codec where
  "sample_codec = \<lparr>js_CreateVdev = (\<lambda>_. Inr sample_vdev_request), js_PDU = (\<lambda>_. Inl ''EOF''), js_Rack = (\<lambda>_. Inl ''EOF''),
     js_Hypervisor = (\<lambda>_. Inl ''EOF''), js_Device = (\<lambda>_. Inl ''EOF''), js_NISD = (\<lambda>_. Inl ''EOF''),
     js_Partition = (\<lambda>_. Inl ''EOF''), js_PFS = (\<lambda>_. Inl ''EOF''), js_NisdArgs = (\<lambda>_. Inl ''EOF''),
     js_CreateSnap = (\<lambda>_. Inl ''EOF''), js_MountVdev = (\<lambda>_. Inl ''EOF''), js_Login = (\<lambda>_. Inl ''EOF''),
     js_CreateUser = (\<lambda>_. Inl ''EOF''), js_CreateAdminUser = (\<lambda>_. Inl ''EOF''), js_UpdateUser = (\<lambda>_. Inl ''EOF'')\<rparr>"

definition sample_proxy :: "call list proxy" where
  "sample_proxy = \<lparr>
     px_pmdbClientObj = \<lparr>pc_Put = (\<lambda>_ s. ((None, None), s)), pc_Get = (\<lambda>_ s. ((None, None), s))\<rparr>,
     px_sendFuncReqFn = Some (recording (\<lambda>_. Inr (Reply (CPResp None None (A_ResponseXML
        \<lparr>rx_Name = [], rx_ID = ''v1'', rx_Error = [], rx_Success = True\<rparr>))))),
     px_json = sample_codec, px_uuid_ok = (\<lambda>_. True), px_quote = (\<lambda>s. s)\<rparr>"

definition sample_post :: http_req where
  "sample_post = \<lparr>hq_Method = ''POST'', hq_Segs = [''api'', ''vdev''],
     hq_Header = (\<lambda>h. if h = rncuiHeader then '' w1 '' else if h = ''Authorization'' then ''bearer t'' else []),
     hq_Query = (\<lambda>_. []), hq_PathValue = (\<lambda>_. []), hq_Body = []\<rparr>"

lemma sample_headers:
  "rncuiFromRequest sample_post = Inr ''w1''" "tokenFromRequest sample_post = ''t''"
  by code_simp+

lemma sample_fd: "ParseFD '' Rack'' = Ret FD_RACK"
  by code_simp

lemma sample_create_vdev:
  "snd (handleCreateVdev sample_proxy sample_post [])
     = [\<lparr>cl_name = CREATE_VDEV, cl_req = cpreq ''t'' (A_VdevReq (Some (vdevCfg_of (\<lambda>_. True) sample_vdev_request))
            \<lparr>f_ID = ''r1'', f_Type = FD_RACK\<rparr>), cl_write = True, cl_rncui = ''w1'', cl_wsn = 0\<rparr>]"
proof -
  have rec: "records sample_proxy" unfolding records_def sample_proxy_def by (intro exI) simp
  have m: "requireMethod sample_post ''POST'' = None" by (simp add: requireMethod_def sample_post_def)
  have j: "js_CreateVdev (px_json sample_proxy) b = Inr sample_vdev_request" for b
    by (simp add: sample_proxy_def sample_codec_def)
  have u: "px_uuid_ok sample_proxy = (\<lambda>_. True)" by (simp add: sample_proxy_def)
  have r: "\<not> cv_size_bytes sample_vdev_request <s 1" "cv_data_blk_cnt sample_vdev_request = 255"
    "ParseFD (cv_failure_domain sample_vdev_request) = Ret FD_RACK" "cv_entity_ids sample_vdev_request = [''r1'']"
    by (simp_all add: sample_vdev_request_def word_sless_alt sample_fd)
  show ?thesis
    by (simp add: handleCreateVdev_def require_def m decodeJSONBodyMethod_def j r sample_headers Let_def u
        after_call_keeps snd_callFunc records_transport[OF rec])
qed

theorem rest_calls_witness:
  "\<exists>cs. snd (restMux sample_proxy sample_post []) = cs \<and> call_list_ok sample_post cs"
proof -
  have "px_sendFuncReqFn sample_proxy = Some (recording (\<lambda>_. Inr (Reply (CPResp None None (A_ResponseXML
        \<lparr>rx_Name = [], rx_ID = ''v1'', rx_Error = [], rx_Success = True\<rparr>)))))"
    by (simp add: sample_proxy_def)
  with rest_calls[of sample_proxy sample_post "[]" sample_proxy _ "[]"] show ?thesis by auto
qed

theorem rest_status_witness:
  "rw_code (fst (restMux sample_proxy sample_post [])) = 200
     \<or> (\<exists>t. rw_body (fst (restMux sample_proxy sample_post [])) = TextBody t)"
  by (rule mp[OF conjunct2[OF rest_status]]) (simp add: sample_post_def)

end
