(* ===== verification/ParserOrder.thy ===== *)
theory ParserOrder
  imports Parser
begin

section \<open>Parsing does not depend on the order of the map\<close>

text \<open>
  The contract of the interface \<open>ParseEntity\<close> and what \<open>ParseEntities\<close> guarantees under it: two visit
  orders of the same result map give the same entities, up to the equivalence the parser allows
  (the order of addresses, of partitions, of placements). Every parser of \<open>parser.go\<close> is an
  interpretation of the locale.
\<close>

subsection \<open>The loop as a fold per entity\<close>

definition key_relevant :: "string \<Rightarrow> nat \<Rightarrow> string \<times> string \<Rightarrow> bool" where
  "key_relevant root idx kv \<longleftrightarrow> idx < length (key_parts (fst kv)) \<and> key_parts (fst kv) ! 0 = root"

definition key_id :: "nat \<Rightarrow> string \<times> string \<Rightarrow> string" where
  "key_id idx kv = key_parts (fst kv) ! idx"

definition build_entity ::
  "('e, 'r) parse_entity \<Rightarrow> ('e \<Rightarrow> string list \<Rightarrow> string \<Rightarrow> 'e) \<Rightarrow> nat \<Rightarrow> 'e \<Rightarrow> string \<Rightarrow> (string \<times> string) list \<Rightarrow> 'e" where
  "build_entity P pf idx e0 i kvs =
     foldl (\<lambda>e kv. pf e (key_parts (fst kv)) (snd kv)) e0
       (filter (\<lambda>kv. key_relevant (pe_GetRootKey P) idx kv \<and> key_id idx kv = i) kvs)"

lemma rel_mset_map_of:
  assumes "distinct (map fst xs)" "distinct (map fst ys)" "fst ` set xs = fst ` set ys"
    and "\<And>k x y. map_of xs k = Some x \<Longrightarrow> map_of ys k = Some y \<Longrightarrow> R (h x) (h y)"
  shows "rel_mset R (mset (map (\<lambda>(_, e). h e) xs)) (mset (map (\<lambda>(_, e). h e) ys))"
proof -
  let ?ys = "map (\<lambda>k. (k, the (map_of ys k))) (map fst xs)"
  have "set ?ys = set ys"
  proof
    show "set ?ys \<subseteq> set ys"
    proof
      fix p assume "p \<in> set ?ys"
      then obtain k where k: "k \<in> fst ` set xs" "p = (k, the (map_of ys k))" by auto
      with assms(3) obtain v where "map_of ys k = Some v" by (metis domD dom_map_of_conv_image_fst)
      with k show "p \<in> set ys" by (simp add: map_of_SomeD)
    qed
    show "set ys \<subseteq> set ?ys"
    proof
      fix p assume p: "p \<in> set ys"
      with assms(2) have "map_of ys (fst p) = Some (snd p)" by simp
      moreover from p assms(3) have "fst p \<in> fst ` set xs" by (metis imageI)
      ultimately show "p \<in> set ?ys" by (force simp: image_iff)
    qed
  qed
  moreover have "distinct ?ys" using assms(1) by (auto simp: distinct_map inj_on_def)
  moreover have "distinct ys" using assms(2) by (simp add: distinct_map)
  ultimately have "mset ?ys = mset ys" by (metis set_eq_iff_mset_eq_distinct)
  then have m: "mset (map (\<lambda>(_, e). h e) ?ys) = mset (map (\<lambda>(_, e). h e) ys)" by (metis mset_map)
  have "R (h (snd p)) (h (the (map_of ys (fst p))))" if "p \<in> set xs" for p
  proof -
    from that assms(1) have "map_of xs (fst p) = Some (snd p)" by simp
    moreover from that assms(3) obtain v where "map_of ys (fst p) = Some v"
      by (metis domD dom_map_of_conv_image_fst imageI)
    ultimately show ?thesis using assms(4) by simp
  qed
  then have "list_all2 R (map (\<lambda>(_, e). h e) xs) (map (\<lambda>(_, e). h e) ?ys)"
    by (simp add: list_all2_conv_all_nth case_prod_beta)
  with m show ?thesis unfolding rel_mset_def by blast
qed

locale entity_parser =
  fixes P :: "('e, 'r) parse_entity"
    and pf :: "'e \<Rightarrow> string list \<Rightarrow> string \<Rightarrow> 'e"
    and idx :: nat
    and reg :: "string list \<Rightarrow> bool"
    and slot :: "string list \<Rightarrow> string list"
    and eqv :: "'e \<Rightarrow> 'e \<Rightarrow> bool"
    and req :: "'r \<Rightarrow> 'r \<Rightarrow> bool"
  assumes field_ok: "reg p \<Longrightarrow> pe_ParseField P e p v = Ret (pf e p v)"
    and eqv_equivp: "equivp eqv"
    and field_eqv: "eqv e e' \<Longrightarrow> eqv (pf e p v) (pf e' p v)"
    and field_commute: "idx < length p \<Longrightarrow> idx < length q \<Longrightarrow> p ! 0 = q ! 0 \<Longrightarrow> p ! idx = q ! idx \<Longrightarrow>
          slot p \<noteq> slot q \<Longrightarrow> eqv (pf (pf e q w) p v) (pf (pf e p v) q w)"
    and get_eqv: "eqv e e' \<Longrightarrow> req (pe_GetEntity P e) (pe_GetEntity P e')"
begin

abbreviation relevant :: "string \<times> string \<Rightarrow> bool" where
  "relevant \<equiv> key_relevant (pe_GetRootKey P) idx"

text \<open>A result map the parser reads without a panic, no two of its keys naming the same field.\<close>

definition regular :: "(string \<times> string) list \<Rightarrow> bool" where
  "regular kvs \<longleftrightarrow>
     (\<forall>kv \<in> set kvs. relevant kv \<longrightarrow> reg (key_parts (fst kv))) \<and>
     distinct (map (\<lambda>kv. slot (key_parts (fst kv))) (filter relevant kvs))"

lemma parse_from:
  assumes "\<forall>kv \<in> set kvs. relevant kv \<longrightarrow> reg (key_parts (fst kv))" and "distinct (map fst em)"
  shows "\<exists>em'. ParseEntitiesMap_from P idx em kvs = Ret em' \<and> distinct (map fst em') \<and>
           fst ` set em' = fst ` set em \<union> key_id idx ` (set (filter relevant kvs)) \<and>
           (\<forall>i \<in> fst ` set em'. map_of em' i =
              Some (build_entity P pf idx (case map_of em i of Some e \<Rightarrow> e | None \<Rightarrow> pe_NewEntity P i) i kvs))"
  using assms
proof (induction kvs arbitrary: em)
  case Nil
  have "map_of em i = Some (case map_of em i of Some e \<Rightarrow> e | None \<Rightarrow> pe_NewEntity P i)"
    if "i \<in> fst ` set em" for i
    using that by (auto simp: map_of_eq_None_iff image_iff split: option.splits)
  with Nil show ?case by (simp add: build_entity_def)
next
  case (Cons kv kvs)
  obtain k v where kv: "kv = (k, v)" by (cases kv)
  let ?p = "key_parts k"
  show ?case
  proof (cases "relevant kv")
    case False
    then have skip: "length ?p \<le> idx \<or> ?p ! 0 \<noteq> pe_GetRootKey P"
      by (auto simp: key_relevant_def kv)
    from Cons.IH[of em] Cons.prems False show ?thesis
      by (simp add: kv skip build_entity_def)
  next
    case True
    then have rel: "\<not> (length ?p \<le> idx \<or> ?p ! 0 \<noteq> pe_GetRootKey P)"
      by (auto simp: key_relevant_def kv)
    let ?i = "?p ! idx"
    let ?e = "case map_of em ?i of Some e \<Rightarrow> e | None \<Rightarrow> pe_NewEntity P ?i"
    let ?em = "alist_update ?i (pf ?e ?p v) em"
    have reg: "reg ?p" using Cons.prems(1) True by (simp add: kv)
    have step: "ParseEntitiesMap_from P idx em (kv # kvs) = ParseEntitiesMap_from P idx ?em kvs"
      using rel by (simp add: kv Let_def field_ok[OF reg])
    have "\<forall>kv \<in> set kvs. relevant kv \<longrightarrow> reg (key_parts (fst kv))" "distinct (map fst ?em)"
      using Cons.prems by auto
    from Cons.IH[OF this] obtain em' where em': "ParseEntitiesMap_from P idx ?em kvs = Ret em'"
      "distinct (map fst em')" "fst ` set em' = fst ` set ?em \<union> key_id idx ` (set (filter relevant kvs))"
      "\<forall>i \<in> fst ` set em'. map_of em' i =
         Some (build_entity P pf idx (case map_of ?em i of Some e \<Rightarrow> e | None \<Rightarrow> pe_NewEntity P i) i kvs)"
      by blast
    have keys: "fst ` set em' = fst ` set em \<union> key_id idx ` (set (filter relevant (kv # kvs)))"
      using em'(3) True by (auto simp: kv key_id_def)
    have bld: "build_entity P pf idx (case map_of ?em i of Some e \<Rightarrow> e | None \<Rightarrow> pe_NewEntity P i) i kvs
        = build_entity P pf idx (case map_of em i of Some e \<Rightarrow> e | None \<Rightarrow> pe_NewEntity P i) i (kv # kvs)" for i
      using True by (auto simp: build_entity_def kv key_id_def)
    have "\<forall>i \<in> fst ` set em'. map_of em' i =
        Some (build_entity P pf idx (case map_of em i of Some e \<Rightarrow> e | None \<Rightarrow> pe_NewEntity P i) i (kv # kvs))"
      using em'(4) unfolding bld .
    with em'(1,2) keys show ?thesis unfolding step by blast
  qed
qed

lemma parse_fresh:
  assumes "\<forall>kv \<in> set kvs. relevant kv \<longrightarrow> reg (key_parts (fst kv))"
  shows "\<exists>em. ParseEntitiesMap_from P idx [] kvs = Ret em \<and> distinct (map fst em) \<and>
           fst ` set em = key_id idx ` (set (filter relevant kvs)) \<and>
           (\<forall>i \<in> fst ` set em. map_of em i = Some (build_entity P pf idx (pe_NewEntity P i) i kvs))"
  using parse_from[OF assms, of "[]"]
  by (simp only: map_of.simps option.case list.set image_empty Un_empty_left list.map distinct.simps simp_thms)

lemma build_perm:
  assumes "mset kvs = mset kvs'" and "regular kvs"
  shows "eqv (build_entity P pf idx e i kvs) (build_entity P pf idx e i kvs')"
  unfolding build_entity_def
proof (rule foldl_perm_eqv[where g = "\<lambda>kv. slot (key_parts (fst kv))" and R = eqv])
  let ?f = "\<lambda>kv. relevant kv \<and> key_id idx kv = i"
  show "equivp eqv" by (rule eqv_equivp)
  show "mset (filter ?f kvs) = mset (filter ?f kvs')" using assms(1) by simp
  have f: "filter ?f kvs = filter (\<lambda>kv. key_id idx kv = i) (filter relevant kvs)"
    by (simp add: conj_commute)
  show "distinct (map (\<lambda>kv. slot (key_parts (fst kv))) (filter ?f kvs))"
    unfolding f using assms(2) unfolding regular_def by (elim conjE) (rule distinct_map_filter)
qed (auto simp: key_relevant_def key_id_def intro: field_eqv field_commute)

text \<open>The contract of \<open>ParseEntities\<close>.\<close>

lemma ParseEntities_order:
  assumes "mset kvs = mset kvs'" and "regular kvs"
  shows "\<exists>es es'. ParseEntities kvs P idx = Ret es \<and> ParseEntities kvs' P idx = Ret es' \<and>
           rel_mset req (mset es) (mset es')"
proof -
  have s: "set kvs = set kvs'" using assms(1) by (metis set_mset_mset)
  have r: "\<forall>kv \<in> set kvs. relevant kv \<longrightarrow> reg (key_parts (fst kv))" using assms(2) by (simp add: regular_def)
  from parse_fresh[OF r] obtain em where em: "ParseEntitiesMap_from P idx [] kvs = Ret em"
    "distinct (map fst em)" "fst ` set em = key_id idx ` (set (filter relevant kvs))"
    "\<forall>i \<in> fst ` set em. map_of em i = Some (build_entity P pf idx (pe_NewEntity P i) i kvs)" by blast
  from r s have r': "\<forall>kv \<in> set kvs'. relevant kv \<longrightarrow> reg (key_parts (fst kv))" by simp
  from parse_fresh[OF r'] obtain em' where em': "ParseEntitiesMap_from P idx [] kvs' = Ret em'"
    "distinct (map fst em')" "fst ` set em' = key_id idx ` (set (filter relevant kvs'))"
    "\<forall>i \<in> fst ` set em'. map_of em' i = Some (build_entity P pf idx (pe_NewEntity P i) i kvs')" by blast
  have keys: "fst ` set em = fst ` set em'" using em(3) em'(3) s by simp
  have "req (pe_GetEntity P x) (pe_GetEntity P y)" if "map_of em k = Some x" "map_of em' k = Some y" for k x y
  proof -
    have "k \<in> fst ` set em" using that(1) by (metis domI dom_map_of_conv_image_fst)
    with that em(4) em'(4) keys have "x = build_entity P pf idx (pe_NewEntity P k) k kvs"
      "y = build_entity P pf idx (pe_NewEntity P k) k kvs'" by auto
    with build_perm[OF assms] show ?thesis by (simp add: get_eqv)
  qed
  from rel_mset_map_of[OF em(2) em'(2) keys, where R = req and h = "pe_GetEntity P", OF this]
  show ?thesis unfolding ParseEntities_def em(1) em'(1) by simp
qed

text \<open>A map whose relevant keys all belong to one identifier gives one entity.\<close>

lemma ParseEntities_single:
  assumes "regular kvs" and "\<forall>kv \<in> set kvs. relevant kv \<and> key_id idx kv = i" and "kvs \<noteq> []"
  shows "ParseEntities kvs P idx =
           Ret [pe_GetEntity P (foldl (\<lambda>e kv. pf e (key_parts (fst kv)) (snd kv)) (pe_NewEntity P i) kvs)]"
proof -
  have r: "\<forall>kv \<in> set kvs. relevant kv \<longrightarrow> reg (key_parts (fst kv))" using assms(1) by (simp add: regular_def)
  from parse_fresh[OF r] obtain em where em: "ParseEntitiesMap_from P idx [] kvs = Ret em"
    "distinct (map fst em)" "fst ` set em = key_id idx ` (set (filter relevant kvs))"
    "\<forall>i \<in> fst ` set em. map_of em i = Some (build_entity P pf idx (pe_NewEntity P i) i kvs)" by blast
  have keys: "fst ` set em = {i}" using em(3) assms(2,3) by (cases kvs) auto
  then obtain e where "em = [(i, e)]"
  proof (cases em)
    case (Cons a em2)
    with em(2) keys have "em2 = []" by (cases em2) auto
    with Cons keys show ?thesis using that by (cases a) auto
  qed (use keys in auto)
  moreover have "filter (\<lambda>kv. relevant kv \<and> key_id idx kv = i) kvs = kvs"
    using assms(2) by (simp add: filter_id_conv)
  ultimately show ?thesis
    using em(1,4) by (simp add: ParseEntities_def build_entity_def)
qed

lemma regular_subset:
  "regular kvs \<Longrightarrow> mset kvs = mset kvs' \<Longrightarrow> regular kvs'"
proof -
  assume reg: "regular kvs" and m: "mset kvs = mset kvs'"
  have "mset (map (\<lambda>kv. slot (key_parts (fst kv))) (filter relevant kvs))
      = mset (map (\<lambda>kv. slot (key_parts (fst kv))) (filter relevant kvs'))"
    using m by simp
  then have "distinct (map (\<lambda>kv. slot (key_parts (fst kv))) (filter relevant kvs'))"
    using reg mset_eq_imp_distinct_iff unfolding regular_def by blast
  moreover have "set kvs = set kvs'" using m by (metis set_mset_mset)
  ultimately show ?thesis using reg by (simp add: regular_def)
qed

end

subsection \<open>The parsers satisfy the contract\<close>

lemma three_parts:
  assumes "length p = 3" "length q = 3" "p ! 0 = q ! 0" "p ! 1 = q ! 1" "p \<noteq> q"
  shows "p ! 2 \<noteq> q ! 2"
proof
  assume "p ! 2 = q ! 2"
  with assms have "p = q" by (auto intro!: nth_equalityI simp: less_Suc_eq numeral_3_eq_3 numeral_2_eq_2)
  with assms(5) show False ..
qed

lemma rack_set_commute: "f \<noteq> g \<Longrightarrow> rack_set g w (rack_set f v r) = rack_set f v (rack_set g w r)"
  by (simp add: rack_set_def)

interpretation rack: entity_parser rackParser rack_ParseField 1 "\<lambda>_. True" "\<lambda>p. p" "(=)" "(=)"
  by unfold_locales
    (auto simp: rackParser_def rack_ParseField_def identity_equivp intro: rack_set_commute dest: three_parts)

lemma pdu_set_commute: "f \<noteq> g \<Longrightarrow> pdu_set g w (pdu_set f v p) = pdu_set f v (pdu_set g w p)"
  by (simp add: pdu_set_def)

interpretation pdu: entity_parser pduParser pdu_ParseField 1 "\<lambda>_. True" "\<lambda>p. p" "(=)" "(=)"
  by unfold_locales
    (auto simp: pduParser_def pdu_ParseField_def identity_equivp intro: pdu_set_commute dest: three_parts)

lemma pt_set_commute: "f \<noteq> g \<Longrightarrow> pt_set g w (pt_set f v p) = pt_set f v (pt_set g w p)"
  by (simp add: pt_set_def)

interpretation pt: entity_parser ptParser pt_ParseField 1 "\<lambda>_. True" "\<lambda>p. p" "(=)" "(=)"
  by unfold_locales
    (auto simp: ptParser_def pt_ParseField_def identity_equivp intro: pt_set_commute dest: three_parts)

text \<open>Hypervisors: the same up to the order of the addresses.\<close>

definition hv_eqv :: "hypervisor \<Rightarrow> hypervisor \<Rightarrow> bool" where
  "hv_eqv a b \<longleftrightarrow> mset (h_IPAddrs a) = mset (h_IPAddrs b) \<and> a\<lparr>h_IPAddrs := []\<rparr> = b\<lparr>h_IPAddrs := []\<rparr>"

lemma hv_eqv_alt: "hv_eqv a b \<longleftrightarrow> (\<exists>x. b = a\<lparr>h_IPAddrs := x\<rparr> \<and> mset x = mset (h_IPAddrs a))"
  by (cases a; cases b) (auto simp: hv_eqv_def)

lemma hv_eqv_equivp: "equivp hv_eqv"
  by (intro equivpI reflpI sympI transpI) (auto simp: hv_eqv_def)

lemma hv_set_ips: "hv_set f v (h\<lparr>h_IPAddrs := x\<rparr>) = (hv_set f v h)\<lparr>h_IPAddrs := x\<rparr>"
  "h_IPAddrs (hv_set f v h) = h_IPAddrs h"
  by (simp_all add: hv_set_def)

lemma hv_set_sel:
  "h_ID (hv_set f v h) = h_ID h"
  "h_RackID (hv_set f v h) = (if f = rackKey then v else h_RackID h)"
  "h_Name (hv_set f v h) = (if f = NAME then v else h_Name h)"
  "h_PortRange (hv_set f v h) = (if f = PORT_RANGE then v else h_PortRange h)"
  "h_SSHPort (hv_set f v h) = (if f = SSH_PORT then v else h_SSHPort h)"
  "h_Dev (hv_set f v h) = h_Dev h"
  "h_RDMAEnabled (hv_set f v h) = (if f = ENABLE_RDMA then fst (parse_bool v) else h_RDMAEnabled h)"
  "hypervisor.more (hv_set f v h) = hypervisor.more h"
  by (simp_all add: hv_set_def)

lemma hv_set_commute: "f \<noteq> g \<Longrightarrow> hv_set g w (hv_set f v h) = hv_set f v (hv_set g w h)"
  by (rule hypervisor.equality) (auto simp: hv_set_sel hv_set_ips)

lemma hv_eqv_set: "hv_eqv a b \<Longrightarrow> hv_eqv (hv_set f v a) (hv_set f v b)"
  by (auto simp: hv_eqv_alt hv_set_ips)

lemma hv_eqv_ip: "hv_eqv a b \<Longrightarrow> hv_eqv (a\<lparr>h_IPAddrs := h_IPAddrs a @ [v]\<rparr>) (b\<lparr>h_IPAddrs := h_IPAddrs b @ [v]\<rparr>)"
  by (simp add: hv_eqv_def)

interpretation hv: entity_parser hvParser hv_ParseField 1 "\<lambda>_. True" "\<lambda>p. p" hv_eqv hv_eqv
proof unfold_locales
  show "equivp hv_eqv" by (rule hv_eqv_equivp)
  show "hv_eqv e e' \<Longrightarrow> hv_eqv (hv_ParseField e p v) (hv_ParseField e' p v)" for e e' p v
    by (auto simp: hv_ParseField_def intro: hv_eqv_set hv_eqv_ip)
  show "1 < length p \<Longrightarrow> 1 < length q \<Longrightarrow> p ! 0 = q ! 0 \<Longrightarrow> p ! 1 = q ! 1 \<Longrightarrow> p \<noteq> q \<Longrightarrow>
      hv_eqv (hv_ParseField (hv_ParseField e q w) p v) (hv_ParseField (hv_ParseField e p v) q w)" for e p q v w
    using equivp_reflp[OF hv_eqv_equivp]
    by (auto simp: hv_ParseField_def hv_set_ips hv_set_commute[of "p ! 2" "q ! 2"] hv_eqv_def dest: three_parts)
qed (simp_all add: hvParser_def)

text \<open>NISDs: the same up to the order of the network addresses.\<close>

definition nisd_eqv :: "nisd \<Rightarrow> nisd \<Rightarrow> bool" where
  "nisd_eqv a b \<longleftrightarrow> mset (n_NetInfo a) = mset (n_NetInfo b) \<and> a\<lparr>n_NetInfo := []\<rparr> = b\<lparr>n_NetInfo := []\<rparr>"

lemma nisd_eqv_alt: "nisd_eqv a b \<longleftrightarrow> (\<exists>x. b = a\<lparr>n_NetInfo := x\<rparr> \<and> mset x = mset (n_NetInfo a))"
  by (cases a; cases b) (auto simp: nisd_eqv_def)

lemma nisd_eqv_equivp: "equivp nisd_eqv"
  by (intro equivpI reflpI sympI transpI) (auto simp: nisd_eqv_def)

lemma nisd_set_net: "nisd_set f v (n\<lparr>n_NetInfo := x\<rparr>) = (nisd_set f v n)\<lparr>n_NetInfo := x\<rparr>"
  "n_NetInfo (nisd_set f v n) = n_NetInfo n"
  by (simp_all add: nisd_set_def nisd_set_fd_def)

definition nisd_fd_idx :: "string \<Rightarrow> nat option" where
  "nisd_fd_idx f =
     (if f = DEVICE_ID then Some DEVICE_IDX else if f = hvKey then Some HV_IDX
      else if f = pduKey then Some PDU_IDX else if f = rackKey then Some RACK_IDX
      else if f = ptKey then Some PARTITION_IDX else None)"

lemma nisd_set_sel:
  "n_ID (nisd_set f v n) = n_ID n"
  "n_PeerPort (nisd_set f v n) = (if f = PEER_PORT then word_of_int (fst (atoi v)) else n_PeerPort n)"
  "n_FailureDomain (nisd_set f v n) =
     (case nisd_fd_idx f of None \<Rightarrow> n_FailureDomain n | Some i \<Rightarrow> (n_FailureDomain n)[i := v])"
  "n_TotalSize (nisd_set f v n) = (if f = TOTAL_SPACE then word_of_int (fst (atoi v)) else n_TotalSize n)"
  "n_AvailableSize (nisd_set f v n) = (if f = AVAIL_SPACE then word_of_int (fst (atoi v)) else n_AvailableSize n)"
  "n_SocketPath (nisd_set f v n) = (if f = SOCKET_PATH then v else n_SocketPath n)"
  "n_NetInfoCnt (nisd_set f v n) = (if f = NETWORK_INFO_CNT then fst (atoi v) else n_NetInfoCnt n)"
  "nisd.more (nisd_set f v n) = nisd.more n"
  by (simp_all add: nisd_set_def nisd_set_fd_def nisd_fd_idx_def)

lemma nisd_fd_idx_inj: "nisd_fd_idx f = Some i \<Longrightarrow> nisd_fd_idx g = Some i \<Longrightarrow> f = g"
  by (auto simp: nisd_fd_idx_def split: if_splits)

lemma nisd_set_commute: "f \<noteq> g \<Longrightarrow> nisd_set g w (nisd_set f v n) = nisd_set f v (nisd_set g w n)"
proof (rule nisd.equality)
  assume "f \<noteq> g"
  then show "n_FailureDomain (nisd_set g w (nisd_set f v n)) = n_FailureDomain (nisd_set f v (nisd_set g w n))"
    using nisd_fd_idx_inj[of f _ g]
    by (auto simp: nisd_set_sel split: option.splits) (metis list_update_swap)
qed (auto simp: nisd_set_sel nisd_set_net)

lemma nisd_eqv_set: "nisd_eqv a b \<Longrightarrow> nisd_eqv (nisd_set f v a) (nisd_set f v b)"
  by (auto simp: nisd_eqv_alt nisd_set_net)

lemma nisd_eqv_net: "nisd_eqv a b \<Longrightarrow> nisd_eqv (a\<lparr>n_NetInfo := n_NetInfo a @ [v]\<rparr>) (b\<lparr>n_NetInfo := n_NetInfo b @ [v]\<rparr>)"
  by (simp add: nisd_eqv_def)

interpretation nisd: entity_parser NisdParser nisd_ParseField 1 "\<lambda>_. True" "\<lambda>p. p" nisd_eqv nisd_eqv
proof unfold_locales
  show "equivp nisd_eqv" by (rule nisd_eqv_equivp)
  show "nisd_eqv e e' \<Longrightarrow> nisd_eqv (nisd_ParseField e p v) (nisd_ParseField e' p v)" for e e' p v
    by (auto simp: nisd_ParseField_def Let_def intro: nisd_eqv_set nisd_eqv_net)
  show "1 < length p \<Longrightarrow> 1 < length q \<Longrightarrow> p ! 0 = q ! 0 \<Longrightarrow> p ! 1 = q ! 1 \<Longrightarrow> p \<noteq> q \<Longrightarrow>
      nisd_eqv (nisd_ParseField (nisd_ParseField e q w) p v) (nisd_ParseField (nisd_ParseField e p v) q w)" for e p q v w
    using equivp_reflp[OF nisd_eqv_equivp]
    by (auto simp: nisd_ParseField_def Let_def nisd_set_net nisd_set_commute[of "p ! 2" "q ! 2"] nisd_eqv_def
        dest: three_parts)
qed (simp_all add: NisdParser_def)

text \<open>Devices: the same up to the order of the partitions.\<close>

definition find_pt :: "string \<Rightarrow> device_partition list \<Rightarrow> device_partition option" where
  "find_pt i ps = find (\<lambda>p. pt_PartitionID p = i) ps"

definition device_eqv :: "device \<Rightarrow> device \<Rightarrow> bool" where
  "device_eqv a b \<longleftrightarrow>
     a\<lparr>d_Partitions := []\<rparr> = b\<lparr>d_Partitions := []\<rparr> \<and>
     (\<forall>i. find_pt i (d_Partitions a) = find_pt i (d_Partitions b))"

definition device_pf :: "device \<Rightarrow> string list \<Rightarrow> string \<Rightarrow> device" where
  "device_pf d p v = (case device_ParseField d p v of Ret e \<Rightarrow> e | _ \<Rightarrow> d)"

definition device_reg :: "string list \<Rightarrow> bool" where
  "device_reg p \<longleftrightarrow> \<not> (length p = 4 \<and> p ! 2 = ptKey)"

lemma pt_set_id [simp]: "pt_PartitionID (pt_set f v p) = pt_PartitionID p"
  by (simp add: pt_set_def)

lemma find_pt_update:
  "find_pt j (update_partition i f v ps) =
     (if j = i then Some (pt_set f v (case find_pt i ps of Some p \<Rightarrow> p | None \<Rightarrow> new_pt i)) else find_pt j ps)"
  by (induction i f v ps rule: update_partition.induct) (auto simp: find_pt_def new_pt_def)

lemma device_set_sel:
  "d_ID (device_set f v d) = d_ID d"
  "d_HypervisorID (device_set f v d) = (if f = hvKey then v else d_HypervisorID d)"
  "d_SerialNumber (device_set f v d) = (if f = SERIAL_NUM then v else d_SerialNumber d)"
  "d_State (device_set f v d) = (if f = STATE then word_of_int (fst (atoi v)) else d_State d)"
  "d_FailureDomain (device_set f v d) = (if f = FAILURE_DOMAIN then v else d_FailureDomain d)"
  "d_DevicePath (device_set f v d) = (if f = DEVICE_PATH then v else d_DevicePath d)"
  "d_Name (device_set f v d) = (if f = NAME then v else d_Name d)"
  "d_Size (device_set f v d) = (if f = SIZE then word_of_int (fst (atoi v)) else d_Size d)"
  "d_Partitions (device_set f v d) = d_Partitions d"
  "device.more (device_set f v d) = device.more d"
  by (simp_all add: device_set_def)

lemma device_set_commute: "f \<noteq> g \<Longrightarrow> device_set g w (device_set f v d) = device_set f v (device_set g w d)"
  by (rule device.equality) (auto simp: device_set_sel)

lemma device_set_pts: "device_set f v (d\<lparr>d_Partitions := x\<rparr>) = (device_set f v d)\<lparr>d_Partitions := x\<rparr>"
  by (simp add: device_set_def)

lemma device_eqv_equivp: "equivp device_eqv"
  by (intro equivpI reflpI sympI transpI) (auto simp: device_eqv_def)

lemma device_eqv_alt:
  "device_eqv a b \<longleftrightarrow>
     (\<exists>x. b = a\<lparr>d_Partitions := x\<rparr> \<and> (\<forall>i. find_pt i x = find_pt i (d_Partitions a)))"
  by (cases a; cases b) (auto simp: device_eqv_def)

lemma five_parts:
  assumes "length p > 4" "length q > 4" "p ! 0 = q ! 0" "p ! 1 = q ! 1" "p ! 2 = q ! 2" "take 5 p \<noteq> take 5 q"
  shows "p ! 3 \<noteq> q ! 3 \<or> p ! 4 \<noteq> q ! 4"
proof (rule ccontr)
  assume "\<not> (p ! 3 \<noteq> q ! 3 \<or> p ! 4 \<noteq> q ! 4)"
  with assms have "\<forall>i < 5. p ! i = q ! i"
    by (auto simp: less_Suc_eq eval_nat_numeral)
  with assms(1,2) have "take 5 p = take 5 q" by (auto intro!: nth_equalityI)
  with assms(6) show False ..
qed

lemma device_pf_cases:
  "device_pf d p v =
     (if length p = 3 then device_set (p ! 2) v d
      else if length p > 4 \<and> p ! 2 = ptKey
        then d\<lparr>d_Partitions := update_partition (p ! 3) (p ! 4) v (d_Partitions d)\<rparr>
      else d)"
  by (simp add: device_pf_def device_ParseField_def)

lemma find_pt_update_commute:
  assumes "i \<noteq> j \<or> f \<noteq> g"
  shows "find_pt k (update_partition i f v (update_partition j g w ps))
       = find_pt k (update_partition j g w (update_partition i f v ps))"
  using assms by (cases "i = j") (auto simp: find_pt_update pt_set_commute)

lemma device_eqv_commute:
  assumes "p ! 0 = q ! 0" "p ! 1 = q ! 1" "take 5 p \<noteq> take 5 q"
  shows "device_eqv (device_pf (device_pf e q w) p v) (device_pf (device_pf e p v) q w)"
proof -
  have a: "length p = 3 \<Longrightarrow> length q = 3 \<Longrightarrow> p ! 2 \<noteq> q ! 2"
    using assms three_parts[of p q] by auto
  have b: "length p > 4 \<Longrightarrow> length q > 4 \<Longrightarrow> p ! 2 = ptKey \<Longrightarrow> q ! 2 = ptKey \<Longrightarrow> p ! 3 \<noteq> q ! 3 \<or> p ! 4 \<noteq> q ! 4"
    using assms five_parts[of p q] by auto
  show ?thesis
    using a b equivp_reflp[OF device_eqv_equivp]
    by (auto simp: device_pf_cases device_set_pts device_set_sel device_set_commute[of "p ! 2" "q ! 2"]
        device_eqv_def find_pt_update_commute)
qed

interpretation device:
  entity_parser deviceWithPartitionParser device_pf 1 device_reg "take 5" device_eqv device_eqv
proof unfold_locales
  show "equivp device_eqv" by (rule device_eqv_equivp)
  show "device_reg p \<Longrightarrow> pe_ParseField deviceWithPartitionParser e p v = Ret (device_pf e p v)" for e p v
    by (auto simp: deviceWithPartitionParser_def device_pf_def device_ParseField_def device_reg_def)
  show "device_eqv e e' \<Longrightarrow> device_eqv (device_pf e p v) (device_pf e' p v)" for e e' p v
    by (auto simp: device_eqv_alt device_pf_cases device_set_pts device_set_sel find_pt_update)
qed (simp_all add: device_eqv_commute deviceWithPartitionParser_def)

text \<open>Vdevs. A key below \<open>v/<id>/cfg\<close> or \<open>v/<id>/m\<close> names the field by its fourth part.\<close>

definition vdev_key :: "string list \<Rightarrow> string \<Rightarrow> string \<Rightarrow> bool" where
  "vdev_key p a f \<longleftrightarrow> 3 < length p \<and> p ! 2 = a \<and> p ! 3 = f"

lemma set_if_sel: "S (set_if o' g r) = (case o' of None \<Rightarrow> S r | Some x \<Rightarrow> S (g x r))"
  by (cases o') auto

lemma vdev_pf_sel:
  "v_ID (vdev_ParseField tp vd p v) = v_ID vd"
  "v_Size (vdev_ParseField tp vd p v) =
     (if vdev_key p cfgkey SIZE then (case atoi_ok v of None \<Rightarrow> v_Size vd | Some x \<Rightarrow> word_of_int x) else v_Size vd)"
  "v_ChunkCnt (vdev_ParseField tp vd p v) =
     (if vdev_key p cfgkey NUM_CHUNKS then (case parse_uint_ok 32 v of None \<Rightarrow> v_ChunkCnt vd | Some x \<Rightarrow> of_nat x)
      else v_ChunkCnt vd)"
  "v_DataBlkCnt (vdev_ParseField tp vd p v) =
     (if vdev_key p cfgkey TOTAL_DATA_BLKS
      then (case parse_uint_ok 8 v of None \<Rightarrow> v_DataBlkCnt vd | Some x \<Rightarrow> of_nat x) else v_DataBlkCnt vd)"
  "v_ParityBlkCnt (vdev_ParseField tp vd p v) =
     (if vdev_key p cfgkey TOTAL_PARITY_BLKS
      then (case parse_uint_ok 8 v of None \<Rightarrow> v_ParityBlkCnt vd | Some x \<Rightarrow> of_nat x) else v_ParityBlkCnt vd)"
  "v_Redundancy (vdev_ParseField tp vd p v) =
     (if vdev_key p cfgkey REDUNDANCY_MODE then (case atoi_ok v of None \<Rightarrow> v_Redundancy vd | Some x \<Rightarrow> x)
      else v_Redundancy vd)"
  "v_PFSID (vdev_ParseField tp vd p v) = (if vdev_key p cfgkey pfsKey then v else v_PFSID vd)"
  "v_Name (vdev_ParseField tp vd p v) = (if vdev_key p cfgkey NAME then v else v_Name vd)"
  "v_FilterType (vdev_ParseField tp vd p v) = (if vdev_key p cfgkey FD_TYPE_KEY then v else v_FilterType vd)"
  "v_FilterID (vdev_ParseField tp vd p v) = (if vdev_key p cfgkey FD_ID_KEY then v else v_FilterID vd)"
  "mi_MountCounter (v_VdevMountInfo (vdev_ParseField tp vd p v)) =
     (if vdev_key p MntKey MOUNT_COUNTER
      then (case parse_uint_ok 64 v of None \<Rightarrow> mi_MountCounter (v_VdevMountInfo vd) | Some x \<Rightarrow> of_nat x)
      else mi_MountCounter (v_VdevMountInfo vd))"
  "mi_LastUpdatedLTS (v_VdevMountInfo (vdev_ParseField tp vd p v)) =
     (if vdev_key p MntKey LAST_UPDATED_LTS
      then (case tp v of None \<Rightarrow> mi_LastUpdatedLTS (v_VdevMountInfo vd) | Some x \<Rightarrow> x)
      else mi_LastUpdatedLTS (v_VdevMountInfo vd))"
  "vdev_mount_info.more (v_VdevMountInfo (vdev_ParseField tp vd p v)) = vdev_mount_info.more (v_VdevMountInfo vd)"
  "v_AccessToken (vdev_ParseField tp vd p v) = v_AccessToken vd"
  "v_PFSName (vdev_ParseField tp vd p v) = v_PFSName vd"
  "vdev_config.more (vdev_ParseField tp vd p v) = vdev_config.more vd"
  by (simp_all add: vdev_ParseField_def vdev_set_cfg_def vdev_set_mnt_def vdev_key_def set_if_sel
      split: option.split)

lemma vdev_key_unique:
  assumes "p ! 0 = q ! 0" "p ! 1 = q ! 1" "take 4 p \<noteq> take 4 q" "vdev_key p a f"
  shows "\<not> vdev_key q a f"
proof
  assume q: "vdev_key q a f"
  with assms(1,2,4) have "\<forall>i < 4. p ! i = q ! i"
    by (auto simp: less_Suc_eq eval_nat_numeral vdev_key_def)
  with assms(4) q have "take 4 p = take 4 q" by (auto intro!: nth_equalityI simp: vdev_key_def)
  with assms(3) show False ..
qed

lemma vdev_pf_commute:
  assumes "p ! 0 = q ! 0" "p ! 1 = q ! 1" "take 4 p \<noteq> take 4 q"
  shows "vdev_ParseField tp (vdev_ParseField tp e q w) p v = vdev_ParseField tp (vdev_ParseField tp e p v) q w"
    (is "?l = ?r")
proof -
  note u = vdev_key_unique[OF assms]
  have m: "v_VdevMountInfo ?l = v_VdevMountInfo ?r"
    by (rule vdev_mount_info.equality) (auto simp: vdev_pf_sel cong: option.case_cong dest: u)
  show ?thesis
    by (rule vdev_config.equality) (auto simp: vdev_pf_sel m cong: option.case_cong dest: u)
qed

interpretation vdev:
  entity_parser "vdevParser tp" "vdev_ParseField tp" 1 "\<lambda>_. True" "take 4" "(=)" "(=)"
  for tp :: "string \<Rightarrow> gotime option"
  by unfold_locales (auto simp: vdevParser_def identity_equivp intro: vdev_pf_commute)

text \<open>Chunks: the same up to the order of the placements.\<close>

definition chunk_eqv :: "chunk \<Rightarrow> chunk \<Rightarrow> bool" where
  "chunk_eqv a b \<longleftrightarrow> mset (c_Placements a) = mset (c_Placements b) \<and> a\<lparr>c_Placements := []\<rparr> = b\<lparr>c_Placements := []\<rparr>"

lemma chunk_eqv_alt: "chunk_eqv a b \<longleftrightarrow> (\<exists>x. b = a\<lparr>c_Placements := x\<rparr> \<and> mset x = mset (c_Placements a))"
  by (cases a; cases b) (auto simp: chunk_eqv_def)

lemma chunk_eqv_equivp: "equivp chunk_eqv"
  by (intro equivpI reflpI sympI transpI) (auto simp: chunk_eqv_def)

text \<open>What a key adds to a chunk: nothing, or a placement and perhaps the redundancy mark.\<close>

definition chunk_add :: "string list \<Rightarrow> string \<Rightarrow> (bool \<times> chunk_placement) option" where
  "chunk_add parts v =
     (let pParts = split (CHR ''.'') (parts ! CHUNK_PLACMENT) in
      if length parts < MIN_CHUNK_KEY_LEN \<or> length pParts \<noteq> 2 then None
      else (case parse_uint_ok 8 (pParts ! 1) of
              None \<Rightarrow> None
            | Some s \<Rightarrow>
                Some (pParts ! 0 = ''D'' \<or> pParts ! 0 = ''P'',
                  \<lparr>cp_Sequence = of_nat s,
                   cp_Type = (if pParts ! 0 = ''D'' then Data else if pParts ! 0 = ''P'' then Parity else Replica),
                   cp_NisdID = v\<rparr>)))"

lemma chunk_pf_add:
  "chunk_ParseField c parts v =
     (case chunk_add parts v of
        None \<Rightarrow> c
      | Some (mark, pl) \<Rightarrow>
          c\<lparr>c_Redundancy := (if mark then RMEC32K else c_Redundancy c), c_Placements := c_Placements c @ [pl]\<rparr>)"
  by (cases c) (simp add: chunk_ParseField_def chunk_add_def Let_def split: option.split)

interpretation chunk: entity_parser chunkParser chunk_ParseField 3 "\<lambda>_. True" "\<lambda>p. p" chunk_eqv chunk_eqv
proof unfold_locales
  show "equivp chunk_eqv" by (rule chunk_eqv_equivp)
  show "chunk_eqv e e' \<Longrightarrow> chunk_eqv (chunk_ParseField e p v) (chunk_ParseField e' p v)" for e e' p v
    by (auto simp: chunk_eqv_alt chunk_pf_add split: option.splits)
  show "chunk_eqv (chunk_ParseField (chunk_ParseField e q w) p v) (chunk_ParseField (chunk_ParseField e p v) q w)"
    for e p q v w
    by (auto simp: chunk_eqv_def chunk_pf_add split: option.splits)
qed (simp_all add: chunkParser_def)

end
