(* ===== verification/RoundTrip.thy ===== *)
theory RoundTrip
  imports ParserOrder
begin

section \<open>What is written can be read back\<close>

text \<open>
  Round trips: the changes a populator of \<open>populate.go\<close> makes, read in any order by the parser of
  \<open>parser.go\<close> for the same kind of entity, give the entity back. Identifiers must not contain a
  slash (they are UUIDs), network addresses must not be empty or contain a slash.
\<close>

abbreviation slash :: char where "slash \<equiv> CHR ''/''"

lemma key_parts_join:
  assumes "ws \<noteq> []" "\<forall>w \<in> set ws. slash \<notin> set w" "hd ws \<noteq> []" "last ws \<noteq> []"
  shows "key_parts (join [slash] ws) = ws"
proof -
  have hd: "join [slash] ws \<noteq> []" "hd (join [slash] ws) = hd (hd ws)" if "ws \<noteq> []" "hd ws \<noteq> []" for ws
    using that by (induction ws rule: induct_list012) auto
  have last: "last (join [slash] ws) = last (last ws)" if "ws \<noteq> []" "last ws \<noteq> []" for ws
    using that
  proof (induction ws rule: induct_list012)
    case (3 w v vs)
    then have "join [slash] (v # vs) \<noteq> []" by (cases vs) auto
    with 3 show ?case by simp
  qed auto
  have "hd (hd ws) \<noteq> slash" using assms by (metis hd_in_set)
  moreover have "last (last ws) \<noteq> slash" using assms by (metis last_in_set)
  ultimately have "trim slash (join [slash] ws) = join [slash] ws"
    using assms hd[of ws] last[of ws] by (intro trim_id) auto
  then show ?thesis using assms by (simp add: key_parts_def split_join)
qed

lemma key_parts_3:
  assumes "slash \<notin> set a" "slash \<notin> set b" "slash \<notin> set c" "a \<noteq> []" "c \<noteq> []"
  shows "key_parts (getConfKey (getConfKey a b) c) = [a, b, c]"
  using key_parts_join[of "[a, b, c]"] assms by (simp add: getConfKey_def)

lemma key_parts_4:
  assumes "slash \<notin> set a" "slash \<notin> set b" "slash \<notin> set c" "slash \<notin> set d" "a \<noteq> []" "d \<noteq> []"
  shows "key_parts (getConfKey (getConfKey (getConfKey a b) c) d) = [a, b, c, d]"
  using key_parts_join[of "[a, b, c, d]"] assms by (simp add: getConfKey_def)

subsection \<open>Fields that are set from a list of pairs\<close>

fun field_pairs :: "(string \<Rightarrow> string option) \<Rightarrow> string list \<Rightarrow> (string \<times> string) list" where
  "field_pairs val [] = []"
| "field_pairs val (f # fs) = (case val f of None \<Rightarrow> field_pairs val fs | Some v \<Rightarrow> (f, v) # field_pairs val fs)"

lemma entries_populate_fields:
  "map entry (populate_fields key val fs) = map (\<lambda>(f, v). (getConfKey key f, v)) (field_pairs val fs)"
  by (induction fs) (auto simp: entry_def split: option.split)

lemma entries_populate_nonempty:
  "map entry (populate_nonempty key val fs) =
     map (\<lambda>(f, v). (getConfKey key f, v)) (filter (\<lambda>(f, v). v \<noteq> []) (field_pairs val fs))"
  unfolding populate_nonempty_def
  by (induction fs) (auto simp: entry_def split: option.split)

lemma fst_field_pairs: "map fst (field_pairs val fs) = filter (\<lambda>f. val f \<noteq> None) fs"
  by (induction fs) (auto split: option.split)

lemma foldl_sel:
  assumes "\<And>n f v. Q n \<Longrightarrow> S (st f v n) = (if f = F then g v else S n)" and "\<And>n f v. Q n \<Longrightarrow> Q (st f v n)"
    and "distinct (map fst l)" and "Q n"
  shows "S (foldl (\<lambda>n (f, v). st f v n) n l) = (case map_of l F of Some v \<Rightarrow> g v | None \<Rightarrow> S n)"
  using assms(3,4)
proof (induction l arbitrary: n)
  case (Cons p l)
  obtain f v where p: "p = (f, v)" by (cases p)
  from Cons.prems have "map_of l f = None" by (auto simp: p map_of_eq_None_iff)
  with Cons assms(1,2) show ?case by (auto simp: p split: option.splits)
qed simp

lemma foldl_keep:
  assumes "\<And>n f v. S (st f v n) = S n"
  shows "S (foldl (\<lambda>n (f, v). st f v n) n l) = S n"
  by (induction l arbitrary: n) (auto simp: assms)

lemma foldl_inv: "Q n \<Longrightarrow> (\<And>n f v. Q n \<Longrightarrow> Q (st f v n)) \<Longrightarrow> Q (foldl (\<lambda>n (f, v). st f v n) n l)"
  by (induction l arbitrary: n) auto

subsection \<open>Racks\<close>

lemma rel_mset_single: "rel_mset R (mset [a]) (mset bs) \<Longrightarrow> \<exists>b. bs = [b] \<and> R a b"
proof -
  assume r: "rel_mset R (mset [a]) (mset bs)"
  then have "size (mset [a]) = size (mset bs)" by (rule rel_mset_size)
  then obtain b where "bs = [b]" by (cases bs) auto
  with r show ?thesis by (auto simp: rel_mset_def list_all2_Cons1)
qed

lemma rel_mset_single_right: "rel_mset R (mset as) (mset [b]) \<Longrightarrow> \<exists>a. as = [a] \<and> R a b"
proof -
  assume r: "rel_mset R (mset as) (mset [b])"
  then have "size (mset as) = size (mset [b])" by (rule rel_mset_size)
  then obtain a where "as = [a]" by (cases as) auto
  with r show ?thesis by (auto simp: rel_mset_def list_all2_Cons1)
qed

definition rack_pairs :: "rack \<Rightarrow> (string \<times> string) list" where
  "rack_pairs r = [(NAME, r_Name r), (LOCATION, r_Location r), (SPEC, r_Specification r), (pduKey, r_PDUID r)]"

lemma rack_pairs_eq: "field_pairs (rack_value r) [NAME, LOCATION, SPEC, pduKey] = rack_pairs r"
  by (simp add: rack_value.simps rack_pairs_def)

lemma rack_parse_written:
  assumes "slash \<notin> set (r_ID r)"
  shows "rack.regular (map (\<lambda>(f, v). (getConfKey (getConfKey rackKey (r_ID r)) f, v)) (rack_pairs r)) \<and>
    ParseEntities (map (\<lambda>(f, v). (getConfKey (getConfKey rackKey (r_ID r)) f, v)) (rack_pairs r)) rackParser 1
      = Ret [r\<lparr>r_Hypervisors := []\<rparr>]"
proof -
  let ?kvs = "map (\<lambda>(f, v). (getConfKey (getConfKey rackKey (r_ID r)) f, v)) (rack_pairs r)"
  have kp: "key_parts (getConfKey (getConfKey rackKey (r_ID r)) f) = [rackKey, r_ID r, f]"
    if "slash \<notin> set f" "f \<noteq> []" for f
    by (rule key_parts_3) (use assms that in auto)
  have reg: "rack.regular ?kvs"
    unfolding rack.regular_def by (simp add: rack_pairs_def kp key_relevant_def rackParser_def)
  have one: "\<forall>kv \<in> set ?kvs. key_relevant (pe_GetRootKey rackParser) 1 kv \<and> key_id 1 kv = r_ID r"
    by (simp add: rack_pairs_def kp key_relevant_def key_id_def rackParser_def)
  have "foldl (\<lambda>e kv. rack_ParseField e (key_parts (fst kv)) (snd kv)) (new_rack (r_ID r)) ?kvs
      = r\<lparr>r_Hypervisors := []\<rparr>"
    by (simp add: rack_pairs_def kp rack_ParseField_def rack_set_def new_rack_def)
  with rack.ParseEntities_single[OF reg one] show ?thesis
    using reg by (simp add: rackParser_def rack_pairs_def)
qed

text \<open>
  A rack that \<open>rackPopulator\<close> writes is read back by \<open>rackParser\<close>, whatever the order in which the
  pairs come; only the list of hypervisors, which is not stored, is lost.
\<close>

theorem rack_round_trip:
  assumes "slash \<notin> set (r_ID r)"
    and "PopulateEntities r rackPopulator rackKey = Ret cs"
    and "mset kvs = mset (map entry cs)"
  shows "ParseEntities kvs rackParser BASE_UUID_PREFIX = Ret [r\<lparr>r_Hypervisors := []\<rparr>]"
proof -
  have cs: "cs = populate_fields (getConfKey rackKey (r_ID r)) (rack_value r) [NAME, LOCATION, SPEC, pduKey]"
    using assms(2) by (simp only: PopulateEntities_def rackPopulator_def append_Nil go.inject)
  have "map entry cs = map (\<lambda>(f, v). (getConfKey (getConfKey rackKey (r_ID r)) f, v)) (rack_pairs r)"
    unfolding cs entries_populate_fields rack_pairs_eq ..
  with rack_parse_written[OF assms(1)] have w: "rack.regular (map entry cs)"
    "ParseEntities (map entry cs) rackParser 1 = Ret [r\<lparr>r_Hypervisors := []\<rparr>]" by simp_all
  from rack.ParseEntities_order[OF assms(3)[symmetric] w(1)]
  obtain es0 es where es: "ParseEntities (map entry cs) rackParser 1 = Ret es0"
    "ParseEntities kvs rackParser 1 = Ret es" "rel_mset (=) (mset es0) (mset es)" by blast
  from es(1) have "es0 = [r\<lparr>r_Hypervisors := []\<rparr>]" unfolding w(2) by (simp only: go.inject)
  from rel_mset_single[OF es(3)[unfolded this]] es(2) show ?thesis by blast
qed

definition sample_rack :: rack where
  "sample_rack = \<lparr>r_ID = ''r1'', r_Name = ''a'', r_PDUID = ''p1'', r_Location = ''x'', r_Specification = [],
                  r_Hypervisors = []\<rparr>"

theorem rack_round_trip_witness:
  "ParseEntities [(''r/r1/p'', ''p1''), (''r/r1/sp'', ''''), (''r/r1/l'', ''x''), (''r/r1/nm'', ''a'')]
     rackParser BASE_UUID_PREFIX = Ret [sample_rack]"
  using rack_round_trip[of sample_rack, unfolded PopulateEntities_def rackPopulator_def, OF _ refl,
      of "[(''r/r1/p'', ''p1''), (''r/r1/sp'', ''''), (''r/r1/l'', ''x''), (''r/r1/nm'', ''a'')]"]
  by (simp add: sample_rack_def rack_value.simps entry_def getConfKey_def)

subsection \<open>NISDs\<close>

definition nisd_fields :: "string list" where
  "nisd_fields = [DEVICE_ID, PEER_PORT, hvKey, FAILURE_DOMAIN, TOTAL_SPACE, AVAIL_SPACE, SOCKET_PATH,
     pduKey, rackKey, ptKey, NETWORK_INFO_CNT]"

text \<open>What \<open>WPNisdCfg\<close> accepts (apart from the sizes), with addresses that can be part of a key.\<close>

definition nisd_storable :: "nisd \<Rightarrow> bool" where
  "nisd_storable n \<longleftrightarrow>
     slash \<notin> set (n_ID n) \<and> length (n_FailureDomain n) = FD_MAX \<and>
     n_NetInfoCnt n = int (length (n_NetInfo n)) \<and> length (n_NetInfo n) < 2 ^ 63 \<and>
     distinct (map ni_IPAddr (n_NetInfo n)) \<and>
     list_all (\<lambda>i. ni_IPAddr i \<noteq> [] \<and> slash \<notin> set (ni_IPAddr i)) (n_NetInfo n)"

definition nisd_key :: "nisd \<Rightarrow> string" where
  "nisd_key n = getConfKey NisdCfgKey (n_ID n)"

definition nisd_written_pairs :: "nisd \<Rightarrow> (string \<times> string) list" where
  "nisd_written_pairs n = filter (\<lambda>(f, v). v \<noteq> []) (field_pairs (nisd_value n) nisd_fields)"

lemma nisd_written_distinct: "distinct (map fst (nisd_written_pairs n))"
proof -
  have "distinct (map fst (field_pairs (nisd_value n) nisd_fields))"
    unfolding fst_field_pairs nisd_fields_def by (rule distinct_filter) simp
  then show ?thesis unfolding nisd_written_pairs_def by (rule distinct_map_filter)
qed

lemma nisd_written_field: "p \<in> set (nisd_written_pairs n) \<Longrightarrow> slash \<notin> set (fst p) \<and> fst p \<noteq> [] \<and> fst p \<noteq> NETWORK_INFO"
proof -
  assume "p \<in> set (nisd_written_pairs n)"
  then have "fst p \<in> set (map fst (field_pairs (nisd_value n) nisd_fields))"
    by (auto simp: nisd_written_pairs_def)
  then have "fst p \<in> set nisd_fields" unfolding fst_field_pairs by simp
  then show ?thesis by (auto simp: nisd_fields_def)
qed

lemma nisd_written_value:
  "map_of (nisd_written_pairs n) f =
     (if f \<in> set nisd_fields then (case nisd_value n f of None \<Rightarrow> None | Some v \<Rightarrow> if v = [] then None else Some v)
      else None)"
proof -
  have "map_of (filter (\<lambda>(f, v). v \<noteq> []) (field_pairs val fs)) f =
      (if f \<in> set fs then (case val f of None \<Rightarrow> None | Some v \<Rightarrow> if v = [] then None else Some v) else None)" for val fs
    by (induction fs) (auto split: option.splits)
  then show ?thesis by (simp add: nisd_written_pairs_def)
qed

definition nisd_entries :: "nisd \<Rightarrow> (string \<times> string) list" where
  "nisd_entries n =
     map (\<lambda>(f, v). (getConfKey (nisd_key n) f, v)) (nisd_written_pairs n)
     @ map (\<lambda>i. (getConfKey (getConfKey (nisd_key n) NETWORK_INFO) (ni_IPAddr i), utoa (unat (ni_Port i)))) (n_NetInfo n)"

lemma nisdPopulator_entries:
  assumes "PopulateEntities n nisdPopulator NisdCfgKey = Ret cs"
  shows "map entry cs = nisd_entries n"
proof -
  have "cs = populate_nonempty (nisd_key n) (nisd_value n) nisd_fields @ nisd_netinfo_chgs (nisd_key n) (n_NetInfo n)"
    using assms unfolding PopulateEntities_def nisdPopulator_def Let_def nisd_fields_def nisd_key_def
    by (simp only: append_Nil go.inject split: if_split_asm) (simp only: go.distinct)
  moreover have "map entry (nisd_netinfo_chgs (nisd_key n) nis) =
      map (\<lambda>i. (getConfKey (getConfKey (nisd_key n) NETWORK_INFO) (ni_IPAddr i), utoa (unat (ni_Port i)))) nis" for nis
    by (simp add: nisd_netinfo_chgs_def entry_def getConfKey_def)
  ultimately show ?thesis
    by (simp only: map_append entries_populate_nonempty nisd_entries_def nisd_written_pairs_def)
qed

lemma nisd_kp_field: "nisd_storable n \<Longrightarrow> p \<in> set (nisd_written_pairs n) \<Longrightarrow>
    key_parts (getConfKey (nisd_key n) (fst p)) = [NisdCfgKey, n_ID n, fst p]"
  using nisd_written_field[of p n] by (auto simp: nisd_key_def nisd_storable_def intro!: key_parts_3)

lemma nisd_kp_net: "nisd_storable n \<Longrightarrow> i \<in> set (n_NetInfo n) \<Longrightarrow>
    key_parts (getConfKey (getConfKey (nisd_key n) NETWORK_INFO) (ni_IPAddr i)) =
      [NisdCfgKey, n_ID n, NETWORK_INFO, ni_IPAddr i]"
  by (auto simp: nisd_key_def nisd_storable_def list_all_iff intro!: key_parts_4)

lemma nisd_entries_key: "nisd_storable n \<Longrightarrow> kv \<in> set (nisd_entries n) \<Longrightarrow>
    key_relevant NisdCfgKey 1 kv \<and> key_id 1 kv = n_ID n"
  unfolding nisd_entries_def
  by (auto simp: key_relevant_def key_id_def nisd_kp_net dest: nisd_kp_field)

lemma nisd_entries_distinct: "nisd_storable n \<Longrightarrow> distinct (map (\<lambda>kv. key_parts (fst kv)) (nisd_entries n))"
proof -
  assume ok: "nisd_storable n"
  have f: "map (\<lambda>kv. key_parts (fst kv)) (map (\<lambda>(f, v). (getConfKey (nisd_key n) f, v)) (nisd_written_pairs n))
      = map (\<lambda>f. [NisdCfgKey, n_ID n, f]) (map fst (nisd_written_pairs n))"
    using nisd_kp_field[OF ok] by (auto simp: case_prod_beta)
  have g: "map (\<lambda>kv. key_parts (fst kv))
        (map (\<lambda>i. (getConfKey (getConfKey (nisd_key n) NETWORK_INFO) (ni_IPAddr i), utoa (unat (ni_Port i)))) (n_NetInfo n))
      = map (\<lambda>a. [NisdCfgKey, n_ID n, NETWORK_INFO, a]) (map ni_IPAddr (n_NetInfo n))"
    using nisd_kp_net[OF ok] by auto
  have "distinct (map ni_IPAddr (n_NetInfo n))" using ok by (simp add: nisd_storable_def)
  then show ?thesis
    unfolding nisd_entries_def map_append f g distinct_append
    using nisd_written_distinct[of n] by (auto simp: distinct_map inj_on_def comp_def)
qed

lemma nisd_regular: "nisd_storable n \<Longrightarrow> nisd.regular (nisd_entries n)"
  unfolding nisd.regular_def
  using nisd_entries_distinct by (auto simp: distinct_map_filter)

lemma nisd_fold_fields:
  assumes "nisd_storable n"
  shows "foldl (\<lambda>e kv. nisd_ParseField e (key_parts (fst kv)) (snd kv)) (new_nisd (n_ID n))
           (map (\<lambda>(f, v). (getConfKey (nisd_key n) f, v)) (nisd_written_pairs n))
       = foldl (\<lambda>e (f, v). nisd_set f v e) (new_nisd (n_ID n)) (nisd_written_pairs n)"
proof -
  have "foldl (\<lambda>e kv. nisd_ParseField e (key_parts (fst kv)) (snd kv)) e
          (map (\<lambda>(f, v). (getConfKey (nisd_key n) f, v)) ps)
      = foldl (\<lambda>e (f, v). nisd_set f v e) e ps" if "set ps \<subseteq> set (nisd_written_pairs n)" for e ps
    using that
  proof (induction ps arbitrary: e)
    case (Cons p ps)
    then have "key_parts (getConfKey (nisd_key n) (fst p)) = [NisdCfgKey, n_ID n, fst p]"
      using nisd_kp_field[OF assms] by simp
    with Cons show ?case by (simp add: case_prod_beta nisd_ParseField_def)
  qed simp
  then show ?thesis by simp
qed

lemma nisd_fold_net:
  assumes "nisd_storable n"
  shows "foldl (\<lambda>e kv. nisd_ParseField e (key_parts (fst kv)) (snd kv)) e
          (map (\<lambda>i. (getConfKey (getConfKey (nisd_key n) NETWORK_INFO) (ni_IPAddr i), utoa (unat (ni_Port i)))) (n_NetInfo n))
       = e\<lparr>n_NetInfo := n_NetInfo e @ n_NetInfo n\<rparr>"
proof -
  have "foldl (\<lambda>e kv. nisd_ParseField e (key_parts (fst kv)) (snd kv)) e
          (map (\<lambda>i. (getConfKey (getConfKey (nisd_key n) NETWORK_INFO) (ni_IPAddr i), utoa (unat (ni_Port i)))) nis)
      = e\<lparr>n_NetInfo := n_NetInfo e @ nis\<rparr>" if "set nis \<subseteq> set (n_NetInfo n)" for nis
    using that
  proof (induction nis arbitrary: e)
    case (Cons i nis)
    have p: "word_of_int (fst (atoi (utoa (unat (ni_Port i))))) = ni_Port i" by simp
    have "nisd_ParseField e [NisdCfgKey, n_ID n, NETWORK_INFO, ni_IPAddr i] (utoa (unat (ni_Port i)))
        = e\<lparr>n_NetInfo := n_NetInfo e @ [i]\<rparr>"
      by (simp add: nisd_ParseField_def)
    with Cons nisd_kp_net[OF assms, of i] show ?case by simp
  qed simp
  then show ?thesis by simp
qed

lemma nisd_fold_written:
  assumes "nisd_storable n"
  shows "foldl (\<lambda>e (f, v). nisd_set f v e) (new_nisd (n_ID n)) (nisd_written_pairs n) = n\<lparr>n_NetInfo := []\<rparr>"
    (is "?l = ?r")
proof (rule nisd.equality)
  let ?Q = "\<lambda>m :: nisd. length (n_FailureDomain m) = FD_MAX"
  have Q0: "?Q (new_nisd (n_ID n))" by (simp add: new_nisd_def)
  have Q: "?Q m \<Longrightarrow> ?Q (nisd_set f v m)" for m f v
    by (simp add: nisd_set_sel split: option.split)
  note sel = foldl_sel[where Q = ?Q and st = nisd_set and l = "nisd_written_pairs n" and n = "new_nisd (n_ID n)",
      OF _ Q nisd_written_distinct Q0]
  note val = nisd_written_value nisd_fields_def nisd_value.simps new_nisd_def
  show "n_ID ?l = n_ID ?r"
    by (subst foldl_keep[where S = n_ID]) (simp_all add: nisd_set_sel new_nisd_def)
  show "n_NetInfo ?l = n_NetInfo ?r"
    by (subst foldl_keep[where S = n_NetInfo]) (simp_all add: nisd_set_net new_nisd_def)
  show "nisd.more ?l = nisd.more ?r"
    by (subst foldl_keep[where S = nisd.more]) (simp_all add: nisd_set_sel new_nisd_def)
  show "n_PeerPort ?l = n_PeerPort ?r"
    by (subst sel[where S = n_PeerPort and F = PEER_PORT and g = "\<lambda>v. word_of_int (fst (atoi v))"])
      (simp_all add: nisd_set_sel val)
  show "n_TotalSize ?l = n_TotalSize ?r"
    by (subst sel[where S = n_TotalSize and F = TOTAL_SPACE and g = "\<lambda>v. word_of_int (fst (atoi v))"])
      (simp_all add: nisd_set_sel val)
  show "n_AvailableSize ?l = n_AvailableSize ?r"
    by (subst sel[where S = n_AvailableSize and F = AVAIL_SPACE and g = "\<lambda>v. word_of_int (fst (atoi v))"])
      (simp_all add: nisd_set_sel val)
  show "n_SocketPath ?l = n_SocketPath ?r"
    by (subst sel[where S = n_SocketPath and F = SOCKET_PATH and g = "\<lambda>v. v"])
      (simp_all add: nisd_set_sel val)
  show "n_NetInfoCnt ?l = n_NetInfoCnt ?r"
    by (subst sel[where S = n_NetInfoCnt and F = NETWORK_INFO_CNT and g = "\<lambda>v. fst (atoi v)"])
      (use assms in \<open>simp_all add: nisd_set_sel val nisd_storable_def\<close>)
  show "n_FailureDomain ?l = n_FailureDomain ?r"
  proof (rule nth_equalityI)
    have Ql: "?Q ?l" by (rule foldl_inv) (use Q0 Q in auto)
    show "length (n_FailureDomain ?l) = length (n_FailureDomain ?r)"
      using Ql assms by (simp add: nisd_storable_def)
    fix i assume "i < length (n_FailureDomain ?l)"
    then have i: "i < 5" using Ql by simp
    have at: "n_FailureDomain ?l ! i = (case map_of (nisd_written_pairs n) F of Some v \<Rightarrow> v | None \<Rightarrow> n_FailureDomain (new_nisd (n_ID n)) ! i)"
      if F: "\<And>f. nisd_fd_idx f = Some i \<longleftrightarrow> f = F" for F
    proof (rule sel[where S = "\<lambda>m. n_FailureDomain m ! i" and g = "\<lambda>v. v"])
      fix m :: nisd and f v assume "?Q m"
      then show "n_FailureDomain (nisd_set f v m) ! i = (if f = F then v else n_FailureDomain m ! i)"
        using F[of f] i by (auto simp: nisd_set_sel nth_list_update split: option.splits)
    qed
    from i consider "i = 0" | "i = 1" | "i = 2" | "i = 3" | "i = 4" by linarith
    then show "n_FailureDomain ?l ! i = n_FailureDomain ?r ! i"
    proof cases
      case 1
      then show ?thesis using at[of pduKey] by (simp add: nisd_fd_idx_def val)
    next
      case 2
      then show ?thesis using at[of rackKey] by (simp add: nisd_fd_idx_def val)
    next
      case 3
      then show ?thesis using at[of hvKey] by (simp add: nisd_fd_idx_def val)
    next
      case 4
      then show ?thesis using at[of DEVICE_ID] by (simp add: nisd_fd_idx_def val)
    next
      case 5
      then show ?thesis using at[of ptKey] by (simp add: nisd_fd_idx_def val)
    qed
  qed
qed

lemma nisd_parse_written:
  assumes "nisd_storable n"
  shows "ParseEntities (nisd_entries n) NisdParser 1 = Ret [n]"
proof -
  have one: "\<forall>kv \<in> set (nisd_entries n). key_relevant (pe_GetRootKey NisdParser) 1 kv \<and> key_id 1 kv = n_ID n"
    using nisd_entries_key[OF assms] by (simp add: NisdParser_def)
  have ne: "nisd_entries n \<noteq> []"
  proof -
    have "map_of (nisd_written_pairs n) PEER_PORT \<noteq> None"
      by (simp add: nisd_written_value nisd_fields_def nisd_value.simps)
    then show ?thesis by (auto simp: nisd_entries_def)
  qed
  have "foldl (\<lambda>e kv. nisd_ParseField e (key_parts (fst kv)) (snd kv)) (new_nisd (n_ID n)) (nisd_entries n) = n"
    unfolding nisd_entries_def foldl_append nisd_fold_fields[OF assms] nisd_fold_net[OF assms]
      nisd_fold_written[OF assms] by simp
  with nisd.ParseEntities_single[OF nisd_regular[OF assms] one ne] show ?thesis
    by (simp add: NisdParser_def)
qed

text \<open>
  C7: a NISD that \<open>nisdPopulator\<close> writes is read back by \<open>NisdParser\<close>, whatever the order in which the
  pairs come, with its five failure domains, sizes, ports and counts; only the order of its network
  addresses may differ (the code appends them in the order of a map).
\<close>

theorem nisd_round_trip:
  assumes "nisd_storable n"
    and "PopulateEntities n nisdPopulator NisdCfgKey = Ret cs"
    and "mset kvs = mset (map entry cs)"
  shows "\<exists>m. ParseEntities kvs NisdParser BASE_UUID_PREFIX = Ret [m] \<and> nisd_eqv n m"
proof -
  have e: "map entry cs = nisd_entries n" by (rule nisdPopulator_entries[OF assms(2)])
  with assms(3) have "mset (nisd_entries n) = mset kvs" by simp
  from nisd.ParseEntities_order[OF this nisd_regular[OF assms(1)]]
  obtain es0 es where es: "ParseEntities (nisd_entries n) NisdParser 1 = Ret es0"
    "ParseEntities kvs NisdParser 1 = Ret es" "rel_mset nisd_eqv (mset es0) (mset es)" by blast
  from es(1) have "es0 = [n]" unfolding nisd_parse_written[OF assms(1)] by (simp only: go.inject)
  from rel_mset_single[OF es(3)[unfolded this]] es(2) show ?thesis by blast
qed


definition sample_nisd :: nisd where
  "sample_nisd = \<lparr>n_PeerPort = 8000, n_ID = ''n1'', n_FailureDomain = [''p1'', ''r1'', ''h1'', ''d1'', ''''],
     n_TotalSize = 100, n_AvailableSize = 40, n_SocketPath = [],
     n_NetInfo = [\<lparr>ni_IPAddr = ''10.0.0.1'', ni_Port = 80\<rparr>, \<lparr>ni_IPAddr = ''10.0.0.2'', ni_Port = 81\<rparr>],
     n_NetInfoCnt = 2\<rparr>"

theorem nisd_round_trip_witness:
  "\<exists>cs m. PopulateEntities sample_nisd nisdPopulator NisdCfgKey = Ret cs \<and>
      ParseEntities (rev (map entry cs)) NisdParser BASE_UUID_PREFIX = Ret [m] \<and> nisd_eqv sample_nisd m"
proof -
  have ok: "nisd_storable sample_nisd" by (simp add: nisd_storable_def sample_nisd_def)
  obtain cs where cs: "PopulateEntities sample_nisd nisdPopulator NisdCfgKey = Ret cs"
    by (simp add: PopulateEntities_def nisdPopulator_def sample_nisd_def Let_def)
  have "mset (rev (map entry cs)) = mset (map entry cs)" by simp
  from nisd_round_trip[OF ok cs this] cs show ?thesis by blast
qed

subsection \<open>Vdevs\<close>

definition vdev_fields :: "string list" where
  "vdev_fields = [SIZE, NUM_CHUNKS, TOTAL_DATA_BLKS, TOTAL_PARITY_BLKS, REDUNDANCY_MODE, NAME]"

text \<open>The fields of a vdev that \<open>vdevPopulator\<close> stores; the rest is at its zero value after reading.\<close>

definition vdev_stored :: "vdev_config \<Rightarrow> vdev_config" where
  "vdev_stored v = (new_vdev (v_ID v))\<lparr>v_Name := v_Name v, v_Size := v_Size v, v_Redundancy := v_Redundancy v,
     v_ChunkCnt := v_ChunkCnt v, v_DataBlkCnt := v_DataBlkCnt v, v_ParityBlkCnt := v_ParityBlkCnt v\<rparr>"

definition vdev_written_pairs :: "vdev_config \<Rightarrow> (string \<times> string) list" where
  "vdev_written_pairs v = filter (\<lambda>(f, x). x \<noteq> []) (field_pairs (vdev_value v) vdev_fields)"

definition vdev_entries :: "vdev_config \<Rightarrow> (string \<times> string) list" where
  "vdev_entries v =
     map (\<lambda>(f, x). (getConfKey (getConfKey (getConfKey vdevKey (v_ID v)) cfgkey) f, x)) (vdev_written_pairs v)"

lemma vdev_pairs_eq:
  "vdev_written_pairs v =
     [(SIZE, itoa (sint (v_Size v))), (NUM_CHUNKS, utoa (unat (v_ChunkCnt v))),
      (TOTAL_DATA_BLKS, utoa (unat (v_DataBlkCnt v))), (TOTAL_PARITY_BLKS, utoa (unat (v_ParityBlkCnt v))),
      (REDUNDANCY_MODE, itoa (v_Redundancy v))] @ (if v_Name v = [] then [] else [(NAME, v_Name v)])"
  by (simp add: vdev_written_pairs_def vdev_fields_def vdev_value.simps)

lemma vdev_kp:
  assumes "slash \<notin> set (v_ID v)" "slash \<notin> set f" "f \<noteq> []"
  shows "key_parts (getConfKey (getConfKey (getConfKey vdevKey (v_ID v)) cfgkey) f) = [vdevKey, v_ID v, cfgkey, f]"
  by (rule key_parts_4) (use assms in auto)

lemma vdev_regular: "slash \<notin> set (v_ID v) \<Longrightarrow> vdev.regular tp (vdev_entries v)"
  unfolding vdev.regular_def
  by (simp add: vdev_entries_def vdev_pairs_eq vdev_kp key_relevant_def vdevParser_def)

lemma vdev_parse_written:
  assumes "slash \<notin> set (v_ID v)" and "- (2 ^ 63) \<le> v_Redundancy v" "v_Redundancy v < 2 ^ 63"
  shows "ParseEntities (vdev_entries v) (vdevParser tp) 1 = Ret [vdev_stored v]"
proof -
  have one: "\<forall>kv \<in> set (vdev_entries v). key_relevant (pe_GetRootKey (vdevParser tp)) 1 kv \<and> key_id 1 kv = v_ID v"
    using assms(1)
    by (simp add: vdev_entries_def vdev_pairs_eq vdev_kp key_relevant_def key_id_def vdevParser_def)
  have ne: "vdev_entries v \<noteq> []" by (simp add: vdev_entries_def vdev_pairs_eq)
  have "foldl (\<lambda>e kv. vdev_ParseField tp e (key_parts (fst kv)) (snd kv)) (new_vdev (v_ID v)) (vdev_entries v)
      = vdev_stored v"
    using assms
    by (simp add: vdev_entries_def vdev_pairs_eq vdev_kp vdev_ParseField_def vdev_set_cfg_def atoi_ok_def
        parse_uint_ok_def vdev_stored_def new_vdev_def)
  with vdev.ParseEntities_single[OF vdev_regular[OF assms(1)] one ne] show ?thesis
    by (simp add: vdevParser_def)
qed

text \<open>
  A vdev that \<open>vdevPopulator\<close> writes is read back by \<open>vdevParser\<close> in any order of the pairs: size,
  chunk count, block counts, redundancy mode and name survive printing as decimal text and parsing
  at the width of their fields.
\<close>

theorem vdev_round_trip:
  assumes "slash \<notin> set (v_ID v)" and "- (2 ^ 63) \<le> v_Redundancy v" "v_Redundancy v < 2 ^ 63"
    and "PopulateEntities v vdevPopulator vdevKey = Ret cs"
    and "mset kvs = mset (map entry cs)"
  shows "ParseEntities kvs (vdevParser tp) BASE_UUID_PREFIX = Ret [vdev_stored v]"
proof -
  have cs: "cs = populate_nonempty (getConfKey (getConfKey vdevKey (v_ID v)) cfgkey) (vdev_value v) vdev_fields"
    using assms(4) by (simp only: PopulateEntities_def vdevPopulator_def vdev_fields_def append_Nil go.inject)
  have "map entry cs = vdev_entries v"
    unfolding cs entries_populate_nonempty vdev_entries_def vdev_written_pairs_def ..
  with assms(5) have "mset (vdev_entries v) = mset kvs" by simp
  from vdev.ParseEntities_order[OF this vdev_regular[OF assms(1)]]
  obtain es0 es where es: "ParseEntities (vdev_entries v) (vdevParser tp) 1 = Ret es0"
    "ParseEntities kvs (vdevParser tp) 1 = Ret es" "rel_mset (=) (mset es0) (mset es)" by blast
  from es(1) have "es0 = [vdev_stored v]" unfolding vdev_parse_written[OF assms(1-3)] by (simp only: go.inject)
  from rel_mset_single[OF es(3)[unfolded this]] es(2) show ?thesis by blast
qed

theorem vdev_round_trip_witness:
  "\<exists>cs. PopulateEntities ((new_vdev ''x'')\<lparr>v_Size := 17179869184, v_ChunkCnt := 2, v_DataBlkCnt := 255\<rparr>) vdevPopulator vdevKey
       = Ret cs \<and>
     ParseEntities (rev (map entry cs)) (vdevParser (\<lambda>_. None)) BASE_UUID_PREFIX
       = Ret [(new_vdev ''x'')\<lparr>v_Size := 17179869184, v_ChunkCnt := 2, v_DataBlkCnt := 255\<rparr>]"
proof -
  let ?v = "(new_vdev ''x'')\<lparr>v_Size := 17179869184, v_ChunkCnt := 2, v_DataBlkCnt := 255\<rparr>"
  obtain cs where cs: "PopulateEntities ?v vdevPopulator vdevKey = Ret cs"
    by (simp add: PopulateEntities_def vdevPopulator_def)
  have r: "mset (rev (map entry cs)) = mset (map entry cs)" by simp
  have "ParseEntities (rev (map entry cs)) (vdevParser (\<lambda>_. None)) BASE_UUID_PREFIX = Ret [vdev_stored ?v]"
    by (rule vdev_round_trip[OF _ _ _ cs r]) (simp_all add: new_vdev_def)
  moreover have "vdev_stored ?v = ?v" by (simp add: vdev_stored_def new_vdev_def)
  ultimately show ?thesis using cs by metis
qed

text \<open>
  C8: reading NISDs out of a result map does not depend on the order in which the map is visited, as
  long as no two keys split into the same parts: the same NISDs come out, as a multiset, up to the
  order of their network addresses.
\<close>

theorem NisdParser_order_irrelevant:
  assumes "mset kvs = mset kvs'"
    and "distinct (map (\<lambda>kv. key_parts (fst kv)) (filter (key_relevant NisdCfgKey 1) kvs))"
  shows "\<exists>es es'. ParseEntities kvs NisdParser 1 = Ret es \<and> ParseEntities kvs' NisdParser 1 = Ret es' \<and>
           rel_mset nisd_eqv (mset es) (mset es')"
proof (rule nisd.ParseEntities_order[OF assms(1)])
  have root: "pe_GetRootKey NisdParser = NisdCfgKey" by (simp add: NisdParser_def)
  show "nisd.regular kvs" unfolding nisd.regular_def root using assms(2) by blast
qed

theorem NisdParser_order_irrelevant_witness:
  "\<exists>es es'. ParseEntities [(''n_cfg/a/ts'', ''5''), (''n_cfg/b/ni/x'', ''1''), (''n_cfg/b/ni/y'', ''2'')] NisdParser 1 = Ret es \<and>
     ParseEntities [(''n_cfg/b/ni/y'', ''2''), (''n_cfg/a/ts'', ''5''), (''n_cfg/b/ni/x'', ''1'')] NisdParser 1 = Ret es' \<and>
     rel_mset nisd_eqv (mset es) (mset es')"
  by (rule NisdParser_order_irrelevant)
    (simp_all add: key_parts_def trim_def trim_left_def key_relevant_def add_mset_commute)

end
