(* ===== verification/UserSpec.thy ===== *)
theory UserSpec
  imports UserServer RoundTrip StoreLemmas
begin

section \<open>What the user service guarantees\<close>

text \<open>
  A user that is written is found again under its identifier and its name, and \<open>Login\<close> gives a token of
  exactly that identity for the stored key and for no other. Names are looked up by a prefix read, so
  this holds for a name that is not the beginning of another stored name; \<open>Login_by_name_prefix\<close>
  shows what happens otherwise.
\<close>

subsection \<open>Reading a user back\<close>

definition about_user :: "string \<Rightarrow> string \<Rightarrow> bool" where
  "about_user uid k \<longleftrightarrow> 3 \<le> length (key_parts k) \<and> key_parts k ! 0 = userKeyPrefix \<and> key_parts k ! 1 = uid"

abbreviation parse_user :: "user \<Rightarrow> (string \<times> string) list \<Rightarrow> user" where
  "parse_user \<equiv> foldl (\<lambda>u kv. user_ParseField u (key_parts (fst kv)) (snd kv))"

lemma users_from_lookup:
  assumes "uid \<noteq> []"
  shows "map_of (users_from m kvs) uid =
     (case filter (\<lambda>kv. about_user uid (fst kv)) kvs of
        [] \<Rightarrow> map_of m uid
      | rel \<Rightarrow> Some (parse_user (case map_of m uid of Some u \<Rightarrow> u | None \<Rightarrow> new_user\<lparr>u_UserID := uid\<rparr>) rel))"
proof (induction kvs arbitrary: m)
  case (Cons kv kvs)
  obtain k v where kv: "kv = (k, v)" by fastforce
  let ?p = "key_parts k"
  show ?case
  proof (cases "length ?p < 3 \<or> ?p ! 0 \<noteq> userKeyPrefix \<or> ?p ! 1 = []")
    case True
    then have "\<not> about_user uid k" using assms by (auto simp: about_user_def)
    with True Cons show ?thesis by (simp add: kv Let_def)
  next
    case False
    let ?u = "case map_of m (?p ! 1) of Some u \<Rightarrow> u | None \<Rightarrow> new_user\<lparr>u_UserID := ?p ! 1\<rparr>"
    have step: "users_from m (kv # kvs) = users_from (alist_update (?p ! 1) (user_ParseField ?u ?p v) m) kvs"
      using False by (simp add: kv Let_def del: One_nat_def)
    have about: "about_user uid k \<longleftrightarrow> uid = ?p ! 1" using False by (auto simp: about_user_def)
    show ?thesis
    proof (cases "uid = ?p ! 1")
      case True
      then have about: "about_user uid k" and p: "?p ! 1 = uid" using about by simp_all
      show ?thesis unfolding step Cons.IH p by (simp add: kv about split: list.split)
    next
      case False
      with about show ?thesis unfolding step Cons.IH by (simp add: kv split: list.split)
    qed
  qed
qed simp

lemma user_ParseField_UserID [simp]: "u_UserID (user_ParseField u p v) = u_UserID u"
  by (simp add: user_ParseField_def Let_def)

lemma users_from_ids:
  assumes "\<forall>(k, u) \<in> set m. u_UserID u = k" and "distinct (map fst m)"
  shows "(\<forall>(k, u) \<in> set (users_from m kvs). u_UserID u = k) \<and> distinct (map fst (users_from m kvs))"
  using assms
proof (induction kvs arbitrary: m)
  case (Cons kv kvs)
  obtain k v where kv: "kv = (k, v)" by fastforce
  let ?p = "key_parts k"
  let ?u = "case map_of m (?p ! 1) of Some u \<Rightarrow> u | None \<Rightarrow> new_user\<lparr>u_UserID := ?p ! 1\<rparr>"
  let ?m = "alist_update (?p ! 1) (user_ParseField ?u ?p v) m"
  have "distinct (map fst ?m)" using Cons.prems(2) by simp
  moreover have "\<forall>(k, u) \<in> set ?m. u_UserID u = k"
  proof -
    have "u_UserID ?u = ?p ! 1"
      using Cons.prems(1) by (cases "map_of m (?p ! 1)") (auto dest: map_of_SomeD)
    then have "map_of ?m k' = Some u' \<Longrightarrow> u_UserID u' = k'" for k' u'
      using Cons.prems(1) by (auto dest: map_of_SomeD split: if_splits)
    with \<open>distinct (map fst ?m)\<close> show ?thesis by (auto dest: map_of_is_SomeI)
  qed
  ultimately show ?case using Cons.IH[of ?m] Cons.IH[OF Cons.prems] by (simp add: kv Let_def del: One_nat_def)
qed simp

lemma find_by_id:
  "\<forall>(k, u) \<in> set m. u_UserID u = k \<Longrightarrow> List.find (\<lambda>u. u_UserID u = uid) (map snd m) = map_of m uid"
  by (induction m) auto

lemma DeserializeSingleUser_eq: "DeserializeSingleUser kvs uid = map_of (users_from [] kvs) uid"
  using users_from_ids[of "[]" kvs] find_by_id[of "users_from [] kvs" uid]
  by (simp add: DeserializeSingleUser_def DeserializeUsers_def)

text \<open>A field has the value that its keys give it; keys of other fields do not touch it.\<close>

lemma parse_user_field:
  assumes "\<And>u p v. p ! 2 \<noteq> f \<Longrightarrow> get (user_ParseField u p v) = get u"
    and "\<And>u p. 3 \<le> length p \<Longrightarrow> p ! 2 = f \<Longrightarrow> get (user_ParseField u p val) = x"
    and "\<forall>(k, v) \<in> set kvs. 3 \<le> length (key_parts k) \<and> (key_parts k ! 2 = f \<longrightarrow> v = val)"
    and "(\<exists>(k, v) \<in> set kvs. key_parts k ! 2 = f) \<or> get u = x"
  shows "get (parse_user u kvs) = x"
  using assms(3,4)
proof (induction kvs arbitrary: u)
  case (Cons kv kvs)
  obtain k v where kv: "kv = (k, v)" by fastforce
  let ?u = "user_ParseField u (key_parts k) v"
  have "(\<exists>(k, v) \<in> set kvs. key_parts k ! 2 = f) \<or> get ?u = x"
    using Cons.prems assms(1,2) by (cases "key_parts k ! 2 = f") (auto simp: kv)
  with Cons.IH[of ?u] Cons.prems(1) show ?case by (simp add: kv)
qed simp


subsection \<open>Stored users\<close>

text \<open>The keys of a user, without the index, and a store that holds these and no other key of the user.\<close>

definition user_entries :: "user \<Rightarrow> (string \<times> string) list" where
  "user_entries u =
     (if u_Username u \<noteq> [] then [(user_key (u_UserID u) usernameField, u_Username u)] else [])
     @ (if u_SecretKey u \<noteq> [] then [(user_key (u_UserID u) secretKeyField, u_SecretKey u)] else [])
     @ [(user_key (u_UserID u) userTypeField, if u_IsAdmin u then ''admin'' else ''non-admin'')]
     @ (if u_UserRole u \<noteq> [] then [(user_key (u_UserID u) userRoleField, u_UserRole u)] else [])
     @ [(user_key (u_UserID u) statusField, [char_of (unat (u_Status u))])]"

lemma SerializeUser_entries:
  "map entry (SerializeUser u) =
     user_entries u @ (if u_Username u \<noteq> [] then [(username_key (u_Username u), u_UserID u)] else [])"
  by (simp add: SerializeUser_def user_entries_def entry_def)

definition user_stored :: "(string \<rightharpoonup> string) \<Rightarrow> user \<Rightarrow> bool" where
  "user_stored c u \<longleftrightarrow> u_UserID u \<noteq> [] \<and> slash \<notin> set (u_UserID u) \<and>
     (\<forall>k. about_user (u_UserID u) k \<longrightarrow> c k = map_of (user_entries u) k)"

lemma user_key_parts:
  assumes "uid \<noteq> []" "slash \<notin> set uid" "f \<noteq> []" "slash \<notin> set f"
  shows "key_parts (user_key uid f) = [userKeyPrefix, uid, f]"
  using key_parts_3[of userKeyPrefix uid f] assms by (simp add: user_key_def getConfKey_def)

lemma user_entries_about:
  assumes "uid = u_UserID u" "uid \<noteq> []" "slash \<notin> set uid" "(k, v) \<in> set (user_entries u)"
  shows "about_user uid k"
  using assms by (auto simp: user_entries_def about_user_def user_key_parts split: if_splits)

lemma user_status_byte: "of_char (char_of (unat (st :: status)) :: char) = st"
proof -
  have "unat st < 256" using unsigned_less[where 'a = nat and w = st] by simp
  then have "(of_char (char_of (unat st) :: char) :: nat) = unat st" by simp
  then have "of_nat (of_char (char_of (unat st) :: char)) = (of_nat (unat st) :: status)" by (rule arg_cong)
  then show ?thesis unfolding of_nat_of_char by simp
qed

text \<open>The value a user's entries have for a field.\<close>

definition user_field :: "user \<Rightarrow> string \<Rightarrow> string" where
  "user_field u f =
     (if f = usernameField then u_Username u else if f = secretKeyField then u_SecretKey u
      else if f = userTypeField then (if u_IsAdmin u then ''admin'' else ''non-admin'')
      else if f = userRoleField then u_UserRole u else [char_of (unat (u_Status u))])"

lemma user_entries_eq:
  "user_entries u = map (\<lambda>f. (user_key (u_UserID u) f, user_field u f))
     (filter (\<lambda>f. user_field u f \<noteq> []) [usernameField, secretKeyField, userTypeField, userRoleField, statusField])"
  by (simp add: user_entries_def user_field_def)

lemma parse_stored_user:
  assumes id: "u_UserID u \<noteq> []" "slash \<notin> set (u_UserID u)" and kvs: "set kvs = set (user_entries u)"
  shows "parse_user (new_user\<lparr>u_UserID := u_UserID u\<rparr>) kvs = u"
proof -
  let ?F = "[usernameField, secretKeyField, userTypeField, userRoleField, statusField]"
  let ?u0 = "new_user\<lparr>u_UserID := u_UserID u\<rparr>"
  have all: "\<forall>(k, v) \<in> set kvs. 3 \<le> length (key_parts k) \<and> (key_parts k ! 2 = f \<longrightarrow> v = user_field u f)" for f
    unfolding kvs user_entries_eq using user_key_parts[OF id] by auto
  have ex: "\<exists>(k, v) \<in> set kvs. key_parts k ! 2 = f" if "f \<in> set ?F" "user_field u f \<noteq> []" for f
  proof -
    have "(user_key (u_UserID u) f, user_field u f) \<in> set kvs" unfolding kvs user_entries_eq using that by auto
    moreover have "key_parts (user_key (u_UserID u) f) ! 2 = f" using user_key_parts[OF id, of f] that(1) by auto
    ultimately show ?thesis by blast
  qed
  have field: "get (parse_user ?u0 kvs) = x"
    if "f \<in> set ?F" "\<And>u p v. p ! 2 \<noteq> f \<Longrightarrow> get (user_ParseField u p v) = get u"
      "\<And>v p. 3 \<le> length p \<Longrightarrow> p ! 2 = f \<Longrightarrow> get (user_ParseField v p (user_field u f)) = x"
      "user_field u f = [] \<longrightarrow> get ?u0 = x" for get :: "user \<Rightarrow> 'x" and f x
    using parse_user_field[where f = f and get = get and val = "user_field u f" and x = x, OF that(2,3) all]
      ex[OF that(1)] that(4) by blast
  have "u_Username (parse_user ?u0 kvs) = u_Username u"
    by (rule field[of usernameField]) (simp_all add: user_ParseField_def Let_def user_field_def new_user_def)
  moreover have "u_SecretKey (parse_user ?u0 kvs) = u_SecretKey u"
    by (rule field[of secretKeyField]) (simp_all add: user_ParseField_def Let_def user_field_def new_user_def)
  moreover have "u_UserRole (parse_user ?u0 kvs) = u_UserRole u"
    by (rule field[of userRoleField]) (simp_all add: user_ParseField_def Let_def user_field_def new_user_def)
  moreover have "u_Status (parse_user ?u0 kvs) = u_Status u"
    by (rule field[of statusField]) (simp_all add: user_ParseField_def Let_def user_field_def user_status_byte)
  moreover have "u_IsAdmin (parse_user ?u0 kvs) = u_IsAdmin u"
    by (rule field[of userTypeField]) (simp_all add: user_ParseField_def Let_def user_field_def)
  moreover have "u_UserID (parse_user u' kvs) = u_UserID u'" for u'
    by (induction kvs arbitrary: u') simp_all
  ultimately show ?thesis by simp
qed

lemma checkUserExistsByID_stored:
  assumes "store_exact ds cont" and "user_stored (cont s) u"
  shows "checkUserExistsByID ds s cb (u_UserID u) = Ret (Some u)"
proof -
  let ?uid = "u_UserID u" and ?p = "userKeyPrefix @ ''/'' @ u_UserID u"
  from assms(2) have id: "?uid \<noteq> []" "slash \<notin> set ?uid"
    and c: "\<And>k. about_user ?uid k \<Longrightarrow> cont s k = map_of (user_entries u) k" by (auto simp: user_stored_def)
  have d: "distinct (map fst (user_entries u))"
    by (auto simp: user_entries_def user_key_def)
  have pre: "has_prefix ?p k" if "(k, v) \<in> set (user_entries u)" for k v
    using that by (auto simp: user_entries_def user_key_def has_prefix_iff split: if_splits)
  have inc: "cont s k = Some v" if "(k, v) \<in> set (user_entries u)" for k v
    using c[OF user_entries_about[OF refl id that]] that d by simp
  obtain k0 v0 where "(k0, v0) \<in> set (user_entries u)" by (auto simp: user_entries_def)
  with exact_range[OF assms(1) inc, of k0 v0 ?p cb] pre obtain r where r:
    "ds_RangeRead ds s (prefix_args cb ?p) = Inr r"
    "\<And>k v. (k, v) \<in> set (rr_ResultMap r) \<longleftrightarrow> has_prefix ?p k \<and> cont s k = Some v" by metis
  let ?rel = "filter (\<lambda>kv. about_user ?uid (fst kv)) (rr_ResultMap r)"
  have "set ?rel = set (user_entries u)"
  proof (intro equalityI subrelI)
    fix k v assume "(k, v) \<in> set ?rel"
    then have "about_user ?uid k" "(k, v) \<in> set (rr_ResultMap r)" by simp_all
    then have "map_of (user_entries u) k = Some v" using r(2) c[of k] by simp
    then show "(k, v) \<in> set (user_entries u)" by (rule map_of_SomeD)
  next
    fix k v assume kv: "(k, v) \<in> set (user_entries u)"
    then show "(k, v) \<in> set ?rel"
      using r(2) inc[OF kv] pre[OF kv] user_entries_about[OF refl id kv] by simp
  qed
  moreover have "user_entries u \<noteq> []" by (simp add: user_entries_def)
  ultimately have u: "parse_user (new_user\<lparr>u_UserID := ?uid\<rparr>) ?rel = u" and ne: "?rel \<noteq> []"
    using parse_stored_user[OF id, of ?rel] by (blast, metis set_empty)
  from ne obtain x xs where xs: "?rel = x # xs" by (cases ?rel) simp_all
  have "DeserializeSingleUser (rr_ResultMap r) ?uid = Some u"
    using u unfolding DeserializeSingleUser_eq users_from_lookup[OF id(1)] xs by simp
  with r(1) id show ?thesis by (simp add: checkUserExistsByID_def)
qed

subsection \<open>From the request that creates a user to the login\<close>

lemma SerializeUser_writes: "\<forall>c \<in> set (SerializeUser u). cc_Op c = OpApply"
  by (auto simp: SerializeUser_def)

lemma split_trim_first:
  assumes "a \<noteq> []" "c \<notin> set a"
  shows "split c (trim c (a @ c # b)) ! 0 = a"
proof -
  have left: "trim_left c (a @ c # b) = a @ c # b" using assms by (intro trim_left_id) (cases a, auto)
  have a: "dropWhile (\<lambda>x. x = c) (rev a) = rev a"
    using assms(2) by (cases "rev a") (simp_all, metis in_set_conv_decomp set_rev list.set_intros(1))
  show ?thesis
  proof (cases "\<forall>x \<in> set b. x = c")
    case True
    then have "dropWhile (\<lambda>x. x = c) (rev b @ c # rev a) = rev a"
      using a by (subst dropWhile_append2) auto
    then have "trim c (a @ c # b) = a" unfolding trim_def left by (simp add: trim_left_def)
    then show ?thesis using split_no_sep[OF assms(2)] by simp
  next
    case False
    then obtain x where "x \<in> set (rev b)" "x \<noteq> c" by auto
    then have "dropWhile (\<lambda>x. x = c) (rev b @ c # rev a) = dropWhile (\<lambda>x. x = c) (rev b) @ c # rev a"
      by (intro dropWhile_append1) auto
    then have "trim c (a @ c # b) = a @ c # rev (dropWhile (\<lambda>x. x = c) (rev b))"
      unfolding trim_def left by (simp add: trim_left_def)
    then show ?thesis using split_append_sep[OF assms(2)] by simp
  qed
qed

lemma username_key_not_about: "\<not> about_user uid (username_key n)"
proof -
  have "key_parts (username_key n) ! 0 = userIndexPrefix"
    using split_trim_first[of userIndexPrefix slash "usernameIdxPrefix @ ''/'' @ n"]
    by (simp add: key_parts_def username_key_def)
  then show ?thesis by (simp add: about_user_def)
qed

lemma SerializeUser_keys_distinct: "distinct (map cc_Key (SerializeUser u))"
  by (auto simp: SerializeUser_def user_key_def username_key_def)

text \<open>The keys a record of the user service has.\<close>

definition user_fields :: "string list" where
  "user_fields = [usernameField, secretKeyField, userTypeField, userRoleField, statusField]"

lemma written_user_stored:
  assumes id: "u_UserID u \<noteq> []" "slash \<notin> set (u_UserID u)"
    and full: "u_Username u \<noteq> []" "u_SecretKey u \<noteq> []" "u_UserRole u \<noteq> []"
    and old: "\<forall>k. about_user (u_UserID u) k \<and> m k \<noteq> None \<longrightarrow> k \<in> user_key (u_UserID u) ` set user_fields"
  shows "user_stored (chgs_effect (SerializeUser u) m) u"
proof -
  have "chgs_effect (SerializeUser u) m k = map_of (user_entries u) k" if a: "about_user (u_UserID u) k" for k
  proof -
    have "k \<noteq> username_key (u_Username u)" using a username_key_not_about by blast
    then have "chgs_effect (SerializeUser u) m k =
        (case map_of (user_entries u) k of Some v \<Rightarrow> Some v | None \<Rightarrow> m k)"
      unfolding chgs_effect_entries[OF SerializeUser_keys_distinct SerializeUser_writes] SerializeUser_entries
      by (auto simp: map_add_def split: option.split)
    moreover have "m k = None" if "map_of (user_entries u) k = None"
    proof (rule ccontr)
      assume "m k \<noteq> None"
      with old a have "k \<in> user_key (u_UserID u) ` set user_fields" by blast
      then have "k \<in> fst ` set (user_entries u)" using full by (auto simp: user_fields_def user_entries_def)
      with that show False by (simp add: map_of_eq_None_iff)
    qed
    ultimately show ?thesis by (auto split: option.split)
  qed
  with id show ?thesis by (simp add: user_stored_def)
qed

lemma b64_val_bound: "i < 64 \<Longrightarrow> b64_char i \<noteq> CHR '':'' \<and> \<not> is_space (b64_char i)"
proof -
  assume "i < 64"
  then have v: "b64_val (b64_char i) \<noteq> None" by (simp add: b64_val_char)
  have "b64_val (CHR '':'') = None" by (simp add: b64_val_def)
  moreover have "b64_val c = None" if "is_space c" for c
  proof (cases "c = CHR '' ''")
    case True
    then show ?thesis by (simp add: b64_val_def)
  next
    case False
    with that have "(of_char c :: nat) \<le> 13" by (simp add: is_space_def)
    then show ?thesis by (simp add: b64_val_def Let_def)
  qed
  ultimately show ?thesis using v by metis
qed

lemma b64_encode_chars: "\<forall>c \<in> set (b64_encode s). c \<noteq> CHR '':'' \<and> \<not> is_space c"
proof -
  have "\<forall>i \<in> set (b64_sextets (map of_char s)). i < 64"
    by (rule b64_sextets_bound) auto
  then show ?thesis using b64_val_bound by (auto simp: b64_encode_def)
qed

lemma trim_space_nonspace: "s \<noteq> [] \<Longrightarrow> \<forall>c \<in> set s. \<not> is_space c \<Longrightarrow> trim_space s = s"
proof -
  assume s: "s \<noteq> []" "\<forall>c \<in> set s. \<not> is_space c"
  have w: "dropWhile is_space xs = xs" if "\<forall>c \<in> set xs. \<not> is_space c" for xs using that by (cases xs) auto
  from s show ?thesis using w[of s] w[of "rev s"] by (simp add: trim_space_def)
qed

text \<open>The index after the write leads to the user, whatever empty entries are around it.\<close>

lemma index_not_user_key: "has_prefix (username_key n) k \<Longrightarrow> k \<noteq> user_key uid f"
  by (auto simp: has_prefix_iff username_key_def user_key_def)

lemma index_free:
  assumes exact: "store_exact ds cont" and free: "getUserIDByUsername ds s cb n = Ret []" and n: "n \<noteq> []"
    and at: "has_prefix (username_key n) k" "cont s k = Some v"
  shows "v = []"
proof -
  from exact_range[OF exact at(2,1), of cb] obtain r where r: "ds_RangeRead ds s (prefix_args cb (username_key n)) = Inr r"
    "\<forall>k v. (k, v) \<in> set (rr_ResultMap r) \<longleftrightarrow> has_prefix (username_key n) k \<and> cont s k = Some v" by blast
  from free n r(1) have "List.find (\<lambda>v. v \<noteq> []) (map snd (rr_ResultMap r)) = None"
    by (auto simp: getUserIDByUsername_def find_Some_iff split: option.splits)
  moreover have "(k, v) \<in> set (rr_ResultMap r)" using r(2) at by blast
  ultimately show ?thesis by (auto simp: find_None_iff)
qed

lemma index_written:
  assumes "u_Username u \<noteq> []" and "has_prefix (username_key (u_Username u)) k"
  shows "chgs_effect (SerializeUser u) m k = (if k = username_key (u_Username u) then Some (u_UserID u) else m k)"
proof -
  have "map_of (user_entries u) k = None"
    using index_not_user_key[OF assms(2)] by (auto simp: user_entries_def)
  then show ?thesis
    unfolding chgs_effect_entries[OF SerializeUser_keys_distinct SerializeUser_writes] SerializeUser_entries
    using assms(1) by (simp add: map_add_def)
qed

lemma getUserIDByUsername_written:
  assumes exact: "store_exact ds cont" and u: "u_Username u \<noteq> []" "u_UserID u \<noteq> []"
    and empty: "\<forall>k v. has_prefix (username_key (u_Username u)) k \<and> k \<noteq> username_key (u_Username u) \<and> cont s k = Some v \<longrightarrow> v = []"
    and after: "cont s' = chgs_effect (SerializeUser u) (cont s)"
  shows "getUserIDByUsername ds s' cb' (u_Username u) = Ret (u_UserID u)"
proof -
  let ?p = "username_key (u_Username u)"
  have eff: "cont s' k = (if k = ?p then Some (u_UserID u) else cont s k)" if "has_prefix ?p k" for k
    unfolding after by (rule index_written[OF u(1) that])
  have "cont s' ?p = Some (u_UserID u)" using eff by simp
  from exact_range[OF exact this, of ?p cb'] obtain r where r: "ds_RangeRead ds s' (prefix_args cb' ?p) = Inr r"
    "\<forall>k v. (k, v) \<in> set (rr_ResultMap r) \<longleftrightarrow> has_prefix ?p k \<and> cont s' k = Some v" by auto
  have "u_UserID u \<in> set (map snd (rr_ResultMap r))" using r(2) eff[of ?p] by force
  then obtain v where v: "List.find (\<lambda>v. v \<noteq> []) (map snd (rr_ResultMap r)) = Some v"
    using u(2) by (cases "List.find (\<lambda>v. v \<noteq> []) (map snd (rr_ResultMap r))") (auto simp: find_None_iff)
  then obtain k where k: "(k, v) \<in> set (rr_ResultMap r)" "v \<noteq> []" by (auto simp: find_Some_iff in_set_conv_nth)
      (metis nth_mem prod.collapse)
  then have "has_prefix ?p k" "cont s' k = Some v" using r(2) by auto
  with eff[of k] empty k(2) have "v = u_UserID u" by (cases "k = ?p") auto
  with r(1) v u(1) show ?thesis by (simp add: getUserIDByUsername_def)
qed

text \<open>What \<open>PutUser\<close> prepares for a new user: the encrypted key is stored, the plain one is the answer.\<close>

abbreviation created_user :: "user_req \<Rightarrow> string \<Rightarrow> string \<Rightarrow> user" where
  "created_user req uid enc \<equiv> (User_Init (req\<lparr>uq_UserID := uid\<rparr>) new_user)\<lparr>u_SecretKey := enc\<rparr>"

lemma PutUser_creates:
  assumes "PutUser env es new_uuid rand_key nonce ds [ArgCPReq rq, ArgCbArgs cb] s = Ret (EncIntrm f)"
    and "rq_Payload rq = A_UserReq req" "\<not> uq_IsUpdate req" "fi_Changes f \<noteq> []"
  obtains uid plain enc where
    "EncryptSecretKey es nonce plain = Ret enc"
    "if uq_IsAdmin req then plain = defaultAdminSecretKey else GenerateSecretKey rand_key = Ret plain"
    "getUserIDByUsername ds s cb (uq_Username req) = Ret []" "trim_space (uq_Username req) \<noteq> []"
    "f = \<lparr>fi_Changes = SerializeUser (created_user req uid enc),
          fi_Response = A_UserResp (user_answer (created_user req uid enc) plain)\<rparr>"
proof -
  from assms obtain tc plain u old where
    p: "putuser_user env es new_uuid rand_key nonce ds s cb tc req = Ret (plain, u, old)" and
    f: "f = \<lparr>fi_Changes = SerializeUser u @ (if old \<noteq> [] then [SerializeUsernameIndexDelete old] else []),
             fi_Response = A_UserResp (user_answer u plain)\<rparr>"
    by (auto simp: PutUser_def arg_simps returnError_def split: go.splits option.splits)
  from p assms(3) have new: "putuser_new ds s cb req = Ret ()" and old: "old = []"
    and h: "handleCreateUser es new_uuid rand_key nonce req new_user = Ret (plain, u)"
    by (auto simp: putuser_user_def go_bind_Ret_iff)
  from h obtain uid enc where e: "EncryptSecretKey es nonce plain = Ret enc" "u = created_user req uid enc"
    "if uq_IsAdmin req then plain = defaultAdminSecretKey else GenerateSecretKey rand_key = Ret plain"
    by (auto simp: handleCreateUser_def Let_def split: go.splits if_splits)
  from new have "getUserIDByUsername ds s cb (uq_Username req) = Ret []" "trim_space (uq_Username req) \<noteq> []"
    by (auto simp: putuser_new_def checkUsernameExists_def split: go.splits if_splits)
  from that[OF e(1,3) this] f old e(2) show ?thesis by simp
qed

text \<open>\<open>Login\<close> with a user's name, once index and record are in the store.\<close>

definition login_args :: "cb_args \<Rightarrow> string \<Rightarrow> string \<Rightarrow> string \<Rightarrow> arg list" where
  "login_args cb tok name key =
     [ArgCbArgs cb, ArgCPReq \<lparr>rq_Token = tok, rq_Page = None,
        rq_Payload = A_GetReq \<lparr>g_ID = name @ '':'' @ key, g_GetAll = False, g_Fields = []\<rparr>\<rparr>]"

lemma Login_found:
  assumes "getUserIDByUsername ds s cb name = Ret uid" "uid \<noteq> []" "checkUserExistsByID ds s cb uid = Ret (Some u)"
    and "CHR '':'' \<notin> set name" "trim_space name \<noteq> []" "CHR '':'' \<notin> set key" "trim_space key \<noteq> []"
  shows "Login env es now ds (login_args cb tok name key) s = login_check env es now u key"
proof -
  have "split (CHR '':'') (name @ '':'' @ key) = [name, key]"
    using split_append_sep[OF assms(4)] split_no_sep[OF assms(6)] by simp
  with assms show ?thesis
    by (simp add: Login_def login_args_def rd_args_def arg_simps login_user_def)
qed

lemma plain_key_chars:
  assumes "if adm then plain = defaultAdminSecretKey else GenerateSecretKey rand_key = Ret plain"
    and "plain \<noteq> []"
  shows "CHR '':'' \<notin> set plain \<and> trim_space plain \<noteq> []"
proof -
  have "\<forall>c \<in> set plain. c \<noteq> CHR '':'' \<and> \<not> is_space c"
  proof (cases adm)
    case True
    with assms(1) show ?thesis by (simp add: is_space_def)
  next
    case False
    with assms(1) obtain key where "plain = b64_encode key" by (auto simp: GenerateSecretKey_def split: go.splits)
    then show ?thesis by (simp add: b64_encode_chars)
  qed
  with assms(2) trim_space_nonspace[of plain] show ?thesis by auto
qed

lemma EncryptSecretKey_undone:
  assumes "EncryptSecretKey es (Ret nb) plain = Ret enc"
    and "es_instance es = Some e" "aead_ok e" "length nb = e_NonceSize e"
  shows "DecryptSecretKey es enc = Ret plain" "plain \<noteq> []" "enc \<noteq> []"
proof -
  from assms(1) have "ensureInitialized es = None" and enc: "Encrypt e (Ret nb) plain = Ret enc"
    using assms(2) by (auto simp: EncryptSecretKey_def split: option.splits)
  moreover from Decrypt_Encrypt[OF assms(3,4) enc] have d: "Decrypt e enc = Ret plain" .
  ultimately show "DecryptSecretKey es enc = Ret plain" using assms(2) by (simp add: DecryptSecretKey_def)
  from enc show "plain \<noteq> []" by (auto simp: Encrypt_def)
  from d show "enc \<noteq> []" by (auto simp: Decrypt_def)
qed

lemma login_check_active:
  assumes "u_Status u = StatusActive" "DecryptSecretKey es (u_SecretKey u) = Ret plain"
  shows "login_check env es now u key =
     (if key \<noteq> plain then FuncError ''invalid credentials''
      else (case CreateToken env now \<lparr>tk_Secret = CP_SECRET, tk_TTL = defaultTokenTTL\<rparr> (login_claims u) of
              Panic \<Rightarrow> Panic
            | Fail err \<Rightarrow> InternalError ''failed to generate token''
            | Ret tok \<Rightarrow> EncodeResponse (A_LoginResp (login_answer u tok))))"
  unfolding login_check_def assms by simp

lemma PutUser_applied:
  assumes "store_exact ds cont"
    and "PutUser env es new_uuid rand_key nonce ds [ArgCPReq rq, ArgCbArgs cb] s = Ret (EncIntrm f)"
    and "rq_Payload rq = A_UserReq req" "\<not> uq_IsUpdate req" "fi_Response f = A_UserResp resp" "ur_Success resp"
    and "ApplyFunc ds [ArgCbArgs \<lparr>cb_AppData = Inr f, cb_ReplySize = n\<rparr>] t = (r, t')"
  obtains uid plain enc where
    "EncryptSecretKey es nonce plain = Ret enc"
    "if uq_IsAdmin req then plain = defaultAdminSecretKey else GenerateSecretKey rand_key = Ret plain"
    "getUserIDByUsername ds s cb (uq_Username req) = Ret []" "trim_space (uq_Username req) \<noteq> []"
    "ur_UserID resp = uid" "ur_SecretKey resp = plain" "r = EncodeResponse (A_UserResp resp)"
    "cont t' = chgs_effect (SerializeUser (created_user req uid enc)) (cont t)"
    "resp = user_answer (created_user req uid enc) plain"
proof -
  have chg: "fi_Changes f \<noteq> []"
    using assms(2-6) by (auto simp: PutUser_def arg_simps returnError_def user_error_def SerializeUser_def
        split: go.splits option.splits)
  from PutUser_creates[OF assms(2-4) chg] obtain uid plain enc where p:
    "EncryptSecretKey es nonce plain = Ret enc"
    "if uq_IsAdmin req then plain = defaultAdminSecretKey else GenerateSecretKey rand_key = Ret plain"
    "getUserIDByUsername ds s cb (uq_Username req) = Ret []" "trim_space (uq_Username req) \<noteq> []"
    and f: "f = \<lparr>fi_Changes = SerializeUser (created_user req uid enc),
                fi_Response = A_UserResp (user_answer (created_user req uid enc) plain)\<rparr>" .
  let ?u = "created_user req uid enc"
  have resp: "resp = user_answer ?u plain" using assms(5) f by simp
  obtain t1 where t1: "applyKV ds (SerializeUser ?u) t = (None, t1)"
    using applyKV_exact[OF assms(1), of "SerializeUser ?u" t] SerializeUser_writes[of ?u]
    by (cases "applyKV ds (SerializeUser ?u) t") auto
  with assms(7) f resp have "r = EncodeResponse (A_UserResp resp)" "t' = t1"
    by (simp_all add: ApplyFunc_def arg_simps)
  moreover have "ur_UserID resp = uid" "ur_SecretKey resp = plain"
    by (simp_all add: resp user_answer_def User_Init_def)
  ultimately show ?thesis using that[OF p] applyKV_done[OF exact_sound[OF assms(1)] t1] resp by simp
qed

text \<open>What \<open>Login\<close> does once a created user is in the store.\<close>

lemma created_user_login:
  assumes "store_exact ds cont"
    and "es_instance es = Some e" "aead_ok e" "length nb = e_NonceSize e"
    and "PutUser env es new_uuid rand_key (Ret nb) ds [ArgCPReq rq, ArgCbArgs cb] s = Ret (EncIntrm f)"
    and "rq_Payload rq = A_UserReq req" "\<not> uq_IsUpdate req" "fi_Response f = A_UserResp resp"
    and "ur_Success resp" "ur_UserID resp \<noteq> []" "slash \<notin> set (ur_UserID resp)"
    and "\<forall>k. about_user (ur_UserID resp) k \<and> cont s k \<noteq> None \<longrightarrow>
           k \<in> user_key (ur_UserID resp) ` set user_fields"
    and "CHR '':'' \<notin> set (uq_Username req)"
    and "ApplyFunc ds [ArgCbArgs \<lparr>cb_AppData = Inr f, cb_ReplySize = n\<rparr>] s = (r, s')"
  obtains u plain where
    "r = EncodeResponse (A_UserResp resp)" "resp = user_answer u plain"
    "u_Username u = uq_Username req" "u_UserRole u = (if uq_IsAdmin req then AdminUserRole else DefaultUserRole)"
    "u_IsAdmin u = uq_IsAdmin req" "CHR '':'' \<notin> set plain" "trim_space plain \<noteq> []" "trim_space (uq_Username req) \<noteq> []"
    "\<forall>now cb' tok key. CHR '':'' \<notin> set key \<and> trim_space key \<noteq> [] \<longrightarrow>
       Login env es now ds (login_args cb' tok (uq_Username req) key) s' =
         (if key \<noteq> plain then FuncError ''invalid credentials''
          else (case CreateToken env now \<lparr>tk_Secret = CP_SECRET, tk_TTL = defaultTokenTTL\<rparr> (login_claims u) of
                  Panic \<Rightarrow> Panic
                | Fail err \<Rightarrow> InternalError ''failed to generate token''
                | Ret tok \<Rightarrow> EncodeResponse (A_LoginResp (login_answer u tok))))"
proof -
  from PutUser_applied[OF assms(1,5-9,14)] obtain uid plain enc where
    enc: "EncryptSecretKey es (Ret nb) plain = Ret enc"
    and plain: "if uq_IsAdmin req then plain = defaultAdminSecretKey else GenerateSecretKey rand_key = Ret plain"
    and free: "getUserIDByUsername ds s cb (uq_Username req) = Ret []" and name: "trim_space (uq_Username req) \<noteq> []"
    and resp: "resp = user_answer (created_user req uid enc) plain" and r: "r = EncodeResponse (A_UserResp resp)"
    and eff: "cont s' = chgs_effect (SerializeUser (created_user req uid enc)) (cont s)" .
  let ?u = "created_user req uid enc"
  have u: "u_UserID ?u = uid" "u_Username ?u = uq_Username req" "u_SecretKey ?u = enc" "u_UserRole ?u \<noteq> []"
    by (simp_all add: User_Init_def)
  have rid: "ur_UserID resp = uid" by (simp add: resp user_answer_def u)
  note dec = EncryptSecretKey_undone[OF enc assms(2-4)]
  have uname: "uq_Username req \<noteq> []" using name by (auto simp: trim_space_def)
  have idx: "getUserIDByUsername ds s' cb' (uq_Username req) = Ret uid" for cb'
    using getUserIDByUsername_written[OF assms(1) _ _ _ eff, of cb'] index_free[OF assms(1) free uname]
      uname assms(10) u rid by auto
  have "user_stored (cont s') ?u"
    unfolding eff using assms(10-12) uname dec(3) u rid by (intro written_user_stored) simp_all
  from checkUserExistsByID_stored[OF assms(1) this]
  have rec: "checkUserExistsByID ds s' cb' uid = Ret (Some ?u)" for cb' using u by simp
  have login: "Login env es now ds (login_args cb' tok (uq_Username req) key) s' =
     (if key \<noteq> plain then FuncError ''invalid credentials''
      else (case CreateToken env now \<lparr>tk_Secret = CP_SECRET, tk_TTL = defaultTokenTTL\<rparr> (login_claims ?u) of
              Panic \<Rightarrow> Panic
            | Fail err \<Rightarrow> InternalError ''failed to generate token''
            | Ret tok \<Rightarrow> EncodeResponse (A_LoginResp (login_answer ?u tok))))"
    if "CHR '':'' \<notin> set key" "trim_space key \<noteq> []" for now cb' tok key
    using Login_found[OF idx _ rec assms(13) name that] login_check_active[of ?u es plain env now key]
      u dec(1) assms(10) rid by (simp add: User_Init_def)
  show ?thesis
    by (rule that[OF r resp _ _ _ _ _ name])
      (use login u plain_key_chars[OF plain dec(2)] in \<open>simp_all add: User_Init_def\<close>)
qed


text \<open>An administrator creates the user \<open>bob\<close>, a cipher that only adds the nonce standing for AES-GCM.\<close>

definition sample_es :: enc_state where
  "sample_es = \<lparr>es_once = True, es_initErr = None,
     es_instance = Some \<lparr>e_NonceSize = 1, e_Seal = (\<lambda>n p. p), e_Open = (\<lambda>n c. Some c)\<rparr>\<rparr>"

definition bob_req :: user_req where
  "bob_req = \<lparr>uq_Username = ''bob'', uq_UserID = [], uq_NewSecretKey = [], uq_IsUpdate = False, uq_IsAdmin = True\<rparr>"

abbreviation bob :: user where
  "bob \<equiv> created_user bob_req ''u2'' (b64_encode (''n'' @ defaultAdminSecretKey))"

definition created_as :: "string \<Rightarrow> func_intrm" where
  "created_as uid = \<lparr>fi_Changes = SerializeUser (created_user bob_req uid (b64_encode (''n'' @ defaultAdminSecretKey))),
     fi_Response = A_UserResp (user_answer (created_user bob_req uid (b64_encode (''n'' @ defaultAdminSecretKey)))
       defaultAdminSecretKey)\<rparr>"

abbreviation bob_created :: func_intrm where
  "bob_created \<equiv> created_as ''u2''"

lemmas bob_created_def = created_as_def

abbreviation sample_cb :: cb_args where
  "sample_cb \<equiv> \<lparr>cb_AppData = Inl [], cb_ReplySize = 0\<rparr>"

lemma sample_token:
  "ValidateToken sample_env ''tok'' = Ret \<lparr>tc_UserID = ''u1'', tc_Role = ''admin'', tc_IsAdmin = True\<rparr>"
  by (simp add: ValidateToken_def VerifyToken_def claims_identity_def sample_env_def sample_signed_def sample_claims_def)

lemma PutUser_bob:
  "PutUser sample_env sample_es (Ret uid) Panic (Ret ''n'') mem_store
     [ArgCPReq \<lparr>rq_Token = ''tok'', rq_Page = None, rq_Payload = A_UserReq bob_req\<rparr>, ArgCbArgs sample_cb] []
   = Ret (EncIntrm (created_as uid))"
proof -
  have "putuser_denied sample_env \<lparr>tc_UserID = ''u1'', tc_Role = ''admin'', tc_IsAdmin = True\<rparr> bob_req = None"
    by (simp add: putuser_denied_def sample_env_def CheckRBAC_iff default_rbac_roles)
  moreover have "ds_RangeRead mem_store [] a = Inl errKeyNotFoundMsg" for a
    by (rule mem_store_range_none) simp
  then have "putuser_new mem_store [] sample_cb bob_req = Ret ()"
    by (simp add: putuser_new_def checkUsernameExists_def getUserIDByUsername_def bob_req_def trim_space_def is_space_def
        IsKeyNotFoundError_def)
  moreover have "handleCreateUser sample_es (Ret uid) Panic (Ret ''n'') bob_req new_user =
      Ret (defaultAdminSecretKey, created_user bob_req uid (b64_encode (''n'' @ defaultAdminSecretKey)))"
    by (simp add: handleCreateUser_def bob_req_def EncryptSecretKey_def ensureInitialized_def sample_es_def Encrypt_def
        User_Init_def)
  ultimately show ?thesis
    by (simp add: PutUser_def arg_simps sample_token putuser_user_def bob_created_def bob_req_def)
qed


subsection \<open>Who can change which user\<close>

lemma checkUserExistsByID_id:
  "checkUserExistsByID ds s cb uid = Ret (Some u) \<Longrightarrow> u_UserID u = uid"
  by (auto simp: checkUserExistsByID_def DeserializeSingleUser_def find_Some_iff split: if_splits sum.splits)

lemma handleUpdateUser_keeps:
  assumes "handleUpdateUser es nonce req ex = Ret (plain, u)"
  shows "u_UserID u = u_UserID ex \<and> u_UserRole u = u_UserRole ex \<and> u_IsAdmin u = u_IsAdmin ex \<and>
     u_Status u = u_Status ex \<and> (\<not> u_IsAdmin ex \<longrightarrow> u_SecretKey u = u_SecretKey ex)"
proof -
  from assms obtain v where v: "update_username req ex = Ret v" and
    u: "u = v \<or> (u_IsAdmin v \<and> (\<exists>enc. u = v\<lparr>u_SecretKey := enc\<rparr>))"
    by (auto simp: handleUpdateUser_def go_bind_Ret_iff split: if_splits go.splits)
  from v have "v = ex \<or> v = ex\<lparr>u_Username := uq_Username req\<rparr>"
    by (auto simp: update_username_def split: if_splits)
  with u show ?thesis by auto
qed

text \<open>
  C14: \<open>PutUser\<close> changes a user only for a caller who may. When checking is on, a new user needs the
  token of an administrator, an existing record that of an administrator or of the user it belongs to,
  in both cases with a role the policy lists. An update touches no other record, and leaves the role,
  the administrator flag and the status as they are stored, and the key of a user who is no
  administrator.
\<close>

theorem PutUser_authorised:
  assumes "PutUser env es new_uuid rand_key nonce ds [ArgCPReq rq, ArgCbArgs cb] s = Ret (EncIntrm f)"
    and "rq_Payload rq = A_UserReq req" "fi_Changes f \<noteq> []"
  shows "\<exists>tc u old. ValidateToken env (rq_Token rq) = Ret tc \<and>
     fi_Changes f = SerializeUser u @ (if old \<noteq> [] then [SerializeUsernameIndexDelete old] else []) \<and>
     (e_authEnabled env \<longrightarrow>
        (\<forall>a. e_authorizer env = Some a \<longrightarrow> (\<exists>p. a F_PutUser = Some p \<and> tc_Role tc \<in> set (fp_RBAC p))) \<and>
        (if uq_IsUpdate req then tc_IsAdmin tc \<or> tc_UserID tc = uq_UserID req
         else tc_IsAdmin tc \<and> tc_Role tc = AdminUserRole)) \<and>
     (if uq_IsUpdate req
      then \<exists>ex. checkUserExistsByID ds s cb (uq_UserID req) = Ret (Some ex) \<and>
             u_UserID u = uq_UserID req \<and> u_UserRole u = u_UserRole ex \<and> u_IsAdmin u = u_IsAdmin ex \<and>
             u_Status u = u_Status ex \<and> (\<not> u_IsAdmin ex \<longrightarrow> u_SecretKey u = u_SecretKey ex) \<and>
             (old = [] \<or> old = u_Username ex)
      else old = [] \<and> u_IsAdmin u = uq_IsAdmin req)"
proof -
  from assms obtain tc plain u old where
    tc: "ValidateToken env (rq_Token rq) = Ret tc" and allowed: "putuser_denied env tc req = None" and
    p: "putuser_user env es new_uuid rand_key nonce ds s cb tc req = Ret (plain, u, old)" and
    f: "fi_Changes f = SerializeUser u @ (if old \<noteq> [] then [SerializeUsernameIndexDelete old] else [])"
    by (auto simp: PutUser_def arg_simps returnError_def split: go.splits option.splits)
  have role: "e_authEnabled env \<longrightarrow>
      (\<forall>a. e_authorizer env = Some a \<longrightarrow> (\<exists>p. a F_PutUser = Some p \<and> tc_Role tc \<in> set (fp_RBAC p))) \<and>
      (\<not> uq_IsUpdate req \<longrightarrow> tc_IsAdmin tc \<and> tc_Role tc = AdminUserRole)"
    using allowed by (auto simp: putuser_denied_def CheckRBAC_iff split: option.splits if_splits)
  show ?thesis
  proof (cases "uq_IsUpdate req")
    case True
    with p obtain ex where ex: "putuser_existing env ds s cb tc req = Ret (ex, old)"
      and h: "handleUpdateUser es nonce (req\<lparr>uq_IsAdmin := u_IsAdmin ex\<rparr>) ex = Ret (plain, u)"
      by (auto simp: putuser_user_def go_bind_Ret_iff)
    from ex have "checkUserExistsByID ds s cb (uq_UserID req) = Ret (Some ex)" "old = [] \<or> old = u_Username ex"
      "e_authEnabled env \<longrightarrow> tc_IsAdmin tc \<or> tc_UserID tc = uq_UserID req"
      by (auto simp: putuser_existing_def split: if_splits go.splits option.splits)
    moreover from this(1) have "u_UserID ex = uq_UserID req" by (rule checkUserExistsByID_id)
    ultimately show ?thesis using handleUpdateUser_keeps[OF h] tc f role True
      by (intro exI[of _ tc] exI[of _ u] exI[of _ old]) auto
  next
    case False
    with p have h: "handleCreateUser es new_uuid rand_key nonce req new_user = Ret (plain, u)" and old: "old = []"
      by (auto simp: putuser_user_def go_bind_Ret_iff)
    from h have "u_IsAdmin u = uq_IsAdmin req"
      by (auto simp: handleCreateUser_def User_Init_def Let_def split: go.splits if_splits)
    with tc f role False old show ?thesis
      by (intro exI[of _ tc] exI[of _ u] exI[of _ old]) force
  qed
qed

theorem PutUser_authorised_witness:
  "\<exists>tc u old. ValidateToken sample_env ''tok'' = Ret tc \<and>
     fi_Changes bob_created = SerializeUser u @ (if old \<noteq> [] then [SerializeUsernameIndexDelete old] else []) \<and>
     tc_IsAdmin tc \<and> tc_Role tc = AdminUserRole \<and> old = [] \<and> u_IsAdmin u"
proof -
  let ?rq = "\<lparr>rq_Token = ''tok'', rq_Page = None, rq_Payload = A_UserReq bob_req\<rparr>"
  have "rq_Payload ?rq = A_UserReq bob_req" "fi_Changes bob_created \<noteq> []"
    by (simp_all add: bob_created_def SerializeUser_def)
  from PutUser_authorised[OF PutUser_bob this] show ?thesis
    by (simp add: bob_req_def sample_env_def) blast
qed

subsection \<open>Names that begin other names\<close>

definition al :: user where
  "al = \<lparr>u_Username = ''al'', u_UserID = ''u1'', u_SecretKey = b64_encode ''nk1'', u_UserRole = DefaultUserRole,
     u_Status = StatusActive, u_IsAdmin = False\<rparr>"

definition alice :: user where
  "alice = \<lparr>u_Username = ''alice'', u_UserID = ''u2'', u_SecretKey = b64_encode ''nk2'', u_UserRole = DefaultUserRole,
     u_Status = StatusActive, u_IsAdmin = False\<rparr>"

definition two_users :: "(string \<times> string) list" where
  "two_users = (username_key ''alice'', ''u2'') # (username_key ''al'', ''u1'') # user_entries alice @ user_entries al"

text \<open>
  \<open>Login\<close> finds a name by a prefix read and takes the first hit. With \<open>al\<close> and \<open>alice\<close> stored, a
  store that returns \<open>alice\<close> first (the order of a Go map is random) makes the login of \<open>al\<close> with the
  right key fail, although record and index entry of \<open>al\<close> are there.
\<close>

theorem Login_by_name_prefix:
  "user_stored (map_of two_users) al \<and> map_of two_users (username_key ''al'') = Some (u_UserID al) \<and>
   DecryptSecretKey sample_es (u_SecretKey al) = Ret ''k1'' \<and> u_Status al = StatusActive \<and>
   Login env sample_es now mem_store (login_args sample_cb tok ''al'' ''k1'') two_users = FuncError ''invalid credentials''"
proof -
  have stored: "user_stored (map_of two_users) u" if "u \<in> {al, alice}" for u
  proof -
    have id: "u_UserID u \<in> {''u1'', ''u2''}" using that by (auto simp: al_def alice_def)
    have distinct: "u_UserID al \<noteq> u_UserID alice" by (simp add: al_def alice_def)
    have "map_of two_users k = map_of (user_entries u) k" if a: "about_user (u_UserID u) k" for k
    proof -
      have "k \<noteq> username_key n" for n using a username_key_not_about by blast
      then have "map_of two_users k = map_of (user_entries alice @ user_entries al) k" by (simp add: two_users_def)
      moreover have "map_of (user_entries v) k = None" if "v \<in> {al, alice}" "u_UserID v \<noteq> u_UserID u" for v
      proof -
        have "u_UserID v \<noteq> []" "slash \<notin> set (u_UserID v)" using that by (auto simp: al_def alice_def)
        with a that(2) user_entries_about[OF refl this] show ?thesis
          by (auto simp: map_of_eq_None_iff about_user_def)
      qed
      ultimately show ?thesis using \<open>u \<in> {al, alice}\<close> distinct
        by (auto simp: map_add_def split: option.split)
    qed
    with id show ?thesis by (auto simp: user_stored_def)
  qed
  have dec: "DecryptSecretKey sample_es (b64_encode (CHR ''n'' # k)) = Ret k" for k
  proof -
    have "b64_encode (CHR ''n'' # k) \<noteq> []"
      using b64_decode_encode[of "CHR ''n'' # k"] by (cases "b64_encode (CHR ''n'' # k)") (auto simp: b64_decode_def)
    then show ?thesis by (simp add: DecryptSecretKey_def ensureInitialized_def sample_es_def Decrypt_def)
  qed
  have "has_prefix (username_key ''al'') (username_key ''alice'')" by (simp add: has_prefix_def username_key_def)
  then have idx: "getUserIDByUsername mem_store two_users sample_cb ''al'' = Ret ''u2''"
    by (simp add: getUserIDByUsername_def mem_store_def two_users_def prefix_args_def Let_def)
  have rec: "checkUserExistsByID mem_store two_users sample_cb ''u2'' = Ret (Some alice)"
    using checkUserExistsByID_stored[OF mem_store_exact stored[of alice]] by (simp add: alice_def)
  have "Login env sample_es now mem_store (login_args sample_cb tok ''al'' ''k1'') two_users
      = login_check env sample_es now alice ''k1''"
    by (rule Login_found[OF idx _ rec]) (simp_all add: trim_space_def is_space_def)
  also have "\<dots> = FuncError ''invalid credentials''"
    by (simp add: login_check_def alice_def dec)
  finally show ?thesis using stored[of al] dec by (simp add: al_def two_users_def username_key_def)
qed

end
