(* ===== verification/ProxyData.thy ===== *)
theory ProxyData
  imports ProxySpec UserSpec
begin

section \<open>What the REST front end asks for and returns\<close>

text \<open>
  The vdev that \<open>POST /api/vdev\<close> asks PMDB to create, the round trips between the REST structs and the
  structs of the control plane, and the tree of \<open>GET /api/infra\<close>.
\<close>

subsection \<open>The vdev of a request\<close>

lemma vdevCfg_of_simps [simp]:
  "v_Size (vdevCfg_of u req) = cv_size_bytes req"
  "v_Redundancy (vdevCfg_of u req) = RMReplica"
  "v_DataBlkCnt (vdevCfg_of u req) = word_of_int (cv_data_blk_cnt req)"
  "v_ParityBlkCnt (vdevCfg_of u req) = 0"
  "v_Name (vdevCfg_of u req) = trim_space (cv_name req)"
  by (simp_all add: vdevCfg_of_def new_vdev_def Let_def)

lemma vdevCfg_of_pfs: "v_PFSID (vdevCfg_of u req) \<noteq> [] \<Longrightarrow> u (v_PFSID (vdevCfg_of u req)) \<and> v_PFSName (vdevCfg_of u req) = []"
  by (simp add: vdevCfg_of_def new_vdev_def Let_def split: if_splits)

text \<open>A size up to \<open>2^63 - 1\<close> has less than \<open>2^32\<close> chunks.\<close>

lemma chunk_count_fits:
  assumes "1 \<le> sint sz"
  shows "int (unat (ucast (Count8GBChunks sz) :: uint32)) = sint (Count8GBChunks sz)"
    and "sint (Count8GBChunks sz) = (sint sz + CHUNK_SIZE - 1) div CHUNK_SIZE"
    and "1 \<le> sint (Count8GBChunks sz)"
proof -
  have s: "sint sz < 2 ^ 63" using sint_lt[of sz] by simp
  have c: "sint (Count8GBChunks sz) = sint sz div CHUNK_SIZE + (if sint sz mod CHUNK_SIZE = 0 then 0 else 1)"
    using Count8GBChunks_sint[of sz] assms by simp
  let ?q = "sint sz div CHUNK_SIZE" and ?r = "sint sz mod CHUNK_SIZE"
  have qr: "sint sz = CHUNK_SIZE * ?q + ?r" "0 \<le> ?r" "?r < CHUNK_SIZE" by simp_all
  show ceil: "sint (Count8GBChunks sz) = (sint sz + CHUNK_SIZE - 1) div CHUNK_SIZE"
  proof (cases "?r = 0")
    case True
    have "(sint sz + CHUNK_SIZE - 1) div CHUNK_SIZE = ?q"
      by (rule int_div_pos_eq[of _ _ _ "CHUNK_SIZE - 1"]) (use qr True in linarith)+
    with c True show ?thesis by simp
  next
    case False
    with qr(2) have r1: "1 \<le> ?r" by linarith
    have "sint sz + CHUNK_SIZE - 1 = CHUNK_SIZE * (?q + 1) + (?r - 1)"
      unfolding distrib_left using qr(1) by linarith
    then have "(sint sz + CHUNK_SIZE - 1) div CHUNK_SIZE = ?q + 1"
      by (rule int_div_pos_eq) (use qr r1 in linarith)+
    with c False show ?thesis by simp
  qed
  show one: "1 \<le> sint (Count8GBChunks sz)"
    using assms ceil by (simp add: pos_imp_zdiv_pos_iff)
  have "sint (Count8GBChunks sz) < 2 ^ 32" using ceil s by simp
  moreover have "sint (Count8GBChunks sz) = uint (Count8GBChunks sz)"
    using one sint_lt[of "Count8GBChunks sz"] by (simp add: uint_sint take_bit_int_eq_self)
  ultimately show "int (unat (ucast (Count8GBChunks sz) :: uint32)) = sint (Count8GBChunks sz)"
    by (simp add: unsigned_ucast_eq of_nat_take_bit of_nat_unat take_bit_int_eq_self)
qed

text \<open>The only call of \<open>handleCreateVdev\<close>.\<close>

lemma handleCreateVdev_call:
  assumes "records px" and "snd (handleCreateVdev px r log) = log @ c # cs"
  obtains req fdType where "js_CreateVdev (px_json px) (hq_Body r) = Inr req" and "1 \<le> sint (cv_size_bytes req)"
    and "1 \<le> cv_data_blk_cnt req" and "cv_data_blk_cnt req \<le> 255" and "ParseFD (cv_failure_domain req) = Ret fdType"
    and "cl_name c = CREATE_VDEV" and "cs = []"
    and "rq_Payload (cl_req c) = A_VdevReq (Some (vdevCfg_of (px_uuid_ok px) req))
           \<lparr>f_ID = (if cv_entity_ids req \<noteq> [] then cv_entity_ids req ! 0 else []), f_Type = fdType\<rparr>"
proof -
  obtain req where b: "js_CreateVdev (px_json px) (hq_Body r) = Inr req"
    using assms(2) by (cases "js_CreateVdev (px_json px) (hq_Body r)")
      (auto simp: handleCreateVdev_def decodeJSONBodyMethod_def require_def split: option.splits)
  have m: "requireMethod r ''POST'' = None"
    using assms(2) by (cases "requireMethod r ''POST''") (auto simp: handleCreateVdev_def require_def)
  have sz: "\<not> cv_size_bytes req <s 1" and d: "\<not> (cv_data_blk_cnt req < 1 \<or> cv_data_blk_cnt req > 255)"
    using assms(2) by (auto simp: handleCreateVdev_def require_def m b decodeJSONBodyMethod_def split: if_splits)
  obtain rncui where n: "rncuiFromRequest r = Inr rncui"
    using assms(2) sz d by (cases "rncuiFromRequest r")
      (auto simp: handleCreateVdev_def require_def m b decodeJSONBodyMethod_def)
  obtain fdType where f: "ParseFD (cv_failure_domain req) = Ret fdType"
    using assms(2) sz d by (cases "ParseFD (cv_failure_domain req)")
      (auto simp: handleCreateVdev_def require_def m b decodeJSONBodyMethod_def n)
  have "snd (handleCreateVdev px r log) = snd (callFunc px CREATE_VDEV (cpreq (tokenFromRequest r)
          (A_VdevReq (Some (vdevCfg_of (px_uuid_ok px) req))
             \<lparr>f_ID = (if cv_entity_ids req \<noteq> [] then cv_entity_ids req ! 0 else []), f_Type = fdType\<rparr>))
          True rncui 0 zero_ResponseXML log)"
    using sz d by (simp add: handleCreateVdev_def require_def m b decodeJSONBodyMethod_def n f Let_def after_call_keeps)
  with assms have c: "c = \<lparr>cl_name = CREATE_VDEV, cl_req = cpreq (tokenFromRequest r)
          (A_VdevReq (Some (vdevCfg_of (px_uuid_ok px) req))
             \<lparr>f_ID = (if cv_entity_ids req \<noteq> [] then cv_entity_ids req ! 0 else []), f_Type = fdType\<rparr>),
          cl_write = True, cl_rncui = rncui, cl_wsn = 0\<rparr> \<and> cs = []"
    by (simp only: snd_callFunc records_transport) simp
  have "1 \<le> sint (cv_size_bytes req)" using sz by (simp add: word_sless_alt)
  with that[OF b _ _ _ f] d c show ?thesis by (simp add: cpreq_def)
qed

text \<open>
  C19: the vdev of a request. What \<open>POST /api/vdev\<close> sends to PMDB is a replicated vdev with as many data
  blocks per chunk as the request asks for, between 1 and 255, so the \<open>uint8\<close> of the vdev does not wrap;
  with at least one chunk, the chunk count that the server's \<open>Init\<close> will store being the number of 8 GB
  pieces of the size; with the failure domain of the request; and linked to a PFS by identifier or by
  name but not by both. The parity blocks and the redundancy mode of the request are dropped.
\<close>

theorem create_vdev_request:
  assumes "px_sendFuncReqFn px = Some (recording ans)" and "snd (handleCreateVdev px r log) = log @ c # cs"
  shows "\<exists>req cfg flt. js_CreateVdev (px_json px) (hq_Body r) = Inr req \<and> rq_Payload (cl_req c) = A_VdevReq (Some cfg) flt
     \<and> v_Size cfg = cv_size_bytes req \<and> v_Redundancy cfg = RMReplica \<and> v_ParityBlkCnt cfg = 0
     \<and> TotalRedundancyBlocksPerChunk cfg = cv_data_blk_cnt req \<and> cv_data_blk_cnt req \<in> {1..255}
     \<and> (\<forall>u cfg'. Init (Ret u) cfg = Ret cfg' \<longrightarrow>
           int (unat (v_ChunkCnt cfg')) = (sint (cv_size_bytes req) + CHUNK_SIZE - 1) div CHUNK_SIZE \<and> v_ChunkCnt cfg' \<noteq> 0)
     \<and> ParseFD (cv_failure_domain req) = Ret (f_Type flt)
     \<and> (v_PFSID cfg \<noteq> [] \<longrightarrow> px_uuid_ok px (v_PFSID cfg) \<and> v_PFSName cfg = [])"
proof -
  have "records px" using assms(1) by (auto simp: records_def)
  from handleCreateVdev_call[OF this assms(2)] obtain req fdType where r:
    "js_CreateVdev (px_json px) (hq_Body r) = Inr req" "1 \<le> sint (cv_size_bytes req)" "1 \<le> cv_data_blk_cnt req"
    "cv_data_blk_cnt req \<le> 255" "ParseFD (cv_failure_domain req) = Ret fdType"
    "rq_Payload (cl_req c) = A_VdevReq (Some (vdevCfg_of (px_uuid_ok px) req))
       \<lparr>f_ID = (if cv_entity_ids req \<noteq> [] then cv_entity_ids req ! 0 else []), f_Type = fdType\<rparr>" by metis
  have blk: "int (unat (word_of_int (cv_data_blk_cnt req) :: uint8)) = cv_data_blk_cnt req"
    using r(3,4) by (simp add: of_nat_unat uint_word_of_int_eq take_bit_int_eq_self)
  have ch: "v_ChunkCnt cfg' \<noteq> 0 \<and> int (unat (v_ChunkCnt cfg')) = (sint (cv_size_bytes req) + CHUNK_SIZE - 1) div CHUNK_SIZE"
    if "Init (Ret u) (vdevCfg_of (px_uuid_ok px) req) = Ret cfg'" for u cfg'
    using that chunk_count_fits[OF r(2)] by (auto simp: Init_def)
  show ?thesis
    using r blk ch vdevCfg_of_pfs[of "px_uuid_ok px" req]
    by (intro exI[of _ req] exI[of _ "vdevCfg_of (px_uuid_ok px) req"] exI conjI) (auto simp: TotalRedundancyBlocksPerChunk_def)
qed

subsection \<open>Round trips\<close>

lemma word_of_int_unat [simp]: "word_of_int (int (unat w)) = (w :: 'a::len word)"
  by (simp add: of_nat_unat)

lemma put_toRest:
  "put_pdu (toRestPDU p) = p\<lparr>p_Racks := []\<rparr>"
  "put_rack (toRestRack k) = k\<lparr>r_Hypervisors := []\<rparr>"
  "put_hypervisor (toRestHypervisor h) = h\<lparr>h_Dev := []\<rparr>"
  "put_device (toRestDevice d) = d\<lparr>d_Partitions := []\<rparr>"
  "put_nisd (toRestNISD n) = n\<lparr>n_NetInfoCnt := int (length (n_NetInfo n))\<rparr>"
  "put_partition (toRestPartition pt) = pt"
  by (simp_all add: put_pdu_def toRestPDU_def put_rack_def toRestRack_def put_hypervisor_def toRestHypervisor_def
      put_device_def toRestDevice_def put_nisd_def toRestNISD_def put_partition_def toRestPartition_def
      rest_net_of_def map_idI)


subsection \<open>The infrastructure tree\<close>

lemma group_nodes_eq: "group_nodes key node xs i = map node (filter (\<lambda>x. key x = i) xs)"
proof -
  have "foldl (\<lambda>m x. m(key x := m (key x) @ [node x])) m xs i = m i @ map node (filter (\<lambda>x. key x = i) xs)" for m
    by (induction xs arbitrary: m) auto
  then show ?thesis by (simp add: group_nodes_def)
qed

text \<open>The paths from a PDU to a NISD in a tree: the identifiers above it, and its node.\<close>

type_synonym infra_path = "string \<times> string \<times> string \<times> string \<times> nisd_node"

definition infra_paths :: "pdu_node list \<Rightarrow> infra_path list" where
  "infra_paths pdus =
     [(pn_id p, kn_id k, hn_id h, dn_id d, n). p \<leftarrow> pdus, k \<leftarrow> pn_racks p, h \<leftarrow> kn_hypervisors k,
        d \<leftarrow> hn_devices h, n \<leftarrow> dn_nisds d]"

text \<open>The same as a join of the five tables.\<close>

definition on_device :: "device \<Rightarrow> nisd \<Rightarrow> bool" where
  "on_device d n \<longleftrightarrow> 3 < length (n_FailureDomain n) \<and> n_FailureDomain n ! 3 = d_ID d"

definition infra_join ::
  "pdu list \<Rightarrow> rack list \<Rightarrow> hypervisor list \<Rightarrow> device list \<Rightarrow> nisd list \<Rightarrow> infra_path list" where
  "infra_join pdus racks hvs devs nisds =
     [(p_ID p, r_ID k, h_ID h, d_ID d, nisd_node_of n). p \<leftarrow> pdus, k \<leftarrow> racks, r_PDUID k = p_ID p, h \<leftarrow> hvs,
        h_RackID h = r_ID k, d \<leftarrow> devs, d_HypervisorID d = h_ID h, n \<leftarrow> nisds, on_device d n]"

lemma concat_map_filter: "concat (map f (filter P xs)) = concat (map (\<lambda>x. if P x then f x else []) xs)"
  by (induction xs) auto

lemma concat_map_single: "concat (map (\<lambda>x. if P x then [f x] else []) xs) = map f (filter P xs)"
  by (induction xs) auto

lemma infra_paths_tree: "infra_paths (infra_tree pdus racks hvs devs nisds) = infra_join pdus racks hvs devs nisds"
  by (simp add: infra_paths_def infra_join_def infra_tree_def Let_def group_nodes_eq pdu_node_of_def rack_node_of_def
      hypervisor_node_of_def device_node_of_def concat_map_filter concat_map_single map_concat comp_def on_device_def
      not_le conj_commute filter_filter cong: if_cong)

lemma distinct_concat_key:
  assumes "distinct (map key xs)" and "\<And>x. x \<in> set xs \<Longrightarrow> distinct (f x)"
    and "\<And>x y. x \<in> set xs \<Longrightarrow> y \<in> set (f x) \<Longrightarrow> par y = key x"
  shows "distinct (concat (map f xs))"
  using assms
proof (induction xs)
  case (Cons x xs)
  have "set (f x) \<inter> set (concat (map f xs)) = {}"
  proof (rule ccontr)
    assume "set (f x) \<inter> set (concat (map f xs)) \<noteq> {}"
    then obtain y z where yz: "y \<in> set (f x)" "z \<in> set xs" "y \<in> set (f z)" by auto
    have "par y = key x" by (rule Cons.prems(3)) (use yz in simp_all)
    moreover have "par y = key z" by (rule Cons.prems(3)) (use yz in simp_all)
    ultimately show False using Cons.prems(1) yz(2) by (metis distinct.simps(2) image_eqI list.set_map list.simps(9))
  qed
  moreover have "distinct (concat (map f xs))" by (rule Cons.IH) (use Cons.prems in auto)
  ultimately show ?case using Cons.prems(2)[of x] by simp
qed simp

definition ids_distinct ::
  "pdu list \<Rightarrow> rack list \<Rightarrow> hypervisor list \<Rightarrow> device list \<Rightarrow> nisd list \<Rightarrow> bool" where
  "ids_distinct pdus racks hvs devs nisds \<longleftrightarrow> distinct (map p_ID pdus) \<and> distinct (map r_ID racks)
     \<and> distinct (map h_ID hvs) \<and> distinct (map d_ID devs) \<and> distinct (map n_ID nisds)"

lemma distinct_infra_join:
  assumes "ids_distinct pdus racks hvs devs nisds"
  shows "distinct (infra_join pdus racks hvs devs nisds)"
proof -
  have n: "distinct (concat (map (\<lambda>n. if on_device d n then [(a, b, c, d_ID d, nisd_node_of n)] else []) nisds))" for a b c d
    by (rule distinct_concat_key[where key = n_ID and par = "\<lambda>(_, _, _, _, n). nn_id n"])
       (use assms in \<open>auto simp: ids_distinct_def nisd_node_of_def split: if_splits\<close>)
  have d: "distinct (concat (map (\<lambda>d. if d_HypervisorID d = h_ID h
       then concat (map (\<lambda>n. if on_device d n then [(a, b, h_ID h, d_ID d, nisd_node_of n)] else []) nisds) else []) devs))" for a b h
    by (rule distinct_concat_key[where key = d_ID and par = "\<lambda>(_, _, _, d, _). d"])
       (use assms n in \<open>auto simp: ids_distinct_def split: if_splits\<close>)
  have h: "distinct (concat (map (\<lambda>h. if h_RackID h = r_ID k then concat (map (\<lambda>d. if d_HypervisorID d = h_ID h
       then concat (map (\<lambda>n. if on_device d n then [(a, r_ID k, h_ID h, d_ID d, nisd_node_of n)] else []) nisds) else []) devs)
       else []) hvs))" for a k
    by (rule distinct_concat_key[where key = h_ID and par = "\<lambda>(_, _, h, _, _). h"])
       (use assms d in \<open>auto simp: ids_distinct_def split: if_splits\<close>)
  have k: "distinct (concat (map (\<lambda>k. if r_PDUID k = p_ID p then concat (map (\<lambda>h. if h_RackID h = r_ID k
       then concat (map (\<lambda>d. if d_HypervisorID d = h_ID h
       then concat (map (\<lambda>n. if on_device d n then [(p_ID p, r_ID k, h_ID h, d_ID d, nisd_node_of n)] else []) nisds)
       else []) devs) else []) hvs) else []) racks))" for p
    by (rule distinct_concat_key[where key = r_ID and par = "\<lambda>(_, k, _, _, _). k"])
       (use assms h in \<open>auto simp: ids_distinct_def split: if_splits\<close>)
  show ?thesis unfolding infra_join_def
    by (rule distinct_concat_key[where key = p_ID and par = fst])
       (use assms k in \<open>auto simp: ids_distinct_def split: if_splits\<close>)
qed

lemma same_key: "distinct (map f xs) \<Longrightarrow> x \<in> set xs \<Longrightarrow> y \<in> set xs \<Longrightarrow> f x = f y \<Longrightarrow> x = y"
  by (meson distinct_map inj_onD)


subsection \<open>Witnesses\<close>

theorem create_vdev_request_witness:
  "\<exists>cfg flt. rq_Payload (cl_req (hd (snd (handleCreateVdev sample_proxy sample_post [])))) = A_VdevReq (Some cfg) flt
     \<and> TotalRedundancyBlocksPerChunk cfg = 255"
proof -
  have "px_sendFuncReqFn sample_proxy = Some (recording (\<lambda>_. Inr (Reply (CPResp None None (A_ResponseXML
        \<lparr>rx_Name = [], rx_ID = ''v1'', rx_Error = [], rx_Success = True\<rparr>)))))"
    by (simp add: sample_proxy_def)
  from create_vdev_request[OF this, of sample_post "[]"] obtain req cfg flt where r:
    "js_CreateVdev (px_json sample_proxy) (hq_Body sample_post) = Inr req"
    "rq_Payload (cl_req (hd (snd (handleCreateVdev sample_proxy sample_post [])))) = A_VdevReq (Some cfg) flt"
    "TotalRedundancyBlocksPerChunk cfg = cv_data_blk_cnt req"
    unfolding sample_create_vdev by auto
  moreover from r(1) have "cv_data_blk_cnt req = 255"
    by (auto simp: sample_proxy_def sample_codec_def sample_vdev_request_def)
  ultimately show ?thesis by auto
qed

definition sample_tables :: "pdu list \<times> rack list \<times> hypervisor list \<times> device list \<times> nisd list" where
  "sample_tables =
    ([\<lparr>p_ID = ''p'', p_Name = [], p_Location = [], p_PowerCapacity = [], p_Specification = [], p_Racks = []\<rparr>],
     [\<lparr>r_ID = ''r'', r_Name = [], r_PDUID = ''p'', r_Location = [], r_Specification = [], r_Hypervisors = []\<rparr>],
     [\<lparr>h_ID = ''h'', h_RackID = ''r'', h_Name = [], h_IPAddrs = [], h_PortRange = [], h_SSHPort = [], h_Dev = [],
       h_RDMAEnabled = False\<rparr>],
     [\<lparr>d_ID = ''d'', d_Name = [], d_DevicePath = [], d_SerialNumber = [], d_State = 0, d_Size = 0,
       d_HypervisorID = ''h'', d_FailureDomain = [], d_Partitions = []\<rparr>],
     [\<lparr>n_PeerPort = 1, n_ID = ''n'', n_FailureDomain = [''p'', ''r'', ''h'', ''d'', ''x''], n_TotalSize = 0,
       n_AvailableSize = 0, n_SocketPath = [], n_NetInfo = [], n_NetInfoCnt = 0\<rparr>])"


end
