(* ===== verification/EntitySpec.thy ===== *)
theory EntitySpec
  imports Handlers RoundTrip StoreLemmas
begin

section \<open>Configuration entities, from the write request to the read request\<close>

text \<open>
  A rack, a PDU or a NISD is written by a write preparation whose changes are applied, and read by a
  read handler. The locale \<open>config_entity\<close> is the contract between the two handlers of an entity; under
  it, on a store that works, what was written is what is read, and nothing else in the store changes.
  Every entity is an interpretation. The first part extends the parsers' locale to result maps that
  hold several entities.
\<close>

subsection \<open>Parsing several entities\<close>

context entity_parser begin

lemma ParseEntities_perm:
  assumes "ParseEntities kvs P idx = Ret [x]" and "regular kvs" and "mset kvs' = mset kvs"
  shows "\<exists>y. ParseEntities kvs' P idx = Ret [y] \<and> req x y"
proof -
  from ParseEntities_order[OF assms(3)[symmetric] assms(2)] obtain es0 es where es:
    "ParseEntities kvs P idx = Ret es0" "ParseEntities kvs' P idx = Ret es" "rel_mset req (mset es0) (mset es)" by blast
  with assms(1) have "rel_mset req (mset [x]) (mset es)" by simp
  from rel_mset_single[OF this] es(2) show ?thesis by blast
qed

lemma regular_filter: "regular kvs \<Longrightarrow> regular (filter Q kvs)"
proof -
  assume reg: "regular kvs"
  have f: "filter relevant (filter Q kvs) = filter Q (filter relevant kvs)" by (simp add: conj_commute)
  have "distinct (map (\<lambda>kv. slot (key_parts (fst kv))) (filter relevant (filter Q kvs)))"
    unfolding f by (rule distinct_map_filter) (use reg in \<open>simp add: regular_def\<close>)
  with reg show ?thesis by (simp add: regular_def)
qed

text \<open>Each group of keys is parsed as if it were alone.\<close>

lemma ParseEntities_groups:
  assumes reg: "regular kvs" and rel: "\<forall>kv \<in> set kvs. relevant kv"
    and ids: "key_id idx ` set kvs = set is" "distinct is"
    and groups: "\<And>i. i \<in> set is \<Longrightarrow> ParseEntities (filter (\<lambda>kv. key_id idx kv = i) kvs) P idx = Ret [x i]"
  shows "\<exists>es. ParseEntities kvs P idx = Ret es \<and> mset es = mset (map x is)"
proof -
  have r: "\<forall>kv \<in> set kvs. relevant kv \<longrightarrow> reg (key_parts (fst kv))" using reg by (simp add: regular_def)
  from parse_fresh[OF r] obtain em where em: "ParseEntitiesMap_from P idx [] kvs = Ret em"
    "distinct (map fst em)" "fst ` set em = key_id idx ` set (filter relevant kvs)"
    "\<forall>i \<in> fst ` set em. map_of em i = Some (build_entity P pf idx (pe_NewEntity P i) i kvs)" by blast
  have keys: "set (map fst em) = set is" using em(3) rel ids(1) by (simp add: filter_id_conv[THEN iffD2])
  have val: "pe_GetEntity P e = x i" if "(i, e) \<in> set em" for i e
  proof -
    let ?g = "filter (\<lambda>kv. key_id idx kv = i) kvs"
    from that keys have i: "i \<in> set is" by (metis fst_conv image_eqI list.set_map)
    have e: "e = build_entity P pf idx (pe_NewEntity P i) i kvs"
      using that em(2,4) by (metis fst_conv image_eqI map_of_is_SomeI option.inject)
    have "?g \<noteq> []" using i ids(1)[symmetric] by (auto simp: filter_empty_conv)
    moreover have "\<forall>kv \<in> set ?g. relevant kv \<and> key_id idx kv = i" using rel by simp
    ultimately have "ParseEntities ?g P idx =
        Ret [pe_GetEntity P (foldl (\<lambda>e kv. pf e (key_parts (fst kv)) (snd kv)) (pe_NewEntity P i) ?g)]"
      using ParseEntities_single[OF regular_filter[OF reg]] by blast
    moreover have "filter (\<lambda>kv. relevant kv \<and> key_id idx kv = i) kvs = ?g"
      using rel by (auto intro: filter_cong)
    ultimately show ?thesis using groups[OF i] unfolding e build_entity_def by simp
  qed
  have "map (\<lambda>(_, e). pe_GetEntity P e) em = map x (map fst em)" using val by auto
  moreover have "mset (map fst em) = mset is"
    using set_eq_iff_mset_eq_distinct[OF em(2) ids(2)] keys by blast
  ultimately have "mset (map (\<lambda>(_, e). pe_GetEntity P e) em) = mset (map x is)" by (simp only: mset_map)
  with em(1) show ?thesis by (simp add: ParseEntities_def)
qed

end

subsection \<open>NISDs\<close>

lemma nisd_parse_perm:
  assumes "nisd_storable n" "mset kvs = mset (nisd_entries n)"
  shows "\<exists>m. ParseEntities kvs NisdParser 1 = Ret [m] \<and> nisd_eqv n m"
  by (rule nisd.ParseEntities_perm[OF nisd_parse_written[OF assms(1)] nisd_regular[OF assms(1)] assms(2)])

lemma nisd_entries_distinct_all:
  assumes "\<forall>n \<in> set ns. nisd_storable n" "distinct (map n_ID ns)"
  shows "distinct (map (\<lambda>kv. key_parts (fst kv)) (concat (map nisd_entries ns)))"
  using assms
proof (induction ns)
  case (Cons n ns)
  have "key_parts (fst kv) \<noteq> key_parts (fst kv')"
    if "kv \<in> set (nisd_entries n)" "m \<in> set ns" "kv' \<in> set (nisd_entries m)" for kv m kv'
  proof -
    have "key_id 1 kv = n_ID n" "key_id 1 kv' = n_ID m" "n_ID n \<noteq> n_ID m"
      using that Cons.prems nisd_entries_key[of n kv] nisd_entries_key[of m kv'] by auto
    then show ?thesis by (auto simp: key_id_def)
  qed
  with Cons nisd_entries_distinct[of n] show ?case by (auto simp: image_iff)
qed simp

lemma nisds_parse_perm:
  assumes ok: "\<forall>n \<in> set ns. nisd_storable n" "distinct (map n_ID ns)"
    and kvs: "mset kvs = mset (concat (map nisd_entries ns))"
  shows "\<exists>es. ParseEntities kvs NisdParser 1 = Ret es \<and> rel_mset nisd_eqv (mset ns) (mset es)"
proof -
  let ?all = "concat (map nisd_entries ns)"
  have root: "pe_GetRootKey NisdParser = NisdCfgKey" by (simp add: NisdParser_def)
  have set: "set kvs = set ?all" using kvs by (metis set_mset_mset)
  have key: "key_relevant NisdCfgKey 1 kv \<and> key_id 1 kv = n_ID n" if "n \<in> set ns" "kv \<in> set (nisd_entries n)" for n kv
    using that ok(1) nisd_entries_key by blast
  have all: "\<forall>kv \<in> set ?all. key_relevant NisdCfgKey 1 kv" using key by auto
  have "filter (key_relevant NisdCfgKey 1) ?all = ?all" using all by (simp add: filter_id_conv)
  then have "nisd.regular ?all" unfolding nisd.regular_def root using nisd_entries_distinct_all[OF ok] by simp
  then have reg: "nisd.regular kvs" using kvs by (metis nisd.regular_subset)
  have ids: "key_id 1 ` set kvs = set (map n_ID ns)"
  proof -
    have ne: "nisd_entries n \<noteq> []" if "n \<in> set ns" for n
      using nisd_parse_written[of n] that ok(1) by (auto simp: ParseEntities_def)
    show ?thesis
    proof (intro equalityI subsetI)
      fix i assume "i \<in> key_id 1 ` set kvs"
      then obtain n kv where "n \<in> set ns" "kv \<in> set (nisd_entries n)" "i = key_id 1 kv" unfolding set by auto
      with key[of n kv] show "i \<in> set (map n_ID ns)" by auto
    next
      fix i assume "i \<in> set (map n_ID ns)"
      then obtain n where n: "n \<in> set ns" "i = n_ID n" by auto
      with ne[of n] obtain kv where kv: "kv \<in> set (nisd_entries n)" by (cases "nisd_entries n") auto
      with key[OF n(1) kv] n show "i \<in> key_id 1 ` set kvs" unfolding set by force
    qed
  qed
  have group: "\<exists>m. ParseEntities (filter (\<lambda>kv. key_id 1 kv = n_ID n) kvs) NisdParser 1 = Ret [m] \<and> nisd_eqv n m"
    if n: "n \<in> set ns" for n
  proof (rule nisd_parse_perm)
    have "filter (\<lambda>kv. key_id 1 kv = n_ID n) (concat (map nisd_entries ns)) = nisd_entries n"
      using n ok(2) key
    proof (induction ns)
      case (Cons m ms)
      have m: "filter (\<lambda>kv. key_id 1 kv = n_ID n) (nisd_entries m) = (if n_ID m = n_ID n then nisd_entries m else [])"
        using Cons.prems(3)[of m] by (auto simp: filter_id_conv filter_empty_conv)
      show ?case
      proof (cases "n = m")
        case True
        have "filter (\<lambda>kv. key_id 1 kv = n_ID n) (concat (map nisd_entries ms)) = []"
        proof -
          have "key_id 1 kv \<noteq> n_ID n" if "y \<in> set ms" "kv \<in> set (nisd_entries y)" for y kv
          proof -
            have "n_ID m \<notin> n_ID ` set ms" using Cons.prems(2) by simp
            then have "n_ID y \<noteq> n_ID n" using that(1) True by (metis imageI)
            then show ?thesis using Cons.prems(3)[of y kv] that by simp
          qed
          then show ?thesis by (auto simp: filter_empty_conv)
        qed
        with m True show ?thesis by simp
      next
        case False
        with Cons.prems have "n_ID m \<noteq> n_ID n" "n \<in> set ms" by auto
        moreover have "filter (\<lambda>kv. key_id 1 kv = n_ID n) (concat (map nisd_entries ms)) = nisd_entries n"
        proof (rule Cons.IH)
          show "key_relevant NisdCfgKey 1 kv \<and> key_id 1 kv = n_ID k" if "k \<in> set ms" "kv \<in> set (nisd_entries k)" for k kv
            using Cons.prems(3)[of k kv] that by simp
        qed (use Cons.prems calculation in simp_all)
        ultimately show ?thesis using m by simp
      qed
    qed simp
    with kvs show "mset (filter (\<lambda>kv. key_id 1 kv = n_ID n) kvs) = mset (nisd_entries n)" by (metis mset_filter)
  qed (use n ok(1) in blast)
  then obtain x where x: "\<forall>n \<in> set ns. ParseEntities (filter (\<lambda>kv. key_id 1 kv = n_ID n) kvs) NisdParser 1 = Ret [x n] \<and>
      nisd_eqv n (x n)" by metis
  define y where "y i = x (SOME n. n \<in> set ns \<and> n_ID n = i)" for i
  have y: "y (n_ID n) = x n" if "n \<in> set ns" for n
  proof -
    have "(SOME m. m \<in> set ns \<and> n_ID m = n_ID n) = n"
      using that ok(2) by (intro some_equality) (auto simp: distinct_map inj_on_def)
    then show ?thesis by (simp add: y_def)
  qed
  have "\<forall>kv \<in> set kvs. nisd.relevant kv" unfolding root set using all by blast
  from nisd.ParseEntities_groups[OF reg this ids ok(2), of y]
  obtain es where es: "ParseEntities kvs NisdParser 1 = Ret es" "mset es = mset (map y (map n_ID ns))"
    using x y by force
  have "list_all2 nisd_eqv ns (map y (map n_ID ns))" using x y by (auto simp: list_all2_conv_all_nth)
  with es(2) have "rel_mset nisd_eqv (mset ns) (mset es)" unfolding rel_mset_def by metis
  with es(1) show ?thesis by blast
qed

subsection \<open>The contract between a write preparation and a read handler\<close>

text \<open>
  \<open>entries x\<close> are the pairs written for the entity \<open>x\<close>, all below \<open>key (eid x)\<close>; \<open>ok\<close> is what the
  handlers accept and the keys can carry; \<open>same x y\<close> is what a reader gets back.
\<close>

locale config_entity =
  fixes prep :: "env \<Rightarrow> arg list \<Rightarrow> encoded go"
    and rd :: "env \<Rightarrow> 's data_store \<Rightarrow> arg list \<Rightarrow> 's \<Rightarrow> encoded go"
    and payload :: "'e \<Rightarrow> any"
    and answer :: "'e list \<Rightarrow> encoded go"
    and fn_w fn_r :: function_name
    and eid :: "'e \<Rightarrow> string"
    and key :: "string \<Rightarrow> string"
    and entries :: "'e \<Rightarrow> (string \<times> string) list"
    and ok :: "env \<Rightarrow> 'e \<Rightarrow> bool"
    and same :: "'e \<Rightarrow> 'e \<Rightarrow> bool"
  assumes prep_writes: "ok env x \<Longrightarrow> rq_Payload rq = payload x \<Longrightarrow>
        validateAndAuthorizeRBAC env (rq_Token rq) fn_w = Ret tc \<Longrightarrow>
        \<exists>f. prep env (ArgCPReq rq # rest) = Ret (EncIntrm f) \<and> map entry (fi_Changes f) = entries x \<and>
            (\<forall>c \<in> set (fi_Changes f). cc_Op c = OpApply)"
    and entries_below: "ok env x \<Longrightarrow> entries x \<noteq> [] \<and> distinct (map fst (entries x)) \<and>
        (\<forall>k \<in> fst ` set (entries x). has_prefix (key (eid x)) k)"
    and rd_entity: "ok env x \<Longrightarrow> rq_Payload rq = A_GetReq \<lparr>g_ID = eid x, g_GetAll = False, g_Fields = []\<rparr> \<Longrightarrow>
        validateAndAuthorizeRBAC env (rq_Token rq) fn_r = Ret tc \<Longrightarrow>
        ds_RangeRead ds s (prefix_args cb (key (eid x))) = Inr r \<Longrightarrow>
        mset (rr_ResultMap r) = mset (entries x) \<Longrightarrow>
        \<exists>y. same x y \<and> rd env ds (ArgCbArgs cb # ArgCPReq rq # rest) s = answer [y]"
begin

lemma write_then_read:
  assumes exact: "store_exact ds cont" and ok: "ok env x"
    and w: "rq_Payload rqw = payload x" "validateAndAuthorizeRBAC env (rq_Token rqw) fn_w = Ret tcw"
    and r: "rq_Payload rqr = A_GetReq \<lparr>g_ID = eid x, g_GetAll = False, g_Fields = []\<rparr>"
      "validateAndAuthorizeRBAC env (rq_Token rqr) fn_r = Ret tcr"
    and old: "\<forall>k. has_prefix (key (eid x)) k \<and> cont s k \<noteq> None \<longrightarrow> k \<in> fst ` set (entries x)"
  shows "\<exists>f s' y. prep env (ArgCPReq rqw # rest) = Ret (EncIntrm f) \<and>
     applyKV ds (fi_Changes f) s = (None, s') \<and> same x y \<and>
     rd env ds [ArgCbArgs cb, ArgCPReq rqr] s' = answer [y] \<and>
     (\<forall>k. \<not> has_prefix (key (eid x)) k \<longrightarrow> cont s' k = cont s k)"
proof -
  let ?p = "key (eid x)"
  from prep_writes[OF ok w] obtain f where f: "prep env (ArgCPReq rqw # rest) = Ret (EncIntrm f)"
    "map entry (fi_Changes f) = entries x" "\<forall>c \<in> set (fi_Changes f). cc_Op c = OpApply" by blast
  note e = entries_below[OF ok]
  have keys: "map cc_Key (fi_Changes f) = map fst (entries x)"
    unfolding f(2)[symmetric] by (simp add: entry_def)
  obtain s' where s': "applyKV ds (fi_Changes f) s = (None, s')"
    using applyKV_exact[OF exact, of "fi_Changes f" s] f(3) by (cases "applyKV ds (fi_Changes f) s") auto
  have "distinct (map cc_Key (fi_Changes f))" unfolding keys using e by blast
  from chgs_effect_entries[OF this f(3)] have eff:
    "cont s' = (\<lambda>k. case map_of (entries x) k of Some v \<Rightarrow> Some v | None \<Rightarrow> cont s k)"
    unfolding applyKV_done[OF exact_sound[OF exact] s'] f(2) .
  have at: "cont s' k = map_of (entries x) k" if "has_prefix ?p k" for k
  proof (cases "map_of (entries x) k")
    case None
    then have "k \<notin> fst ` set (entries x)" by (simp add: map_of_eq_None_iff)
    with old that have "cont s k = None" by blast
    with None show ?thesis by (simp add: eff)
  qed (simp add: eff)
  have other: "cont s' k = cont s k" if "\<not> has_prefix ?p k" for k
  proof -
    have "map_of (entries x) k = None" using e that by (auto simp: map_of_eq_None_iff)
    then show ?thesis by (simp add: eff)
  qed
  obtain k0 v0 where k0: "(k0, v0) \<in> set (entries x)" using e by (cases "entries x") auto
  then have "has_prefix ?p k0" "cont s' k0 = Some v0" using e at[of k0] by force+
  from exact_range[OF exact this(2,1), of cb] obtain res where res:
    "ds_RangeRead ds s' (prefix_args cb ?p) = Inr res"
    "\<forall>k v. (k, v) \<in> set (rr_ResultMap res) \<longleftrightarrow> has_prefix ?p k \<and> cont s' k = Some v" by blast
  have d: "distinct (map fst (rr_ResultMap res))" using sound_range[OF exact_sound[OF exact] res(1)] by blast
  have "set (rr_ResultMap res) = set (entries x)"
  proof (intro set_eqI)
    fix kv :: "string \<times> string"
    obtain k v where kv: "kv = (k, v)" by fastforce
    have "has_prefix ?p k \<and> cont s' k = Some v \<longleftrightarrow> (k, v) \<in> set (entries x)"
      using at[of k] e by (auto dest: map_of_SomeD)
    with res(2) kv show "kv \<in> set (rr_ResultMap res) \<longleftrightarrow> kv \<in> set (entries x)" by simp
  qed
  then have m: "mset (rr_ResultMap res) = mset (entries x)"
    using d e by (simp add: set_eq_iff_mset_eq_distinct[symmetric] distinct_map)
  from rd_entity[OF ok r res(1) m, of "[]"] f(1) s' other show ?thesis by blast
qed

end

subsection \<open>Racks, PDUs and NISDs\<close>

lemma wp_ok: "wp_args as (ArgCPReq rq # rest) g = go_bind (must (as (rq_Payload rq))) (g rq)"
  by (simp add: wp_args_def arg_simps)

lemma rd_ok: "rd_args (ArgCbArgs cb # ArgCPReq rq # rest) g = g cb rq"
  by (simp add: rd_args_def arg_simps)

lemma with_rbac_ok: "validateAndAuthorizeRBAC env tok fn = Ret tc \<Longrightarrow> with_rbac env tok fn onerr g = g tc"
  by (simp add: with_rbac_def)

definition rack_entries :: "rack \<Rightarrow> (string \<times> string) list" where
  "rack_entries r = map (\<lambda>(f, v). (getConfKey (getConfKey rackKey (r_ID r)) f, v)) (rack_pairs r)"

lemma rackPopulator_entries:
  "\<exists>cs. PopulateEntities r rackPopulator rackKey = Ret cs \<and> map entry cs = rack_entries r \<and>
     (\<forall>c \<in> set cs. cc_Op c = OpApply)"
  unfolding PopulateEntities_def rackPopulator_def append_Nil rack_entries_def
  by (intro exI conjI, rule refl, simp only: entries_populate_fields rack_pairs_eq, blast dest: populate_fields_write)

lemma getConfKey_prefix: "has_prefix (getConfKey a b) (getConfKey (getConfKey a b) c)"
  by (simp add: getConfKey_def has_prefix_iff)

lemma rack_entries_distinct: "distinct (map fst (rack_entries r))"
  by (simp add: rack_entries_def rack_pairs_def getConfKey_def)

lemma rack_writes:
  assumes "rq_Payload rq = A_Rack x" "validateAndAuthorizeRBAC env (rq_Token rq) F_WPRackCfg = Ret tc"
  shows "\<exists>f. WPRackCfg env (ArgCPReq rq # rest) = Ret (EncIntrm f) \<and> map entry (fi_Changes f) = rack_entries x \<and>
      (\<forall>c \<in> set (fi_Changes f). cc_Op c = OpApply)"
  using rackPopulator_entries[of x] assms by (auto simp: WPRackCfg_def wp_ok with_rbac_ok wp_done_def)

lemma rack_below:
  "rack_entries x \<noteq> [] \<and> distinct (map fst (rack_entries x)) \<and>
     (\<forall>k \<in> fst ` set (rack_entries x). has_prefix (getConfKey rackKey (r_ID x)) k)"
  using rack_entries_distinct[of x] by (auto simp: rack_entries_def rack_pairs_def getConfKey_prefix)

lemma rack_reads:
  assumes "slash \<notin> set (r_ID x)" "rq_Payload rq = A_GetReq \<lparr>g_ID = r_ID x, g_GetAll = False, g_Fields = []\<rparr>"
    "validateAndAuthorizeRBAC env (rq_Token rq) F_ReadRackCfg = Ret tc"
    "ds_RangeRead ds s (prefix_args cb (getConfKey rackKey (r_ID x))) = Inr r"
    "mset (rr_ResultMap r) = mset (rack_entries x)"
  shows "\<exists>y. y = x\<lparr>r_Hypervisors := []\<rparr> \<and>
      ReadRackCfg env ds (ArgCbArgs cb # ArgCPReq rq # rest) s = EncodeResponse (A_Racks [y])"
proof -
  from rack_parse_written[OF assms(1)] have w: "rack.regular (rack_entries x)"
    "ParseEntities (rack_entries x) rackParser 1 = Ret [x\<lparr>r_Hypervisors := []\<rparr>]" by (simp_all add: rack_entries_def)
  from rack.ParseEntities_perm[OF w(2,1) assms(5)]
  have "ParseEntities (rr_ResultMap r) rackParser 1 = Ret [x\<lparr>r_Hypervisors := []\<rparr>]" by auto
  with assms show ?thesis
    by (simp add: ReadRackCfg_def rd_ok with_rbac_ok id_key_def range_entities_def range_then_def)
qed

interpretation rack_cfg: config_entity WPRackCfg ReadRackCfg A_Rack "\<lambda>l. EncodeResponse (A_Racks l)"
  F_WPRackCfg F_ReadRackCfg r_ID "getConfKey rackKey" rack_entries "\<lambda>env r. slash \<notin> set (r_ID r)"
  "\<lambda>x y. y = x\<lparr>r_Hypervisors := []\<rparr>"
  by unfold_locales (rule rack_writes, assumption+, rule rack_below, rule rack_reads, assumption+)

definition pdu_pairs :: "pdu \<Rightarrow> (string \<times> string) list" where
  "pdu_pairs p = [(NAME, p_Name p), (LOCATION, p_Location p), (SPEC, p_Specification p), (POWER_CAP, p_PowerCapacity p)]"

lemma pdu_pairs_eq: "field_pairs (pdu_value p) [NAME, LOCATION, SPEC, POWER_CAP] = pdu_pairs p"
  by (simp add: pdu_value.simps pdu_pairs_def)

text \<open>A PDU also has an entry without a field.\<close>

definition pdu_entries :: "pdu \<Rightarrow> (string \<times> string) list" where
  "pdu_entries p = (getConfKey pduKey (p_ID p), []) #
     map (\<lambda>(f, v). (getConfKey (getConfKey pduKey (p_ID p)) f, v)) (pdu_pairs p)"

lemma pduPopulator_entries:
  "\<exists>cs. PopulateEntities p pduPopulator pduKey = Ret cs \<and> map entry cs = pdu_entries p \<and>
     (\<forall>c \<in> set cs. cc_Op c = OpApply)"
proof -
  let ?fs = "populate_fields (getConfKey pduKey (p_ID p)) (pdu_value p) [NAME, LOCATION, SPEC, POWER_CAP]"
  have "PopulateEntities p pduPopulator pduKey = Ret (chg (getConfKey pduKey (p_ID p)) [] # ?fs)"
    by (simp only: PopulateEntities_def pduPopulator_def append_Nil append_Cons)
  moreover have "map entry (chg (getConfKey pduKey (p_ID p)) [] # ?fs) = pdu_entries p"
    by (simp only: list.map entries_populate_fields pdu_pairs_eq pdu_entries_def entry_def commit_chg.simps)
  moreover have "\<forall>c \<in> set (chg (getConfKey pduKey (p_ID p)) [] # ?fs). cc_Op c = OpApply"
    using populate_fields_write[of _ "getConfKey pduKey (p_ID p)" "pdu_value p" "[NAME, LOCATION, SPEC, POWER_CAP]"]
    by (simp only: list.set ball_simps commit_chg.simps simp_thms) blast
  ultimately show ?thesis by blast
qed

lemma pdu_parse_written:
  assumes "slash \<notin> set (p_ID p)" "p_ID p \<noteq> []"
  shows "pdu.regular (pdu_entries p) \<and> ParseEntities (pdu_entries p) pduParser 1 = Ret [p\<lparr>p_Racks := []\<rparr>]"
proof -
  have kp: "key_parts (getConfKey (getConfKey pduKey (p_ID p)) f) = [pduKey, p_ID p, f]"
    if "slash \<notin> set f" "f \<noteq> []" for f
    by (rule key_parts_3) (use assms that in auto)
  have kp0: "key_parts (getConfKey pduKey (p_ID p)) = [pduKey, p_ID p]"
    using key_parts_join[of "[pduKey, p_ID p]"] assms by (simp add: getConfKey_def)
  have reg: "pdu.regular (pdu_entries p)"
    unfolding pdu.regular_def by (simp add: pdu_entries_def pdu_pairs_def kp kp0 key_relevant_def pduParser_def)
  have one: "\<forall>kv \<in> set (pdu_entries p). key_relevant (pe_GetRootKey pduParser) 1 kv \<and> key_id 1 kv = p_ID p"
    by (simp add: pdu_entries_def pdu_pairs_def kp kp0 key_relevant_def key_id_def pduParser_def)
  have "foldl (\<lambda>e kv. pdu_ParseField e (key_parts (fst kv)) (snd kv)) (new_pdu (p_ID p)) (pdu_entries p) = p\<lparr>p_Racks := []\<rparr>"
    by (simp add: pdu_entries_def pdu_pairs_def kp kp0 pdu_ParseField_def pdu_set_def new_pdu_def)
  with pdu.ParseEntities_single[OF reg one] reg show ?thesis
    by (simp add: pduParser_def pdu_entries_def)
qed

lemma pdu_writes:
  assumes "rq_Payload rq = A_PDU x" "validateAndAuthorizeRBAC env (rq_Token rq) F_WPPDUCfg = Ret tc"
  shows "\<exists>f. WPPDUCfg env (ArgCPReq rq # rest) = Ret (EncIntrm f) \<and> map entry (fi_Changes f) = pdu_entries x \<and>
      (\<forall>c \<in> set (fi_Changes f). cc_Op c = OpApply)"
  using pduPopulator_entries[of x] assms by (auto simp: WPPDUCfg_def wp_ok with_rbac_ok wp_done_def)

lemma pdu_below:
  "pdu_entries x \<noteq> [] \<and> distinct (map fst (pdu_entries x)) \<and>
     (\<forall>k \<in> fst ` set (pdu_entries x). has_prefix (getConfKey pduKey (p_ID x)) k)"
  by (auto simp: pdu_entries_def pdu_pairs_def getConfKey_prefix) (simp_all add: getConfKey_def)

lemma pdu_reads:
  assumes "slash \<notin> set (p_ID x) \<and> p_ID x \<noteq> []" "rq_Payload rq = A_GetReq \<lparr>g_ID = p_ID x, g_GetAll = False, g_Fields = []\<rparr>"
    "validateAndAuthorizeRBAC env (rq_Token rq) F_ReadPDUCfg = Ret tc"
    "ds_RangeRead ds s (prefix_args cb (getConfKey pduKey (p_ID x))) = Inr r"
    "mset (rr_ResultMap r) = mset (pdu_entries x)"
  shows "\<exists>y. y = x\<lparr>p_Racks := []\<rparr> \<and>
      ReadPDUCfg env ds (ArgCbArgs cb # ArgCPReq rq # rest) s = EncodeResponse (A_PDUs [y])"
proof -
  from pdu_parse_written[of x] assms(1) have w: "pdu.regular (pdu_entries x)"
    "ParseEntities (pdu_entries x) pduParser 1 = Ret [x\<lparr>p_Racks := []\<rparr>]" by simp_all
  from pdu.ParseEntities_perm[OF w(2,1) assms(5)]
  have "ParseEntities (rr_ResultMap r) pduParser 1 = Ret [x\<lparr>p_Racks := []\<rparr>]" by auto
  with assms show ?thesis
    by (simp add: ReadPDUCfg_def rd_ok with_rbac_ok id_key_def range_entities_def range_then_def)
qed

interpretation pdu_cfg: config_entity WPPDUCfg ReadPDUCfg A_PDU "\<lambda>l. EncodeResponse (A_PDUs l)"
  F_WPPDUCfg F_ReadPDUCfg p_ID "getConfKey pduKey" pdu_entries "\<lambda>env p. slash \<notin> set (p_ID p) \<and> p_ID p \<noteq> []"
  "\<lambda>x y. y = x\<lparr>p_Racks := []\<rparr>"
  by unfold_locales (rule pdu_writes, assumption+, rule pdu_below, rule pdu_reads, assumption+)

text \<open>A NISD is validated on both ways.\<close>

definition nisd_acceptable :: "env \<Rightarrow> nisd \<Rightarrow> bool" where
  "nisd_acceptable env n \<longleftrightarrow> nisd_storable n \<and> n_ID n \<noteq> [] \<and> Nisd_Validate (e_uuid_Parse env) n = None"

lemma nisd_writes:
  assumes "nisd_acceptable env x" "rq_Payload rq = A_Nisd x"
    "validateAndAuthorizeRBAC env (rq_Token rq) F_WPNisdCfg = Ret tc"
  shows "\<exists>f. WPNisdCfg env (ArgCPReq rq # rest) = Ret (EncIntrm f) \<and> map entry (fi_Changes f) = nisd_entries x \<and>
      (\<forall>c \<in> set (fi_Changes f). cc_Op c = OpApply)"
proof -
  have "length (n_FailureDomain x) = FD_MAX" using assms(1) by (simp add: nisd_acceptable_def nisd_storable_def)
  then obtain cs where cs: "PopulateEntities x nisdPopulator NisdCfgKey = Ret cs"
    and "cs = populate_nonempty (nisd_key x) (nisd_value x) nisd_fields @ nisd_netinfo_chgs (nisd_key x) (n_NetInfo x)"
    unfolding PopulateEntities_def nisdPopulator_def Let_def nisd_fields_def nisd_key_def by fastforce
  then have "\<forall>c \<in> set cs. cc_Op c = OpApply"
    using populate_nonempty_write[of _ "nisd_key x" "nisd_value x" nisd_fields] by (auto simp: nisd_netinfo_chgs_def)
  with cs nisdPopulator_entries[OF cs] assms show ?thesis
    by (simp add: WPNisdCfg_def wp_ok with_rbac_ok wp_done_def nisd_acceptable_def)
qed

lemma nisd_below:
  assumes "nisd_acceptable env x"
  shows "nisd_entries x \<noteq> [] \<and> distinct (map fst (nisd_entries x)) \<and>
     (\<forall>k \<in> fst ` set (nisd_entries x). has_prefix (getConfKey NisdCfgKey (n_ID x)) k)"
proof -
  have ok: "nisd_storable x" using assms by (simp add: nisd_acceptable_def)
  have "nisd_entries x \<noteq> []" using nisd_parse_written[OF ok] by (auto simp: ParseEntities_def)
  moreover have "distinct (map fst (nisd_entries x))"
    using nisd_entries_distinct[OF ok] by (auto simp: distinct_map inj_on_def)
  moreover have "has_prefix (nisd_key x) k" if "k \<in> fst ` set (nisd_entries x)" for k
    using that by (auto simp: nisd_entries_def getConfKey_def has_prefix_iff)
  ultimately show ?thesis by (simp add: nisd_key_def)
qed

lemma nisd_reads:
  assumes "nisd_acceptable env x" "rq_Payload rq = A_GetReq \<lparr>g_ID = n_ID x, g_GetAll = False, g_Fields = []\<rparr>"
    "validateAndAuthorizeRBAC env (rq_Token rq) F_ReadNisdConfig = Ret tc"
    "ds_RangeRead ds s (prefix_args cb (getConfKey NisdCfgKey (n_ID x))) = Inr r"
    "mset (rr_ResultMap r) = mset (nisd_entries x)"
  shows "\<exists>y. nisd_eqv x y \<and> ReadNisdConfig env ds (ArgCbArgs cb # ArgCPReq rq # rest) s =
      (case [y] of [] \<Rightarrow> Panic | n # _ \<Rightarrow> EncodeResponse (A_Nisd n))"
proof -
  have ok: "nisd_storable x" using assms(1) by (simp add: nisd_acceptable_def)
  from nisd_parse_perm[OF this assms(5)] obtain m where
    "ParseEntities (rr_ResultMap r) NisdParser 1 = Ret [m]" "nisd_eqv x m" by blast
  with assms show ?thesis
    by (auto simp: ReadNisdConfig_def rd_ok with_rbac_ok ValidateRequest_def nisd_acceptable_def
        range_entities_def range_then_def)
qed

interpretation nisd_cfg: config_entity WPNisdCfg ReadNisdConfig A_Nisd
  "\<lambda>l. case l of [] \<Rightarrow> Panic | n # _ \<Rightarrow> EncodeResponse (A_Nisd n)"
  F_WPNisdCfg F_ReadNisdConfig n_ID "getConfKey NisdCfgKey" nisd_entries nisd_acceptable nisd_eqv
  by unfold_locales (rule nisd_writes, assumption+, rule nisd_below, assumption, rule nisd_reads, assumption+)

text \<open>
  A NISD that \<open>WPNisdCfg\<close> prepares and whose changes are applied is what \<open>ReadNisdConfig\<close> answers
  afterwards (up to the order of its addresses), whatever keys of that NISD were stored before among
  those it writes; keys of other entities keep their values.
\<close>

theorem WPNisdCfg_then_ReadNisdConfig:
  assumes "store_exact ds cont" and "nisd_acceptable env n"
    and "rq_Payload rqw = A_Nisd n" "validateAndAuthorizeRBAC env (rq_Token rqw) F_WPNisdCfg = Ret tcw"
    and "rq_Payload rqr = A_GetReq \<lparr>g_ID = n_ID n, g_GetAll = False, g_Fields = []\<rparr>"
      "validateAndAuthorizeRBAC env (rq_Token rqr) F_ReadNisdConfig = Ret tcr"
    and "\<forall>k. has_prefix (getConfKey NisdCfgKey (n_ID n)) k \<and> cont s k \<noteq> None \<longrightarrow> k \<in> fst ` set (nisd_entries n)"
  shows "\<exists>f s' m. WPNisdCfg env [ArgCPReq rqw] = Ret (EncIntrm f) \<and>
     applyKV ds (fi_Changes f) s = (None, s') \<and> nisd_eqv n m \<and>
     ReadNisdConfig env ds [ArgCbArgs cb, ArgCPReq rqr] s' = EncodeResponse (A_Nisd m) \<and>
     (\<forall>k. \<not> has_prefix (getConfKey NisdCfgKey (n_ID n)) k \<longrightarrow> cont s' k = cont s k)"
  using nisd_cfg.write_then_read[OF assms(1-7), of "[]" cb] by simp

text \<open>
  The same of a rack, with \<open>WPRackCfg\<close> and \<open>ReadRackCfg\<close>: the answer is the rack written, without
  its list of hypervisors, which is not stored.
\<close>

theorem WPRackCfg_then_ReadRackCfg:
  assumes "store_exact ds cont" and "slash \<notin> set (r_ID r)"
    and "rq_Payload rqw = A_Rack r" "validateAndAuthorizeRBAC env (rq_Token rqw) F_WPRackCfg = Ret tcw"
    and "rq_Payload rqr = A_GetReq \<lparr>g_ID = r_ID r, g_GetAll = False, g_Fields = []\<rparr>"
      "validateAndAuthorizeRBAC env (rq_Token rqr) F_ReadRackCfg = Ret tcr"
    and "\<forall>k. has_prefix (getConfKey rackKey (r_ID r)) k \<and> cont s k \<noteq> None \<longrightarrow> k \<in> fst ` set (rack_entries r)"
  shows "\<exists>f s'. WPRackCfg env [ArgCPReq rqw] = Ret (EncIntrm f) \<and>
     applyKV ds (fi_Changes f) s = (None, s') \<and>
     ReadRackCfg env ds [ArgCbArgs cb, ArgCPReq rqr] s' = EncodeResponse (A_Racks [r\<lparr>r_Hypervisors := []\<rparr>]) \<and>
     (\<forall>k. \<not> has_prefix (getConfKey rackKey (r_ID r)) k \<longrightarrow> cont s' k = cont s k)"
  using rack_cfg.write_then_read[OF assms(1-7), of "[]" cb] by auto

text \<open>A store that is empty and checking switched off, or the administrator of \<open>sample_env\<close>.\<close>

abbreviation open_env :: env where
  "open_env \<equiv> sample_env\<lparr>e_authEnabled := False, e_uuid_Parse := (\<lambda>s. s \<noteq> [])\<rparr>"

lemma open_env_rbac: "validateAndAuthorizeRBAC open_env tok fn = Ret anonymous"
  by (simp add: validateAndAuthorizeRBAC_def ValidateToken_def sample_env_def)

theorem WPNisdCfg_then_ReadNisdConfig_witness:
  "\<exists>f s' m. WPNisdCfg open_env [ArgCPReq \<lparr>rq_Token = [], rq_Page = None, rq_Payload = A_Nisd sample_nisd\<rparr>] = Ret (EncIntrm f) \<and>
     applyKV mem_store (fi_Changes f) [] = (None, s') \<and> nisd_eqv sample_nisd m \<and>
     ReadNisdConfig open_env mem_store [ArgCbArgs \<lparr>cb_AppData = Inl [], cb_ReplySize = 0\<rparr>,
       ArgCPReq \<lparr>rq_Token = [], rq_Page = None, rq_Payload = A_GetReq \<lparr>g_ID = ''n1'', g_GetAll = False, g_Fields = []\<rparr>\<rparr>] s'
       = EncodeResponse (A_Nisd m)"
proof -
  have "nisd_acceptable open_env sample_nisd"
    by (simp add: nisd_acceptable_def nisd_storable_def sample_nisd_def Nisd_Validate_def numeral_3_eq_3 word_sless_alt)
  from WPNisdCfg_then_ReadNisdConfig[OF mem_store_exact this _ open_env_rbac _ open_env_rbac,
      of "\<lparr>rq_Token = [], rq_Page = None, rq_Payload = A_Nisd sample_nisd\<rparr>"
      "\<lparr>rq_Token = [], rq_Page = None, rq_Payload = A_GetReq \<lparr>g_ID = ''n1'', g_GetAll = False, g_Fields = []\<rparr>\<rparr>"
      "[]" "\<lparr>cb_AppData = Inl [], cb_ReplySize = 0\<rparr>"]
  have "\<exists>f s' m. WPNisdCfg open_env [ArgCPReq \<lparr>rq_Token = [], rq_Page = None, rq_Payload = A_Nisd sample_nisd\<rparr>] = Ret (EncIntrm f) \<and>
     applyKV mem_store (fi_Changes f) [] = (None, s') \<and> nisd_eqv sample_nisd m \<and>
     ReadNisdConfig open_env mem_store [ArgCbArgs \<lparr>cb_AppData = Inl [], cb_ReplySize = 0\<rparr>,
       ArgCPReq \<lparr>rq_Token = [], rq_Page = None, rq_Payload = A_GetReq \<lparr>g_ID = ''n1'', g_GetAll = False, g_Fields = []\<rparr>\<rparr>] s'
       = EncodeResponse (A_Nisd m) \<and>
     (\<forall>k. \<not> has_prefix (getConfKey NisdCfgKey (n_ID sample_nisd)) k \<longrightarrow> map_of s' k = map_of [] k)"
    by (simp add: sample_nisd_def)
  then show ?thesis by blast
qed

theorem WPRackCfg_then_ReadRackCfg_witness:
  "\<exists>f s'. WPRackCfg sample_env [ArgCPReq \<lparr>rq_Token = ''tok'', rq_Page = None, rq_Payload = A_Rack sample_rack\<rparr>] = Ret (EncIntrm f) \<and>
     applyKV mem_store (fi_Changes f) [] = (None, s') \<and>
     ReadRackCfg sample_env mem_store [ArgCbArgs \<lparr>cb_AppData = Inl [], cb_ReplySize = 0\<rparr>,
       ArgCPReq \<lparr>rq_Token = ''tok'', rq_Page = None, rq_Payload = A_GetReq \<lparr>g_ID = ''r1'', g_GetAll = False, g_Fields = []\<rparr>\<rparr>] s'
       = EncodeResponse (A_Racks [sample_rack])"
proof -
  let ?tc = "\<lparr>tc_UserID = ''u1'', tc_Role = ''admin'', tc_IsAdmin = True\<rparr>"
  have p: "validateAndAuthorizeRBAC sample_env ''tok'' fn = Ret ?tc" if "fn \<in> {F_WPRackCfg, F_ReadRackCfg}" for fn
    using that by (auto simp: validateAndAuthorizeRBAC_def ValidateToken_def VerifyToken_def claims_identity_def
        sample_env_def sample_signed_def sample_claims_def CheckRBAC_def getPolicy_def)
  have r: "r_ID sample_rack = ''r1''" "sample_rack\<lparr>r_Hypervisors := []\<rparr> = sample_rack"
    by (simp_all add: sample_rack_def)
  from WPRackCfg_then_ReadRackCfg[OF mem_store_exact, of sample_rack
      "\<lparr>rq_Token = ''tok'', rq_Page = None, rq_Payload = A_Rack sample_rack\<rparr>" sample_env ?tc
      "\<lparr>rq_Token = ''tok'', rq_Page = None, rq_Payload = A_GetReq \<lparr>g_ID = ''r1'', g_GetAll = False, g_Fields = []\<rparr>\<rparr>" ?tc
      "[]" "\<lparr>cb_AppData = Inl [], cb_ReplySize = 0\<rparr>"] p r
  show ?thesis by (simp add: r) blast
qed

end
