(* ===== verification/PmdbServerSpec.thy ===== *)
theory PmdbServerSpec
  imports PmdbServer EntitySpec HierarchyInv UserSpec
begin

section \<open>What the server process guarantees\<close>

text \<open>
  The hierarchy that a starting server builds holds every stored NISD; in every reachable state of a
  replica, a proposal in the log that changes anything comes from a caller that passed the role check of
  its handler; and two creations of a user that are prepared before either is applied both succeed.
\<close>

subsection \<open>The hierarchy at the start\<close>

text \<open>The invariant depends on the memory only where a tree points.\<close>

lemma dev_ok_cong:
  assumes "\<forall>a \<in> set (da_Nisds dn). mem' a = mem a"
  shows "dev_ok mem' dn = dev_ok mem dn"
proof -
  have m: "map (\<lambda>a. n_AvailableSize (mem' a)) (da_Nisds dn) = map (\<lambda>a. n_AvailableSize (mem a)) (da_Nisds dn)"
    "nisd_ids mem' (da_Nisds dn) = nisd_ids mem (da_Nisds dn)"
    using assms by (simp_all add: nisd_ids_def)
  show ?thesis unfolding dev_ok_def m ..
qed

lemma hier_ok_mem:
  assumes "hier_ok EO DO hs" and "\<forall>(i, e, d, a) \<in> habs EO DO hs. mem' a = hs_Mem hs a"
  shows "hier_ok EO DO (hs\<lparr>hs_Mem := mem'\<rparr>)" "habs EO DO (hs\<lparr>hs_Mem := mem'\<rparr>) = habs EO DO hs"
proof -
  have "ent_ok DO mem' i eid e"
    if i: "i < FD_MAX" and e: "bt_get EO (fd_Tree (hs_FD hs ! i)) eid = Some e" for i eid e
  proof -
    have ok: "ent_ok DO (hs_Mem hs) i eid e" using assms(1) i e by (simp add: hier_ok_def tree_ok_def)
    have same: "mem' a = hs_Mem hs a" if "bt_get DO (en_Devices e) did = Some dn" "a \<in> set (da_Nisds dn)" for did dn a
      using assms(2) i e that by (force simp: habs_def tabs_def)
    have "da_ID dn = did \<and> dev_ok mem' dn \<and> da_Nisds dn \<noteq> [] \<and>
        (\<forall>a \<in> set (da_Nisds dn). n_FailureDomain (mem' a) ! i = eid \<and> n_FailureDomain (mem' a) ! DEVICE_IDX = did)"
      if dn: "bt_get DO (en_Devices e) did = Some dn" for did dn
      using ok dn dev_ok_cong[of dn mem' "hs_Mem hs"] same[OF dn] by (auto simp: ent_ok_def)
    with ok show ?thesis by (auto simp: ent_ok_def)
  qed
  with assms(1) show "hier_ok EO DO (hs\<lparr>hs_Mem := mem'\<rparr>)" by (simp add: hier_ok_def tree_ok_def)
  show "habs EO DO (hs\<lparr>hs_Mem := mem'\<rparr>) = habs EO DO hs" by (simp add: habs_def)
qed

text \<open>The placements of NISDs that lie in memory one after the other.\<close>

definition placed_at :: "addr \<Rightarrow> nisd \<Rightarrow> (nat \<times> string \<times> string \<times> addr) set" where
  "placed_at a n = {(i, n_FailureDomain n ! i, n_FailureDomain n ! DEVICE_IDX, a) | i. i < FD_MAX}"

definition placements :: "addr \<Rightarrow> nisd list \<Rightarrow> (nat \<times> string \<times> string \<times> addr) set" where
  "placements base ns = (\<Union>j<length ns. placed_at (base + j) (ns ! j))"

lemma placements_Cons: "placements base (n # ns) = placed_at base n \<union> placements (base + 1) ns"
  by (simp add: placements_def lessThan_Suc_eq_insert_0 del: lessThan_Suc)

lemma add_nisds_ok:
  assumes EO: "btree_ok EO" and DO: "btree_ok DO" and ok: "hier_ok EO DO hs"
    and old: "\<forall>(i, e, d, a) \<in> habs EO DO hs. a < base \<and> n_ID (hs_Mem hs a) \<notin> n_ID ` set ns"
    and ns: "distinct (map n_ID ns)" "\<forall>n \<in> set ns. length (n_FailureDomain n) = FD_MAX"
  shows "\<exists>hs'. add_nisds EO DO base ns hs = (None, hs') \<and> hier_ok EO DO hs' \<and>
     habs EO DO hs' = habs EO DO hs \<union> placements base ns \<and>
     (\<forall>j < length ns. hs_Mem hs' (base + j) = ns ! j) \<and> (\<forall>a < base. hs_Mem hs' a = hs_Mem hs a)"
  using ok old ns
proof (induction ns arbitrary: base hs)
  case Nil
  then show ?case by (simp add: placements_def)
next
  case (Cons n ns)
  let ?hs = "hs\<lparr>hs_Mem := (hs_Mem hs)(base := n)\<rparr>"
  have "\<forall>(i, e, d, a) \<in> habs EO DO hs. ((hs_Mem hs)(base := n)) a = hs_Mem hs a" using Cons.prems(2) by fastforce
  note cong = hier_ok_mem[OF Cons.prems(1) this]
  obtain err hs1 where add: "AddNisd EO DO base ?hs = (err, hs1)" by fastforce
  have len: "length (n_FailureDomain (hs_Mem ?hs base)) = FD_MAX" using Cons.prems(4) by simp
  note add_ok = AddNisd_ok[OF EO DO cong(1), of base, unfolded add prod.case]
  have err: "err = None"
  proof (cases err)
    case (Some m)
    with add_ok len show ?thesis by simp
  qed
  have one: "hier_ok EO DO hs1" "hs_Mem hs1 = (hs_Mem hs)(base := n)"
    "habs EO DO hs1 = placed_at base n \<union> habs EO DO hs"
  proof -
    from add_ok[unfolded err option.case Let_def cong(2)]
    have a: "hier_ok EO DO hs1" "hs_Mem hs1 = (hs_Mem hs)(base := n)"
      "habs EO DO hs1 = placed_at base n \<union>
         {(i, e, d, a) \<in> habs EO DO hs. \<not> (e = n_FailureDomain n ! i \<and> d = n_FailureDomain n ! DEVICE_IDX \<and>
            n_ID (((hs_Mem hs)(base := n)) a) = n_ID n)}"
      by (simp_all add: placed_at_def)
    have "{(i, e, d, a) \<in> habs EO DO hs. \<not> (e = n_FailureDomain n ! i \<and> d = n_FailureDomain n ! DEVICE_IDX \<and>
            n_ID (((hs_Mem hs)(base := n)) a) = n_ID n)} = habs EO DO hs"
      using Cons.prems(2) by fastforce
    with a show "hier_ok EO DO hs1" "hs_Mem hs1 = (hs_Mem hs)(base := n)"
      "habs EO DO hs1 = placed_at base n \<union> habs EO DO hs"
      by simp_all
  qed
  have "\<forall>(i, e, d, a) \<in> habs EO DO hs1. a < base + 1 \<and> n_ID (hs_Mem hs1 a) \<notin> n_ID ` set ns"
  proof (rule ballI)
    fix p assume p: "p \<in> habs EO DO hs1"
    obtain i e d a where q: "p = (i, e, d, a)" by (cases p)
    from p consider "a = base" | "(i, e, d, a) \<in> habs EO DO hs" unfolding one q by (auto simp: placed_at_def)
    then have "a < base + 1 \<and> n_ID (hs_Mem hs1 a) \<notin> n_ID ` set ns"
    proof cases
      case 1
      then show ?thesis using Cons.prems(3) by (simp add: one(2))
    next
      case 2
      with Cons.prems(2) have "a < base \<and> n_ID (hs_Mem hs a) \<notin> n_ID ` set (n # ns)" by fastforce
      then show ?thesis by (simp add: one(2))
    qed
    then show "case p of (i, e, d, a) \<Rightarrow> a < base + 1 \<and> n_ID (hs_Mem hs1 a) \<notin> n_ID ` set ns" by (simp add: q)
  qed
  from Cons.IH[OF one(1) this] Cons.prems(3,4) obtain hs' where hs':
    "add_nisds EO DO (base + 1) ns hs1 = (None, hs')" "hier_ok EO DO hs'"
    "habs EO DO hs' = habs EO DO hs1 \<union> placements (base + 1) ns"
    "\<forall>j < length ns. hs_Mem hs' (base + 1 + j) = ns ! j" "\<forall>a < base + 1. hs_Mem hs' a = hs_Mem hs1 a" by auto
  have "\<forall>j < length (n # ns). hs_Mem hs' (base + j) = (n # ns) ! j"
  proof (intro allI impI)
    fix j assume j: "j < length (n # ns)"
    show "hs_Mem hs' (base + j) = (n # ns) ! j"
    proof (cases j)
      case 0
      then show ?thesis using hs'(5)[rule_format, of base] by (simp add: one(2))
    next
      case (Suc k)
      then show ?thesis using hs'(4) j by simp
    qed
  qed
  moreover have "habs EO DO hs' = habs EO DO hs \<union> placements base (n # ns)"
    unfolding hs'(3) one(3) placements_Cons by blast
  moreover have "add_nisds EO DO base (n # ns) hs = (None, hs')" using add err hs'(1) by simp
  moreover have "\<forall>a < base. hs_Mem hs' a = hs_Mem hs a" using hs'(5) one(2) by simp
  ultimately show ?case using hs'(2) by blast
qed

text \<open>The keys of NISDs in the store are those of a list of NISDs.\<close>

definition stored_nisds :: "(string \<rightharpoonup> string) \<Rightarrow> nisd list \<Rightarrow> bool" where
  "stored_nisds c ns \<longleftrightarrow>
     ns \<noteq> [] \<and> (\<forall>n \<in> set ns. nisd_storable n) \<and> distinct (map n_ID ns) \<and>
     (\<forall>k. has_prefix NisdCfgKey k \<longrightarrow> c k = map_of (concat (map nisd_entries ns)) k)"

lemma nisd_entries_prefix: "kv \<in> set (nisd_entries n) \<Longrightarrow> has_prefix NisdCfgKey (fst kv)"
  by (auto simp: nisd_entries_def nisd_key_def getConfKey_def has_prefix_def)

lemma stored_nisds_read:
  assumes "store_exact ds cont" and "stored_nisds (cont s) ns" and "ra_Prefix a = NisdCfgKey"
  shows "\<exists>r. ds_RangeRead ds s a = Inr r \<and> rr_LastKey r = [] \<and>
     mset (rr_ResultMap r) = mset (concat (map nisd_entries ns))"
proof -
  let ?all = "concat (map nisd_entries ns)"
  from assms(2) have ns: "ns \<noteq> []" "\<forall>n \<in> set ns. nisd_storable n" "distinct (map n_ID ns)"
    and c: "has_prefix NisdCfgKey k \<Longrightarrow> cont s k = map_of ?all k" for k by (auto simp: stored_nisds_def)
  have dist: "distinct (map fst ?all)"
    using nisd_entries_distinct_all[OF ns(2,3)] by (auto simp: distinct_map inj_on_def)
  obtain n0 where n0: "n0 \<in> set ns" using ns(1) by (cases ns) auto
  then obtain kv0 where kv0: "kv0 \<in> set (nisd_entries n0)"
    using nisd_parse_written[of n0] ns(2) by (cases "nisd_entries n0") (auto simp: ParseEntities_def)
  have "(fst kv0, snd kv0) \<in> set ?all" using n0 kv0 by auto
  then have "map_of ?all (fst kv0) = Some (snd kv0)" using dist by simp
  then have "\<exists>k. cont s k \<noteq> None \<and> has_prefix (ra_Prefix a) k"
    using c[OF nisd_entries_prefix[OF kv0]] nisd_entries_prefix[OF kv0] assms(3) by auto
  from exact_range_cases[OF assms(1), of s a, unfolded if_P[OF this]] obtain r where
    r: "ds_RangeRead ds s a = Inr r" "rr_LastKey r = []"
    "map_of (rr_ResultMap r) = (\<lambda>k. if has_prefix NisdCfgKey k then cont s k else None)" unfolding assms(3) by blast
  have d: "distinct (map fst (rr_ResultMap r))" using sound_range[OF exact_sound[OF assms(1)] r(1)] by blast
  have "map_of (rr_ResultMap r) = map_of ?all"
  proof
    fix k
    have "map_of ?all k = None" if "\<not> has_prefix NisdCfgKey k"
      using that nisd_entries_prefix by (fastforce simp: map_of_eq_None_iff)
    then show "map_of (rr_ResultMap r) k = map_of ?all k" using c[of k] by (simp add: r(3))
  qed
  then have "set (rr_ResultMap r) = set ?all" using d dist by (metis map_of_inject_set)
  then have "mset (rr_ResultMap r) = mset ?all"
    using d dist by (simp add: set_eq_iff_mset_eq_distinct[symmetric] distinct_map)
  with r show ?thesis by blast
qed

lemma nisd_eqv_sel:
  "nisd_eqv n m \<Longrightarrow> n_ID m = n_ID n \<and> n_FailureDomain m = n_FailureDomain n \<and>
     n_AvailableSize m = n_AvailableSize n \<and> n_TotalSize m = n_TotalSize n"
  by (auto simp: nisd_eqv_alt)



subsection \<open>Who can put changes into the log\<close>

text \<open>
  The contract of a guarded write preparation: a result with changes means that the token of the request
  passed the role check for the function.
\<close>

locale guarded_prep =
  fixes prep :: "arg list \<Rightarrow> encoded go" and env :: env and fn :: function_name
  assumes guarded: "prep (ArgCPReq rq # rest) = Ret (EncIntrm f) \<Longrightarrow> fi_Changes f \<noteq> [] \<Longrightarrow>
      \<exists>tc. validateAndAuthorizeRBAC env (rq_Token rq) fn = Ret tc"
begin

text \<open>A request that fails the check has no effect, whatever handler applies the result through \<open>applyKV\<close>.\<close>

lemma denied_no_effect:
  assumes "\<forall>tc. validateAndAuthorizeRBAC env (rq_Token rq) fn \<noteq> Ret tc"
    and "prep (ArgCPReq rq # rest) = Ret (EncIntrm f)"
  shows "snd (applyKV ds (fi_Changes f) s) = s"
  using assms guarded[OF assms(2)] by (cases "fi_Changes f") auto

end

lemma with_rbac_changes:
  assumes "with_rbac env tok fn WPAuthError g = Ret (EncIntrm f)" "fi_Changes f \<noteq> []"
  shows "\<exists>tc. validateAndAuthorizeRBAC env tok fn = Ret tc"
  using assms by (auto simp: with_rbac_def WPAuthError_def WPError_def split: go.splits)

lemma wp_guarded:
  assumes "\<And>rq x. h (ArgCPReq rq # rest) = wp_args as (ArgCPReq rq # rest) (\<lambda>rq x. with_rbac env (rq_Token rq) fn WPAuthError (g rq x))"
    and "h (ArgCPReq rq # rest) = Ret (EncIntrm f)" "fi_Changes f \<noteq> []"
  shows "\<exists>tc. validateAndAuthorizeRBAC env (rq_Token rq) fn = Ret tc"
proof -
  have "go_bind (must (as (rq_Payload rq))) (\<lambda>x. with_rbac env (rq_Token rq) fn WPAuthError (g rq x)) = Ret (EncIntrm f)"
    using assms(2) unfolding assms(1)[of rq] wp_ok .
  then obtain x where "with_rbac env (rq_Token rq) fn WPAuthError (g rq x) = Ret (EncIntrm f)"
    unfolding go_bind_Ret_iff by blast
  from with_rbac_changes[OF this assms(3)] show ?thesis .
qed

interpretation device_prep: guarded_prep "WPDeviceInfo env" env F_WPDeviceInfo
  by unfold_locales (rule wp_guarded[where h = "WPDeviceInfo env", OF WPDeviceInfo_def], assumption+)

interpretation pdu_prep: guarded_prep "WPPDUCfg env" env F_WPPDUCfg
  by unfold_locales (rule wp_guarded[where h = "WPPDUCfg env", OF WPPDUCfg_def], assumption+)

interpretation pfs_prep: guarded_prep "WPPFSCfg env new_uuid n" env F_WPPFSCfg
  by unfold_locales (rule wp_guarded[where h = "WPPFSCfg env new_uuid n", OF WPPFSCfg_def], assumption+)

interpretation rack_prep: guarded_prep "WPRackCfg env" env F_WPRackCfg
  by unfold_locales (rule wp_guarded[where h = "WPRackCfg env", OF WPRackCfg_def], assumption+)

interpretation hv_prep: guarded_prep "WPHyperVisorCfg env" env F_WPHyperVisorCfg
  by unfold_locales (rule wp_guarded[where h = "WPHyperVisorCfg env", OF WPHyperVisorCfg_def], assumption+)

interpretation partition_prep: guarded_prep "WPCreatePartition env" env F_WPCreatePartition
  by unfold_locales (rule wp_guarded[where h = "WPCreatePartition env", OF WPCreatePartition_def], assumption+)

interpretation nisd_args_prep: guarded_prep "WPNisdArgs env" env F_WPNisdArgs
  by unfold_locales (rule wp_guarded[where h = "WPNisdArgs env", OF WPNisdArgs_def], assumption+)

interpretation nisd_prep: guarded_prep "WPNisdCfg env" env F_WPNisdCfg
proof unfold_locales
  fix rq rest f
  assume a: "WPNisdCfg env (ArgCPReq rq # rest) = Ret (EncIntrm f)" "fi_Changes f \<noteq> []"
  then obtain n where "with_rbac env (rq_Token rq) F_WPNisdCfg WPAuthError (\<lambda>tc.
           go_bind (PopulateEntities n nisdPopulator NisdCfgKey) (wp_done (named_ok (n_ID n)))) = Ret (EncIntrm f)"
    by (auto simp: WPNisdCfg_def wp_ok go_bind_Ret_iff WPFuncError_def WPError_def split: option.splits)
  from with_rbac_changes[OF this a(2)] show "\<exists>tc. validateAndAuthorizeRBAC env (rq_Token rq) F_WPNisdCfg = Ret tc" .
qed

interpretation vdev_prep: guarded_prep "WPCreateVdev env new_uuid" env F_WPCreateVdev
proof unfold_locales
  fix rq rest f
  assume a: "WPCreateVdev env new_uuid (ArgCPReq rq # rest) = Ret (EncIntrm f)" "fi_Changes f \<noteq> []"
  then show "\<exists>tc. validateAndAuthorizeRBAC env (rq_Token rq) F_WPCreateVdev = Ret tc"
    by (cases "rq_Payload rq"; cases "validateAndAuthorizeRBAC env (rq_Token rq) F_WPCreateVdev")
      (auto simp: WPCreateVdev_def arg_simps WPFuncError_def WPAuthError_def WPError_def)
qed

lemma putuser_allowed:
  assumes "ValidateToken env tok = Ret tc" "putuser_denied env tc req = None"
  shows "validateAndAuthorizeRBAC env tok F_PutUser = Ret tc"
  using assms by (auto simp: validateAndAuthorizeRBAC_def putuser_denied_def split: option.splits if_splits)

interpretation user_prep: guarded_prep "\<lambda>args. PutUser env es new_uuid rand_key nonce ds args s" env F_PutUser
proof unfold_locales
  fix rq rest f
  assume a: "PutUser env es new_uuid rand_key nonce ds (ArgCPReq rq # rest) s = Ret (EncIntrm f)" "fi_Changes f \<noteq> []"
  then obtain req where pl: "rq_Payload rq = A_UserReq req"
    by (cases "rq_Payload rq") (simp_all add: PutUser_def arg_simps)
  have rq: "the_CPReq (ArgCPReq rq # rest) 0 = Ret rq" by (simp add: arg_simps)
  obtain cb where cb: "the_CbArgs (ArgCPReq rq # rest) 1 = Ret cb"
    using a(1) by (cases "the_CbArgs (ArgCPReq rq # rest) 1") (simp_all add: PutUser_def rq pl del: One_nat_def)
  obtain tc where tc: "ValidateToken env (rq_Token rq) = Ret tc"
    using a by (cases "ValidateToken env (rq_Token rq)")
      (auto simp: PutUser_def rq pl cb returnError_def simp del: One_nat_def)
  have "putuser_denied env tc req = None"
    using a by (cases "putuser_denied env tc req")
      (auto simp: PutUser_def rq pl cb tc returnError_def simp del: One_nat_def)
  from putuser_allowed[OF tc this] show "\<exists>tc. validateAndAuthorizeRBAC env (rq_Token rq) F_PutUser = Ret tc" by blast
qed

definition prep_guards :: "(string \<times> function_name) list" where
  "prep_guards =
     [(PUT_NISD, F_WPNisdCfg), (PUT_DEVICE, F_WPDeviceInfo), (PUT_PDU, F_WPPDUCfg), (PUT_PFS, F_WPPFSCfg),
      (PUT_RACK, F_WPRackCfg), (PUT_HYPERVISOR, F_WPHyperVisorCfg), (PUT_PARTITION, F_WPCreatePartition),
      (PUT_NISD_ARGS, F_WPNisdArgs), (PutUserAPI, F_PutUser), (CREATE_VDEV, F_WPCreateVdev)]"

text \<open>The checks that stand between a request and the state: three requests are checked again when applied.\<close>

definition request_guards :: "(string \<times> function_name) list" where
  "request_guards = [(PUT_NISD, F_ApplyNisd), (DELETE_VDEV, F_APDeleteVdev), (MOUNT_VDEV, F_APMountVdev)] @ prep_guards"

definition passes :: "env \<Rightarrow> string \<Rightarrow> function_name option \<Rightarrow> bool" where
  "passes env tok g \<longleftrightarrow> (\<exists>fn tc. g = Some fn \<and> validateAndAuthorizeRBAC env tok fn = Ret tc)"

text \<open>What is true of every proposal in a log.\<close>

definition proposal_ok :: "('te, 'td, 'tm, 's) server_cfg \<Rightarrow> proposal \<Rightarrow> bool" where
  "proposal_ok c p \<longleftrightarrow>
     (case p of
        (name, rq, Inl e) \<Rightarrow> map_of (write_prep_funcs c) name = None
      | (name, rq, Inr f) \<Rightarrow>
          passes (sv_env c) (rq_Token rq) (map_of prep_guards name) \<or>
          fi_Changes f = [] \<and> (name = CREATE_VDEV \<longrightarrow> (\<exists>e pg pl. fi_Response f = A_CPResp (CPResp (Some e) pg pl))))"

lemma WPCreateVdev_proposal:
  assumes "WPCreateVdev env new_uuid (ArgCPReq rq # rest) = Ret (EncIntrm f)"
  shows "(\<exists>tc. validateAndAuthorizeRBAC env (rq_Token rq) F_WPCreateVdev = Ret tc) \<or>
     fi_Changes f = [] \<and> (\<exists>e pg pl. fi_Response f = A_CPResp (CPResp (Some e) pg pl))"
  using assms
  by (cases "rq_Payload rq"; cases "validateAndAuthorizeRBAC env (rq_Token rq) F_WPCreateVdev")
    (auto simp: WPCreateVdev_def arg_simps WPFuncError_def WPAuthError_def WPError_def)

lemma no_snap_proposal: "WritePrepCreateSnap args \<noteq> Ret x"
  by (auto simp: WritePrepCreateSnap_def arg_simps go_bind_Ret_iff Let_def elim!: as_SnapXML.elims as_Bytes.elims must.elims)

lemma WPMountVdev_no_changes: "WPMountVdev env now args = Ret (EncIntrm f) \<Longrightarrow> fi_Changes f = []"
proof -
  assume w: "WPMountVdev env now args = Ret (EncIntrm f)"
  then obtain a rq where a: "arg_at args 0 = Ret a" "as_CPReq a = Some rq"
    by (cases "arg_at args 0"; cases "as_CPReq (args ! 0)") (auto simp: WPMountVdev_def arg_at_def split: if_splits)
  from w show ?thesis
    by (cases "ValidateToken env (rq_Token rq)")
      (auto simp: WPMountVdev_def a WPAuthError_def WPError_def simp del: split_paired_Ex split: if_split_asm)
qed

lemma prepared_ok:
  assumes h: "map_of (write_prep_funcs c) name = Some h"
    and f: "h i [ArgCPReq rq, cb] s = Ret (EncIntrm f)"
  shows "proposal_ok c (name, rq, Inr f)"
proof -
  have g: "proposal_ok c (name, rq, Inr f)"
    if "map_of prep_guards name = Some fn" "name \<noteq> CREATE_VDEV"
      "fi_Changes f \<noteq> [] \<Longrightarrow> \<exists>tc. validateAndAuthorizeRBAC (sv_env c) (rq_Token rq) fn = Ret tc" for fn
    using that unfolding proposal_ok_def passes_def prod.case sum.case by blast
  from map_of_SomeD[OF h] consider
      "name = PUT_NISD" "WPNisdCfg (sv_env c) [ArgCPReq rq, cb] = Ret (EncIntrm f)"
    | "name = PUT_DEVICE" "WPDeviceInfo (sv_env c) [ArgCPReq rq, cb] = Ret (EncIntrm f)"
    | "name = PUT_PDU" "WPPDUCfg (sv_env c) [ArgCPReq rq, cb] = Ret (EncIntrm f)"
    | "name = PUT_PFS" "WPPFSCfg (sv_env c) (in_uuid i) (in_n i) [ArgCPReq rq, cb] = Ret (EncIntrm f)"
    | "name = PUT_RACK" "WPRackCfg (sv_env c) [ArgCPReq rq, cb] = Ret (EncIntrm f)"
    | "name = PUT_HYPERVISOR" "WPHyperVisorCfg (sv_env c) [ArgCPReq rq, cb] = Ret (EncIntrm f)"
    | "WritePrepCreateSnap [ArgCPReq rq, cb] = Ret (EncIntrm f)"
    | "name = PUT_PARTITION" "WPCreatePartition (sv_env c) [ArgCPReq rq, cb] = Ret (EncIntrm f)"
    | "name = PUT_NISD_ARGS" "WPNisdArgs (sv_env c) [ArgCPReq rq, cb] = Ret (EncIntrm f)"
    | "name = PutUserAPI" "PutUser (sv_env c) (sv_enc c) (in_uuid i) (in_rand_key i) (in_nonce i) (sv_ds c) [ArgCPReq rq, cb] s
        = Ret (EncIntrm f)"
    | "name = CREATE_VDEV" "WPCreateVdev (sv_env c) (in_uuid i) [ArgCPReq rq, cb] = Ret (EncIntrm f)"
    | "name = MOUNT_VDEV" "WPMountVdev (sv_env c) (in_now i) [ArgCPReq rq, cb] = Ret (EncIntrm f)"
    using f unfolding write_prep_funcs_def list.set insert_iff empty_iff prod.inject by (elim disjE conjE) simp_all
  then show ?thesis
  proof cases
    case 1 show ?thesis by (rule g[of F_WPNisdCfg]) (use 1 nisd_prep.guarded in \<open>simp_all add: prep_guards_def\<close>) next
    case 2 show ?thesis by (rule g[of F_WPDeviceInfo]) (use 2 device_prep.guarded in \<open>simp_all add: prep_guards_def\<close>) next
    case 3 show ?thesis by (rule g[of F_WPPDUCfg]) (use 3 pdu_prep.guarded in \<open>simp_all add: prep_guards_def\<close>) next
    case 4 show ?thesis by (rule g[of F_WPPFSCfg]) (use 4 pfs_prep.guarded in \<open>simp_all add: prep_guards_def\<close>) next
    case 5 show ?thesis by (rule g[of F_WPRackCfg]) (use 5 rack_prep.guarded in \<open>simp_all add: prep_guards_def\<close>) next
    case 6 show ?thesis by (rule g[of F_WPHyperVisorCfg]) (use 6 hv_prep.guarded in \<open>simp_all add: prep_guards_def\<close>) next
    case 7 then show ?thesis using no_snap_proposal by blast next
    case 8 show ?thesis by (rule g[of F_WPCreatePartition]) (use 8 partition_prep.guarded in \<open>simp_all add: prep_guards_def\<close>) next
    case 9 show ?thesis by (rule g[of F_WPNisdArgs]) (use 9 nisd_args_prep.guarded in \<open>simp_all add: prep_guards_def\<close>) next
    case 10 show ?thesis by (rule g[of F_PutUser]) (use 10 user_prep.guarded in \<open>simp_all add: prep_guards_def\<close>) next
    case 11 then show ?thesis using WPCreateVdev_proposal[OF 11(2)]
      unfolding proposal_ok_def passes_def by (simp add: prep_guards_def) next
    case 12 then show ?thesis using WPMountVdev_no_changes[OF 12(2)] by (simp add: proposal_ok_def)
  qed
qed

inductive_cases server_stepE: "server_step c st st'"

lemma step_log_ok:
  assumes "server_step c st st'" and "\<forall>p \<in> set (sr_log st). proposal_ok c p"
  shows "\<forall>p \<in> set (sr_log st'). proposal_ok c p"
  using assms(1)
proof cases
  case (prepare name h i rq e bufsz f)
  with assms(2) prepared_ok show ?thesis by auto
next
  case (submit name rq e)
  with assms(2) show ?thesis by (simp add: proposal_ok_def)
next
  case (apply_next p log i bufsz r s' hs')
  with assms(2) show ?thesis by simp
qed

lemma reachable_log_ok:
  assumes "(server_step c)\<^sup>*\<^sup>* st0 st" and "sr_log st0 = []"
  shows "\<forall>p \<in> set (sr_log st). proposal_ok c p"
  using assms by (induction rule: rtranclp_induct) (auto dest: step_log_ok)

subsection \<open>Who can change the state\<close>

lemma APDeleteVdev_guarded:
  assumes "APDeleteVdev EO DO env ds [ArgCPReq rq, ArgCbArgs cb] st = Some (r, st')" "st' \<noteq> st"
  shows "\<exists>tc. validateAndAuthorizeRBAC env (rq_Token rq) F_APDeleteVdev = Ret tc"
proof -
  have "the_CbArgs [ArgCPReq rq, ArgCbArgs cb] 1 = Ret cb" by (simp add: arg_simps)
  with assms show ?thesis
    by (cases "rq_Payload rq"; cases "validateAndAuthorizeRBAC env (rq_Token rq) F_APDeleteVdev")
      (auto simp: APDeleteVdev_def simp del: One_nat_def split: option.split_asm)
qed

lemma ApplyNisd_guarded:
  assumes "ApplyNisd EO DO env ds a [ArgCPReq rq, ArgCbArgs cb] st = (r, st')" "st' \<noteq> st"
  shows "\<exists>tc. validateAndAuthorizeRBAC env (rq_Token rq) F_ApplyNisd = Ret tc"
  using assms
  by (cases "as_Nisd (rq_Payload rq)"; cases "validateAndAuthorizeRBAC env (rq_Token rq) F_ApplyNisd")
    (auto simp: ApplyNisd_def)

lemma authorized_passes:
  "ValidateToken env tok = Ret tc \<Longrightarrow> authorized env fn tc attrs rd \<Longrightarrow> validateAndAuthorizeRBAC env tok fn = Ret tc"
  by (auto simp: authorized_def Authorize_def validateAndAuthorizeRBAC_def split: option.splits)

lemma APMountVdev_guarded:
  assumes "APMountVdev env gob clock ds [ArgCPReq rq, ArgCbArgs cb] s = (r, s')" "s' \<noteq> s"
  shows "\<exists>tc. validateAndAuthorizeRBAC env (rq_Token rq) F_APMountVdev = Ret tc"
proof -
  from assms obtain vd where pl: "rq_Payload rq = A_MountVdevRequest vd"
    by (cases "rq_Payload rq") (simp_all add: APMountVdev_def)
  from assms obtain tc where tc: "ValidateToken env (rq_Token rq) = Ret tc"
    by (cases "ValidateToken env (rq_Token rq)") (simp_all add: APMountVdev_def pl)
  from assms obtain vid where vid: "resolve_vdev_name env ds s cb vd = Inr vid"
    by (cases "resolve_vdev_name env ds s cb vd") (simp_all add: APMountVdev_def pl tc)
  from assms have "authorized env F_APMountVdev tc [''vdev'' \<mapsto> vid] (ds_Read ds s)"
    by (simp add: APMountVdev_def pl tc vid split: if_split_asm)
  from authorized_passes[OF tc this] show ?thesis by blast
qed

lemma APCreateVdev_forwards_error:
  assumes "APCreateVdev EO DO MO ds rnd [ArgCPReq rq, ArgCbArgs \<lparr>cb_AppData = Inr f, cb_ReplySize = n\<rparr>] st = Some (r, st')"
    and "fi_Response f = A_CPResp (CPResp (Some e) pg pl)"
  shows "st' = st"
  using assms
  by (cases "rq_Payload rq") (auto simp: APCreateVdev_def split: option.split_asm sum.split_asm list.split_asm)

lemma ApplyFunc_no_changes:
  assumes "ApplyFunc ds [ArgCbArgs \<lparr>cb_AppData = app, cb_ReplySize = n\<rparr>] s = (r, s')"
    and "case app of Inl e \<Rightarrow> True | Inr f \<Rightarrow> fi_Changes f = []"
  shows "s' = s"
proof (cases app)
  case (Inr f)
  have "fi_Changes f = []" using assms(2) Inr by simp
  then have "applyKV ds (fi_Changes f) s = (None, s)" by simp
  with assms(1) Inr show ?thesis
    by (cases "fi_Response f") (auto simp: ApplyFunc_def arg_simps split: cp_resp.split_asm option.split_asm)
qed (use assms in \<open>simp add: ApplyFunc_def arg_simps\<close>)

lemma apply_other:
  assumes "map_of (apply_funcs c) name = None"
  shows "apply_request c i n (name, rq, app) st =
     on_store (ApplyFunc (sv_ds c) [ArgCbArgs \<lparr>cb_AppData = app, cb_ReplySize = n\<rparr>]) st"
  using assms by (simp add: apply_request_def apply_funcs_def)

lemma on_store_changes:
  "on_store g st = Some (r, st') \<Longrightarrow> st' \<noteq> st \<Longrightarrow> \<exists>s'. g (fst st) = (r, s') \<and> s' \<noteq> fst st"
  by (cases st) (auto simp: on_store_def split: prod.splits)

lemma passesI: "map_of gs name = Some fn \<Longrightarrow> \<exists>tc. validateAndAuthorizeRBAC env tok fn = Ret tc \<Longrightarrow>
    passes env tok (map_of gs name)"
  unfolding passes_def by blast

lemma apply_authorised:
  assumes ok: "proposal_ok c (name, rq, app)"
    and a: "apply_request c i n (name, rq, app) st = Some (r, st')" "st' \<noteq> st"
  shows "name = AdminUserAPI \<or> passes (sv_env c) (rq_Token rq) (map_of request_guards name)"
proof (cases "map_of (apply_funcs c) name")
  case None
  from a obtain s' where s': "ApplyFunc (sv_ds c) [ArgCbArgs \<lparr>cb_AppData = app, cb_ReplySize = n\<rparr>] (fst st) = (r, s')"
    "s' \<noteq> fst st" unfolding apply_other[OF None] by (blast dest: on_store_changes)
  have names: "name \<notin> {PUT_NISD, DELETE_VDEV, MOUNT_VDEV, CREATE_VDEV}" using None by (auto simp: apply_funcs_def)
  from ApplyFunc_no_changes[OF s'(1)] s'(2) obtain f where "app = Inr f" "fi_Changes f \<noteq> []" by (cases app) auto
  with ok have "passes (sv_env c) (rq_Token rq) (map_of prep_guards name)" by (simp add: proposal_ok_def)
  moreover have "map_of request_guards name = map_of prep_guards name" using names by (simp add: request_guards_def)
  ultimately show ?thesis by simp
next
  case (Some h)
  let ?cb = "ArgCbArgs \<lparr>cb_AppData = app, cb_ReplySize = n\<rparr>"
  have h: "h i [ArgCPReq rq, ?cb] st = Some (r, st')" using a(1) Some by (simp add: apply_request_def)
  from map_of_SomeD[OF Some] consider
      (del) "name = DELETE_VDEV" "APDeleteVdev (sv_EO c) (sv_DO c) (sv_env c) (sv_ds c) [ArgCPReq rq, ?cb] st = Some (r, st')"
    | (admin) "name = AdminUserAPI"
    | (create) "name = CREATE_VDEV"
        "APCreateVdev (sv_EO c) (sv_DO c) (sv_MO c) (sv_ds c) (in_rnd i) [ArgCPReq rq, ?cb] st = Some (r, st')"
    | (star) "on_store (ApplyFunc (sv_ds c) [ArgCPReq rq, ?cb]) st = Some (r, st')"
    | (nisd) "name = PUT_NISD" "ApplyNisd (sv_EO c) (sv_DO c) (sv_env c) (sv_ds c) (in_addr i) [ArgCPReq rq, ?cb] st = (r, st')"
    | (mount) "name = MOUNT_VDEV"
        "on_store (APMountVdev (sv_env c) (sv_gob c) (in_clock i) (sv_ds c) [ArgCPReq rq, ?cb]) st = Some (r, st')"
    using h unfolding apply_funcs_def list.set insert_iff empty_iff prod.inject by (elim disjE conjE) simp_all
  then show ?thesis
  proof cases
    case del
    show ?thesis by (rule disjI2, rule passesI[of _ _ F_APDeleteVdev])
        (use del APDeleteVdev_guarded[OF del(2) a(2)] in \<open>simp_all add: request_guards_def\<close>)
  next
    case create
    obtain f where f: "app = Inr f"
      using ok create(1) by (cases app) (simp_all add: proposal_ok_def write_prep_funcs_def)
    have "\<not> (\<exists>e pg pl. fi_Response f = A_CPResp (CPResp (Some e) pg pl))"
      using APCreateVdev_forwards_error[OF create(2)[unfolded f]] a(2) by blast
    with ok create(1) f have "passes (sv_env c) (rq_Token rq) (map_of prep_guards CREATE_VDEV)"
      by (auto simp: proposal_ok_def)
    with create(1) show ?thesis by (simp add: request_guards_def)
  next
    case star
    with a(2) show ?thesis by (auto simp: on_store_def ApplyFunc_def arg_simps)
  next
    case nisd
    show ?thesis by (rule disjI2, rule passesI[of _ _ F_ApplyNisd])
        (use nisd ApplyNisd_guarded[OF nisd(2) a(2)] in \<open>simp_all add: request_guards_def\<close>)
  next
    case mount
    from on_store_changes[OF mount(2) a(2)] obtain s' where
      "APMountVdev (sv_env c) (sv_gob c) (in_clock i) (sv_ds c) [ArgCPReq rq, ?cb] (fst st) = (r, s')" "s' \<noteq> fst st" by blast
    from APMountVdev_guarded[OF this] mount(1) show ?thesis by (intro disjI2 passesI[of _ _ F_APMountVdev]) (simp_all add: request_guards_def)
  qed simp
qed


text \<open>A run: the creation of \<open>bob\<close> is prepared, and applied.\<close>

definition sample_cfg :: "(etree, dtree, (string \<times> nisd_vdev_alloc) list, (string \<times> string) list) server_cfg" where
  "sample_cfg = \<lparr>sv_EO = alist_btree, sv_DO = alist_btree, sv_MO = alist_btree, sv_ds = mem_store, sv_env = sample_env,
     sv_enc = sample_es, sv_gob = (\<lambda>_. [])\<rparr>"

definition sample_inputs :: inputs where
  "sample_inputs = \<lparr>in_uuid = Ret ''u2'', in_rand_key = Panic, in_nonce = Ret ''n'', in_n = 0, in_rnd = (\<lambda>_. 0),
     in_now = 0, in_clock = 0, in_addr = 1\<rparr>"

definition bob_request :: cp_req where
  "bob_request = \<lparr>rq_Token = ''tok'', rq_Page = None, rq_Payload = A_UserReq bob_req\<rparr>"

lemma bob_applied:
  assumes "ApplyFunc mem_store [ArgCbArgs \<lparr>cb_AppData = Inr bob_created, cb_ReplySize = 0\<rparr>] [] = (r, s')"
  shows "s' \<noteq> []" and "r = EncodeResponse (A_UserResp (user_answer bob defaultAdminSecretKey))"
proof -
  obtain s1 where s1: "applyKV mem_store (SerializeUser bob) [] = (None, s1)"
    using applyKV_exact[OF mem_store_exact, of "SerializeUser bob" "[]"] SerializeUser_writes[of bob]
    by (cases "applyKV mem_store (SerializeUser bob) []") auto
  have "user_key ''u2'' statusField \<in> fst ` set (map entry (SerializeUser bob))"
    unfolding SerializeUser_entries by (simp add: user_entries_def User_Init_def)
  then have "map_of (map entry (SerializeUser bob)) (user_key ''u2'' statusField) \<noteq> None"
    by (simp only: map_of_eq_None_iff)  simp
  then have "map_of s1 (user_key ''u2'' statusField) \<noteq> None"
    unfolding applyKV_done[OF mem_store_sound s1] chgs_effect_entries[OF SerializeUser_keys_distinct SerializeUser_writes]
    by (auto split: option.split)
  then show "s' \<noteq> []" using assms s1 by (auto simp: ApplyFunc_def arg_simps bob_created_def)
  show "r = EncodeResponse (A_UserResp (user_answer bob defaultAdminSecretKey))"
    using assms s1 by (simp add: ApplyFunc_def arg_simps bob_created_def)
qed


subsection \<open>Two creations of one name\<close>

text \<open>
  C16: the name of a new user is checked only when the request is prepared. Two creations of the same
  name that are prepared on the same state both answer with success when they are applied, one after
  the other; from then on the name leads to the second user, and the first can no longer log in by it.
\<close>

theorem PutUser_race:
  assumes exact: "store_exact ds cont"
    and first: "PutUser env es uuid1 key1 nonce1 ds [ArgCPReq rq1, ArgCbArgs cb1] s = Ret (EncIntrm f1)"
      "rq_Payload rq1 = A_UserReq req1" "\<not> uq_IsUpdate req1" "fi_Response f1 = A_UserResp resp1" "ur_Success resp1"
    and second: "PutUser env es uuid2 key2 nonce2 ds [ArgCPReq rq2, ArgCbArgs cb2] s = Ret (EncIntrm f2)"
      "rq_Payload rq2 = A_UserReq req2" "\<not> uq_IsUpdate req2" "fi_Response f2 = A_UserResp resp2" "ur_Success resp2"
    and same: "uq_Username req1 = uq_Username req2" and id2: "ur_UserID resp2 \<noteq> []"
    and apply1: "ApplyFunc ds [ArgCbArgs \<lparr>cb_AppData = Inr f1, cb_ReplySize = n1\<rparr>] s = (r1, s1)"
    and apply2: "ApplyFunc ds [ArgCbArgs \<lparr>cb_AppData = Inr f2, cb_ReplySize = n2\<rparr>] s1 = (r2, s2)"
  shows "r1 = EncodeResponse (A_UserResp resp1) \<and> r2 = EncodeResponse (A_UserResp resp2) \<and>
     getUserIDByUsername ds s2 cb (uq_Username req1) = Ret (ur_UserID resp2)"
proof -
  let ?n = "uq_Username req1"
  from PutUser_applied[OF exact first apply1] obtain uid1 enc1 where
    one: "getUserIDByUsername ds s cb1 ?n = Ret []" "trim_space ?n \<noteq> []" "r1 = EncodeResponse (A_UserResp resp1)"
      "cont s1 = chgs_effect (SerializeUser (created_user req1 uid1 enc1)) (cont s)" by metis
  from PutUser_applied[OF exact second apply2] obtain uid2 enc2 where
    two: "ur_UserID resp2 = uid2" "r2 = EncodeResponse (A_UserResp resp2)"
      "cont s2 = chgs_effect (SerializeUser (created_user req2 uid2 enc2)) (cont s1)" by metis
  let ?u1 = "created_user req1 uid1 enc1" and ?u2 = "created_user req2 uid2 enc2"
  have u: "u_Username ?u1 = ?n" "u_Username ?u2 = ?n" "u_UserID ?u2 = uid2" using same by (simp_all add: User_Init_def)
  have n: "?n \<noteq> []" using one(2) by (auto simp: trim_space_def)
  have "v = []" if "has_prefix (username_key ?n) k" "k \<noteq> username_key ?n" "cont s1 k = Some v" for k v
  proof -
    have "cont s1 k = cont s k" using index_written[of ?u1 k "cont s"] that(1,2) n u(1) one(4) by simp
    with that(3) show ?thesis using index_free[OF exact one(1) n that(1)] by simp
  qed
  then have "getUserIDByUsername ds s2 cb ?n = Ret uid2"
    using getUserIDByUsername_written[OF exact _ _ _ two(3), of cb] n u id2 two(1) by auto
  with one(3) two(1,2) show ?thesis by simp
qed

theorem PutUser_race_witness:
  "getUserIDByUsername mem_store
     (snd (ApplyFunc mem_store [ArgCbArgs \<lparr>cb_AppData = Inr (created_as ''u3''), cb_ReplySize = 0\<rparr>]
       (snd (ApplyFunc mem_store [ArgCbArgs \<lparr>cb_AppData = Inr (created_as ''u2''), cb_ReplySize = 0\<rparr>] []))))
     sample_cb ''bob'' = Ret ''u3''"
proof -
  obtain r1 s1 where a1: "ApplyFunc mem_store [ArgCbArgs \<lparr>cb_AppData = Inr (created_as ''u2''), cb_ReplySize = 0\<rparr>] [] = (r1, s1)"
    by fastforce
  obtain r2 s2 where a2: "ApplyFunc mem_store [ArgCbArgs \<lparr>cb_AppData = Inr (created_as ''u3''), cb_ReplySize = 0\<rparr>] s1 = (r2, s2)"
    by fastforce
  have "getUserIDByUsername mem_store s2 sample_cb (uq_Username bob_req) = Ret (ur_UserID (user_answer
      (created_user bob_req ''u3'' (b64_encode (''n'' @ defaultAdminSecretKey))) defaultAdminSecretKey))"
    by (rule conjunct2[OF conjunct2[OF PutUser_race[OF mem_store_exact PutUser_bob _ _ _ _ PutUser_bob _ _ _ _ refl _ a1 a2]]])
      (simp_all add: created_as_def user_answer_def User_Init_def, simp_all add: bob_req_def)
  then show ?thesis by (simp add: a1 a2 user_answer_def User_Init_def bob_req_def)
qed

end
