(* ===== verification/RestUser.thy ===== *)
theory RestUser
  imports RestServer
begin

section \<open>Users over REST\<close>

text \<open>
  A user followed from \<open>POST /api/users\<close> to \<open>POST /users/login\<close>, through the proxy, the preparation, the
  log and the store; and the user names that can be created but never log in.
\<close>

subsection \<open>The two handlers\<close>

abbreviation (input) create_payload :: "create_user_request \<Rightarrow> user_req" where
  "create_payload req \<equiv> \<lparr>uq_Username = trim_space (cu_username req), uq_UserID = [], uq_NewSecretKey = [],
     uq_IsUpdate = False, uq_IsAdmin = (cu_role req = AdminUserRole)\<rparr>"

text \<open>An answer with a user comes from a call that PMDB answered with success.\<close>

lemma after_call_data:
  assumes "after_call werr res k = (resp, s')" and "rw_body resp = DataBody p" and "\<And>e c. rw_body (werr e c) \<noteq> DataBody p"
  obtains c v s1 where "res = ((c, None, v), s1)" "cpErrOf c = None" "k v s1 = (resp, s')"
proof -
  obtain c err v s1 where r: "res = ((c, err, v), s1)" by (metis prod_cases3 surj_pair)
  from assms have "err = None \<and> cpErrOf c = None \<and> k v s1 = (resp, s')"
    unfolding r by (cases "err = None \<and> cpErrOf c = None") (auto simp: after_call_def)
  with that r show ?thesis by blast
qed

lemma error_bodies [simp]:
  "rw_body (writeCPError err e) \<noteq> DataBody p"
  "rw_body (writeMethodCPError err e) \<noteq> DataBody p"
  "rw_body (WriteError st m) \<noteq> DataBody p"
  "rw_body (WriteMethodError st m) \<noteq> DataBody p"
  by (simp_all add: writeCPError_def writeMethodCPError_def WriteError_def WriteMethodError_def split: option.split)

lemma unless_refused_data:
  "unless_refused u s ok = (resp, s') \<Longrightarrow> rw_body resp = DataBody p \<Longrightarrow> ur_Success u \<and> resp = ok \<and> s' = s"
  by (auto simp: unless_refused_def split: if_splits)

text \<open>A payload that is not the zero value was sent.\<close>

lemma callFunc_data:
  assumes "callFunc px name rq w rncui wsn d s = ((c, None, v), s')" and "v \<noteq> de_zero d"
  obtains r where "transport px name rq w rncui wsn s = (Inr (Reply r), s')" "c = Some r" "de_assign d (resp_Payload r) = Some v"
proof -
  obtain a s1 where t: "transport px name rq w rncui wsn s = (a, s1)" by fastforce
  note defs = callFunc_def transport_def[symmetric] t
  show ?thesis
  proof (cases a)
    case (Inl e)
    with assms show ?thesis by (simp add: defs)
  next
    case (Inr b)
    with assms show ?thesis
      by (cases b) (auto simp: defs t split: option.splits if_splits intro: that)
  qed
qed

lemma handleCreateUser_created:
  assumes "handleCreateUser px r st = (resp, st1)" and "rw_body resp = DataBody (P_User p)"
  obtains req rncui cresp u where "js_CreateUser (px_json px) (hq_Body r) = Inr req"
    "transport px PutUserAPI (cpreq (tokenFromRequest r) (A_UserReq (create_payload req))) True rncui 0 st
       = (Inr (Reply cresp), st1)"
    "resp_Payload cresp = A_UserResp u" "resp_Error cresp = None" "ur_Success u" "p = user_payload_of u" "rw_code resp = 201"
proof -
  have m: "requireMethod r ''POST'' = None"
    using assms by (cases "requireMethod r ''POST''") (auto simp: handleCreateUser_def require_def requireMethod_def split: if_splits)
  obtain req where b: "js_CreateUser (px_json px) (hq_Body r) = Inr req"
    using assms by (cases "js_CreateUser (px_json px) (hq_Body r)")
      (auto simp: handleCreateUser_def require_def m decodeJSONBody_def)
  have n: "trim_space (cu_username req) \<noteq> []"
    using assms by (auto simp: handleCreateUser_def require_def m decodeJSONBody_def b)
  have ro: "\<not> (cu_role req \<noteq> [] \<and> cu_role req \<noteq> DefaultUserRole \<and> cu_role req \<noteq> AdminUserRole)"
    using assms n by (auto simp: handleCreateUser_def require_def m decodeJSONBody_def b Let_def split: if_splits)
  obtain rncui where k: "rncuiFromRequest r = Inr rncui"
    using assms n ro by (cases "rncuiFromRequest r")
      (auto simp: handleCreateUser_def require_def m decodeJSONBody_def b Let_def split: if_splits)
  let ?call = "callFunc px PutUserAPI (cpreq (tokenFromRequest r) (A_UserReq (create_payload req))) True rncui 0 zero_UserResp st"
  have "handleCreateUser px r st = after_call writeCPError ?call
      (\<lambda>u s1. unless_refused u s1 (WriteDataStatus 201 (P_User (user_payload_of u))))"
    using n ro by (auto simp: handleCreateUser_def require_def m decodeJSONBody_def b Let_def k)
  with assms(1) have ac: "after_call writeCPError ?call
      (\<lambda>u s1. unless_refused u s1 (WriteDataStatus 201 (P_User (user_payload_of u)))) = (resp, st1)" by simp
  obtain c u s1 where c: "?call = ((c, None, u), s1)" "cpErrOf c = None"
    "unless_refused u s1 (WriteDataStatus 201 (P_User (user_payload_of u))) = (resp, st1)"
    by (rule after_call_data[OF ac assms(2)]) simp
  from unless_refused_data[OF c(3) assms(2)] have u: "ur_Success u" "resp = WriteDataStatus 201 (P_User (user_payload_of u))" "st1 = s1"
    by simp_all
  have "u \<noteq> de_zero zero_UserResp" using u(1) by (auto simp: zero_UserResp_def)
  from callFunc_data[OF c(1) this] obtain cr where
    t: "transport px PutUserAPI (cpreq (tokenFromRequest r) (A_UserReq (create_payload req))) True rncui 0 st = (Inr (Reply cr), s1)"
    and a: "de_assign zero_UserResp (resp_Payload cr) = Some u" and cc: "c = Some cr" by metis
  have "resp_Error cr = None" using c(2) by (simp add: cc cpErrOf_def)
  moreover from a have "resp_Payload cr = A_UserResp u" by (simp add: zero_UserResp_def split: any.splits)
  moreover have "p = user_payload_of u" "rw_code resp = 201" using u(2) assms(2) by (simp_all add: WriteDataStatus_def)
  ultimately show ?thesis using that b t u by blast
qed

text \<open>What \<open>handleLogin\<close> answers to a reply of PMDB that is a login, and to any other.\<close>

lemma handleLogin_reply:
  assumes "hq_Method r = ''POST''" and "js_Login (px_json px) (hq_Body r) = Inr req"
    and "trim_space (lq_username req) \<noteq> []" and "lq_password req \<noteq> []"
    and "transport px LoginAPI (cpreq [] (get_req_id (lq_username req @ CHR '':'' # lq_password req))) False [] 0 st = (Inr (Reply c), st1)"
  shows "resp_Error c \<noteq> None \<Longrightarrow> handleLogin px r st = (WriteError StatusUnauthorized ''invalid credentials'', st1)"
    and "c = CPResp None pg (A_LoginResp lr) \<Longrightarrow> lr_Success lr \<Longrightarrow>
      handleLogin px r st = (WriteData (P_Login \<lparr>lp_access_token = lr_AccessToken lr, lp_token_type = lr_TokenType lr,
                   lp_expires_in = lr_ExpiresIn lr, lp_user_id = lr_UserID lr, lp_username = lr_Username lr,
                   lp_role = lr_UserRole lr, lp_is_admin = lr_IsAdmin lr\<rparr>), st1)"
proof -
  have m: "requireMethod r ''POST'' = None" using assms(1) by (simp add: requireMethod_def)
  note head = handleLogin_def require_def m decodeJSONBody_def assms(2) callFunc_def transport_def[symmetric] assms(5)
  show "handleLogin px r st = (WriteError StatusUnauthorized ''invalid credentials'', st1)" if "resp_Error c \<noteq> None"
    using assms(3,4) that by (auto simp: head cpErrOf_def split: option.split)
  show "handleLogin px r st = (WriteData (P_Login \<lparr>lp_access_token = lr_AccessToken lr, lp_token_type = lr_TokenType lr,
                   lp_expires_in = lr_ExpiresIn lr, lp_user_id = lr_UserID lr, lp_username = lr_Username lr,
                   lp_role = lr_UserRole lr, lp_is_admin = lr_IsAdmin lr\<rparr>), st1)"
    if "c = CPResp None pg (A_LoginResp lr)" "lr_Success lr"
    using assms(3,4) that by (simp add: head cpErrOf_def zero_LoginResp_def)
qed

text \<open>A login that reaches the server.\<close>

lemma cluster_login:
  "cluster_send ct LoginAPI (cpreq [] (get_req_id (name @ CHR '':'' # key))) False [] 0 st =
     (cluster_reply ct LoginAPI (Login (sv_env (ct_cfg ct)) (sv_enc (ct_cfg ct)) (in_clock (ct_inputs ct)) (sv_ds (ct_cfg ct))
        (login_args \<lparr>cb_AppData = Inl (ct_nodata ct), cb_ReplySize = ct_bufsz ct\<rparr> [] name key) (fst st)), st)"
  by (simp add: cluster_send_def read_funcs_def login_args_def cpreq_def get_req_id_def)

lemma cluster_reply_simps [simp]:
  "cluster_reply ct name (FuncError e) = Inr (Reply (CPResp (Some \<lparr>ce_Message = e, ce_Code = ErrFunc\<rparr>) None A_Nil))"
  "cluster_reply ct name (EncodeResponse p) = Inr (Reply (CPResp None None p))"
  by (simp_all add: cluster_reply_def FuncError_def encodeErrorResp_def EncodeResponse_def)

subsection \<open>Names with a colon\<close>

lemma split_two_colons:
  assumes "CHR '':'' \<in> set a"
  shows "\<exists>x y z zs. split (CHR '':'') (a @ '':'' @ b) = x # y # z # zs"
proof -
  from split_list_first[OF assms] obtain u v where a: "a = u @ CHR '':'' # v" "CHR '':'' \<notin> set u" by blast
  have 1: "split (CHR '':'') (a @ '':'' @ b) = u # split (CHR '':'') (v @ CHR '':'' # b)"
    using split_append_sep[OF a(2), of "v @ CHR '':'' # b"] by (simp add: a(1))
  show ?thesis
  proof (cases "CHR '':'' \<in> set v")
    case False
    then show ?thesis using split_append_sep[OF False, of b] split_not_Nil[of "CHR '':''" b] 1
      by (cases "split (CHR '':'') b") auto
  next
    case True
    from split_list_first[OF True] obtain v1 v2 where v: "v = v1 @ CHR '':'' # v2" "CHR '':'' \<notin> set v1" by blast
    show ?thesis using split_append_sep[OF v(2), of "v2 @ CHR '':'' # b"] split_not_Nil[of "CHR '':''" "v2 @ CHR '':'' # b"] 1
      by (cases "split (CHR '':'') (v2 @ CHR '':'' # b)") (auto simp: v(1))
  qed
qed

lemma Login_colon:
  assumes "CHR '':'' \<in> set name"
  shows "Login env es now ds (login_args cb tok name key) s = FuncError ''username:secretKey missing''"
proof -
  obtain x y z zs where "split (CHR '':'') (name @ '':'' @ key) = x # y # z # zs"
    using split_two_colons[OF assms] by blast
  then show ?thesis by (simp add: Login_def login_args_def rd_args_def arg_simps)
qed

lemma trim_space_some: "c \<in> set s \<Longrightarrow> \<not> is_space c \<Longrightarrow> trim_space s \<noteq> []"
  unfolding trim_space_def by (auto simp: dropWhile_eq_Nil_conv) (metis dropWhile_eq_Nil_conv hd_dropWhile hd_in_set)

text \<open>
  Names with a colon. A login over REST whose user name has a colon is refused with 401, whatever
  the store holds and whatever the password is, although a user of that name can be created: \<open>Login\<close>
  splits \<open>name:key\<close> at every colon and no check keeps a colon out of a name.
\<close>

theorem rest_login_colon:
  assumes "px_sendFuncReqFn px = Some (cluster_send ct)" and "hq_Method r = ''POST''"
    and "js_Login (px_json px) (hq_Body r) = Inr req" and "CHR '':'' \<in> set (lq_username req)" and "lq_password req \<noteq> []"
  shows "handleLogin px r st = (WriteError StatusUnauthorized ''invalid credentials'', st)"
proof -
  have "trim_space (lq_username req) \<noteq> []"
    using trim_space_some[OF assms(4)] by (simp add: is_space_def)
  moreover have "transport px LoginAPI (cpreq [] (get_req_id (lq_username req @ CHR '':'' # lq_password req))) False [] 0 st
      = (Inr (Reply (CPResp (Some \<lparr>ce_Message = ''username:secretKey missing'', ce_Code = ErrFunc\<rparr>) None A_Nil)), st)"
    unfolding transport_def assms(1) option.case cluster_login Login_colon[OF assms(4)] by simp
  ultimately show ?thesis using handleLogin_reply(1)[OF assms(2,3) _ assms(5)] by simp
qed

text \<open>The creation of a user that the cluster has answered.\<close>

lemma cluster_put_user:
  assumes "cluster_send ct PutUserAPI rq True rncui 0 st = (Inr (Reply cresp), st1)"
    and "resp_Payload cresp = A_UserResp u" "resp_Error cresp = None"
  obtains f where "PutUser (sv_env (ct_cfg ct)) (sv_enc (ct_cfg ct)) (in_uuid (ct_inputs ct)) (in_rand_key (ct_inputs ct))
      (in_nonce (ct_inputs ct)) (sv_ds (ct_cfg ct))
      [ArgCPReq rq, ArgCbArgs \<lparr>cb_AppData = Inl (ct_nodata ct), cb_ReplySize = ct_bufsz ct\<rparr>] (fst st) = Ret (EncIntrm f)"
    "ApplyFunc (sv_ds (ct_cfg ct)) [ArgCbArgs \<lparr>cb_AppData = Inr f, cb_ReplySize = ct_bufsz ct\<rparr>] (fst st)
       = (Ret (EncResp cresp), fst st1)"
    "fi_Response f = A_UserResp u" "snd st1 = snd st"
proof -
  let ?p = "PutUser (sv_env (ct_cfg ct)) (sv_enc (ct_cfg ct)) (in_uuid (ct_inputs ct)) (in_rand_key (ct_inputs ct))
      (in_nonce (ct_inputs ct)) (sv_ds (ct_cfg ct))
      [ArgCPReq rq, ArgCbArgs \<lparr>cb_AppData = Inl (ct_nodata ct), cb_ReplySize = ct_bufsz ct\<rparr>] (fst st)"
  have prep: "cluster_prepare ct PutUserAPI rq (fst st) = (case ?p of Ret (EncIntrm f) \<Rightarrow> Some (Inr f) | _ \<Rightarrow> None)"
    by (simp add: cluster_prepare_def write_prep_funcs_def)
  have no: "map_of (apply_funcs (ct_cfg ct)) PutUserAPI = None" by (simp add: apply_funcs_def)
  obtain f where f: "?p = Ret (EncIntrm f)"
    using assms(1) by (cases ?p) (auto simp: cluster_send_def prep cluster_fail_def split: option.splits encoded.splits)
  obtain r s1 where a: "ApplyFunc (sv_ds (ct_cfg ct)) [ArgCbArgs \<lparr>cb_AppData = Inr f, cb_ReplySize = ct_bufsz ct\<rparr>] (fst st) = (r, s1)"
    by fastforce
  have s: "cluster_reply ct PutUserAPI r = Inr (Reply cresp)" "st1 = (s1, snd st)"
    using assms(1) by (simp_all add: cluster_send_def prep f apply_other[OF no] on_store_def a)
  then have r: "r = Ret (EncResp cresp)"
    by (auto simp: cluster_reply_def cluster_fail_def split: go.splits encoded.splits option.splits)
  have "fi_Response f = A_UserResp u"
    using a r assms(2,3) by (cases "fi_Response f")
      (auto simp: ApplyFunc_def arg_simps EncodeResponse_def FuncError_def encodeErrorResp_def split: prod.splits option.splits cp_resp.splits)
  with that f a r s(2) show ?thesis by simp
qed

lemma applied_username:
  assumes "store_exact ds cont"
    and "PutUser env es new_uuid rand_key nonce ds [ArgCPReq rq, ArgCbArgs cb] s = Ret (EncIntrm f)"
    and "rq_Payload rq = A_UserReq req" "\<not> uq_IsUpdate req" "fi_Response f = A_UserResp resp" "ur_Success resp"
    and "ApplyFunc ds [ArgCbArgs \<lparr>cb_AppData = Inr f, cb_ReplySize = n\<rparr>] t = (r, t')"
  shows "ur_Username resp = uq_Username req"
proof -
  obtain uid plain enc where "resp = user_answer (created_user req uid enc) plain"
    using PutUser_applied[OF assms] by metis
  then show ?thesis by (simp add: user_answer_def User_Init_def)
qed

text \<open>A key that cannot be one.\<close>

lemma Login_bad_key:
  assumes "CHR '':'' \<notin> set name" "trim_space name \<noteq> []" "CHR '':'' \<in> set key \<or> trim_space key = []"
  shows "\<exists>m. Login env es now ds (login_args cb tok name key) s = FuncError m"
proof (cases "CHR '':'' \<in> set key")
  case True
  from split_list_first[OF this] obtain a b where k: "key = a @ CHR '':'' # b" "CHR '':'' \<notin> set a" by blast
  obtain z zs where "split (CHR '':'') b = z # zs" using split_not_Nil[of "CHR '':''" b] by (cases "split (CHR '':'') b") auto
  then have "split (CHR '':'') (name @ '':'' @ key) = name # a # z # zs"
    using split_append_sep[OF assms(1), of key] split_append_sep[OF k(2), of b] by (simp add: k(1))
  then have "Login env es now ds (login_args cb tok name key) s = FuncError ''username:secretKey missing''"
    by (simp add: Login_def login_args_def rd_args_def arg_simps)
  then show ?thesis by blast
next
  case False
  have "split (CHR '':'') (name @ '':'' @ key) = [name, key]"
    using split_append_sep[OF assms(1)] split_no_sep[OF False] by simp
  with False assms have "Login env es now ds (login_args cb tok name key) s = FuncError ''secretKey cannot be empty''"
    by (simp add: Login_def login_args_def rd_args_def arg_simps)
  then show ?thesis by blast
qed


subsection \<open>Witnesses\<close>

text \<open>A cluster with the in-memory store and a JWT library that signs everything.\<close>

abbreviation (input) signing_env :: env where
  "signing_env \<equiv> sample_env\<lparr>e_SignedString := (\<lambda>c k. Ret ''tok'')\<rparr>"

lemma VerifyToken_signing: "VerifyToken (env\<lparr>e_SignedString := f\<rparr>) tk tok = VerifyToken env tk tok"
  by (simp add: VerifyToken_def)

lemma ValidateToken_signing: "ValidateToken (env\<lparr>e_SignedString := f\<rparr>) tok = ValidateToken env tok"
  by (simp add: ValidateToken_def VerifyToken_signing)

lemma PutUser_signing:
  "PutUser (env\<lparr>e_SignedString := f\<rparr>) es u k n ds args s = PutUser env es u k n ds args s"
proof -
  have d: "putuser_denied (env\<lparr>e_SignedString := f\<rparr>) tc req = putuser_denied env tc req" for tc req
    by (cases "e_authorizer env") (simp_all add: putuser_denied_def)
  have "putuser_existing (env\<lparr>e_SignedString := f\<rparr>) ds s cb tc req = putuser_existing env ds s cb tc req" for cb tc req
    by (simp add: putuser_existing_def split: go.split option.split)
  then have u: "putuser_user (env\<lparr>e_SignedString := f\<rparr>) es u k n ds s cb tc req = putuser_user env es u k n ds s cb tc req" for cb tc req
    by (simp add: putuser_user_def)
  show ?thesis unfolding PutUser_def ValidateToken_signing d u by (rule refl)
qed

definition sample_cluster :: "(etree, dtree, (string \<times> nisd_vdev_alloc) list, (string \<times> string) list) cluster" where
  "sample_cluster = \<lparr>ct_cfg = sample_cfg\<lparr>sv_env := signing_env\<rparr>, ct_inputs = sample_inputs, ct_bufsz = 0, ct_nodata = [],
     ct_other = (\<lambda>_. None)\<rparr>"

definition user_codec :: "string \<Rightarrow> string \<Rightarrow> json_codec" where
  "user_codec name key = sample_codec\<lparr>
     js_CreateUser := (\<lambda>_. Inr \<lparr>cu_username = name, cu_role = AdminUserRole\<rparr>),
     js_Login := (\<lambda>_. Inr \<lparr>lq_username = name, lq_password = key, lq_tenant_uuid = []\<rparr>)\<rparr>"

definition user_proxy :: "string \<Rightarrow> string \<Rightarrow> ((string \<times> string) list \<times> etree hier) proxy" where
  "user_proxy name key = \<lparr>
     px_pmdbClientObj = \<lparr>pc_Put = (\<lambda>_ s. ((None, None), s)), pc_Get = (\<lambda>_ s. ((None, None), s))\<rparr>,
     px_sendFuncReqFn = Some (cluster_send sample_cluster), px_json = user_codec name key, px_uuid_ok = (\<lambda>_. True),
     px_quote = (\<lambda>s. s)\<rparr>"

definition user_post :: "string list \<Rightarrow> http_req" where
  "user_post segs = \<lparr>hq_Method = ''POST'', hq_Segs = segs,
     hq_Header = (\<lambda>h. if h = rncuiHeader then ''w1'' else if h = ''Authorization'' then ''tok'' else []),
     hq_Query = (\<lambda>_. []), hq_PathValue = (\<lambda>_. []), hq_Body = []\<rparr>"

abbreviation (input) no_users :: "(string \<times> string) list \<times> etree hier" where "no_users \<equiv> ([], empty_hier)"

lemma user_post_headers: "rncuiFromRequest (user_post segs) = Inr ''w1''" "tokenFromRequest (user_post segs) = ''tok''"
  by (simp_all add: user_post_def rncuiFromRequest_def tokenFromRequest_def trim_space_def is_space_def Let_def)

lemma create_bob:
  obtains s1 where "handleCreateUser (user_proxy ''bob'' key) (user_post segs) no_users
    = (WriteDataStatus 201 (P_User (user_payload_of (user_answer bob defaultAdminSecretKey))), (s1, empty_hier))"
    "s1 \<noteq> []"
proof -
  let ?u = "user_answer bob defaultAdminSecretKey"
  let ?rq = "cpreq ''tok'' (A_UserReq bob_req)"
  obtain r s1 where a: "ApplyFunc mem_store [ArgCbArgs \<lparr>cb_AppData = Inr bob_created, cb_ReplySize = 0\<rparr>] [] = (r, s1)"
    by fastforce
  have p: "PutUser sample_env sample_es (Ret ''u2'') Panic (Ret ''n'') mem_store [ArgCPReq ?rq, ArgCbArgs sample_cb] []
      = Ret (EncIntrm bob_created)"
    using PutUser_bob[of "''u2''"] by (simp add: cpreq_def)
  have r: "r = EncodeResponse (A_UserResp ?u)" and ne: "s1 \<noteq> []" using bob_applied[OF a] by simp_all
  have no: "map_of (apply_funcs (ct_cfg sample_cluster)) PutUserAPI = None" by (simp add: apply_funcs_def)
  have prep: "cluster_prepare sample_cluster PutUserAPI ?rq [] = Some (Inr bob_created)"
    using p by (simp add: cluster_prepare_def write_prep_funcs_def sample_cluster_def sample_cfg_def sample_inputs_def PutUser_signing)
  have send: "cluster_send sample_cluster PutUserAPI ?rq True rncui 0 no_users
      = (Inr (Reply (CPResp None None (A_UserResp ?u))), (s1, empty_hier))" for rncui
    unfolding cluster_send_def if_True fst_conv prep option.case apply_other[OF no]
    using a by (simp add: on_store_def sample_cluster_def sample_cfg_def r)
  have call: "callFunc (user_proxy ''bob'' key) PutUserAPI ?rq True ''w1'' 0 zero_UserResp no_users
      = ((Some (CPResp None None (A_UserResp ?u)), None, ?u), (s1, empty_hier))"
    using send by (simp add: callFunc_def user_proxy_def zero_UserResp_def)
  have req: "trim_space ''bob'' = ''bob''" by (simp add: trim_space_def is_space_def)
  have bq: "\<lparr>uq_Username = ''bob'', uq_UserID = [], uq_NewSecretKey = [], uq_IsUpdate = False, uq_IsAdmin = True\<rparr> = bob_req"
    by (simp add: bob_req_def)
  have js: "js_CreateUser (px_json (user_proxy ''bob'' key)) b = Inr \<lparr>cu_username = ''bob'', cu_role = AdminUserRole\<rparr>" for b
    by (simp add: user_proxy_def user_codec_def)
  have m: "requireMethod (user_post segs) ''POST'' = None" by (simp add: requireMethod_def user_post_def)
  have "handleCreateUser (user_proxy ''bob'' key) (user_post segs) no_users
    = (WriteDataStatus 201 (P_User (user_payload_of ?u)), (s1, empty_hier))"
    using call by (simp add: handleCreateUser_def require_def m decodeJSONBody_def js Let_def req user_post_headers bq
        after_call_def cpErrOf_def unless_refused_def user_answer_def)
  then show ?thesis using ne that by blast
qed

theorem rest_login_colon_witness:
  "handleLogin (user_proxy ''a:b'' ''k'') (user_post [''users'', ''login'']) no_users
     = (WriteError StatusUnauthorized ''invalid credentials'', no_users)"
  by (rule rest_login_colon[where req = "\<lparr>lq_username = ''a:b'', lq_password = ''k'', lq_tenant_uuid = []\<rparr>"])
    (simp_all add: user_proxy_def user_post_def user_codec_def)



end
