(* ===== verification/FuncProxy.thy ===== *)
theory FuncProxy
  imports Proxy
begin

section \<open>The function calls and the metrics of the proxy\<close>

text \<open>
  \<open>translator.go\<close>, the callbacks of \<open>proxy.go\<close> and \<open>metrics.go\<close>. Next to the REST API the proxy takes
  control plane functions by name: a callback decodes the request in the encoding of its header, sends
  it to PMDB and encodes the reply. The encoders of PumiceDB are the parameter \<open>func_codec\<close>. The
  callbacks count their calls; the state is that of the counters and of what lies behind the PMDB
  client. The channel that bounds the number of concurrent calls is left out.
\<close>

subsection \<open>Encodings\<close>

text \<open>
  \<open>Encoder\<close> and \<open>Decoder\<close> of \<open>pumicecommon\<close>. The format is a string; a decoder is given the value that the
  code puts into \<open>Payload\<close> to guide it. GOB bytes from PMDB are a \<open>reply\<close>.
\<close>

record func_codec =
  fx_EncReq :: "string \<Rightarrow> cp_req \<Rightarrow> string + string"
  fx_EncSnap :: "string \<Rightarrow> snap_xml \<Rightarrow> string + string"
  fx_DecReq :: "string \<Rightarrow> any \<Rightarrow> string \<Rightarrow> string + cp_req"
  fx_EncResp :: "string \<Rightarrow> cp_resp \<Rightarrow> string + string"
  fx_DecResp :: "string \<Rightarrow> any \<Rightarrow> string \<Rightarrow> string + cp_resp"

definition GetEncodingType :: "http_req \<Rightarrow> string go" where
  "GetEncodingType r =
     (let ct = (if hq_Header r ''Content-Type'' = [] then hq_Header r ''Accept'' else hq_Header r ''Content-Type'');
          res = split (CHR ''/'') (to_lower ct)
      in if 1 < length res then Ret (res ! 1) else Panic)"

abbreviation GET_VDEV :: string where "GET_VDEV \<equiv> ''GetVdevs''"

abbreviation (input) zero_get_req :: any where "zero_get_req \<equiv> A_GetReq \<lparr>g_ID = [], g_GetAll = False, g_Fields = []\<rparr>"

text \<open>The zero value of the type of a request, by the name of the function.\<close>

definition GetReqStruct :: "string \<Rightarrow> any" where
  "GetReqStruct name =
     (if name \<in> {GET_RACK, GET_NISD, GET_DEVICE, GET_PDU, GET_HYPERVISOR, GET_PARTITION, GET_VDEV, GET_CHUNK_NISD, LoginAPI,
                 GET_VDEV_CHUNK_INFO, GET_VDEV_INFO, GET_PFS, GET_NISD_AVAILABLE_SIZES} then zero_get_req
      else if name = GET_ALL_RESOURCES then A_GetResourceReq \<lparr>gr_ResourceType = [], gr_ID = [], gr_GetAll = False\<rparr>
      else if name = PUT_RACK
        then A_Rack \<lparr>r_ID = [], r_Name = [], r_PDUID = [], r_Location = [], r_Specification = [], r_Hypervisors = []\<rparr>
      else if name = PUT_DEVICE
        then A_Device \<lparr>d_ID = [], d_Name = [], d_DevicePath = [], d_SerialNumber = [], d_State = 0, d_Size = 0,
               d_HypervisorID = [], d_FailureDomain = [], d_Partitions = []\<rparr>
      else if name = PUT_HYPERVISOR
        then A_Hypervisor \<lparr>h_ID = [], h_RackID = [], h_Name = [], h_IPAddrs = [], h_PortRange = [], h_SSHPort = [],
               h_Dev = [], h_RDMAEnabled = False\<rparr>
      else if name = PUT_NISD then A_Nisd (de_zero zero_Nisd)
      else if name = PUT_PDU
        then A_PDU \<lparr>p_ID = [], p_Name = [], p_Location = [], p_PowerCapacity = [], p_Specification = [], p_Racks = []\<rparr>
      else if name = PUT_PFS then A_PFS \<lparr>pf_ID = [], pf_Name = [], pf_Offset = 0, pf_VdevIDs = []\<rparr>
      else if name = PUT_PARTITION
        then A_Partition \<lparr>pt_PartitionID = [], pt_PartitionPath = [], pt_NISDUUID = [], pt_DevID = [], pt_Size = 0\<rparr>
      else if name = PUT_NISD_ARGS then A_NisdArgs (de_zero zero_NisdArgs)
      else if name \<in> {CREATE_SNAP, READ_SNAP_NAME, READ_SNAP_VDEV} then A_SnapXML \<lparr>sx_SnapName = [], sx_Vdev = [], sx_Chunks = []\<rparr>
      else if name = CREATE_VDEV then A_VdevReq None \<lparr>f_ID = [], f_Type = FD_ANY\<rparr>
      else if name \<in> {PutUserAPI, AdminUserAPI}
        then A_UserReq \<lparr>uq_Username = [], uq_UserID = [], uq_NewSecretKey = [], uq_IsUpdate = False, uq_IsAdmin = False\<rparr>
      else if name = GetUserAPI then A_UserGetReq \<lparr>ug_UserID = [], ug_Username = []\<rparr>
      else if name = DELETE_VDEV then A_DeleteVdevReq []
      else if name = MOUNT_VDEV then A_MountVdevRequest []
      else zero_get_req)"

text \<open>The zero value of the type of a reply; \<open>nil\<close> for a function the list does not have.\<close>

definition GetRespStruct :: "string \<Rightarrow> any" where
  "GetRespStruct name =
     (if name = GET_RACK then A_Racks []
      else if name = GET_DEVICE then A_Devices []
      else if name = GET_CHUNK_NISD then A_ChunkNisd []
      else if name = GET_CHUNK then A_Chunks []
      else if name = GET_VDEV_INFO then A_VdevConfig (new_vdev [])
      else if name = GET_ALL_VDEV then A_VdevConfigs []
      else if name = GET_HYPERVISOR then A_Hypervisors []
      else if name = GET_NISD_LIST then A_Nisds []
      else if name = GET_NISD then A_Nisd (de_zero zero_Nisd)
      else if name = GET_PDU then A_PDUs []
      else if name = GET_PFS then A_PFSs []
      else if name = GET_PARTITION then A_Partitions []
      else if name \<in> {GET_VDEV_CHUNK_INFO, GET_VDEV} then A_Vdevs []
      else if name \<in> {READ_SNAP_NAME, READ_SNAP_VDEV} then A_SnapXML \<lparr>sx_SnapName = [], sx_Vdev = [], sx_Chunks = []\<rparr>
      else if name = CREATE_SNAP then A_SnapResponse (de_zero zero_SnapResponse)
      else if name = GET_NISD_ARGS then A_NisdArgs (de_zero zero_NisdArgs)
      else if name = GET_NISD_AVAILABLE_SIZES then A_NisdSizes []
      else if name = GET_ALL_RESOURCES then A_ResourceListResp (de_zero zero_ResourceListResp)
      else if name \<in> {PUT_RACK, PUT_DEVICE, PUT_HYPERVISOR, PUT_NISD, PUT_PDU, PUT_PARTITION, PUT_NISD_ARGS, CREATE_VDEV, PUT_PFS}
        then A_ResponseXML (de_zero zero_ResponseXML)
      else if name \<in> {PutUserAPI, AdminUserAPI} then A_UserResp (de_zero zero_UserResp)
      else if name = GetUserAPI then A_UserResps []
      else if name = LoginAPI then A_LoginResp (de_zero zero_LoginResp)
      else if name = DELETE_VDEV then A_ResponseXML (de_zero zero_ResponseXML)
      else if name = MOUNT_VDEV then A_MountInfo \<lparr>mi_MountCounter = 0, mi_LastUpdatedLTS = 0\<rparr>
      else A_Nil)"

text \<open>
  \<open>DecodeCPReq\<close>: the decoder fills the struct that \<open>GetReqStruct\<close> gives. (\<open>derefPtr\<close> replaces the pointer
  by the struct, which is what \<open>any\<close> holds here.)
\<close>

definition DecodeCPReq :: "func_codec \<Rightarrow> string \<Rightarrow> string \<Rightarrow> string \<Rightarrow> string + cp_req" where
  "DecodeCPReq fx enctype name req = fx_DecReq fx enctype (GetReqStruct name) req"

text \<open>
  \<open>EncodeResponse\<close> of \<open>translator.go\<close>. A GOB reply without a payload leaves the zero value of
  \<open>GetRespStruct\<close> in the envelope that is encoded.
\<close>

definition translate_response :: "func_codec \<Rightarrow> string \<Rightarrow> string \<Rightarrow> reply option \<Rightarrow> string + string" where
  "translate_response fx enctype name resp =
     (case resp of
        None \<Rightarrow> Inl ''response pointer is nil''
      | Some NoBytes \<Rightarrow> Inl ''empty response buffer''
      | Some (Undecodable e) \<Rightarrow> Inl e
      | Some (Reply r) \<Rightarrow>
          fx_EncResp fx enctype
            (if resp_Payload r = A_Nil then CPResp (resp_Error r) (resp_Page r) (GetRespStruct name) else r))"

subsection \<open>Counters\<close>

record proxy_metrics =
  pm_nisdMetricsText :: string
  pm_getKV :: int64
  pm_putKV :: int64
  pm_getLease :: int64
  pm_putLease :: int64
  pm_getFunc :: int64
  pm_putFunc :: int64

definition incGetKV :: "proxy_metrics \<Rightarrow> proxy_metrics" where "incGetKV m = m\<lparr>pm_getKV := pm_getKV m + 1\<rparr>"
definition incPutKV :: "proxy_metrics \<Rightarrow> proxy_metrics" where "incPutKV m = m\<lparr>pm_putKV := pm_putKV m + 1\<rparr>"
definition incGetLease :: "proxy_metrics \<Rightarrow> proxy_metrics" where "incGetLease m = m\<lparr>pm_getLease := pm_getLease m + 1\<rparr>"
definition incPutLease :: "proxy_metrics \<Rightarrow> proxy_metrics" where "incPutLease m = m\<lparr>pm_putLease := pm_putLease m + 1\<rparr>"
definition incGetFunc :: "proxy_metrics \<Rightarrow> proxy_metrics" where "incGetFunc m = m\<lparr>pm_getFunc := pm_getFunc m + 1\<rparr>"
definition incPutFunc :: "proxy_metrics \<Rightarrow> proxy_metrics" where "incPutFunc m = m\<lparr>pm_putFunc := pm_putFunc m + 1\<rparr>"

subsection \<open>Callbacks for functions\<close>

text \<open>
  A callback returns an error or sets the response. \<open>writeErrorCPResp\<close> sets a response that carries the
  error and returns an error only when that cannot be encoded.
\<close>

definition writeErrorCPResp :: "func_codec \<Rightarrow> string \<Rightarrow> string \<Rightarrow> string go" where
  "writeErrorCPResp fx encType origErr =
     (case fx_EncResp fx encType (CPResp (Some \<lparr>ce_Message = origErr, ce_Code = ErrInternal\<rparr>) None A_Nil) of
        Inl encErr \<Rightarrow> Fail encErr
      | Inr b \<Rightarrow> Ret b)"

definition or_error :: "func_codec \<Rightarrow> string \<Rightarrow> string + string \<Rightarrow> string go" where
  "or_error fx encType res = (case res of Inl err \<Rightarrow> writeErrorCPResp fx encType err | Inr b \<Rightarrow> Ret b)"

type_synonym 's metered = "proxy_metrics \<times> 's"

definition GetFuncHandlerCB ::
  "'s pmdb_client \<Rightarrow> func_codec \<Rightarrow> string \<Rightarrow> string \<Rightarrow> http_req \<Rightarrow> 's metered \<Rightarrow> string go \<times> 's metered" where
  "GetFuncHandlerCB pc fx name body reader st =
     (case st of (m0, s) \<Rightarrow>
     (let m = incGetFunc m0 in
     (case GetEncodingType reader of
        Panic \<Rightarrow> (Panic, (m, s))
      | Fail e \<Rightarrow> (Fail e, (m, s))
      | Ret encType \<Rightarrow>
          if body = [] then (writeErrorCPResp fx encType ''empty body'', (m, s))
          else (case DecodeCPReq fx encType name body of
                  Inl err \<Rightarrow> (writeErrorCPResp fx encType err, (m, s))
                | Inr cpReq \<Rightarrow>
                    (case pc_Get pc \<lparr>pq_Rncui = [], pq_Request = FuncReq name cpReq, pq_ReqType = FUNC_REQ,
                                     pq_GetReply = 1, pq_WriteSeqNum = 0\<rparr> s of
                       ((Some err, _), s1) \<Rightarrow> (writeErrorCPResp fx encType err, (m, s1))
                     | ((None, rep), s1) \<Rightarrow>
                         (or_error fx encType (translate_response fx encType name rep), (m, s1)))))))"

definition PutFuncHandlerCB ::
  "'s pmdb_client \<Rightarrow> func_codec \<Rightarrow> string \<Rightarrow> string \<Rightarrow> int \<Rightarrow> string \<Rightarrow> http_req \<Rightarrow> 's metered
   \<Rightarrow> string go \<times> 's metered" where
  "PutFuncHandlerCB pc fx name rncui wsn body reader st =
     (case st of (m0, s) \<Rightarrow>
     (let m = incPutFunc m0 in
     (case GetEncodingType reader of
        Panic \<Rightarrow> (Panic, (m, s))
      | Fail e \<Rightarrow> (Fail e, (m, s))
      | Ret encType \<Rightarrow>
          (case DecodeCPReq fx encType name body of
             Inl err \<Rightarrow> (writeErrorCPResp fx encType err, (m, s))
           | Inr cpReq \<Rightarrow>
               (case pc_Put pc \<lparr>pq_Rncui = rncui, pq_Request = FuncReq name cpReq, pq_ReqType = FUNC_REQ,
                                pq_GetReply = 1, pq_WriteSeqNum = wsn\<rparr> s of
                  ((Some err, _), s1) \<Rightarrow> (writeErrorCPResp fx encType err, (m, s1))
                | ((None, None), s1) \<Rightarrow> (writeErrorCPResp fx encType ''nil reply received from pmdb'', (m, s1))
                | ((None, Some rep), s1) \<Rightarrow>
                    (or_error fx encType (translate_response fx encType name (Some rep)), (m, s1)))))))"

subsection \<open>Callbacks for keys and leases\<close>

text \<open>
  What a callback puts into the response: the reply of PMDB, or the bytes of a \<open>KVResponse\<close>, which are
  the same but for the status and encode without an error.
\<close>

datatype kv_out = FromPmdb "reply option" | KVResponse int

definition PutLeaseHandlerCB ::
  "'s pmdb_client \<Rightarrow> string \<Rightarrow> int \<Rightarrow> string \<Rightarrow> 's metered \<Rightarrow> (string option \<times> kv_out) \<times> 's metered" where
  "PutLeaseHandlerCB pc rncui wsn request st =
     (case st of (m, s) \<Rightarrow>
     (case pc_Put pc \<lparr>pq_Rncui = rncui, pq_Request = RawReq request, pq_ReqType = LEASE_REQ, pq_GetReply = 1,
                      pq_WriteSeqNum = wsn\<rparr> s of
        ((Some err, _), s1) \<Rightarrow> ((None, KVResponse 1), (incPutLease m, s1))
      | ((None, rep), s1) \<Rightarrow> ((None, FromPmdb rep), (incPutLease m, s1))))"

definition GetLeaseHandlerCB ::
  "'s pmdb_client \<Rightarrow> string \<Rightarrow> 's metered \<Rightarrow> (string option \<times> kv_out) \<times> 's metered" where
  "GetLeaseHandlerCB pc request st =
     (case st of (m, s) \<Rightarrow>
     (case pc_Get pc \<lparr>pq_Rncui = [], pq_Request = RawReq request, pq_ReqType = LEASE_REQ, pq_GetReply = 0,
                      pq_WriteSeqNum = 0\<rparr> s of
        ((err, rep), s1) \<Rightarrow> ((err, FromPmdb rep), (incGetLease m, s1))))"

definition PutKVHandlerCB ::
  "'s pmdb_client \<Rightarrow> string \<Rightarrow> int \<Rightarrow> string \<Rightarrow> 's metered \<Rightarrow> (string option \<times> kv_out) \<times> 's metered" where
  "PutKVHandlerCB pc rncui wsn request st =
     (case st of (m, s) \<Rightarrow>
     (case pc_Put pc \<lparr>pq_Rncui = rncui, pq_Request = RawReq request, pq_ReqType = APP_REQ, pq_GetReply = 0,
                      pq_WriteSeqNum = wsn\<rparr> s of
        ((err, _), s1) \<Rightarrow> ((None, KVResponse (if err = None then 0 else 1)), (incPutKV m, s1))))"

definition GetKVHandlerCB ::
  "'s pmdb_client \<Rightarrow> string \<Rightarrow> 's metered \<Rightarrow> (string option \<times> kv_out) \<times> 's metered" where
  "GetKVHandlerCB pc request st =
     (case st of (m, s) \<Rightarrow>
     (case pc_Get pc \<lparr>pq_Rncui = [], pq_Request = RawReq request, pq_ReqType = APP_REQ, pq_GetReply = 0,
                      pq_WriteSeqNum = 0\<rparr> s of
        ((err, rep), s1) \<Rightarrow> ((err, FromPmdb rep), (incGetKV m, s1))))"

subsection \<open>The metrics text\<close>

abbreviation nl :: string where "nl \<equiv> [CHR 0x0A]"

definition quoted :: "string \<Rightarrow> string" where
  \<open>quoted s = ''"'' @ s @ ''"''\<close>

text \<open>A comment line, and a sample: \<open>name{labels} value\<close>.\<close>

definition comment_line :: "string \<Rightarrow> string \<Rightarrow> string \<Rightarrow> string" where
  "comment_line kind name txt = ''# '' @ kind @ '' '' @ name @ '' '' @ txt @ nl"

definition gauge_head :: "string \<Rightarrow> string \<Rightarrow> string" where
  "gauge_head name help = comment_line ''HELP'' name help @ comment_line ''TYPE'' name ''gauge''"

definition label_list :: "(string \<times> string) list \<Rightarrow> string" where
  "label_list ls = join '','' (map (\<lambda>(l, v). l @ ''='' @ quoted v) ls)"

definition sample_line :: "string \<Rightarrow> (string \<times> string) list \<Rightarrow> string \<Rightarrow> string" where
  "sample_line name ls value = name @ ''{'' @ label_list ls @ ''} '' @ value @ nl"

definition render_nisd :: "string \<Rightarrow> nisd_list_avail_size \<Rightarrow> string" where
  "render_nisd proxyStr n =
     sample_line ''proxy_nisd_total_size_bytes'' [(''proxy'', proxyStr), (''nisd'', na_ID n)] (itoa (sint (na_TotalSize n)))
     @ sample_line ''proxy_nisd_available_size_bytes'' [(''proxy'', proxyStr), (''nisd'', na_ID n)]
         (itoa (sint (na_AvailableSize n)))
     @ (if na_HV n \<noteq> []
        then sample_line ''proxy_nisd_info''
               [(''proxy'', proxyStr), (''nisd'', na_ID n), (''pdu'', na_PDU n), (''rack'', na_Rack n), (''hv'', na_HV n)] ''1''
        else [])"

definition nisdAvailSizeCollector :: "any \<Rightarrow> string \<Rightarrow> string" where
  "nisdAvailSizeCollector payload proxyStr =
     (case payload of
        A_NisdSizes nisdList \<Rightarrow>
          gauge_head ''proxy_nisd_total_size_bytes'' ''Total size of NISD in bytes''
          @ gauge_head ''proxy_nisd_available_size_bytes'' ''Available size of NISD in bytes''
          @ gauge_head ''proxy_nisd_info'' ''Info metric for NISD (value=1)''
          @ concat (map (render_nisd proxyStr) nisdList)
      | _ \<Rightarrow> [])"

definition render_vdev :: "string \<Rightarrow> vdev_config \<Rightarrow> string" where
  "render_vdev proxyStr v =
     (let vl = [(''proxy'', proxyStr), (''vdev'', v_ID v)];
          fdType = (if v_FilterType v = [] then ''any'' else v_FilterType v);
          fdID = (if v_FilterID v = [] then ''none'' else v_FilterID v)
      in sample_line ''proxy_vdev_size_bytes'' vl (itoa (sint (v_Size v)))
         @ sample_line ''proxy_vdev_num_chunks'' vl (utoa (unat (v_ChunkCnt v)))
         @ sample_line ''proxy_vdev_num_replicas'' vl (utoa (unat (v_DataBlkCnt v)))
         @ sample_line ''proxy_vdev_info'' (vl @ [(''fd_type'', fdType), (''fd_id'', fdID)]) ''1'')"

definition vdevConfigCollector :: "any \<Rightarrow> string \<Rightarrow> string" where
  "vdevConfigCollector payload proxyStr =
     (case payload of
        A_VdevConfigs vdevList \<Rightarrow>
          gauge_head ''proxy_vdev_size_bytes'' ''Configured size of VDev in bytes''
          @ gauge_head ''proxy_vdev_num_chunks'' ''Number of chunks in VDev''
          @ gauge_head ''proxy_vdev_num_replicas'' ''Number of replicas for VDev''
          @ gauge_head ''proxy_vdev_info'' ''Info metric for VDev (value=1)''
          @ concat (map (render_vdev proxyStr) vdevList)
      | _ \<Rightarrow> [])"

definition vdevPlacementCollector :: "any \<Rightarrow> string \<Rightarrow> string" where
  "vdevPlacementCollector payload proxyStr =
     (case payload of
        A_Vdevs vdevs \<Rightarrow>
          gauge_head ''proxy_vdev_nisd_chunk_count'' ''Number of chunks of a VDev on a particular NISD''
          @ concat (map (\<lambda>v. concat (map (\<lambda>nc.
              sample_line ''proxy_vdev_nisd_chunk_count''
                [(''proxy'', proxyStr), (''vdev'', v_ID (vd_Cfg v)), (''nisd'', n_ID (nc_Nisd nc))]
                (itoa (int (length (nc_Chunk nc))))) (vd_NisdToChkMap v))) vdevs)
      | _ \<Rightarrow> [])"

text \<open>A collector: its function, payload, label and renderer.\<close>

definition collectors :: "(string \<times> any \<times> string \<times> (any \<Rightarrow> string \<Rightarrow> string)) list" where
  "collectors =
     [(GET_NISD_AVAILABLE_SIZES,
       A_GetReq \<lparr>g_ID = [], g_GetAll = False, g_Fields = [''id'', ''total_size'', ''available_size'']\<rparr>,
       ''NISD metrics'', nisdAvailSizeCollector),
      (GET_ALL_VDEV, A_Nil, ''VDev config'', vdevConfigCollector),
      (GET_VDEV_CHUNK_INFO, A_GetReq \<lparr>g_ID = [], g_GetAll = True, g_Fields = []\<rparr>, ''VDev placement'', vdevPlacementCollector)]"

definition callControlPlaneFunc ::
  "'s pmdb_client option \<Rightarrow> (string \<Rightarrow> string) \<Rightarrow> string \<Rightarrow> string \<Rightarrow> any \<Rightarrow> 's \<Rightarrow> (string + any) \<times> 's" where
  "callControlPlaneFunc pco quot funcName token payload s =
     (case pco of
        None \<Rightarrow> (Inl ''PMDB client not initialized'', s)
      | Some pc \<Rightarrow>
          (case pc_Get pc \<lparr>pq_Rncui = [],
                           pq_Request = FuncReq funcName \<lparr>rq_Token = token, rq_Page = None, rq_Payload = payload\<rparr>,
                           pq_ReqType = FUNC_REQ, pq_GetReply = 1, pq_WriteSeqNum = 0\<rparr> s of
             ((Some err, _), s1) \<Rightarrow> (Inl (''Get failed: '' @ err), s1)
           | ((None, Some (Reply cpResp)), s1) \<Rightarrow>
               (case resp_Error cpResp of
                  Some e \<Rightarrow> (Inl (''control plane function '' @ quot funcName @ '' failed: '' @ ce_Message e), s1)
                | None \<Rightarrow> (Inr (resp_Payload cpResp), s1))
           | ((None, Some (Undecodable err)), s1) \<Rightarrow> (Inl (''failed to decode response: '' @ err), s1)
           | ((None, _), s1) \<Rightarrow> (Inl ''empty reply'', s1)))"

text \<open>
  One tick of \<open>pollNisdMetrics\<close>: the text of the collectors that succeeded, in their order, replaces the
  text before. The queries run side by side; here they run one after the other.
\<close>

definition poll_collector ::
  "'s pmdb_client \<Rightarrow> (string \<Rightarrow> string) \<Rightarrow> string \<Rightarrow> string \<Rightarrow> string \<times> 's
   \<Rightarrow> string \<times> any \<times> string \<times> (any \<Rightarrow> string \<Rightarrow> string) \<Rightarrow> string \<times> 's" where
  "poll_collector pc quot token proxyStr acc c =
     (case (acc, c) of ((txt, s), (funcName, payload, errLabel, render)) \<Rightarrow>
        (case callControlPlaneFunc (Some pc) quot funcName token payload s of
           (Inl err, s1) \<Rightarrow> (txt, s1)
         | (Inr p, s1) \<Rightarrow> (txt @ render p proxyStr, s1)))"

definition pollNisdMetrics ::
  "'s pmdb_client option \<Rightarrow> (string \<Rightarrow> string) \<Rightarrow> string \<Rightarrow> string \<Rightarrow> 's metered \<Rightarrow> 's metered" where
  "pollNisdMetrics pco quot token proxyStr st =
     (case (pco, st) of
        (None, _) \<Rightarrow> st
      | (Some pc, (m, s)) \<Rightarrow>
          (let (txt, s1) = foldl (poll_collector pc quot token proxyStr) ([], s) collectors
           in (m\<lparr>pm_nisdMetricsText := txt\<rparr>, s1)))"

text \<open>The claims of the token that the poller signs for itself.\<close>

definition poll_claims :: "string \<Rightarrow> claims" where
  "poll_claims clientUUID = [(''userID'', CStr clientUUID), (''role'', CStr ''admin''), (''isAdmin'', CBool True)]"

text \<open>The body of \<open>/metrics\<close>; \<open>quot\<close> is the verb \<open>%q\<close>.\<close>

definition request_line :: "(string \<Rightarrow> string) \<Rightarrow> string \<Rightarrow> string \<Rightarrow> string \<Rightarrow> int64 \<Rightarrow> string" where
  "request_line quot proxy method kind n =
     ''proxy_requests_total{proxy='' @ quot proxy @ '',method='' @ quoted method @ '',type='' @ quoted kind @ ''} ''
     @ itoa (sint n) @ nl"

definition metrics_body :: "(string \<Rightarrow> string) \<Rightarrow> string \<Rightarrow> proxy_metrics \<Rightarrow> string" where
  "metrics_body quot proxy m =
     pm_nisdMetricsText m
     @ comment_line ''HELP'' ''proxy_requests_total'' ''Total API requests handled by the proxy''
     @ comment_line ''TYPE'' ''proxy_requests_total'' ''counter''
     @ request_line quot proxy ''get'' ''kv'' (pm_getKV m)
     @ request_line quot proxy ''put'' ''kv'' (pm_putKV m)
     @ request_line quot proxy ''get'' ''lease'' (pm_getLease m)
     @ request_line quot proxy ''put'' ''lease'' (pm_putLease m)
     @ request_line quot proxy ''get'' ''func'' (pm_getFunc m)
     @ request_line quot proxy ''put'' ''func'' (pm_putFunc m)"

end
