(* ===== verification/Url.thy ===== *)
theory Url
  imports Prelude
begin

section \<open>URLs: net/url and the request line\<close>

text \<open>
  What the clients and the HTTP server of the proxy use of \<open>net/url\<close>: percent-encoding of a query value
  and of a path segment, and how the server reads the path and the query back. The laws at the end say
  that what a client escapes, the server unescapes.
\<close>

subsection \<open>Escaping\<close>

definition hex_digit :: "nat \<Rightarrow> char" where
  "hex_digit n = ''0123456789ABCDEF'' ! n"

definition unhex :: "char \<Rightarrow> nat option" where
  "unhex c =
     (let n = of_char c :: nat in
      if 48 \<le> n \<and> n \<le> 57 then Some (n - 48)
      else if 97 \<le> n \<and> n \<le> 102 then Some (n - 87)
      else if 65 \<le> n \<and> n \<le> 70 then Some (n - 55)
      else None)"

definition percent :: "char \<Rightarrow> string" where
  "percent c = [CHR ''%'', hex_digit (of_char c div 16), hex_digit (of_char c mod 16)]"

definition unreserved :: "char \<Rightarrow> bool" where
  "unreserved c \<longleftrightarrow>
     (let n = of_char c :: nat in 97 \<le> n \<and> n \<le> 122 \<or> 65 \<le> n \<and> n \<le> 90 \<or> 48 \<le> n \<and> n \<le> 57)
     \<or> c \<in> set ''-_.~''"

definition query_char :: "char \<Rightarrow> string" where
  "query_char c = (if c = CHR '' '' then ''+'' else if unreserved c then [c] else percent c)"

definition QueryEscape :: "string \<Rightarrow> string" where
  "QueryEscape s = concat (map query_char s)"

definition path_char :: "char \<Rightarrow> string" where
  "path_char c = (if unreserved c \<or> c \<in> set ''$&+:=@'' then [c] else percent c)"

definition PathEscape :: "string \<Rightarrow> string" where
  "PathEscape s = concat (map path_char s)"

text \<open>\<open>unescape True\<close> is \<open>QueryUnescape\<close>, which reads a plus sign as a space; \<open>unescape False\<close> is \<open>PathUnescape\<close>.\<close>

fun unescape :: "bool \<Rightarrow> string \<Rightarrow> string option" where
  "unescape q [] = Some []"
| "unescape q (c # s) =
     (if c = CHR ''%''
      then (case s of
              a # b # s' \<Rightarrow>
                (case (unhex a, unhex b) of
                   (Some x, Some y) \<Rightarrow> map_option (\<lambda>t. char_of (16 * x + y) # t) (unescape q s')
                 | _ \<Rightarrow> None)
            | _ \<Rightarrow> None)
      else map_option (\<lambda>t. (if q \<and> c = CHR ''+'' then CHR '' '' else c) # t) (unescape q s))"

subsection \<open>Reading the request line\<close>

text \<open>\<open>strings.Cut\<close>: the parts before and after the first separator, if there is one.\<close>

fun cut :: "char \<Rightarrow> string \<Rightarrow> string \<times> string" where
  "cut c [] = ([], [])"
| "cut c (x # xs) = (if x = c then ([], xs) else (x # fst (cut c xs), snd (cut c xs)))"

text \<open>\<open>url.ParseQuery\<close>: a piece that does not unescape, or has a semicolon, is dropped.\<close>

definition query_pair :: "string \<Rightarrow> (string \<times> string) list" where
  "query_pair piece =
     (if piece = [] \<or> CHR '';'' \<in> set piece then []
      else case (unescape True (fst (cut (CHR ''='') piece)), unescape True (snd (cut (CHR ''='') piece))) of
             (Some k, Some v) \<Rightarrow> [(k, v)]
           | _ \<Rightarrow> [])"

definition parse_query :: "string \<Rightarrow> (string \<times> string) list" where
  "parse_query q = concat (map query_pair (split (CHR ''&'') q))"

text \<open>\<open>Values.Get\<close>: the first value, or the empty string.\<close>

definition query_get :: "(string \<times> string) list \<Rightarrow> string \<Rightarrow> string" where
  "query_get q k = (case map_of q k of Some v \<Rightarrow> v | None \<Rightarrow> [])"

text \<open>A path that \<open>cleanPath\<close> leaves alone: no dot segments and no empty segment but the last.\<close>

definition clean_segs :: "string list \<Rightarrow> bool" where
  "clean_segs segs \<longleftrightarrow> ''.'' \<notin> set segs \<and> ''..'' \<notin> set segs \<and> [] \<notin> set (butlast segs)"

datatype target = BadTarget | Unclean | Target "string list" "(string \<times> string) list"

text \<open>The request target of an HTTP request line: the unescaped segments of the path, and the query.\<close>

definition parse_target :: "string \<Rightarrow> target" where
  "parse_target t =
     (let (path, q) = cut (CHR ''?'') t; segs = split (CHR ''/'') (tl path); ds = map (unescape False) segs in
      if \<not> has_prefix ''/'' path \<or> None \<in> set ds then BadTarget
      else if \<not> clean_segs segs then Unclean
      else Target (map the ds) (parse_query q))"

subsection \<open>Laws\<close>

lemma unhex_hex_digit: "n < 16 \<Longrightarrow> unhex (hex_digit n) = Some n"
proof -
  have "\<forall>n \<in> set [0..<16]. unhex (hex_digit n) = Some n" by code_simp
  then show "n < 16 \<Longrightarrow> unhex (hex_digit n) = Some n" by simp
qed

lemma unescape_percent: "unescape q (percent c @ s) = map_option ((#) c) (unescape q s)"
proof -
  have "(of_char c :: nat) < 256"
    using of_char_mod_256[of c, where 'a = nat] by (metis mod_less_divisor zero_less_numeral)
  then have n: "(of_char c :: nat) div 16 < 16" "(of_char c :: nat) mod 16 < 16"
    by (auto intro: less_mult_imp_div_less)
  have "char_of (16 * ((of_char c :: nat) div 16) + of_char c mod 16) = c" by simp
  then show ?thesis by (simp add: percent_def unhex_hex_digit n)
qed

lemma query_char_unescape: "unescape True (query_char c @ s) = map_option ((#) c) (unescape True s)"
  by (auto simp: query_char_def unescape_percent unreserved_def Let_def)

lemma path_char_unescape: "unescape False (path_char c @ s) = map_option ((#) c) (unescape False s)"
  by (auto simp: path_char_def unescape_percent unreserved_def Let_def)

lemma unescape_QueryEscape [simp]: "unescape True (QueryEscape s) = Some s"
  by (induction s) (simp_all add: QueryEscape_def query_char_unescape)

lemma unescape_PathEscape [simp]: "unescape False (PathEscape s) = Some s"
  by (induction s) (simp_all add: PathEscape_def path_char_unescape)

text \<open>No delimiter of a query or of a path is left in what is escaped.\<close>

lemma hex_digit_unreserved: "n < 16 \<Longrightarrow> unreserved (hex_digit n)"
proof -
  have "\<forall>n \<in> set [0..<16]. unreserved (hex_digit n)" by code_simp
  then show "n < 16 \<Longrightarrow> unreserved (hex_digit n)" by simp
qed

lemma percent_chars: "x \<in> set (percent c) \<Longrightarrow> unreserved x \<or> x = CHR ''%''"
proof -
  have "(of_char c :: nat) < 256"
    using of_char_mod_256[of c, where 'a = nat] by (metis mod_less_divisor zero_less_numeral)
  then have "unreserved (hex_digit (of_char c div 16))" "unreserved (hex_digit (of_char c mod 16))"
    by (auto intro!: hex_digit_unreserved intro: less_mult_imp_div_less)
  then show "x \<in> set (percent c) \<Longrightarrow> unreserved x \<or> x = CHR ''%''" by (auto simp: percent_def)
qed

lemma QueryEscape_chars: "x \<in> set (QueryEscape s) \<Longrightarrow> unreserved x \<or> x \<in> {CHR ''%'', CHR ''+''}"
  by (auto simp: QueryEscape_def query_char_def dest: percent_chars split: if_splits)

lemma PathEscape_chars: "x \<in> set (PathEscape s) \<Longrightarrow> unreserved x \<or> x \<in> set ''%$&+:=@''"
  by (auto simp: PathEscape_def path_char_def dest: percent_chars split: if_splits)

lemma QueryEscape_free [simp]:
  "CHR ''&'' \<notin> set (QueryEscape s)" "CHR '';'' \<notin> set (QueryEscape s)"
  by (auto dest!: QueryEscape_chars simp: unreserved_def Let_def)

lemma PathEscape_free [simp]:
  "CHR ''/'' \<notin> set (PathEscape s)" "CHR ''?'' \<notin> set (PathEscape s)"
  by (auto dest!: PathEscape_chars simp: unreserved_def Let_def)

lemma cut_append: "c \<notin> set a \<Longrightarrow> cut c (a @ c # b) = (a, b)"
  by (induction a) auto

lemma cut_absent: "c \<notin> set a \<Longrightarrow> cut c a = (a, [])"
  by (induction a) auto

lemma unescape_plain: "list_all (\<lambda>c. c \<noteq> CHR ''%'' \<and> \<not> (q \<and> c = CHR ''+'')) s \<Longrightarrow> unescape q s = Some s"
  by (induction s) auto

text \<open>A query of one or two parameters whose names need no escaping.\<close>

definition plain_name :: "string \<Rightarrow> bool" where
  "plain_name k \<longleftrightarrow> k \<noteq> [] \<and> list_all unreserved k"

lemma plain_name_unescape: "plain_name k \<Longrightarrow> unescape True k = Some k"
  unfolding plain_name_def by (rule unescape_plain) (auto simp: list_all_iff unreserved_def Let_def)

lemma plain_name_free: "plain_name k \<Longrightarrow> CHR ''='' \<notin> set k \<and> CHR ''&'' \<notin> set k \<and> CHR '';'' \<notin> set k"
  by (auto simp: plain_name_def list_all_iff unreserved_def Let_def)

lemma query_pair_escaped: "plain_name k \<Longrightarrow> query_pair (k @ CHR ''='' # QueryEscape v) = [(k, v)]"
  using plain_name_free[of k] by (simp add: query_pair_def cut_append plain_name_unescape)

lemma parse_query_one: "plain_name k \<Longrightarrow> parse_query (k @ CHR ''='' # QueryEscape v) = [(k, v)]"
  using plain_name_free[of k] by (simp add: parse_query_def split_no_sep query_pair_escaped)

lemma parse_query_two:
  assumes "plain_name k" and "plain_name k'"
  shows "parse_query (k @ CHR ''='' # QueryEscape v @ CHR ''&'' # k' @ CHR ''='' # QueryEscape v') = [(k, v), (k', v')]"
proof -
  have "split (CHR ''&'') ((k @ CHR ''='' # QueryEscape v) @ CHR ''&'' # k' @ CHR ''='' # QueryEscape v')
      = [k @ CHR ''='' # QueryEscape v, k' @ CHR ''='' # QueryEscape v']"
    using plain_name_free[OF assms(1)] plain_name_free[OF assms(2)]
    by (subst split_append_sep) (simp_all add: split_no_sep)
  then show ?thesis using assms by (simp add: parse_query_def query_pair_escaped)
qed

end
