(* ===== verification/Client.thy ===== *)
theory Client
  imports FuncProxy ProxyRest Url
begin

section \<open>The client library: clictlplanefuncs\<close>

text \<open>
  \<open>ctlplanefuncs/client/clictlplanefuncs.go\<close>: the operations that programs call. Most of them talk to the
  REST API of the proxy, the others send a control plane function to \<open>/func\<close>. The service discovery
  handler of PumiceDB, which finds a proxy and does the HTTP exchange, is the parameter \<open>discovery\<close> on a
  state \<open>'s\<close>; the JSON encoder and decoders are the parameter \<open>client_json\<close>. An operation maps the
  client and that state to a result and the new client and state. Logging is left out.
\<close>

subsection \<open>The parameters\<close>

datatype dto =
    D_PDU rest_pdu
  | D_Rack rest_rack
  | D_Hypervisor rest_hypervisor
  | D_Device rest_device
  | D_NISD rest_nisd
  | D_Partition rest_partition
  | D_PFS rest_pfs
  | D_NisdArgs rest_nisd_args
  | D_CreateVdev create_vdev_request
  | D_CreateSnap create_snap_request
  | D_MountVdev string
  | D_Login login_request
  | D_CreateUser create_user_request
  | D_CreateAdminUser create_admin_user_request
  | D_UpdateUser update_user_request

text \<open>
  \<open>je_dto\<close> is \<open>json.Marshal\<close> of a request, \<open>je_body\<close> what the proxy writes for a response; \<open>jd_envelope\<close>
  decodes an \<open>APIResponse[T]\<close> into status, error and payload, \<open>jd_error\<close> the error of an
  \<open>ErrorResponse\<close>, \<open>jd_resource\<close> an element of a resource list. \<open>'a want\<close> is a \<open>T\<close>: a payload of it is read
  by \<open>wt_get\<close>.
\<close>

datatype ptype =
    T_Write | T_CreateVdev | T_GetVdev | T_GetNisd | T_GetChunk | T_CreateSnap | T_MountVdev | T_GetResource
  | T_GetVdevs | T_GetPFS | T_GetNisdArgs | T_Login | T_User | T_Users

record client_json =
  je_dto :: "dto \<Rightarrow> string"
  je_body :: "rest_body \<Rightarrow> string"
  jd_envelope :: "ptype \<Rightarrow> string \<Rightarrow> string + (rest_status \<times> string \<times> payload option)"
  jd_error :: "string \<Rightarrow> string + string"
  jd_resource :: "string \<Rightarrow> resource \<Rightarrow> string + resource"

record 'a want = wt_type :: ptype wt_get :: "payload \<Rightarrow> 'a" wt_zero :: 'a

record 's discovery =
  sd_TillReady :: "'s \<Rightarrow> string option \<times> 's"
  sd_RESTRequest :: "string \<Rightarrow> string \<Rightarrow> string \<Rightarrow> (string \<times> string) list \<Rightarrow> 's \<Rightarrow> (string \<times> int \<times> string option) \<times> 's"
  sd_Request :: "string \<Rightarrow> string \<Rightarrow> bool \<Rightarrow> 's \<Rightarrow> (string option \<times> string option) \<times> 's"

record 's cli_env =
  ev_sd :: "'s discovery"
  ev_js :: client_json
  ev_fx :: func_codec
  ev_quote :: "string \<Rightarrow> string"

subsection \<open>The client\<close>

record client =
  ccf_appUUID :: string
  ccf_writeSeq :: uint64
  ccf_encType :: string
  ccf_token :: string

text \<open>\<open>json\<close> is the constant \<open>pumicecommon.JSON\<close>.\<close>

definition InitCliCFuncs :: "string \<Rightarrow> string \<Rightarrow> client" where
  "InitCliCFuncs json appUUID = \<lparr>ccf_appUUID = appUUID, ccf_writeSeq = 0, ccf_encType = json, ccf_token = []\<rparr>"

definition SetToken :: "string \<Rightarrow> client \<Rightarrow> client" where
  "SetToken token c = c\<lparr>ccf_token := token\<rparr>"

type_synonym ('a, 's) cli_op = "client \<times> 's \<Rightarrow> 'a go \<times> client \<times> 's"

definition op_bind :: "('a, 's) cli_op \<Rightarrow> ('a \<Rightarrow> ('b, 's) cli_op) \<Rightarrow> ('b, 's) cli_op" where
  "op_bind m k st =
     (case m st of
        (Ret x, st1) \<Rightarrow> k x st1
      | (Fail e, st1) \<Rightarrow> (Fail e, st1)
      | (Panic, st1) \<Rightarrow> (Panic, st1))"

definition op_go :: "'a go \<Rightarrow> ('a, 's) cli_op" where
  "op_go r st = (r, st)"

abbreviation op_ret :: "'a \<Rightarrow> ('a, 's) cli_op" where "op_ret x \<equiv> op_go (Ret x)"
abbreviation op_fail :: "string \<Rightarrow> ('a, 's) cli_op" where "op_fail e \<equiv> op_go (Fail e)"

subsection \<open>The /func transport\<close>

text \<open>The errors of \<open>TillReady\<close> are ignored.\<close>

definition cli_request :: "'s cli_env \<Rightarrow> string \<Rightarrow> string \<Rightarrow> bool \<Rightarrow> (string option, 's) cli_op" where
  "cli_request ev rqb urla isWrite = (\<lambda>(c, s).
     case sd_TillReady (ev_sd ev) s of (_, s1) \<Rightarrow>
       (case sd_Request (ev_sd ev) rqb (''/func?'' @ urla) isWrite s1 of
          ((rsp, Some err), s2) \<Rightarrow> (Fail err, c, s2)
        | ((rsp, None), s2) \<Rightarrow> (Ret rsp, c, s2)))"

definition of_result :: "string + 'a \<Rightarrow> 'a go" where
  "of_result r = (case r of Inl e \<Rightarrow> Fail e | Inr x \<Rightarrow> Ret x)"

definition cli_get :: "'s cli_env \<Rightarrow> cp_req \<Rightarrow> string \<Rightarrow> any \<Rightarrow> (cp_resp, 's) cli_op" where
  "cli_get ev cpReq urla target = (\<lambda>(c, s).
     op_bind (op_go (of_result (fx_EncReq (ev_fx ev) (ccf_encType c) cpReq))) (\<lambda>rqb.
     op_bind (cli_request ev rqb (''name='' @ urla) False) (\<lambda>rsb.
       case rsb of
         None \<Rightarrow> op_fail ''failed to fetch response from control plane: <nil>''
       | Some b \<Rightarrow> op_go (of_result (fx_DecResp (ev_fx ev) (ccf_encType c) target b)))) (c, s))"

text \<open>
  What every operation over \<open>/func\<close> does: send the payload with the token, turn an error of the envelope
  into an error, and read the target, which a reply without a payload leaves at its zero value.
\<close>

definition func_get :: "'s cli_env \<Rightarrow> any \<Rightarrow> string \<Rightarrow> any \<Rightarrow> (any \<Rightarrow> 'a option) \<Rightarrow> 'a \<Rightarrow> ('a, 's) cli_op" where
  "func_get ev p name target get zero = (\<lambda>(c, s).
     op_bind (cli_get ev \<lparr>rq_Token = ccf_token c, rq_Page = None, rq_Payload = p\<rparr> name target) (\<lambda>cpResp.
       case Err cpResp of
         Some e \<Rightarrow> op_fail e
       | None \<Rightarrow> op_ret (case get (resp_Payload cpResp) of Some x \<Rightarrow> x | None \<Rightarrow> zero)) (c, s))"

subsection \<open>The REST transport\<close>

definition restHeaders :: "string \<Rightarrow> bool \<Rightarrow> (string \<times> string) list" where
  "restHeaders token wr =
     (if wr then [(''Content-Type'', ''application/json'')] else [])
     @ (if token \<noteq> [] then [(''Authorization'', ''Bearer '' @ token)] else [])"

definition restResult :: "client_json \<Rightarrow> string \<times> int \<times> string option \<Rightarrow> string go" where
  "restResult js res =
     (case res of (body, status, err) \<Rightarrow>
        (case err of
           Some e \<Rightarrow> Fail e
         | None \<Rightarrow>
             if status < 200 \<or> status \<ge> 300
             then Fail (''control plane returned '' @ itoa status @ '': ''
                        @ (case jd_error js body of Inr m \<Rightarrow> if m \<noteq> [] then m else body | Inl _ \<Rightarrow> body))
             else Ret body))"

definition decodeEnvelope :: "client_json \<Rightarrow> 'a want \<Rightarrow> string \<Rightarrow> 'a go" where
  "decodeEnvelope js w body =
     (case jd_envelope js (wt_type w) body of
        Inl err \<Rightarrow> Fail err
      | Inr (st, err, p) \<Rightarrow>
          if st \<noteq> StatusOK then Fail (if err \<noteq> [] then err else ''control plane request failed'')
          else (case p of None \<Rightarrow> Ret (wt_zero w) | Some x \<Rightarrow> Ret (wt_get w x)))"

definition nextRncui :: "(string, 's) cli_op" where
  "nextRncui = (\<lambda>(c, s).
     (Ret (ccf_appUUID c @ '':0:0:0:'' @ utoa (unat (ccf_writeSeq c))), c\<lparr>ccf_writeSeq := ccf_writeSeq c + 1\<rparr>, s))"

definition rest_send ::
  "'s cli_env \<Rightarrow> string \<Rightarrow> string \<Rightarrow> string \<Rightarrow> (string \<times> string) list \<Rightarrow> (string, 's) cli_op" where
  "rest_send ev m path body headers = (\<lambda>(c, s).
     case sd_TillReady (ev_sd ev) s of (_, s1) \<Rightarrow>
       (case sd_RESTRequest (ev_sd ev) m path body headers s1 of (res, s2) \<Rightarrow> (restResult (ev_js ev) res, c, s2)))"

definition restGet :: "'s cli_env \<Rightarrow> string \<Rightarrow> (string, 's) cli_op" where
  "restGet ev path = (\<lambda>(c, s). rest_send ev ''GET'' path [] (restHeaders (ccf_token c) False) (c, s))"

definition restPost :: "'s cli_env \<Rightarrow> string \<Rightarrow> string \<Rightarrow> string \<Rightarrow> (string, 's) cli_op" where
  "restPost ev path jsonBody rncui = (\<lambda>(c, s).
     rest_send ev ''POST'' path jsonBody (restHeaders (ccf_token c) True @ [(rncuiHeader, rncui)]) (c, s))"

definition restPut :: "'s cli_env \<Rightarrow> string \<Rightarrow> string \<Rightarrow> string \<Rightarrow> (string, 's) cli_op" where
  "restPut ev path jsonBody rncui = (\<lambda>(c, s).
     rest_send ev ''PUT'' path jsonBody (restHeaders (ccf_token c) True @ [(rncuiHeader, rncui)]) (c, s))"

text \<open>The payload types. A decoder for a type gives payloads of that type.\<close>

definition want_Write :: "write_payload want" where
  "want_Write = \<lparr>wt_type = T_Write, wt_get = (\<lambda>p. case p of P_Write x \<Rightarrow> x | _ \<Rightarrow> \<lparr>wp_id = [], wp_message = []\<rparr>),
     wt_zero = \<lparr>wp_id = [], wp_message = []\<rparr>\<rparr>"

definition restWritten :: "'s cli_env \<Rightarrow> bool \<Rightarrow> string \<Rightarrow> (response_xml, 's) cli_op" where
  "restWritten ev named body =
     op_bind (op_go (decodeEnvelope (ev_js ev) want_Write body)) (\<lambda>payload.
       op_ret \<lparr>rx_Name = (if named then wp_id payload else []), rx_ID = wp_id payload, rx_Error = [], rx_Success = True\<rparr>)"

definition restDelete :: "'s cli_env \<Rightarrow> string \<Rightarrow> (response_xml, 's) cli_op" where
  "restDelete ev path =
     op_bind nextRncui (\<lambda>rncui. op_bind (\<lambda>(c, s).
       rest_send ev ''DELETE'' path [] (restHeaders (ccf_token c) False @ [(rncuiHeader, rncui)]) (c, s))
     (restWritten ev False))"

definition restWrite :: "'s cli_env \<Rightarrow> string \<Rightarrow> dto \<Rightarrow> (response_xml, 's) cli_op" where
  "restWrite ev path d =
     op_bind nextRncui (\<lambda>rncui. op_bind (restPost ev path (je_dto (ev_js ev) d) rncui) (restWritten ev False))"

definition restWriteResource :: "'s cli_env \<Rightarrow> string \<Rightarrow> dto \<Rightarrow> (response_xml, 's) cli_op" where
  "restWriteResource ev rtype d =
     op_bind nextRncui (\<lambda>rncui.
     op_bind (restPut ev (''/api/resource?type='' @ QueryEscape rtype) (je_dto (ev_js ev) d) rncui) (restWritten ev True))"

definition want_GetResource :: "resource list want" where
  "want_GetResource = \<lparr>wt_type = T_GetResource, wt_get = (\<lambda>p. case p of P_GetResource t rs \<Rightarrow> rs | _ \<Rightarrow> []), wt_zero = []\<rparr>"

definition getResourceList :: "'s cli_env \<Rightarrow> string \<Rightarrow> string \<Rightarrow> (resource list, 's) cli_op" where
  "getResourceList ev rtype i =
     op_bind (restGet ev (''/api/resource?type='' @ QueryEscape rtype @ (if i \<noteq> [] then ''&id='' @ QueryEscape i else [])))
       (\<lambda>body. op_go (decodeEnvelope (ev_js ev) want_GetResource body))"

subsection \<open>From the wire\<close>

definition pduFromRest :: "rest_pdu \<Rightarrow> pdu" where
  "pduFromRest p = \<lparr>p_ID = rp_id p, p_Name = rp_name p, p_Location = rp_location p, p_PowerCapacity = rp_power_cap p,
     p_Specification = rp_specification p, p_Racks = []\<rparr>"

definition rackFromRest :: "rest_rack \<Rightarrow> rack" where
  "rackFromRest r = \<lparr>r_ID = rr_id r, r_Name = rr_name r, r_PDUID = rr_pdu_id r, r_Location = rr_location r,
     r_Specification = rr_specification r, r_Hypervisors = []\<rparr>"

definition hypervisorFromRest :: "rest_hypervisor \<Rightarrow> hypervisor" where
  "hypervisorFromRest h = \<lparr>h_ID = rh_id h, h_RackID = rh_rack_id h, h_Name = rh_name h, h_IPAddrs = rh_ip_addrs h,
     h_PortRange = rh_port_range h, h_SSHPort = rh_ssh_port h, h_Dev = [], h_RDMAEnabled = rh_rdma_enabled h\<rparr>"

definition deviceFromRest :: "rest_device \<Rightarrow> device" where
  "deviceFromRest d = \<lparr>d_ID = rd_id d, d_Name = rd_name d, d_DevicePath = rd_device_path d,
     d_SerialNumber = rd_serial_number d, d_State = word_of_int (rd_state d), d_Size = rd_size d,
     d_HypervisorID = rd_hypervisor_id d, d_FailureDomain = rd_failure_domain d, d_Partitions = []\<rparr>"

definition net_from_rest :: "rest_net \<Rightarrow> network_info" where
  "net_from_rest ni = \<lparr>ni_IPAddr = rn_ip_addr ni, ni_Port = word_of_int (rn_port ni)\<rparr>"

definition nisdFromRest :: "rest_nisd \<Rightarrow> nisd" where
  "nisdFromRest n = \<lparr>n_PeerPort = word_of_int (rs_peer_port n), n_ID = rs_id n, n_FailureDomain = rs_failure_domain n,
     n_TotalSize = rs_total_size n, n_AvailableSize = rs_available_size n, n_SocketPath = rs_socket_path n,
     n_NetInfo = map net_from_rest (rs_net_info n), n_NetInfoCnt = int (length (rs_net_info n))\<rparr>"

definition partitionFromRest :: "rest_partition \<Rightarrow> device_partition" where
  "partitionFromRest p = \<lparr>pt_PartitionID = ra_partition_id p, pt_PartitionPath = ra_partition_path p,
     pt_NISDUUID = ra_nisd_uuid p, pt_DevID = ra_dev_id p, pt_Size = ra_size p\<rparr>"

definition pfsFromRest :: "rest_pfs \<Rightarrow> pfs" where
  "pfsFromRest p = \<lparr>pf_ID = rf_id p, pf_Name = rf_name p, pf_Offset = rf_offset p, pf_VdevIDs = rf_vdev_ids p\<rparr>"

subsection \<open>Writes\<close>

text \<open>A nil argument is \<open>None\<close>.\<close>

definition PutDevice :: "'s cli_env \<Rightarrow> device option \<Rightarrow> (response_xml, 's) cli_op" where
  "PutDevice ev dev =
     (case dev of None \<Rightarrow> op_fail ''put_device: nil device''
      | Some d \<Rightarrow> restWriteResource ev ''device''
          (D_Device \<lparr>rd_id = d_ID d, rd_hypervisor_id = d_HypervisorID d, rd_name = d_Name d,
             rd_device_path = d_DevicePath d, rd_serial_number = d_SerialNumber d, rd_state = int (unat (d_State d)),
             rd_size = d_Size d, rd_failure_domain = d_FailureDomain d\<rparr>))"

definition PutDeviceInfo :: "'s cli_env \<Rightarrow> device option \<Rightarrow> (response_xml, 's) cli_op" where
  "PutDeviceInfo ev dev = PutDevice ev dev"

definition PutNisd :: "'s cli_env \<Rightarrow> nisd option \<Rightarrow> (response_xml, 's) cli_op" where
  "PutNisd ev ncfg =
     (case ncfg of None \<Rightarrow> op_fail ''put_nisd: nil nisd''
      | Some n \<Rightarrow> restWriteResource ev ''nisd''
          (D_NISD \<lparr>rs_id = n_ID n, rs_peer_port = int (unat (n_PeerPort n)), rs_failure_domain = n_FailureDomain n,
             rs_total_size = n_TotalSize n, rs_available_size = n_AvailableSize n, rs_socket_path = n_SocketPath n,
             rs_net_info = map (\<lambda>ni. \<lparr>rn_ip_addr = ni_IPAddr ni, rn_port = int (unat (ni_Port ni))\<rparr>) (n_NetInfo n)\<rparr>))"

definition PutPartition :: "'s cli_env \<Rightarrow> device_partition option \<Rightarrow> (response_xml, 's) cli_op" where
  "PutPartition ev devp =
     (case devp of None \<Rightarrow> op_fail ''put_partition: nil partition''
      | Some p \<Rightarrow> restWriteResource ev ''partition''
          (D_Partition \<lparr>ra_partition_id = pt_PartitionID p, ra_partition_path = pt_PartitionPath p,
             ra_nisd_uuid = pt_NISDUUID p, ra_dev_id = pt_DevID p, ra_size = pt_Size p\<rparr>))"

definition PutPDU :: "'s cli_env \<Rightarrow> pdu option \<Rightarrow> (response_xml, 's) cli_op" where
  "PutPDU ev req =
     (case req of None \<Rightarrow> op_fail ''put_pdu: nil pdu''
      | Some p \<Rightarrow> restWriteResource ev ''pdu''
          (D_PDU \<lparr>rp_id = p_ID p, rp_name = p_Name p, rp_location = p_Location p,
             rp_specification = p_Specification p, rp_power_cap = p_PowerCapacity p\<rparr>))"

definition PutRack :: "'s cli_env \<Rightarrow> rack option \<Rightarrow> (response_xml, 's) cli_op" where
  "PutRack ev req =
     (case req of None \<Rightarrow> op_fail ''put_rack: nil rack''
      | Some r \<Rightarrow> restWriteResource ev ''rack''
          (D_Rack \<lparr>rr_id = r_ID r, rr_pdu_id = r_PDUID r, rr_name = r_Name r, rr_location = r_Location r,
             rr_specification = r_Specification r\<rparr>))"

definition PutHypervisor :: "'s cli_env \<Rightarrow> hypervisor option \<Rightarrow> (response_xml, 's) cli_op" where
  "PutHypervisor ev req =
     (case req of None \<Rightarrow> op_fail ''put_hypervisor: nil hypervisor''
      | Some h \<Rightarrow> restWriteResource ev ''hypervisor''
          (D_Hypervisor \<lparr>rh_id = h_ID h, rh_rack_id = h_RackID h, rh_name = h_Name h, rh_port_range = h_PortRange h,
             rh_ssh_port = h_SSHPort h, rh_rdma_enabled = h_RDMAEnabled h, rh_ip_addrs = h_IPAddrs h\<rparr>))"

definition PutPFS :: "'s cli_env \<Rightarrow> pfs option \<Rightarrow> (response_xml, 's) cli_op" where
  "PutPFS ev req =
     (case req of None \<Rightarrow> op_fail ''put_pfs: nil pfs''
      | Some p \<Rightarrow> restWrite ev ''/api/pfs''
          (D_PFS \<lparr>rf_id = pf_ID p, rf_name = pf_Name p, rf_offset = pf_Offset p, rf_vdev_ids = pf_VdevIDs p\<rparr>))"

definition nisd_args_body :: "nisd_args \<Rightarrow> rest_nisd_args" where
  "nisd_args_body a = \<lparr>rg_defrag = na_Defrag a, rg_allow_defrag_mcib_cache = na_AllowDefragMCIBCache a,
     rg_mbc_cnt = na_MBCCnt a, rg_merge_h_cnt = na_MergeHCnt a, rg_mcib_read_cache = na_MCIBReadCache a,
     rg_s3 = na_S3 a, rg_dsync = na_DSync a\<rparr>"

definition PutNisdArgs :: "'s cli_env \<Rightarrow> nisd_args option \<Rightarrow> (response_xml, 's) cli_op" where
  "PutNisdArgs ev req =
     (case req of None \<Rightarrow> op_fail ''put_nisd_args: nil args''
      | Some a \<Rightarrow> restWrite ev ''/api/nisd_args'' (D_NisdArgs (nisd_args_body a)))"

definition want_CreateSnap :: "string want" where
  "want_CreateSnap = \<lparr>wt_type = T_CreateSnap, wt_get = (\<lambda>p. case p of P_CreateSnap x \<Rightarrow> x | _ \<Rightarrow> []), wt_zero = []\<rparr>"

definition CreateSnap :: "'s cli_env \<Rightarrow> string \<Rightarrow> uint64 list \<Rightarrow> string \<Rightarrow> (unit, 's) cli_op" where
  "CreateSnap ev vdev chunkSeq snapName =
     op_bind nextRncui (\<lambda>rncui.
     op_bind (restPost ev ''/api/snap''
        (je_dto (ev_js ev) (D_CreateSnap \<lparr>cs_vdev_id = vdev, cs_snap_name = snapName, cs_chunk_seq = chunkSeq\<rparr>)) rncui)
       (\<lambda>body. op_bind (op_go (decodeEnvelope (ev_js ev) want_CreateSnap body)) (\<lambda>_. op_ret ())))"

definition want_CreateVdev :: "create_vdev_payload want" where
  "want_CreateVdev =
     (let z = \<lparr>cvp_vdev_id = [], cvp_name = [], cvp_num_chunks = 0, cvp_failure_domain = [], cvp_pfs_id = []\<rparr>
      in \<lparr>wt_type = T_CreateVdev, wt_get = (\<lambda>p. case p of P_CreateVdev x \<Rightarrow> x | _ \<Rightarrow> z), wt_zero = z\<rparr>)"

text \<open>The body of \<open>POST /api/vdev\<close> for a vdev and a filter.\<close>

definition create_vdev_body :: "vdev_config \<Rightarrow> filter_req \<Rightarrow> create_vdev_request" where
  "create_vdev_body v flt =
     \<lparr>cv_size_bytes = v_Size v, cv_data_blk_cnt = int (unat (v_DataBlkCnt v)),
      cv_parity_blk_cnt = int (unat (v_ParityBlkCnt v)), cv_redundancy = v_Redundancy v,
      cv_failure_domain = (if f_Type flt \<noteq> FD_ANY then FDName (f_Type flt) else []),
      cv_entity_ids = (if f_ID flt \<noteq> [] then [f_ID flt] else []),
      cv_pfs = (if v_PFSID v \<noteq> [] then v_PFSID v else if v_PFSName v \<noteq> [] then v_PFSName v else []),
      cv_name = v_Name v\<rparr>"

definition CreateVdev :: "'s cli_env \<Rightarrow> (vdev_config option \<times> filter_req) option \<Rightarrow> (response_xml, 's) cli_op" where
  "CreateVdev ev vdev =
     (case vdev of
        Some (Some v, flt) \<Rightarrow>
          op_bind nextRncui (\<lambda>rncui.
          op_bind (restPost ev ''/api/vdev'' (je_dto (ev_js ev) (D_CreateVdev (create_vdev_body v flt))) rncui) (\<lambda>body.
          op_bind (op_go (decodeEnvelope (ev_js ev) want_CreateVdev body)) (\<lambda>resp.
            op_ret \<lparr>rx_Name = [], rx_ID = cvp_vdev_id resp, rx_Error = [], rx_Success = True\<rparr>)))
      | _ \<Rightarrow> op_fail ''create_vdev: nil vdev request'')"

definition DeleteVdev :: "'s cli_env \<Rightarrow> string option \<Rightarrow> (response_xml, 's) cli_op" where
  "DeleteVdev ev req =
     (case req of
        Some i \<Rightarrow> if i = [] then op_fail ''delete_vdev: missing id'' else restDelete ev (''/api/vdev/'' @ PathEscape i)
      | None \<Rightarrow> op_fail ''delete_vdev: missing id'')"

definition want_MountVdev :: "mount_vdev_payload want" where
  "want_MountVdev =
     (let z = \<lparr>mv_id = [], mv_name = [], mv_size = 0, mv_num_chunks = 0, mv_num_replica = 0, mv_mount_counter = 0,
               mv_last_updated_lts = 0, mv_pfs_id = [], mv_access_token = [], mv_data_blk_cnt = 0, mv_parity_blk_cnt = 0\<rparr>
      in \<lparr>wt_type = T_MountVdev, wt_get = (\<lambda>p. case p of P_MountVdev x \<Rightarrow> x | _ \<Rightarrow> z), wt_zero = z\<rparr>)"

definition MountVdev :: "'s cli_env \<Rightarrow> string option \<Rightarrow> (vdev_config, 's) cli_op" where
  "MountVdev ev req =
     (case req of None \<Rightarrow> op_fail ''mount_vdev: nil request''
      | Some vdevID \<Rightarrow>
          op_bind nextRncui (\<lambda>rncui.
          op_bind (restPost ev ''/api/mount_vdev'' (je_dto (ev_js ev) (D_MountVdev vdevID)) rncui) (\<lambda>body.
          op_bind (op_go (decodeEnvelope (ev_js ev) want_MountVdev body)) (\<lambda>p.
            op_ret ((new_vdev (mv_id p))\<lparr>v_Name := mv_name p, v_Size := mv_size p,
              v_ChunkCnt := word_of_int (mv_num_chunks p), v_DataBlkCnt := word_of_int (mv_num_replica p),
              v_VdevMountInfo := \<lparr>mi_MountCounter = mv_mount_counter p, mi_LastUpdatedLTS = mv_last_updated_lts p\<rparr>,
              v_PFSID := mv_pfs_id p, v_AccessToken := mv_access_token p\<rparr>)))))"

subsection \<open>Reads over REST\<close>

definition want_GetNisd :: "get_nisd_payload want" where
  "want_GetNisd =
     (let z = \<lparr>gn_id = [], gn_peer_port = 0, gn_net_info = []\<rparr>
      in \<lparr>wt_type = T_GetNisd, wt_get = (\<lambda>p. case p of P_GetNisd x \<Rightarrow> x | _ \<Rightarrow> z), wt_zero = z\<rparr>)"

definition client_GetNisd :: "'s cli_env \<Rightarrow> get_req \<Rightarrow> (nisd, 's) cli_op" where
  "client_GetNisd ev req =
     op_bind (restGet ev (''/api/nisd?id='' @ QueryEscape (g_ID req))) (\<lambda>body.
     op_bind (op_go (decodeEnvelope (ev_js ev) want_GetNisd body)) (\<lambda>resp.
       op_ret \<lparr>n_PeerPort = word_of_int (gn_peer_port resp), n_ID = gn_id resp, n_FailureDomain = [], n_TotalSize = 0,
         n_AvailableSize = 0, n_SocketPath = [], n_NetInfo = map net_from_rest (gn_net_info resp),
         n_NetInfoCnt = int (length (gn_net_info resp))\<rparr>))"

text \<open>\<open>mapM\<close> over the elements of a resource list, which stops at the first that does not decode.\<close>

fun unmarshal_all :: "('a \<Rightarrow> 'b go) \<Rightarrow> 'a list \<Rightarrow> 'b list go" where
  "unmarshal_all f [] = Ret []"
| "unmarshal_all f (x # xs) = go_bind (f x) (\<lambda>y. go_bind (unmarshal_all f xs) (\<lambda>ys. Ret (y # ys)))"

definition read_resource :: "client_json \<Rightarrow> string \<Rightarrow> (resource \<Rightarrow> 'a option) \<Rightarrow> 'a \<Rightarrow> resource \<Rightarrow> 'a go" where
  "read_resource js rtype get zero raw =
     (case jd_resource js rtype raw of
        Inl err \<Rightarrow> Fail err
      | Inr r \<Rightarrow> Ret (case get r of Some x \<Rightarrow> x | None \<Rightarrow> zero))"

definition read_pdu :: "client_json \<Rightarrow> resource \<Rightarrow> pdu go" where
  "read_pdu js raw = go_bind (read_resource js ''pdu'' (\<lambda>r. case r of R_PDU x \<Rightarrow> Some x | _ \<Rightarrow> None)
     \<lparr>rp_id = [], rp_name = [], rp_location = [], rp_specification = [], rp_power_cap = []\<rparr> raw) (\<lambda>x. Ret (pduFromRest x))"

definition read_rack :: "client_json \<Rightarrow> resource \<Rightarrow> rack go" where
  "read_rack js raw = go_bind (read_resource js ''rack'' (\<lambda>r. case r of R_Rack x \<Rightarrow> Some x | _ \<Rightarrow> None)
     \<lparr>rr_id = [], rr_pdu_id = [], rr_name = [], rr_location = [], rr_specification = []\<rparr> raw) (\<lambda>x. Ret (rackFromRest x))"

definition read_hypervisor :: "client_json \<Rightarrow> resource \<Rightarrow> hypervisor go" where
  "read_hypervisor js raw = go_bind (read_resource js ''hypervisor'' (\<lambda>r. case r of R_Hypervisor x \<Rightarrow> Some x | _ \<Rightarrow> None)
     \<lparr>rh_id = [], rh_rack_id = [], rh_name = [], rh_port_range = [], rh_ssh_port = [], rh_rdma_enabled = False,
      rh_ip_addrs = []\<rparr> raw) (\<lambda>x. Ret (hypervisorFromRest x))"

definition read_device :: "client_json \<Rightarrow> resource \<Rightarrow> device go" where
  "read_device js raw = go_bind (read_resource js ''device'' (\<lambda>r. case r of R_Device x \<Rightarrow> Some x | _ \<Rightarrow> None)
     \<lparr>rd_id = [], rd_hypervisor_id = [], rd_name = [], rd_device_path = [], rd_serial_number = [], rd_state = 0,
      rd_size = 0, rd_failure_domain = []\<rparr> raw) (\<lambda>x. Ret (deviceFromRest x))"

definition read_nisd :: "client_json \<Rightarrow> resource \<Rightarrow> nisd go" where
  "read_nisd js raw = go_bind (read_resource js ''nisd'' (\<lambda>r. case r of R_Nisd x \<Rightarrow> Some x | _ \<Rightarrow> None)
     \<lparr>rs_id = [], rs_peer_port = 0, rs_failure_domain = [], rs_total_size = 0, rs_available_size = 0,
      rs_socket_path = [], rs_net_info = []\<rparr> raw) (\<lambda>x. Ret (nisdFromRest x))"

definition read_partition :: "client_json \<Rightarrow> resource \<Rightarrow> device_partition go" where
  "read_partition js raw = go_bind (read_resource js ''partition'' (\<lambda>r. case r of R_Partition x \<Rightarrow> Some x | _ \<Rightarrow> None)
     \<lparr>ra_partition_id = [], ra_partition_path = [], ra_nisd_uuid = [], ra_dev_id = [], ra_size = 0\<rparr> raw)
     (\<lambda>x. Ret (partitionFromRest x))"

definition GetPartition :: "'s cli_env \<Rightarrow> get_req \<Rightarrow> (device_partition list, 's) cli_op" where
  "GetPartition ev req =
     op_bind (getResourceList ev ''partition'' (if g_GetAll req then [] else g_ID req)) (\<lambda>resources.
       op_go (unmarshal_all (read_partition (ev_js ev)) resources))"

definition GetResources :: "'s cli_env \<Rightarrow> get_resource_req \<Rightarrow> (resource_list_resp, 's) cli_op" where
  "GetResources ev req =
     (let js = ev_js ev; t = gr_ResourceType req; out = (de_zero zero_ResourceListResp)\<lparr>rl_ResourceType := t\<rparr> in
      op_bind (getResourceList ev t (if gr_GetAll req then [] else gr_ID req)) (\<lambda>rs. op_go
        (if t = ''pdu'' then go_bind (unmarshal_all (read_pdu js) rs) (\<lambda>xs. Ret (out\<lparr>rl_PDUs := xs\<rparr>))
         else if t = ''rack'' then go_bind (unmarshal_all (read_rack js) rs) (\<lambda>xs. Ret (out\<lparr>rl_Racks := xs\<rparr>))
         else if t = ''hypervisor'' then go_bind (unmarshal_all (read_hypervisor js) rs) (\<lambda>xs. Ret (out\<lparr>rl_Hypervisors := xs\<rparr>))
         else if t = ''device'' then go_bind (unmarshal_all (read_device js) rs) (\<lambda>xs. Ret (out\<lparr>rl_Devices := xs\<rparr>))
         else if t = ''nisd'' then go_bind (unmarshal_all (read_nisd js) rs) (\<lambda>xs. Ret (out\<lparr>rl_Nisds := xs\<rparr>))
         else if t = ''partition'' then go_bind (unmarshal_all (read_partition js) rs) (\<lambda>xs. Ret (out\<lparr>rl_Partitions := xs\<rparr>))
         else Ret out)))"

definition want_GetPFS :: "rest_pfs list want" where
  "want_GetPFS = \<lparr>wt_type = T_GetPFS, wt_get = (\<lambda>p. case p of P_GetPFS x \<Rightarrow> x | _ \<Rightarrow> []), wt_zero = []\<rparr>"

definition GetPFS :: "'s cli_env \<Rightarrow> get_req option \<Rightarrow> (pfs list, 's) cli_op" where
  "GetPFS ev req =
     (let path = (case req of
                    Some r \<Rightarrow> if g_ID r \<noteq> [] then ''/api/pfs?id='' @ QueryEscape (g_ID r) else ''/api/pfs''
                  | None \<Rightarrow> ''/api/pfs'') in
      op_bind (restGet ev path) (\<lambda>body.
      op_bind (op_go (decodeEnvelope (ev_js ev) want_GetPFS body)) (\<lambda>ps. op_ret (map pfsFromRest ps))))"

definition want_GetNisdArgs :: "rest_nisd_args want" where
  "want_GetNisdArgs =
     (let z = \<lparr>rg_defrag = False, rg_allow_defrag_mcib_cache = False, rg_mbc_cnt = 0, rg_merge_h_cnt = 0,
               rg_mcib_read_cache = 0, rg_s3 = [], rg_dsync = []\<rparr>
      in \<lparr>wt_type = T_GetNisdArgs, wt_get = (\<lambda>p. case p of P_GetNisdArgs x \<Rightarrow> x | _ \<Rightarrow> z), wt_zero = z\<rparr>)"

definition GetNisdArgs :: "'s cli_env \<Rightarrow> get_req \<Rightarrow> (nisd_args, 's) cli_op" where
  "GetNisdArgs ev req =
     op_bind (restGet ev ''/api/nisd_args'') (\<lambda>body.
     op_bind (op_go (decodeEnvelope (ev_js ev) want_GetNisdArgs body)) (\<lambda>a.
       op_ret \<lparr>na_Defrag = rg_defrag a, na_AllowDefragMCIBCache = rg_allow_defrag_mcib_cache a,
         na_MBCCnt = rg_mbc_cnt a, na_MergeHCnt = rg_merge_h_cnt a, na_MCIBReadCache = rg_mcib_read_cache a,
         na_S3 = rg_s3 a, na_DSync = rg_dsync a\<rparr>))"

text \<open>Only these fields of a vdev are in the REST answer.\<close>

definition vdev_from_rest :: "get_vdev_payload \<Rightarrow> vdev_config" where
  "vdev_from_rest p = (new_vdev (gv_id p))\<lparr>v_Name := gv_name p, v_Size := gv_size p,
     v_ChunkCnt := word_of_int (gv_num_chunks p), v_DataBlkCnt := word_of_int (gv_num_replicas p),
     v_FilterType := gv_failure_domain p\<rparr>"

definition want_GetVdev :: "get_vdev_payload want" where
  "want_GetVdev =
     (let z = \<lparr>gv_id = [], gv_name = [], gv_size = 0, gv_num_chunks = 0, gv_num_replicas = 0, gv_failure_domain = []\<rparr>
      in \<lparr>wt_type = T_GetVdev, wt_get = (\<lambda>p. case p of P_GetVdev x \<Rightarrow> x | _ \<Rightarrow> z), wt_zero = z\<rparr>)"

definition GetVdevConfig :: "'s cli_env \<Rightarrow> get_req option \<Rightarrow> (vdev_config, 's) cli_op" where
  "GetVdevConfig ev req =
     (case req of None \<Rightarrow> op_go Panic
      | Some r \<Rightarrow>
          op_bind (restGet ev (''/api/vdev?id='' @ QueryEscape (g_ID r))) (\<lambda>body.
          op_bind (op_go (decodeEnvelope (ev_js ev) want_GetVdev body)) (\<lambda>resp. op_ret (vdev_from_rest resp))))"

definition want_GetVdevs :: "get_vdev_payload list want" where
  "want_GetVdevs = \<lparr>wt_type = T_GetVdevs,
     wt_get = (\<lambda>p. case p of P_GetResource t rs \<Rightarrow> concat (map (\<lambda>r. case r of R_Vdev v \<Rightarrow> [v] | _ \<Rightarrow> []) rs) | _ \<Rightarrow> []),
     wt_zero = []\<rparr>"

definition GetVdevConfigs :: "'s cli_env \<Rightarrow> get_req option \<Rightarrow> (vdev_config list, 's) cli_op" where
  "GetVdevConfigs ev req =
     op_bind (restGet ev ''/api/resource?type=vdev'') (\<lambda>body.
     op_bind (op_go (decodeEnvelope (ev_js ev) want_GetVdevs body)) (\<lambda>rs. op_ret (map vdev_from_rest rs)))"

definition want_GetChunk :: "get_chunk_payload want" where
  "want_GetChunk =
     (let z = \<lparr>gc_vdev_id = [], gc_chunk_idx = 0, gc_nisd_ids = []\<rparr>
      in \<lparr>wt_type = T_GetChunk, wt_get = (\<lambda>p. case p of P_GetChunk x \<Rightarrow> x | _ \<Rightarrow> z), wt_zero = z\<rparr>)"

definition GetChunkNisd :: "'s cli_env \<Rightarrow> get_req option \<Rightarrow> (string, 's) cli_op" where
  \<open>GetChunkNisd ev req =
     (case req of None \<Rightarrow> op_go Panic
      | Some r \<Rightarrow>
          (let i = g_ID r; parts = cut (CHR ''/'') i in
           if CHR ''/'' \<notin> set i \<or> fst parts = [] \<or> snd parts = []
           then op_fail (''invalid chunk id '' @ ev_quote ev i @ '': expected "<vdevID>/<chunkIdx>"'')
           else op_bind (restGet ev (''/api/chunk?vdev_id='' @ QueryEscape (fst parts)
                                     @ ''&chunk_idx='' @ QueryEscape (snd parts))) (\<lambda>body.
                op_bind (op_go (decodeEnvelope (ev_js ev) want_GetChunk body)) (\<lambda>resp.
                  op_ret (join '','' (gc_nisd_ids resp))))))\<close>

subsection \<open>Reads over /func\<close>

definition client_GetDevices :: "'s cli_env \<Rightarrow> get_req \<Rightarrow> (device list, 's) cli_op" where
  "client_GetDevices ev req = func_get ev (A_GetReq req) GET_DEVICE (A_Devices [])
     (\<lambda>a. case a of A_Devices x \<Rightarrow> Some x | _ \<Rightarrow> None) []"

definition client_GetNisds :: "'s cli_env \<Rightarrow> get_req \<Rightarrow> (nisd list, 's) cli_op" where
  "client_GetNisds ev req = func_get ev (A_GetReq (req\<lparr>g_GetAll := True\<rparr>)) GET_NISD_LIST (A_Nisds [])
     (\<lambda>a. case a of A_Nisds x \<Rightarrow> Some x | _ \<Rightarrow> None) []"

text \<open>A nil pointer is encoded as no payload.\<close>

definition opt_get_req :: "get_req option \<Rightarrow> any" where
  "opt_get_req req = (case req of Some r \<Rightarrow> A_GetReq r | None \<Rightarrow> A_Nil)"

definition client_GetPDUs :: "'s cli_env \<Rightarrow> get_req option \<Rightarrow> (pdu list, 's) cli_op" where
  "client_GetPDUs ev req = func_get ev (opt_get_req req) GET_PDU (A_PDUs [])
     (\<lambda>a. case a of A_PDUs x \<Rightarrow> Some x | _ \<Rightarrow> None) []"

definition client_GetRacks :: "'s cli_env \<Rightarrow> get_req option \<Rightarrow> (rack list, 's) cli_op" where
  "client_GetRacks ev req = func_get ev (opt_get_req req) GET_RACK (A_Racks [])
     (\<lambda>a. case a of A_Racks x \<Rightarrow> Some x | _ \<Rightarrow> None) []"

definition client_GetHypervisor :: "'s cli_env \<Rightarrow> get_req option \<Rightarrow> (hypervisor list, 's) cli_op" where
  "client_GetHypervisor ev req = func_get ev (opt_get_req req) GET_HYPERVISOR (A_Hypervisors [])
     (\<lambda>a. case a of A_Hypervisors x \<Rightarrow> Some x | _ \<Rightarrow> None) []"

definition GetVdevsWithChunkInfo :: "'s cli_env \<Rightarrow> get_req option \<Rightarrow> (vdev list, 's) cli_op" where
  "GetVdevsWithChunkInfo ev req = func_get ev (opt_get_req req) GET_VDEV_CHUNK_INFO (A_Vdevs [])
     (\<lambda>a. case a of A_Vdevs x \<Rightarrow> Some x | _ \<Rightarrow> None) []"

definition GetNisdListWithAvailSize :: "'s cli_env \<Rightarrow> get_req option \<Rightarrow> (nisd_list_avail_size list, 's) cli_op" where
  "GetNisdListWithAvailSize ev req =
     (case req of None \<Rightarrow> op_go Panic
      | Some r \<Rightarrow> func_get ev (A_GetReq (r\<lparr>g_Fields := [''id'', ''total_size'', ''available_size'']\<rparr>))
          GET_NISD_AVAILABLE_SIZES (A_NisdSizes []) (\<lambda>a. case a of A_NisdSizes x \<Rightarrow> Some x | _ \<Rightarrow> None) [])"

definition client_GetChunk :: "'s cli_env \<Rightarrow> get_req option \<Rightarrow> (chunk, 's) cli_op" where
  "client_GetChunk ev req =
     (let z = \<lparr>c_Index = 0, c_Redundancy = 0, c_Placements = []\<rparr> in
      case req of None \<Rightarrow> op_go Panic
      | Some r \<Rightarrow> func_get ev (A_GetReq r) GET_CHUNK (A_Chunk z) (\<lambda>a. case a of A_Chunk x \<Rightarrow> Some x | _ \<Rightarrow> None) z)"

definition client_GetChunks :: "'s cli_env \<Rightarrow> get_req option \<Rightarrow> (chunk list, 's) cli_op" where
  "client_GetChunks ev req =
     (case req of None \<Rightarrow> op_go Panic
      | Some r \<Rightarrow> func_get ev (A_GetReq r) GET_CHUNK (A_Chunks []) (\<lambda>a. case a of A_Chunks x \<Rightarrow> Some x | _ \<Rightarrow> None) [])"

text \<open>The two snapshot reads send a \<open>SnapXML\<close> without an envelope and return the bytes of the answer.\<close>

definition client_ReadSnapByName :: "'s cli_env \<Rightarrow> string \<Rightarrow> (string option, 's) cli_op" where
  "client_ReadSnapByName ev name = (\<lambda>(c, s).
     op_bind (op_go (of_result (fx_EncSnap (ev_fx ev) (ccf_encType c) \<lparr>sx_SnapName = name, sx_Vdev = [], sx_Chunks = []\<rparr>)))
       (\<lambda>rqb. cli_request ev rqb (''name='' @ READ_SNAP_NAME) False) (c, s))"

definition client_ReadSnapForVdev :: "'s cli_env \<Rightarrow> string \<Rightarrow> (string option, 's) cli_op" where
  "client_ReadSnapForVdev ev vdev = (\<lambda>(c, s).
     op_bind (op_go (of_result (fx_EncSnap (ev_fx ev) (ccf_encType c) \<lparr>sx_SnapName = [], sx_Vdev = vdev, sx_Chunks = []\<rparr>)))
       (\<lambda>rqb. cli_request ev rqb (''name='' @ READ_SNAP_VDEV) False) (c, s))"

end
