(* ===== verification/UserClient.thy ===== *)
theory UserClient
  imports Client
begin

section \<open>The user client: user/client\<close>

text \<open>
  \<open>user/client/client.go\<close>: the client of the user endpoints, which has the same REST transport as the
  client library but takes the token as an argument of every operation. The parameters are those of
  \<open>Client\<close>.
\<close>

subsection \<open>The client and its transport\<close>

record user_client = uc_appUUID :: string uc_writeSeq :: uint64

type_synonym ('a, 's) user_op = "user_client \<times> 's \<Rightarrow> 'a go \<times> user_client \<times> 's"

definition uop_bind :: "('a, 's) user_op \<Rightarrow> ('a \<Rightarrow> ('b, 's) user_op) \<Rightarrow> ('b, 's) user_op" where
  "uop_bind m k st =
     (case m st of
        (Ret x, st1) \<Rightarrow> k x st1
      | (Fail e, st1) \<Rightarrow> (Fail e, st1)
      | (Panic, st1) \<Rightarrow> (Panic, st1))"

definition uop_go :: "'a go \<Rightarrow> ('a, 's) user_op" where
  "uop_go r st = (r, st)"

text \<open>\<open>fmt.Errorf(prefix + ": %w", err)\<close>.\<close>

definition wrap_error :: "string \<Rightarrow> ('a, 's) user_op \<Rightarrow> ('a, 's) user_op" where
  "wrap_error prefix m st = (case m st of (Fail e, st1) \<Rightarrow> (Fail (prefix @ '': '' @ e), st1) | r \<Rightarrow> r)"

definition uc_nextRncui :: "(string, 's) user_op" where
  "uc_nextRncui = (\<lambda>(c, s).
     (Ret (uc_appUUID c @ '':0:0:0:'' @ utoa (unat (uc_writeSeq c))), c\<lparr>uc_writeSeq := uc_writeSeq c + 1\<rparr>, s))"

definition uc_send ::
  "'s cli_env \<Rightarrow> string \<Rightarrow> string \<Rightarrow> string \<Rightarrow> (string \<times> string) list \<Rightarrow> (string, 's) user_op" where
  "uc_send ev m path body headers = (\<lambda>(c, s).
     case sd_TillReady (ev_sd ev) s of (_, s1) \<Rightarrow>
       (case sd_RESTRequest (ev_sd ev) m path body headers s1 of (res, s2) \<Rightarrow> (restResult (ev_js ev) res, c, s2)))"

definition uc_restGet :: "'s cli_env \<Rightarrow> string \<Rightarrow> string \<Rightarrow> (string, 's) user_op" where
  "uc_restGet ev token path = uc_send ev ''GET'' path [] (restHeaders token False)"

definition uc_restWrite :: "'s cli_env \<Rightarrow> string \<Rightarrow> string \<Rightarrow> string \<Rightarrow> string \<Rightarrow> (string, 's) user_op" where
  "uc_restWrite ev m token path jsonBody =
     uop_bind uc_nextRncui (\<lambda>rncui. uc_send ev m path jsonBody (restHeaders token True @ [(rncuiHeader, rncui)]))"

definition want_User :: "user_payload want" where
  "want_User =
     (let z = \<lparr>up_user_data = \<lparr>ud_id = [], ud_username = [], ud_role = [], ud_status = 0\<rparr>, up_secret_key = []\<rparr>
      in \<lparr>wt_type = T_User, wt_get = (\<lambda>p. case p of P_User x \<Rightarrow> x | _ \<Rightarrow> z), wt_zero = z\<rparr>)"

definition user_resp_of :: "user_data \<Rightarrow> string \<Rightarrow> user_resp" where
  "user_resp_of u secretKey = \<lparr>ur_Username = ud_username u, ur_UserID = ud_id u, ur_SecretKey = secretKey,
     ur_UserRole = ud_role u, ur_Status = word_of_int (ud_status u), ur_Error = [], ur_Success = True\<rparr>"

definition userRespFromREST :: "client_json \<Rightarrow> string \<Rightarrow> user_resp go" where
  "userRespFromREST js body =
     go_bind (decodeEnvelope js want_User body) (\<lambda>p. Ret (user_resp_of (up_user_data p) (up_secret_key p)))"

subsection \<open>Operations\<close>

definition uc_CreateUser :: "'s cli_env \<Rightarrow> string \<Rightarrow> user_req \<Rightarrow> (user_resp, 's) user_op" where
  "uc_CreateUser ev token user =
     (if token = [] then uop_go (Fail ''token is required for creating users'')
      else uop_bind
        (wrap_error ''failed to create user''
          (uc_restWrite ev ''POST'' token ''/api/users''
             (je_dto (ev_js ev) (D_CreateUser \<lparr>cu_username = uq_Username user,
                cu_role = (if uq_IsAdmin user then AdminUserRole else DefaultUserRole)\<rparr>))))
        (\<lambda>body. uop_go (userRespFromREST (ev_js ev) body)))"

definition uc_UpdateUser :: "'s cli_env \<Rightarrow> string \<Rightarrow> user_req \<Rightarrow> (user_resp, 's) user_op" where
  "uc_UpdateUser ev token user =
     (if uq_UserID user = [] then uop_go (Fail ''userID is required for update operation'')
      else if token = [] then uop_go (Fail ''token is required for updating users'')
      else uop_bind
        (wrap_error ''failed to update user''
          (uc_restWrite ev ''PUT'' token (''/api/users/'' @ PathEscape (uq_UserID user))
             (je_dto (ev_js ev) (D_UpdateUser \<lparr>uu_username = uq_Username user, uu_new_secret_key = uq_NewSecretKey user\<rparr>))))
        (\<lambda>body. uop_go (userRespFromREST (ev_js ev) body)))"

definition want_Users :: "user_data list want" where
  "want_Users = \<lparr>wt_type = T_Users, wt_get = (\<lambda>p. case p of P_Users x \<Rightarrow> x | _ \<Rightarrow> []), wt_zero = []\<rparr>"

definition uc_ListUsers :: "'s cli_env \<Rightarrow> string \<Rightarrow> user_get_req \<Rightarrow> (user_resp list, 's) user_op" where
  "uc_ListUsers ev token req =
     (if ug_UserID req \<noteq> []
      then uop_bind (wrap_error ''failed to get user'' (uc_restGet ev token (''/api/users/'' @ PathEscape (ug_UserID req))))
             (\<lambda>body. uop_go (go_bind (userRespFromREST (ev_js ev) body) (\<lambda>ur. Ret [ur])))
      else uop_bind (wrap_error ''failed to list users''
               (uc_restGet ev token (''/api/users'' @ (if ug_Username req \<noteq> [] then ''?username='' @ QueryEscape (ug_Username req) else []))))
             (\<lambda>body. uop_go (go_bind (decodeEnvelope (ev_js ev) want_Users body)
                               (\<lambda>us. Ret (map (\<lambda>u. user_resp_of u []) us)))))"

definition uc_GetUser :: "'s cli_env \<Rightarrow> string \<Rightarrow> string \<Rightarrow> (user_resp, 's) user_op" where
  "uc_GetUser ev userID userToken =
     uop_bind (uc_ListUsers ev userToken \<lparr>ug_UserID = userID, ug_Username = []\<rparr>) (\<lambda>users. uop_go
       (case users of [] \<Rightarrow> Fail (''user not found: '' @ userID) | u # _ \<Rightarrow> Ret u))"

definition uc_GetUserByUsername :: "'s cli_env \<Rightarrow> string \<Rightarrow> string \<Rightarrow> (user_resp, 's) user_op" where
  "uc_GetUserByUsername ev username userToken =
     uop_bind (uc_ListUsers ev userToken \<lparr>ug_UserID = [], ug_Username = username\<rparr>) (\<lambda>users.
       case users of [] \<Rightarrow> uop_go (Fail (''user not found: '' @ username)) | u # _ \<Rightarrow> uc_GetUser ev (ur_UserID u) userToken)"

definition uc_CreateAdminUser :: "'s cli_env \<Rightarrow> user_req option \<Rightarrow> (user_resp, 's) user_op" where
  "uc_CreateAdminUser ev req =
     (case req of None \<Rightarrow> uop_go (Fail ''request cannot be nil'')
      | Some r \<Rightarrow>
          if uq_Username r = [] then uop_go (Fail ''username is required'')
          else uop_bind
            (wrap_error ''failed to create admin user''
              (uc_restWrite ev ''POST'' [] ''/users/admin''
                 (je_dto (ev_js ev) (D_CreateAdminUser \<lparr>ca_username = uq_Username r, ca_secret_key = uq_NewSecretKey r\<rparr>))))
            (\<lambda>body. uop_go (userRespFromREST (ev_js ev) body)))"

definition uc_UpdateAdminSecretKey :: "'s cli_env \<Rightarrow> string \<Rightarrow> string \<Rightarrow> string \<Rightarrow> (user_resp, 's) user_op" where
  "uc_UpdateAdminSecretKey ev userID newSecretKey userToken =
     (if userID = [] then uop_go (Fail ''userID is required'')
      else if newSecretKey = [] then uop_go (Fail ''newSecretKey is required'')
      else uop_bind
        (wrap_error ''failed to update admin secret key''
          (uc_restWrite ev ''PUT'' userToken (''/api/users/'' @ PathEscape userID)
             (je_dto (ev_js ev) (D_UpdateUser \<lparr>uu_username = [], uu_new_secret_key = newSecretKey\<rparr>))))
        (\<lambda>body. uop_go (userRespFromREST (ev_js ev) body)))"

definition want_Login :: "login_payload want" where
  "want_Login =
     (let z = \<lparr>lp_access_token = [], lp_token_type = [], lp_expires_in = 0, lp_user_id = [], lp_username = [],
               lp_role = [], lp_is_admin = False\<rparr>
      in \<lparr>wt_type = T_Login, wt_get = (\<lambda>p. case p of P_Login x \<Rightarrow> x | _ \<Rightarrow> z), wt_zero = z\<rparr>)"

text \<open>The text of a failed login: the user and the tenant, the status when there is one, and the cause.\<close>

definition login_error :: "(string \<Rightarrow> string) \<Rightarrow> string \<Rightarrow> string \<Rightarrow> string \<Rightarrow> string \<Rightarrow> string" where
  "login_error quot username tenant st err =
     ''login failed: user='' @ quot username @ '' tenant='' @ tenant @ st @ '': '' @ err"

definition no_peer_error :: "(string \<Rightarrow> string) \<Rightarrow> string \<Rightarrow> string \<Rightarrow> string \<Rightarrow> string" where
  \<open>no_peer_error quot username tenant err =
     ''login failed: no live control-plane (niova-mdsvc) peer found via gossip after retries (user='' @ quot username
     @ '' tenant='' @ tenant @ ''): '' @ err
     @ '' '' @ map char_of [226, 128, 148 :: nat] @ '' check gossip ipaddr/ports in config.yaml match the control plane''
     @ [CHR 0x27] @ ''s actual serf bind/join ports, and that MDSVC_SERF_RPC_AUTH matches the --raft value passed here''\<close>

definition LoginWithTenant :: "'s cli_env \<Rightarrow> string \<Rightarrow> string \<Rightarrow> string \<Rightarrow> (login_resp, 's) user_op" where
  "LoginWithTenant ev username secretKey tenantUUID = (\<lambda>(c, s).
     let js = ev_js ev; tenant = (if tenantUUID = [] then ''<default>'' else tenantUUID);
         body = je_dto js (D_Login \<lparr>lq_username = username, lq_password = secretKey, lq_tenant_uuid = tenantUUID\<rparr>) in
     case sd_TillReady (ev_sd ev) s of
       (Some err, s1) \<Rightarrow> (Fail (no_peer_error (ev_quote ev) username tenant err), c, s1)
     | (None, s1) \<Rightarrow>
         (case sd_RESTRequest (ev_sd ev) ''POST'' ''/users/login'' body [(''Content-Type'', ''application/json'')] s1 of
            (res, s2) \<Rightarrow>
              (case restResult js res of
                 Fail err \<Rightarrow> (Fail (login_error (ev_quote ev) username tenant ('' status='' @ itoa (fst (snd res))) err), c, s2)
               | Panic \<Rightarrow> (Panic, c, s2)
               | Ret b \<Rightarrow>
                   (case decodeEnvelope js want_Login b of
                      Fail err \<Rightarrow> (Fail (login_error (ev_quote ev) username tenant [] err), c, s2)
                    | Panic \<Rightarrow> (Panic, c, s2)
                    | Ret lr \<Rightarrow>
                        (Ret \<lparr>lr_AccessToken = lp_access_token lr, lr_TokenType = lp_token_type lr, lr_UserID = lp_user_id lr,
                              lr_Username = lp_username lr, lr_UserRole = lp_role lr, lr_Error = [],
                              lr_ExpiresIn = lp_expires_in lr, lr_IsAdmin = lp_is_admin lr, lr_Success = True\<rparr>, c, s2)))))"

definition uc_Login :: "'s cli_env \<Rightarrow> string \<Rightarrow> string \<Rightarrow> (login_resp, 's) user_op" where
  "uc_Login ev username secretKey = LoginWithTenant ev username secretKey []"

end
