(* ===== verification/ClientLink.thy ===== *)
theory ClientLink
  imports UserClient ProxySpec
begin

section \<open>The clients before the proxy\<close>

text \<open>
  The service discovery handler of the clients is instantiated with the proxy: a request is parsed as the
  HTTP server of the proxy parses it and served by \<open>restMux\<close>. The lemmas follow a write of the client
  library to the call that the proxy makes.
\<close>

subsection \<open>The link\<close>

text \<open>
  \<open>redirect\<close> is what the HTTP client makes of a path that the server would redirect, \<open>func\<close> the legacy
  \<open>/func\<close> exchange, through the HTTP server of PumiceDB; neither is in the repository.
\<close>

definition link_request :: "string \<Rightarrow> string list \<Rightarrow> (string \<times> string) list \<Rightarrow> string \<Rightarrow> (string \<times> string) list \<Rightarrow> http_req" where
  "link_request m segs q body headers =
     \<lparr>hq_Method = m, hq_Segs = segs, hq_Header = query_get headers, hq_Query = query_get q, hq_PathValue = (\<lambda>_. []),
      hq_Body = body\<rparr>"

definition proxy_link ::
  "client_json \<Rightarrow> (string \<Rightarrow> 's \<Rightarrow> (string \<times> int \<times> string option) \<times> 's)
   \<Rightarrow> (string \<Rightarrow> string \<Rightarrow> bool \<Rightarrow> 's \<Rightarrow> (string option \<times> string option) \<times> 's) \<Rightarrow> 's proxy \<Rightarrow> 's discovery" where
  "proxy_link js redirect func px =
     \<lparr>sd_TillReady = (\<lambda>s. (None, s)),
      sd_RESTRequest = (\<lambda>m path body headers s.
        case parse_target path of
          BadTarget \<Rightarrow> ((''400 Bad Request'', 400, None), s)
        | Unclean \<Rightarrow> redirect path s
        | Target segs q \<Rightarrow>
            (case restMux px (link_request m segs q body headers) s of
               (resp, s1) \<Rightarrow> ((je_body js (rw_body resp), rw_code resp, None), s1))),
      sd_Request = func\<rparr>"

abbreviation linked :: "'s cli_env \<Rightarrow> 's proxy \<Rightarrow> bool" where
  "linked ev px \<equiv> \<exists>redirect func. ev_sd ev = proxy_link (ev_js ev) redirect func px"

subsection \<open>Targets\<close>

lemma target_resource:
  "parse_target (''/api/resource?type='' @ QueryEscape t) = Target [''api'', ''resource''] [(''type'', t)]"
proof -
  have "cut (CHR ''?'') (''/api/resource'' @ CHR ''?'' # ''type'' @ CHR ''='' # QueryEscape t)
      = (''/api/resource'', ''type'' @ CHR ''='' # QueryEscape t)"
    by (rule cut_append) simp
  moreover have "parse_query (''type'' @ CHR ''='' # QueryEscape t) = [(''type'', t)]"
    by (rule parse_query_one) code_simp
  ultimately show ?thesis by (simp add: parse_target_def has_prefix_def clean_segs_def)
qed

lemma target_vdev:
  assumes "i \<noteq> []" and "i \<noteq> ''.''" and "i \<noteq> ''..''"
  shows "parse_target (''/api/vdev/'' @ PathEscape i) = Target [''api'', ''vdev'', i] []"
proof -
  have c: "cut (CHR ''?'') (PathEscape i) = (PathEscape i, [])"
    by (rule cut_absent) simp
  have "PathEscape i \<noteq> ''.''" "PathEscape i \<noteq> ''..''"
    using assms unescape_PathEscape[of i] by (auto simp: simp del: unescape_PathEscape)
  moreover have "split (CHR ''/'') (''api/vdev/'' @ PathEscape i) = [''api'', ''vdev'', PathEscape i]"
    by (simp add: split_no_sep)
  ultimately show ?thesis
    by (simp add: parse_target_def c has_prefix_def clean_segs_def parse_query_def query_pair_def Let_def)
qed

lemma target_plain:
  "parse_target ''/api/pfs'' = Target [''api'', ''pfs''] []"
  "parse_target ''/api/nisd_args'' = Target [''api'', ''nisd_args''] []"
  "parse_target ''/api/vdev'' = Target [''api'', ''vdev''] []"
  "parse_target ''/api/snap'' = Target [''api'', ''snap''] []"
  "parse_target ''/api/mount_vdev'' = Target [''api'', ''mount_vdev''] []"
  "parse_target ''/api/users'' = Target [''api'', ''users''] []"
  "parse_target ''/users/login'' = Target [''users'', ''login''] []"
  "parse_target ''/users/admin'' = Target [''users'', ''admin''] []"
  by code_simp+

subsection \<open>Routes\<close>

text \<open>The requests of the clients reach the handlers of their routes.\<close>

lemma mux_routes:
  fixes px :: "'s proxy"
  defines "rq \<equiv> link_request"
  shows "restMux px (rq ''PUT'' [''api'', ''resource''] q b h) s = handlePutResource px (rq ''PUT'' [''api'', ''resource''] q b h) s"
    and "restMux px (rq ''POST'' [''api'', ''pfs''] q b h) s = handlePutPFS px (rq ''POST'' [''api'', ''pfs''] q b h) s"
    and "restMux px (rq ''POST'' [''api'', ''nisd_args''] q b h) s = handlePutNisdArgs px (rq ''POST'' [''api'', ''nisd_args''] q b h) s"
    and "restMux px (rq ''POST'' [''api'', ''vdev''] q b h) s = handleCreateVdev px (rq ''POST'' [''api'', ''vdev''] q b h) s"
    and "restMux px (rq ''POST'' [''api'', ''mount_vdev''] q b h) s
           = (\<lparr>rw_code = 404, rw_body = TextBody ''404 page not found''\<rparr>, s)"
    and "i \<noteq> [] \<Longrightarrow> restMux px (rq ''DELETE'' [''api'', ''vdev'', i] q b h) s
           = handleDeleteVdev px ((rq ''DELETE'' [''api'', ''vdev'', i] q b h)\<lparr>hq_PathValue := (\<lambda>v. if v = ''id'' then i else [])\<rparr>) s"
    and "restMux px (rq ''POST'' [''api'', ''users''] q b h) s = handleCreateUser px (rq ''POST'' [''api'', ''users''] q b h) s"
    and "restMux px (rq ''POST'' [''users'', ''login''] q b h) s = handleLogin px (rq ''POST'' [''users'', ''login''] q b h) s"
  by (simp_all add: rq_def restMux_def rest_routes_def route_matches_def link_request_def if_distrib[of "case_option _ _"] cong: if_cong)

text \<open>The token and the key of a write arrive as they were sent.\<close>

lemma link_token:
  "tokenFromRequest (link_request m segs q b (restHeaders token wr @ hs))
     = (if token = [] then tokenFromRequest (link_request m segs q b hs) else token)"
  by (simp add: tokenFromRequest_def link_request_def restHeaders_def query_get_def Let_def)

definition rncui_of :: "client \<Rightarrow> string" where
  "rncui_of c = ccf_appUUID c @ '':0:0:0:'' @ utoa (unat (ccf_writeSeq c))"

definition next_write :: "client \<Rightarrow> client" where
  "next_write c = c\<lparr>ccf_writeSeq := ccf_writeSeq c + 1\<rparr>"

lemma trim_space_ends: "s \<noteq> [] \<Longrightarrow> \<not> is_space (hd s) \<Longrightarrow> \<not> is_space (last s) \<Longrightarrow> trim_space s = s"
proof -
  assume s: "s \<noteq> []" "\<not> is_space (hd s)" "\<not> is_space (last s)"
  then have "dropWhile is_space s = s" "dropWhile is_space (rev s) = rev s"
    by (simp_all add: dropWhile_eq_self_iff hd_rev)
  then show ?thesis by (simp add: trim_space_def)
qed

lemma digit_not_space: "digit_val x \<noteq> None \<Longrightarrow> \<not> is_space x"
  by (auto simp: digit_val_def is_space_def Let_def split: if_splits)

lemma link_rncui:
  assumes "ccf_appUUID c = [] \<or> \<not> is_space (hd (ccf_appUUID c))"
  shows "rncuiFromRequest (link_request m segs q b (restHeaders token wr @ [(rncuiHeader, rncui_of c)])) = Inr (rncui_of c)"
proof -
  have "\<not> is_space (last (utoa n))" for n
    using utoa_digits[of "last (utoa n)" n] by (intro digit_not_space) simp
  then have "trim_space (rncui_of c) = rncui_of c"
    using assms by (intro trim_space_ends; cases "ccf_appUUID c") (simp_all add: rncui_of_def is_space_def)
  then show ?thesis
    by (simp add: rncuiFromRequest_def link_request_def restHeaders_def query_get_def rncui_of_def Let_def)
qed

end
