(* ===== verification/ClientSpec.thy ===== *)
theory ClientSpec
  imports ClientLink ProxyData
begin

section \<open>What a client's write asks of the control plane\<close>

text \<open>
  The writes of the client library, followed through the proxy to the one call that the proxy makes.
  The transport of the proxy records its calls, so that the state behind the client is the list of them.
\<close>

subsection \<open>Running an operation\<close>

lemma op_simps [simp]:
  "op_go r st = (r, st)"
  "op_bind (op_go (Ret x)) k st = k x st"
  "op_bind nextRncui k (c, s) = k (rncui_of c) (next_write c, s)"
  by (simp_all add: op_go_def op_bind_def nextRncui_def rncui_of_def next_write_def)

lemma op_bind_keeps:
  "(\<And>x st1. snd (k x st1) = st1) \<Longrightarrow> snd (op_bind m k st) = snd (m st)"
  by (cases "m st"; cases "fst (m st)") (auto simp: op_bind_def)

lemma op_bind_fail: "m st = (Fail e, st1) \<Longrightarrow> op_bind m k st = (Fail e, st1)"
  by (simp add: op_bind_def)

lemma restWritten_keeps [simp]: "snd (restWritten ev named body st) = st"
  by (simp add: restWritten_def op_bind_keeps)

lemma next_write_simps [simp]:
  "ccf_token (next_write c) = ccf_token c" "ccf_appUUID (next_write c) = ccf_appUUID c"
  "ccf_writeSeq (next_write c) = ccf_writeSeq c + 1"
  by (simp_all add: next_write_def)

lemma rest_send_linked:
  assumes "linked ev px" and "parse_target path = Target segs q"
    and "restMux px (link_request m segs q body h) s = (resp, s')"
  shows "rest_send ev m path body h (c, s) = (restResult (ev_js ev) (je_body (ev_js ev) (rw_body resp), rw_code resp, None), c, s')"
  using assms by (auto simp: rest_send_def proxy_link_def)

lemma snd_rest_send_linked:
  assumes "linked ev px" and "parse_target path = Target segs q"
  shows "snd (rest_send ev m path body h (c, s)) = (c, snd (restMux px (link_request m segs q body h) s))"
  using rest_send_linked[OF assms, of m body h s "fst (restMux px (link_request m segs q body h) s)"
      "snd (restMux px (link_request m segs q body h) s)"] by simp

subsection \<open>What a write records\<close>

text \<open>The body of a request decodes to what was encoded.\<close>

fun delivered :: "client_json \<Rightarrow> json_codec \<Rightarrow> dto \<Rightarrow> bool" where
  "delivered js jc (D_PDU x) \<longleftrightarrow> js_PDU jc (je_dto js (D_PDU x)) = Inr x"
| "delivered js jc (D_Rack x) \<longleftrightarrow> js_Rack jc (je_dto js (D_Rack x)) = Inr x"
| "delivered js jc (D_Hypervisor x) \<longleftrightarrow> js_Hypervisor jc (je_dto js (D_Hypervisor x)) = Inr x"
| "delivered js jc (D_Device x) \<longleftrightarrow> js_Device jc (je_dto js (D_Device x)) = Inr x"
| "delivered js jc (D_NISD x) \<longleftrightarrow> js_NISD jc (je_dto js (D_NISD x)) = Inr x"
| "delivered js jc (D_Partition x) \<longleftrightarrow> js_Partition jc (je_dto js (D_Partition x)) = Inr x"
| "delivered js jc (D_PFS x) \<longleftrightarrow> js_PFS jc (je_dto js (D_PFS x)) = Inr x"
| "delivered js jc (D_NisdArgs x) \<longleftrightarrow> js_NisdArgs jc (je_dto js (D_NisdArgs x)) = Inr x"
| "delivered js jc (D_CreateVdev x) \<longleftrightarrow> js_CreateVdev jc (je_dto js (D_CreateVdev x)) = Inr x"
| "delivered js jc (D_CreateSnap x) \<longleftrightarrow> js_CreateSnap jc (je_dto js (D_CreateSnap x)) = Inr x"
| "delivered js jc (D_MountVdev x) \<longleftrightarrow> js_MountVdev jc (je_dto js (D_MountVdev x)) = Inr x"
| "delivered js jc (D_Login x) \<longleftrightarrow> js_Login jc (je_dto js (D_Login x)) = Inr x"
| "delivered js jc (D_CreateUser x) \<longleftrightarrow> js_CreateUser jc (je_dto js (D_CreateUser x)) = Inr x"
| "delivered js jc (D_CreateAdminUser x) \<longleftrightarrow> js_CreateAdminUser jc (je_dto js (D_CreateAdminUser x)) = Inr x"
| "delivered js jc (D_UpdateUser x) \<longleftrightarrow> js_UpdateUser jc (je_dto js (D_UpdateUser x)) = Inr x"

text \<open>The call a write of the client leads to: its token, its next idempotency key, sequence number 0.\<close>

definition client_call :: "client \<Rightarrow> string \<Rightarrow> any \<Rightarrow> call" where
  "client_call c name p =
     \<lparr>cl_name = name, cl_req = cpreq (ccf_token c) p, cl_write = True, cl_rncui = rncui_of c, cl_wsn = 0\<rparr>"

definition plain_uuid :: "client \<Rightarrow> bool" where
  "plain_uuid c \<longleftrightarrow> ccf_appUUID c = [] \<or> \<not> is_space (hd (ccf_appUUID c))"

lemma write_head:
  assumes "plain_uuid c"
  shows "tokenFromRequest (link_request m segs q b (restHeaders (ccf_token c) wr @ [(rncuiHeader, rncui_of c)])) = ccf_token c"
    and "rncuiFromRequest (link_request m segs q b (restHeaders (ccf_token c) wr @ [(rncuiHeader, rncui_of c)])) = Inr (rncui_of c)"
  using assms link_rncui[of c]
  by (simp_all add: link_token plain_uuid_def) (simp add: tokenFromRequest_def link_request_def query_get_def)

lemma runEntityWrite_records:
  assumes "px_sendFuncReqFn px = Some (recording ans)" and "rncuiFromRequest r = Inr rn"
  shows "snd (runEntityWrite px r op p i log)
           = log @ [\<lparr>cl_name = op, cl_req = cpreq (tokenFromRequest r) p, cl_write = True, cl_rncui = rn, cl_wsn = 0\<rparr>]"
  using assms by (simp add: runEntityWrite_def after_call_keeps snd_callFunc transport_def)

text \<open>The four transports of a write.\<close>

lemma client_put_resource:
  assumes "linked ev px"
  shows "snd (restWriteResource ev rtype d (c, s))
     = (next_write c, snd (handlePutResource px (link_request ''PUT'' [''api'', ''resource''] [(''type'', rtype)] (je_dto (ev_js ev) d)
          (restHeaders (ccf_token c) True @ [(rncuiHeader, rncui_of c)])) s))"
  by (simp add: restWriteResource_def op_bind_keeps restPut_def snd_rest_send_linked[OF assms target_resource[simplified]] mux_routes)

lemma client_write:
  assumes "linked ev px" and "parse_target path = Target segs []"
  shows "snd (restWrite ev path d (c, s))
     = (next_write c, snd (restMux px (link_request ''POST'' segs [] (je_dto (ev_js ev) d)
          (restHeaders (ccf_token c) True @ [(rncuiHeader, rncui_of c)])) s))"
  by (simp add: restWrite_def op_bind_keeps restPost_def snd_rest_send_linked[OF assms])

lemma put_case_records:
  assumes "px_sendFuncReqFn px = Some (recording ans)" and "rncuiFromRequest r = Inr rn"
    and "b = Inr x" and "key x \<noteq> []"
  shows "snd (put_case px r b key missing op build log)
           = log @ [\<lparr>cl_name = op, cl_req = cpreq (tokenFromRequest r) (build x), cl_write = True, cl_rncui = rn, cl_wsn = 0\<rparr>]"
  using assms by (simp add: put_case_def decodeJSONBodyMethod_def runEntityWrite_records)

lemma resource_types:
  "to_lower (trim_space ''pdu'') = ''pdu''" "to_lower (trim_space ''rack'') = ''rack''"
  "to_lower (trim_space ''hypervisor'') = ''hypervisor''" "to_lower (trim_space ''device'') = ''device''"
  "to_lower (trim_space ''nisd'') = ''nisd''" "to_lower (trim_space ''partition'') = ''partition''"
  by code_simp+

lemma link_request_simps [simp]:
  "hq_Method (link_request m segs q b h) = m" "hq_Body (link_request m segs q b h) = b"
  "hq_Query (link_request m segs q b h) = query_get q" "hq_PathValue (link_request m segs q b h) = (\<lambda>_. [])"
  by (simp_all add: link_request_def)

text \<open>The bodies of the client are those the proxy shows.\<close>

lemma client_bodies:
  "PutPDU ev (Some p) = restWriteResource ev ''pdu'' (D_PDU (toRestPDU p))"
  "PutRack ev (Some k) = restWriteResource ev ''rack'' (D_Rack (toRestRack k))"
  "PutHypervisor ev (Some h) = restWriteResource ev ''hypervisor'' (D_Hypervisor (toRestHypervisor h))"
  "PutDevice ev (Some d) = restWriteResource ev ''device'' (D_Device (toRestDevice d))"
  "PutNisd ev (Some n) = restWriteResource ev ''nisd'' (D_NISD (toRestNISD n))"
  "PutPartition ev (Some pt) = restWriteResource ev ''partition'' (D_Partition (toRestPartition pt))"
  "PutPFS ev (Some f) = restWrite ev ''/api/pfs'' (D_PFS (toRestPFS f))"
  by (simp_all add: PutPDU_def toRestPDU_def PutRack_def toRestRack_def PutHypervisor_def toRestHypervisor_def
      PutDevice_def toRestDevice_def PutNisd_def toRestNISD_def PutPartition_def toRestPartition_def
      PutPFS_def toRestPFS_def rest_net_of_def[abs_def])

lemma toRest_ids:
  "rp_id (toRestPDU p) = p_ID p" "rr_id (toRestRack k) = r_ID k" "rh_id (toRestHypervisor h) = h_ID h"
  "rd_id (toRestDevice d) = d_ID d" "rs_id (toRestNISD n) = n_ID n"
  "ra_partition_id (toRestPartition pt) = pt_PartitionID pt"
  by (simp_all add: toRestPDU_def toRestRack_def toRestHypervisor_def toRestDevice_def toRestNISD_def toRestPartition_def)

lemma entity_writes_arrive:
  assumes px: "px_sendFuncReqFn px = Some (recording ans)" and link: "linked ev px" and uuid: "plain_uuid c"
  shows "delivered (ev_js ev) (px_json px) (D_PDU (toRestPDU p)) \<Longrightarrow> p_ID p \<noteq> [] \<Longrightarrow>
      snd (PutPDU ev (Some p) (c, log)) = (next_write c, log @ [client_call c PUT_PDU (A_PDU (p\<lparr>p_Racks := []\<rparr>))])"
    and "delivered (ev_js ev) (px_json px) (D_Rack (toRestRack k)) \<Longrightarrow> r_ID k \<noteq> [] \<Longrightarrow>
      snd (PutRack ev (Some k) (c, log)) = (next_write c, log @ [client_call c PUT_RACK (A_Rack (k\<lparr>r_Hypervisors := []\<rparr>))])"
    and "delivered (ev_js ev) (px_json px) (D_Hypervisor (toRestHypervisor h)) \<Longrightarrow> h_ID h \<noteq> [] \<Longrightarrow>
      snd (PutHypervisor ev (Some h) (c, log))
        = (next_write c, log @ [client_call c PUT_HYPERVISOR (A_Hypervisor (h\<lparr>h_Dev := []\<rparr>))])"
    and "delivered (ev_js ev) (px_json px) (D_Device (toRestDevice d)) \<Longrightarrow> d_ID d \<noteq> [] \<Longrightarrow>
      snd (PutDevice ev (Some d) (c, log)) = (next_write c, log @ [client_call c PUT_DEVICE (A_Device (d\<lparr>d_Partitions := []\<rparr>))])"
    and "delivered (ev_js ev) (px_json px) (D_NISD (toRestNISD n)) \<Longrightarrow> n_ID n \<noteq> [] \<Longrightarrow>
      snd (PutNisd ev (Some n) (c, log))
        = (next_write c, log @ [client_call c PUT_NISD (A_Nisd (n\<lparr>n_NetInfoCnt := int (length (n_NetInfo n))\<rparr>))])"
    and "delivered (ev_js ev) (px_json px) (D_Partition (toRestPartition pt)) \<Longrightarrow> pt_PartitionID pt \<noteq> [] \<Longrightarrow>
      snd (PutPartition ev (Some pt) (c, log)) = (next_write c, log @ [client_call c PUT_PARTITION (A_Partition pt)])"
  unfolding client_bodies client_put_resource[OF link]
  by (simp_all add: handlePutResource_def query_get_def resource_types Let_def put_case_records[OF px] write_head[OF uuid]
      put_toRest client_call_def toRest_ids)

lemma other_writes_arrive:
  assumes px: "px_sendFuncReqFn px = Some (recording ans)" and link: "linked ev px" and uuid: "plain_uuid c"
  shows "delivered (ev_js ev) (px_json px) (D_PFS (toRestPFS f)) \<Longrightarrow>
      snd (PutPFS ev (Some f) (c, log)) = (next_write c, log @ [client_call c PUT_PFS (A_PFS f)])"
    and "delivered (ev_js ev) (px_json px) (D_NisdArgs (nisd_args_body a)) \<Longrightarrow>
      snd (PutNisdArgs ev (Some a) (c, log)) = (next_write c, log @ [client_call c PUT_NISD_ARGS (A_NisdArgs a)])"
    and "trim_space i = i \<Longrightarrow> i \<notin> {[], ''.'', ''..''} \<Longrightarrow>
      snd (DeleteVdev ev (Some i) (c, log)) = (next_write c, log @ [client_call c DELETE_VDEV (A_DeleteVdevReq i)])"
proof -
  note head = write_head[OF uuid] requireMethod_def require_def decodeJSONBodyMethod_def runEntityWrite_records[OF px]
    client_call_def
  show "snd (PutPFS ev (Some f) (c, log)) = (next_write c, log @ [client_call c PUT_PFS (A_PFS f)])"
    if "delivered (ev_js ev) (px_json px) (D_PFS (toRestPFS f))"
    using that unfolding client_bodies client_write[OF link target_plain(1)] mux_routes handlePutPFS_def
    by (cases f) (simp add: head toRestPFS_def)
  show "snd (PutNisdArgs ev (Some a) (c, log)) = (next_write c, log @ [client_call c PUT_NISD_ARGS (A_NisdArgs a)])"
    if "delivered (ev_js ev) (px_json px) (D_NisdArgs (nisd_args_body a))"
    using that unfolding PutNisdArgs_def option.case client_write[OF link target_plain(2)] mux_routes handlePutNisdArgs_def
    by (cases a) (simp add: head nisd_args_body_def)
  show "snd (DeleteVdev ev (Some i) (c, log)) = (next_write c, log @ [client_call c DELETE_VDEV (A_DeleteVdevReq i)])"
    if "trim_space i = i" "i \<notin> {[], ''.'', ''..''}"
  proof -
    have t: "parse_target (''/api/vdev/'' @ PathEscape i) = Target [''api'', ''vdev'', i] []"
      by (rule target_vdev) (use that in auto)
    let ?rq = "link_request ''DELETE'' [''api'', ''vdev'', i] [] [] (restHeaders (ccf_token c) False @ [(rncuiHeader, rncui_of c)])"
    have "snd (DeleteVdev ev (Some i) (c, log)) = (next_write c, snd (restMux px ?rq log))"
      using that snd_rest_send_linked[OF link t, of "''DELETE''" "[]" "restHeaders (ccf_token c) False @ [(rncuiHeader, rncui_of c)]"
          "next_write c" log]
      by (simp add: DeleteVdev_def restDelete_def op_bind_keeps)
    moreover have "rncuiFromRequest (?rq\<lparr>hq_PathValue := pv\<rparr>) = rncuiFromRequest ?rq"
      "tokenFromRequest (?rq\<lparr>hq_PathValue := pv\<rparr>) = tokenFromRequest ?rq" for pv
      by (simp_all add: rncuiFromRequest_def tokenFromRequest_def)
    ultimately show ?thesis
      using that by (simp add: mux_routes(6) handleDeleteVdev_def Let_def head)
  qed
qed

lemma ParseFD_FDName:
  "(\<forall>n. t \<noteq> FD_Other n) \<Longrightarrow> ParseFD (if t \<noteq> FD_ANY then FDName t else []) = Ret t"
proof -
  have "ParseFD [] = Ret FD_ANY" "ParseFD ''pdu'' = Ret FD_PDU" "ParseFD ''rack'' = Ret FD_RACK" "ParseFD ''hv'' = Ret FD_HV"
    "ParseFD ''device'' = Ret FD_DEVICE" "ParseFD ''partition'' = Ret FD_PARTITION"
    by code_simp+
  then show "(\<forall>n. t \<noteq> FD_Other n) \<Longrightarrow> ParseFD (if t \<noteq> FD_ANY then FDName t else []) = Ret t"
    by (cases t) simp_all
qed

text \<open>
  A vdev of the client library reaches the control plane with its size, its data blocks and its failure
  domain, but as a replicated vdev without parity blocks, whatever redundancy it asked for.
\<close>

lemma create_vdev_arrives:
  assumes px: "px_sendFuncReqFn px = Some (recording ans)" and link: "linked ev px" and uuid: "plain_uuid c"
    and json: "delivered (ev_js ev) (px_json px) (D_CreateVdev (create_vdev_body v flt))"
    and ok: "0 < sint (v_Size v)" "v_DataBlkCnt v \<noteq> 0" "\<forall>n. f_Type flt \<noteq> FD_Other n"
  shows "\<exists>cfg. snd (CreateVdev ev (Some (Some v, flt)) (c, log))
             = (next_write c, log @ [client_call c CREATE_VDEV (A_VdevReq (Some cfg) flt)])
           \<and> cfg = vdevCfg_of (px_uuid_ok px) (create_vdev_body v flt)
           \<and> v_Size cfg = v_Size v \<and> v_DataBlkCnt cfg = v_DataBlkCnt v \<and> v_Name cfg = trim_space (v_Name v)
           \<and> v_Redundancy cfg = RMReplica \<and> v_ParityBlkCnt cfg = 0"
proof -
  let ?b = "create_vdev_body v flt" and ?rq = "link_request ''POST'' [''api'', ''vdev''] []
    (je_dto (ev_js ev) (D_CreateVdev (create_vdev_body v flt))) (restHeaders (ccf_token c) True @ [(rncuiHeader, rncui_of c)])"
  let ?cfg = "vdevCfg_of (px_uuid_ok px) ?b"
  have "snd (CreateVdev ev (Some (Some v, flt)) (c, log)) = (next_write c, snd (handleCreateVdev px ?rq log))"
    by (simp add: CreateVdev_def op_bind_keeps restPost_def snd_rest_send_linked[OF link target_plain(3)] mux_routes)
  moreover have "snd (handleCreateVdev px ?rq log)
      = log @ [client_call c CREATE_VDEV (A_VdevReq (Some ?cfg) flt)]"
  proof -
    have "\<not> cv_data_blk_cnt ?b < 1" "\<not> 255 < cv_data_blk_cnt ?b"
    proof -
      have "uint (v_DataBlkCnt v) < 256" using unsigned_less[of "v_DataBlkCnt v"] by simp
      moreover have "uint (v_DataBlkCnt v) \<noteq> 0" using ok(2) by (simp add: uint_0_iff)
      moreover have "0 \<le> uint (v_DataBlkCnt v)" by simp
      ultimately have "1 \<le> uint (v_DataBlkCnt v)" "uint (v_DataBlkCnt v) \<le> 255" by linarith+
      then show "\<not> cv_data_blk_cnt ?b < 1" "\<not> 255 < cv_data_blk_cnt ?b" by (simp_all add: create_vdev_body_def)
    qed
    moreover have "\<not> cv_size_bytes ?b <s 1" using ok(1) by (simp add: create_vdev_body_def word_sless_alt)
    moreover have "ParseFD (cv_failure_domain ?b) = Ret (f_Type flt)"
      using ParseFD_FDName[OF ok(3)] by (simp add: create_vdev_body_def)
    moreover have "(if cv_entity_ids ?b \<noteq> [] then cv_entity_ids ?b ! 0 else []) = f_ID flt"
      by (simp add: create_vdev_body_def)
    moreover have "\<lparr>f_ID = f_ID flt, f_Type = f_Type flt\<rparr> = flt" by simp
    ultimately show ?thesis
      using json by (simp add: handleCreateVdev_def require_def requireMethod_def decodeJSONBodyMethod_def
        write_head[OF uuid] Let_def after_call_keeps snd_callFunc transport_def px client_call_def, cases flt, simp)
  qed
  moreover have "v_DataBlkCnt ?cfg = v_DataBlkCnt v" "v_Size ?cfg = v_Size v" "v_Name ?cfg = trim_space (v_Name v)"
    "v_Redundancy ?cfg = RMReplica" "v_ParityBlkCnt ?cfg = 0"
    by (simp_all add: vdevCfg_of_def create_vdev_body_def new_vdev_def Let_def)
  ultimately show ?thesis by (intro exI[of _ ?cfg]) simp
qed

subsection \<open>Logins\<close>

text \<open>A login reads: it carries no idempotency key.\<close>

lemma login_request:
  assumes "px_sendFuncReqFn px = Some (recording ans)"
  shows "\<exists>cs. snd (restMux px (link_request ''POST'' [''users'', ''login''] [] body [(''Content-Type'', ''application/json'')]) log)
     = log @ cs \<and> filter cl_write cs = []"
proof -
  let ?r = "link_request ''POST'' [''users'', ''login''] [] body [(''Content-Type'', ''application/json'')]"
  from restMux_calls[of px ?r log] assms obtain cs where cs: "snd (restMux px ?r log) = log @ cs" "call_list_ok ?r cs"
    by (auto simp: calls_ok_def transport_def)
  have "rncuiFromRequest ?r \<noteq> Inr k" for k
    by (simp add: rncuiFromRequest_def link_request_def query_get_def trim_space_def Let_def)
  with cs show ?thesis
    by (auto simp: call_list_ok_def write_call_ok_def list_all_iff filter_empty_conv intro!: exI[of _ cs])
qed

lemma uc_Login_reads:
  assumes "px_sendFuncReqFn px = Some (recording ans)" and "linked ev px"
  shows "\<exists>cs. snd (uc_Login ev username secretKey (u, log)) = (u, log @ cs) \<and> filter cl_write cs = []"
proof -
  obtain redirect func where ev: "ev_sd ev = proxy_link (ev_js ev) redirect func px" using assms(2) by blast
  let ?b = "je_dto (ev_js ev) (D_Login \<lparr>lq_username = username, lq_password = secretKey, lq_tenant_uuid = []\<rparr>)"
  from login_request[OF assms(1), of ?b log] obtain cs where
    cs: "snd (restMux px (link_request ''POST'' [''users'', ''login''] [] ?b [(''Content-Type'', ''application/json'')]) log) = log @ cs"
    "filter cl_write cs = []" by blast
  have "snd (uc_Login ev username secretKey (u, log)) = (u, log @ cs)"
    using cs(1) by (auto simp: uc_Login_def LoginWithTenant_def Let_def ev proxy_link_def target_plain split: prod.splits go.splits)
  with cs(2) show ?thesis by blast
qed

text \<open>A vdev without data blocks is refused by the proxy.\<close>

lemma create_vdev_refused:
  assumes link: "linked ev px" and json: "delivered (ev_js ev) (px_json px) (D_CreateVdev (create_vdev_body v flt))"
    and "v_DataBlkCnt v = 0"
  shows "snd (CreateVdev ev (Some (Some v, flt)) (c, s)) = (next_write c, s)"
    and "\<exists>m. fst (CreateVdev ev (Some (Some v, flt)) (c, s))
      = (case decodeEnvelope (ev_js ev) want_CreateVdev (je_body (ev_js ev) (ErrorBody StatusInvalidRequest m)) of
           Ret x \<Rightarrow> Ret \<lparr>rx_Name = [], rx_ID = cvp_vdev_id x, rx_Error = [], rx_Success = True\<rparr> | Fail e \<Rightarrow> Fail e | Panic \<Rightarrow> Panic)"
proof -
  let ?rq = "link_request ''POST'' [''api'', ''vdev''] [] (je_dto (ev_js ev) (D_CreateVdev (create_vdev_body v flt)))
    (restHeaders (ccf_token c) True @ [(rncuiHeader, rncui_of c)])"
  have n: "cv_data_blk_cnt (create_vdev_body v flt) = 0" using assms(3) by (simp add: create_vdev_body_def)
  have "\<exists>m. handleCreateVdev px ?rq s = (WriteMethodError StatusInvalidRequest m, s)"
    using json n by (cases "cv_size_bytes (create_vdev_body v flt) <s 1")
      (auto simp: handleCreateVdev_def require_def requireMethod_def decodeJSONBodyMethod_def)
  then obtain m where m: "handleCreateVdev px ?rq s = (WriteMethodError StatusInvalidRequest m, s)" by blast
  have r: "restPost ev ''/api/vdev'' (je_dto (ev_js ev) (D_CreateVdev (create_vdev_body v flt))) (rncui_of c) (next_write c, s)
      = (Ret (je_body (ev_js ev) (ErrorBody StatusInvalidRequest m)), next_write c, s)"
    using rest_send_linked[OF link target_plain(3), of "''POST''"] m
    by (simp add: restPost_def mux_routes WriteMethodError_def restResult_def)
  show "snd (CreateVdev ev (Some (Some v, flt)) (c, s)) = (next_write c, s)"
    by (simp add: CreateVdev_def op_bind_keeps r)
  show "\<exists>m. fst (CreateVdev ev (Some (Some v, flt)) (c, s))
      = (case decodeEnvelope (ev_js ev) want_CreateVdev (je_body (ev_js ev) (ErrorBody StatusInvalidRequest m)) of
           Ret x \<Rightarrow> Ret \<lparr>rx_Name = [], rx_ID = cvp_vdev_id x, rx_Error = [], rx_Success = True\<rparr> | Fail e \<Rightarrow> Fail e | Panic \<Rightarrow> Panic)"
    by (intro exI[of _ m], cases "decodeEnvelope (ev_js ev) want_CreateVdev (je_body (ev_js ev) (ErrorBody StatusInvalidRequest m))")
      (simp_all add: CreateVdev_def r op_bind_def[of "restPost _ _ _ _"] op_bind_def[of "op_go _"])
qed

subsection \<open>Idempotency keys\<close>

text \<open>The steps of a client: its writes with any arguments, and a change of its token.\<close>

inductive client_step :: "call list cli_env \<Rightarrow> client \<times> call list \<Rightarrow> client \<times> call list \<Rightarrow> bool"
  for ev :: "call list cli_env" where
  "client_step ev st (snd (PutPDU ev pdu st))"
| "client_step ev st (snd (PutRack ev rack st))"
| "client_step ev st (snd (PutHypervisor ev hv st))"
| "client_step ev st (snd (PutDevice ev dev st))"
| "client_step ev st (snd (PutNisd ev nisd st))"
| "client_step ev st (snd (PutPartition ev pt st))"
| "client_step ev st (snd (PutPFS ev pfs st))"
| "client_step ev st (snd (PutNisdArgs ev args st))"
| "client_step ev st (snd (CreateSnap ev vdev chunks name st))"
| "client_step ev st (snd (CreateVdev ev req st))"
| "client_step ev st (snd (MountVdev ev vid st))"
| "i \<notin> {Some ''.'', Some ''..''} \<Longrightarrow> client_step ev st (snd (DeleteVdev ev i st))"
| "client_step ev (c, log) (SetToken token c, log)"

text \<open>A step that adds no write, or the write of the next key.\<close>

definition next_key :: "client \<Rightarrow> call list \<Rightarrow> client \<times> call list \<Rightarrow> bool" where
  "next_key c log st \<longleftrightarrow> (\<exists>c' cs. st = (c', log @ cs) \<and> ccf_appUUID c' = ccf_appUUID c
     \<and> (filter cl_write cs = [] \<and> ccf_writeSeq c' = ccf_writeSeq c
        \<or> ccf_writeSeq c' = ccf_writeSeq c + 1 \<and> (\<forall>w \<in> set (filter cl_write cs). cl_rncui w = rncui_of c)
          \<and> length (filter cl_write cs) \<le> 1))"

lemma next_key_same [simp]: "next_key c log (c, log)"
  by (auto simp: next_key_def intro!: exI[of _ c] exI[of _ "[]"])

lemma send_next_key:
  assumes px: "px_sendFuncReqFn px = Some (recording ans)" and link: "linked ev px" and uuid: "plain_uuid c"
    and t: "parse_target path = Target segs q"
  shows "next_key c log (snd (rest_send ev m path b (restHeaders (ccf_token c) wr @ [(rncuiHeader, rncui_of c)]) (next_write c, log)))"
proof -
  let ?r = "link_request m segs q b (restHeaders (ccf_token c) wr @ [(rncuiHeader, rncui_of c)])"
  from restMux_calls[of px ?r log] px obtain cs where cs: "snd (restMux px ?r log) = log @ cs" "call_list_ok ?r cs"
    by (auto simp: calls_ok_def transport_def)
  from cs(2) have "filter cl_write cs = [] \<or> (\<exists>w. filter cl_write cs = [w] \<and> cl_rncui w = rncui_of c)"
    unfolding call_list_ok_def
    by (auto simp: write_call_ok_def write_head[OF uuid] filter_empty_conv list_all_iff)
  then have w: "\<forall>w \<in> set (filter cl_write cs). cl_rncui w = rncui_of c" "length (filter cl_write cs) \<le> 1"
    by (elim disjE exE conjE; simp only: list.set list.size ball_simps; simp)+
  show ?thesis
    unfolding snd_rest_send_linked[OF link t] cs(1) next_key_def
    by (intro exI[of _ "next_write c"] exI[of _ cs] conjI refl disjI2 w) simp_all
qed

lemma client_step_next_key:
  assumes px: "px_sendFuncReqFn px = Some (recording ans)" and link: "linked ev px" and uuid: "plain_uuid c"
    and step: "client_step ev (c, log) st"
  shows "next_key c log st"
proof -
  note send = send_next_key[OF px link uuid]
  have put: "next_key c log (snd (restWriteResource ev t d (c, log)))" for t d
    using send[OF target_resource[of t], of log "''PUT''" _ True]
    by (simp add: restWriteResource_def op_bind_keeps restPut_def)
  have post: "next_key c log (snd (restWrite ev path d (c, log)))" if "parse_target path = Target segs q" for path segs q d
    using send[OF that, of log "''POST''" _ True] by (simp add: restWrite_def op_bind_keeps restPost_def)
  have raw: "next_key c log (snd (restPost ev path b (rncui_of c) (next_write c, log)))"
    if "parse_target path = Target segs q" for path segs q b
    using send[OF that, of log "''POST''" _ True] by (simp add: restPost_def)
  from step show ?thesis
  proof (cases rule: client_step.cases)
    case (1 p) then show ?thesis by (cases p) (simp_all add: PutPDU_def put)
  next
    case (2 p) then show ?thesis by (cases p) (simp_all add: PutRack_def put)
  next
    case (3 p) then show ?thesis by (cases p) (simp_all add: PutHypervisor_def put)
  next
    case (4 p) then show ?thesis by (cases p) (simp_all add: PutDevice_def put)
  next
    case (5 p) then show ?thesis by (cases p) (simp_all add: PutNisd_def put)
  next
    case (6 p) then show ?thesis by (cases p) (simp_all add: PutPartition_def put)
  next
    case (7 p) then show ?thesis by (cases p) (simp_all add: PutPFS_def post[OF target_plain(1)])
  next
    case (8 p) then show ?thesis by (cases p) (simp_all add: PutNisdArgs_def post[OF target_plain(2)])
  next
    case 9 then show ?thesis by (simp add: CreateSnap_def op_bind_keeps raw[OF target_plain(4)])
  next
    case (10 p)
    then show ?thesis by (auto simp: CreateVdev_def op_bind_keeps raw[OF target_plain(3)] split: option.split prod.split)
  next
    case (11 p) then show ?thesis by (cases p) (simp_all add: MountVdev_def op_bind_keeps raw[OF target_plain(5)])
  next
    case (12 p)
    show ?thesis
    proof (cases "p = None \<or> p = Some []")
      case False
      then obtain i where i: "p = Some i" "i \<noteq> []" by auto
      with 12 have "parse_target (''/api/vdev/'' @ PathEscape i) = Target [''api'', ''vdev'', i] []"
        by (intro target_vdev) auto
      from send[OF this, of log "''DELETE''" "[]" False] 12 i show ?thesis
        by (simp add: DeleteVdev_def restDelete_def op_bind_keeps)
    qed (use 12 in \<open>auto simp: DeleteVdev_def\<close>)
  next
    case 13
    then show ?thesis unfolding next_key_def
      by (intro exI[of _ st] exI) (auto simp: SetToken_def intro!: exI[of _ "[]"])
  qed
qed

lemma client_run_keys:
  assumes px: "px_sendFuncReqFn px = Some (recording ans)" and link: "linked ev px"
    and uuid: "uuid = [] \<or> \<not> is_space (hd uuid)"
    and run: "(client_step ev ^^ n) (InitCliCFuncs json uuid, []) (c, log)" and n: "n \<le> 2 ^ 64"
  shows "\<exists>k \<le> n. ccf_writeSeq c = of_nat k \<and> ccf_appUUID c = uuid \<and> distinct (map cl_rncui (filter cl_write log))
     \<and> (\<forall>w \<in> set (filter cl_write log). \<exists>j < k. cl_rncui w = uuid @ '':0:0:0:'' @ utoa j)"
  using run n
proof (induction n arbitrary: c log)
  case 0
  then show ?case by (auto simp: InitCliCFuncs_def)
next
  case (Suc n)
  from Suc.prems(1) obtain c1 log1 where r: "(client_step ev ^^ n) (InitCliCFuncs json uuid, []) (c1, log1)"
    "client_step ev (c1, log1) (c, log)" by (auto elim!: relpowp_Suc_E)
  from Suc.IH[OF r(1)] Suc.prems(2) obtain k where k: "k \<le> n" "ccf_writeSeq c1 = of_nat k" "ccf_appUUID c1 = uuid"
    "distinct (map cl_rncui (filter cl_write log1))"
    "\<forall>w \<in> set (filter cl_write log1). \<exists>j < k. cl_rncui w = uuid @ '':0:0:0:'' @ utoa j" by auto
  have key: "rncui_of c1 = uuid @ '':0:0:0:'' @ utoa k"
    using k(1-3) Suc.prems(2) by (simp add: rncui_of_def unsigned_of_nat take_bit_nat_eq_self)
  have "next_key c1 log1 (c, log)"
    by (rule client_step_next_key[OF px link _ r(2)]) (use uuid k(3) in \<open>simp add: plain_uuid_def\<close>)
  then obtain cs where cs: "log = log1 @ cs" "ccf_appUUID c = uuid"
    "filter cl_write cs = [] \<and> ccf_writeSeq c = of_nat k
     \<or> ccf_writeSeq c = of_nat (Suc k) \<and> (\<forall>w \<in> set (filter cl_write cs). cl_rncui w = rncui_of c1)
       \<and> length (filter cl_write cs) \<le> 1"
    using k(2,3) by (auto simp: next_key_def add.commute)
  from cs(3) show ?case
  proof (elim disjE conjE)
    assume "filter cl_write cs = []" "ccf_writeSeq c = of_nat k"
    with k cs(1,2) show ?case by (intro exI[of _ k]) simp
  next
    assume a: "ccf_writeSeq c = of_nat (Suc k)" "\<forall>w \<in> set (filter cl_write cs). cl_rncui w = rncui_of c1"
      "length (filter cl_write cs) \<le> 1"
    then consider "filter cl_write cs = []" | w where "filter cl_write cs = [w]" "cl_rncui w = rncui_of c1"
      by (cases "filter cl_write cs"; cases "tl (filter cl_write cs)") auto
    then show ?case
    proof cases
      case 1
      with k cs(1,2) a(1) show ?thesis by (intro exI[of _ "Suc k"]) (auto simp: Ex_less_Suc)
    next
      case (2 w)
      have "cl_rncui w \<notin> set (map cl_rncui (filter cl_write log1))"
        using k(5) 2(2) key by (auto simp: utoa_inject)
      with 2 k cs(1,2) a(1) key show ?thesis by (intro exI[of _ "Suc k"]) (auto simp: Ex_less_Suc)
    qed
  qed
qed

section \<open>Properties\<close>

text \<open>An operation that leads to one call, with the next key.\<close>

definition arrives :: "('a, call list) cli_op \<Rightarrow> client \<Rightarrow> call list \<Rightarrow> string \<Rightarrow> any \<Rightarrow> bool" where
  "arrives op c log name p \<longleftrightarrow> snd (op (c, log)) = (next_write c, log @ [client_call c name p])"


text \<open>
  C24: idempotency keys. However a client is used, before a proxy that it reaches and whatever PMDB
  answers, no two writes of up to \<open>2\<^sup>6\<^sup>4\<close> operations carry the same idempotency key, and every key is the
  identifier of the client with a counter: no write of the client is taken for the repetition of another.
\<close>

theorem client_keys_distinct:
  assumes "px_sendFuncReqFn px = Some (recording ans)" and "linked ev px" and "uuid = [] \<or> \<not> is_space (hd uuid)"
    and "(client_step ev ^^ n) (InitCliCFuncs json uuid, []) (c, log)" and "n \<le> 2 ^ 64"
  shows "distinct (map cl_rncui (filter cl_write log))
     \<and> (\<forall>w \<in> set log. cl_write w \<longrightarrow> (\<exists>j < 2 ^ 64. cl_rncui w = uuid @ '':0:0:0:'' @ utoa j))"
proof -
  from client_run_keys[OF assms] obtain k where k: "k \<le> n" "distinct (map cl_rncui (filter cl_write log))"
    "\<forall>w \<in> set (filter cl_write log). \<exists>j < k. cl_rncui w = uuid @ '':0:0:0:'' @ utoa j" by blast
  have "\<exists>j < 2 ^ 64. cl_rncui w = uuid @ '':0:0:0:'' @ utoa j" if "w \<in> set log" "cl_write w" for w
  proof -
    from k(3) that obtain j where "j < k" "cl_rncui w = uuid @ '':0:0:0:'' @ utoa j" by auto
    with k(1) assms(5) show ?thesis by (intro exI[of _ j]) linarith
  qed
  with k(2) show ?thesis by blast
qed

text \<open>
  Mounting through the client library. \<open>MountVdev\<close> posts to \<open>/api/mount_vdev\<close>, which is not a route of
  the proxy (the route is \<open>/api/vdev/mount\<close>): every mount fails with 404, nothing is sent to the control
  plane, and an idempotency key is spent.
\<close>

theorem client_mount_fails:
  assumes "linked ev px" and "jd_error (ev_js ev) (je_body (ev_js ev) (TextBody ''404 page not found'')) = Inl err"
  shows "MountVdev ev (Some i) (c, s)
     = (Fail (''control plane returned 404: '' @ je_body (ev_js ev) (TextBody ''404 page not found'')), next_write c, s)"
proof -
  have n: "itoa 404 = ''404''" by code_simp
  show ?thesis
    by (simp add: MountVdev_def op_bind_fail restPost_def
        rest_send_linked[OF assms(1) target_plain(5) mux_routes(5)] restResult_def assms(2) n)
qed

section \<open>Witnesses\<close>

definition sample_json :: client_json where
  "sample_json = \<lparr>je_dto = (\<lambda>_. ''{}''), je_body = (\<lambda>b. case b of TextBody t \<Rightarrow> t | _ \<Rightarrow> ''{}''),
     jd_envelope = (\<lambda>_ _. Inr (0, [], None)), jd_error = (\<lambda>_. Inl ''invalid character''), jd_resource = (\<lambda>_ r. Inr r)\<rparr>"

definition sample_func_codec :: func_codec where
  "sample_func_codec = \<lparr>fx_EncReq = (\<lambda>_ _. Inr []), fx_EncSnap = (\<lambda>_ _. Inr []), fx_DecReq = (\<lambda>_ _ _. Inl ''EOF''),
     fx_EncResp = (\<lambda>_ _. Inr []), fx_DecResp = (\<lambda>_ _ _. Inl ''EOF'')\<rparr>"

definition rack7 :: rack where
  "rack7 = \<lparr>r_ID = ''rack7'', r_Name = ''r'', r_PDUID = ''pdu1'', r_Location = ''hall'', r_Specification = [], r_Hypervisors = []\<rparr>"

definition rack_proxy :: "call list proxy" where
  "rack_proxy = sample_proxy\<lparr>px_json := sample_codec\<lparr>js_Rack := (\<lambda>_. Inr (toRestRack rack7))\<rparr>\<rparr>"

definition rack_env :: "call list cli_env" where
  "rack_env = \<lparr>ev_sd = proxy_link sample_json (\<lambda>_ s. (([], 301, None), s)) (\<lambda>_ _ _ s. ((None, None), s)) rack_proxy,
     ev_js = sample_json, ev_fx = sample_func_codec, ev_quote = (\<lambda>s. s)\<rparr>"

lemma rack_sample:
  "\<exists>ans. px_sendFuncReqFn rack_proxy = Some (recording ans)" "linked rack_env rack_proxy"
  "delivered (ev_js rack_env) (px_json rack_proxy) (D_Rack (toRestRack rack7))"
  by (auto simp: rack_proxy_def rack_env_def sample_proxy_def)


theorem client_keys_distinct_witness:
  "distinct (map cl_rncui (filter cl_write (snd (snd (PutRack rack_env (Some rack7)
      (snd (PutRack rack_env (Some rack7) (InitCliCFuncs ''json'' ''c1'', []))))))))"
proof -
  obtain ans where a: "px_sendFuncReqFn rack_proxy = Some (recording ans)" using rack_sample(1) by blast
  let ?st = "\<lambda>st. snd (PutRack rack_env (Some rack7) st)" and ?c = "InitCliCFuncs ''json'' ''c1''"
  have "client_step rack_env (?c, []) (?st (?c, []))" "client_step rack_env (?st (?c, [])) (?st (?st (?c, [])))"
    by (rule client_step.intros)+
  then have "(client_step rack_env ^^ 2) (?c, []) (fst (?st (?st (?c, []))), snd (?st (?st (?c, []))))"
    by (auto simp: numeral_2_eq_2)
  from client_keys_distinct[OF a rack_sample(2) _ this] show ?thesis by (simp add: is_space_def)
qed

theorem client_mount_fails_witness:
  "MountVdev rack_env (Some ''v1'') (InitCliCFuncs ''json'' ''c1'', [])
     = (Fail ''control plane returned 404: 404 page not found'', next_write (InitCliCFuncs ''json'' ''c1''), [])"
  using client_mount_fails[OF rack_sample(2), of "''invalid character''" "''v1''" "InitCliCFuncs ''json'' ''c1''" "[]"]
  by (simp add: rack_env_def sample_json_def)

end
