(* ===== verification/FuncSpec.thy ===== *)
theory FuncSpec
  imports FuncProxy
begin

section \<open>What a function call over HTTP answers\<close>

text \<open>
  The abstract specification of the two callbacks: the envelope that answers a call, computed without
  encodings. The callbacks return its encoding.
\<close>

definition internal_error :: "string \<Rightarrow> cp_resp" where
  "internal_error msg = CPResp (Some \<lparr>ce_Message = msg, ce_Code = ErrInternal\<rparr>) None A_Nil"

text \<open>\<open>send\<close> sends a decoded request to PMDB; \<open>nil_msg\<close> is the error for a reply that is not there.\<close>

definition func_answer ::
  "(cp_req \<Rightarrow> 's \<Rightarrow> (string option \<times> reply option) \<times> 's) \<Rightarrow> string \<Rightarrow> string \<Rightarrow> string + cp_req \<Rightarrow> 's \<Rightarrow> cp_resp \<times> 's" where
  "func_answer send nil_msg name decoded s =
     (case decoded of
        Inl err \<Rightarrow> (internal_error err, s)
      | Inr q \<Rightarrow>
          (case send q s of ((err, rep), s1) \<Rightarrow>
             (case err of
                Some e \<Rightarrow> internal_error e
              | None \<Rightarrow>
                  (case rep of
                     None \<Rightarrow> internal_error nil_msg
                   | Some NoBytes \<Rightarrow> internal_error ''empty response buffer''
                   | Some (Undecodable e) \<Rightarrow> internal_error e
                   | Some (Reply r) \<Rightarrow>
                       CPResp (resp_Error r) (resp_Page r)
                         (if resp_Payload r = A_Nil then GetRespStruct name else resp_Payload r)), s1)))"

definition put_request :: "string \<Rightarrow> string \<Rightarrow> int \<Rightarrow> cp_req \<Rightarrow> pmdb_req" where
  "put_request rncui name wsn q =
     \<lparr>pq_Rncui = rncui, pq_Request = FuncReq name q, pq_ReqType = FUNC_REQ, pq_GetReply = 1, pq_WriteSeqNum = wsn\<rparr>"

text \<open>A read has no idempotency key and no sequence number.\<close>

abbreviation get_request :: "string \<Rightarrow> cp_req \<Rightarrow> pmdb_req" where
  "get_request name q \<equiv> put_request [] name 0 q"

lemma writeErrorCPResp_internal:
  "fx_EncResp fx enc (internal_error err) = Inr b \<Longrightarrow> writeErrorCPResp fx enc err = Ret b"
  by (simp add: writeErrorCPResp_def internal_error_def)

lemma translate_answer:
  assumes "\<And>r. fx_EncResp fx enc r = Inr (E r)"
  shows "or_error fx enc (translate_response fx enc name rep) = Ret (E (case rep of
      None \<Rightarrow> internal_error ''response pointer is nil''
    | Some NoBytes \<Rightarrow> internal_error ''empty response buffer''
    | Some (Undecodable e) \<Rightarrow> internal_error e
    | Some (Reply r) \<Rightarrow> CPResp (resp_Error r) (resp_Page r)
        (if resp_Payload r = A_Nil then GetRespStruct name else resp_Payload r)))"
  using assms by (auto simp: or_error_def translate_response_def writeErrorCPResp_def internal_error_def
      split: option.split reply.split)

lemma or_error_fails:
  "writeErrorCPResp fx enc err = Fail e \<Longrightarrow> \<exists>r. fx_EncResp fx enc r = Inl e"
  "or_error fx enc res = Fail e \<Longrightarrow> \<exists>r. fx_EncResp fx enc r = Inl e"
  by (auto simp: or_error_def writeErrorCPResp_def split: sum.splits)

lemma writeErrorCPResp_no_panic [simp]: "writeErrorCPResp fx enc err \<noteq> Panic" "or_error fx enc res \<noteq> Panic"
  by (auto simp: or_error_def writeErrorCPResp_def split: sum.splits)

lemma to_lower_slash: "CHR ''/'' = to_lower_char c \<longleftrightarrow> c = CHR ''/''"
proof (cases "65 \<le> (of_char c :: nat) \<and> (of_char c :: nat) \<le> 90")
  case True
  have 47: "(of_char (CHR ''/'') :: nat) = 47" by simp
  have 32: "(of_char (to_lower_char c) :: nat) = of_char c + 32" using True by (simp add: to_lower_char_def)
  have "CHR ''/'' \<noteq> to_lower_char c"
  proof
    assume "CHR ''/'' = to_lower_char c"
    from 32[folded this] 47 True show False by linarith
  qed
  moreover have "c \<noteq> CHR ''/''"
  proof
    assume "c = CHR ''/''"
    from True[unfolded this] 47 show False by linarith
  qed
  ultimately show ?thesis by blast
qed (auto simp: to_lower_char_def)

text \<open>A header names an encoding when it has a slash.\<close>

lemma GetEncodingType_panics:
  "GetEncodingType r = Panic \<longleftrightarrow>
     CHR ''/'' \<notin> set (if hq_Header r ''Content-Type'' = [] then hq_Header r ''Accept'' else hq_Header r ''Content-Type'')"
proof -
  have len: "1 < length (split c s) \<longleftrightarrow> c \<in> set s" for c s
  proof
    assume "1 < length (split c s)"
    then show "c \<in> set s" using split_no_sep[of c s] by (cases "c \<in> set s") auto
  next
    assume "c \<in> set s"
    then obtain a b where "s = a @ c # b" "c \<notin> set a" using split_list_first by metis
    then show "1 < length (split c s)" by (simp add: split_append_sep)
  qed
  have low: "CHR ''/'' \<in> set (to_lower s) \<longleftrightarrow> CHR ''/'' \<in> set s" for s
  proof -
    have image: "x \<in> f ` S \<longleftrightarrow> x \<in> S" if "\<And>c. x = f c \<longleftrightarrow> c = x" for x :: char and f S
      using that by (simp add: image_iff)
    show ?thesis unfolding to_lower_def set_map by (rule image) (rule to_lower_slash)
  qed
  show ?thesis by (simp add: GetEncodingType_def Let_def len low del: One_nat_def)
qed

section \<open>Property\<close>

text \<open>
  C25: function calls over HTTP. A callback panics exactly when the header that names the encoding has no
  slash, as when it is missing, and then sends nothing. Otherwise, with an encoder that encodes every
  envelope, it returns the encoding of the specified answer and no error: a body that does not decode, an
  error of PMDB and a reply that is missing or unreadable are internal errors in the envelope; an answer
  of PMDB is passed on, without a payload with the zero value of its type. A request that decodes is
  sent once, a read without and a write with the idempotency key and sequence number of the call; the
  empty body of a read is an error. Without that encoder, an error that is returned is one of the
  encoder. Each call is counted once.
\<close>

theorem func_callbacks_answer:
  "(case GetEncodingType rd of
      Panic \<Rightarrow>
        CHR ''/'' \<notin> set (if hq_Header rd ''Content-Type'' = [] then hq_Header rd ''Accept'' else hq_Header rd ''Content-Type'')
        \<and> PutFuncHandlerCB pc fx name rncui wsn body rd (m, s) = (Panic, incPutFunc m, s)
        \<and> GetFuncHandlerCB pc fx name body rd (m, s) = (Panic, incGetFunc m, s)
    | Fail e \<Rightarrow> False
    | Ret enc \<Rightarrow>
        (let put = func_answer (\<lambda>q. pc_Put pc (put_request rncui name wsn q)) ''nil reply received from pmdb'' name
                     (fx_DecReq fx enc (GetReqStruct name) body) s;
             get = func_answer (\<lambda>q. pc_Get pc (get_request name q)) ''response pointer is nil'' name
                     (if body = [] then Inl ''empty body'' else fx_DecReq fx enc (GetReqStruct name) body) s;
             put_res = PutFuncHandlerCB pc fx name rncui wsn body rd (m, s);
             get_res = GetFuncHandlerCB pc fx name body rd (m, s)
         in (\<forall>E. (\<forall>r. fx_EncResp fx enc r = Inr (E r)) \<longrightarrow> fst put_res = Ret (E (fst put)) \<and> fst get_res = Ret (E (fst get)))
            \<and> snd put_res = (incPutFunc m, snd put) \<and> snd get_res = (incGetFunc m, snd get)
            \<and> (\<forall>e. fst put_res = Fail e \<or> fst get_res = Fail e \<longrightarrow> (\<exists>r. fx_EncResp fx enc r = Inl e))))"
proof (cases "GetEncodingType rd")
  case Panic
  with GetEncodingType_panics[of rd] show ?thesis by (simp add: PutFuncHandlerCB_def GetFuncHandlerCB_def Let_def)
next
  case (Fail e)
  then show ?thesis by (simp add: GetEncodingType_def Let_def split: if_splits)
next
  case (Ret enc)
  note defs = PutFuncHandlerCB_def GetFuncHandlerCB_def Ret Let_def DecodeCPReq_def func_answer_def
    put_request_def[symmetric]
  show ?thesis
    unfolding Ret go.case Let_def
  proof (intro conjI allI impI)
    fix E assume E: "\<forall>r. fx_EncResp fx enc r = Inr (E r)"
    have w: "writeErrorCPResp fx enc err = Ret (E (internal_error err))" for err
      using E by (intro writeErrorCPResp_internal) simp
    note t = translate_answer[of fx enc E name, OF E[rule_format]]
    show "fst (PutFuncHandlerCB pc fx name rncui wsn body rd (m, s)) = Ret (E (fst (func_answer (\<lambda>q. pc_Put pc (put_request rncui name wsn q))
        ''nil reply received from pmdb'' name (fx_DecReq fx enc (GetReqStruct name) body) s)))"
      by (simp add: defs w t split: sum.split prod.split option.split)
    show "fst (GetFuncHandlerCB pc fx name body rd (m, s)) = Ret (E (fst (func_answer (\<lambda>q. pc_Get pc (get_request name q))
        ''response pointer is nil'' name (if body = [] then Inl ''empty body'' else fx_DecReq fx enc (GetReqStruct name) body) s)))"
      by (simp add: defs w t split: sum.split prod.split option.split)
  qed (auto simp: defs split: sum.splits prod.splits option.splits if_splits dest: or_error_fails)
qed

section \<open>Witness\<close>

definition down_client :: "unit pmdb_client" where
  "down_client = \<lparr>pc_Put = (\<lambda>_ s. ((Some ''timeout'', None), s)), pc_Get = (\<lambda>_ s. ((Some ''timeout'', None), s))\<rparr>"

definition plain_codec :: func_codec where
  "plain_codec = \<lparr>fx_EncReq = (\<lambda>_ _. Inr []), fx_EncSnap = (\<lambda>_ _. Inr []),
     fx_DecReq = (\<lambda>_ p _. Inr \<lparr>rq_Token = [], rq_Page = None, rq_Payload = p\<rparr>),
     fx_EncResp = (\<lambda>_ r. Inr (case resp_Error r of Some e \<Rightarrow> ce_Message e | None \<Rightarrow> ''ok'')), fx_DecResp = (\<lambda>_ _ _. Inl ''EOF'')\<rparr>"

definition json_call :: http_req where
  "json_call = \<lparr>hq_Method = ''PUT'', hq_Segs = [''func''], hq_Header = (\<lambda>h. if h = ''Accept'' then ''Application/JSON'' else []),
     hq_Query = (\<lambda>_. []), hq_PathValue = (\<lambda>_. []), hq_Body = []\<rparr>"

definition no_metrics :: proxy_metrics where
  "no_metrics = \<lparr>pm_nisdMetricsText = [], pm_getKV = 0, pm_putKV = 0, pm_getLease = 0, pm_putLease = 0, pm_getFunc = 0, pm_putFunc = 0\<rparr>"

lemma json_call_encoding: "GetEncodingType json_call = Ret ''json''"
  by code_simp

theorem func_callbacks_answer_witness:
  "fst (PutFuncHandlerCB down_client plain_codec PUT_RACK ''k1'' 0 ''{}'' json_call (no_metrics, ())) = Ret ''timeout''
   \<and> fst (GetFuncHandlerCB down_client plain_codec GET_RACK [] json_call (no_metrics, ())) = Ret ''empty body''"
  using func_callbacks_answer[where rd = json_call and pc = down_client and fx = plain_codec and name = PUT_RACK
      and rncui = "''k1''" and wsn = 0 and body = "''{}''" and m = no_metrics and s = "()"]
    func_callbacks_answer[where rd = json_call and pc = down_client and fx = plain_codec and name = GET_RACK
      and rncui = "''k1''" and wsn = 0 and body = "[]" and m = no_metrics and s = "()"]
  by (simp add: json_call_encoding Let_def plain_codec_def down_client_def func_answer_def internal_error_def)

end
