(* ===== verification/CtlDomain.thy ===== *)
theory CtlDomain
  imports CPLib
begin

section \<open>The domain layer of the terminal client: niova-ctl/domain\<close>

text \<open>
  What the screens of \<open>niova-ctl\<close> compute: the inventory tree, the places a NISD can go to, free port
  pairs, and the import of a whole inventory from a document. The layer reaches a control plane through
  the interface \<open>ControlPlaneClient\<close>, the record \<open>cp_client\<close> on a state \<open>'s\<close>. Logging is left out.
\<close>

subsection \<open>backend.go\<close>

text \<open>
  An operation returns the new state. The capabilities that a backend may lack (\<open>PartitionWriter\<close>,
  \<open>PFSEditor\<close>, \<open>VdevDeleter\<close>), which the code finds by a type assertion, are options. Errors are their
  messages, \<open>None\<close> is \<open>nil\<close>.
\<close>

type_synonym 's effect = "'s \<Rightarrow> string option \<times> 's"

record 's cp_client =
  cp_SetToken :: "string \<Rightarrow> 's \<Rightarrow> 's"
  cp_RefreshTopology :: "string \<Rightarrow> 's \<Rightarrow> (pdu list \<times> rack list \<times> hypervisor list) go \<times> 's"
  cp_GetNisds :: "'s \<Rightarrow> nisd list go \<times> 's"
  cp_GetVdevConfigs :: "'s \<Rightarrow> vdev_config list go \<times> 's"
  cp_GetPFS :: "'s \<Rightarrow> pfs list go \<times> 's"
  cp_PutPDU :: "pdu \<Rightarrow> 's effect"
  cp_PutRack :: "rack \<Rightarrow> 's effect"
  cp_PutHypervisor :: "hypervisor \<Rightarrow> 's effect"
  cp_PutDevice :: "device \<Rightarrow> 's effect"
  cp_PutNisd :: "nisd \<Rightarrow> 's effect"
  cp_CreateVdev :: "vdev_config \<Rightarrow> 's effect"
  cp_CreatePFS :: "pfs \<Rightarrow> 's effect"
  cp_PutPartition :: "(device_partition \<Rightarrow> 's effect) option"
  cp_EditPFS :: "(pfs \<Rightarrow> 's effect) option"
  cp_DeleteVdev :: "(string \<Rightarrow> 's effect) option"

text \<open>\<open>authz.go\<close>: a grant to a role, and an ownership check.\<close>

record rbac_policy = rp_Resource :: string rp_Action :: string rp_Role :: string

record abac_policy = bp_Resource :: string bp_Action :: string

text \<open>\<open>tenant.go\<close>.\<close>

type_synonym int8 = "8 word"

record tenant_info =
  ti_TenantUUID :: string
  ti_SchemaName :: string
  ti_DisplayName :: string
  ti_Status :: int8
  ti_CreatedBy :: string
  ti_CreatedAt :: string

record tenant_create_result = tt_Tenant :: tenant_info tt_AdminUsername :: string tt_AdminPassword :: string

text \<open>
  The interfaces of a backend with tenants (\<open>TenantAdminAuthenticator\<close> and \<open>TenantManager\<close>, which the same
  backend has) and of one with policies (\<open>AuthzManager\<close>).
\<close>

record 's tenant_manager =
  tm_TenantAdminLogin :: "string \<Rightarrow> string \<Rightarrow> 's \<Rightarrow> (string + string \<times> int) \<times> 's"
  tm_ListTenants :: "string \<Rightarrow> 's \<Rightarrow> (string + tenant_info list) \<times> 's"
  tm_CreateTenant :: "string \<Rightarrow> string \<Rightarrow> 's \<Rightarrow> (string + tenant_create_result) \<times> 's"
  tm_DeleteTenant :: "string \<Rightarrow> string \<Rightarrow> 's effect"

record 's authz_manager =
  am_ListRBACPolicies :: "'s \<Rightarrow> (string + rbac_policy list) \<times> 's"
  am_AddRBACPolicy :: "rbac_policy \<Rightarrow> 's effect"
  am_DeleteRBACPolicy :: "rbac_policy \<Rightarrow> 's effect"
  am_ListABACPolicies :: "'s \<Rightarrow> (string + abac_policy list) \<times> 's"
  am_AddABACPolicy :: "abac_policy \<Rightarrow> 's effect"
  am_DeleteABACPolicy :: "abac_policy \<Rightarrow> 's effect"

subsection \<open>service.go: the inventory tree\<close>

text \<open>The index map of a slice: the last element with an identifier is the one found.\<close>

fun find_last :: "('a \<Rightarrow> bool) \<Rightarrow> 'a list \<Rightarrow> nat option" where
  "find_last P [] = None"
| "find_last P (x # xs) =
     (case find_last P xs of Some i \<Rightarrow> Some (Suc i) | None \<Rightarrow> if P x then Some 0 else None)"

text \<open>\<open>append\<close> of a child to the parent that the map has under its foreign key, if any.\<close>

definition attach_child ::
  "('p \<Rightarrow> string) \<Rightarrow> ('c \<Rightarrow> 'p \<Rightarrow> 'p) \<Rightarrow> ('c \<Rightarrow> string) \<Rightarrow> 'p list \<Rightarrow> 'c \<Rightarrow> 'p list" where
  "attach_child pid add fk ps c =
     (case find_last (\<lambda>p. pid p = fk c) ps of None \<Rightarrow> ps | Some i \<Rightarrow> ps[i := add c (ps ! i)])"

definition StitchTopology ::
  "pdu list \<Rightarrow> rack list \<Rightarrow> hypervisor list \<Rightarrow> device list \<Rightarrow> device_partition list
   \<Rightarrow> pdu list \<times> rack list \<times> hypervisor list" where
  "StitchTopology pdus racks hvs devices partitions =
     (let devices' = foldl (attach_child d_ID (\<lambda>p d. d\<lparr>d_Partitions := d_Partitions d @ [p]\<rparr>) pt_DevID)
                       (map (\<lambda>d. d\<lparr>d_Partitions := []\<rparr>) devices) partitions;
          hvs' = foldl (attach_child h_ID (\<lambda>d h. h\<lparr>h_Dev := h_Dev h @ [d]\<rparr>) d_HypervisorID)
                       (map (\<lambda>h. h\<lparr>h_Dev := []\<rparr>) hvs) devices';
          racks0 = map (\<lambda>r. r\<lparr>r_Hypervisors := []\<rparr>) racks;
          racks' = foldl (attach_child r_ID (\<lambda>h r. r\<lparr>r_Hypervisors := r_Hypervisors r @ [h]\<rparr>) h_RackID) racks0 hvs';
          standalone = filter (\<lambda>h. find_last (\<lambda>r. r_ID r = h_RackID h) racks0 = None) hvs';
          pdus' = foldl (attach_child p_ID (\<lambda>r p. p\<lparr>p_Racks := p_Racks p @ [r]\<rparr>) r_PDUID)
                       (map (\<lambda>p. p\<lparr>p_Racks := []\<rparr>) pdus) racks'
      in (pdus', racks', standalone))"

definition pdu_hypervisors :: "pdu list \<Rightarrow> hypervisor list" where
  "pdu_hypervisors pdus = concat (map (\<lambda>p. concat (map r_Hypervisors (p_Racks p))) pdus)"

definition FindHypervisorByUUID :: "pdu list \<Rightarrow> hypervisor list \<Rightarrow> string \<Rightarrow> hypervisor option" where
  "FindHypervisorByUUID pdus standaloneHVs hvUUID = find (\<lambda>h. h_ID h = hvUUID) (pdu_hypervisors pdus @ standaloneHVs)"

definition FindRackByUUID :: "pdu list \<Rightarrow> string \<Rightarrow> rack option" where
  "FindRackByUUID pdus rackUUID = find (\<lambda>r. r_ID r = rackUUID) (concat (map p_Racks pdus))"

subsection \<open>types.go: where a NISD can live\<close>

record partitionable_device = pd_Device :: device pd_Hypervisor :: hypervisor

definition BuildPartitionableDevices :: "pdu list \<Rightarrow> hypervisor list \<Rightarrow> partitionable_device list" where
  "BuildPartitionableDevices pdus standaloneHVs =
     concat (map (\<lambda>hv. map (\<lambda>dev. \<lparr>pd_Device = dev, pd_Hypervisor = hv\<rparr>) (h_Dev hv)) (pdu_hypervisors pdus @ standaloneHVs))"

record nisd_target =
  nt_Label :: string
  nt_TargetID :: string
  nt_FailureDomain :: "string list"
  nt_NISDUUID :: string
  nt_HypervisorID :: string
  nt_Size :: int64

definition partition_target :: "string \<Rightarrow> string \<Rightarrow> hypervisor \<Rightarrow> device \<Rightarrow> device_partition \<Rightarrow> nisd_target" where
  "partition_target pduID rackID hv dev part =
     \<lparr>nt_Label = pt_PartitionPath part @ '' (Partition: '' @ pt_PartitionID part @ '')'', nt_TargetID = pt_PartitionID part,
      nt_FailureDomain = [pduID, rackID, h_ID hv, d_ID dev, pt_PartitionID part], nt_NISDUUID = pt_NISDUUID part,
      nt_HypervisorID = h_ID hv, nt_Size = pt_Size part\<rparr>"

definition device_target :: "string \<Rightarrow> string \<Rightarrow> hypervisor \<Rightarrow> device \<Rightarrow> nisd_target" where
  "device_target pduID rackID hv dev =
     \<lparr>nt_Label = d_DevicePath dev @ '' (Device: '' @ d_ID dev @ '')'', nt_TargetID = d_ID dev,
      nt_FailureDomain = [pduID, rackID, h_ID hv, d_ID dev], nt_NISDUUID = [],
      nt_HypervisorID = h_ID hv, nt_Size = d_Size dev\<rparr>"

definition hv_targets :: "bool \<Rightarrow> string \<Rightarrow> string \<Rightarrow> hypervisor \<Rightarrow> nisd_target list" where
  "hv_targets usePartitions pduID rackID hv =
     concat (map (\<lambda>dev. if usePartitions then map (partition_target pduID rackID hv dev) (d_Partitions dev)
                        else [device_target pduID rackID hv dev]) (h_Dev hv))"

definition BuildNISDTargets :: "pdu list \<Rightarrow> hypervisor list \<Rightarrow> bool \<Rightarrow> nisd_target list" where
  "BuildNISDTargets pdus standaloneHVs usePartitions =
     concat (map (\<lambda>p. concat (map (\<lambda>r. concat (map (hv_targets usePartitions (p_ID p) (r_ID r)) (r_Hypervisors r))) (p_Racks p))) pdus)
     @ concat (map (hv_targets usePartitions [] []) standaloneHVs)"

text \<open>The sets, as lists of their elements in the order they are added.\<close>

definition UsedNISDTargetIDs :: "nisd list \<Rightarrow> string list" where
  "UsedNISDTargetIDs nisds = map (\<lambda>n. last (n_FailureDomain n)) (filter (\<lambda>n. n_FailureDomain n \<noteq> []) nisds)"

definition NISDIDSet :: "nisd list \<Rightarrow> string list" where
  "NISDIDSet nisds = filter (\<lambda>i. i \<noteq> []) (map n_ID nisds)"

subsection \<open>network.go: addresses and ports\<close>

definition FormatIPAddresses :: "hypervisor \<Rightarrow> string" where
  "FormatIPAddresses hv =
     (case h_IPAddrs hv of
        [] \<Rightarrow> ''no network info''
      | [ip] \<Rightarrow> ip
      | ip # rest \<Rightarrow> ip @ '' +'' @ utoa (length rest) @ '' more'')"

definition FormatDetailedIPAddresses :: "hypervisor \<Rightarrow> string" where
  "FormatDetailedIPAddresses hv =
     (case h_IPAddrs hv of
        [] \<Rightarrow> []
      | [ip] \<Rightarrow> ip
      | ip # rest \<Rightarrow> ''IP Addresses: '' @ ip @ concat (map (\<lambda>a. '', '' @ a) rest))"

definition ParsePortRange :: "string \<Rightarrow> (int \<times> int) go" where
  "ParsePortRange portRange =
     (if portRange = [] then Fail ''empty port range''
      else case split (CHR ''-'') portRange of
        [a, b] \<Rightarrow>
          (let (start, sok) = atoi (trim_space a); (fin, eok) = atoi (trim_space b) in
           if \<not> sok then Fail (''invalid start port: '' @ a)
           else if \<not> eok then Fail (''invalid end port: '' @ b)
           else if start \<ge> fin then Fail ''start port must be less than end port''
           else Ret (start, fin))
      | _ \<Rightarrow> Fail (''invalid port range format: '' @ portRange))"

text \<open>
  The ports of the NISDs of a hypervisor. A NISD without a hypervisor in its failure domain panics, and so
  does one of this hypervisor without network information.
\<close>

fun allocated_ports :: "string \<Rightarrow> nisd list \<Rightarrow> int list go" where
  "allocated_ports hv [] = Ret []"
| "allocated_ports hv (n # ns) =
     (if length (n_FailureDomain n) \<le> HV_IDX then Panic
      else if n_FailureDomain n ! HV_IDX \<noteq> hv then allocated_ports hv ns
      else case n_NetInfo n of
        [] \<Rightarrow> Panic
      | ni # _ \<Rightarrow> go_bind (allocated_ports hv ns)
          (\<lambda>ports. Ret (int (unat (n_PeerPort n)) # int (unat (ni_Port ni)) # ports)))"

text \<open>
  The loop over the pairs \<open>(port, port + 1)\<close>, two apart. No port above 65535 is ever allocated, so the
  loop stops long before a counter of 64 bits could wrap, and integers are unbounded here.
\<close>

function free_pair :: "int list \<Rightarrow> int \<Rightarrow> int \<Rightarrow> (int \<times> int) option" where
  "free_pair used port fin =
     (if port < fin - 1
      then if port \<notin> set used \<and> port + 1 \<notin> set used then Some (port + 1, port) else free_pair used (port + 2) fin
      else None)"
  by pat_completeness auto
termination by (relation "measure (\<lambda>(used, port, fin). nat (fin - port))") auto

declare free_pair.simps [simp del]

text \<open>An error of \<open>GetNisds\<close> is ignored: then no port counts as allocated. The first port is the client's.\<close>

definition AllocatePortPair ::
  "string \<Rightarrow> string \<Rightarrow> string \<Rightarrow> 's cp_client option \<Rightarrow> 's \<Rightarrow> (int \<times> int) go \<times> 's" where
  "AllocatePortPair hypervisorUUID portRange userToken cpClient s =
     (case ParsePortRange portRange of
        Fail err \<Rightarrow> (Fail err, s)
      | Panic \<Rightarrow> (Panic, s)
      | Ret (startPort, endPort) \<Rightarrow>
          (let (ports, s1) =
             (case cpClient of
                None \<Rightarrow> (Ret [], s)
              | Some cl \<Rightarrow>
                  (case cp_GetNisds cl (cp_SetToken cl userToken s) of
                     (Ret nisds, s1) \<Rightarrow> (allocated_ports hypervisorUUID nisds, s1)
                   | (Fail err, s1) \<Rightarrow> (Ret [], s1)
                   | (Panic, s1) \<Rightarrow> (Panic, s1)))
           in (go_bind ports (\<lambda>used.
                case free_pair used startPort endPort of
                  Some pair \<Rightarrow> Ret pair
                | None \<Rightarrow> Fail (''no available port pairs in range '' @ portRange)), s1)))"

end
