(* ===== verification/InfraImport.thy ===== *)
theory InfraImport
  imports CtlDomain
begin

section \<open>Importing an inventory: niova-ctl/domain/infra_import.go\<close>

text \<open>
  \<open>ImportInfra\<close> writes a document of nested power units, racks, hypervisors, devices and NISDs through a
  control plane client, top down, and reports what happened to each node. A node that fails is reported
  and what lies below it is skipped.
\<close>

subsection \<open>The document\<close>

record import_net_info = in_ip_addr :: string in_port :: uint16

record import_nisd =
  ii_id :: string
  ii_peer_port :: uint16
  ii_total_size :: int64
  ii_available_size :: int64
  ii_socket_path :: string
  ii_net_info :: "import_net_info list"

record import_device =
  id_id :: string
  id_name :: string
  id_device_path :: string
  id_serial_number :: string
  id_state :: int
  id_size :: int64
  id_failure_domain :: string
  id_nisds :: "import_nisd list"

record import_hypervisor =
  ih_id :: string
  ih_name :: string
  ih_port_range :: string
  ih_ssh_port :: string
  ih_rdma_enabled :: bool
  ih_ip_addrs :: "string list"
  ih_devices :: "import_device list"

record import_rack =
  ir_id :: string
  ir_name :: string
  ir_location :: string
  ir_specification :: string
  ir_hypervisors :: "import_hypervisor list"

record import_pdu =
  ip_id :: string
  ip_name :: string
  ip_location :: string
  ip_specification :: string
  ip_power_cap :: string
  ip_racks :: "import_rack list"

text \<open>\<open>decode\<close> is \<open>json.Unmarshal\<close>. The dash of the message is the three bytes of U+2014.\<close>

definition ParseImportInfra :: "(string \<Rightarrow> string + import_pdu list) \<Rightarrow> string \<Rightarrow> import_pdu list go" where
  \<open>ParseImportInfra decode data =
     (case decode data of
        Inl err \<Rightarrow> Fail (''invalid JSON: '' @ err)
      | Inr pdus \<Rightarrow>
          if pdus = [] then Fail (''document has no "pdus" '' @ map char_of [226, 128, 148 :: nat] @ '' nothing to import'')
          else Ret pdus)\<close>

text \<open>The number of power units, racks, hypervisors, devices and NISDs of a document.\<close>

definition request_Counts :: "import_pdu list \<Rightarrow> nat \<times> nat \<times> nat \<times> nat \<times> nat" where
  "request_Counts pdus =
     (let racks = concat (map ip_racks pdus); hvs = concat (map ir_hypervisors racks);
          devices = concat (map ih_devices hvs); nisds = concat (map id_nisds devices)
      in (length pdus, length racks, length hvs, length devices, length nisds))"

subsection \<open>The report\<close>

record import_outcome = oc_Kind :: string oc_ID :: string oc_Name :: string oc_Err :: "string option"

definition result_Counts :: "import_outcome list \<Rightarrow> nat \<times> nat" where
  "result_Counts os = (length (filter (\<lambda>o1. oc_Err o1 = None) os), length (filter (\<lambda>o1. oc_Err o1 \<noteq> None) os))"

definition Failures :: "import_outcome list \<Rightarrow> import_outcome list" where
  "Failures os = filter (\<lambda>o1. oc_Err o1 \<noteq> None) os"

text \<open>
  The state of an import: the report so far, how many UUIDs were drawn (\<open>new n\<close> is the \<open>n\<close>th that
  \<open>uuid.NewString\<close> returns), and the state of the client.
\<close>

record 's import_st = is_report :: "import_outcome list" is_uuids :: nat is_cp :: 's

definition new_id :: "(nat \<Rightarrow> string) \<Rightarrow> 's import_st \<Rightarrow> string \<times> 's import_st" where
  "new_id new st = (new (is_uuids st), st\<lparr>is_uuids := is_uuids st + 1\<rparr>)"

definition idOrNew :: "(nat \<Rightarrow> string) \<Rightarrow> string \<Rightarrow> 's import_st \<Rightarrow> string \<times> 's import_st" where
  "idOrNew new i st = (if trim_space i \<noteq> [] then (trim_space i, st) else new_id new st)"

text \<open>Write a node, report it, and say whether that went well.\<close>

definition put_node :: "'s effect \<Rightarrow> string \<Rightarrow> string \<Rightarrow> string \<Rightarrow> 's import_st \<Rightarrow> bool \<times> 's import_st" where
  "put_node put kind i name st =
     (case put (is_cp st) of (err, s1) \<Rightarrow>
        (err = None, st\<lparr>is_report := is_report st @ [\<lparr>oc_Kind = kind, oc_ID = i, oc_Name = name, oc_Err = err\<rparr>],
                        is_cp := s1\<rparr>))"

subsection \<open>The walk\<close>

definition partition_of :: "string \<Rightarrow> string \<Rightarrow> string \<Rightarrow> import_nisd \<Rightarrow> device_partition" where
  "partition_of partID devID nisdID nn = \<lparr>pt_PartitionID = partID, pt_PartitionPath = ii_socket_path nn,
     pt_NISDUUID = nisdID, pt_DevID = devID, pt_Size = ii_total_size nn\<rparr>"

definition nisd_of :: "string \<Rightarrow> string list \<Rightarrow> import_nisd \<Rightarrow> nisd" where
  "nisd_of nisdID fd nn = \<lparr>n_PeerPort = ii_peer_port nn, n_ID = nisdID, n_FailureDomain = fd,
     n_TotalSize = ii_total_size nn,
     n_AvailableSize = (if ii_available_size nn = 0 then ii_total_size nn else ii_available_size nn),
     n_SocketPath = ii_socket_path nn,
     n_NetInfo = map (\<lambda>ni. \<lparr>ni_IPAddr = in_ip_addr ni, ni_Port = in_port ni\<rparr>) (ii_net_info nn), n_NetInfoCnt = 0\<rparr>"

definition put_nisd_node :: "'s cp_client \<Rightarrow> string list \<Rightarrow> string \<Rightarrow> import_nisd \<Rightarrow> 's import_st \<Rightarrow> 's import_st" where
  "put_nisd_node cl fd nisdID nn st =
     snd (put_node (cp_PutNisd cl (nisd_of nisdID fd nn)) ''nisd'' nisdID (ii_socket_path nn) st)"

definition importNISD ::
  "'s cp_client \<Rightarrow> (nat \<Rightarrow> string) \<Rightarrow> string \<Rightarrow> string \<Rightarrow> string \<Rightarrow> string \<Rightarrow> import_nisd \<Rightarrow> 's import_st \<Rightarrow> 's import_st" where
  "importNISD cl new pduID rackID hvID devID nn st =
     (case idOrNew new (ii_id nn) st of (nisdID, st1) \<Rightarrow>
        (case cp_PutPartition cl of
           None \<Rightarrow> put_nisd_node cl [pduID, rackID, hvID, devID] nisdID nn st1
         | Some putPartition \<Rightarrow>
             (case new_id new st1 of (partID, st2) \<Rightarrow>
               (case put_node (putPartition (partition_of partID devID nisdID nn)) ''partition'' partID (ii_socket_path nn) st2 of
                  (ok, st3) \<Rightarrow> if ok then put_nisd_node cl [pduID, rackID, hvID, devID, partID] nisdID nn st3 else st3))))"

text \<open>One level of the loops: write the node; unless that fails, do the nodes below in their order.\<close>

definition visit :: "bool \<times> 's import_st \<Rightarrow> ('c \<Rightarrow> 's import_st \<Rightarrow> 's import_st) \<Rightarrow> 'c list \<Rightarrow> 's import_st" where
  "visit put child cs = (case put of (ok, st) \<Rightarrow> if ok then foldl (\<lambda>st c. child c st) st cs else st)"

definition device_of :: "string \<Rightarrow> string \<Rightarrow> import_device \<Rightarrow> device" where
  "device_of devID hvID dn = \<lparr>d_ID = devID, d_Name = id_name dn, d_DevicePath = id_device_path dn,
     d_SerialNumber = id_serial_number dn, d_State = word_of_int (id_state dn), d_Size = id_size dn, d_HypervisorID = hvID,
     d_FailureDomain = (if id_failure_domain dn = [] then ''fd-'' @ devID else id_failure_domain dn), d_Partitions = []\<rparr>"

definition importDevice ::
  "'s cp_client \<Rightarrow> (nat \<Rightarrow> string) \<Rightarrow> string \<Rightarrow> string \<Rightarrow> string \<Rightarrow> import_device \<Rightarrow> 's import_st \<Rightarrow> 's import_st" where
  "importDevice cl new pduID rackID hvID dn st =
     (case idOrNew new (id_id dn) st of (devID, st1) \<Rightarrow>
        visit (put_node (cp_PutDevice cl (device_of devID hvID dn)) ''device'' devID (id_name dn) st1)
          (importNISD cl new pduID rackID hvID devID) (id_nisds dn))"

definition hypervisor_of :: "string \<Rightarrow> string \<Rightarrow> import_hypervisor \<Rightarrow> hypervisor" where
  "hypervisor_of hvID rackID hn = \<lparr>h_ID = hvID, h_RackID = rackID, h_Name = ih_name hn, h_IPAddrs = ih_ip_addrs hn,
     h_PortRange = ih_port_range hn, h_SSHPort = (if ih_ssh_port hn = [] then ''22'' else ih_ssh_port hn), h_Dev = [],
     h_RDMAEnabled = ih_rdma_enabled hn\<rparr>"

definition importHypervisor ::
  "'s cp_client \<Rightarrow> (nat \<Rightarrow> string) \<Rightarrow> string \<Rightarrow> string \<Rightarrow> import_hypervisor \<Rightarrow> 's import_st \<Rightarrow> 's import_st" where
  "importHypervisor cl new pduID rackID hn st =
     (case idOrNew new (ih_id hn) st of (hvID, st1) \<Rightarrow>
        visit (put_node (cp_PutHypervisor cl (hypervisor_of hvID rackID hn)) ''hypervisor'' hvID (ih_name hn) st1)
          (importDevice cl new pduID rackID hvID) (ih_devices hn))"

definition rack_of :: "string \<Rightarrow> string \<Rightarrow> import_rack \<Rightarrow> rack" where
  "rack_of rackID pduID rn = \<lparr>r_ID = rackID, r_Name = ir_name rn, r_PDUID = pduID, r_Location = ir_location rn,
     r_Specification = ir_specification rn, r_Hypervisors = []\<rparr>"

definition importRack ::
  "'s cp_client \<Rightarrow> (nat \<Rightarrow> string) \<Rightarrow> string \<Rightarrow> import_rack \<Rightarrow> 's import_st \<Rightarrow> 's import_st" where
  "importRack cl new pduID rn st =
     (case idOrNew new (ir_id rn) st of (rackID, st1) \<Rightarrow>
        visit (put_node (cp_PutRack cl (rack_of rackID pduID rn)) ''rack'' rackID (ir_name rn) st1)
          (importHypervisor cl new pduID rackID) (ir_hypervisors rn))"

definition pdu_of :: "string \<Rightarrow> import_pdu \<Rightarrow> pdu" where
  "pdu_of pduID pn = \<lparr>p_ID = pduID, p_Name = ip_name pn, p_Location = ip_location pn, p_PowerCapacity = ip_power_cap pn,
     p_Specification = ip_specification pn, p_Racks = []\<rparr>"

definition importPDU :: "'s cp_client \<Rightarrow> (nat \<Rightarrow> string) \<Rightarrow> import_pdu \<Rightarrow> 's import_st \<Rightarrow> 's import_st" where
  "importPDU cl new pn st =
     (case idOrNew new (ip_id pn) st of (pduID, st1) \<Rightarrow>
        visit (put_node (cp_PutPDU cl (pdu_of pduID pn)) ''pdu'' pduID (ip_name pn) st1)
          (importRack cl new pduID) (ip_racks pn))"

definition ImportInfra :: "'s cp_client \<Rightarrow> (nat \<Rightarrow> string) \<Rightarrow> import_pdu list \<Rightarrow> 's import_st \<Rightarrow> 's import_st" where
  "ImportInfra cl new pdus st = foldl (\<lambda>st pn. importPDU cl new pn st) st pdus"

end
