(* ===== verification/ImportSpec.thy ===== *)
theory ImportSpec
  imports InfraImport
begin

section \<open>Properties of the import of an inventory\<close>

subsection \<open>What an import writes\<close>

datatype cp_node =
    N_PDU pdu
  | N_Rack rack
  | N_Hypervisor hypervisor
  | N_Device device
  | N_Partition device_partition
  | N_Nisd nisd

text \<open>The kind and identifier under which a node is reported, and those of the nodes it refers to.\<close>

fun node_label :: "cp_node \<Rightarrow> string \<times> string" where
  "node_label (N_PDU p) = (''pdu'', p_ID p)"
| "node_label (N_Rack r) = (''rack'', r_ID r)"
| "node_label (N_Hypervisor h) = (''hypervisor'', h_ID h)"
| "node_label (N_Device d) = (''device'', d_ID d)"
| "node_label (N_Partition p) = (''partition'', pt_PartitionID p)"
| "node_label (N_Nisd n) = (''nisd'', n_ID n)"

fun node_parents :: "cp_node \<Rightarrow> (string \<times> string) list" where
  "node_parents (N_PDU p) = []"
| "node_parents (N_Rack r) = [(''pdu'', r_PDUID r)]"
| "node_parents (N_Hypervisor h) = [(''rack'', h_RackID h)]"
| "node_parents (N_Device d) = [(''hypervisor'', d_HypervisorID d)]"
| "node_parents (N_Partition p) = [(''device'', pt_DevID p)]"
| "node_parents (N_Nisd n) = zip [''pdu'', ''rack'', ''hypervisor'', ''device'', ''partition''] (n_FailureDomain n)"

text \<open>The nodes that a report says were written.\<close>

definition written :: "import_outcome list \<Rightarrow> (string \<times> string) set" where
  "written os = {(oc_Kind o1, oc_ID o1) | o1. o1 \<in> set os \<and> oc_Err o1 = None}"

text \<open>
  A report matches the writes sent: one outcome per write, in order, and each write comes after the
  successful writes of all nodes it refers to.
\<close>

definition report_ok :: "import_outcome list \<Rightarrow> cp_node list \<Rightarrow> bool" where
  "report_ok os tr \<longleftrightarrow> map (\<lambda>o1. (oc_Kind o1, oc_ID o1)) os = map node_label tr
     \<and> (\<forall>i < length tr. set (node_parents (tr ! i)) \<subseteq> written (take i os))"

lemma written_append: "written (os @ ps) = written os \<union> written ps"
  by (auto simp: written_def)

lemma report_ok_Nil [simp]: "report_ok [] []"
  by (simp add: report_ok_def)

lemma report_ok_snoc:
  assumes "report_ok os tr" "(oc_Kind o1, oc_ID o1) = node_label n" "set (node_parents n) \<subseteq> written os"
  shows "report_ok (os @ [o1]) (tr @ [n])"
proof -
  have l: "length os = length tr" using assms(1) by (metis length_map report_ok_def)
  show ?thesis using assms unfolding report_ok_def
    by (auto simp: l nth_append less_Suc_eq)
qed

subsection \<open>The interface of the import\<close>

text \<open>
  A client whose state shows the writes it was asked for: each of its write operations adds its node,
  whether it succeeds or not.
\<close>

locale traced_client =
  fixes cl :: "'t cp_client" and tr :: "'t \<Rightarrow> cp_node list"
  assumes put_pdu: "tr (snd (cp_PutPDU cl p s)) = tr s @ [N_PDU p]"
    and put_rack: "tr (snd (cp_PutRack cl r s)) = tr s @ [N_Rack r]"
    and put_hypervisor: "tr (snd (cp_PutHypervisor cl h s)) = tr s @ [N_Hypervisor h]"
    and put_device: "tr (snd (cp_PutDevice cl d s)) = tr s @ [N_Device d]"
    and put_partition: "cp_PutPartition cl = Some f \<Longrightarrow> tr (snd (f q s)) = tr s @ [N_Partition q]"
    and put_nisd: "tr (snd (cp_PutNisd cl n s)) = tr s @ [N_Nisd n]"
begin

text \<open>A good state of an import in which the nodes of \<open>D\<close> are written.\<close>

definition good :: "(string \<times> string) set \<Rightarrow> 't import_st \<Rightarrow> bool" where
  "good D st \<longleftrightarrow> report_ok (is_report st) (tr (is_cp st)) \<and> D \<subseteq> written (is_report st)"

lemma good_mono: "good D st \<Longrightarrow> C \<subseteq> D \<Longrightarrow> good C st"
  by (auto simp: good_def)

lemma good_idOrNew: "good D st \<Longrightarrow> good D (snd (idOrNew new i st))" "good D st \<Longrightarrow> good D (snd (new_id new st))"
  by (simp_all add: good_def idOrNew_def new_id_def)

lemma good_put_node:
  assumes "good D st" and "\<And>s. tr (snd (put s)) = tr s @ [n]" and "node_label n = (kind, i)" and "set (node_parents n) \<subseteq> D"
    and "put_node put kind i name st = (ok, st1)"
  shows "good D st1" "ok \<Longrightarrow> good (insert (kind, i) D) st1"
proof -
  obtain err s1 where p: "put (is_cp st) = (err, s1)" by (cases "put (is_cp st)")
  with assms(2)[of "is_cp st"] have t: "tr s1 = tr (is_cp st) @ [n]" by simp
  have st1: "is_report st1 = is_report st @ [\<lparr>oc_Kind = kind, oc_ID = i, oc_Name = name, oc_Err = err\<rparr>]" "is_cp st1 = s1"
    "ok \<longleftrightarrow> err = None"
    using assms(5) p by (auto simp: put_node_def)
  have "report_ok (is_report st1) (tr (is_cp st1))"
    unfolding st1 t using assms(1,3,4) by (intro report_ok_snoc) (auto simp: good_def)
  then show "good D st1" "ok \<Longrightarrow> good (insert (kind, i) D) st1"
    using assms(1) st1 by (auto simp: good_def written_append) (simp add: written_def)
qed

lemma good_visit:
  assumes "good D st" "\<And>s. tr (snd (put s)) = tr s @ [n]" "node_label n = (kind, i)" "set (node_parents n) \<subseteq> D"
    and "\<And>c st. good (insert (kind, i) D) st \<Longrightarrow> good (insert (kind, i) D) (child c st)"
  shows "good D (visit (put_node put kind i name st) child cs)"
proof -
  obtain ok st1 where p: "put_node put kind i name st = (ok, st1)" by (cases "put_node put kind i name st")
  note g = good_put_node[OF assms(1-4) p]
  show ?thesis
  proof (cases ok)
    case True
    have "good (insert (kind, i) D) (foldl (\<lambda>st c. child c st) st1 cs)"
      using g(2)[OF True] assms(5) by (induction cs arbitrary: st1) simp_all
    then have "good D (foldl (\<lambda>st c. child c st) st1 cs)" by (rule good_mono) blast
    with True show ?thesis by (simp add: visit_def p)
  qed (use g(1) in \<open>simp add: visit_def p\<close>)
qed

lemma good_put_nisd_node:
  assumes "good D st" "set (zip [''pdu'', ''rack'', ''hypervisor'', ''device'', ''partition''] fd) \<subseteq> D"
  shows "good D (put_nisd_node cl fd i nn st)"
  unfolding put_nisd_node_def
  by (rule good_put_node(1)[OF assms(1) put_nisd _ _ prod.collapse[symmetric]]) (use assms(2) in \<open>simp_all add: nisd_of_def\<close>)

lemma good_importNISD:
  assumes "good D st" "{(''pdu'', p), (''rack'', r), (''hypervisor'', h), (''device'', d)} \<subseteq> D"
  shows "good D (importNISD cl new p r h d nn st)"
proof -
  obtain i st1 where i: "idOrNew new (ii_id nn) st = (i, st1)" by (cases "idOrNew new (ii_id nn) st")
  have g: "good D st1" using good_idOrNew(1)[OF assms(1), of new "ii_id nn"] by (simp add: i)
  show ?thesis
  proof (cases "cp_PutPartition cl")
    case None
    then show ?thesis unfolding importNISD_def i prod.case None option.case
      using assms(2) by (intro good_put_nisd_node[OF g]) simp
  next
    case (Some f)
    obtain q st2 where q: "new_id new st1 = (q, st2)" by (cases "new_id new st1")
    have g2: "good D st2" using good_idOrNew(2)[OF g, of new] by (simp add: q)
    obtain ok st3 where w: "put_node (f (partition_of q d i nn)) ''partition'' q (ii_socket_path nn) st2 = (ok, st3)"
      by (cases "put_node (f (partition_of q d i nn)) ''partition'' q (ii_socket_path nn) st2")
    have g3: "good D st3" "ok \<Longrightarrow> good (insert (''partition'', q) D) st3"
      by (rule good_put_node[OF g2 put_partition[OF Some] _ _ w]; use assms(2) in \<open>simp add: partition_of_def\<close>)+
    have "good D (put_nisd_node cl [p, r, h, d, q] i nn st3)" if ok
      by (rule good_mono[OF good_put_nisd_node[OF g3(2)[OF that]]]) (use assms(2) in auto)
    with g3(1) show ?thesis unfolding importNISD_def i prod.case Some option.case q w by simp
  qed
qed

lemma good_importDevice:
  assumes "good D st" "{(''pdu'', p), (''rack'', r), (''hypervisor'', h)} \<subseteq> D"
  shows "good D (importDevice cl new p r h dn st)"
proof -
  obtain i st1 where i: "idOrNew new (id_id dn) st = (i, st1)" by (cases "idOrNew new (id_id dn) st")
  have "good D st1" using good_idOrNew(1)[OF assms(1), of new "id_id dn"] by (simp add: i)
  then show ?thesis unfolding importDevice_def i prod.case
    by (rule good_visit[OF _ put_device]) (use assms(2) in \<open>auto simp: device_of_def intro!: good_importNISD\<close>)
qed

lemma good_importHypervisor:
  assumes "good D st" "{(''pdu'', p), (''rack'', r)} \<subseteq> D"
  shows "good D (importHypervisor cl new p r hn st)"
proof -
  obtain i st1 where i: "idOrNew new (ih_id hn) st = (i, st1)" by (cases "idOrNew new (ih_id hn) st")
  have "good D st1" using good_idOrNew(1)[OF assms(1), of new "ih_id hn"] by (simp add: i)
  then show ?thesis unfolding importHypervisor_def i prod.case
    by (rule good_visit[OF _ put_hypervisor]) (use assms(2) in \<open>auto simp: hypervisor_of_def intro!: good_importDevice\<close>)
qed

lemma good_importRack:
  assumes "good D st" "(''pdu'', p) \<in> D"
  shows "good D (importRack cl new p rn st)"
proof -
  obtain i st1 where i: "idOrNew new (ir_id rn) st = (i, st1)" by (cases "idOrNew new (ir_id rn) st")
  have "good D st1" using good_idOrNew(1)[OF assms(1), of new "ir_id rn"] by (simp add: i)
  then show ?thesis unfolding importRack_def i prod.case
    by (rule good_visit[OF _ put_rack]) (use assms(2) in \<open>auto simp: rack_of_def intro!: good_importHypervisor\<close>)
qed

lemma good_importPDU:
  assumes "good D st"
  shows "good D (importPDU cl new pn st)"
proof -
  obtain i st1 where i: "idOrNew new (ip_id pn) st = (i, st1)" by (cases "idOrNew new (ip_id pn) st")
  have "good D st1" using good_idOrNew(1)[OF assms(1), of new "ip_id pn"] by (simp add: i)
  then show ?thesis unfolding importPDU_def i prod.case
    by (rule good_visit[OF _ put_pdu]) (auto simp: pdu_of_def intro!: good_importRack)
qed

lemma good_ImportInfra: "good D st \<Longrightarrow> good D (ImportInfra cl new pdus st)"
  unfolding ImportInfra_def by (induction pdus arbitrary: st) (simp_all add: good_importPDU)

lemma import_report_ok:
  assumes "tr s = []"
  shows "report_ok (is_report (ImportInfra cl new pdus \<lparr>is_report = [], is_uuids = k, is_cp = s\<rparr>))
     (tr (is_cp (ImportInfra cl new pdus \<lparr>is_report = [], is_uuids = k, is_cp = s\<rparr>)))"
  using good_ImportInfra[of "{}" "\<lparr>is_report = [], is_uuids = k, is_cp = s\<rparr>"] assms by (simp add: good_def)

end


subsection \<open>Any client, with a log\<close>

text \<open>A client whose state also has the log of its writes; otherwise it does what the client it wraps does.\<close>

definition with_note :: "cp_node \<Rightarrow> 's effect \<Rightarrow> ('s \<times> cp_node list) effect" where
  "with_note n put st = (case put (fst st) of (err, s) \<Rightarrow> (err, (s, snd st @ [n])))"

definition on_fst :: "('s \<Rightarrow> 'a \<times> 's) \<Rightarrow> 's \<times> 't \<Rightarrow> 'a \<times> 's \<times> 't" where
  "on_fst f st = (case f (fst st) of (x, s) \<Rightarrow> (x, s, snd st))"

definition logged :: "'s cp_client \<Rightarrow> ('s \<times> cp_node list) cp_client" where
  "logged cl = \<lparr>
     cp_SetToken = (\<lambda>t st. (cp_SetToken cl t (fst st), snd st)),
     cp_RefreshTopology = (\<lambda>t. on_fst (cp_RefreshTopology cl t)),
     cp_GetNisds = on_fst (cp_GetNisds cl),
     cp_GetVdevConfigs = on_fst (cp_GetVdevConfigs cl),
     cp_GetPFS = on_fst (cp_GetPFS cl),
     cp_PutPDU = (\<lambda>p. with_note (N_PDU p) (cp_PutPDU cl p)),
     cp_PutRack = (\<lambda>r. with_note (N_Rack r) (cp_PutRack cl r)),
     cp_PutHypervisor = (\<lambda>h. with_note (N_Hypervisor h) (cp_PutHypervisor cl h)),
     cp_PutDevice = (\<lambda>d. with_note (N_Device d) (cp_PutDevice cl d)),
     cp_PutNisd = (\<lambda>n. with_note (N_Nisd n) (cp_PutNisd cl n)),
     cp_CreateVdev = (\<lambda>v. on_fst (cp_CreateVdev cl v)),
     cp_CreatePFS = (\<lambda>p. on_fst (cp_CreatePFS cl p)),
     cp_PutPartition = map_option (\<lambda>f q. with_note (N_Partition q) (f q)) (cp_PutPartition cl),
     cp_EditPFS = map_option (\<lambda>f p. on_fst (f p)) (cp_EditPFS cl),
     cp_DeleteVdev = map_option (\<lambda>f i. on_fst (f i)) (cp_DeleteVdev cl)\<rparr>"

interpretation logged: traced_client "logged cl" snd for cl :: "'s cp_client"
  by unfold_locales (auto simp: logged_def with_note_def split: prod.split)

definition forget :: "('s \<times> 't) import_st \<Rightarrow> 's import_st" where
  "forget st = \<lparr>is_report = is_report st, is_uuids = is_uuids st, is_cp = fst (is_cp st)\<rparr>"

lemma forget_ids:
  "idOrNew new i (forget st) = (fst (idOrNew new i st), forget (snd (idOrNew new i st)))"
  "new_id new (forget st) = (fst (new_id new st), forget (snd (new_id new st)))"
  by (simp_all add: forget_def idOrNew_def new_id_def)

lemma forget_put_node:
  "put_node put kind i name (forget st)
     = (fst (put_node (with_note n put) kind i name st), forget (snd (put_node (with_note n put) kind i name st)))"
  by (simp add: put_node_def forget_def with_note_def split: prod.split)

lemma forget_visit:
  assumes "\<And>c st. child c (forget st) = forget (child' c st)"
  shows "visit (put_node put kind i name (forget st)) child cs
     = forget (visit (put_node (with_note n put) kind i name st) child' cs)"
proof -
  obtain ok st1 where p: "put_node (with_note n put) kind i name st = (ok, st1)"
    by (cases "put_node (with_note n put) kind i name st")
  have "foldl (\<lambda>st c. child c st) (forget st1) cs = forget (foldl (\<lambda>st c. child' c st) st1 cs)"
    by (induction cs arbitrary: st1) (simp_all add: assms)
  then show ?thesis by (simp add: visit_def forget_put_node[of put kind i name st n] p)
qed

lemma logged_puts:
  "cp_PutPDU (logged cl) p = with_note (N_PDU p) (cp_PutPDU cl p)"
  "cp_PutRack (logged cl) r = with_note (N_Rack r) (cp_PutRack cl r)"
  "cp_PutHypervisor (logged cl) h = with_note (N_Hypervisor h) (cp_PutHypervisor cl h)"
  "cp_PutDevice (logged cl) d = with_note (N_Device d) (cp_PutDevice cl d)"
  "cp_PutNisd (logged cl) n = with_note (N_Nisd n) (cp_PutNisd cl n)"
  "cp_PutPartition (logged cl) = map_option (\<lambda>f q. with_note (N_Partition q) (f q)) (cp_PutPartition cl)"
  by (simp_all add: logged_def)

lemma forget_importNISD:
  "importNISD cl new p r h d nn (forget st) = forget (importNISD (logged cl) new p r h d nn st)"
proof -
  have n: "put_nisd_node cl fd i nn (forget st) = forget (put_nisd_node (logged cl) fd i nn st)" for fd i st
    by (simp add: put_nisd_node_def logged_puts forget_put_node[where n = "N_Nisd (nisd_of i fd nn)"])
  show ?thesis
  proof (cases "cp_PutPartition cl")
    case None
    then show ?thesis by (simp add: importNISD_def logged_puts forget_ids n split_beta)
  next
    case (Some f)
    have w: "put_node (f q) kind i name (forget st) = (fst (put_node (with_note (N_Partition q) (f q)) kind i name st),
        forget (snd (put_node (with_note (N_Partition q) (f q)) kind i name st)))" for q kind i name st
      by (rule forget_put_node)
    show ?thesis by (simp add: importNISD_def logged_puts forget_ids n w Some split_beta)
  qed
qed

lemma forget_import:
  "importDevice cl new p r h dn (forget st) = forget (importDevice (logged cl) new p r h dn st)"
  "importHypervisor cl new p r hn (forget st) = forget (importHypervisor (logged cl) new p r hn st)"
  "importRack cl new p rn (forget st) = forget (importRack (logged cl) new p rn st)"
  "importPDU cl new pn (forget st) = forget (importPDU (logged cl) new pn st)"
proof -
  show d: "importDevice cl new p r h dn (forget st) = forget (importDevice (logged cl) new p r h dn st)" for p r h dn st
    by (simp add: importDevice_def forget_ids logged_puts split_beta) (rule forget_visit, rule forget_importNISD)
  show h: "importHypervisor cl new p r hn (forget st) = forget (importHypervisor (logged cl) new p r hn st)" for p r hn st
    by (simp add: importHypervisor_def forget_ids logged_puts split_beta) (rule forget_visit, rule d)
  show r: "importRack cl new p rn (forget st) = forget (importRack (logged cl) new p rn st)" for p rn st
    by (simp add: importRack_def forget_ids logged_puts split_beta) (rule forget_visit, rule h)
  show "importPDU cl new pn (forget st) = forget (importPDU (logged cl) new pn st)"
    by (simp add: importPDU_def forget_ids logged_puts split_beta) (rule forget_visit, rule r)
qed

lemma forget_ImportInfra: "ImportInfra cl new pdus (forget st) = forget (ImportInfra (logged cl) new pdus st)"
  unfolding ImportInfra_def by (induction pdus arbitrary: st) (simp_all add: forget_import)

definition import_start :: "nat \<Rightarrow> 's \<Rightarrow> 's import_st" where
  "import_start k s = \<lparr>is_report = [], is_uuids = k, is_cp = s\<rparr>"

text \<open>
  C29: an import writes parents first. Whatever the control plane answers, the report of an import has one
  outcome for each write it sends, in the order they are sent, with the kind and identifier of the record
  written; and a record is only sent after the records that it refers to (the power unit of a rack, every
  entry of the failure domain of a NISD) have been written successfully. The log that shows this is of no
  effect: the import does the same without it.
\<close>

theorem import_parents_first:
  "report_ok (is_report (ImportInfra (logged cl) new pdus (import_start k (s, []))))
     (snd (is_cp (ImportInfra (logged cl) new pdus (import_start k (s, [])))))
   \<and> ImportInfra cl new pdus (import_start k s) = forget (ImportInfra (logged cl) new pdus (import_start k (s, [])))"
  using logged.import_report_ok[of "(s, [])" cl new pdus k] forget_ImportInfra[of cl new pdus "import_start k (s, [])"]
  by (simp add: import_start_def forget_def)

subsection \<open>How much is reported\<close>

text \<open>
  An operation reports at most \<open>n\<close> outcomes, of kinds in \<open>K\<close>, and exactly \<open>n\<close> when none of them is a failure.
\<close>

definition reports :: "nat \<Rightarrow> string set \<Rightarrow> ('s import_st \<Rightarrow> 's import_st) \<Rightarrow> bool" where
  "reports n K f \<longleftrightarrow> (\<forall>st. \<exists>os. is_report (f st) = is_report st @ os \<and> oc_Kind ` set os \<subseteq> K \<and> length os \<le> n
     \<and> ((\<forall>o1 \<in> set os. oc_Err o1 = None) \<longrightarrow> length os = n))"

lemma reports_mono: "reports n K f \<Longrightarrow> K \<subseteq> L \<Longrightarrow> reports n L f"
  unfolding reports_def by (meson order_trans)

lemma reports_foldl:
  assumes "\<And>c. reports (size_of c) K (f c)"
  shows "reports (sum_list (map size_of cs)) K (\<lambda>st. foldl (\<lambda>st c. f c st) st cs)"
proof (induction cs)
  case (Cons c cs)
  show ?case unfolding reports_def
  proof
    fix st
    obtain os where os: "is_report (f c st) = is_report st @ os" "oc_Kind ` set os \<subseteq> K" "length os \<le> size_of c"
      "(\<forall>o1 \<in> set os. oc_Err o1 = None) \<longrightarrow> length os = size_of c"
      using assms[of c] unfolding reports_def by blast
    obtain ps where ps: "is_report (foldl (\<lambda>st c. f c st) (f c st) cs) = is_report (f c st) @ ps" "oc_Kind ` set ps \<subseteq> K"
      "length ps \<le> sum_list (map size_of cs)" "(\<forall>o1 \<in> set ps. oc_Err o1 = None) \<longrightarrow> length ps = sum_list (map size_of cs)"
      using Cons.IH unfolding reports_def by blast
    from os ps show "\<exists>qs. is_report (foldl (\<lambda>st c. f c st) st (c # cs)) = is_report st @ qs \<and> oc_Kind ` set qs \<subseteq> K
        \<and> length qs \<le> sum_list (map size_of (c # cs))
        \<and> ((\<forall>o1 \<in> set qs. oc_Err o1 = None) \<longrightarrow> length qs = sum_list (map size_of (c # cs)))"
      by (intro exI[of _ "os @ ps"]) auto
  qed
qed (simp add: reports_def)

lemma put_node_reports:
  "\<exists>o1. is_report (snd (put_node put kind i name st)) = is_report st @ [o1] \<and> oc_Kind o1 = kind \<and> oc_Name o1 = name
     \<and> (fst (put_node put kind i name st) \<longleftrightarrow> oc_Err o1 = None)"
  by (auto simp: put_node_def split: prod.split)

lemma reports_visit:
  assumes "\<And>c. reports (size_of c) K (child c)"
  shows "\<exists>o1 os. is_report (visit (put_node put kind i name st) child cs) = is_report st @ o1 # os \<and> oc_Kind o1 = kind
     \<and> oc_Name o1 = name \<and> oc_Kind ` set os \<subseteq> K \<and> length os \<le> sum_list (map size_of cs)
     \<and> ((\<forall>o2 \<in> set (o1 # os). oc_Err o2 = None) \<longrightarrow> length os = sum_list (map size_of cs))"
proof -
  obtain ok st1 where p: "put_node put kind i name st = (ok, st1)" by (cases "put_node put kind i name st")
  with put_node_reports[of put kind i name st] obtain o1 where o1: "is_report st1 = is_report st @ [o1]" "oc_Kind o1 = kind"
    "oc_Name o1 = name" "ok \<longleftrightarrow> oc_Err o1 = None" by auto
  show ?thesis
  proof (cases ok)
    case True
    obtain os where "is_report (foldl (\<lambda>st c. child c st) st1 cs) = is_report st1 @ os" "oc_Kind ` set os \<subseteq> K"
      "length os \<le> sum_list (map size_of cs)" "(\<forall>o2 \<in> set os. oc_Err o2 = None) \<longrightarrow> length os = sum_list (map size_of cs)"
      using reports_foldl[of size_of K child cs, OF assms] unfolding reports_def by blast
    with o1 True show ?thesis by (intro exI[of _ o1] exI[of _ os]) (simp add: visit_def p)
  qed (use o1 in \<open>auto simp: visit_def p\<close>)
qed


definition per_nisd :: "'s cp_client \<Rightarrow> nat" where
  "per_nisd cl = (if cp_PutPartition cl = None then 1 else 2)"

definition device_size :: "nat \<Rightarrow> import_device \<Rightarrow> nat" where
  "device_size k d = 1 + k * length (id_nisds d)"

definition hv_size :: "nat \<Rightarrow> import_hypervisor \<Rightarrow> nat" where
  "hv_size k h = 1 + sum_list (map (device_size k) (ih_devices h))"

definition rack_size :: "nat \<Rightarrow> import_rack \<Rightarrow> nat" where
  "rack_size k r = 1 + sum_list (map (hv_size k) (ir_hypervisors r))"

definition pdu_size :: "nat \<Rightarrow> import_pdu \<Rightarrow> nat" where
  "pdu_size k p = 1 + sum_list (map (rack_size k) (ip_racks p))"

lemma sum_list_concat_map: "sum_list (map g (concat (map f xs))) = sum_list (map (\<lambda>x. sum_list (map g (f x))) xs)"
  by (induction xs) simp_all

lemma sum_list_const_plus: "sum_list (map (\<lambda>x. 1 + f x) xs) = length xs + sum_list (map f xs)"
  by (induction xs) simp_all

lemma document_size:
  "request_Counts pdus = (p, r, h, d, n) \<Longrightarrow> sum_list (map (pdu_size k) pdus) = p + r + h + d + k * n"
proof -
  assume c: "request_Counts pdus = (p, r, h, d, n)"
  define racks where "racks = concat (map ip_racks pdus)"
  define hvs where "hvs = concat (map ir_hypervisors racks)"
  define devs where "devs = concat (map ih_devices hvs)"
  have "sum_list (map (pdu_size k) pdus) = length pdus + sum_list (map (rack_size k) racks)"
    by (simp add: pdu_size_def[abs_def] sum_list_const_plus[unfolded One_nat_def add_Suc plus_nat.add_0] racks_def sum_list_concat_map)
  also have "sum_list (map (rack_size k) racks) = length racks + sum_list (map (hv_size k) hvs)"
    by (simp add: rack_size_def[abs_def] sum_list_const_plus[unfolded One_nat_def add_Suc plus_nat.add_0] hvs_def sum_list_concat_map)
  also have "sum_list (map (hv_size k) hvs) = length hvs + sum_list (map (device_size k) devs)"
    by (simp add: hv_size_def[abs_def] sum_list_const_plus[unfolded One_nat_def add_Suc plus_nat.add_0] devs_def sum_list_concat_map)
  also have "sum_list (map (device_size k) devs) = length devs + k * length (concat (map id_nisds devs))"
    by (induction devs) (simp_all add: device_size_def algebra_simps)
  finally show ?thesis using c
    by (simp add: request_Counts_def Let_def racks_def[symmetric] hvs_def[symmetric] devs_def[symmetric])
qed

lemma reports_one:
  assumes "\<And>st. \<exists>o1 os. is_report (f st) = is_report st @ o1 # os \<and> oc_Kind o1 = kind \<and> oc_Name o1 = name
     \<and> oc_Kind ` set os \<subseteq> K \<and> length os \<le> n \<and> ((\<forall>o2 \<in> set (o1 # os). oc_Err o2 = None) \<longrightarrow> length os = n)"
  shows "reports (1 + n) (insert kind K) f"
  unfolding reports_def
proof
  fix st
  from assms[of st] obtain o1 os where "is_report (f st) = is_report st @ o1 # os" "oc_Kind o1 = kind"
    "oc_Kind ` set os \<subseteq> K" "length os \<le> n" "(\<forall>o2 \<in> set (o1 # os). oc_Err o2 = None) \<longrightarrow> length os = n" by blast
  then show "\<exists>os. is_report (f st) = is_report st @ os \<and> oc_Kind ` set os \<subseteq> insert kind K \<and> length os \<le> 1 + n
      \<and> ((\<forall>o1 \<in> set os. oc_Err o1 = None) \<longrightarrow> length os = 1 + n)"
    by (intro exI[of _ "o1 # os"]) auto
qed

lemma ids_report [simp]:
  "is_report (snd (idOrNew new i st)) = is_report st" "is_report (snd (new_id new st)) = is_report st"
  by (simp_all add: idOrNew_def new_id_def)

lemma importNISD_reports:
  fixes cl :: "'s cp_client"
  shows "reports (per_nisd cl) {''partition'', ''nisd''} (importNISD cl new p r h d nn)"
  unfolding reports_def
proof
  fix st :: "'s import_st"
  obtain i st1 where i: "idOrNew new (ii_id nn) st = (i, st1)" by (cases "idOrNew new (ii_id nn) st")
  have r1: "is_report st1 = is_report st" using ids_report(1)[of new "ii_id nn" st] by (simp add: i)
  have n: "\<exists>o1. is_report (put_nisd_node cl fd i nn st) = is_report st @ [o1] \<and> oc_Kind o1 = ''nisd''"
    for fd and st :: "'s import_st"
    unfolding put_nisd_node_def using put_node_reports by blast
  show "\<exists>os. is_report (importNISD cl new p r h d nn st) = is_report st @ os \<and> oc_Kind ` set os \<subseteq> {''partition'', ''nisd''}
      \<and> length os \<le> per_nisd cl \<and> ((\<forall>o1 \<in> set os. oc_Err o1 = None) \<longrightarrow> length os = per_nisd cl)"
  proof (cases "cp_PutPartition cl")
    case None
    obtain o1 where "is_report (put_nisd_node cl [p, r, h, d] i nn st1) = is_report st1 @ [o1]" "oc_Kind o1 = ''nisd''"
      using n by blast
    with None show ?thesis by (intro exI[of _ "[o1]"]) (simp add: importNISD_def i r1 per_nisd_def)
  next
    case (Some f)
    obtain q st2 where q: "new_id new st1 = (q, st2)" by (cases "new_id new st1")
    have r2: "is_report st2 = is_report st" using ids_report(2)[of new st1] by (simp add: q r1)
    obtain ok st3 where w: "put_node (f (partition_of q d i nn)) ''partition'' q (ii_socket_path nn) st2 = (ok, st3)"
      by (cases "put_node (f (partition_of q d i nn)) ''partition'' q (ii_socket_path nn) st2")
    with put_node_reports[of "f (partition_of q d i nn)" "''partition''" q "ii_socket_path nn" st2] obtain o1 where
      o1: "is_report st3 = is_report st @ [o1]" "oc_Kind o1 = ''partition''" "ok \<longleftrightarrow> oc_Err o1 = None" by (auto simp: r2)
    obtain o2 where o2: "is_report (put_nisd_node cl [p, r, h, d, q] i nn st3) = is_report st3 @ [o2]" "oc_Kind o2 = ''nisd''"
      using n by blast
    show ?thesis
    proof (cases ok)
      case True
      with o1 o2 Some show ?thesis by (intro exI[of _ "[o1, o2]"]) (simp add: importNISD_def i q w per_nisd_def)
    next
      case False
      with o1 Some show ?thesis by (intro exI[of _ "[o1]"]) (simp add: importNISD_def i q w per_nisd_def)
    qed
  qed
qed


lemma import_one:
  fixes st :: "'s import_st"
  assumes "\<And>c. reports (size_of c) K (child (fst (idOrNew new i st)) c)"
  shows "\<exists>o1 os. is_report (case idOrNew new i st of (j, st1) \<Rightarrow> visit (put_node (put j) kind j name st1) (child j) cs)
       = is_report st @ o1 # os \<and> oc_Kind o1 = kind \<and> oc_Name o1 = name
     \<and> oc_Kind ` set os \<subseteq> K \<and> length os \<le> sum_list (map size_of cs)
     \<and> ((\<forall>o2 \<in> set (o1 # os). oc_Err o2 = None) \<longrightarrow> length os = sum_list (map size_of cs))"
  using reports_visit[of size_of K "child (fst (idOrNew new i st))" "put (fst (idOrNew new i st))" kind "fst (idOrNew new i st)" name
      "snd (idOrNew new i st)" cs, OF assms] by (simp add: split_beta)

lemma importDevice_reports: "reports (device_size (per_nisd cl) dn) {''device'', ''partition'', ''nisd''} (importDevice cl new p r h dn)"
proof -
  have "reports (1 + sum_list (map (\<lambda>_. per_nisd cl) (id_nisds dn))) (insert ''device'' {''partition'', ''nisd''})
     (importDevice cl new p r h dn)"
    unfolding importDevice_def[abs_def] by (rule reports_one[where name = "id_name dn"], rule import_one, rule importNISD_reports)
  then show ?thesis by (simp add: device_size_def sum_list_triv mult.commute)
qed

lemma importHypervisor_reports:
  "reports (hv_size (per_nisd cl) hn) {''hypervisor'', ''device'', ''partition'', ''nisd''} (importHypervisor cl new p r hn)"
  unfolding importHypervisor_def[abs_def] hv_size_def
  by (rule reports_one[where name = "ih_name hn"], rule import_one, rule importDevice_reports)

lemma importRack_reports:
  "reports (rack_size (per_nisd cl) rn) {''rack'', ''hypervisor'', ''device'', ''partition'', ''nisd''} (importRack cl new p rn)"
  unfolding importRack_def[abs_def] rack_size_def
  by (rule reports_one[where name = "ir_name rn"], rule import_one, rule importHypervisor_reports)

lemma importPDU_report:
  "\<exists>o1 os. is_report (importPDU cl new pn st) = is_report st @ o1 # os \<and> oc_Kind o1 = ''pdu'' \<and> oc_Name o1 = ip_name pn
     \<and> oc_Kind ` set os \<subseteq> {''rack'', ''hypervisor'', ''device'', ''partition'', ''nisd''}
     \<and> length os \<le> sum_list (map (rack_size (per_nisd cl)) (ip_racks pn))
     \<and> ((\<forall>o2 \<in> set (o1 # os). oc_Err o2 = None) \<longrightarrow> length os = sum_list (map (rack_size (per_nisd cl)) (ip_racks pn)))"
  unfolding importPDU_def by (rule import_one, rule importRack_reports)

lemma importPDU_reports:
  "reports (pdu_size (per_nisd cl) pn) {''pdu'', ''rack'', ''hypervisor'', ''device'', ''partition'', ''nisd''} (importPDU cl new pn)"
  unfolding pdu_size_def by (rule reports_one[where name = "ip_name pn"], rule importPDU_report)

lemma reported_pdus:
  "map oc_Name (filter (\<lambda>o1. oc_Kind o1 = ''pdu'') (is_report (ImportInfra cl new pdus st)))
     = map oc_Name (filter (\<lambda>o1. oc_Kind o1 = ''pdu'') (is_report st)) @ map ip_name pdus"
proof (induction pdus arbitrary: st)
  case (Cons pn pdus)
  obtain o1 os where r: "is_report (importPDU cl new pn st) = is_report st @ o1 # os" "oc_Kind o1 = ''pdu''" "oc_Name o1 = ip_name pn"
    "oc_Kind ` set os \<subseteq> {''rack'', ''hypervisor'', ''device'', ''partition'', ''nisd''}" using importPDU_report by blast
  from r(4) have "filter (\<lambda>o1. oc_Kind o1 = ''pdu'') os = []" by (auto simp: filter_empty_conv)
  with r Cons.IH[of "importPDU cl new pn st"] show ?case by (simp add: ImportInfra_def)
qed (simp add: ImportInfra_def)

text \<open>
  What an import reports. Every power unit of the document is reported, in its order, whatever happens to
  the others. No more is reported than the document has nodes, where a NISD counts twice when the backend
  needs a partition for it; and when no failure is reported, everything was created: the number of
  successes is that of the nodes.
\<close>

theorem import_reports_all:
  fixes cl :: "'s cp_client"
  assumes "request_Counts pdus = (p, r, h, d, n)"
    and "result_Counts (is_report (ImportInfra cl new pdus (import_start k s))) = (created, failed)"
  shows "map oc_Name (filter (\<lambda>o1. oc_Kind o1 = ''pdu'') (is_report (ImportInfra cl new pdus (import_start k s)))) = map ip_name pdus
    \<and> created + failed \<le> p + r + h + d + (if cp_PutPartition cl = None then n else 2 * n)
    \<and> (failed = 0 \<longrightarrow> created = p + r + h + d + (if cp_PutPartition cl = None then n else 2 * n))"
proof -
  let ?N = "p + r + h + d + per_nisd cl * n"
  have "reports (sum_list (map (pdu_size (per_nisd cl)) pdus)) {''pdu'', ''rack'', ''hypervisor'', ''device'', ''partition'', ''nisd''}
      (ImportInfra cl new pdus)"
    unfolding ImportInfra_def[abs_def] by (rule reports_foldl, rule importPDU_reports)
  then have "reports ?N {''pdu'', ''rack'', ''hypervisor'', ''device'', ''partition'', ''nisd''} (ImportInfra cl new pdus)"
    by (simp only: document_size[OF assms(1)])
  then obtain os where os: "is_report (ImportInfra cl new pdus (import_start k s)) = os" "length os \<le> ?N"
    "(\<forall>o1 \<in> set os. oc_Err o1 = None) \<longrightarrow> length os = ?N"
    unfolding reports_def import_start_def by (metis append_Nil import_st.select_convs(1))
  have c: "created + failed = length os" "failed = 0 \<longleftrightarrow> (\<forall>o1 \<in> set os. oc_Err o1 = None)"
    using assms(2) sum_length_filter_compl[of "\<lambda>o1. oc_Err o1 = None" os] unfolding os(1)
    by (auto simp: result_Counts_def filter_empty_conv)
  have per: "per_nisd cl * n = (if cp_PutPartition cl = None then n else 2 * n)" by (simp add: per_nisd_def)
  show ?thesis
  proof (intro conjI impI)
    show "created = p + r + h + d + (if cp_PutPartition cl = None then n else 2 * n)" if "failed = 0"
      using os(3) c that by (simp only: per) simp
  qed (use reported_pdus[of cl new pdus "import_start k s"] os(2) c(1) per in \<open>simp_all add: import_start_def\<close>)
qed


subsection \<open>Witness\<close>

definition accepting :: "unit cp_client" where
  "accepting = \<lparr>cp_SetToken = (\<lambda>_ s. s), cp_RefreshTopology = (\<lambda>_ s. (Ret ([], [], []), s)), cp_GetNisds = (\<lambda>s. (Ret [], s)),
     cp_GetVdevConfigs = (\<lambda>s. (Ret [], s)), cp_GetPFS = (\<lambda>s. (Ret [], s)), cp_PutPDU = (\<lambda>_ s. (None, s)),
     cp_PutRack = (\<lambda>_ s. (None, s)), cp_PutHypervisor = (\<lambda>_ s. (None, s)), cp_PutDevice = (\<lambda>_ s. (None, s)),
     cp_PutNisd = (\<lambda>_ s. (None, s)), cp_CreateVdev = (\<lambda>_ s. (None, s)), cp_CreatePFS = (\<lambda>_ s. (None, s)),
     cp_PutPartition = Some (\<lambda>_ s. (None, s)), cp_EditPFS = None, cp_DeleteVdev = None\<rparr>"

definition one_chain :: "import_pdu list" where
  "one_chain =
    [\<lparr>ip_id = ''p1'', ip_name = ''pdu one'', ip_location = [], ip_specification = [], ip_power_cap = [], ip_racks =
      [\<lparr>ir_id = [], ir_name = ''r'', ir_location = [], ir_specification = [], ir_hypervisors =
        [\<lparr>ih_id = ''h1'', ih_name = ''h'', ih_port_range = [], ih_ssh_port = [], ih_rdma_enabled = False, ih_ip_addrs = [], ih_devices =
          [\<lparr>id_id = [], id_name = ''d'', id_device_path = [], id_serial_number = [], id_state = 0, id_size = 10, id_failure_domain = [], id_nisds =
            [\<lparr>ii_id = [], ii_peer_port = 1, ii_total_size = 10, ii_available_size = 0, ii_socket_path = ''s'', ii_net_info = []\<rparr>]\<rparr>]\<rparr>]\<rparr>]\<rparr>]"

theorem import_reports_all_witness:
  "map oc_Name (filter (\<lambda>o1. oc_Kind o1 = ''pdu'') (is_report (ImportInfra accepting utoa one_chain (import_start 7 ())))) = [''pdu one'']
   \<and> result_Counts (is_report (ImportInfra accepting utoa one_chain (import_start 7 ()))) = (6, 0)"
proof -
  obtain created failed where c: "result_Counts (is_report (ImportInfra accepting utoa one_chain (import_start 7 ()))) = (created, failed)"
    by (cases "result_Counts (is_report (ImportInfra accepting utoa one_chain (import_start 7 ())))")
  have d: "request_Counts one_chain = (1, 1, 1, 1, 1)" by code_simp
  have "snd (result_Counts (is_report (ImportInfra accepting utoa one_chain (import_start 7 ())))) = 0"
    by (simp add: ImportInfra_def one_chain_def importPDU_def importRack_def importHypervisor_def importDevice_def importNISD_def
        put_nisd_node_def accepting_def visit_def put_node_def import_start_def idOrNew_def new_id_def trim_space_def is_space_def
        result_Counts_def split_beta)
  then have f: "failed = 0" by (simp only: c prod.sel)
  have "cp_PutPartition accepting \<noteq> None" "map ip_name one_chain = [''pdu one'']" by (simp_all add: accepting_def one_chain_def)
  with import_reports_all[OF d c] f show ?thesis by (simp only: c if_False) simp
qed

end
