(* ===== verification/Gossip.thy ===== *)
theory Gossip
  imports Prelude
begin

section \<open>How a proxy finds the PMDB servers\<close>

text \<open>
  The configuration that \<open>pmdbServer/pmdbServer.go\<close> gossips and \<open>proxy/proxy.go\<close> receives. A server reads
  the \<open>.peer\<close> files of its directory, compresses them into the tags of its Serf agent and adds a checksum;
  a proxy checks the tags, rebuilds the peers and writes \<open>.raft\<close> and \<open>.peer\<close> files for its PMDB client. Both
  read a file with addresses and a port range first. A file is its text; a Go map is the list of its
  entries in the order in which \<open>range\<close> visits them.
\<close>

subsection \<open>Parameters\<close>

text \<open>
  \<open>net.ParseIP\<close> (\<open>None\<close> is nil) and \<open>IP.String\<close>; the UUID library (16 bytes and their text); the compressor
  of PumiceDB, whose errors on structures the code ignores.
\<close>

record 'ip net_env = ne_ParseIP :: "string \<Rightarrow> 'ip option" ne_String :: "'ip option \<Rightarrow> string"

record uuid_env = ux_FromString :: "string \<Rightarrow> string + string" ux_String :: "string \<Rightarrow> string"

record 'ip peer_config =
  pe_UUID :: string
  pe_IPAddr :: "'ip option"
  pe_Port :: uint16
  pe_ClientPort :: uint16

record 'ip compressor =
  cx_CompressUUID :: "string \<Rightarrow> string + string"
  cx_DecompressUUID :: "string \<Rightarrow> string + string"
  cx_Compress :: "'ip peer_config \<Rightarrow> string"
  cx_Decompress :: "string \<Rightarrow> 'ip peer_config"

subsection \<open>Small helpers\<close>

fun remove_seen :: "string list \<Rightarrow> string list \<Rightarrow> string list" where
  "remove_seen allKeys [] = []"
| "remove_seen allKeys (x # xs) =
     (if x \<in> set allKeys then remove_seen allKeys xs else x # remove_seen (x # allKeys) xs)"

definition removeDuplicateStr :: "string list \<Rightarrow> string list" where
  "removeDuplicateStr strSlice = remove_seen [] strSlice"

text \<open>The length is computed with 16 bits: it wraps for a reversed range, and the full range is empty.\<close>

definition makeRange :: "uint16 \<Rightarrow> uint16 \<Rightarrow> uint16 list" where
  "makeRange min1 max1 = map (\<lambda>i. min1 + of_nat i) [0..<unat (max1 - min1 + 1)]"

text \<open>\<open>bufio.Scanner\<close> over a text: its lines without the line ends.\<close>

abbreviation newline :: char where "newline \<equiv> CHR 0x0A"

definition drop_cr :: "string \<Rightarrow> string" where
  "drop_cr l = (if l \<noteq> [] \<and> last l = CHR 0x0D then butlast l else l)"

definition scan_lines :: "string \<Rightarrow> string list" where
  "scan_lines s = (let ps = split newline s in map drop_cr (if last ps = [] then butlast ps else ps))"

text \<open>\<open>scanner.Scan(); scanner.Text()\<close> for the \<open>i\<close>th time: empty when the file has ended.\<close>

definition line_at :: "string list \<Rightarrow> nat \<Rightarrow> string" where
  "line_at ls i = (if i < length ls then ls ! i else [])"

subsection \<open>The file of addresses and ports\<close>

record 'ip node_config =
  nd_addrList :: "'ip option list"
  nd_addr :: "'ip option"
  nd_portS :: uint16
  nd_portE :: uint16
  nd_portRange :: "uint16 list"

text \<open>
  The second line has the two ports; \<open>Ports[1]\<close> panics when it has one word only. An error of \<open>Atoi\<close> is
  ignored, its value (0, or the largest integer) is cut to 16 bits.
\<close>

definition port_fields :: "'ip net_env \<Rightarrow> 'ip option list \<Rightarrow> string \<Rightarrow> 'ip node_config go" where
  "port_fields ne addrs txt =
     (case split (CHR '' '') txt of
        p0 # p1 # _ \<Rightarrow>
          (let s = word_of_int (fst (atoi p0)); e = word_of_int (fst (atoi p1))
           in Ret \<lparr>nd_addrList = addrs, nd_addr = ne_ParseIP ne ''0.0.0.0'', nd_portS = s, nd_portE = e,
                   nd_portRange = makeRange s e\<rparr>)
      | _ \<Rightarrow> Panic)"

text \<open>The proxy leaves out what is not an address, the server keeps it as a nil address.\<close>

definition getConfigData :: "'ip net_env \<Rightarrow> string + string \<Rightarrow> 'ip node_config go" where
  "getConfigData ne file =
     (case file of
        Inl err \<Rightarrow> Fail err
      | Inr text \<Rightarrow>
          (let ls = scan_lines text; ips = removeDuplicateStr (split (CHR '' '') (line_at ls 0))
           in port_fields ne (filter (\<lambda>a. a \<noteq> None) (map (ne_ParseIP ne) ips)) (line_at ls 1)))"

definition readGossipClusterFile :: "'ip net_env \<Rightarrow> string + string \<Rightarrow> 'ip node_config go" where
  "readGossipClusterFile ne file =
     (case file of
        Inl err \<Rightarrow> Fail err
      | Inr text \<Rightarrow>
          (let ls = scan_lines text; ips = removeDuplicateStr (split (CHR '' '') (line_at ls 0))
           in port_fields ne (map (ne_ParseIP ne) ips) (line_at ls 1)))"

subsection \<open>The checksum\<close>

unbundle bit_operations_syntax

text \<open>\<open>crc32.ChecksumIEEE\<close>, bit by bit.\<close>

definition crc_bit :: "uint32 \<Rightarrow> uint32" where
  "crc_bit c = (if bit c 0 then drop_bit 1 c XOR 0xEDB88320 else drop_bit 1 c)"

definition crc_byte :: "uint32 \<Rightarrow> char \<Rightarrow> uint32" where
  "crc_byte c b = (crc_bit ^^ 8) (c XOR of_nat (of_char b))"

definition crc32 :: "string \<Rightarrow> uint32" where
  "crc32 s = NOT (foldl crc_byte (NOT 0) s)"

text \<open>\<open>binary.LittleEndian\<close>: \<open>char_of\<close> keeps the low 8 bits. Reading fewer than four bytes panics.\<close>

definition le32 :: "uint32 \<Rightarrow> string" where
  "le32 w = map (\<lambda>i. char_of (unat (drop_bit (8 * i) w))) [0, 1, 2, 3]"

definition read_le32 :: "string \<Rightarrow> uint32 go" where
  "read_le32 s = (case s of
       a # b # c # d # _ \<Rightarrow> Ret (of_nat (of_char a + 256 * of_char b + 65536 * of_char c + 16777216 * of_char d))
     | _ \<Rightarrow> Panic)"

text \<open>\<open>jm\<close> is \<open>json.Marshal\<close> of a list of strings, which has no error.\<close>

definition checksum_parts :: "(string \<times> string) list \<Rightarrow> string list" where
  "checksum_parts data = map (\<lambda>k. k @ the (map_of data k)) (sort (map fst data))"

definition generateCheckSum :: "(string list \<Rightarrow> string) \<Rightarrow> (string \<times> string) list \<Rightarrow> string" where
  "generateCheckSum jm data = le32 (crc32 (jm (checksum_parts data)))"

definition validateCheckSum :: "(string list \<Rightarrow> string) \<Rightarrow> (string \<times> string) list \<Rightarrow> string \<Rightarrow> unit go" where
  "validateCheckSum jm data checksum =
     (case read_le32 checksum of
        Ret c \<Rightarrow> if crc32 (jm (checksum_parts data)) \<noteq> c then Fail ''Checksum mismatch'' else Ret ()
      | Fail e \<Rightarrow> Fail e
      | Panic \<Rightarrow> Panic)"

subsection \<open>The server: from files to tags\<close>

definition zero_uuid :: string where
  "zero_uuid = replicate 16 (CHR 0x00)"

text \<open>One line of a \<open>.peer\<close> file: its first word is the key and its last the value.\<close>

definition peer_line :: "'ip net_env \<Rightarrow> string \<Rightarrow> 'ip peer_config \<Rightarrow> string + 'ip peer_config" where
  "peer_line ne text peerData =
     (let ws = split (CHR '' '') text; key = hd ws; value = last ws; p = parse_uint 16 value in
      if key = ''CLIENT_PORT'' then (if snd p then Inr (peerData\<lparr>pe_ClientPort := of_nat (fst p)\<rparr>) else Inl ''Client Port is out of range'')
      else if key = ''IPADDR'' then Inr (peerData\<lparr>pe_IPAddr := ne_ParseIP ne value\<rparr>)
      else if key = ''PORT'' then (if snd p then Inr (peerData\<lparr>pe_Port := of_nat (fst p)\<rparr>) else Inl ''Port is out of range'')
      else Inr peerData)"

fun peer_lines :: "'ip net_env \<Rightarrow> string list \<Rightarrow> 'ip peer_config \<Rightarrow> string + 'ip peer_config" where
  "peer_lines ne [] p = Inr p"
| "peer_lines ne (l # ls) p = (case peer_line ne l p of Inl err \<Rightarrow> Inl err | Inr q \<Rightarrow> peer_lines ne ls q)"

definition extractPMDBServerConfigfromFile :: "'ip net_env \<Rightarrow> string + string \<Rightarrow> string + 'ip peer_config" where
  "extractPMDBServerConfigfromFile ne file =
     (case file of
        Inl err \<Rightarrow> Inl err
      | Inr text \<Rightarrow> peer_lines ne (scan_lines text) \<lparr>pe_UUID = zero_uuid, pe_IPAddr = None, pe_Port = 0, pe_ClientPort = 0\<rparr>)"

text \<open>\<open>copy(peerData.UUID[:], cuuid)\<close>.\<close>

definition copy_uuid :: "string \<Rightarrow> string \<Rightarrow> string" where
  "copy_uuid c u = take 16 c @ drop (length (take 16 c)) u"

text \<open>
  The directory as its file names and contents. What was read before an error stays in the handler; the
  first component is the error. A compressed structure of fewer than 16 bytes panics.
\<close>

type_synonym 'ip gossip_st = "(string \<times> string) list \<times> 'ip peer_config list"

fun read_peer_files ::
  "'ip net_env \<Rightarrow> 'ip compressor \<Rightarrow> (string \<times> (string + string)) list \<Rightarrow> 'ip gossip_st \<Rightarrow> (string option \<times> 'ip gossip_st) go" where
  "read_peer_files ne cx [] st = Ret (None, st)"
| "read_peer_files ne cx ((name, content) # files) (gd, cfgs) =
     (if \<not> contains ''.peer'' name then read_peer_files ne cx files (gd, cfgs)
      else case extractPMDBServerConfigfromFile ne content of
        Inl err \<Rightarrow> Ret (Some err, (gd, cfgs))
      | Inr peerData \<Rightarrow>
          (case cx_CompressUUID cx (take (length name - 5) name) of
             Inl err \<Rightarrow> Ret (Some err, (gd, cfgs))
           | Inr cuuid \<Rightarrow>
               (let temp = cx_Compress cx peerData in
                if length temp < 16 then Panic
                else read_peer_files ne cx files
                       (alist_update cuuid (drop 16 temp) gd, cfgs @ [peerData\<lparr>pe_UUID := copy_uuid cuuid (pe_UUID peerData)\<rparr>]))))"

definition readPMDBServerConfig ::
  "'ip net_env \<Rightarrow> 'ip compressor \<Rightarrow> string + (string \<times> (string + string)) list \<Rightarrow> 'ip gossip_st \<Rightarrow> (string option \<times> 'ip gossip_st) go" where
  "readPMDBServerConfig ne cx dir st =
     (case dir of Inl err \<Rightarrow> Ret (Some err, st) | Inr files \<Rightarrow> read_peer_files ne cx files ([], snd st))"

text \<open>The tags that the server sets. The checksum is over the tags before it.\<close>

definition exportTags ::
  "(string list \<Rightarrow> string) \<Rightarrow> bool \<Rightarrow> int \<Rightarrow> uint16 \<Rightarrow> string \<Rightarrow> (string \<times> string) list \<Rightarrow> (string \<times> string) list" where
  "exportTags jm prometheus recvdPort rpcPort raft gd =
     (let gd1 = (if prometheus then alist_update ''Hport'' (itoa recvdPort) gd else gd);
          gd2 = alist_update ''RU'' raft (alist_update ''Rport'' (itoa (uint rpcPort)) (alist_update ''Type'' ''PMDB_SERVER'' gd1))
      in alist_update ''CS'' (generateCheckSum jm gd2) gd2)"

subsection \<open>The proxy: from tags to files\<close>

text \<open>
  \<open>getAnyEntryFromStringMap\<close> of the tags by server: the first that \<open>range\<close> visits. The wait for a server to
  appear is left out.
\<close>

definition getAnyEntryFromStringMap :: "(string \<times> (string \<times> string) list) list \<Rightarrow> (string \<times> string) list" where
  "getAnyEntryFromStringMap m = (case m of [] \<Rightarrow> [] | (_, v) # _ \<Rightarrow> v)"

definition tag_value :: "(string \<times> string) list \<Rightarrow> string \<Rightarrow> string" where
  "tag_value tags k = (case map_of tags k of Some v \<Rightarrow> v | None \<Rightarrow> [])"

text \<open>The peers, each with the identifier it is stored under in \<open>PMDBServerConfigByteMap\<close>.\<close>

fun peer_entries :: "'ip compressor \<Rightarrow> (string \<times> string) list \<Rightarrow> (string \<times> 'ip peer_config) list" where
  "peer_entries cx [] = []"
| "peer_entries cx ((key, value) # tags) =
     (case cx_DecompressUUID cx key of
        Inl _ \<Rightarrow> peer_entries cx tags
      | Inr uuid \<Rightarrow> (uuid, cx_Decompress cx (key @ value)) # peer_entries cx tags)"

definition GetPMDBServerConfig ::
  "(string list \<Rightarrow> string) \<Rightarrow> uuid_env \<Rightarrow> 'ip compressor \<Rightarrow> (string \<times> string) list \<Rightarrow> (string \<times> (string \<times> 'ip peer_config) list) go" where
  "GetPMDBServerConfig jm ux cx tags =
     (let recvCheckSum = tag_value tags ''CS''; data = filter (\<lambda>e. fst e \<noteq> ''CS'') tags in
      go_bind (validateCheckSum jm data recvCheckSum) (\<lambda>_.
        case ux_FromString ux (tag_value data ''RU'') of
          Inl err \<Rightarrow> Fail err
        | Inr raft \<Rightarrow> Ret (raft, peer_entries cx data)))"

definition raft_file_text :: "uuid_env \<Rightarrow> string \<Rightarrow> 'ip peer_config list \<Rightarrow> string" where
  "raft_file_text ux raft peers =
     ''RAFT '' @ ux_String ux raft @ [newline] @ concat (map (\<lambda>p. ''PEER '' @ ux_String ux (pe_UUID p) @ [newline]) peers)"

definition peer_file_text :: "'ip net_env \<Rightarrow> uuid_env \<Rightarrow> string \<Rightarrow> 'ip peer_config \<Rightarrow> string" where
  "peer_file_text ne ux raft p =
     ''RAFT         '' @ ux_String ux raft @
     [newline] @ ''IPADDR       '' @ ne_String ne (pe_IPAddr p) @
     [newline] @ ''PORT         '' @ utoa (unat (pe_Port p)) @
     [newline] @ ''CLIENT_PORT  '' @ utoa (unat (pe_ClientPort p)) @
     [newline] @ ''STORE        ./*.raftdb'' @ [newline]"

text \<open>
  \<open>create\<close> is the error of \<open>os.Create\<close>. A \<open>.peer\<close> file that cannot be created is logged, and writing to the
  nil file then returns \<open>os.ErrInvalid\<close>. The result has the error and the files written.
\<close>

fun dump_peers ::
  "(string \<Rightarrow> string option) \<Rightarrow> 'ip net_env \<Rightarrow> uuid_env \<Rightarrow> string \<Rightarrow> string \<Rightarrow> 'ip peer_config list
   \<Rightarrow> string option \<times> (string \<times> string) list" where
  "dump_peers create ne ux path raft [] = (None, [])"
| "dump_peers create ne ux path raft (p # ps) =
     (let name = path @ ux_String ux (pe_UUID p) @ ''.peer'' in
      if create name \<noteq> None then (Some ''invalid argument'', [])
      else (case dump_peers create ne ux path raft ps of (err, files) \<Rightarrow> (err, (name, peer_file_text ne ux raft p) # files)))"

definition dumpConfigToFile ::
  "(string \<Rightarrow> string option) \<Rightarrow> 'ip net_env \<Rightarrow> uuid_env \<Rightarrow> string \<Rightarrow> string \<Rightarrow> 'ip peer_config list
   \<Rightarrow> string option \<times> (string \<times> string) list" where
  "dumpConfigToFile create ne ux path raft peers =
     (let name = path @ ux_String ux raft @ ''.raft'' in
      case create name of
        Some err \<Rightarrow> (Some err, [])
      | None \<Rightarrow> (case dump_peers create ne ux path raft peers of (err, files) \<Rightarrow> (err, (name, raft_file_text ux raft peers) # files)))"

end
