(* ===== verification/GossipSpec.thy ===== *)
theory GossipSpec
  imports Gossip
begin

section \<open>Properties of the gossiped configuration\<close>

subsection \<open>Helpers\<close>

lemma remove_seen_set: "set (remove_seen seen xs) = set xs - set seen" "distinct (remove_seen seen xs)"
  by (induction xs arbitrary: seen) auto

lemma removeDuplicateStr_set [simp]: "set (removeDuplicateStr xs) = set xs" "distinct (removeDuplicateStr xs)"
  by (simp_all add: removeDuplicateStr_def remove_seen_set)

lemma makeRange_ports:
  assumes "unat lo \<le> unat hi" and "unat hi - unat lo < 65535"
  shows "map unat (makeRange lo hi) = [unat lo..<unat hi + 1]"
proof -
  have le: "lo \<le> hi" using assms(1) by (simp add: word_le_nat_alt)
  have d: "unat (hi - lo) = unat hi - unat lo" using unat_sub[OF le] .
  then have s: "unat (hi - lo + 1) = unat hi - unat lo + 1"
    using assms(2) by (subst unat_add_lem[THEN iffD1]) simp_all
  have b: "unat hi < 65536" using unsigned_less[where 'a = nat, of hi] by simp
  have "unat (lo + of_nat i) = unat lo + i" if "i < unat hi - unat lo + 1" for i
  proof -
    from that assms(1) b have "unat lo + i < 65536" by linarith
    then show ?thesis by (simp add: unat_word_ariths unat_of_nat)
  qed
  then show ?thesis unfolding makeRange_def s using assms(1)
    by (intro nth_equalityI) (auto simp del: upt_Suc)
qed

lemma makeRange_full: "makeRange 0 0xFFFF = []"
  by (simp add: makeRange_def)

subsection \<open>The checksum\<close>

lemma le_digits: "(n :: nat) < 4294967296 \<Longrightarrow>
  n mod 256 + 256 * (n div 256 mod 256) + 65536 * (n div 65536 mod 256) + 16777216 * (n div 16777216 mod 256) = n"
proof -
  assume n: "n < 4294967296"
  have d: "n div 65536 = n div 256 div 256" "n div 16777216 = n div 256 div 256 div 256" by (simp_all add: div_mult2_eq[symmetric])
  have q: "n div 256 div 256 div 256 < 256" using n by (simp add: d(2)[symmetric] less_mult_imp_div_less)
  have "256 * (m div 256) + m mod 256 = m" for m :: nat by simp
  from this[of n] this[of "n div 256"] this[of "n div 256 div 256"] q show ?thesis
    unfolding d by (simp only: mod_less)
qed

lemma read_le32_le32: "read_le32 (le32 w) = Ret w"
proof -
  have b: "unat w < 4294967296" using unsigned_less[where 'a = nat, of w] by simp
  have "of_nat (unat w mod 256 + 256 * (unat w div 256 mod 256) + 65536 * (unat w div 65536 mod 256)
      + 16777216 * (unat w div 16777216 mod 256)) = w"
    by (subst le_digits[OF b]) simp
  then show ?thesis
    by (simp add: le32_def read_le32_def unat_drop_bit_eq drop_bit_eq_div unat_div_distrib del: of_nat_add of_nat_mult)
qed

lemma checksum_parts_map:
  assumes "distinct (map fst d1)" "distinct (map fst d2)" "map_of d1 = map_of d2"
  shows "checksum_parts d1 = checksum_parts d2"
proof -
  have "set (map fst d1) = set (map fst d2)" using assms(3) by (metis dom_map_of_conv_image_fst list.set_map)
  then have "mset (map fst d1) = mset (map fst d2)" using assms(1,2) by (simp only: set_eq_iff_mset_eq_distinct[symmetric])
  then have "sort (map fst d1) = sort (map fst d2)" by (metis mset_sort properties_for_sort sorted_sort)
  with assms(3) show ?thesis by (simp add: checksum_parts_def)
qed


subsection \<open>What the code relies on\<close>

text \<open>
  A compressed UUID has 16 bytes and is what \<open>DecompressUUID\<close> takes; a compressed structure begins with the
  16 bytes of its UUID, and with other bytes there it decompresses to the structure with that UUID.
\<close>

definition compressor_ok :: "'ip compressor \<Rightarrow> bool" where
  "compressor_ok cx \<longleftrightarrow>
     (\<forall>u c. cx_CompressUUID cx u = Inr c \<longrightarrow> length c = 16 \<and> cx_DecompressUUID cx c = Inr u)
     \<and> (\<forall>k. length k \<noteq> 16 \<longrightarrow> (\<exists>err. cx_DecompressUUID cx k = Inl err))
     \<and> (\<forall>p k. length k = 16 \<longrightarrow> 16 \<le> length (cx_Compress cx p) \<and> cx_Decompress cx (k @ drop 16 (cx_Compress cx p)) = p\<lparr>pe_UUID := k\<rparr>)"

text \<open>The text of an address is one word and is parsed back; the text of a UUID is one line.\<close>

definition texts_ok :: "'ip net_env \<Rightarrow> uuid_env \<Rightarrow> bool" where
  "texts_ok ne ux \<longleftrightarrow>
     (\<forall>ip. ne_ParseIP ne (ne_String ne (Some ip)) = Some ip
        \<and> ne_String ne (Some ip) \<noteq> [] \<and> set (ne_String ne (Some ip)) \<inter> {CHR '' '', newline, CHR 0x0D} = {})
     \<and> (\<forall>u. ux_FromString ux (ux_String ux u) = Inr u \<and> ux_String ux u \<noteq> [] \<and> set (ux_String ux u) \<inter> {newline, CHR 0x0D} = {})"

subsection \<open>Peer files\<close>

lemma split_ends: "(\<And>l. l \<in> set ls \<Longrightarrow> c \<notin> set l) \<Longrightarrow> split c (concat (map (\<lambda>l. l @ [c]) ls)) = ls @ [[]]"
  by (induction ls) (auto simp: split_append_sep)

lemma scan_lines_ends:
  assumes "\<And>l. l \<in> set ls \<Longrightarrow> newline \<notin> set l \<and> (l = [] \<or> last l \<noteq> CHR 0x0D)"
  shows "scan_lines (concat (map (\<lambda>l. l @ [newline]) ls)) = ls"
proof -
  have "split newline (concat (map (\<lambda>l. l @ [newline]) ls)) = ls @ [[]]"
    by (rule split_ends) (use assms in blast)
  moreover have "map drop_cr ls = ls"
  proof (rule map_idI)
    fix l assume "l \<in> set ls"
    from assms[OF this] show "drop_cr l = l" by (auto simp: drop_cr_def)
  qed
  ultimately show ?thesis by (simp add: scan_lines_def)
qed

lemma last_word:
  assumes "CHR '' '' \<notin> set w"
  shows "last (split (CHR '' '') (k @ CHR '' '' # w)) = w" "CHR '' '' \<notin> set k \<Longrightarrow> hd (split (CHR '' '') (k @ CHR '' '' # w)) = k"
proof -
  have "2 \<le> length (split (CHR '' '') (k @ CHR '' '' # w)) \<and> last (split (CHR '' '') (k @ CHR '' '' # w)) = w"
  proof (induction k)
    case (Cons c k)
    then show ?case using split_no_sep[OF assms] by (auto split: list.split)
  qed (use split_no_sep[OF assms] in simp)
  then show "last (split (CHR '' '') (k @ CHR '' '' # w)) = w" by simp
qed (simp add: split_append_sep)


lemma peer_lines_append: "peer_lines ne (ls @ ms) p = (case peer_lines ne ls p of Inl err \<Rightarrow> Inl err | Inr q \<Rightarrow> peer_lines ne ms q)"
  by (induction ls arbitrary: p) (auto split: sum.split)

lemma peer_line_keeps: "peer_line ne l p = Inr q \<Longrightarrow> pe_UUID q = pe_UUID p"
  by (auto simp: peer_line_def Let_def split: if_splits)

lemma peer_lines_keeps: "peer_lines ne ls p = Inr q \<Longrightarrow> pe_UUID q = pe_UUID p"
  by (induction ls arbitrary: p) (auto split: sum.splits dest: peer_line_keeps)

lemma extract_uuid: "extractPMDBServerConfigfromFile ne file = Inr q \<Longrightarrow> pe_UUID q = zero_uuid"
  by (auto simp: extractPMDBServerConfigfromFile_def split: sum.splits dest: peer_lines_keeps)

lemma utoa_chars:
  "CHR '' '' \<notin> set (utoa n)" "newline \<notin> set (utoa n)" "CHR 0x0D \<notin> set (utoa n)" "utoa n \<noteq> []"
  by (rule not_in_utoa, simp add: digit_val_def)+ simp

lemma last_ne: "w \<noteq> [] \<Longrightarrow> c \<notin> set w \<Longrightarrow> last (k @ w) \<noteq> c"
  by (metis last_appendR last_in_set)

lemma peer_text_lines:
  "peer_file_text ne ux raft p = concat (map (\<lambda>l. l @ [newline])
     [''RAFT         '' @ ux_String ux raft, ''IPADDR       '' @ ne_String ne (pe_IPAddr p),
      ''PORT         '' @ utoa (unat (pe_Port p)), ''CLIENT_PORT  '' @ utoa (unat (pe_ClientPort p)), ''STORE        ./*.raftdb''])"
  by (simp add: peer_file_text_def)

lemma peer_file_round_trip:
  assumes "texts_ok ne ux" and "pe_IPAddr p = Some ip"
  shows "extractPMDBServerConfigfromFile ne (Inr (peer_file_text ne ux raft p)) = Inr (p\<lparr>pe_UUID := zero_uuid\<rparr>)"
proof -
  from assms(1) have ip: "ne_ParseIP ne (ne_String ne (Some ip)) = Some ip" "ne_String ne (Some ip) \<noteq> []"
    "CHR '' '' \<notin> set (ne_String ne (Some ip))" "newline \<notin> set (ne_String ne (Some ip))" "CHR 0x0D \<notin> set (ne_String ne (Some ip))"
    and u: "ux_String ux raft \<noteq> []" "newline \<notin> set (ux_String ux raft)" "CHR 0x0D \<notin> set (ux_String ux raft)"
    unfolding texts_ok_def by blast+
  let ?ls = "[''RAFT         '' @ ux_String ux raft, ''IPADDR       '' @ ne_String ne (pe_IPAddr p),
      ''PORT         '' @ utoa (unat (pe_Port p)), ''CLIENT_PORT  '' @ utoa (unat (pe_ClientPort p)), ''STORE        ./*.raftdb'']"
  have lines: "scan_lines (peer_file_text ne ux raft p) = ?ls"
    unfolding peer_text_lines
  proof (rule scan_lines_ends)
    fix l assume "l \<in> set ?ls"
    then show "newline \<notin> set l \<and> (l = [] \<or> last l \<noteq> CHR 0x0D)"
      using ip(2,4,5) u utoa_chars last_ne[OF ip(2,5), of "[]"] last_ne[OF u(1,3), of "[]"]
        last_ne[OF utoa_chars(4) utoa_chars(3), of "[]"] by (auto simp: assms(2))
  qed
  have raft: "peer_line ne (''RAFT         '' @ ux_String ux raft) q = Inr q" for q
    using split_append_sep[of "CHR '' ''" "''RAFT''"] by (simp add: peer_line_def Let_def)
  have store: "peer_line ne ''STORE        ./*.raftdb'' q = Inr q" for q
    using split_append_sep[of "CHR '' ''" "''STORE''"] by (simp add: peer_line_def Let_def)
  have addr: "peer_line ne (''IPADDR       '' @ ne_String ne (Some ip)) q = Inr (q\<lparr>pe_IPAddr := Some ip\<rparr>)" for q
    using last_word[OF ip(3), of "''IPADDR      ''"] split_append_sep[of "CHR '' ''" "''IPADDR''"]
    by (simp add: peer_line_def Let_def ip(1))
  have port: "peer_line ne (''PORT         '' @ utoa (unat (w :: uint16))) q = Inr (q\<lparr>pe_Port := w\<rparr>)" for q w
    using last_word[OF utoa_chars(1), of "''PORT        ''" "unat w"] split_append_sep[of "CHR '' ''" "''PORT''"]
      parse_uint_utoa_unat[of 16 w] by (simp add: peer_line_def Let_def)
  have cport: "peer_line ne (''CLIENT_PORT  '' @ utoa (unat (w :: uint16))) q = Inr (q\<lparr>pe_ClientPort := w\<rparr>)" for q w
    using last_word[OF utoa_chars(1), of "''CLIENT_PORT ''" "unat w"] split_append_sep[of "CHR '' ''" "''CLIENT_PORT''"]
      parse_uint_utoa_unat[of 16 w] by (simp add: peer_line_def Let_def)
  show ?thesis unfolding extractPMDBServerConfigfromFile_def sum.case lines peer_lines.simps raft assms(2) addr port cport store
    using assms(2) by simp
qed


subsection \<open>From the files of a server to the peers of a proxy\<close>

text \<open>The stem of a file name, and the \<open>.peer\<close> files of a directory.\<close>

definition stem :: "string \<Rightarrow> string" where
  "stem name = take (length name - 5) name"

definition peer_files :: "(string \<times> (string + string)) list \<Rightarrow> (string \<times> (string + string)) list" where
  "peer_files files = filter (\<lambda>f. contains ''.peer'' (fst f)) files"

definition stem_entry :: "'ip net_env \<Rightarrow> 'ip compressor \<Rightarrow> string \<times> (string + string) \<Rightarrow> string \<times> 'ip peer_config \<Rightarrow> bool" where
  "stem_entry ne cx f e \<longleftrightarrow> extractPMDBServerConfigfromFile ne (snd f) = Inr (snd e) \<and> cx_CompressUUID cx (stem (fst f)) = Inr (fst e)"

lemma compressor_okD:
  assumes "compressor_ok cx"
  shows "cx_CompressUUID cx u = Inr c \<Longrightarrow> length c = 16" "cx_CompressUUID cx u = Inr c \<Longrightarrow> cx_DecompressUUID cx c = Inr u"
    "length k \<noteq> 16 \<Longrightarrow> \<exists>err. cx_DecompressUUID cx k = Inl err"
    "length k = 16 \<Longrightarrow> cx_Decompress cx (k @ drop 16 (cx_Compress cx p)) = p\<lparr>pe_UUID := k\<rparr>"
  using assms unfolding compressor_ok_def by blast+

lemma copy_uuid_16: "length c = 16 \<Longrightarrow> copy_uuid c zero_uuid = c"
  by (simp add: copy_uuid_def zero_uuid_def)

text \<open>What a successful reading of the directory has collected.\<close>

lemma read_peer_files_entries:
  assumes "compressor_ok cx" and "read_peer_files ne cx files (gd, cfgs) = Ret (None, (gd', cfgs'))"
  shows "\<exists>es. list_all2 (stem_entry ne cx) (peer_files files) es
     \<and> gd' = foldl (\<lambda>g e. alist_update (fst e) (drop 16 (cx_Compress cx (snd e))) g) gd es
     \<and> cfgs' = cfgs @ map (\<lambda>e. (snd e)\<lparr>pe_UUID := fst e\<rparr>) es"
  using assms(2)
proof (induction files arbitrary: gd cfgs)
  case (Cons f files)
  obtain name content where f: "f = (name, content)" by (cases f)
  show ?case
  proof (cases "contains ''.peer'' name")
    case False
    with Cons show ?thesis by (simp add: f peer_files_def)
  next
    case True
    with Cons.prems obtain p where p: "extractPMDBServerConfigfromFile ne content = Inr p" by (auto simp: f split: sum.splits)
    with True Cons.prems obtain c where c: "cx_CompressUUID cx (stem name) = Inr c" by (auto simp: f stem_def split: sum.splits)
    note l = compressor_okD(1)[OF assms(1) c]
    from Cons.prems True p c[unfolded stem_def] have
      "read_peer_files ne cx files (alist_update c (drop 16 (cx_Compress cx p)) gd, cfgs @ [p\<lparr>pe_UUID := c\<rparr>]) = Ret (None, (gd', cfgs'))"
      by (simp add: f Let_def extract_uuid[OF p] copy_uuid_16[OF l] split: if_splits)
    from Cons.IH[OF this] obtain es where es: "list_all2 (stem_entry ne cx) (peer_files files) es"
      "gd' = foldl (\<lambda>g e. alist_update (fst e) (drop 16 (cx_Compress cx (snd e))) g) (alist_update c (drop 16 (cx_Compress cx p)) gd) es"
      "cfgs' = (cfgs @ [p\<lparr>pe_UUID := c\<rparr>]) @ map (\<lambda>e. (snd e)\<lparr>pe_UUID := fst e\<rparr>) es" by blast
    moreover have "stem_entry ne cx f (c, p)" using p c by (simp add: stem_entry_def f)
    moreover have "peer_files (f # files) = f # peer_files files" using True by (simp add: peer_files_def f)
    ultimately show ?thesis by (intro exI[of _ "(c, p) # es"]) simp
  qed
qed (simp add: peer_files_def)

lemma foldl_update_distinct:
  assumes "distinct (map f es)" "\<forall>e \<in> set es. f e \<notin> fst ` set gd"
  shows "foldl (\<lambda>g e. alist_update (f e) (h e) g) gd es = gd @ map (\<lambda>e. (f e, h e)) es"
  using assms
proof (induction es arbitrary: gd)
  case (Cons e es)
  have "f x \<noteq> f e" if "x \<in> set es" for x
  proof
    assume "f x = f e"
    with imageI[OF that, of f] Cons.prems(1) show False by simp
  qed
  moreover have "f x \<notin> fst ` set gd" if "x \<in> set es" for x using Cons.prems(2) that by simp
  ultimately have "foldl (\<lambda>g e. alist_update (f e) (h e) g) (gd @ [(f e, h e)]) es = (gd @ [(f e, h e)]) @ map (\<lambda>e. (f e, h e)) es"
    using Cons.prems(1) by (intro Cons.IH) auto
  with Cons.prems show ?case by (simp add: alist_update_absent)
qed simp

lemma entries_distinct:
  assumes "compressor_ok cx" "list_all2 (stem_entry ne cx) fs es" "distinct (map (\<lambda>f. stem (fst f)) fs)"
  shows "distinct (map fst es)" "\<forall>e \<in> set es. length (fst e) = 16"
    "map (\<lambda>e. cx_DecompressUUID cx (fst e)) es = map (\<lambda>f. Inr (stem (fst f))) fs"
proof -
  note d = compressor_okD(1,2)[OF assms(1)]
  show m: "map (\<lambda>e. cx_DecompressUUID cx (fst e)) es = map (\<lambda>f. Inr (stem (fst f))) fs"
    using assms(2) by (induction rule: list_all2_induct) (auto simp: stem_entry_def d(2))
  show "\<forall>e \<in> set es. length (fst e) = 16"
    using assms(2) by (induction rule: list_all2_induct) (auto simp: stem_entry_def d(1))
  have "distinct (map (\<lambda>f. Inr (stem (fst f)) :: string + string) fs)"
    using assms(3) by (auto simp: distinct_map inj_on_def)
  then have "distinct (map (\<lambda>e. cx_DecompressUUID cx (fst e)) es)" by (simp only: m)
  then show "distinct (map fst es)" by (auto simp: distinct_map inj_on_def)
qed

lemma peer_entries_perm: "mset d1 = mset d2 \<Longrightarrow> mset (peer_entries cx d1) = mset (peer_entries cx d2)"
proof -
  have "mset (peer_entries cx d) = (\<Sum>e \<in># mset d. (case cx_DecompressUUID cx (fst e) of
      Inl _ \<Rightarrow> {#} | Inr u \<Rightarrow> {#(u, cx_Decompress cx (fst e @ snd e))#}))" for d
    by (induction d) (auto split: sum.split)
  then show "mset d1 = mset d2 \<Longrightarrow> ?thesis" by simp
qed

lemma peer_entries_append: "peer_entries cx (d1 @ d2) = peer_entries cx d1 @ peer_entries cx d2"
  by (induction d1) (auto split: sum.split)

lemma peer_entries_other: "compressor_ok cx \<Longrightarrow> \<forall>e \<in> set d. length (fst e) \<noteq> 16 \<Longrightarrow> peer_entries cx d = []"
proof (induction d)
  case (Cons e d)
  then show ?case using compressor_okD(3)[OF Cons.prems(1), of "fst e"] by (cases e) auto
qed simp

lemma peer_entries_own:
  assumes "compressor_ok cx" "\<forall>e \<in> set es. length (fst e) = 16"
    "map (\<lambda>e. cx_DecompressUUID cx (fst e)) es = map (\<lambda>f. Inr (stem (fst f))) fs"
  shows "peer_entries cx (map (\<lambda>e. (fst e, drop 16 (cx_Compress cx (snd e)))) es)
     = zip (map (\<lambda>f. stem (fst f)) fs) (map (\<lambda>e. (snd e)\<lparr>pe_UUID := fst e\<rparr>) es)"
  using assms(2,3)
proof (induction es arbitrary: fs)
  case (Cons e es)
  then obtain f fs' where "fs = f # fs'" by (cases fs) auto
  with Cons compressor_okD(4)[OF assms(1), of "fst e" "snd e"] show ?case by simp
qed simp


text \<open>The tags around the peers.\<close>

definition own_tags :: "bool \<Rightarrow> int \<Rightarrow> uint16 \<Rightarrow> string \<Rightarrow> (string \<times> string) list" where
  "own_tags prometheus recvdPort rpcPort raft =
     (if prometheus then [(''Hport'', itoa recvdPort)] else [])
     @ [(''Type'', ''PMDB_SERVER''), (''Rport'', itoa (uint rpcPort)), (''RU'', raft)]"

lemma exportTags_eq:
  assumes "\<forall>e \<in> set gd. length (fst e) = 16"
  shows "exportTags jm prometheus recvdPort rpcPort raft gd =
    (let d = gd @ own_tags prometheus recvdPort rpcPort raft in d @ [(''CS'', generateCheckSum jm d)])"
proof -
  have k: "length k \<noteq> 16 \<Longrightarrow> k \<notin> fst ` set gd" for k using assms by auto
  show ?thesis by (simp add: exportTags_def own_tags_def Let_def alist_update_absent k)
qed

lemma map_of_unique:
  assumes "distinct (map fst d1)" "distinct (map fst d2)" "map_of d1 = map_of d2"
  shows "mset d1 = mset d2"
proof -
  have "set d1 = set d2" using assms by (metis map_of_inject_set)
  with assms(1,2) show ?thesis by (simp add: distinct_map set_eq_iff_mset_eq_distinct[symmetric])
qed

lemma map_of_without: "map_of (filter (\<lambda>e. fst e \<noteq> k) d) = (map_of d)(k := None)"
  by (induction d) (auto simp: fun_eq_iff)

lemma generated_checksum_valid:
  assumes "distinct (map fst d1)" "distinct (map fst d2)" "map_of d1 = map_of d2"
  shows "validateCheckSum jm d2 (generateCheckSum jm d1) = Ret ()"
  by (simp add: validateCheckSum_def generateCheckSum_def read_le32_le32 checksum_parts_map[OF assms])

lemma tags_received:
  assumes cx: "compressor_ok cx" and ru: "ux_FromString ux (ux_String ux raft) = Inr raft"
    and gd: "\<forall>e \<in> set gd. length (fst e) = 16" "distinct (map fst gd)"
    and tags: "distinct (map fst tags)" "map_of tags = map_of (exportTags jm prometheus recvdPort rpcPort (ux_String ux raft) gd)"
  shows "\<exists>peers. GetPMDBServerConfig jm ux cx tags = Ret (raft, peers) \<and> mset peers = mset (peer_entries cx gd)"
proof -
  define d where "d = gd @ own_tags prometheus recvdPort rpcPort (ux_String ux raft)"
  define data where "data = filter (\<lambda>e. fst e \<noteq> ''CS'') tags"
  have k: "length k \<noteq> 16 \<Longrightarrow> k \<notin> fst ` set gd" for k using gd(1) by auto
  have o: "distinct (map fst (own_tags prometheus recvdPort rpcPort (ux_String ux raft)))"
    "\<forall>e \<in> set (own_tags prometheus recvdPort rpcPort (ux_String ux raft)). length (fst e) \<noteq> 16 \<and> fst e \<noteq> ''CS''"
    by (auto simp: own_tags_def)
  have o16: "length key \<noteq> 16" if "key \<in> fst ` set (own_tags prometheus recvdPort rpcPort (ux_String ux raft))" for key
    using that o(2) by fastforce
  then have "fst ` set gd \<inter> fst ` set (own_tags prometheus recvdPort rpcPort (ux_String ux raft)) = {}" using k by blast
  then have dd: "distinct (map fst d)" unfolding d_def map_append distinct_append using gd(2) o(1) by simp
  have ncs: "''CS'' \<notin> fst ` set d" using o(2) k[of "''CS''"] by (auto simp: d_def)
  then have n: "map_of d ''CS'' = None" by (simp add: map_of_eq_None_iff)
  have t: "map_of tags = (map_of d)(''CS'' \<mapsto> generateCheckSum jm d)"
    unfolding tags(2) exportTags_eq[OF gd(1)] Let_def d_def[symmetric]
    by (auto simp: fun_eq_iff map_add_def map_of_append n split: option.split)
  have dm: "map_of data = map_of d" unfolding data_def map_of_without t by (auto simp: fun_eq_iff n)
  have ddat: "distinct (map fst data)" using tags(1) by (simp add: data_def distinct_map_filter)
  have "tag_value tags ''CS'' = generateCheckSum jm d" by (simp add: tag_value_def t)
  moreover have "tag_value data ''RU'' = ux_String ux raft"
    using map_of_eq_None_iff[of gd "''RU''"] k[of "''RU''"] by (auto simp: tag_value_def dm d_def map_of_append map_add_def own_tags_def split: option.split)
  ultimately have "GetPMDBServerConfig jm ux cx tags = Ret (raft, peer_entries cx data)"
    using generated_checksum_valid[OF dd ddat dm[symmetric], of jm]
    by (simp add: GetPMDBServerConfig_def data_def[symmetric] ru)
  moreover have "mset (peer_entries cx data) = mset (peer_entries cx gd)"
  proof -
    have "mset (peer_entries cx data) = mset (peer_entries cx d)" by (rule peer_entries_perm, rule map_of_unique[OF ddat dd dm])
    moreover have "peer_entries cx (own_tags prometheus recvdPort rpcPort (ux_String ux raft)) = []"
      using o(2) by (intro peer_entries_other[OF cx]) blast
    ultimately show ?thesis by (simp add: d_def peer_entries_append)
  qed
  ultimately show ?thesis by blast
qed

text \<open>
  C26: the configuration reaches the proxy. When a server has read its directory, its tags, received in any
  order, pass the checksum of the proxy, and the proxy gets the raft UUID of the server and exactly its
  peers, each under the stem of its file name. For each peer with an address, the \<open>.peer\<close> file that the
  proxy writes reads back as the file that the server read.
\<close>

theorem gossip_round_trip:
  assumes "compressor_ok cx" and "texts_ok ne ux"
    and "readPMDBServerConfig ne cx (Inr files) (gd0, []) = Ret (None, (gd, cfgs))"
    and "distinct (map (\<lambda>f. stem (fst f)) (peer_files files))"
    and "distinct (map fst tags)" and "map_of tags = map_of (exportTags jm prometheus recvdPort rpcPort (ux_String ux raft) gd)"
  shows "\<exists>peers. GetPMDBServerConfig jm ux cx tags = Ret (raft, peers) \<and> mset (map snd peers) = mset cfgs
    \<and> mset (map fst peers) = mset (map (\<lambda>f. stem (fst f)) (peer_files files))
    \<and> (\<forall>(u, p) \<in> set peers. \<exists>f \<in> set (peer_files files). stem (fst f) = u
         \<and> (pe_IPAddr p \<noteq> None \<longrightarrow> extractPMDBServerConfigfromFile ne (Inr (peer_file_text ne ux raft p))
              = extractPMDBServerConfigfromFile ne (snd f)))"
proof -
  from read_peer_files_entries[OF assms(1), of ne files "[]" "[]" gd cfgs] assms(3) obtain es where
    es: "list_all2 (stem_entry ne cx) (peer_files files) es"
    "gd = foldl (\<lambda>g e. alist_update (fst e) (drop 16 (cx_Compress cx (snd e))) g) [] es"
    "cfgs = map (\<lambda>e. (snd e)\<lparr>pe_UUID := fst e\<rparr>) es" by (auto simp: readPMDBServerConfig_def)
  note ed = entries_distinct[OF assms(1) es(1) assms(4)]
  have gd: "gd = map (\<lambda>e. (fst e, drop 16 (cx_Compress cx (snd e)))) es"
    unfolding es(2) using foldl_update_distinct[OF ed(1), of "[]"] by simp
  have len: "length (peer_files files) = length es" using es(1) by (rule list_all2_lengthD)
  have own: "peer_entries cx gd = zip (map (\<lambda>f. stem (fst f)) (peer_files files)) cfgs"
    unfolding gd es(3) by (rule peer_entries_own[OF assms(1) ed(2,3)])
  have g16: "\<forall>e \<in> set gd. length (fst e) = 16" "distinct (map fst gd)" using ed(1,2) by (auto simp: gd comp_def)
  have ru: "ux_FromString ux (ux_String ux raft) = Inr raft" using assms(2) by (simp add: texts_ok_def)
  obtain peers where p: "GetPMDBServerConfig jm ux cx tags = Ret (raft, peers)"
    "mset peers = mset (zip (map (\<lambda>f. stem (fst f)) (peer_files files)) cfgs)"
    using tags_received[OF assms(1) ru g16 assms(5,6)] by (auto simp: own)
  have l: "length (map (\<lambda>f. stem (fst f)) (peer_files files)) = length cfgs" by (simp add: len es(3))
  have "mset (map snd peers) = mset cfgs" "mset (map fst peers) = mset (map (\<lambda>f. stem (fst f)) (peer_files files))"
    using p(2) l by (simp_all only: mset_map) (simp_all flip: mset_map)
  moreover have "\<exists>f \<in> set (peer_files files). stem (fst f) = u
         \<and> (pe_IPAddr q \<noteq> None \<longrightarrow> extractPMDBServerConfigfromFile ne (Inr (peer_file_text ne ux raft q))
              = extractPMDBServerConfigfromFile ne (snd f))" if "(u, q) \<in> set peers" for u q
  proof -
    have "(u, q) \<in> set (zip (map (\<lambda>f. stem (fst f)) (peer_files files)) cfgs)" using that p(2) by (metis set_mset_mset)
    then obtain i where i: "i < length es" "u = stem (fst (peer_files files ! i))" "q = (snd (es ! i))\<lparr>pe_UUID := fst (es ! i)\<rparr>"
      by (auto simp: in_set_zip es(3) len)
    have f: "extractPMDBServerConfigfromFile ne (snd (peer_files files ! i)) = Inr (snd (es ! i))"
      using list_all2_nthD2[OF es(1) i(1)] by (simp add: stem_entry_def)
    have "(snd (es ! i))\<lparr>pe_UUID := zero_uuid\<rparr> = snd (es ! i)" using extract_uuid[OF f] by (cases "snd (es ! i)") simp
    then have "extractPMDBServerConfigfromFile ne (Inr (peer_file_text ne ux raft q)) = Inr (snd (es ! i))" if "pe_IPAddr q \<noteq> None"
      using peer_file_round_trip[OF assms(2), of q _ raft] that by (auto simp: i(3))
    with f i(1,2) len show ?thesis by (intro bexI[of _ "peer_files files ! i"]) auto
  qed
  ultimately show ?thesis using p(1) by blast
qed

subsection \<open>A network for the witness\<close>

text \<open>
  One address, \<open>::\<close>; UUIDs written in unary; structures as 16 bytes, a flag and the ports.
\<close>

definition one_address :: "unit net_env" where
  "one_address = \<lparr>ne_ParseIP = (\<lambda>s. if s = ''::'' then Some () else None), ne_String = (\<lambda>_. ''::'')\<rparr>"

definition unary_uuids :: uuid_env where
  "unary_uuids = \<lparr>ux_FromString = (\<lambda>s. Inr (map (\<lambda>w. char_of (length w)) (butlast (split (CHR ''b'') (tl s))))),
     ux_String = (\<lambda>u. CHR ''u'' # concat (map (\<lambda>w. w @ [CHR ''b'']) (map (\<lambda>c. replicate (of_char c) (CHR ''a'')) u)))\<rparr>"

definition word_bytes :: "uint16 \<Rightarrow> string" where
  "word_bytes w = [char_of (unat w), char_of (unat w div 256)]"

definition bytes_word :: "char \<Rightarrow> char \<Rightarrow> uint16" where
  "bytes_word a b = of_nat (of_char a + 256 * of_char b)"

definition plain_compressor :: "unit compressor" where
  "plain_compressor =
     \<lparr>cx_CompressUUID = (\<lambda>u. if length u = 16 then Inr u else Inl ''length''),
      cx_DecompressUUID = (\<lambda>k. if length k = 16 then Inr k else Inl ''length''),
      cx_Compress = (\<lambda>p. copy_uuid (pe_UUID p) zero_uuid @ (if pe_IPAddr p = None then CHR ''n'' else CHR ''s'')
        # word_bytes (pe_Port p) @ word_bytes (pe_ClientPort p)),
      cx_Decompress = (\<lambda>s. \<lparr>pe_UUID = take 16 s, pe_IPAddr = (if s ! 16 = CHR ''n'' then None else Some ()),
        pe_Port = bytes_word (s ! 17) (s ! 18), pe_ClientPort = bytes_word (s ! 19) (s ! 20)\<rparr>)\<rparr>"

lemma bytes_word_bytes: "bytes_word (char_of (unat w)) (char_of (unat w div 256)) = w"
proof -
  have "unat w < 65536" using unsigned_less[where 'a = nat, of w] by simp
  then have "unat w div 256 < 256" by (simp add: less_mult_imp_div_less)
  then have "unat w mod 256 + 256 * (unat w div 256 mod 256) = unat w" by simp
  then show ?thesis by (simp add: bytes_word_def del: of_nat_add of_nat_mult)
qed

lemma length_copy_uuid [simp]: "length (copy_uuid c zero_uuid) = 16"
  by (simp add: copy_uuid_def zero_uuid_def)

lemma plain_compressor_ok: "compressor_ok plain_compressor"
proof -
  have "cx_Decompress plain_compressor (k @ drop 16 (cx_Compress plain_compressor p)) = p\<lparr>pe_UUID := k\<rparr>" if "length k = 16" for k p
    using that by (cases p) (simp add: plain_compressor_def word_bytes_def nth_append bytes_word_bytes)
  moreover have "16 \<le> length (cx_Compress plain_compressor p)" for p by (simp add: plain_compressor_def)
  ultimately show ?thesis unfolding compressor_ok_def
    by (intro conjI allI impI) (auto simp: plain_compressor_def split: if_splits)
qed

lemma texts_ok_example: "texts_ok one_address unary_uuids"
proof -
  have "ux_FromString unary_uuids (ux_String unary_uuids u) = Inr u" for u
  proof -
    have "split (CHR ''b'') (concat (map (\<lambda>w. w @ [CHR ''b'']) (map (\<lambda>c. replicate (of_char c) (CHR ''a'')) u)))
        = map (\<lambda>c. replicate (of_char c) (CHR ''a'')) u @ [[]]" by (rule split_ends) auto
    then show ?thesis by (simp add: unary_uuids_def comp_def)
  qed
  moreover have "newline \<notin> set (ux_String unary_uuids u)" "CHR 0x0D \<notin> set (ux_String unary_uuids u)" "ux_String unary_uuids u \<noteq> []" for u
    by (auto simp: unary_uuids_def)
  ultimately show ?thesis by (simp add: texts_ok_def one_address_def)
qed

definition example_peer :: "unit peer_config" where
  "example_peer = \<lparr>pe_UUID = zero_uuid, pe_IPAddr = Some (), pe_Port = 4000, pe_ClientPort = 5000\<rparr>"

definition example_files :: "(string \<times> (string + string)) list" where
  "example_files = [(''gossipNodes'', Inr ''10.0.0.1 10.0.0.2''),
     (''0123456789abcdef.peer'', Inr (peer_file_text one_address unary_uuids zero_uuid example_peer))]"

lemma example_read:
  "readPMDBServerConfig one_address plain_compressor (Inr example_files) ([], []) =
     Ret (None, ([(''0123456789abcdef'', drop 16 (cx_Compress plain_compressor example_peer))],
       [example_peer\<lparr>pe_UUID := ''0123456789abcdef''\<rparr>]))"
proof -
  have c: "\<not> contains ''.peer'' ''gossipNodes''" "contains ''.peer'' ''0123456789abcdef.peer''" by (code_simp, code_simp)
  have r: "extractPMDBServerConfigfromFile one_address (Inr (peer_file_text one_address unary_uuids zero_uuid example_peer)) = Inr example_peer"
    using peer_file_round_trip[OF texts_ok_example, of example_peer] by (simp add: example_peer_def)
  have s: "cx_CompressUUID plain_compressor (take (length ''0123456789abcdef.peer'' - 5) ''0123456789abcdef.peer'') = Inr ''0123456789abcdef''"
    by (simp add: plain_compressor_def)
  have l: "\<not> length (cx_Compress plain_compressor example_peer) < 16" by (simp add: plain_compressor_def)
  have u: "copy_uuid ''0123456789abcdef'' (pe_UUID example_peer) = ''0123456789abcdef''" by (simp add: copy_uuid_def example_peer_def zero_uuid_def)
  show ?thesis
    by (simp only: readPMDBServerConfig_def example_files_def read_peer_files.simps sum.case c r s l u Let_def if_False if_True not_True_eq_False
        not_False_eq_True alist_update.simps append_Nil snd_conv)
qed

theorem gossip_round_trip_witness:
  "\<exists>peers. GetPMDBServerConfig concat unary_uuids plain_compressor
       (exportTags concat True 8000 4000 (ux_String unary_uuids ''fedcba9876543210'')
         [(''0123456789abcdef'', drop 16 (cx_Compress plain_compressor example_peer))]) = Ret (''fedcba9876543210'', peers)
     \<and> mset (map snd peers) = {# example_peer\<lparr>pe_UUID := ''0123456789abcdef''\<rparr> #}"
proof -
  have f: "peer_files example_files = [example_files ! 1]" by (simp add: peer_files_def example_files_def) code_simp
  have d: "distinct (map fst (exportTags concat True 8000 4000 (ux_String unary_uuids ''fedcba9876543210'')
         [(''0123456789abcdef'', drop 16 (cx_Compress plain_compressor example_peer))]))"
    by (simp add: exportTags_def Let_def)
  show ?thesis
    using gossip_round_trip[OF plain_compressor_ok texts_ok_example example_read _ d refl] by (auto simp: f)
qed

end
