(* ===== verification/KvServer.thy ===== *)
theory KvServer
  imports Envelope
begin

section \<open>The callbacks for raw keys: NiovaKVServer\<close>

text \<open>
  \<open>NiovaKVServer\<close> of \<open>pmdbServer/pmdbServer.go\<close>, which PumiceDB calls for an application request, beside
  the handlers of the functions: it reads and writes keys of the column family that those use. A request
  arrives encoded; \<open>decode\<close> is \<open>appdecode\<close>. \<open>copy\<close> is \<open>PmdbCopyDataToBuffer\<close>, which gives the size of the
  encoded answer or an error.
\<close>

text \<open>\<open>requestResponseLib\<close>.\<close>

abbreviation KV_WRITE :: int where "KV_WRITE \<equiv> 0"
abbreviation KV_READ :: int where "KV_READ \<equiv> 1"
abbreviation KV_RANGE_READ :: int where "KV_RANGE_READ \<equiv> 2"

record kv_request =
  kr_Operation :: int
  kr_Key :: string
  kr_Prefix :: string
  kr_Value :: string
  kr_Rncui :: string
  kr_CheckSum :: string
  kr_SeqNum :: uint64
  kr_Consistent :: bool

record kv_response =
  ks_Status :: int
  ks_Key :: string
  ks_Prefix :: string
  ks_ResultMap :: "(string \<times> string) list"
  ks_ContinueRead :: bool
  ks_SeqNum :: uint64
  ks_SnapMiss :: bool

definition kv_WritePrep :: int where
  "kv_WritePrep = 0"

definition kv_FillReply :: int where
  "kv_FillReply = 0"

text \<open>Any decodable request is a write, whatever its operation says.\<close>

definition kv_Apply :: "('p \<Rightarrow> string + kv_request) \<Rightarrow> 's data_store \<Rightarrow> 'p \<Rightarrow> 's \<Rightarrow> int \<times> 's" where
  "kv_Apply decode ds payload s =
     (case decode payload of
        Inl err \<Rightarrow> (- 1, s)
      | Inr applyNiovaKV \<Rightarrow>
          (case ds_Write ds s (kr_Key applyNiovaKV) (kr_Value applyNiovaKV) of
             (None, s') \<Rightarrow> (0, s')
           | (Some err, s') \<Rightarrow> (- 1, s')))"

abbreviation encodingOverhead :: int where "encodingOverhead \<equiv> 256"

text \<open>
  The two kinds of read, as the answer or \<open>None\<close> for -1. An error of the single read is only logged: the
  callback then returns 0 and leaves the buffer alone (\<open>Some (Inl _)\<close>).
\<close>

definition kv_answer :: "'s data_store \<Rightarrow> int \<Rightarrow> kv_request \<Rightarrow> 's \<Rightarrow> (string + kv_response) option" where
  "kv_answer ds replySize req s =
     (if kr_Operation req = KV_READ then
        (case ds_Read ds s (kr_Key req) of
           Inl err \<Rightarrow> Some (Inl err)
         | Inr v \<Rightarrow> Some (Inr \<lparr>ks_Status = 0, ks_Key = kr_Key req, ks_Prefix = [], ks_ResultMap = [(kr_Key req, v)],
                              ks_ContinueRead = False, ks_SeqNum = 0, ks_SnapMiss = False\<rparr>))
      else if kr_Operation req = KV_RANGE_READ then
        (case ds_RangeRead ds s \<lparr>ra_Key = kr_Key req, ra_Prefix = kr_Prefix req, ra_BufSize = replySize - encodingOverhead,
                                ra_Consistent = True, ra_SeqNum = kr_SeqNum req\<rparr> of
           Inl err \<Rightarrow> None
         | Inr r \<Rightarrow> Some (Inr \<lparr>ks_Status = 0, ks_Key = rr_LastKey r, ks_Prefix = kr_Key req, ks_ResultMap = rr_ResultMap r,
                              ks_ContinueRead = (rr_LastKey r \<noteq> []), ks_SeqNum = rr_SeqNum r,
                              ks_SnapMiss = rr_SnapMiss r\<rparr>))
      else None)"

text \<open>The result and what is in the reply buffer.\<close>

definition kv_Read ::
  "('p \<Rightarrow> string + kv_request) \<Rightarrow> (kv_response \<Rightarrow> string + int) \<Rightarrow> 's data_store \<Rightarrow> int \<Rightarrow> 'p \<Rightarrow> 's
   \<Rightarrow> int \<times> kv_response option" where
  "kv_Read decode copy ds replySize payload s =
     (case decode payload of
        Inl err \<Rightarrow> (- 1, None)
      | Inr req \<Rightarrow>
          (case kv_answer ds replySize req s of
             None \<Rightarrow> (- 1, None)
           | Some (Inl err) \<Rightarrow> (0, None)
           | Some (Inr resp) \<Rightarrow> (case copy resp of Inl err \<Rightarrow> (- 1, None) | Inr n \<Rightarrow> (n, Some resp))))"

end
