(* ===== verification/KvSpec.thy ===== *)
theory KvSpec
  imports KvServer UserSpec
begin

section \<open>Raw keys and the users\<close>

subsection \<open>Writing and reading a key\<close>

lemma kv_Apply_writes:
  assumes "store_exact ds cont" and "decode payload = Inr req"
  shows "fst (kv_Apply decode ds payload s) = 0"
    "cont (snd (kv_Apply decode ds payload s)) = (cont s)(kr_Key req \<mapsto> kr_Value req)"
proof -
  obtain e s' where w: "ds_Write ds s (kr_Key req) (kr_Value req) = (e, s')" by (cases "ds_Write ds s (kr_Key req) (kr_Value req)")
  have "fst (ds_Write ds s (kr_Key req) (kr_Value req)) = None" using assms(1) by (simp add: store_exact_def)
  with w have e: "e = None" by simp
  with sound_write[OF exact_sound[OF assms(1)] w] have "cont s' = (cont s)(kr_Key req \<mapsto> kr_Value req)" by simp
  with w e assms(2) show "fst (kv_Apply decode ds payload s) = 0"
    "cont (snd (kv_Apply decode ds payload s)) = (cont s)(kr_Key req \<mapsto> kr_Value req)" by (simp_all add: kv_Apply_def)
qed

lemma kv_read_after_write:
  assumes "store_exact ds cont" and "decode w = Inr wreq" "kr_Operation rreq = KV_READ" "kr_Key rreq = kr_Key wreq"
  shows "\<exists>resp. kv_answer ds n rreq (snd (kv_Apply decode ds w s)) = Some (Inr resp) \<and> ks_ResultMap resp = [(kr_Key wreq, kr_Value wreq)]"
  using kv_Apply_writes(2)[where decode = decode, OF assms(1,2), of s] assms(3,4)
    exact_read[OF assms(1), of "snd (kv_Apply decode ds w s)" "kr_Key wreq"]
  by (simp add: kv_answer_def)

lemma kv_read_absent:
  assumes "store_exact ds cont" and "decode r = Inr req" "kr_Operation req = KV_READ" and "cont s (kr_Key req) = None"
  shows "kv_Read decode copy ds n r s = (0, None)"
  using assms exact_read[OF assms(1), of s "kr_Key req"] by (simp add: kv_Read_def kv_answer_def)

subsection \<open>A user's keys are keys\<close>

lemma user_keys_distinct: "f \<noteq> g \<Longrightarrow> user_key uid f \<noteq> user_key uid g"
  by (simp add: user_key_def)

lemma user_entries_lookup:
  assumes "f \<in> {usernameField, secretKeyField, userTypeField, userRoleField, statusField}"
  shows "map_of (user_entries u) (user_key (u_UserID u) f) = (if user_field u f = [] then None else Some (user_field u f))"
  using assms unfolding user_entries_eq by (auto simp: user_key_def)

lemma user_entries_none:
  assumes "\<forall>f \<in> {usernameField, secretKeyField, userTypeField, userRoleField, statusField}. k \<noteq> user_key (u_UserID u) f"
  shows "map_of (user_entries u) k = None"
  using assms unfolding user_entries_eq by (auto simp: map_of_eq_None_iff)

lemma user_stored_update:
  assumes "user_stored m u" and f: "f \<in> {usernameField, secretKeyField, userTypeField, userRoleField, statusField}"
    and v: "u_UserID v = u_UserID u" "user_field v f \<noteq> []"
    and same: "\<forall>g \<in> {usernameField, secretKeyField, userTypeField, userRoleField, statusField}. g \<noteq> f \<longrightarrow> user_field v g = user_field u g"
  shows "user_stored (m(user_key (u_UserID u) f \<mapsto> user_field v f)) v"
proof -
  have "(m(user_key (u_UserID u) f \<mapsto> user_field v f)) k = map_of (user_entries v) k" if k: "about_user (u_UserID u) k" for k
  proof (cases "\<exists>g \<in> {usernameField, secretKeyField, userTypeField, userRoleField, statusField}. k = user_key (u_UserID u) g")
    case True
    then obtain g where g: "g \<in> {usernameField, secretKeyField, userTypeField, userRoleField, statusField}" "k = user_key (u_UserID u) g" by blast
    have m: "m k = map_of (user_entries u) k" using assms(1) k by (simp add: user_stored_def)
    show ?thesis
    proof (cases "g = f")
      case True
      with g v user_entries_lookup[OF f, of v] show ?thesis by simp
    next
      case False
      have "user_field v g = user_field u g" using same g(1) False by blast
      with g(2) v user_entries_lookup[OF g(1), of v] user_entries_lookup[OF g(1), of u] m user_keys_distinct[OF False]
      show ?thesis by simp
    qed
  next
    case False
    then have "k \<noteq> user_key (u_UserID u) f" using f by blast
    with False assms(1) k v(1) user_entries_none[of k u] user_entries_none[of k v] show ?thesis by (simp add: user_stored_def)
  qed
  with assms(1) v(1) show ?thesis by (simp add: user_stored_def)
qed

text \<open>
  C30: the roles do not protect the keys. Two raw writes, which carry no token and are not checked by
  anything, turn any stored user into an administrator: the service then finds the user with that role and
  flag, and every other key of the store is as before.
\<close>

theorem kv_writes_promote_user:
  assumes "store_exact ds cont" and "user_stored (cont s) u"
    and "decode p1 = Inr w1" "kr_Key w1 = user_key (u_UserID u) userRoleField" "kr_Value w1 = AdminUserRole"
    and "decode p2 = Inr w2" "kr_Key w2 = user_key (u_UserID u) userTypeField" "kr_Value w2 = ''admin''"
  shows "\<exists>s1 s2. kv_Apply decode ds p1 s = (0, s1) \<and> kv_Apply decode ds p2 s1 = (0, s2)
     \<and> checkUserExistsByID ds s2 cb (u_UserID u) = Ret (Some (u\<lparr>u_UserRole := AdminUserRole, u_IsAdmin := True\<rparr>))
     \<and> (\<forall>k. k \<noteq> kr_Key w1 \<longrightarrow> k \<noteq> kr_Key w2 \<longrightarrow> cont s2 k = cont s k)"
proof -
  obtain s1 where s1: "kv_Apply decode ds p1 s = (0, s1)" "cont s1 = (cont s)(kr_Key w1 \<mapsto> kr_Value w1)"
    using kv_Apply_writes[where decode = decode, OF assms(1,3), of s] by (cases "kv_Apply decode ds p1 s") simp
  obtain s2 where s2: "kv_Apply decode ds p2 s1 = (0, s2)" "cont s2 = (cont s1)(kr_Key w2 \<mapsto> kr_Value w2)"
    using kv_Apply_writes[where decode = decode, OF assms(1,6), of s1] by (cases "kv_Apply decode ds p2 s1") simp
  let ?v = "u\<lparr>u_UserRole := AdminUserRole\<rparr>" and ?w = "u\<lparr>u_UserRole := AdminUserRole, u_IsAdmin := True\<rparr>"
  have "user_stored (cont s1) ?v" unfolding s1(2) assms(4,5)
    using user_stored_update[OF assms(2), of userRoleField ?v] by (simp add: user_field_def)
  then have "user_stored (cont s2) ?w" unfolding s2(2) assms(7,8)
    using user_stored_update[of "cont s1" ?v userTypeField ?w] by (simp add: user_field_def)
  from checkUserExistsByID_stored[OF assms(1) this] have "checkUserExistsByID ds s2 cb (u_UserID u) = Ret (Some ?w)" by simp
  with s1 s2 show ?thesis by auto
qed

definition raw_write :: "string \<Rightarrow> string \<Rightarrow> kv_request" where
  "raw_write k v = \<lparr>kr_Operation = KV_WRITE, kr_Key = k, kr_Prefix = [], kr_Value = v, kr_Rncui = [], kr_CheckSum = [],
     kr_SeqNum = 0, kr_Consistent = False\<rparr>"

theorem kv_writes_promote_user_witness:
  "\<exists>s1 s2. kv_Apply Inr mem_store (raw_write (user_key ''u2'' userRoleField) AdminUserRole) (user_entries alice) = (0, s1)
     \<and> kv_Apply Inr mem_store (raw_write (user_key ''u2'' userTypeField) ''admin'') s1 = (0, s2)
     \<and> checkUserExistsByID mem_store s2 sample_cb ''u2'' = Ret (Some (alice\<lparr>u_UserRole := AdminUserRole, u_IsAdmin := True\<rparr>))"
proof -
  have id: "u_UserID alice = ''u2''" by (simp add: alice_def)
  have "user_stored (map_of (user_entries alice)) alice" by (simp add: user_stored_def id)
  note p = kv_writes_promote_user[where decode = Inr and cb = sample_cb
      and ?p1.0 = "raw_write (user_key ''u2'' userRoleField) AdminUserRole" and ?p2.0 = "raw_write (user_key ''u2'' userTypeField) ''admin''",
      OF mem_store_exact this refl _ _ refl]
  have "kr_Key (raw_write (user_key ''u2'' f) v) = user_key (u_UserID alice) f" "kr_Value (raw_write k v) = v" for f k v
    by (simp_all add: raw_write_def id)
  from p[OF this(1,2) this(1,2)] show ?thesis unfolding id by blast
qed

end
