(* ===== verification/Discovery.thy ===== *)
theory Discovery
  imports CtlDomain
begin

section \<open>Remote disks: niova-ctl/domain/storage.go and ssh.go\<close>

text \<open>
  The terminal client lists and partitions the disks of a hypervisor by commands over SSH. The remote
  world is a state \<open>'s\<close>: \<open>sh_dial\<close> connects to one of the addresses, \<open>sh_run\<close> runs a command and gives its
  output and error. Closing a connection, waiting and logging are left out, and so is the text of an error
  of \<open>strconv\<close>.
\<close>

record 's ssh =
  sh_dial :: "string list \<Rightarrow> 's \<Rightarrow> string option \<times> 's"
  sh_run :: "string list \<Rightarrow> string \<Rightarrow> 's \<Rightarrow> (string \<times> string option) \<times> 's"

subsection \<open>Words and patterns\<close>

text \<open>\<open>strings.Fields\<close>, \<open>strings.TrimPrefix\<close>, \<open>strings.ToUpper\<close> on ASCII text, and \<open>filepath.Base\<close>.\<close>

definition words_of :: "string \<Rightarrow> string list" where
  "words_of s = filter (\<lambda>w. w \<noteq> []) (split (CHR '' '') (map (\<lambda>c. if is_space c then CHR '' '' else c) s))"

definition trim_prefix :: "string \<Rightarrow> string \<Rightarrow> string" where
  "trim_prefix p s = (if has_prefix p s then drop (length p) s else s)"

definition to_upper :: "string \<Rightarrow> string" where
  "to_upper s = map (\<lambda>c. if 97 \<le> (of_char c :: nat) \<and> (of_char c :: nat) \<le> 122 then char_of (of_char c - 32 :: nat) else c) s"

definition path_base :: "string \<Rightarrow> string" where
  "path_base p =
     (let q = rev (trim_left (CHR ''/'') (rev p)) in
      if p = [] then ''.'' else if q = [] then ''/'' else last (split (CHR ''/'') q))"

text \<open>\<open>bufio.Scanner\<close>: the lines of a text without their ends.\<close>

definition lines_of :: "string \<Rightarrow> string list" where
  "lines_of s =
     (let ps = split (CHR 0x0A) s
      in map (\<lambda>l. if l \<noteq> [] \<and> last l = CHR 0x0D then butlast l else l) (if last ps = [] then butlast ps else ps))"

text \<open>The class \<open>\s\<close> of regular expressions and the pattern \<open>p\d+$|[a-z]\d+$\<close> of names of partitions.\<close>

definition re_space :: "char \<Rightarrow> bool" where
  "re_space c \<longleftrightarrow> (of_char c :: nat) \<in> {9, 10, 12, 13, 32}"

definition is_digit :: "char \<Rightarrow> bool" where
  "is_digit c \<longleftrightarrow> digit_val c \<noteq> None"

definition partition_name :: "string \<Rightarrow> bool" where
  "partition_name s =
     (let r = dropWhile is_digit (rev s)
      in length r < length s \<and> r \<noteq> [] \<and> 97 \<le> (of_char (hd r) :: nat) \<and> (of_char (hd r) :: nat) \<le> 122)"

text \<open>
  The pattern \<open>^(\S*)\s+(\S+)\s+(\S+)\s+(\S*)\s+disk\<close>. The runs of spaces and words are forced, but for an
  empty fourth group, which needs two spaces before \<open>disk\<close> and is only tried after a word there.
\<close>

abbreviation word_end :: "char \<Rightarrow> bool" where "word_end c \<equiv> \<not> re_space c"

definition lsblk_match :: "string \<Rightarrow> (string \<times> string \<times> string \<times> string) option" where
  "lsblk_match line =
     (let r1 = dropWhile word_end line; t2 = dropWhile re_space r1;
          r2 = dropWhile word_end t2; t3 = dropWhile re_space r2;
          r3 = dropWhile word_end t3; t4 = dropWhile re_space r3; r4 = dropWhile word_end t4;
          w1 = takeWhile word_end line; w2 = takeWhile word_end t2; w3 = takeWhile word_end t3
      in if t2 = [] \<or> t3 = [] \<or> r3 = [] then None
         else if r4 \<noteq> [] \<and> has_prefix ''disk'' (dropWhile re_space r4) then Some (w1, w2, w3, takeWhile word_end t4)
         else if 2 \<le> length (takeWhile re_space r3) \<and> has_prefix ''disk'' t4 then Some (w1, w2, w3, [])
         else None)"

subsection \<open>What the commands print\<close>

text \<open>The fields of a device that the parsers leave empty.\<close>

definition found_device :: "string \<Rightarrow> string \<Rightarrow> string \<Rightarrow> int64 \<Rightarrow> string \<Rightarrow> device" where
  "found_device i name path sz serial =
     \<lparr>d_ID = i, d_Name = name, d_DevicePath = path, d_SerialNumber = serial, d_State = 0, d_Size = sz,
      d_HypervisorID = [], d_FailureDomain = [], d_Partitions = []\<rparr>"

definition by_id_line :: "string \<Rightarrow> device list" where
  "by_id_line l =
     (case words_of (trim_space l) of
        i # target # _ \<Rightarrow>
          (let deviceName = trim_prefix ''../'' (path_base target) in
           if contains ''-part'' i \<or> \<not> contains ''../'' target \<or> partition_name deviceName then []
           else [found_device i i (''/dev/'' @ deviceName) 0 []])
      | _ \<Rightarrow> [])"

definition ParseByIdDevices :: "string \<Rightarrow> device list" where
  "ParseByIdDevices output = concat (map by_id_line (split (CHR 0x0A) (trim_space output)))"

text \<open>
  The pattern \<open>^(\d+(?:\.\d+)?)\s*([KMGTPE]?)$\<close>, as the number and the factor. \<open>float_size v m\<close> is
  \<open>int64(v * m)\<close> for the nearest float to \<open>v\<close>; floats are not modelled.
\<close>

definition unit_factor :: "string \<Rightarrow> int option" where
  "unit_factor u =
     (if u = [] then Some 1 else if u = ''K'' then Some 1024 else if u = ''M'' then Some (1024 ^ 2)
      else if u = ''G'' then Some (1024 ^ 3) else if u = ''T'' then Some (1024 ^ 4)
      else if u = ''P'' then Some (1024 ^ 5) else if u = ''E'' then Some (1024 ^ 6) else None)"

definition size_match :: "string \<Rightarrow> (string \<times> int) option" where
  "size_match s =
     (let ds = takeWhile is_digit s; r = dropWhile is_digit s;
          frac = (case r of c # r' \<Rightarrow> if c = CHR ''.'' then takeWhile is_digit r' else [] | [] \<Rightarrow> []);
          (num, rest) = (if frac = [] then (ds, r) else (ds @ ''.'' @ frac, drop (Suc (length frac)) r))
      in if ds = [] then None
         else map_option (\<lambda>m. (num, m)) (unit_factor (dropWhile re_space rest)))"

definition ParseSizeToBytes :: "(string \<Rightarrow> int \<Rightarrow> int64) \<Rightarrow> string \<Rightarrow> int64" where
  "ParseSizeToBytes float_size sizeStr =
     (let s = trim_space sizeStr in
      if s = [] then 0
      else case size_match (to_upper s) of
        Some (num, m) \<Rightarrow> float_size num m
      | None \<Rightarrow> (case atoi s of (n, ok) \<Rightarrow> if ok then word_of_int n else 0))"

definition lsblk_line :: "(string \<Rightarrow> int \<Rightarrow> int64) \<Rightarrow> string \<Rightarrow> device list" where
  "lsblk_line float_size l =
     (if trim_space l = [] then []
      else case lsblk_match l of
        None \<Rightarrow> []
      | Some (i, name, sizeStr, serialNum) \<Rightarrow>
          [found_device (if i = [] then name else i) name (''/dev/'' @ name) (ParseSizeToBytes float_size sizeStr) serialNum])"

definition ParseLsblkDevices :: "(string \<Rightarrow> int \<Rightarrow> int64) \<Rightarrow> string \<Rightarrow> device list" where
  "ParseLsblkDevices float_size output = concat (map (lsblk_line float_size) (lines_of output))"

text \<open>A value out of range is taken as the nearest one, with a warning.\<close>

definition add_partition_line :: "string \<Rightarrow> (string \<times> device_partition list) list \<Rightarrow> (string \<times> device_partition list) list" where
  "add_partition_line l result =
     (case words_of l of
        name # sizeStr # parent # kind # _ \<Rightarrow>
          if kind \<noteq> ''part'' then result
          else alist_update parent
                 ((case map_of result parent of Some ps \<Rightarrow> ps | None \<Rightarrow> [])
                  @ [\<lparr>pt_PartitionID = [], pt_PartitionPath = ''/dev/'' @ name, pt_NISDUUID = [], pt_DevID = [],
                      pt_Size = word_of_int (fst (atoi sizeStr))\<rparr>]) result
      | _ \<Rightarrow> result)"

definition ParseLsblkPartitions :: "string \<Rightarrow> (string \<times> device_partition list) list" where
  "ParseLsblkPartitions output = foldl (\<lambda>m l. add_partition_line l m) [] (lines_of output)"

subsection \<open>Commands\<close>

abbreviation squote :: string where "squote \<equiv> [CHR 0x27]"

text \<open>\<open>%s\<close> of a slice of strings.\<close>

definition show_strs :: "string list \<Rightarrow> string" where
  "show_strs xs = ''['' @ join '' '' xs @ '']''"

definition by_id_cmd :: "string \<Rightarrow> string" where
  "by_id_cmd name = ''ls -la /dev/disk/by-id/ | grep '' @ squote @ name @ ''$'' @ squote @ '' | head -1 | awk '' @ squote @ ''{print $9}'' @ squote"

definition exists_cmd :: "string \<Rightarrow> string" where
  "exists_cmd devicePath = ''test -b '' @ devicePath @ '' && echo '' @ squote @ ''exists'' @ squote @ '' || echo '' @ squote @ ''not found'' @ squote"

definition mklabel_cmd :: "string \<Rightarrow> string" where
  "mklabel_cmd devicePath = ''parted -s '' @ devicePath @ '' mklabel gpt''"

definition mkpart_cmd :: "string \<Rightarrow> int \<Rightarrow> int \<Rightarrow> string" where
  "mkpart_cmd devicePath a b = ''parted -s '' @ devicePath @ '' mkpart primary '' @ itoa a @ ''% '' @ itoa b @ ''%''"

text \<open>\<open>newSSHExecutor\<close>, with the message of the functions that partition disks.\<close>

definition connect :: "'s ssh \<Rightarrow> hypervisor \<Rightarrow> 's \<Rightarrow> string option \<times> 's" where
  "connect sh hv s = (case sh_dial sh (h_IPAddrs hv) s of
     (None, s1) \<Rightarrow> (None, s1)
   | (Some err, s1) \<Rightarrow> (Some (''failed to connect to hypervisor '' @ show_strs (h_IPAddrs hv) @ '': '' @ err), s1))"

text \<open>The test that the device is there, which three functions begin with; \<open>missing\<close> is the address they report.\<close>

definition check_device :: "'s ssh \<Rightarrow> hypervisor \<Rightarrow> string \<Rightarrow> string \<Rightarrow> 's \<Rightarrow> string option \<times> 's" where
  "check_device sh hv missing devicePath s =
     (case sh_run sh (h_IPAddrs hv) (exists_cmd devicePath) s of
        ((_, Some err), s1) \<Rightarrow> (Some (''failed to check device '' @ devicePath @ '': '' @ err), s1)
      | ((result, None), s1) \<Rightarrow>
          (if trim_space result \<noteq> ''exists''
           then Some (''device '' @ devicePath @ '' not found on hypervisor '' @ missing) else None, s1))"

definition GetDeviceSize :: "'s ssh \<Rightarrow> hypervisor \<Rightarrow> string \<Rightarrow> 's \<Rightarrow> (string + int64) \<times> 's" where
  "GetDeviceSize sh hv deviceName s =
     (let devicePath = ''/dev/'' @ deviceName in
      case connect sh hv s of
        (Some err, s1) \<Rightarrow> (Inl err, s1)
      | (None, s1) \<Rightarrow>
          (case check_device sh hv (case GetPrimaryIP hv of Ret ip \<Rightarrow> ip | _ \<Rightarrow> []) devicePath s1 of
             (Some err, s2) \<Rightarrow> (Inl err, s2)
           | (None, s2) \<Rightarrow>
               (case sh_run sh (h_IPAddrs hv) (''blockdev --getsize64 '' @ devicePath) s2 of
                  ((_, Some err), s3) \<Rightarrow> (Inl (''failed to get size for device '' @ devicePath @ '': '' @ err), s3)
                | ((sizeResult, None), s3) \<Rightarrow>
                    (case atoi (trim_space sizeResult) of
                       (n, ok) \<Rightarrow> (if ok then Inr (word_of_int n) else Inl ''failed to parse device size'', s3)))))"

definition DeleteAllPartitionsFromDevice :: "'s ssh \<Rightarrow> hypervisor \<Rightarrow> string \<Rightarrow> 's effect" where
  "DeleteAllPartitionsFromDevice sh hv deviceName s =
     (let devicePath = ''/dev/'' @ deviceName in
      case connect sh hv s of
        (Some err, s1) \<Rightarrow> (Some err, s1)
      | (None, s1) \<Rightarrow>
          (case check_device sh hv (show_strs (h_IPAddrs hv)) devicePath s1 of
             (Some err, s2) \<Rightarrow> (Some err, s2)
           | (None, s2) \<Rightarrow> (None, snd (sh_run sh (h_IPAddrs hv) (mklabel_cmd devicePath) s2))))"

text \<open>The bounds of the partitions in percent. \<open>100 / n\<close> of Go rounds toward zero, and \<open>n\<close> is positive.\<close>

definition partition_bounds :: "int \<Rightarrow> (int \<times> int) list" where
  "partition_bounds n =
     map (\<lambda>i. (i * (100 div n), if i = n - 1 then 100 else (i + 1) * (100 div n))) [0..n - 1]"

definition CreateMultipleEqualPartitions :: "'s ssh \<Rightarrow> hypervisor \<Rightarrow> string \<Rightarrow> int \<Rightarrow> 's effect" where
  "CreateMultipleEqualPartitions sh hv deviceName numPartitions s =
     (let devicePath = ''/dev/'' @ deviceName; run = (\<lambda>s cmd. snd (sh_run sh (h_IPAddrs hv) cmd s)) in
      if numPartitions \<le> 0 then (Some ''number of partitions must be greater than 0'', s)
      else case GetDeviceSize sh hv deviceName s of
        (Inl err, s1) \<Rightarrow> (Some (''failed to get device size: '' @ err), s1)
      | (Inr _, s1) \<Rightarrow>
          (case connect sh hv s1 of
             (Some err, s2) \<Rightarrow> (Some err, s2)
           | (None, s2) \<Rightarrow>
               (None, foldl run s2 (map (\<lambda>(a, b). mkpart_cmd devicePath a b) (partition_bounds numPartitions)
                                    @ [''partprobe '' @ devicePath, ''udevadm settle'']))))"

definition GetDevicePartitionNames :: "'s ssh \<Rightarrow> hypervisor \<Rightarrow> string \<Rightarrow> 's \<Rightarrow> (string + string list) \<times> 's" where
  "GetDevicePartitionNames sh hv deviceName s =
     (case connect sh hv s of
        (Some err, s1) \<Rightarrow> (Inl err, s1)
      | (None, s1) \<Rightarrow>
          (case sh_run sh (h_IPAddrs hv) (''lsblk -ln -o NAME /dev/'' @ deviceName) s1 of
             ((_, Some err), s2) \<Rightarrow> (Inl (''failed to get partition names for device '' @ deviceName @ '': '' @ err), s2)
           | ((output, None), s2) \<Rightarrow>
               (Inr (sort (filter (\<lambda>l. l \<noteq> [] \<and> l \<noteq> deviceName) (map trim_space (split (CHR 0x0A) (trim_space output))))), s2)))"

text \<open>The name of a device under \<open>/dev/disk/by-id\<close>, on an open connection.\<close>

definition by_id_name :: "'s ssh \<Rightarrow> hypervisor \<Rightarrow> string \<Rightarrow> 's \<Rightarrow> (string + string) \<times> 's" where
  "by_id_name sh hv deviceName s =
     (case sh_run sh (h_IPAddrs hv) (by_id_cmd deviceName) s of
        ((_, Some err), s1) \<Rightarrow> (Inl (''failed to get by-id name for device '' @ deviceName @ '': '' @ err), s1)
      | ((out, None), s1) \<Rightarrow>
          (if trim_space out = [] then Inl (''could not find by-id name for device '' @ deviceName) else Inr (trim_space out), s1))"

definition GetDeviceByIdName :: "'s ssh \<Rightarrow> hypervisor \<Rightarrow> string \<Rightarrow> 's \<Rightarrow> (string + string) \<times> 's" where
  "GetDeviceByIdName sh hv deviceName s =
     (case connect sh hv s of (Some err, s1) \<Rightarrow> (Inl err, s1) | (None, s1) \<Rightarrow> by_id_name sh hv deviceName s1)"

record partition_info = pi_Name :: string pi_Path :: string pi_Size :: int64

text \<open>The name under \<open>by-id\<close> or, when there is none or an error, that of the kernel. A size that is no number is 0.\<close>

fun partition_infos :: "'s ssh \<Rightarrow> hypervisor \<Rightarrow> string \<Rightarrow> string list \<Rightarrow> 's \<Rightarrow> partition_info list \<times> 's" where
  "partition_infos sh hv deviceName [] s = ([], s)"
| "partition_infos sh hv deviceName (l # ls) s =
     (case words_of (trim_space l) of
        name # sizeStr # _ \<Rightarrow>
          if name = deviceName then partition_infos sh hv deviceName ls s
          else
            (let sz = (case atoi sizeStr of (n, ok) \<Rightarrow> if ok then word_of_int n else 0);
                 ((out, err), s1) = sh_run sh (h_IPAddrs hv) (by_id_cmd name) s;
                 (infos, s2) = partition_infos sh hv deviceName ls s1
             in (\<lparr>pi_Name = (if err = None \<and> trim_space out \<noteq> [] then trim_space out else name),
                  pi_Path = ''/dev/'' @ name, pi_Size = sz\<rparr> # infos, s2))
      | _ \<Rightarrow> partition_infos sh hv deviceName ls s)"

definition GetDevicePartitionInfo :: "'s ssh \<Rightarrow> hypervisor \<Rightarrow> string \<Rightarrow> 's \<Rightarrow> (string + partition_info list) \<times> 's" where
  "GetDevicePartitionInfo sh hv deviceName s =
     (case connect sh hv s of
        (Some err, s1) \<Rightarrow> (Inl err, s1)
      | (None, s1) \<Rightarrow>
          (case by_id_name sh hv deviceName s1 of
             (Inl err, s2) \<Rightarrow> (Inl err, s2)
           | (Inr _, s2) \<Rightarrow>
               (case sh_run sh (h_IPAddrs hv) (''lsblk -ln -b -o NAME,SIZE /dev/'' @ deviceName) s2 of
                  ((_, Some err), s3) \<Rightarrow> (Inl (''failed to get partition info for device '' @ deviceName @ '': '' @ err), s3)
                | ((output, None), s3) \<Rightarrow>
                    (case partition_infos sh hv deviceName (split (CHR 0x0A) (trim_space output)) s3 of
                       (infos, s4) \<Rightarrow> (Inr (sort_key pi_Name infos), s4)))))"

definition print_cmd :: "string \<Rightarrow> int \<Rightarrow> string" where
  "print_cmd devicePath n = ''parted -s '' @ devicePath @ '' print | grep '' @ squote @ ''^ '' @ itoa n @ '' '' @ squote"

definition rm_cmd :: "string \<Rightarrow> int \<Rightarrow> string" where
  "rm_cmd devicePath n = ''parted -s '' @ devicePath @ '' rm '' @ itoa n"

definition DeletePhysicalPartition :: "'s ssh \<Rightarrow> hypervisor \<Rightarrow> string \<Rightarrow> int \<Rightarrow> 's effect" where
  "DeletePhysicalPartition sh hv deviceName n s =
     (let devicePath = ''/dev/'' @ deviceName; run = sh_run sh (h_IPAddrs hv) in
      case connect sh hv s of
        (Some err, s1) \<Rightarrow> (Some err, s1)
      | (None, s1) \<Rightarrow>
          (case check_device sh hv (show_strs (h_IPAddrs hv)) devicePath s1 of
             (Some err, s2) \<Rightarrow> (Some err, s2)
           | (None, s2) \<Rightarrow>
               (case run (print_cmd devicePath n) s2 of
                  ((found, e), s3) \<Rightarrow>
                    if e \<noteq> None \<or> trim_space found = [] then
                      (Some (''partition '' @ itoa n @ '' not found on device '' @ devicePath), s3)
                    else
                      (case run (rm_cmd devicePath n) s3 of
                         ((_, Some err), s4) \<Rightarrow> (Some (''failed to delete partition '' @ itoa n @ '' from '' @ devicePath @ '': '' @ err), s4)
                       | ((_, None), s4) \<Rightarrow>
                           (case run (print_cmd devicePath n @ '' | wc -l'') s4 of
                              ((_, Some err), s5) \<Rightarrow> (Some (''failed to verify partition deletion: '' @ err), s5)
                            | ((left, None), s5) \<Rightarrow>
                                (if trim_space left \<noteq> ''0''
                                 then Some (''partition deletion verification failed for partition '' @ itoa n @ '' on '' @ devicePath)
                                 else None, s5))))))"

text \<open>The first line that mentions the partition; its place in the list is taken for its number.\<close>

fun line_with :: "string \<Rightarrow> string list \<Rightarrow> int \<Rightarrow> int option" where
  "line_with p [] i = None"
| "line_with p (l # ls) i = (if contains p l then Some i else line_with p ls (i + 1))"

definition list_cmd :: "string \<Rightarrow> string" where
  "list_cmd devicePath = ''parted -s '' @ devicePath @ '' print 2>/dev/null | grep -E '' @ squote @ ''^ *[0-9]+'' @ squote"

definition RemoveDevicePartition :: "'s ssh \<Rightarrow> hypervisor \<Rightarrow> string \<Rightarrow> string \<Rightarrow> 's effect" where
  "RemoveDevicePartition sh hv deviceName partitionID s =
     (case connect sh hv s of
        (Some err, s1) \<Rightarrow> (Some err, s1)
      | (None, s1) \<Rightarrow>
          (case sh_run sh (h_IPAddrs hv) (list_cmd (''/dev/'' @ deviceName)) s1 of
             ((_, Some err), s2) \<Rightarrow> (Some (''failed to list partitions on /dev/'' @ deviceName @ '': '' @ err), s2)
           | ((output, None), s2) \<Rightarrow>
               (case line_with partitionID (split (CHR 0x0A) (trim_space output)) 1 of
                  Some i \<Rightarrow> DeletePhysicalPartition sh hv deviceName i s2
                | None \<Rightarrow> (None, s2))))"

subsection \<open>The devices of a hypervisor\<close>

text \<open>The map of devices by name, as an association list: the result is in some order.\<close>

definition add_by_id :: "(string \<times> device) list \<Rightarrow> device \<Rightarrow> (string \<times> device) list" where
  "add_by_id m dev =
     (let blockName = path_base (d_DevicePath dev)
      in if map_of m blockName = None then alist_update blockName dev m else m)"

definition add_lsblk :: "(string \<times> device) list \<Rightarrow> device \<Rightarrow> (string \<times> device) list" where
  "add_lsblk m dev =
     (case map_of m (d_Name dev) of
        Some existing \<Rightarrow>
          alist_update (d_Name dev)
            (existing\<lparr>d_Size := d_Size dev,
                      d_SerialNumber := (if d_SerialNumber existing = [] then d_SerialNumber dev else d_SerialNumber existing)\<rparr>) m
      | None \<Rightarrow> alist_update (d_Name dev) dev m)"

definition by_id_list_cmd :: string where
  "by_id_list_cmd = ''ls -la /dev/disk/by-id/ 2>/dev/null | grep -v '' @ squote @ ''^total'' @ squote @ '' | grep -v '' @ squote @ ''^d'' @ squote
     @ '' | awk '' @ squote @ ''{print $9, $11}'' @ squote"

definition lsblk_list_cmd :: string where
  "lsblk_list_cmd = ''lsblk -d -n -o ID,NAME,SIZE,SERIAL,TYPE | grep '' @ squote @ ''disk'' @ squote"

definition GetDevices :: "(string \<Rightarrow> int \<Rightarrow> int64) \<Rightarrow> 's ssh \<Rightarrow> hypervisor \<Rightarrow> 's \<Rightarrow> (string + device list) \<times> 's" where
  "GetDevices float_size sh hv s =
     (let run = sh_run sh (h_IPAddrs hv);
          ((byId, e1), s1) = run by_id_list_cmd s;
          m1 = (if e1 = None \<and> byId \<noteq> [] then foldl add_by_id [] (ParseByIdDevices byId) else [])
      in case run lsblk_list_cmd s1 of
        ((_, Some err), s2) \<Rightarrow> (Inl (''failed to get device list: '' @ err), s2)
      | ((lsblk, None), s2) \<Rightarrow>
          (let m2 = foldl add_lsblk m1 (ParseLsblkDevices float_size lsblk);
               ((parts, e3), s3) = run ''lsblk -ln -b -o NAME,SIZE,PKNAME,TYPE'' s2;
               byParent = (if e3 = None \<and> parts \<noteq> [] then ParseLsblkPartitions parts else [])
           in (Inr (map (\<lambda>(name, dev). case map_of byParent name of Some ps \<Rightarrow> dev\<lparr>d_Partitions := ps\<rparr> | None \<Rightarrow> dev) m2), s3)))"

definition DiscoverDevices :: "(string \<Rightarrow> int \<Rightarrow> int64) \<Rightarrow> 's ssh \<Rightarrow> hypervisor \<Rightarrow> 's \<Rightarrow> (string + device list) \<times> 's" where
  "DiscoverDevices float_size sh hv s =
     (case sh_dial sh (h_IPAddrs hv) s of
        (Some err, s1) \<Rightarrow> (Inl (''connect to hypervisor: '' @ err), s1)
      | (None, s1) \<Rightarrow> GetDevices float_size sh hv s1)"

end
