(* ===== verification/Submit.thy ===== *)
theory Submit
  imports Discovery InfraImport UserLib
begin

section \<open>Forms of the terminal client: niova-ctl/ui/app_submit_handlers.go\<close>

text \<open>
  What \<open>niova-ctl\<close> does between a filled-in form and a write to the control plane. A form is checked and
  turned into a record, which a dialog shows; when the dialog is confirmed, \<open>Update\<close> starts a command that
  writes it. \<open>Update\<close> runs one message at a time on the \<open>App\<close>; a command runs beside it and ends in a message.
  The screens themselves (pages, tables, key bindings) are not modelled.
\<close>

subsection \<open>The state\<close>

datatype status_type = StatusInfo | StatusSuccess | StatusError

datatype dialog_type = ConfirmTypeInfo | ConfirmTypeWarning | ConfirmTypeDanger

record partition_disk_request = pk_Device :: device pk_Hypervisor :: hypervisor pk_Count :: int

record devices_request = dr_HypervisorID :: string dr_Devices :: "device list"

record whole_device_request = wr_Device :: device wr_Hypervisor :: hypervisor

record pfs_save_request = ps_PFS :: pfs ps_IsEdit :: bool

record import_request = im_FilePath :: string im_Request :: "import_pdu list"

datatype authz_target = RBACTarget rbac_policy | ABACTarget abac_policy

text \<open>The payload \<open>Data\<close> of a dialog, an \<open>interface{}\<close>: one constructor for each type that is put there.\<close>

datatype confirm_data =
    D_None | D_PDU pdu | D_Rack rack | D_Hypervisor hypervisor | D_Device device | D_Devices devices_request
  | D_PartitionDisk partition_disk_request | D_Partition device_partition | D_Partitions "device_partition list"
  | D_WholeDevice whole_device_request | D_Nisd nisd | D_Targets "nisd_target list" | D_Vdev vdev_config
  | D_PFS pfs_save_request | D_Import import_request | D_String string | D_Authz authz_target

record confirm_dialog =
  dg_Title :: string
  dg_Message :: string
  dg_Details :: "string list"
  dg_Type :: dialog_type
  dg_ActionID :: string
  dg_Data :: confirm_data
  dg_Selection :: bool
  dg_Active :: bool

definition NewConfirmDialog :: "string \<Rightarrow> string \<Rightarrow> string list \<Rightarrow> dialog_type \<Rightarrow> string \<Rightarrow> confirm_data \<Rightarrow> confirm_dialog" where
  "NewConfirmDialog title message details dialogType actionID data =
     \<lparr>dg_Title = title, dg_Message = message, dg_Details = details, dg_Type = dialogType, dg_ActionID = actionID,
      dg_Data = data, dg_Selection = True, dg_Active = True\<rparr>"

text \<open>The login service, whose response may be \<open>nil\<close>, and the session. Times are nanoseconds.\<close>

record 's user_service =
  us_LoginWithTenant :: "string \<Rightarrow> string \<Rightarrow> string \<Rightarrow> 's \<Rightarrow> (string + login_resp option) \<times> 's"
  us_ListUsers :: "string \<Rightarrow> 's \<Rightarrow> (string + user_resp list) \<times> 's"
  us_CreateUser :: "string \<Rightarrow> user_req \<Rightarrow> 's \<Rightarrow> (string + user_resp) \<times> 's"
  us_CreateAdminUser :: "user_req \<Rightarrow> 's \<Rightarrow> (string + user_resp) \<times> 's"

record auth_session =
  as_User :: "login_resp option"
  as_Username :: string
  as_SecretKey :: string
  as_TenantUUID :: string
  as_LoginTime :: int

definition no_session :: auth_session where
  "no_session = \<lparr>as_User = None, as_Username = [], as_SecretKey = [], as_TenantUUID = [], as_LoginTime = 0\<rparr>"

text \<open>
  The fields of \<open>App\<close> that the handlers use. \<open>ap_uuids\<close> counts the UUIDs drawn; the capabilities of the
  other backend, found by type assertions on \<open>CPClient\<close>, are options.
\<close>

datatype backend_kind = BackendMdsvcPumice | BackendMdsvcTidb

record cluster_metrics =
  cm_PDUCount :: nat
  cm_RackCount :: nat
  cm_HypervisorCount :: nat
  cm_DeviceCount :: nat
  cm_PartitionCount :: nat
  cm_NISDCount :: nat
  cm_VdevCount :: nat
  cm_PFSCount :: nat

definition zero_metrics :: cluster_metrics where
  "zero_metrics = \<lparr>cm_PDUCount = 0, cm_RackCount = 0, cm_HypervisorCount = 0, cm_DeviceCount = 0, cm_PartitionCount = 0,
     cm_NISDCount = 0, cm_VdevCount = 0, cm_PFSCount = 0\<rparr>"

record 's app =
  ap_CPClient :: "'s cp_client option"
  ap_Tenants :: "'s tenant_manager option"
  ap_Authz :: "'s authz_manager option"
  ap_UserClient :: "'s user_service option"
  ap_Auth :: auth_session
  ap_TenantToken :: string
  ap_TenantUsername :: string
  ap_Backend :: backend_kind
  ap_RaftUUID :: string
  ap_GossipPath :: string
  ap_MdsvcURL :: string
  ap_AuthEnabled :: bool
  ap_ActiveTab :: int
  ap_PDUs :: "pdu list"
  ap_Racks :: "rack list"
  ap_StandaloneHVs :: "hypervisor list"
  ap_NISDs :: "nisd list"
  ap_Vdevs :: "vdev_config list"
  ap_PFSs :: "pfs list"
  ap_Metrics :: cluster_metrics
  ap_StatusMsg :: string
  ap_StatusType :: status_type
  ap_Loading :: bool
  ap_ConfirmDialog :: confirm_dialog
  ap_uuids :: nat

text \<open>
  \<open>uuid.NewString\<close>, the clock, SSH, \<open>%.2f\<close> of a size in gigabytes, and the user client of the first backend,
  which is made when it is needed.
\<close>

record 's ui_env =
  ue_new :: "nat \<Rightarrow> string"
  ue_now :: "'s \<Rightarrow> int"
  ue_ssh :: "'s ssh"
  ue_gb :: "int64 \<Rightarrow> string"
  ue_user_client :: "'s user_service"

type_synonym 's ui = "'s app \<times> 's"

definition status :: "status_type \<Rightarrow> string \<Rightarrow> 's app \<Rightarrow> 's app" where
  "status t m a = a\<lparr>ap_StatusMsg := m, ap_StatusType := t\<rparr>"

definition not_connected :: "'s app \<Rightarrow> 's app" where
  "not_connected a = status StatusError ''Error: Control plane client is not connected'' a"

definition show_dialog :: "confirm_dialog \<Rightarrow> 's app \<Rightarrow> 's app" where
  "show_dialog d a = a\<lparr>ap_ConfirmDialog := d\<rparr>"

text \<open>\<open>idOrNew\<close> of this package.\<close>

definition id_or_new :: "'s ui_env \<Rightarrow> string \<Rightarrow> 's app \<Rightarrow> string \<times> 's app" where
  "id_or_new env i a =
     (if trim_space i \<noteq> [] then (trim_space i, a) else (ue_new env (ap_uuids a), a\<lparr>ap_uuids := ap_uuids a + 1\<rparr>))"

definition AllHypervisors :: "'s app \<Rightarrow> hypervisor list" where
  "AllHypervisors a = ap_StandaloneHVs a @ pdu_hypervisors (ap_PDUs a)"

definition partitionWriter :: "'s app \<Rightarrow> (device_partition \<Rightarrow> 's effect) option" where
  "partitionWriter a = Option.bind (ap_CPClient a) cp_PutPartition"

definition dq :: "string \<Rightarrow> string" where
  "dq s = [CHR 0x22] @ s @ [CHR 0x22]"

text \<open>\<open>strings.EqualFold\<close> on ASCII text; the first entry whose identifier or name is the text typed in.\<close>

definition equal_fold :: "string \<Rightarrow> string \<Rightarrow> bool" where
  "equal_fold x y \<longleftrightarrow> to_lower x = to_lower y"

definition named :: "('x \<Rightarrow> string) \<Rightarrow> ('x \<Rightarrow> string) \<Rightarrow> 'x list \<Rightarrow> string \<Rightarrow> 'x option" where
  "named i nm xs t = (if t = [] then None else find (\<lambda>x. equal_fold (i x) t \<or> equal_fold (nm x) t) xs)"

definition named_id :: "('x \<Rightarrow> string) \<Rightarrow> ('x \<Rightarrow> string) \<Rightarrow> 'x list \<Rightarrow> string \<Rightarrow> string" where
  "named_id i nm xs t = (case named i nm xs t of Some x \<Rightarrow> i x | None \<Rightarrow> t)"

subsection \<open>The session: session.go\<close>

text \<open>
  The floats compared are exact for tokens that live less than 48 days. A login that fails keeps the token.
\<close>

definition EnsureTokenValid :: "'s ui_env \<Rightarrow> 's ui \<Rightarrow> 's ui" where
  "EnsureTokenValid env st =
     (case st of (a, s) \<Rightarrow>
      let auth = ap_Auth a in
      case (as_User auth, ap_UserClient a) of
        (Some u, Some uc) \<Rightarrow>
          (let expiresIn = (if lr_ExpiresIn u \<le> 0 then 3600 else lr_ExpiresIn u) in
           if as_SecretKey auth = [] \<or> 4 * (ue_now env s - as_LoginTime auth) < 3 * expiresIn * 1000000000 then st
           else (case us_LoginWithTenant uc (as_Username auth) (as_SecretKey auth) (as_TenantUUID auth) s of
               (Inr (Some resp), s1) \<Rightarrow>
                 if lr_Success resp then
                   (a\<lparr>ap_Auth := auth\<lparr>as_User := Some resp, as_LoginTime := ue_now env s1\<rparr>\<rparr>,
                    case ap_CPClient a of Some cl \<Rightarrow> cp_SetToken cl (lr_AccessToken resp) s1 | None \<Rightarrow> s1)
                 else (a, s1)
             | (_, s1) \<Rightarrow> (a, s1)))
      | _ \<Rightarrow> st)"

definition UserToken :: "'s ui_env \<Rightarrow> 's ui \<Rightarrow> string \<times> 's ui" where
  "UserToken env st =
     (let st1 = EnsureTokenValid env st
      in (case as_User (ap_Auth (fst st1)) of Some u \<Rightarrow> lr_AccessToken u | None \<Rightarrow> [], st1))"

subsection \<open>Forms\<close>

record pdu_form =
  fp_PDUID :: string
  fp_Name :: string
  fp_Specification :: string
  fp_Location :: string
  fp_PowerCapacity :: string
  fp_IsEdit :: bool

record rack_form =
  fr_RackID :: string
  fr_Name :: string
  fr_PDUID :: string
  fr_Specification :: string
  fr_Location :: string
  fr_IsEdit :: bool

record hypervisor_form =
  fh_HypervisorID :: string
  fh_Name :: string
  fh_RackID :: string
  fh_PrimaryIP :: string
  fh_AdditionalIPs :: string
  fh_SSHPort :: string
  fh_PortRange :: string
  fh_IsEdit :: bool

record device_form =
  fd_DeviceID :: string
  fd_Name :: string
  fd_HypervisorID :: string
  fd_DevicePath :: string
  fd_SerialNumber :: string
  fd_SizeGB :: string
  fd_IsEdit :: bool

record partition_form =
  ft_PartitionID :: string
  ft_DeviceID :: string
  ft_PartitionPath :: string
  ft_SizeGB :: string
  ft_NISDUUID :: string
  ft_IsEdit :: bool

record nisd_form =
  fn_TargetID :: string
  fn_FailureDomain :: "string list"
  fn_TargetNISDUUID :: string
  fn_TargetHypervisorID :: string
  fn_TargetSize :: int64
  fn_NISDUUID :: string
  fn_PeerPort :: string
  fn_SocketPath :: string
  fn_IsEdit :: bool
  fn_Initial :: nisd

record vdev_form =
  fv_Name :: string
  fv_SizeGB :: string
  fv_Redundancy :: string
  fv_DataBlkCnt :: string
  fv_ParityBlkCnt :: string
  fv_FilterType :: string
  fv_PFS :: string

text \<open>The titles of the dialogs for one record: creation or edit.\<close>

definition save_dialog :: "bool \<Rightarrow> string \<times> string \<Rightarrow> string \<times> string \<Rightarrow> string \<Rightarrow> string list \<Rightarrow> string \<Rightarrow> confirm_data \<Rightarrow> confirm_dialog" where
  "save_dialog isEdit create edit name details actionID data =
     (case if isEdit then edit else create of (title, verb) \<Rightarrow>
        NewConfirmDialog title (verb @ '' '' @ dq name @ ''?'') details ConfirmTypeWarning actionID data)"

definition handleSubmitPDUForm :: "'s ui_env \<Rightarrow> pdu_form \<Rightarrow> 's app \<Rightarrow> 's app" where
  "handleSubmitPDUForm env msg a =
     (if ap_CPClient a = None then not_connected a
      else let (i, a1) = id_or_new env (fp_PDUID msg) a;
               p = \<lparr>p_ID = i, p_Name = fp_Name msg, p_Location = fp_Location msg, p_PowerCapacity = fp_PowerCapacity msg,
                    p_Specification = fp_Specification msg, p_Racks = []\<rparr>
           in show_dialog (save_dialog (fp_IsEdit msg) (''Confirm PDU Creation'', ''Save PDU'') (''Confirm PDU Edit'', ''Update PDU'')
                (p_Name p) [''PDU ID: '' @ p_ID p, ''Name: '' @ p_Name p, ''Location: '' @ p_Location p,
                            ''Power Capacity: '' @ p_PowerCapacity p] ''save_pdu'' (D_PDU p)) a1)"

definition handleSubmitRackForm :: "'s ui_env \<Rightarrow> rack_form \<Rightarrow> 's app \<Rightarrow> 's app" where
  "handleSubmitRackForm env msg a =
     (if ap_CPClient a = None then not_connected a
      else let pduID = named_id p_ID p_Name (ap_PDUs a) (trim_space (fr_PDUID msg));
               (i, a1) = id_or_new env (fr_RackID msg) a;
               r = \<lparr>r_ID = i, r_Name = fr_Name msg, r_PDUID = pduID, r_Location = fr_Location msg,
                    r_Specification = fr_Specification msg, r_Hypervisors = []\<rparr>
           in show_dialog (save_dialog (fr_IsEdit msg) (''Confirm Rack Creation'', ''Save Rack'') (''Confirm Rack Edit'', ''Update Rack'')
                (r_Name r) [''Name: '' @ r_Name r, ''Parent PDU ID: '' @ r_PDUID r, ''Location: '' @ r_Location r]
                ''save_rack'' (D_Rack r)) a1)"

definition form_ips :: "hypervisor_form \<Rightarrow> string list" where
  "form_ips msg =
     (if fh_PrimaryIP msg = [] then [] else [fh_PrimaryIP msg])
     @ filter (\<lambda>t. t \<noteq> []) (map trim_space (split (CHR '','') (fh_AdditionalIPs msg)))"

definition handleSubmitHypervisorForm :: "'s ui_env \<Rightarrow> hypervisor_form \<Rightarrow> 's app \<Rightarrow> 's app" where
  "handleSubmitHypervisorForm env msg a =
     (if ap_CPClient a = None then not_connected a
      else let rackID = named_id r_ID r_Name (ap_Racks a) (trim_space (fh_RackID msg));
               (i, a1) = id_or_new env (fh_HypervisorID msg) a;
               hv = \<lparr>h_ID = i, h_RackID = rackID, h_Name = fh_Name msg, h_IPAddrs = form_ips msg, h_PortRange = fh_PortRange msg,
                     h_SSHPort = fh_SSHPort msg, h_Dev = [], h_RDMAEnabled = False\<rparr>
           in show_dialog (save_dialog (fh_IsEdit msg) (''Confirm Hypervisor Creation'', ''Save Hypervisor'')
                (''Confirm Hypervisor Edit'', ''Update Hypervisor'') (h_Name hv)
                [''Name: '' @ h_Name hv, ''Parent Rack ID: '' @ h_RackID hv, ''Primary IP: '' @ fh_PrimaryIP msg]
                ''save_hypervisor'' (D_Hypervisor hv)) a1)"

text \<open>A size in gigabytes that is no number is 0; the product wraps.\<close>

definition gigabytes :: "string \<Rightarrow> int64" where
  "gigabytes t = word_of_int (fst (atoi t)) * 1024 * 1024 * 1024"

definition handleSubmitDeviceForm :: "'s ui_env \<Rightarrow> device_form \<Rightarrow> 's app \<Rightarrow> 's app" where
  "handleSubmitDeviceForm env msg a =
     (if ap_CPClient a = None then not_connected a
      else let (i, a1) = id_or_new env (fd_DeviceID msg) a;
               dev = (found_device i (fd_Name msg) (fd_DevicePath msg) (gigabytes (fd_SizeGB msg)) (fd_SerialNumber msg))
                       \<lparr>d_HypervisorID := fd_HypervisorID msg\<rparr>
           in show_dialog (save_dialog (fd_IsEdit msg) (''Confirm Device Initialization'', ''Initialize Device'')
                (''Confirm Device Edit'', ''Update Device'') (d_Name dev)
                [''Name: '' @ d_Name dev, ''Path: '' @ d_DevicePath dev, ''Size: '' @ fd_SizeGB msg @ '' GB'']
                ''save_device'' (D_Device dev)) a1)"

definition handleSubmitPartitionDiskForm :: "string \<Rightarrow> string \<Rightarrow> string \<Rightarrow> string \<Rightarrow> 's app \<Rightarrow> 's app" where
  "handleSubmitPartitionDiskForm deviceID hypervisorID devicePath cnt a =
     (case atoi (trim_space cnt) of (n, ok) \<Rightarrow>
        if \<not> ok \<or> n \<le> 0 then status StatusError ''Error: number of partitions must be a positive number'' a
        else if n > 20 then status StatusError ''Error: too many partitions requested (max 20)'' a
        else case find (\<lambda>h. h_ID h = hypervisorID) (AllHypervisors a) of
          None \<Rightarrow> status StatusError ''Error: hypervisor not found for this device'' a
        | Some hv \<Rightarrow>
            show_dialog (NewConfirmDialog ''Confirm Disk Partitioning''
              (''Create '' @ itoa n @ '' equal partitions on '' @ devicePath @ '' ('' @ h_Name hv @ '')?'')
              [''This runs parted over SSH and (re)creates the device'' @ squote @ ''s partition table '' @ map char_of [226, 128, 148 :: nat],
               ''any data currently on the device will be lost.'',
               ''Refuses to run if the device already has partitions.'']
              ConfirmTypeDanger ''partition_disk''
              (D_PartitionDisk \<lparr>pk_Device = (found_device deviceID [] devicePath 0 [])\<lparr>d_HypervisorID := hypervisorID\<rparr>,
                               pk_Hypervisor = hv, pk_Count = n\<rparr>)) a)"

text \<open>The devices chosen, in their order, each with its own identifier or a new one.\<close>

fun chosen_devices :: "'s ui_env \<Rightarrow> string \<Rightarrow> device list \<Rightarrow> 's app \<Rightarrow> device list \<times> 's app" where
  "chosen_devices env hv [] a = ([], a)"
| "chosen_devices env hv (d # ds) a =
     (let (i, a1) = id_or_new env (d_ID d) a; (rest, a2) = chosen_devices env hv ds a1
      in ((found_device i (d_Name d) (d_DevicePath d) (d_Size d) (d_SerialNumber d))\<lparr>d_HypervisorID := hv\<rparr> # rest, a2))"

definition handleSubmitDiscoveredDevices :: "'s ui_env \<Rightarrow> string \<Rightarrow> device list \<Rightarrow> 's app \<Rightarrow> 's app" where
  "handleSubmitDiscoveredDevices env hypervisorID devices a =
     (if ap_CPClient a = None then not_connected a
      else if devices = [] then status StatusError ''Error: no devices selected'' a
      else let (devs, a1) = chosen_devices env hypervisorID devices a
           in show_dialog (NewConfirmDialog ''Confirm Device Initialization''
                (''Initialize '' @ itoa (int (length devs)) @ '' discovered device(s)?'')
                (map (\<lambda>d. d_DevicePath d @ '' ('' @ d_SerialNumber d @ '')'') devices) ConfirmTypeWarning
                ''save_discovered_devices'' (D_Devices \<lparr>dr_HypervisorID = hypervisorID, dr_Devices = devs\<rparr>)) a1)"

definition handleSubmitPartitionForm :: "'s ui_env \<Rightarrow> partition_form \<Rightarrow> 's app \<Rightarrow> 's app" where
  "handleSubmitPartitionForm env msg a =
     (if ap_CPClient a = None then not_connected a
      else let (i, a1) = id_or_new env (ft_PartitionID msg) a;
               part = \<lparr>pt_PartitionID = i, pt_PartitionPath = ft_PartitionPath msg, pt_NISDUUID = ft_NISDUUID msg,
                       pt_DevID = ft_DeviceID msg, pt_Size = gigabytes (ft_SizeGB msg)\<rparr>
           in show_dialog (save_dialog (ft_IsEdit msg) (''Confirm Partition Creation'', ''Create Partition'')
                (''Confirm Partition Edit'', ''Update Partition'') (pt_PartitionPath part)
                [''Partition Path: '' @ pt_PartitionPath part, ''Size: '' @ ft_SizeGB msg @ '' GB'', ''Parent Device ID: '' @ pt_DevID part]
                ''save_partition'' (D_Partition part)) a1)"

definition no_partition_writer :: "'s app \<Rightarrow> 's app" where
  "no_partition_writer a = status StatusError (''Error: partition management isn'' @ squote @ ''t supported against this backend'') a"

definition registered_partition :: "string \<Rightarrow> string \<Rightarrow> string \<Rightarrow> int64 \<Rightarrow> device_partition" where
  "registered_partition i path devID sz =
     \<lparr>pt_PartitionID = i, pt_PartitionPath = path, pt_NISDUUID = [], pt_DevID = devID, pt_Size = sz\<rparr>"

definition handleSubmitDiscoveredPartitions :: "'s ui_env \<Rightarrow> string \<Rightarrow> partition_info list \<Rightarrow> 's app \<Rightarrow> 's app" where
  "handleSubmitDiscoveredPartitions env deviceID infos a =
     (if partitionWriter a = None then no_partition_writer a
      else if infos = [] then status StatusError ''Error: no partitions selected'' a
      else show_dialog (NewConfirmDialog ''Confirm Partition Registration''
             (''Register '' @ itoa (int (length infos)) @ '' partition(s) found on disk?'')
             (map (\<lambda>i. pi_Path i @ '' ('' @ ue_gb env (pi_Size i) @ '' GB)'') infos) ConfirmTypeWarning
             ''save_discovered_partitions'' (D_Partitions (map (\<lambda>i. registered_partition (pi_Name i) (pi_Path i) deviceID (pi_Size i)) infos))) a)"

text \<open>The loops go on after a match: the last device with the identifier is taken.\<close>

definition handleSubmitWholeDevicePartition :: "'s ui_env \<Rightarrow> string \<Rightarrow> 's app \<Rightarrow> 's app" where
  "handleSubmitWholeDevicePartition env deviceID a =
     (if partitionWriter a = None then no_partition_writer a
      else case find (\<lambda>(d, h). d_ID d = deviceID) (rev (concat (map (\<lambda>h. map (\<lambda>d. (d, h)) (h_Dev h)) (AllHypervisors a)))) of
        None \<Rightarrow> status StatusError ''Error: device not found'' a
      | Some (dev, hv) \<Rightarrow>
          show_dialog (NewConfirmDialog ''Confirm Whole-Device Partition''
            (''Register the entire device '' @ d_DevicePath dev @ '' as a single partition?'')
            [''Size: '' @ ue_gb env (d_Size dev) @ '' GB''] ConfirmTypeWarning
            ''save_whole_device_partition'' (D_WholeDevice \<lparr>wr_Device = dev, wr_Hypervisor = hv\<rparr>)) a)"

subsection \<open>Creating NISDs\<close>

definition findPartitionByID :: "string \<Rightarrow> 's app \<Rightarrow> device_partition option" where
  "findPartitionByID i a =
     find (\<lambda>p. pt_PartitionID p = i) (concat (map d_Partitions (concat (map h_Dev (AllHypervisors a)))))"

definition linkPartitionToNISD :: "nisd_target \<Rightarrow> string \<Rightarrow> 's ui \<Rightarrow> 's ui" where
  "linkPartitionToNISD target nisdID st =
     (case st of (a, s) \<Rightarrow>
      case (findPartitionByID (nt_TargetID target) a, partitionWriter a) of
        (Some part, Some putPartition) \<Rightarrow> (a, snd (putPartition (part\<lparr>pt_NISDUUID := nisdID\<rparr>) s))
      | _ \<Rightarrow> st)"

text \<open>A port is cut to 16 bits, also in the network addresses.\<close>

definition created_nisd :: "string \<Rightarrow> nisd_target \<Rightarrow> hypervisor \<Rightarrow> int \<Rightarrow> int \<Rightarrow> nisd" where
  "created_nisd i target hv clientPort serverPort =
     \<lparr>n_PeerPort = word_of_int serverPort, n_ID = i, n_FailureDomain = nt_FailureDomain target,
      n_TotalSize = nt_Size target, n_AvailableSize = nt_Size target,
      n_SocketPath = ''/var/run/nisd/nisd-'' @ itoa serverPort @ ''.sock'',
      n_NetInfo = map (\<lambda>ip. \<lparr>ni_IPAddr = ip, ni_Port = word_of_int clientPort\<rparr>) (h_IPAddrs hv),
      n_NetInfoCnt = int (length (h_IPAddrs hv))\<rparr>"

definition buildCreateNISD :: "'s ui_env \<Rightarrow> nisd_target \<Rightarrow> 's ui \<Rightarrow> ((string + nisd) \<times> 's ui) go" where
  "buildCreateNISD env target st =
     (case find (\<lambda>h. h_ID h = nt_HypervisorID target) (AllHypervisors (fst st)) of
        None \<Rightarrow> Ret (Inl (''could not find the hypervisor owning target '' @ nt_TargetID target), st)
      | Some hv \<Rightarrow>
          (let (tok, a, s) = UserToken env st in
           case AllocatePortPair (h_ID hv) (h_PortRange hv) tok (ap_CPClient a) s of
             (Panic, _) \<Rightarrow> Panic
           | (Fail err, s1) \<Rightarrow>
               Ret (Inl (''failed to allocate a port for target '' @ nt_TargetID target @ '': '' @ err
                         @ '' (set a Port Range on the Hypervisor first)''), a, s1)
           | (Ret (clientPort, serverPort), s1) \<Rightarrow>
               (let (i, a1) = id_or_new env (nt_NISDUUID target) a
                in Ret (Inr (created_nisd i target hv clientPort serverPort), a1, s1))))"

definition edited_nisd :: "string \<Rightarrow> nisd_form \<Rightarrow> nisd" where
  "edited_nisd i msg = (fn_Initial msg)\<lparr>n_ID := i, n_PeerPort := of_nat (fst (parse_uint 16 (fn_PeerPort msg))),
     n_SocketPath := fn_SocketPath msg, n_FailureDomain := fn_FailureDomain msg\<rparr>"

definition form_target :: "nisd_form \<Rightarrow> nisd_target" where
  "form_target msg = \<lparr>nt_Label = [], nt_TargetID = fn_TargetID msg, nt_FailureDomain = fn_FailureDomain msg,
     nt_NISDUUID = fn_TargetNISDUUID msg, nt_HypervisorID = fn_TargetHypervisorID msg, nt_Size = fn_TargetSize msg\<rparr>"

definition nisd_dialog :: "nisd \<Rightarrow> confirm_dialog" where
  "nisd_dialog n = NewConfirmDialog ''Confirm NISD Initialization'' (''Initialize NISD '' @ dq (n_ID n) @ ''?'')
     [''NISD UUID: '' @ n_ID n, ''Peer Port: '' @ utoa (unat (n_PeerPort n)), ''Socket Path: '' @ n_SocketPath n]
     ConfirmTypeWarning ''save_nisd'' (D_Nisd n)"

definition handleSubmitNISDForm :: "'s ui_env \<Rightarrow> nisd_form \<Rightarrow> 's ui \<Rightarrow> 's ui go" where
  "handleSubmitNISDForm env msg st =
     (case st of (a, s) \<Rightarrow>
      if ap_CPClient a = None then Ret (not_connected a, s)
      else if fn_FailureDomain msg = [] then Ret (status StatusError ''Error: no target device/partition selected'' a, s)
      else if fn_IsEdit msg then
        (let (i, a1) = id_or_new env (fn_NISDUUID msg) a in Ret (show_dialog (nisd_dialog (edited_nisd i msg)) a1, s))
      else go_bind (buildCreateNISD env (form_target msg) st) (\<lambda>(r, a1, s1).
        case r of
          Inl err \<Rightarrow> Ret (status StatusError (''Error: '' @ err) a1, s1)
        | Inr n \<Rightarrow> Ret (show_dialog (nisd_dialog n) a1, s1)))"

definition handleSubmitNISDBatch :: "nisd_target list \<Rightarrow> 's app \<Rightarrow> 's app" where
  "handleSubmitNISDBatch targets a =
     (if ap_CPClient a = None then not_connected a
      else if targets = [] then status StatusError ''Error: no targets selected'' a
      else show_dialog (NewConfirmDialog ''Confirm NISD Initialization''
             (''Initialize '' @ itoa (int (length targets)) @ '' NISD(s)?'') (map nt_Label targets) ConfirmTypeWarning
             ''save_nisd_batch'' (D_Targets targets)) a)"

subsection \<open>Vdevs, file systems and imports\<close>

text \<open>The block counts are cut to 8 bits. The other fields of the record are left empty.\<close>

definition form_vdev :: "string \<Rightarrow> vdev_form \<Rightarrow> string \<Rightarrow> string \<Rightarrow> vdev_config" where
  "form_vdev i msg pfsID pfsName =
     \<lparr>v_ID = i, v_Name = fv_Name msg, v_Size = gigabytes (fv_SizeGB msg),
      v_Redundancy = (if equal_fold (fv_Redundancy msg) ''ec'' then RMEC32K else RMReplica), v_ChunkCnt = 0,
      v_DataBlkCnt = word_of_int (fst (atoi (fv_DataBlkCnt msg))),
      v_ParityBlkCnt = word_of_int (fst (atoi (fv_ParityBlkCnt msg))),
      v_VdevMountInfo = \<lparr>mi_MountCounter = 0, mi_LastUpdatedLTS = 0\<rparr>, v_PFSID = pfsID, v_AccessToken = [],
      v_FilterType = fv_FilterType msg, v_FilterID = [], v_PFSName = pfsName\<rparr>"

definition vdev_form_error :: "vdev_form \<Rightarrow> string option" where
  "vdev_form_error msg =
     (let sizeGB = fst (atoi (fv_SizeGB msg)); dataCnt = fst (atoi (fv_DataBlkCnt msg));
          parityCnt = fst (atoi (fv_ParityBlkCnt msg)); isEC = equal_fold (fv_Redundancy msg) ''ec'' in
      if sizeGB \<le> 0 then Some ''Error: Pool Size (GB) must be greater than 0''
      else if dataCnt < 1 then Some ''Error: Data Block Count must be at least 1''
      else if isEC \<and> parityCnt < 1 then Some ''Error: Parity Block Count must be at least 1 for Erasure Coding''
      else if \<not> isEC \<and> parityCnt \<noteq> 0 then Some ''Error: Parity Block Count must be 0 for Replica mode''
      else None)"

definition handleSubmitVdevForm :: "'s ui_env \<Rightarrow> vdev_form \<Rightarrow> 's app \<Rightarrow> 's app" where
  "handleSubmitVdevForm env msg a =
     (if ap_CPClient a = None then not_connected a
      else case vdev_form_error msg of
        Some err \<Rightarrow> status StatusError err a
      | None \<Rightarrow>
          (let pfs = named pf_ID pf_Name (ap_PFSs a) (fv_PFS msg);
               pfsID = (case pfs of Some p \<Rightarrow> pf_ID p | None \<Rightarrow> fv_PFS msg);
               pfsName = (case pfs of Some p \<Rightarrow> if pf_Name p = [] then fv_PFS msg else pf_Name p | None \<Rightarrow> fv_PFS msg);
               v = form_vdev (ue_new env (ap_uuids a)) msg pfsID pfsName
           in show_dialog (NewConfirmDialog ''Confirm Vdev Creation'' (''Create Vdev Pool '' @ dq (v_Name v) @ ''?'')
                ([''Name: '' @ v_Name v, ''Redundancy Mode: '' @ fv_Redundancy msg,
                  ''Data/Parity: '' @ utoa (unat (v_DataBlkCnt v)) @ ''K / '' @ utoa (unat (v_ParityBlkCnt v)) @ ''M'']
                 @ (if pfsName \<noteq> [] then [''PFS: '' @ pfsName] else []))
                ConfirmTypeWarning ''save_vdev'' (D_Vdev v)) (a\<lparr>ap_uuids := ap_uuids a + 1\<rparr>)))"

definition handleSubmitPFSForm :: "string \<Rightarrow> string \<Rightarrow> bool \<Rightarrow> 's app \<Rightarrow> 's app" where
  "handleSubmitPFSForm i name isEdit a =
     (if ap_CPClient a = None then not_connected a
      else let p = \<lparr>pf_ID = (if isEdit then i else []), pf_Name = name, pf_Offset = 0, pf_VdevIDs = []\<rparr>
           in show_dialog (save_dialog isEdit (''Confirm PFS Creation'', ''Create File System'') (''Confirm PFS Edit'', ''Update File System'')
                name [''Name: '' @ name] ''save_pfs'' (D_PFS \<lparr>ps_PFS = p, ps_IsEdit = isEdit\<rparr>)) a)"

definition handleSubmitImportInfraForm :: "string \<Rightarrow> import_pdu list \<Rightarrow> 's app \<Rightarrow> 's app" where
  "handleSubmitImportInfraForm filePath request a =
     (if ap_CPClient a = None then not_connected a
      else case request_Counts request of (pdus, racks, hvs, devices, nisds) \<Rightarrow>
        show_dialog (NewConfirmDialog ''Confirm Infra Import'' (''Import from '' @ filePath @ ''?'')
          [''PDUs: '' @ utoa pdus, ''Racks: '' @ utoa racks, ''Hypervisors: '' @ utoa hvs, ''Devices: '' @ utoa devices,
           ''NISDs: '' @ utoa nisds, [],
           ''This only creates '' @ map char_of [226, 128, 148 :: nat] @ '' nothing existing is modified or removed.'',
           ''A node that fails partway through is skipped along with its children; everything already created stays created (no rollback).'']
          ConfirmTypeWarning ''confirm_import_infra'' (D_Import \<lparr>im_FilePath = filePath, im_Request = request\<rparr>)) a)"

subsection \<open>Commands\<close>

text \<open>The messages in which commands end, and a command: it may also panic.\<close>

datatype ui_msg =
    ResourceSaved string string int "string option"
  | PartitionDiskDone string "partition_info list" "string option"
  | ImportInfraDone string "import_outcome list"
  | VdevDeleted "string option"
  | TenantDeleted "string option"
  | AuthzPolicyDeleted "string option"

type_synonym 's cmd = "'s ui \<Rightarrow> (ui_msg \<times> 's ui) go"

text \<open>\<open>a.CPClient.SetToken(a.UserToken())\<close>: a nil client panics.\<close>

definition with_token :: "'s ui_env \<Rightarrow> 's ui \<Rightarrow> ('s cp_client \<times> 's ui) go" where
  "with_token env st =
     (let (tok, a, s) = UserToken env st
      in case ap_CPClient a of None \<Rightarrow> Panic | Some cl \<Rightarrow> Ret (cl, a, cp_SetToken cl tok s))"

definition saveResourceCmd :: "'s ui_env \<Rightarrow> string \<Rightarrow> string \<Rightarrow> int \<Rightarrow> ('s cp_client \<Rightarrow> 's effect) \<Rightarrow> 's cmd" where
  "saveResourceCmd env failPrefix successMsg tab put st =
     go_bind (with_token env st) (\<lambda>(cl, a, s).
       case put cl s of (err, s1) \<Rightarrow> Ret (ResourceSaved failPrefix successMsg tab err, a, s1))"

definition executeSavePDU :: "'s ui_env \<Rightarrow> pdu \<Rightarrow> 's cmd" where
  "executeSavePDU env p = saveResourceCmd env ''Failed to save PDU: '' ''PDU saved successfully!'' 1 (\<lambda>cl. cp_PutPDU cl p)"

definition executeSaveRack :: "'s ui_env \<Rightarrow> rack \<Rightarrow> 's cmd" where
  "executeSaveRack env r = saveResourceCmd env ''Failed to save Rack: '' ''Rack created successfully!'' 2 (\<lambda>cl. cp_PutRack cl r)"

definition executeSaveHypervisor :: "'s ui_env \<Rightarrow> hypervisor \<Rightarrow> 's cmd" where
  "executeSaveHypervisor env hv =
     saveResourceCmd env ''Failed to save Hypervisor: '' ''Hypervisor created successfully!'' 3 (\<lambda>cl. cp_PutHypervisor cl hv)"

definition executeSaveDevice :: "'s ui_env \<Rightarrow> device \<Rightarrow> 's cmd" where
  "executeSaveDevice env dev =
     saveResourceCmd env ''Failed to save Device: '' ''Device initialized successfully!'' 4 (\<lambda>cl. cp_PutDevice cl dev)"

definition executeSaveNISD :: "'s ui_env \<Rightarrow> nisd \<Rightarrow> 's cmd" where
  "executeSaveNISD env n =
     saveResourceCmd env ''Failed to initialize NISD: '' ''NISD initialized successfully!'' 6 (\<lambda>cl. cp_PutNisd cl n)"

definition executeSaveVdev :: "'s ui_env \<Rightarrow> vdev_config \<Rightarrow> 's cmd" where
  "executeSaveVdev env v =
     saveResourceCmd env ''Failed to create Vdev: '' ''Vdev pool created successfully!'' 7 (\<lambda>cl. cp_CreateVdev cl v)"

text \<open>The batches: every element is tried; how many failed and the last error.\<close>

fun put_all :: "('x \<Rightarrow> 's effect) \<Rightarrow> 'x list \<Rightarrow> nat \<Rightarrow> string option \<Rightarrow> 's \<Rightarrow> nat \<times> string option \<times> 's" where
  "put_all put [] errCount lastErr s = (errCount, lastErr, s)"
| "put_all put (x # xs) errCount lastErr s =
     (case put x s of
        (None, s1) \<Rightarrow> put_all put xs errCount lastErr s1
      | (Some err, s1) \<Rightarrow> put_all put xs (errCount + 1) (Some err) s1)"

definition batch_msg :: "int \<Rightarrow> string \<Rightarrow> string \<Rightarrow> string \<Rightarrow> nat \<Rightarrow> nat \<Rightarrow> string option \<Rightarrow> ui_msg" where
  "batch_msg tab done1 things failPrefix cnt errCount lastErr =
     (if errCount = 0 then ResourceSaved [] (done1 @ '' '' @ utoa cnt @ things @ '' successfully!'') tab None
      else if errCount = cnt then ResourceSaved failPrefix [] tab lastErr
      else ResourceSaved (done1 @ '' '' @ utoa (cnt - errCount) @ ''/'' @ utoa cnt @ things @ '', '' @ utoa errCount @ '' failed: '')
             [] tab lastErr)"

definition executeSaveDiscoveredDevices :: "'s ui_env \<Rightarrow> devices_request \<Rightarrow> 's cmd" where
  "executeSaveDiscoveredDevices env req st =
     go_bind (with_token env st) (\<lambda>(cl, a, s).
       case put_all (cp_PutDevice cl) (dr_Devices req) 0 None s of (errCount, lastErr, s1) \<Rightarrow>
         Ret (batch_msg 4 ''Initialized'' '' device(s)'' ''Failed to initialize devices: '' (length (dr_Devices req)) errCount lastErr, a, s1))"

abbreviation unsupported_partitions :: string where
  "unsupported_partitions \<equiv> ''partition management isn'' @ squote @ ''t supported against this backend''"

definition executeSavePartition :: "'s ui_env \<Rightarrow> device_partition \<Rightarrow> 's cmd" where
  "executeSavePartition env part st =
     (case partitionWriter (fst st) of
        None \<Rightarrow> Ret (ResourceSaved ''Failed to create Partition: '' [] 5 (Some unsupported_partitions), st)
      | Some put \<Rightarrow> saveResourceCmd env ''Failed to create Partition: '' ''Partition created successfully!'' 5 (\<lambda>cl. put part) st)"

definition executeSaveDiscoveredPartitions :: "'s ui_env \<Rightarrow> device_partition list \<Rightarrow> 's cmd" where
  "executeSaveDiscoveredPartitions env parts st =
     (case partitionWriter (fst st) of
        None \<Rightarrow> Ret (ResourceSaved ''Failed to register partitions: '' [] 5 (Some unsupported_partitions), st)
      | Some put \<Rightarrow>
          go_bind (with_token env st) (\<lambda>(cl, a, s).
            case put_all put parts 0 None s of (errCount, lastErr, s1) \<Rightarrow>
              Ret (batch_msg 5 ''Registered'' '' partition(s)'' ''Failed to register partitions: '' (length parts) errCount lastErr, a, s1)))"

definition executeSaveWholeDevicePartition :: "'s ui_env \<Rightarrow> whole_device_request \<Rightarrow> 's cmd" where
  "executeSaveWholeDevicePartition env req st =
     (case st of (a, s) \<Rightarrow>
      let dev = wr_Device req in
      case GetDeviceByIdName (ue_ssh env) (wr_Hypervisor req) (trim_prefix ''/dev/'' (d_DevicePath dev)) s of
        (Inl err, s1) \<Rightarrow> Ret (ResourceSaved ''Failed to resolve device identity: '' [] 5 (Some err), a, s1)
      | (Inr byIdName, s1) \<Rightarrow>
          (case partitionWriter a of
             None \<Rightarrow> Ret (ResourceSaved ''Failed to register partition: '' [] 5 (Some unsupported_partitions), a, s1)
           | Some put \<Rightarrow>
               saveResourceCmd env ''Failed to register whole-device partition: '' ''Registered whole device as a single partition!'' 5
                 (\<lambda>cl. put (registered_partition byIdName (d_DevicePath dev) (d_ID dev) (d_Size dev))) (a, s1)))"

text \<open>Only a listing that succeeds and is not empty stops the partitioning.\<close>

definition executePartitionDisk :: "'s ui_env \<Rightarrow> partition_disk_request \<Rightarrow> 's cmd" where
  "executePartitionDisk env req st =
     (case st of (a, s) \<Rightarrow>
      let sh = ue_ssh env; hv = pk_Hypervisor req; path = d_DevicePath (pk_Device req); deviceName = trim_prefix ''/dev/'' path;
          failed = (\<lambda>err s. Ret (PartitionDiskDone [] [] (Some err), a, s));
          (existing, s1) = GetDevicePartitionInfo sh hv deviceName s in
      if (case existing of Inr infos \<Rightarrow> infos \<noteq> [] | Inl _ \<Rightarrow> False)
      then failed (path @ '' already has '' @ utoa (length (projr existing)) @ '' partition(s) '' @ map char_of [226, 128, 148 :: nat]
                   @ '' refusing to overwrite'') s1
      else case DeleteAllPartitionsFromDevice sh hv deviceName s1 of
        (Some err, s2) \<Rightarrow> failed (''failed to prepare partition table: '' @ err) s2
      | (None, s2) \<Rightarrow>
          (case CreateMultipleEqualPartitions sh hv deviceName (pk_Count req) s2 of
             (Some err, s3) \<Rightarrow> failed (''failed to create partitions: '' @ err) s3
           | (None, s3) \<Rightarrow>
               (case GetDevicePartitionInfo sh hv deviceName s3 of
                  (Inl err, s4) \<Rightarrow> failed (''partitions were created but could not be listed back: '' @ err) s4
                | (Inr result, s4) \<Rightarrow> Ret (PartitionDiskDone path result None, a, s4))))"

text \<open>The loop over the targets of a batch: a NISD is written before the ports of the next are chosen.\<close>

fun create_nisds :: "'s ui_env \<Rightarrow> nisd_target list \<Rightarrow> nat \<Rightarrow> string option \<Rightarrow> 's ui \<Rightarrow> (nat \<times> string option \<times> 's ui) go" where
  "create_nisds env [] errCount lastErr st = Ret (errCount, lastErr, st)"
| "create_nisds env (target # targets) errCount lastErr st =
     go_bind (buildCreateNISD env target st) (\<lambda>(r, a, s).
       case r of
         Inl err \<Rightarrow> create_nisds env targets (errCount + 1) (Some err) (a, s)
       | Inr n \<Rightarrow>
           (case ap_CPClient a of
              None \<Rightarrow> Panic
            | Some cl \<Rightarrow>
                (case cp_PutNisd cl n s of
                   (Some err, s1) \<Rightarrow> create_nisds env targets (errCount + 1) (Some (nt_TargetID target @ '': '' @ err)) (a, s1)
                 | (None, s1) \<Rightarrow> create_nisds env targets errCount lastErr (linkPartitionToNISD target (n_ID n) (a, s1)))))"

definition executeSaveBatchNISDs :: "'s ui_env \<Rightarrow> nisd_target list \<Rightarrow> 's cmd" where
  "executeSaveBatchNISDs env targets st =
     go_bind (with_token env st) (\<lambda>(cl, st1).
       go_bind (create_nisds env targets 0 None st1) (\<lambda>(errCount, lastErr, st2).
         Ret (batch_msg 6 ''Initialized'' '' NISD(s)'' ''Failed to initialize NISDs: '' (length targets) errCount lastErr, st2)))"

definition executeSavePFS :: "'s ui_env \<Rightarrow> pfs_save_request \<Rightarrow> 's cmd" where
  "executeSavePFS env req =
     saveResourceCmd env ''Failed to save PFS: '' ''Parallel File System saved successfully!'' 8
       (\<lambda>cl. if \<not> ps_IsEdit req then cp_CreatePFS cl (ps_PFS req)
             else case cp_EditPFS cl of
               Some edit \<Rightarrow> edit (ps_PFS req)
             | None \<Rightarrow> Pair (Some (''editing a PFS isn'' @ squote @ ''t supported against this backend'')))"

text \<open>
  The last four set the token before they return the command. The import draws its UUIDs after those of
  the forms.
\<close>

definition executeDeleteVdev :: "'s ui_env \<Rightarrow> string \<Rightarrow> 's ui \<Rightarrow> ('s cmd \<times> 's ui) go" where
  "executeDeleteVdev env vdevID st =
     (case Option.bind (ap_CPClient (fst st)) cp_DeleteVdev of
        None \<Rightarrow> Ret (\<lambda>(a, s). Ret (VdevDeleted (Some ''vdev management is only available against the mdsvc-tidb backend''), a, s), st)
      | Some del \<Rightarrow> go_bind (with_token env st) (\<lambda>(cl, st1).
          Ret (\<lambda>(a, s). case del vdevID s of (err, s1) \<Rightarrow> Ret (VdevDeleted err, a, s1), st1)))"

definition executeDeleteTenant :: "string \<Rightarrow> 's ui \<Rightarrow> ('s cmd \<times> 's ui) go" where
  "executeDeleteTenant tenantUUID st =
     Ret (case ap_Tenants (fst st) of
        None \<Rightarrow> (\<lambda>(a, s). Ret (TenantDeleted (Some ''tenant management is only available against the mdsvc-tidb backend''), a, s))
      | Some tm \<Rightarrow> (\<lambda>(a, s). case tm_DeleteTenant tm (ap_TenantToken (fst st)) tenantUUID s of (err, s1) \<Rightarrow> Ret (TenantDeleted err, a, s1)), st)"

definition executeDeleteAuthzPolicy :: "'s ui_env \<Rightarrow> authz_target \<Rightarrow> 's ui \<Rightarrow> ('s cmd \<times> 's ui) go" where
  "executeDeleteAuthzPolicy env target st =
     (case ap_Authz (fst st) of
        None \<Rightarrow> Ret (\<lambda>(a, s). Ret (AuthzPolicyDeleted
                   (Some ''authorization policy management is only available against the mdsvc-tidb backend''), a, s), st)
      | Some am \<Rightarrow> go_bind (with_token env st) (\<lambda>(cl, st1).
          Ret (\<lambda>(a, s).
            case (case target of RBACTarget p \<Rightarrow> am_DeleteRBACPolicy am p | ABACTarget p \<Rightarrow> am_DeleteABACPolicy am p) s of
              (err, s1) \<Rightarrow> Ret (AuthzPolicyDeleted err, a, s1), st1)))"

definition executeImportInfra :: "'s ui_env \<Rightarrow> import_request \<Rightarrow> 's ui \<Rightarrow> ('s cmd \<times> 's ui) go" where
  "executeImportInfra env req st =
     go_bind (with_token env st) (\<lambda>(_, st1).
       Ret (\<lambda>(a, s). case ap_CPClient a of
                None \<Rightarrow> Panic
              | Some cl \<Rightarrow>
                  (let r = ImportInfra cl (ue_new env) (im_Request req) \<lparr>is_report = [], is_uuids = ap_uuids a, is_cp = s\<rparr>
                   in Ret (ImportInfraDone (im_FilePath req) (is_report r), a\<lparr>ap_uuids := is_uuids r\<rparr>, is_cp r)), st1))"

subsection \<open>Messages: dialog.go and update.go\<close>

text \<open>A key in an open dialog; the second component is \<open>ConfirmResultMsg\<close>, whether it was confirmed.\<close>

definition dialog_Update :: "string \<Rightarrow> confirm_dialog \<Rightarrow> confirm_dialog \<times> bool option" where
  "dialog_Update key d =
     (if \<not> dg_Active d then (d, None)
      else if key \<in> {''left'', ''right'', ''tab'', ''h'', ''l''} then (d\<lparr>dg_Selection := \<not> dg_Selection d\<rparr>, None)
      else if key \<in> {''y'', ''Y''} then (d\<lparr>dg_Active := False\<rparr>, Some True)
      else if key \<in> {''n'', ''N'', ''esc''} then (d\<lparr>dg_Active := False\<rparr>, Some False)
      else if key = ''enter'' then (d\<lparr>dg_Active := False\<rparr>, Some (dg_Selection d))
      else (d, None))"

text \<open>The command of a confirmed dialog: each action takes a payload of its own type and ignores others.\<close>

definition confirmed_cmd :: "'s ui_env \<Rightarrow> string \<Rightarrow> confirm_data \<Rightarrow> 's ui \<Rightarrow> ('s cmd option \<times> 's ui) go" where
  "confirmed_cmd env actionID data st =
     (let now = (\<lambda>c. Ret (Some c, st)); sync = (\<lambda>r. go_bind r (\<lambda>(c, st1). Ret (Some c, st1))) in
      case data of
        D_PDU p \<Rightarrow> if actionID = ''save_pdu'' then now (executeSavePDU env p) else Ret (None, st)
      | D_Rack r \<Rightarrow> if actionID = ''save_rack'' then now (executeSaveRack env r) else Ret (None, st)
      | D_Hypervisor h \<Rightarrow> if actionID = ''save_hypervisor'' then now (executeSaveHypervisor env h) else Ret (None, st)
      | D_Device d \<Rightarrow> if actionID = ''save_device'' then now (executeSaveDevice env d) else Ret (None, st)
      | D_Devices r \<Rightarrow> if actionID = ''save_discovered_devices'' then now (executeSaveDiscoveredDevices env r) else Ret (None, st)
      | D_PartitionDisk r \<Rightarrow> if actionID = ''partition_disk'' then now (executePartitionDisk env r) else Ret (None, st)
      | D_Partition p \<Rightarrow> if actionID = ''save_partition'' then now (executeSavePartition env p) else Ret (None, st)
      | D_Partitions ps \<Rightarrow> if actionID = ''save_discovered_partitions'' then now (executeSaveDiscoveredPartitions env ps) else Ret (None, st)
      | D_WholeDevice r \<Rightarrow> if actionID = ''save_whole_device_partition'' then now (executeSaveWholeDevicePartition env r) else Ret (None, st)
      | D_Nisd n \<Rightarrow> if actionID = ''save_nisd'' then now (executeSaveNISD env n) else Ret (None, st)
      | D_Targets ts \<Rightarrow> if actionID = ''save_nisd_batch'' then now (executeSaveBatchNISDs env ts) else Ret (None, st)
      | D_Vdev v \<Rightarrow> if actionID = ''save_vdev'' then now (executeSaveVdev env v) else Ret (None, st)
      | D_PFS r \<Rightarrow> if actionID = ''save_pfs'' then now (executeSavePFS env r) else Ret (None, st)
      | D_Import r \<Rightarrow> if actionID = ''confirm_import_infra'' then sync (executeImportInfra env r st) else Ret (None, st)
      | D_Authz t \<Rightarrow> if actionID = ''delete_authz_policy'' then sync (executeDeleteAuthzPolicy env t st) else Ret (None, st)
      | D_String i \<Rightarrow> if actionID = ''delete_tenant'' then sync (executeDeleteTenant i st)
                      else if actionID = ''delete_vdev'' then sync (executeDeleteVdev env i st) else Ret (None, st)
      | D_None \<Rightarrow> Ret (None, st))"

definition inFlightLabel :: "(string \<times> string) list" where
  "inFlightLabel =
     [(''save_pdu'', ''Saving PDU...''), (''save_rack'', ''Saving Rack...''), (''save_hypervisor'', ''Saving Hypervisor...''),
      (''save_device'', ''Initializing Device...''), (''save_discovered_devices'', ''Initializing discovered device(s)...''),
      (''partition_disk'', ''Partitioning disk over SSH '' @ map char_of [226, 128, 148 :: nat] @ '' this can take a few seconds...''),
      (''save_partition'', ''Saving Partition...''), (''save_discovered_partitions'', ''Registering discovered partition(s)...''),
      (''save_whole_device_partition'', ''Registering whole-device partition...''), (''save_nisd'', ''Initializing NISD...''),
      (''save_nisd_batch'', ''Initializing NISD(s)...''), (''save_vdev'', ''Creating Vdev pool...''), (''save_pfs'', ''Saving PFS...''),
      (''confirm_import_infra'', ''Importing infrastructure...''), (''delete_tenant'', ''Deleting tenant...''),
      (''delete_authz_policy'', ''Deleting policy...''), (''delete_vdev'', ''Deleting Vdev pool...'')]"

definition startInFlight :: "string \<Rightarrow> 's app \<Rightarrow> 's app" where
  "startInFlight label a = (status StatusInfo label a)\<lparr>ap_Loading := True\<rparr>"

definition confirm_result :: "'s ui_env \<Rightarrow> bool \<Rightarrow> string \<Rightarrow> confirm_data \<Rightarrow> 's ui \<Rightarrow> ('s cmd option \<times> 's ui) go" where
  "confirm_result env confirmed actionID data st =
     (case st of (a0, s) \<Rightarrow>
      let a = a0\<lparr>ap_ConfirmDialog := (ap_ConfirmDialog a0)\<lparr>dg_Active := False\<rparr>\<rparr> in
      if \<not> confirmed then Ret (None, status StatusInfo ''Operation cancelled.'' a, s)
      else go_bind (confirmed_cmd env actionID data (a, s)) (\<lambda>(cmd, a1, s1).
        case cmd of
          None \<Rightarrow> Ret (None, a1, s1)
        | Some c \<Rightarrow> Ret (Some c, startInFlight (case map_of inFlightLabel actionID of Some l \<Rightarrow> l | None \<Rightarrow> []) a1, s1)))"

text \<open>
  The message in which a command ends, as far as the status line goes. The second component is whether the
  data is fetched again; the switch of the screen is left out.
\<close>

definition done_status :: "string \<Rightarrow> string \<Rightarrow> string option \<Rightarrow> 's app \<Rightarrow> 's app" where
  "done_status failPrefix successMsg err a =
     (case err of Some e \<Rightarrow> status StatusError (failPrefix @ e) a | None \<Rightarrow> status StatusSuccess successMsg a)"

definition resource_saved :: "string \<Rightarrow> string \<Rightarrow> string option \<Rightarrow> 's app \<Rightarrow> 's app \<times> bool" where
  "resource_saved failPrefix successMsg err a0 =
     (let a = a0\<lparr>ap_Loading := False\<rparr>
      in (done_status failPrefix successMsg err a, err = None \<and> ap_CPClient a \<noteq> None))"

definition partition_disk_done :: "string \<Rightarrow> partition_info list \<Rightarrow> string option \<Rightarrow> 's app \<Rightarrow> 's app \<times> bool" where
  "partition_disk_done path parts err a =
     (done_status ''Failed to partition disk: '' (''Created '' @ utoa (length parts) @ '' partition(s) on '' @ path) err
        (a\<lparr>ap_Loading := False\<rparr>), False)"

definition import_infra_done :: "import_outcome list \<Rightarrow> 's app \<Rightarrow> 's app \<times> bool" where
  "import_infra_done result a0 =
     (let a = a0\<lparr>ap_Loading := False\<rparr> in
      case result_Counts result of (created, failed) \<Rightarrow>
        (status (if failed > 0 then StatusError else StatusSuccess)
           (''Import finished: '' @ utoa created @ '' created, '' @ utoa failed @ '' failed'') a, ap_CPClient a \<noteq> None))"

definition tenant_deleted :: "string option \<Rightarrow> 's app \<Rightarrow> 's app \<times> bool" where
  "tenant_deleted err a =
     (done_status ''Failed to delete tenant: '' ''Tenant deleted.'' err (a\<lparr>ap_Loading := False\<rparr>), False)"

definition vdev_deleted :: "string option \<Rightarrow> 's app \<Rightarrow> 's app \<times> bool" where
  "vdev_deleted err a0 =
     (let a = a0\<lparr>ap_Loading := False\<rparr>
      in (done_status ''Failed to delete Vdev pool: '' ''Vdev pool deleted successfully.'' err a,
          err = None \<and> ap_CPClient a \<noteq> None))"

definition policy_deleted :: "string option \<Rightarrow> 's app \<Rightarrow> 's app \<times> bool" where
  "policy_deleted err a =
     (done_status ''Failed to delete policy: '' ''Policy deleted.'' err (a\<lparr>ap_Loading := False\<rparr>), False)"

definition command_done :: "ui_msg \<Rightarrow> 's app \<Rightarrow> 's app \<times> bool" where
  "command_done msg =
     (case msg of
        ResourceSaved failPrefix successMsg tab err \<Rightarrow> resource_saved failPrefix successMsg err
      | PartitionDiskDone path parts err \<Rightarrow> partition_disk_done path parts err
      | ImportInfraDone path result \<Rightarrow> import_infra_done result
      | VdevDeleted err \<Rightarrow> vdev_deleted err
      | TenantDeleted err \<Rightarrow> tenant_deleted err
      | AuthzPolicyDeleted err \<Rightarrow> policy_deleted err)"

text \<open>
  The part of \<open>Update\<close> for these messages: an open dialog takes every message, and only a key has an effect
  on it. \<open>Submit\<close> stands for the message of a form, as the handler of that message. The third component of
  the result is a command started, the fourth the answer of a dialog, which arrives as a message of its own.
\<close>

datatype 's ui_event = Key string | Submit "'s ui \<Rightarrow> 's ui go" | ConfirmResult bool string confirm_data | Done ui_msg

definition Update :: "'s ui_env \<Rightarrow> 's ui_event \<Rightarrow> 's ui \<Rightarrow> ('s ui \<times> 's cmd option \<times> 's ui_event option) go" where
  "Update env ev st =
     (case st of (a, s) \<Rightarrow>
      if dg_Active (ap_ConfirmDialog a) then
        (case ev of
           Key key \<Rightarrow>
             (case dialog_Update key (ap_ConfirmDialog a) of (d, answer) \<Rightarrow>
                Ret ((a\<lparr>ap_ConfirmDialog := d\<rparr>, s), None, map_option (\<lambda>c. ConfirmResult c (dg_ActionID d) (dg_Data d)) answer))
         | _ \<Rightarrow> Ret (st, None, None))
      else
        (case ev of
           Key key \<Rightarrow> Ret (st, None, None)
         | Submit handler \<Rightarrow> go_bind (handler st) (\<lambda>st1. Ret (st1, None, None))
         | ConfirmResult confirmed actionID data \<Rightarrow>
             go_bind (confirm_result env confirmed actionID data st) (\<lambda>(cmd, st1). Ret (st1, cmd, None))
         | Done msg \<Rightarrow> Ret ((fst (command_done msg a), s), None, None)))"

end
