(* ===== verification/DiscoverySpec.thy ===== *)
theory DiscoverySpec
  imports Submit
begin

section \<open>Properties of partitioning\<close>

subsection \<open>Equal partitions\<close>

lemma length_partition_bounds [simp]: "length (partition_bounds n) = nat n"
  by (simp add: partition_bounds_def)

lemma partition_bounds_nth: "i < nat n \<Longrightarrow>
  partition_bounds n ! i = (int i * (100 div n), if int i = n - 1 then 100 else (int i + 1) * (100 div n))"
  by (simp add: partition_bounds_def nth_upto)

lemma partition_bounds_tile:
  assumes "1 \<le> n"
  shows "fst (partition_bounds n ! 0) = 0" "snd (last (partition_bounds n)) = 100"
    "Suc i < nat n \<Longrightarrow> snd (partition_bounds n ! i) = fst (partition_bounds n ! Suc i)"
    "n \<le> 100 \<Longrightarrow> i < nat n \<Longrightarrow> fst (partition_bounds n ! i) < snd (partition_bounds n ! i)"
    "100 < n \<Longrightarrow> Suc i < nat n \<Longrightarrow> partition_bounds n ! i = (0, 0)"
proof -
  have ne: "partition_bounds n \<noteq> []" using assms by (simp flip: length_0_conv)
  show "fst (partition_bounds n ! 0) = 0" using assms by (simp add: partition_bounds_nth)
  show "snd (last (partition_bounds n)) = 100" using assms ne by (simp add: last_conv_nth partition_bounds_nth)
  show "snd (partition_bounds n ! i) = fst (partition_bounds n ! Suc i)" if "Suc i < nat n"
    using that by (auto simp: partition_bounds_nth)
  show "partition_bounds n ! i = (0, 0)" if "100 < n" "Suc i < nat n"
    using that by (auto simp: partition_bounds_nth)
  show "fst (partition_bounds n ! i) < snd (partition_bounds n ! i)" if "n \<le> 100" "i < nat n"
  proof -
    have p: "1 \<le> 100 div n" using that assms by (simp add: pos_imp_zdiv_pos_iff int_one_le_iff_zero_less)
    have "(n - 1) * (100 div n) < n * (100 div n)" using p by simp
    also have "\<dots> \<le> 100" using assms by (metis mult.commute pos_mod_sign div_mult_mod_eq le_add_same_cancel1 zero_less_one order_less_le_trans)
    finally show ?thesis using that p by (auto simp: partition_bounds_nth algebra_simps)
  qed
qed

text \<open>
  When the device can be measured and reached, up to 100 partitions are made that cover the disk from 0
  to 100 percent, each beginning where the one before ends and none empty, by one command each in their
  order, and then the tables are read again. Of more than 100 all but the last are empty.
\<close>

theorem CreateMultipleEqualPartitions_tiles:
  assumes "1 \<le> n" and "GetDeviceSize sh hv dev s = (Inr sz, s1)" "connect sh hv s1 = (None, s2)"
  shows "CreateMultipleEqualPartitions sh hv dev n s =
       (None, foldl (\<lambda>s cmd. snd (sh_run sh (h_IPAddrs hv) cmd s)) s2
          (map (\<lambda>(a, b). mkpart_cmd (''/dev/'' @ dev) a b) (partition_bounds n) @ [''partprobe '' @ ''/dev/'' @ dev, ''udevadm settle'']))
     \<and> length (partition_bounds n) = nat n \<and> fst (partition_bounds n ! 0) = 0 \<and> snd (last (partition_bounds n)) = 100
     \<and> (\<forall>i. Suc i < nat n \<longrightarrow> snd (partition_bounds n ! i) = fst (partition_bounds n ! Suc i))
     \<and> (n \<le> 100 \<longrightarrow> (\<forall>i < nat n. fst (partition_bounds n ! i) < snd (partition_bounds n ! i)))
     \<and> (100 < n \<longrightarrow> (\<forall>i. Suc i < nat n \<longrightarrow> partition_bounds n ! i = (0, 0)))"
  using assms partition_bounds_tile[OF assms(1)] by (simp add: CreateMultipleEqualPartitions_def Let_def)

text \<open>
  A device found under \<open>by-id\<close> never has the kernel name of a partition; but the pattern also fits the
  whole disks \<open>nvme0n1\<close>, which are skipped.
\<close>

lemma ParseByIdDevices_kernel_name:
  "d \<in> set (ParseByIdDevices out) \<Longrightarrow> \<exists>k. d_DevicePath d = ''/dev/'' @ k \<and> \<not> partition_name k"
  by (auto simp: ParseByIdDevices_def by_id_line_def found_device_def Let_def split: list.splits if_splits)

lemma nvme_disk_skipped: "partition_name ''nvme0n1''" "\<not> partition_name ''sda''"
  by code_simp+

subsection \<open>Commands that are recorded\<close>

text \<open>\<open>log\<close> reads off the remote state which commands were run; connecting runs none.\<close>

definition records :: "'s ssh \<Rightarrow> ('s \<Rightarrow> string list) \<Rightarrow> bool" where
  "records sh log \<longleftrightarrow>
     (\<forall>hosts cmd s. log (snd (sh_run sh hosts cmd s)) = log s @ [cmd]) \<and> (\<forall>hosts s. log (snd (sh_dial sh hosts s)) = log s)"

text \<open>Between two states only commands with \<open>P\<close> were run.\<close>

definition ran :: "('s \<Rightarrow> string list) \<Rightarrow> (string \<Rightarrow> bool) \<Rightarrow> 's \<Rightarrow> 's \<Rightarrow> bool" where
  "ran log P s s' \<longleftrightarrow> (\<exists>cs. log s' = log s @ cs \<and> (\<forall>c \<in> set cs. P c))"

lemma ran_refl: "log s' = log s \<Longrightarrow> ran log P s s'"
  by (simp add: ran_def)

lemma ran_trans: "ran log P s s1 \<Longrightarrow> ran log P s1 s2 \<Longrightarrow> ran log P s s2"
  unfolding ran_def by (elim exE conjE) (simp add: ball_Un)

lemma ran_run: "records sh log \<Longrightarrow> sh_run sh hosts cmd s = (r, s') \<Longrightarrow> P cmd \<Longrightarrow> ran log P s s'"
  unfolding records_def ran_def by (elim conjE, drule spec[of _ hosts], drule spec[of _ cmd], drule spec[of _ s]) simp

lemma ran_connect: "records sh log \<Longrightarrow> connect sh hv s = (r, s') \<Longrightarrow> ran log P s s'"
  unfolding records_def connect_def
  by (rule ran_refl, elim conjE, rotate_tac -1, drule spec[of _ "h_IPAddrs hv"], drule spec[of _ s])
     (auto split: prod.splits option.splits)

lemma ran_check: "records sh log \<Longrightarrow> check_device sh hv missing dp s = (r, s') \<Longrightarrow> P (exists_cmd dp) \<Longrightarrow> ran log P s s'"
  unfolding check_device_def by (auto split: prod.splits option.splits if_splits intro: ran_run)

lemma ran_by_id: "records sh log \<Longrightarrow> by_id_name sh hv name s = (r, s') \<Longrightarrow> P (by_id_cmd name) \<Longrightarrow> ran log P s s'"
  unfolding by_id_name_def by (auto split: prod.splits option.splits if_splits intro: ran_run)

lemma ran_infos:
  assumes "records sh log" and "\<And>name. P (by_id_cmd name)"
  shows "partition_infos sh hv dev ls s = (r, s') \<Longrightarrow> ran log P s s'"
proof (induction ls arbitrary: s r s')
  case (Cons l ls)
  show ?case
  proof (cases "\<exists>name sz rest. words_of (trim_space l) = name # sz # rest \<and> name \<noteq> dev")
    case True
    then obtain name sz rest where w: "words_of (trim_space l) = name # sz # rest" "name \<noteq> dev" by blast
    obtain out s1 where r1: "sh_run sh (h_IPAddrs hv) (by_id_cmd name) s = (out, s1)"
      by (cases "sh_run sh (h_IPAddrs hv) (by_id_cmd name) s")
    obtain infos s2 where r2: "partition_infos sh hv dev ls s1 = (infos, s2)" by (cases "partition_infos sh hv dev ls s1")
    have "s' = s2" using Cons.prems w r1 r2 by (cases out) (auto simp: Let_def split: prod.splits)
    with ran_trans[OF ran_run[OF assms(1) r1, where P = P] Cons.IH[OF r2]] assms(2) show ?thesis by simp
  next
    case False
    then have "partition_infos sh hv dev ls s = (r, s')" using Cons.prems by (auto split: list.splits)
    then show ?thesis by (rule Cons.IH)
  qed
qed (simp add: ran_refl)

lemma ran_info:
  assumes "records sh log" and "GetDevicePartitionInfo sh hv dev s = (r, s')"
    and "\<And>name. P (by_id_cmd name)" "P (''lsblk -ln -b -o NAME,SIZE /dev/'' @ dev)"
  shows "ran log P s s'"
proof -
  obtain e s1 where c: "connect sh hv s = (e, s1)" by (cases "connect sh hv s")
  obtain b s2 where i: "by_id_name sh hv dev s1 = (b, s2)" by (cases "by_id_name sh hv dev s1")
  obtain out s3 where l: "sh_run sh (h_IPAddrs hv) (''lsblk -ln -b -o NAME,SIZE /dev/'' @ dev) s2 = (out, s3)"
    by (cases "sh_run sh (h_IPAddrs hv) (''lsblk -ln -b -o NAME,SIZE /dev/'' @ dev) s2")
  obtain infos s4 where p: "partition_infos sh hv dev (split (CHR 0x0A) (trim_space (fst out))) s3 = (infos, s4)"
    by (cases "partition_infos sh hv dev (split (CHR 0x0A) (trim_space (fst out))) s3")
  note r1 = ran_connect[OF assms(1) c, of P]
  note r2 = ran_trans[OF r1 ran_by_id[where P = P, OF assms(1) i assms(3)]]
  note r3 = ran_trans[OF r2 ran_run[where P = P, OF assms(1) l assms(4)]]
  note r4 = ran_trans[OF r3 ran_infos[where P = P, OF assms(1,3) p]]
  from assms(2) have "s' = s1 \<or> s' = s2 \<or> s' = s3 \<or> s' = s4"
    unfolding GetDevicePartitionInfo_def c using i l p by (cases out) (auto split: option.splits sum.splits)
  with r1 r2 r3 r4 show ?thesis by blast
qed

lemma ran_size:
  assumes "records sh log" and "GetDeviceSize sh hv dev s = (r, s')"
    and "P (exists_cmd (''/dev/'' @ dev))" "P (''blockdev --getsize64 '' @ ''/dev/'' @ dev)"
  shows "ran log P s s'"
proof -
  let ?m = "case GetPrimaryIP hv of Ret ip \<Rightarrow> ip | _ \<Rightarrow> []"
  obtain e s1 where c: "connect sh hv s = (e, s1)" by (cases "connect sh hv s")
  obtain b s2 where i: "check_device sh hv ?m (''/dev/'' @ dev) s1 = (b, s2)" by (cases "check_device sh hv ?m (''/dev/'' @ dev) s1")
  obtain out s3 where l: "sh_run sh (h_IPAddrs hv) (''blockdev --getsize64 '' @ ''/dev/'' @ dev) s2 = (out, s3)"
    by (cases "sh_run sh (h_IPAddrs hv) (''blockdev --getsize64 '' @ ''/dev/'' @ dev) s2")
  note r1 = ran_connect[OF assms(1) c, of P]
  note r2 = ran_trans[OF r1 ran_check[where P = P, OF assms(1) i assms(3)]]
  note r3 = ran_trans[OF r2 ran_run[where P = P, OF assms(1) l assms(4)]]
  from assms(2) have "s' = s1 \<or> s' = s2 \<or> s' = s3"
    unfolding GetDeviceSize_def Let_def c using i l by (cases out) (auto split: option.splits prod.splits)
  with r1 r2 r3 show ?thesis by blast
qed

lemma ran_fold: "records sh log \<Longrightarrow> \<forall>c \<in> set cs. P c \<Longrightarrow> ran log P s (foldl (\<lambda>s cmd. snd (sh_run sh hosts cmd s)) s cs)"
proof (induction cs arbitrary: s)
  case (Cons c cs)
  have "ran log P s (snd (sh_run sh hosts c s))"
    using ran_run[OF Cons.prems(1), of hosts c s] Cons.prems(2) by (cases "sh_run sh hosts c s") auto
  with Cons show ?case by (auto intro: ran_trans)
qed (simp add: ran_refl)

lemma ran_create:
  assumes "records sh log" and "CreateMultipleEqualPartitions sh hv dev n s = (r, s')"
    and "P (exists_cmd (''/dev/'' @ dev))" "P (''blockdev --getsize64 '' @ ''/dev/'' @ dev)"
    and "\<And>a b. P (mkpart_cmd (''/dev/'' @ dev) a b)" "P (''partprobe '' @ ''/dev/'' @ dev)" "P ''udevadm settle''"
  shows "ran log P s s'"
proof (cases "n \<le> 0")
  case True
  with assms(2) show ?thesis by (simp add: CreateMultipleEqualPartitions_def ran_refl)
next
  case False
  obtain e s1 where g: "GetDeviceSize sh hv dev s = (e, s1)" by (cases "GetDeviceSize sh hv dev s")
  obtain c s2 where c: "connect sh hv s1 = (c, s2)" by (cases "connect sh hv s1")
  note r1 = ran_size[where P = P, OF assms(1) g assms(3,4)]
  note r2 = ran_trans[OF r1 ran_connect[OF assms(1) c]]
  let ?cs = "map (\<lambda>(a, b). mkpart_cmd (''/dev/'' @ dev) a b) (partition_bounds n) @ [''partprobe '' @ ''/dev/'' @ dev, ''udevadm settle'']"
  have "\<forall>c \<in> set ?cs. P c" using assms(5-7) by auto
  note r3 = ran_trans[OF r2 ran_fold[where P = P, OF assms(1) this]]
  from assms(2) False have "s' = s1 \<or> s' = s2 \<or> s' = foldl (\<lambda>s cmd. snd (sh_run sh (h_IPAddrs hv) cmd s)) s2 ?cs"
    unfolding CreateMultipleEqualPartitions_def Let_def g using c by (auto split: sum.splits option.splits)
  with r1 r2 r3 show ?thesis by blast
qed

subsection \<open>When a disk is wiped\<close>

lemma ran_not: "ran log (\<lambda>c. c \<noteq> x) s s' \<Longrightarrow> x \<notin> set (drop (length (log s)) (log s'))"
  by (auto simp: ran_def)

lemma ran_then:
  assumes "ran log P s s1" "log s2 = log s1 @ [x]" "ran log Q s2 s'"
  shows "x \<in> set (drop (length (log s)) (log s'))"
  using assms unfolding ran_def by (elim exE conjE) simp

lemma other_cmds: "by_id_cmd n \<noteq> mklabel_cmd d" "exists_cmd p \<noteq> mklabel_cmd d" "''lsblk -ln -b -o NAME,SIZE /dev/'' @ n \<noteq> mklabel_cmd d"
  by (simp_all add: by_id_cmd_def exists_cmd_def mklabel_cmd_def)

text \<open>What follows the new partition table changes nothing that was run before, and does not panic.\<close>

lemma after_mklabel:
  assumes "records (ue_ssh env) log"
    and "DeleteAllPartitionsFromDevice (ue_ssh env) (pk_Hypervisor req) dev s1 = (None, s2)"
    and "dev = trim_prefix ''/dev/'' (d_DevicePath (pk_Device req))"
    and "GetDevicePartitionInfo (ue_ssh env) (pk_Hypervisor req) dev s = (existing, s1)" "\<forall>infos. existing = Inr infos \<longrightarrow> infos = []"
  shows "\<exists>path parts err s'. executePartitionDisk env req (a, s) = Ret (PartitionDiskDone path parts err, a, s') \<and> ran log (\<lambda>_. True) s2 s'"
proof -
  obtain c s3 where c: "CreateMultipleEqualPartitions (ue_ssh env) (pk_Hypervisor req) dev (pk_Count req) s2 = (c, s3)"
    by (cases "CreateMultipleEqualPartitions (ue_ssh env) (pk_Hypervisor req) dev (pk_Count req) s2")
  obtain r s4 where r: "GetDevicePartitionInfo (ue_ssh env) (pk_Hypervisor req) dev s3 = (r, s4)"
    by (cases "GetDevicePartitionInfo (ue_ssh env) (pk_Hypervisor req) dev s3")
  note r1 = ran_create[where P = "\<lambda>_. True", OF assms(1) c TrueI TrueI TrueI TrueI TrueI]
  note r2 = ran_trans[OF r1 ran_info[where P = "\<lambda>_. True", OF assms(1) r TrueI TrueI]]
  have ok: "\<not> (case existing of Inr infos \<Rightarrow> infos \<noteq> [] | Inl _ \<Rightarrow> False)" using assms(5) by (auto split: sum.split)
  show ?thesis
    using r1 r2 ok by (cases c; cases r) (simp_all add: executePartitionDisk_def Let_def assms(4)[unfolded assms(3)]
        assms(2)[unfolded assms(3)] c[unfolded assms(3)] r[unfolded assms(3)])
qed

text \<open>
  C31: a disk is given an empty partition table exactly when it can be reached, is there, and the listing
  of its partitions before is empty or failed. A disk with listed partitions is refused with an error. So
  the refusal does not cover a disk with partitions whose listing fails, for one that has no name under
  \<open>/dev/disk/by-id\<close>.
\<close>

theorem partition_disk_wipes_iff:
  assumes "records (ue_ssh env) log" and "dev = trim_prefix ''/dev/'' (d_DevicePath (pk_Device req))" "hv = pk_Hypervisor req"
    and "GetDevicePartitionInfo (ue_ssh env) hv dev s = (existing, s1)"
    and "connect (ue_ssh env) hv s1 = (cerr, s2)"
    and "check_device (ue_ssh env) hv (show_strs (h_IPAddrs hv)) (''/dev/'' @ dev) s2 = (derr, s3)"
  shows "\<exists>path parts err s'. executePartitionDisk env req (a, s) = Ret (PartitionDiskDone path parts err, a, s')
     \<and> (mklabel_cmd (''/dev/'' @ dev) \<in> set (drop (length (log s)) (log s'))
          \<longleftrightarrow> (\<forall>infos. existing = Inr infos \<longrightarrow> infos = []) \<and> cerr = None \<and> derr = None)
     \<and> ((\<exists>infos. existing = Inr infos \<and> infos \<noteq> []) \<longrightarrow> err \<noteq> None)"
proof -
  let ?P = "\<lambda>c. c \<noteq> mklabel_cmd (''/dev/'' @ dev)"
  note r1 = ran_info[where P = ?P, OF assms(1,4) other_cmds(1,3)]
  note r2 = ran_trans[OF r1 ran_connect[OF assms(1,5)]]
  note r3 = ran_trans[OF r2 ran_check[where P = ?P, OF assms(1,6) other_cmds(2)]]
  consider (full) x xs where "existing = Inr (x # xs)" | (empty) "\<forall>infos. existing = Inr infos \<longrightarrow> infos = []"
    by (metis list.exhaust)
  then show ?thesis
  proof cases
    case full
    with ran_not[OF r1] show ?thesis
      by (simp add: executePartitionDisk_def Let_def assms(4)[unfolded assms(2,3)])
  next
    case empty
    then have ok: "\<not> (case existing of Inr infos \<Rightarrow> infos \<noteq> [] | Inl _ \<Rightarrow> False)" by (auto split: sum.split)
    show ?thesis
    proof (cases "cerr = None \<and> derr = None")
      case True
      let ?s4 = "snd (sh_run (ue_ssh env) (h_IPAddrs hv) (mklabel_cmd (''/dev/'' @ dev)) s3)"
      have d: "DeleteAllPartitionsFromDevice (ue_ssh env) (pk_Hypervisor req) dev s1 = (None, ?s4)"
        using True assms(5,6) by (simp add: DeleteAllPartitionsFromDevice_def Let_def assms(3))
      have l: "log ?s4 = log s3 @ [mklabel_cmd (''/dev/'' @ dev)]" using assms(1) by (simp add: records_def)
      obtain path parts err s' where "executePartitionDisk env req (a, s) = Ret (PartitionDiskDone path parts err, a, s')"
        "ran log (\<lambda>_. True) ?s4 s'"
        using after_mklabel[OF assms(1) d assms(2) assms(4)[unfolded assms(3)] empty] by blast
      with ran_then[OF r3 l] True empty show ?thesis by blast
    next
      case False
      then obtain e s' where d: "DeleteAllPartitionsFromDevice (ue_ssh env) hv dev s1 = (Some e, s')" "s' = s2 \<or> s' = s3"
        using assms(5,6) by (cases cerr; cases derr) (auto simp: DeleteAllPartitionsFromDevice_def Let_def)
      with ran_not[OF r2] ran_not[OF r3] have "mklabel_cmd (''/dev/'' @ dev) \<notin> set (drop (length (log s)) (log s'))" by blast
      with False empty ok show ?thesis
        by (simp add: executePartitionDisk_def Let_def assms(4)[unfolded assms(2,3)] d(1)[unfolded assms(2,3)] assms(2))
    qed
  qed
qed

text \<open>A disk without a name under \<open>by-id\<close>: every command succeeds, and that for the name prints nothing.\<close>

definition unnamed_disk :: "string list ssh" where
  "unnamed_disk = \<lparr>sh_dial = (\<lambda>hosts s. (None, s)),
     sh_run = (\<lambda>hosts cmd s. ((if has_prefix ''test'' cmd then ''exists'' else if has_prefix ''blockdev'' cmd then ''1000'' else [], None), s @ [cmd]))\<rparr>"

definition disk_request :: partition_disk_request where
  "disk_request = \<lparr>pk_Device = found_device ''d'' ''sdb'' ''/dev/sdb'' 0 [], pk_Hypervisor =
     \<lparr>h_ID = ''h'', h_RackID = [], h_Name = ''h'', h_IPAddrs = [''10.0.0.1''], h_PortRange = [], h_SSHPort = [], h_Dev = [],
      h_RDMAEnabled = False\<rparr>, pk_Count = 2\<rparr>"

definition no_users_client :: "'s user_service" where
  "no_users_client = \<lparr>us_LoginWithTenant = (\<lambda>_ _ _ s. (Inl ''refused'', s)), us_ListUsers = (\<lambda>_ s. (Inr [], s)),
     us_CreateUser = (\<lambda>_ _ s. (Inl ''refused'', s)), us_CreateAdminUser = (\<lambda>_ s. (Inl ''refused'', s))\<rparr>"

theorem partition_disk_wipes_iff_witness:
  "\<forall>a0. \<exists>msg a s'. executePartitionDisk \<lparr>ue_new = (\<lambda>_. []), ue_now = (\<lambda>_. 0), ue_ssh = unnamed_disk, ue_gb = (\<lambda>_. []), ue_user_client = no_users_client\<rparr> disk_request (a0, []) = Ret (msg, a, s')
     \<and> mklabel_cmd ''/dev/sdb'' \<in> set s'"
proof
  fix a0
  let ?env = "\<lparr>ue_new = (\<lambda>_. []), ue_now = (\<lambda>_. 0), ue_ssh = unnamed_disk, ue_gb = (\<lambda>_. []), ue_user_client = no_users_client\<rparr>"
  have r: "records (ue_ssh ?env) (\<lambda>s. s)" by (simp add: records_def unnamed_disk_def)
  have d: "''sdb'' = trim_prefix ''/dev/'' (d_DevicePath (pk_Device disk_request))"
    by (simp add: disk_request_def found_device_def trim_prefix_def has_prefix_def)
  have c: "connect unnamed_disk hv s = (None, s)" for hv s by (simp add: connect_def unnamed_disk_def)
  have l: "GetDevicePartitionInfo (ue_ssh ?env) hv ''sdb'' [] = (Inl (''could not find by-id name for device '' @ ''sdb''), [by_id_cmd ''sdb''])" for hv
    by (simp add: GetDevicePartitionInfo_def c by_id_name_def) (simp add: unnamed_disk_def by_id_cmd_def has_prefix_def trim_space_def)
  have e: "check_device (ue_ssh ?env) hv m (''/dev/'' @ ''sdb'') s = (None, s @ [exists_cmd ''/dev/sdb''])" for hv m s
    by (simp add: check_device_def unnamed_disk_def exists_cmd_def has_prefix_def trim_space_def is_space_def)
  have c1: "connect (ue_ssh ?env) hv [by_id_cmd ''sdb''] = (None, [by_id_cmd ''sdb''])" for hv by (simp add: c)
  from partition_disk_wipes_iff[OF r d refl l c1 e, of a0]
  show "\<exists>msg a s'. executePartitionDisk ?env disk_request (a0, []) = Ret (msg, a, s') \<and> mklabel_cmd ''/dev/sdb'' \<in> set s'" by auto
qed

definition measured_disk :: "unit ssh" where
  "measured_disk = \<lparr>sh_dial = (\<lambda>hosts s. (None, s)),
     sh_run = (\<lambda>hosts cmd s. ((if has_prefix ''test'' cmd then ''exists'' else ''1000'', None), s))\<rparr>"

theorem CreateMultipleEqualPartitions_tiles_witness:
  "fst (CreateMultipleEqualPartitions measured_disk (pk_Hypervisor disk_request) ''sdb'' 3 ()) = None \<and> partition_bounds 3 = [(0, 33), (33, 66), (66, 100)]"
proof -
  have "trim_space ''exists'' = ''exists''" "trim_space ''1000'' = ''1000''" by (simp_all add: trim_space_def is_space_def)
  moreover have "atoi ''1000'' = (1000, True)" by (simp add: atoi_def digit_val_def)
  ultimately have g: "GetDeviceSize measured_disk (pk_Hypervisor disk_request) ''sdb'' () = (Inr 1000, ())"
    by (simp add: GetDeviceSize_def connect_def check_device_def measured_disk_def exists_cmd_def has_prefix_def Let_def split: go.split)
  have c: "connect measured_disk (pk_Hypervisor disk_request) () = (None, ())" by (simp add: connect_def measured_disk_def)
  have "partition_bounds 3 = [(0, 33), (33, 66), (66, 100)]" by code_simp
  with CreateMultipleEqualPartitions_tiles[of 3, OF _ g c] show ?thesis by simp
qed

end
