(* ===== verification/CtlSpec.thy ===== *)
theory CtlSpec
  imports InfraImport
begin

section \<open>Properties of the domain layer of niova-ctl\<close>

subsection \<open>The inventory tree\<close>

text \<open>
  The specification of \<open>StitchTopology\<close>: each parent holds the children that name it, in the order of their
  table.
\<close>

definition stitched_device :: "device_partition list \<Rightarrow> device \<Rightarrow> device" where
  "stitched_device partitions d = d\<lparr>d_Partitions := filter (\<lambda>p. pt_DevID p = d_ID d) partitions\<rparr>"

definition stitched_hv :: "device list \<Rightarrow> device_partition list \<Rightarrow> hypervisor \<Rightarrow> hypervisor" where
  "stitched_hv devices partitions h =
     h\<lparr>h_Dev := filter (\<lambda>d. d_HypervisorID d = h_ID h) (map (stitched_device partitions) devices)\<rparr>"

definition stitched_rack :: "hypervisor list \<Rightarrow> device list \<Rightarrow> device_partition list \<Rightarrow> rack \<Rightarrow> rack" where
  "stitched_rack hvs devices partitions r =
     r\<lparr>r_Hypervisors := filter (\<lambda>h. h_RackID h = r_ID r) (map (stitched_hv devices partitions) hvs)\<rparr>"

definition stitched_pdu :: "rack list \<Rightarrow> hypervisor list \<Rightarrow> device list \<Rightarrow> device_partition list \<Rightarrow> pdu \<Rightarrow> pdu" where
  "stitched_pdu racks hvs devices partitions p =
     p\<lparr>p_Racks := filter (\<lambda>r. r_PDUID r = p_ID p) (map (stitched_rack hvs devices partitions) racks)\<rparr>"

lemma find_last_None: "find_last P xs = None \<longleftrightarrow> (\<forall>x \<in> set xs. \<not> P x)"
  by (induction xs) (auto split: option.splits)

lemma find_last_Some: "find_last P xs = Some i \<Longrightarrow> i < length xs \<and> P (xs ! i)"
  by (induction xs arbitrary: i) (auto split: option.splits if_splits)

lemma find_last_map: "find_last P (map f xs) = find_last (\<lambda>x. P (f x)) xs"
  by (induction xs) (auto split: option.split)

lemma attach_child_keeps:
  assumes "\<And>c p. pid (add c p) = pid p"
  shows "map pid (attach_child pid add fk ps c) = map pid ps"
proof (cases "find_last (\<lambda>p. pid p = fk c) ps")
  case (Some i)
  then have "i < length ps" using find_last_Some[OF Some] by simp
  then have "(map pid ps)[i := pid (ps ! i)] = map pid ps" by (metis list_update_id nth_map)
  with Some show ?thesis by (simp add: attach_child_def map_update assms)
qed (simp add: attach_child_def)

lemma attach_child_distinct:
  assumes "distinct (map pid ps)"
  shows "attach_child pid add fk ps c = map (\<lambda>p. if pid p = fk c then add c p else p) ps"
proof (cases "find_last (\<lambda>p. pid p = fk c) ps")
  case None
  then have "\<forall>p \<in> set ps. pid p \<noteq> fk c" by (simp add: find_last_None)
  with None show ?thesis by (simp add: attach_child_def map_idI)
next
  case (Some i)
  then have i: "i < length ps" "pid (ps ! i) = fk c" using find_last_Some[OF Some] by auto
  have only: "pid (ps ! j) = fk c \<longleftrightarrow> i = j" if "j < length ps" for j
    using nth_eq_iff_index_eq[OF assms, of i j] i that by auto
  show ?thesis unfolding attach_child_def Some option.case
  proof (rule nth_equalityI)
    fix j assume "j < length (ps[i := add c (ps ! i)])"
    then show "ps[i := add c (ps ! i)] ! j = map (\<lambda>p. if pid p = fk c then add c p else p) ps ! j"
      using only[of j] by (simp add: nth_list_update)
  qed simp
qed

lemma attach_children:
  assumes "\<And>c p. pid (add c p) = pid p" and "distinct (map pid ps)"
  shows "foldl (attach_child pid add fk) ps cs
     = map (\<lambda>p. foldl (\<lambda>q c. add c q) p (filter (\<lambda>c. fk c = pid p) cs)) ps"
  using assms(2)
proof (induction cs arbitrary: ps)
  case (Cons c cs)
  let ?ps = "map (\<lambda>p. if pid p = fk c then add c p else p) ps"
  have ids: "map pid ?ps = map pid ps" by (simp add: assms(1))
  have "foldl (attach_child pid add fk) ps (c # cs) = foldl (attach_child pid add fk) ?ps cs"
    using Cons.prems by (simp add: attach_child_distinct)
  also have "\<dots> = map (\<lambda>p. foldl (\<lambda>q c. add c q) p (filter (\<lambda>c. fk c = pid p) cs)) ?ps"
    by (rule Cons.IH) (simp only: ids Cons.prems)
  finally show ?case by (auto simp: assms(1))
qed simp

lemma foldl_append_child:
  "foldl (\<lambda>d p. d\<lparr>d_Partitions := d_Partitions d @ [p]\<rparr>) d ps = d\<lparr>d_Partitions := d_Partitions d @ ps\<rparr>"
  "foldl (\<lambda>h d. h\<lparr>h_Dev := h_Dev h @ [d]\<rparr>) h ds = h\<lparr>h_Dev := h_Dev h @ ds\<rparr>"
  "foldl (\<lambda>r h. r\<lparr>r_Hypervisors := r_Hypervisors r @ [h]\<rparr>) r hs = r\<lparr>r_Hypervisors := r_Hypervisors r @ hs\<rparr>"
  "foldl (\<lambda>p r. p\<lparr>p_Racks := p_Racks p @ [r]\<rparr>) p rs = p\<lparr>p_Racks := p_Racks p @ rs\<rparr>"
  by (induction ps arbitrary: d, simp_all, induction ds arbitrary: h, simp_all, induction hs arbitrary: r, simp_all,
      induction rs arbitrary: p, simp_all)

lemma stitched_ids [simp]:
  "d_ID (stitched_device ps d) = d_ID d" "d_HypervisorID (stitched_device ps d) = d_HypervisorID d"
  "h_ID (stitched_hv ds ps h) = h_ID h" "h_RackID (stitched_hv ds ps h) = h_RackID h"
  "r_ID (stitched_rack hs ds ps r) = r_ID r" "r_PDUID (stitched_rack hs ds ps r) = r_PDUID r"
  "p_ID (stitched_pdu rs hs ds ps p) = p_ID p"
  by (simp_all add: stitched_device_def stitched_hv_def stitched_rack_def stitched_pdu_def)

lemma StitchTopology_spec:
  assumes "distinct (map p_ID pdus)" "distinct (map r_ID racks)" "distinct (map h_ID hvs)" "distinct (map d_ID devices)"
  shows "StitchTopology pdus racks hvs devices partitions =
    (map (stitched_pdu racks hvs devices partitions) pdus, map (stitched_rack hvs devices partitions) racks,
     filter (\<lambda>h. \<forall>r \<in> set racks. r_ID r \<noteq> h_RackID h) (map (stitched_hv devices partitions) hvs))"
proof -
  have d: "foldl (attach_child d_ID (\<lambda>p d. d\<lparr>d_Partitions := d_Partitions d @ [p]\<rparr>) pt_DevID)
      (map (\<lambda>d. d\<lparr>d_Partitions := []\<rparr>) devices) partitions = map (stitched_device partitions) devices"
    using assms(4) by (subst attach_children) (auto simp: comp_def foldl_append_child stitched_device_def)
  have h: "foldl (attach_child h_ID (\<lambda>d h. h\<lparr>h_Dev := h_Dev h @ [d]\<rparr>) d_HypervisorID)
      (map (\<lambda>h. h\<lparr>h_Dev := []\<rparr>) hvs) (map (stitched_device partitions) devices) = map (stitched_hv devices partitions) hvs"
    using assms(3) by (subst attach_children) (auto simp: comp_def foldl_append_child stitched_hv_def)
  have r: "foldl (attach_child r_ID (\<lambda>h r. r\<lparr>r_Hypervisors := r_Hypervisors r @ [h]\<rparr>) h_RackID)
      (map (\<lambda>r. r\<lparr>r_Hypervisors := []\<rparr>) racks) (map (stitched_hv devices partitions) hvs)
      = map (stitched_rack hvs devices partitions) racks"
    using assms(2) by (subst attach_children) (auto simp: comp_def foldl_append_child stitched_rack_def)
  have p: "foldl (attach_child p_ID (\<lambda>r p. p\<lparr>p_Racks := p_Racks p @ [r]\<rparr>) r_PDUID)
      (map (\<lambda>p. p\<lparr>p_Racks := []\<rparr>) pdus) (map (stitched_rack hvs devices partitions) racks)
      = map (stitched_pdu racks hvs devices partitions) pdus"
    using assms(1) by (subst attach_children) (auto simp: comp_def foldl_append_child stitched_pdu_def)
  show ?thesis unfolding StitchTopology_def Let_def d h r p by (simp add: find_last_None)
qed


subsection \<open>No hypervisor is lost between racks and no rack\<close>

lemma attach_children_keep:
  assumes "\<And>c p. pid (add c p) = pid p"
  shows "map pid (foldl (attach_child pid add fk) ps cs) = map pid ps"
  by (induction cs arbitrary: ps) (simp_all add: attach_child_keeps[of pid add, OF assms])

lemma find_last_pid:
  assumes "map pid ps = map pid qs"
  shows "find_last (\<lambda>p. pid p = k) ps = find_last (\<lambda>p. pid p = k) qs"
proof -
  have "find_last (\<lambda>p. pid p = k) xs = find_last (\<lambda>i. i = k) (map pid xs)" for xs by (simp add: find_last_map)
  with assms show ?thesis by simp
qed

lemma attach_child_mset:
  assumes "\<And>c p. kids (add c p) = kids p @ [c]"
  shows "mset (concat (map kids (attach_child pid add fk ps c)))
     = mset (concat (map kids ps)) + (if find_last (\<lambda>p. pid p = fk c) ps = None then {#} else {#c#})"
proof (cases "find_last (\<lambda>p. pid p = fk c) ps")
  case (Some i)
  then have "i < length ps" using find_last_Some[OF Some] by simp
  then have "ps = take i ps @ ps ! i # drop (Suc i) ps" "ps[i := add c (ps ! i)] = take i ps @ add c (ps ! i) # drop (Suc i) ps"
    by (simp_all add: id_take_nth_drop upd_conv_take_nth_drop)
  then obtain us vs where l: "ps = us @ ps ! i # vs" "ps[i := add c (ps ! i)] = us @ add c (ps ! i) # vs" by blast
  have "mset (concat (map kids ps)) = mset (concat (map kids us)) + mset (kids (ps ! i)) + mset (concat (map kids vs))"
    by (subst l(1)) simp
  moreover have "mset (concat (map kids (ps[i := add c (ps ! i)]))) = mset (concat (map kids us)) + mset (kids (ps ! i)) + {#c#}
      + mset (concat (map kids vs))"
    by (subst l(2)) (simp add: assms)
  ultimately show ?thesis using Some by (simp add: attach_child_def)
qed (simp add: attach_child_def)


lemma attach_children_mset:
  assumes kids: "\<And>c p. kids (add c p) = kids p @ [c]" and pid: "\<And>c p. pid (add c p) = pid p"
  shows "mset (concat (map kids (foldl (attach_child pid add fk) ps cs)))
     = mset (concat (map kids ps)) + mset (filter (\<lambda>c. find_last (\<lambda>p. pid p = fk c) ps \<noteq> None) cs)"
proof (induction cs arbitrary: ps)
  case (Cons c cs)
  let ?ps = "attach_child pid add fk ps c"
  have "map pid ?ps = map pid ps" by (rule attach_child_keeps) (rule pid)
  from find_last_pid[OF this] show ?case
    using attach_child_mset[of kids add pid fk ps c, OF kids] by (simp add: Cons.IH)
qed simp

lemma StitchTopology_places_once:
  assumes "StitchTopology pdus racks hvs devices partitions = (pdus', racks', standalone)"
  shows "mset (map h_ID (concat (map r_Hypervisors racks') @ standalone)) = mset (map h_ID hvs)"
proof -
  obtain devices' where s: "racks' = foldl (attach_child r_ID (\<lambda>h r. r\<lparr>r_Hypervisors := r_Hypervisors r @ [h]\<rparr>) h_RackID)
       (map (\<lambda>r. r\<lparr>r_Hypervisors := []\<rparr>) racks)
       (foldl (attach_child h_ID (\<lambda>d h. h\<lparr>h_Dev := h_Dev h @ [d]\<rparr>) d_HypervisorID) (map (\<lambda>h. h\<lparr>h_Dev := []\<rparr>) hvs) devices')"
    "standalone = filter (\<lambda>h. find_last (\<lambda>r. r_ID r = h_RackID h) (map (\<lambda>r. r\<lparr>r_Hypervisors := []\<rparr>) racks) = None)
       (foldl (attach_child h_ID (\<lambda>d h. h\<lparr>h_Dev := h_Dev h @ [d]\<rparr>) d_HypervisorID) (map (\<lambda>h. h\<lparr>h_Dev := []\<rparr>) hvs) devices')"
    using assms unfolding StitchTopology_def Let_def by blast
  define hvs' where "hvs' = foldl (attach_child h_ID (\<lambda>d h. h\<lparr>h_Dev := h_Dev h @ [d]\<rparr>) d_HypervisorID)
      (map (\<lambda>h. h\<lparr>h_Dev := []\<rparr>) hvs) devices'"
  define racks0 where "racks0 = map (\<lambda>r. r\<lparr>r_Hypervisors := []\<rparr>) racks"
  have ids: "map h_ID hvs' = map h_ID hvs"
    unfolding hvs'_def by (subst attach_children_keep) (simp_all add: comp_def)
  have none: "concat (map r_Hypervisors racks0) = []" by (simp add: racks0_def)
  have "mset (concat (map r_Hypervisors racks')) = mset (filter (\<lambda>h. find_last (\<lambda>r. r_ID r = h_RackID h) racks0 \<noteq> None) hvs')"
    unfolding s(1) hvs'_def[symmetric] racks0_def[symmetric] by (subst attach_children_mset) (simp_all add: none)
  then have "mset (concat (map r_Hypervisors racks') @ standalone) = mset hvs'"
    unfolding s(2) hvs'_def[symmetric] racks0_def[symmetric] by (simp add: multiset_partition)
  then have "image_mset h_ID (mset (concat (map r_Hypervisors racks') @ standalone)) = image_mset h_ID (mset hvs')" by simp
  then show ?thesis using ids by (metis mset_map)
qed

lemma find_some: "find P xs \<noteq> None \<longleftrightarrow> (\<exists>x \<in> set xs. P x)"
  by (auto simp: find_None_iff)

lemma tree_hypervisors:
  "set (pdu_hypervisors (map (stitched_pdu racks hvs devices partitions) pdus))
     = stitched_hv devices partitions ` {h \<in> set hvs. \<exists>p \<in> set pdus. \<exists>r \<in> set racks. r_PDUID r = p_ID p \<and> h_RackID h = r_ID r}"
proof -
  have "set (pdu_hypervisors (map (stitched_pdu racks hvs devices partitions) pdus))
     = (\<Union>p \<in> set pdus. \<Union>r \<in> {r \<in> set racks. r_PDUID r = p_ID p}. stitched_hv devices partitions ` {h \<in> set hvs. h_RackID h = r_ID r})"
    by (simp add: pdu_hypervisors_def stitched_pdu_def stitched_rack_def filter_map comp_def image_image)
  then show ?thesis by blast
qed

lemma rack_chain:
  assumes "distinct (map r_ID racks)"
  shows "((\<exists>p \<in> set pdus. \<exists>r \<in> set racks. r_PDUID r = p_ID p \<and> h_RackID h = r_ID r) \<or> (\<forall>r \<in> set racks. r_ID r \<noteq> h_RackID h))
    \<longleftrightarrow> (\<forall>r \<in> set racks. r_ID r = h_RackID h \<longrightarrow> r_PDUID r \<in> p_ID ` set pdus)"
proof (cases "\<exists>r \<in> set racks. r_ID r = h_RackID h")
  case True
  then obtain r where r: "r \<in> set racks" "r_ID r = h_RackID h" by blast
  have only: "r' = r" if "r' \<in> set racks" "r_ID r' = h_RackID h" for r'
    using assms that r by (metis distinct_map inj_onD)
  have "(\<forall>r \<in> set racks. r_ID r = h_RackID h \<longrightarrow> r_PDUID r \<in> p_ID ` set pdus) \<longleftrightarrow> r_PDUID r \<in> p_ID ` set pdus"
    using r only by blast
  moreover have "(\<exists>p \<in> set pdus. \<exists>r \<in> set racks. r_PDUID r = p_ID p \<and> h_RackID h = r_ID r) \<longleftrightarrow> r_PDUID r \<in> p_ID ` set pdus"
  proof
    assume "\<exists>p \<in> set pdus. \<exists>r \<in> set racks. r_PDUID r = p_ID p \<and> h_RackID h = r_ID r"
    then obtain p r' where p: "p \<in> set pdus" "r' \<in> set racks" "r_PDUID r' = p_ID p" "h_RackID h = r_ID r'" by blast
    from only[OF p(2) p(4)[symmetric]] p(1,3) show "r_PDUID r \<in> p_ID ` set pdus" by (metis imageI)
  next
    assume "r_PDUID r \<in> p_ID ` set pdus"
    then obtain p where "p \<in> set pdus" "r_PDUID r = p_ID p" by (rule imageE)
    with r(1) r(2)[symmetric] show "\<exists>p \<in> set pdus. \<exists>r \<in> set racks. r_PDUID r = p_ID p \<and> h_RackID h = r_ID r"
      by (intro bexI[of _ p] bexI[of _ r]) simp_all
  qed
  moreover have "\<not> (\<forall>r \<in> set racks. r_ID r \<noteq> h_RackID h)" using r by blast
  ultimately show ?thesis by blast
qed auto

text \<open>
  C27: the tree that the screens show. When identifiers are unique, each parent holds exactly the children
  that name it, in the order of their table, and a hypervisor whose rack is not known stands alone. Racks
  and the stand-alone list together hold every hypervisor once. The tree itself does not: a hypervisor can
  be found in it exactly when it stands alone or its rack is in a power unit that is known, so one whose
  rack names an unknown power unit is nowhere.
\<close>

theorem StitchTopology_join:
  assumes "distinct (map p_ID pdus)" "distinct (map r_ID racks)" "distinct (map h_ID hvs)" "distinct (map d_ID devices)"
    and "StitchTopology pdus racks hvs devices partitions = (pdus', racks', standalone)"
  shows "pdus' = map (stitched_pdu racks hvs devices partitions) pdus
    \<and> racks' = map (stitched_rack hvs devices partitions) racks
    \<and> standalone = filter (\<lambda>h. \<forall>r \<in> set racks. r_ID r \<noteq> h_RackID h) (map (stitched_hv devices partitions) hvs)
    \<and> mset (map h_ID (concat (map r_Hypervisors racks') @ standalone)) = mset (map h_ID hvs)
    \<and> (FindHypervisorByUUID pdus' standalone i \<noteq> None \<longleftrightarrow>
        (\<exists>h \<in> set hvs. h_ID h = i \<and> (\<forall>r \<in> set racks. r_ID r = h_RackID h \<longrightarrow> r_PDUID r \<in> p_ID ` set pdus)))"
proof -
  from assms(5) have spec: "pdus' = map (stitched_pdu racks hvs devices partitions) pdus"
    "racks' = map (stitched_rack hvs devices partitions) racks"
    "standalone = filter (\<lambda>h. \<forall>r \<in> set racks. r_ID r \<noteq> h_RackID h) (map (stitched_hv devices partitions) hvs)"
    by (auto simp: StitchTopology_spec[OF assms(1-4)])
  have "FindHypervisorByUUID pdus' standalone i \<noteq> None \<longleftrightarrow>
      (\<exists>h \<in> set hvs. h_ID h = i \<and> ((\<exists>p \<in> set pdus. \<exists>r \<in> set racks. r_PDUID r = p_ID p \<and> h_RackID h = r_ID r)
         \<or> (\<forall>r \<in> set racks. r_ID r \<noteq> h_RackID h)))"
    unfolding FindHypervisorByUUID_def find_some set_append spec tree_hypervisors
    by (simp add: filter_map comp_def image_Un[symmetric] del: Un_iff) blast
  also have "\<dots> \<longleftrightarrow> (\<exists>h \<in> set hvs. h_ID h = i \<and> (\<forall>r \<in> set racks. r_ID r = h_RackID h \<longrightarrow> r_PDUID r \<in> p_ID ` set pdus))"
    by (simp only: rack_chain[OF assms(2)])
  finally show ?thesis using spec StitchTopology_places_once[OF assms(5)] by simp
qed


subsection \<open>Port pairs\<close>

text \<open>A pair \<open>(p, p + 1)\<close> that can be given out: in step with the range, inside it, and with no port of it in use.\<close>

definition pair_ok :: "int list \<Rightarrow> int \<Rightarrow> int \<Rightarrow> int \<Rightarrow> bool" where
  "pair_ok used start fin p \<longleftrightarrow> start \<le> p \<and> even (p - start) \<and> p + 1 < fin \<and> p \<notin> set used \<and> p + 1 \<notin> set used"

lemma pair_ok_next: "pair_ok used (start + 2) fin p \<longleftrightarrow> pair_ok used start fin p \<and> p \<noteq> start"
proof -
  have "start + 2 \<le> p \<and> even (p - (start + 2)) \<longleftrightarrow> start \<le> p \<and> even (p - start) \<and> p \<noteq> start" by presburger
  then show ?thesis by (auto simp: pair_ok_def)
qed

lemma free_pair_least:
  "free_pair used start fin = Some (c, p) \<longleftrightarrow> c = p + 1 \<and> pair_ok used start fin p \<and> (\<forall>q < p. \<not> pair_ok used start fin q)"
proof (induction used start fin rule: free_pair.induct)
  case (1 used start fin)
  have above: "start \<le> q" if "pair_ok used start fin q" for q using that by (simp add: pair_ok_def)
  show ?case
  proof (cases "start < fin - 1")
    case False
    then have "\<not> pair_ok used start fin q" for q by (auto simp: pair_ok_def)
    with False show ?thesis by (simp add: free_pair.simps[of used start])
  next
    case True
    show ?thesis
    proof (cases "pair_ok used start fin start")
      case ok: True
      have "p = start" if "pair_ok used start fin p" "\<forall>q < p. \<not> pair_ok used start fin q"
        using above[OF that(1)] that(2) ok by (metis le_less)
      moreover have "\<forall>q < start. \<not> pair_ok used start fin q" using above by (meson not_le)
      ultimately show ?thesis using ok True by (auto simp: free_pair.simps[of used start] pair_ok_def)
    next
      case no: False
      then have n: "\<not> (start \<notin> set used \<and> start + 1 \<notin> set used)" using True by (auto simp: pair_ok_def)
      have "pair_ok used (start + 2) fin q \<longleftrightarrow> pair_ok used start fin q" for q using no by (auto simp: pair_ok_next)
      moreover have "free_pair used start fin = free_pair used (start + 2) fin"
        by (simp only: free_pair.simps[of used start] True n if_True if_False)
      ultimately show ?thesis using "1.IH"[OF True n] by simp
    qed
  qed
qed

lemma free_pair_none: "free_pair used start fin = None \<longleftrightarrow> (\<forall>p. \<not> pair_ok used start fin p)"
proof (induction used start fin rule: free_pair.induct)
  case (1 used start fin)
  show ?case
  proof (cases "start < fin - 1 \<and> \<not> (start \<notin> set used \<and> start + 1 \<notin> set used)")
    case True
    then have "\<not> pair_ok used start fin start" by (auto simp: pair_ok_def)
    then have "pair_ok used (start + 2) fin q \<longleftrightarrow> pair_ok used start fin q" for q by (auto simp: pair_ok_next)
    moreover have "free_pair used start fin = free_pair used (start + 2) fin"
      using True by (simp only: free_pair.simps[of used start] if_True if_False)
    ultimately show ?thesis using "1.IH" True by simp
  next
    case False
    then show ?thesis by (auto simp: free_pair.simps[of used start] pair_ok_def intro: exI[of _ start])
  qed
qed

text \<open>What a NISD occupies on its hypervisor.\<close>

definition occupies :: "nisd \<Rightarrow> int \<Rightarrow> bool" where
  "occupies n p \<longleftrightarrow> p = int (unat (n_PeerPort n)) \<or> p = int (unat (ni_Port (hd (n_NetInfo n))))"

lemma allocated_ports_set:
  assumes "\<forall>n \<in> set nisds. 2 < length (n_FailureDomain n) \<and> (n_FailureDomain n ! 2 = hv \<longrightarrow> n_NetInfo n \<noteq> [])"
  shows "\<exists>ports. allocated_ports hv nisds = Ret ports
     \<and> set ports = {p. \<exists>n \<in> set nisds. n_FailureDomain n ! 2 = hv \<and> occupies n p}"
  using assms
proof (induction nisds)
  case (Cons n nisds)
  then obtain ports where p: "allocated_ports hv nisds = Ret ports"
    "set ports = {p. \<exists>n \<in> set nisds. n_FailureDomain n ! 2 = hv \<and> occupies n p}" by auto
  show ?case
  proof (cases "n_FailureDomain n ! 2 = hv")
    case True
    with Cons.prems obtain ni nis where "n_NetInfo n = ni # nis" by (cases "n_NetInfo n") auto
    with True Cons.prems p show ?thesis by (auto simp: occupies_def)
  qed (use Cons.prems p in auto)
qed simp

definition pair_free :: "nisd list \<Rightarrow> string \<Rightarrow> int \<Rightarrow> int \<Rightarrow> int \<Rightarrow> bool" where
  "pair_free nisds hv start fin p \<longleftrightarrow> start \<le> p \<and> even (p - start) \<and> p + 1 < fin
     \<and> (\<forall>n \<in> set nisds. n_FailureDomain n ! 2 = hv \<longrightarrow> \<not> occupies n p \<and> \<not> occupies n (p + 1))"

lemma AllocatePortPair_search:
  assumes "ParsePortRange prange = Ret (start, fin)"
    and "cp_GetNisds cl (cp_SetToken cl token s) = (Ret nisds, s1)"
    and "\<forall>n \<in> set nisds. 2 < length (n_FailureDomain n) \<and> (n_FailureDomain n ! 2 = hv \<longrightarrow> n_NetInfo n \<noteq> [])"
  shows "\<exists>ports. AllocatePortPair hv prange token (Some cl) s
     = (case free_pair ports start fin of Some pair \<Rightarrow> Ret pair | None \<Rightarrow> Fail (''no available port pairs in range '' @ prange), s1)
     \<and> (\<forall>q. pair_free nisds hv start fin q \<longleftrightarrow> pair_ok ports start fin q)"
proof -
  obtain ports where p: "allocated_ports hv nisds = Ret ports"
    "set ports = {p. \<exists>n \<in> set nisds. n_FailureDomain n ! 2 = hv \<and> occupies n p}"
    using allocated_ports_set[OF assms(3)] by blast
  have "pair_free nisds hv start fin q \<longleftrightarrow> pair_ok ports start fin q" for q unfolding pair_free_def pair_ok_def p(2) by blast
  then show ?thesis using assms(1,2) p(1) by (intro exI[of _ ports]) (simp add: AllocatePortPair_def)
qed

text \<open>
  C28: port pairs. When the NISDs of the control plane are well formed, the pair given out is the first one
  in the range, in steps of two from its start, of which no port is taken by a NISD of this hypervisor; the
  call fails exactly when there is none. The end of the range is never given out.
\<close>

theorem AllocatePortPair_first_free:
  assumes "ParsePortRange prange = Ret (start, fin)"
    and "cp_GetNisds cl (cp_SetToken cl token s) = (Ret nisds, s1)"
    and "\<forall>n \<in> set nisds. 2 < length (n_FailureDomain n) \<and> (n_FailureDomain n ! 2 = hv \<longrightarrow> n_NetInfo n \<noteq> [])"
  shows "(fst (AllocatePortPair hv prange token (Some cl) s) = Ret (c, p) \<longleftrightarrow> c = p + 1 \<and> pair_free nisds hv start fin p \<and> (\<forall>q < p. \<not> pair_free nisds hv start fin q))
    \<and> (fst (AllocatePortPair hv prange token (Some cl) s) = Fail (''no available port pairs in range '' @ prange) \<longleftrightarrow> (\<forall>p. \<not> pair_free nisds hv start fin p))
    \<and> fst (AllocatePortPair hv prange token (Some cl) s) \<noteq> Panic \<and> snd (AllocatePortPair hv prange token (Some cl) s) = s1"
proof -
  obtain ports where o: "\<And>q. pair_free nisds hv start fin q \<longleftrightarrow> pair_ok ports start fin q"
    and "AllocatePortPair hv prange token (Some cl) s
     = (case free_pair ports start fin of Some pair \<Rightarrow> Ret pair | None \<Rightarrow> Fail (''no available port pairs in range '' @ prange), s1)"
    using AllocatePortPair_search[OF assms] by blast
  then show ?thesis unfolding o
    by (cases "free_pair ports start fin") (auto simp: free_pair_least[symmetric] free_pair_none[symmetric])
qed


subsection \<open>Witnesses\<close>

theorem StitchTopology_join_witness:
  "let h = \<lparr>h_ID = ''h'', h_RackID = ''r'', h_Name = [], h_IPAddrs = [], h_PortRange = [], h_SSHPort = [], h_Dev = [], h_RDMAEnabled = False\<rparr>;
       r = \<lparr>r_ID = ''r'', r_Name = [], r_PDUID = ''gone'', r_Location = [], r_Specification = [], r_Hypervisors = []\<rparr>
   in (case StitchTopology [] [r] [h] [] [] of (pdus', racks', standalone) \<Rightarrow>
        FindHypervisorByUUID pdus' standalone ''h'' = None \<and> map r_Hypervisors racks' = [[h]])"
proof -
  define h :: hypervisor where
    "h = \<lparr>h_ID = ''h'', h_RackID = ''r'', h_Name = [], h_IPAddrs = [], h_PortRange = [], h_SSHPort = [], h_Dev = [], h_RDMAEnabled = False\<rparr>"
  define r :: rack where
    "r = \<lparr>r_ID = ''r'', r_Name = [], r_PDUID = ''gone'', r_Location = [], r_Specification = [], r_Hypervisors = []\<rparr>"
  obtain pdus' racks' standalone where s: "StitchTopology [] [r] [h] [] [] = (pdus', racks', standalone)"
    by (cases "StitchTopology [] [r] [h] [] []")
  have n: "distinct (map p_ID [])" "distinct (map r_ID [r])" "distinct (map h_ID [h])" "distinct (map d_ID [])" by simp_all
  have "FindHypervisorByUUID pdus' standalone ''h'' = None"
    using StitchTopology_join[OF n s, of "''h''"] by (auto simp: h_def r_def)
  moreover have "map r_Hypervisors racks' = [[h]]"
    using StitchTopology_join[OF n s, of "''h''"] by (simp add: stitched_rack_def stitched_hv_def h_def r_def)
  ultimately show ?thesis using s by (simp add: h_def[symmetric] r_def[symmetric])
qed

definition nisd_on_h :: nisd where
  "nisd_on_h = \<lparr>n_PeerPort = 8000, n_ID = ''n'', n_FailureDomain = [''p'', ''r'', ''h'', ''d''], n_TotalSize = 0, n_AvailableSize = 0,
     n_SocketPath = [], n_NetInfo = [\<lparr>ni_IPAddr = [], ni_Port = 8001\<rparr>], n_NetInfoCnt = 1\<rparr>"

definition one_nisd_client :: "unit cp_client" where
  "one_nisd_client = \<lparr>cp_SetToken = (\<lambda>_ s. s), cp_RefreshTopology = (\<lambda>_ s. (Ret ([], [], []), s)),
     cp_GetNisds = (\<lambda>s. (Ret [nisd_on_h], s)),
     cp_GetVdevConfigs = (\<lambda>s. (Ret [], s)), cp_GetPFS = (\<lambda>s. (Ret [], s)), cp_PutPDU = (\<lambda>_ s. (None, s)),
     cp_PutRack = (\<lambda>_ s. (None, s)), cp_PutHypervisor = (\<lambda>_ s. (None, s)), cp_PutDevice = (\<lambda>_ s. (None, s)),
     cp_PutNisd = (\<lambda>_ s. (None, s)), cp_CreateVdev = (\<lambda>_ s. (None, s)), cp_CreatePFS = (\<lambda>_ s. (None, s)),
     cp_PutPartition = None, cp_EditPFS = None, cp_DeleteVdev = None\<rparr>"

theorem AllocatePortPair_first_free_witness:
  "fst (AllocatePortPair ''h'' ''8000-8004'' [] (Some one_nisd_client) ()) = Ret (8003, 8002)"
proof -
  have "trim_space ''8000'' = ''8000''" "trim_space ''8004'' = ''8004''" by (simp_all add: trim_space_def is_space_def)
  moreover have "atoi ''8000'' = (8000, True)" "atoi ''8004'' = (8004, True)" by (simp_all add: atoi_def digit_val_def)
  ultimately have r: "ParsePortRange ''8000-8004'' = Ret (8000, 8004)" by (simp add: ParsePortRange_def)
  have f: "pair_free [nisd_on_h] ''h'' 8000 8004 p \<longleftrightarrow> p = 8002" for p :: int
  proof -
    have o: "occupies nisd_on_h q \<longleftrightarrow> q = 8000 \<or> q = 8001" for q by (simp add: occupies_def nisd_on_h_def)
    have "n_FailureDomain nisd_on_h ! 2 = ''h''" by (simp add: nisd_on_h_def)
    then have "pair_free [nisd_on_h] ''h'' 8000 8004 p \<longleftrightarrow> 8000 \<le> p \<and> even (p - 8000) \<and> p + 1 < 8004
        \<and> p \<noteq> 8000 \<and> p \<noteq> 8001 \<and> p + 1 \<noteq> 8000 \<and> p + 1 \<noteq> 8001"
      by (simp add: pair_free_def o)
    also have "\<dots> \<longleftrightarrow> p = 8002" by presburger
    finally show ?thesis .
  qed
  have "cp_GetNisds one_nisd_client (cp_SetToken one_nisd_client [] ()) = (Ret [nisd_on_h], ())"
    "\<forall>n \<in> set [nisd_on_h]. 2 < length (n_FailureDomain n) \<and> (n_FailureDomain n ! 2 = ''h'' \<longrightarrow> n_NetInfo n \<noteq> [])"
    by (simp_all add: one_nisd_client_def nisd_on_h_def)
  from AllocatePortPair_first_free[OF r this, of 8003 8002] show ?thesis by (simp add: f)
qed

end
