(* ===== verification/SubmitSpec.thy ===== *)
theory SubmitSpec
  imports DiscoverySpec CtlSpec
begin

section \<open>Properties of the forms\<close>

subsection \<open>Ranges of ports\<close>

lemma atoi_nonneg: "CHR ''-'' \<notin> set s \<Longrightarrow> 0 \<le> fst (atoi s)"
  by (cases s) (auto simp: atoi_def Let_def split: option.split)

lemma trim_space_subset: "set (trim_space s) \<subseteq> set s"
  by (auto simp: trim_space_def dest!: set_dropWhileD)

lemma ParsePortRange_nonneg: "ParsePortRange r = Ret (start, fin) \<Longrightarrow> 0 \<le> start"
proof -
  assume a: "ParsePortRange r = Ret (start, fin)"
  then obtain x y where s: "split (CHR ''-'') r = [x, y]"
    by (auto simp: ParsePortRange_def split: if_splits list.splits)
  then have "CHR ''-'' \<notin> set x" using split_pieces_no_sep[of x "CHR ''-''" r] by simp
  then have "CHR ''-'' \<notin> set (trim_space x)" using trim_space_subset by blast
  from atoi_nonneg[OF this] a s show "0 \<le> start"
    by (auto simp: ParsePortRange_def Let_def split: if_splits prod.splits)
qed

subsection \<open>NISDs on one hypervisor\<close>

text \<open>
  What the handlers rely on of a control plane: \<open>GetNisds\<close> gives what was written, a write replaces the
  NISD with the same identifier, and nothing else changes the NISDs.
\<close>

definition nisd_backend :: "'s cp_client \<Rightarrow> ('s \<Rightarrow> nisd list) \<Rightarrow> bool" where
  "nisd_backend cl nisds \<longleftrightarrow>
     (\<forall>s. fst (cp_GetNisds cl s) = Ret (nisds s) \<and> nisds (snd (cp_GetNisds cl s)) = nisds s)
     \<and> (\<forall>t s. nisds (cp_SetToken cl t s) = nisds s)
     \<and> (\<forall>n s. nisds (snd (cp_PutNisd cl n s)) =
          (if fst (cp_PutNisd cl n s) = None then filter (\<lambda>m. n_ID m \<noteq> n_ID n) (nisds s) @ [n] else nisds s))
     \<and> (\<forall>put p s. cp_PutPartition cl = Some put \<longrightarrow> nisds (snd (put p s)) = nisds s)"

definition login_keeps :: "'s app \<Rightarrow> ('s \<Rightarrow> nisd list) \<Rightarrow> bool" where
  "login_keeps a nisds \<longleftrightarrow>
     (\<forall>uc u k t s. ap_UserClient a = Some uc \<longrightarrow> nisds (snd (us_LoginWithTenant uc u k t s)) = nisds s)"

text \<open>No two NISDs of a hypervisor share a port.\<close>

definition no_clash :: "nisd list \<Rightarrow> bool" where
  "no_clash ns = sorted_wrt (\<lambda>n m. n_FailureDomain n ! 2 = n_FailureDomain m ! 2 \<longrightarrow> (\<forall>p. \<not> (occupies n p \<and> occupies m p))) ns"

definition nisd_ok :: "nisd \<Rightarrow> bool" where
  "nisd_ok n \<longleftrightarrow> 2 < length (n_FailureDomain n) \<and> n_NetInfo n \<noteq> []"

text \<open>A hypervisor has an address and its range stays below 65536; a target names its hypervisor.\<close>

definition hv_ok :: "hypervisor \<Rightarrow> bool" where
  "hv_ok h \<longleftrightarrow> h_IPAddrs h \<noteq> [] \<and> (\<forall>start fin. ParsePortRange (h_PortRange h) = Ret (start, fin) \<longrightarrow> fin \<le> 65536)"

definition target_ok :: "nisd_target \<Rightarrow> bool" where
  "target_ok t \<longleftrightarrow> 2 < length (nt_FailureDomain t) \<and> nt_FailureDomain t ! 2 = nt_HypervisorID t"

definition same_app :: "'s app \<Rightarrow> 's app \<Rightarrow> bool" where
  "same_app a b \<longleftrightarrow> ap_CPClient b = ap_CPClient a \<and> ap_UserClient b = ap_UserClient a
     \<and> ap_PDUs b = ap_PDUs a \<and> ap_StandaloneHVs b = ap_StandaloneHVs a"

lemma same_app_refl [simp]: "same_app a a"
  by (simp add: same_app_def)

lemma same_app_trans: "same_app a b \<Longrightarrow> same_app b c \<Longrightarrow> same_app a c"
  by (simp add: same_app_def)

lemma same_app_hvs: "same_app a b \<Longrightarrow> AllHypervisors b = AllHypervisors a"
  by (simp add: same_app_def AllHypervisors_def)

lemma same_app_login: "same_app a b \<Longrightarrow> login_keeps b nisds = login_keeps a nisds"
  by (simp add: same_app_def login_keeps_def)

lemma UserToken_keeps:
  assumes "ap_CPClient a = Some cl" "nisd_backend cl nisds" "login_keeps a nisds" and "UserToken env (a, s) = (tok, b, s1)"
  shows "same_app a b" "nisds s1 = nisds s"
proof -
  have l: "nisds s' = nisds s0" if "ap_UserClient a = Some uc" "us_LoginWithTenant uc u k t s0 = (r, s')" for uc u k t s0 r s'
    using assms(3) that unfolding login_keeps_def by (metis snd_conv)
  have t: "nisds (cp_SetToken cl t s') = nisds s'" for t s' using assms(2) by (simp add: nisd_backend_def)
  have "same_app a b \<and> nisds s1 = nisds s"
    using assms(4) l t assms(1)
    by (auto simp: UserToken_def EnsureTokenValid_def Let_def same_app_def split: option.splits if_splits prod.splits sum.splits)
  then show "same_app a b" "nisds s1 = nisds s" by simp_all
qed

subsection \<open>One NISD\<close>

lemma unat_word_of_int_16: "0 \<le> p \<Longrightarrow> p < 65536 \<Longrightarrow> int (unat (word_of_int p :: uint16)) = p"
  by (simp add: uint_word_of_int flip: uint_nat)

lemma created_occupies:
  assumes "h_IPAddrs hv \<noteq> []" "0 \<le> p" "p + 1 < 65536"
  shows "occupies (created_nisd i target hv (p + 1) p) q \<longleftrightarrow> q = p \<or> q = p + 1"
proof -
  from assms(1) obtain ip ips where "h_IPAddrs hv = ip # ips" by (cases "h_IPAddrs hv") auto
  with assms unat_word_of_int_16[of p] unat_word_of_int_16[of "p + 1"] show ?thesis by (simp add: occupies_def created_nisd_def)
qed

lemma no_clash_upsert:
  assumes "no_clash ns" and "\<And>m p. m \<in> set ns \<Longrightarrow> n_FailureDomain m ! 2 = n_FailureDomain n ! 2 \<Longrightarrow> occupies m p \<Longrightarrow> \<not> occupies n p"
  shows "no_clash (filter P ns @ [n])"
  using assms by (auto simp: no_clash_def sorted_wrt_append sorted_wrt_filter)

lemma buildCreateNISD_spec:
  assumes cl: "ap_CPClient a = Some cl" "nisd_backend cl nisds" "login_keeps a nisds"
    and hvs: "\<forall>h \<in> set (AllHypervisors a). hv_ok h" and ok: "\<forall>n \<in> set (nisds s). nisd_ok n" and t: "target_ok target"
  shows "\<exists>r b s1. buildCreateNISD env target (a, s) = Ret (r, b, s1) \<and> same_app a b \<and> nisds s1 = nisds s
     \<and> (\<forall>n. r = Inr n \<longrightarrow> nisd_ok n \<and> (\<forall>m \<in> set (nisds s). n_FailureDomain m ! 2 = n_FailureDomain n ! 2 \<longrightarrow>
          (\<forall>p. occupies m p \<longrightarrow> \<not> occupies n p)))"
proof (cases "find (\<lambda>h. h_ID h = nt_HypervisorID target) (AllHypervisors a)")
  case None
  then show ?thesis by (simp add: buildCreateNISD_def)
next
  case (Some hv)
  then have hv: "hv_ok hv" "h_ID hv = nt_HypervisorID target" using hvs by (auto simp: find_Some_iff)
  obtain tok b s1 where u: "UserToken env (a, s) = (tok, b, s1)" by (cases "UserToken env (a, s)")
  note k = UserToken_keeps[OF cl u]
  have clb: "ap_CPClient b = Some cl" using k(1) cl(1) by (simp add: same_app_def)
  obtain s2 where g: "cp_GetNisds cl (cp_SetToken cl tok s1) = (Ret (nisds s), s2)" "nisds s2 = nisds s"
    using cl(2) k(2) unfolding nisd_backend_def by (metis prod.collapse)
  show ?thesis
  proof (cases "ParsePortRange (h_PortRange hv)")
    case (Ret r)
    obtain start fin where r: "ParsePortRange (h_PortRange hv) = Ret (start, fin)" using Ret by (cases r) simp
    have "\<forall>n \<in> set (nisds s). 2 < length (n_FailureDomain n) \<and> (n_FailureDomain n ! 2 = h_ID hv \<longrightarrow> n_NetInfo n \<noteq> [])"
      using ok by (simp add: nisd_ok_def)
    from AllocatePortPair_search[OF r g(1) this] obtain ports where p: "AllocatePortPair (h_ID hv) (h_PortRange hv) tok (Some cl) s1
     = (case free_pair ports start fin of Some pair \<Rightarrow> Ret pair | None \<Rightarrow> Fail (''no available port pairs in range '' @ h_PortRange hv), s2)"
     "\<And>q. pair_free (nisds s) (h_ID hv) start fin q \<longleftrightarrow> pair_ok ports start fin q" by blast
    show ?thesis
    proof (cases "free_pair ports start fin")
      case None
      with Some u p(1) clb k g(2) show ?thesis by (simp add: buildCreateNISD_def)
    next
      case pair: (Some pr)
      then obtain q where q: "pr = (q + 1, q)" "pair_free (nisds s) (h_ID hv) start fin q"
        using free_pair_least[of ports start fin] p(2) by (cases pr) auto
      obtain i b1 where i: "id_or_new env (nt_NISDUUID target) b = (i, b1)" by (cases "id_or_new env (nt_NISDUUID target) b")
      have b1: "same_app b b1" using i by (auto simp: id_or_new_def same_app_def split: if_splits)
      let ?n = "created_nisd i target hv (q + 1) q"
      have rng: "0 \<le> q" "q + 1 < 65536"
        using ParsePortRange_nonneg[OF r] q(2) hv(1) r by (auto simp: pair_free_def hv_ok_def)
      have occ: "occupies ?n p \<longleftrightarrow> p = q \<or> p = q + 1" for p
        using created_occupies[OF _ rng] hv(1) by (simp add: hv_ok_def)
      have fd: "n_FailureDomain ?n ! 2 = h_ID hv" using t hv(2) by (simp add: created_nisd_def target_ok_def)
      have "nisd_ok ?n" using t hv(1) by (simp add: nisd_ok_def created_nisd_def target_ok_def hv_ok_def)
      moreover have "\<not> occupies ?n p" if "m \<in> set (nisds s)" "n_FailureDomain m ! 2 = n_FailureDomain ?n ! 2" "occupies m p" for m p
        using that q(2) unfolding occ fd pair_free_def by blast
      moreover have "buildCreateNISD env target (a, s) = Ret (Inr ?n, b1, s2)"
        using Some u p(1) clb pair q(1) i by (simp add: buildCreateNISD_def)
      ultimately show ?thesis using same_app_trans[OF k(1) b1] g(2) by blast
    qed
  next
    case (Fail e)
    with Some u clb k show ?thesis by (simp add: buildCreateNISD_def AllocatePortPair_def)
  next
    case Panic
    then show ?thesis by (auto simp: ParsePortRange_def Let_def split: if_splits list.splits prod.splits)
  qed
qed

subsection \<open>A batch\<close>

lemma linkPartition_keeps:
  assumes "ap_CPClient a = Some cl" "nisd_backend cl nisds" "linkPartitionToNISD target i (a, s) = (b, s1)"
  shows "b = a" "nisds s1 = nisds s"
  using assms by (auto simp: linkPartitionToNISD_def partitionWriter_def nisd_backend_def split: option.splits)

lemma create_nisds_keep:
  assumes cl: "ap_CPClient a = Some cl" "nisd_backend cl nisds" "login_keeps a nisds"
    and hvs: "\<forall>h \<in> set (AllHypervisors a). hv_ok h" and ok: "\<forall>n \<in> set (nisds s). nisd_ok n"
    and ts: "\<forall>t \<in> set targets. target_ok t" and nc: "no_clash (nisds s)"
  shows "\<exists>k l b s1. create_nisds env targets ec le (a, s) = Ret (k, l, b, s1) \<and> no_clash (nisds s1) \<and> (\<forall>n \<in> set (nisds s1). nisd_ok n)
     \<and> ec \<le> k \<and> k \<le> ec + length targets"
  using assms
proof (induction targets arbitrary: a s ec le)
  case (Cons t ts)
  from Cons.prems have t: "target_ok t" "\<forall>t \<in> set ts. target_ok t" by simp_all
  from buildCreateNISD_spec[OF Cons.prems(1-5) t(1), of env] obtain r b s1 where
    b: "buildCreateNISD env t (a, s) = Ret (r, b, s1)" "same_app a b" "nisds s1 = nisds s"
    and n: "\<And>n m p. r = Inr n \<Longrightarrow> nisd_ok n \<and> (m \<in> set (nisds s) \<longrightarrow> n_FailureDomain m ! 2 = n_FailureDomain n ! 2 \<longrightarrow>
          occupies m p \<longrightarrow> \<not> occupies n p)" by blast
  have clb: "ap_CPClient b = Some cl" "login_keeps b nisds" "\<forall>h \<in> set (AllHypervisors b). hv_ok h"
    using b(2) Cons.prems(1,3,4) same_app_hvs[OF b(2)] same_app_login[OF b(2), of nisds] by (simp_all add: same_app_def)
  have IH: "\<exists>k l c s3. create_nisds env ts e0 l0 (b, s2) = Ret (k, l, c, s3) \<and> no_clash (nisds s3) \<and> (\<forall>n \<in> set (nisds s3). nisd_ok n)
     \<and> e0 \<le> k \<and> k \<le> e0 + length ts" if "no_clash (nisds s2)" "\<forall>n \<in> set (nisds s2). nisd_ok n" for e0 l0 s2
    using Cons.IH[OF clb(1) Cons.prems(2) clb(2,3) that(2) t(2) that(1)] .
  show ?case
  proof (cases r)
    case (Inl err)
    with IH[of s1 "ec + 1" "Some err"] b Cons.prems(5,7) show ?thesis by fastforce
  next
    case (Inr nd)
    obtain e s2 where p: "cp_PutNisd cl nd s1 = (e, s2)" by (cases "cp_PutNisd cl nd s1")
    have p2: "nisds s2 = (if e = None then filter (\<lambda>m. n_ID m \<noteq> n_ID nd) (nisds s) @ [nd] else nisds s)"
      using Cons.prems(2) p b(3) unfolding nisd_backend_def by (metis fst_conv snd_conv)
    show ?thesis
    proof (cases e)
      case (Some err)
      with IH[of s2 "ec + 1" "Some (nt_TargetID t @ '': '' @ err)"] p2 b(1) Inr p clb(1) Cons.prems(5,7) show ?thesis by fastforce
    next
      case None
      obtain c s3 where l: "linkPartitionToNISD t (n_ID nd) (b, s2) = (c, s3)" by (cases "linkPartitionToNISD t (n_ID nd) (b, s2)")
      note lk = linkPartition_keeps[OF clb(1) Cons.prems(2) l]
      have "no_clash (nisds s3)" "\<forall>n \<in> set (nisds s3). nisd_ok n"
        using lk(2) p2 None no_clash_upsert[OF Cons.prems(7)] n[OF Inr] Cons.prems(5) by auto
      from IH[OF this, of ec le] b(1) Inr p None clb(1) l lk(1) show ?thesis by fastforce
    qed
  qed
qed auto


subsection \<open>From a form to a write\<close>

text \<open>The forms for one record, as handlers of their messages.\<close>

inductive form_handler :: "'s ui_env \<Rightarrow> ('s ui \<Rightarrow> 's ui go) \<Rightarrow> bool" for env :: "'s ui_env" where
  "form_handler env (\<lambda>(a, s). Ret (handleSubmitPDUForm env f1 a, s))"
| "form_handler env (\<lambda>(a, s). Ret (handleSubmitRackForm env f2 a, s))"
| "form_handler env (\<lambda>(a, s). Ret (handleSubmitHypervisorForm env f3 a, s))"
| "form_handler env (\<lambda>(a, s). Ret (handleSubmitDeviceForm env f4 a, s))"
| "form_handler env (\<lambda>(a, s). Ret (handleSubmitVdevForm env f5 a, s))"
| "form_handler env (handleSubmitNISDForm env f6)"

text \<open>The write that a dialog stands for.\<close>

fun direct_put :: "'s cp_client \<Rightarrow> string \<Rightarrow> confirm_data \<Rightarrow> 's effect option" where
  "direct_put cl actionID (D_PDU p) = (if actionID = ''save_pdu'' then Some (cp_PutPDU cl p) else None)"
| "direct_put cl actionID (D_Rack r) = (if actionID = ''save_rack'' then Some (cp_PutRack cl r) else None)"
| "direct_put cl actionID (D_Hypervisor h) = (if actionID = ''save_hypervisor'' then Some (cp_PutHypervisor cl h) else None)"
| "direct_put cl actionID (D_Device d) = (if actionID = ''save_device'' then Some (cp_PutDevice cl d) else None)"
| "direct_put cl actionID (D_Vdev v) = (if actionID = ''save_vdev'' then Some (cp_CreateVdev cl v) else None)"
| "direct_put cl actionID (D_Nisd n) = (if actionID = ''save_nisd'' then Some (cp_PutNisd cl n) else None)"
| "direct_put cl actionID _ = None"

lemma UserToken_client:
  assumes "UserToken env (a, s) = (tok, b, s1)"
  shows "ap_CPClient b = ap_CPClient a" "ap_ConfirmDialog b = ap_ConfirmDialog a"
proof -
  have "ap_CPClient b = ap_CPClient a \<and> ap_ConfirmDialog b = ap_ConfirmDialog a"
    using assms by (auto simp: UserToken_def EnsureTokenValid_def Let_def split: option.splits if_splits prod.splits sum.splits)
  then show "ap_CPClient b = ap_CPClient a" "ap_ConfirmDialog b = ap_ConfirmDialog a" by simp_all
qed

lemma buildCreateNISD_client:
  assumes "buildCreateNISD env target (a, s) = Ret (r, b, s1)"
  shows "ap_CPClient b = ap_CPClient a \<and> ap_ConfirmDialog b = ap_ConfirmDialog a"
proof -
  obtain tok c s0 where u: "UserToken env (a, s) = (tok, c, s0)" by (cases "UserToken env (a, s)")
  from assms u UserToken_client[OF u] show ?thesis
    by (auto simp: buildCreateNISD_def id_or_new_def split: option.splits go.splits prod.splits if_splits)
qed

lemma form_shows_dialog:
  assumes "form_handler env h" and "h (a0, s0) = Ret (a, s)" and "\<not> dg_Active (ap_ConfirmDialog a0)" "dg_Active (ap_ConfirmDialog a)"
  shows "\<exists>cl put. ap_CPClient a = Some cl \<and> direct_put cl (dg_ActionID (ap_ConfirmDialog a)) (dg_Data (ap_ConfirmDialog a)) = Some put"
  using assms
proof (cases rule: form_handler.cases)
  case (6 f)
  show ?thesis
  proof (cases "fn_IsEdit f")
    case True
    with 6 assms(2-4) show ?thesis
      by (auto simp: handleSubmitNISDForm_def not_connected_def status_def show_dialog_def nisd_dialog_def NewConfirmDialog_def id_or_new_def
          split: if_splits)
  next
    case False
    have g: "ap_CPClient a0 \<noteq> None" "fn_FailureDomain f \<noteq> []"
      using 6 assms(2-4) by (auto simp: handleSubmitNISDForm_def not_connected_def status_def split: if_splits)
    then obtain r b s1 where b: "buildCreateNISD env (form_target f) (a0, s0) = Ret (r, b, s1)"
      using False 6 assms(2) by (auto simp: handleSubmitNISDForm_def go_bind_Ret_iff)
    with g False 6 assms(2) have "a = (case r of Inl err \<Rightarrow> status StatusError (''Error: '' @ err) b | Inr n \<Rightarrow> show_dialog (nisd_dialog n) b)"
      by (cases r) (auto simp: handleSubmitNISDForm_def)
    with buildCreateNISD_client[OF b] assms(3,4) g(1) show ?thesis
      by (cases r) (auto simp: status_def show_dialog_def nisd_dialog_def NewConfirmDialog_def)
  qed
qed (auto simp: handleSubmitPDUForm_def handleSubmitRackForm_def handleSubmitHypervisorForm_def handleSubmitDeviceForm_def
       handleSubmitVdevForm_def not_connected_def status_def show_dialog_def save_dialog_def NewConfirmDialog_def id_or_new_def Let_def
       split: if_splits option.splits prod.splits)

lemma direct_put_cmd:
  assumes "direct_put cl actionID data = Some put" and "ap_CPClient (fst st) = Some cl"
  shows "\<exists>c f m tab. confirmed_cmd env actionID data st = Ret (Some c, st)
     \<and> (\<forall>a s tok b s1. ap_CPClient a = Some cl \<longrightarrow> UserToken env (a, s) = (tok, b, s1) \<longrightarrow>
          c (a, s) = Ret (ResourceSaved f m tab (fst (put (cp_SetToken cl tok s1))), b, snd (put (cp_SetToken cl tok s1))))"
proof -
  have save: "saveResourceCmd env f m tab p (a, s) = Ret (ResourceSaved f m tab (fst (p cl (cp_SetToken cl tok s1))), b, snd (p cl (cp_SetToken cl tok s1)))"
    if "ap_CPClient a = Some cl" "UserToken env (a, s) = (tok, b, s1)" for f m tab p a s tok b s1
    using that UserToken_client[OF that(2)] by (simp add: saveResourceCmd_def with_token_def split: prod.split)
  show ?thesis using assms(1)
    by (cases "(cl, actionID, data)" rule: direct_put.cases)
      (auto simp: confirmed_cmd_def executeSavePDU_def executeSaveRack_def executeSaveHypervisor_def executeSaveDevice_def
        executeSaveVdev_def executeSaveNISD_def save split: if_splits)
qed

text \<open>The answer yes: what starts, and what it will do.\<close>

lemma dialog_confirmed:
  assumes "ap_CPClient a = Some cl" and "dg_Active (ap_ConfirmDialog a)"
    and "direct_put cl (dg_ActionID (ap_ConfirmDialog a)) (dg_Data (ap_ConfirmDialog a)) = Some put"
  shows "\<exists>b ke b2 c f m tab. Update env (Key ''y'') (a, s) = Ret ((b, s), None, Some ke) \<and> Update env ke (b, s) = Ret ((b2, s), Some c, None)
     \<and> ap_CPClient b2 = Some cl \<and> ap_UserClient b2 = ap_UserClient a \<and> \<not> dg_Active (ap_ConfirmDialog b2) \<and> ap_Loading b2
     \<and> (\<forall>tok b3 s3. UserToken env (b2, s) = (tok, b3, s3) \<longrightarrow>
          c (b2, s) = Ret (ResourceSaved f m tab (fst (put (cp_SetToken cl tok s3))), b3, snd (put (cp_SetToken cl tok s3))))"
proof -
  let ?d = "ap_ConfirmDialog a" and ?closed = "a\<lparr>ap_ConfirmDialog := (ap_ConfirmDialog a)\<lparr>dg_Active := False\<rparr>\<rparr>"
  have "ap_CPClient (fst (?closed, s)) = Some cl" using assms(1) by simp
  from direct_put_cmd[OF assms(3) this, of env] obtain c f m tab where
    c: "confirmed_cmd env (dg_ActionID ?d) (dg_Data ?d) (?closed, s) = Ret (Some c, (?closed, s))"
    "\<And>a s tok b s1. ap_CPClient a = Some cl \<Longrightarrow> UserToken env (a, s) = (tok, b, s1) \<Longrightarrow>
       c (a, s) = Ret (ResourceSaved f m tab (fst (put (cp_SetToken cl tok s1))), b, snd (put (cp_SetToken cl tok s1)))" by blast
  define b2 where "b2 = startInFlight (case map_of inFlightLabel (dg_ActionID ?d) of Some l \<Rightarrow> l | None \<Rightarrow> []) ?closed"
  have b2: "ap_CPClient b2 = Some cl" "ap_UserClient b2 = ap_UserClient a" "\<not> dg_Active (ap_ConfirmDialog b2)" "ap_Loading b2"
    using assms(1) by (simp_all add: b2_def startInFlight_def status_def)
  have "Update env (Key ''y'') (a, s) = Ret ((?closed, s), None, Some (ConfirmResult True (dg_ActionID ?d) (dg_Data ?d)))"
    using assms(2) by (simp add: Update_def dialog_Update_def)
  moreover have "Update env (ConfirmResult True (dg_ActionID ?d) (dg_Data ?d)) (?closed, s) = Ret ((b2, s), Some c, None)"
    using c(1) by (simp add: Update_def confirm_result_def b2_def)
  ultimately show ?thesis using b2 c(2) by blast
qed

text \<open>
  C33: the way of a record. When a form opens a dialog, the record in it is what will be written. The answer
  no ends there. The answer yes starts one command; it gets the token of the session, logging in again if
  it is old, hands it to the client and writes the record of the dialog, once. The status line then tells
  whether that went well, and the spinner stops.
\<close>

theorem confirmed_record_is_written:
  assumes "form_handler env h" and "\<not> dg_Active (ap_ConfirmDialog a0)"
    and "Update env (Submit h) (a0, s0) = Ret ((a, s), c0, e0)" "dg_Active (ap_ConfirmDialog a)"
  shows "\<exists>cl put. ap_CPClient a = Some cl \<and> direct_put cl (dg_ActionID (ap_ConfirmDialog a)) (dg_Data (ap_ConfirmDialog a)) = Some put
     \<and> (\<exists>b ev. Update env (Key ''n'') (a, s) = Ret ((b, s), None, Some ev) \<and> (\<exists>b2. Update env ev (b, s) = Ret ((b2, s), None, None)))
     \<and> (\<exists>b ev b2 c. Update env (Key ''y'') (a, s) = Ret ((b, s), None, Some ev) \<and> Update env ev (b, s) = Ret ((b2, s), Some c, None)
          \<and> ap_Loading b2
          \<and> (\<forall>tok b3 s3 r s4. UserToken env (b2, s) = (tok, b3, s3) \<longrightarrow> put (cp_SetToken cl tok s3) = (r, s4) \<longrightarrow>
               (\<exists>msg b4. c (b2, s) = Ret (msg, b3, s4) \<and> Update env (Done msg) (b3, s4) = Ret ((b4, s4), None, None)
                  \<and> \<not> ap_Loading b4 \<and> ap_StatusType b4 = (if r = None then StatusSuccess else StatusError))))"
proof -
  let ?d = "ap_ConfirmDialog a" and ?closed = "a\<lparr>ap_ConfirmDialog := (ap_ConfirmDialog a)\<lparr>dg_Active := False\<rparr>\<rparr>"
  have "h (a0, s0) = Ret (a, s)" using assms(2,3) by (auto simp: Update_def go_bind_Ret_iff)
  from form_shows_dialog[OF assms(1) this assms(2,4)] obtain cl put where
    p: "ap_CPClient a = Some cl" "direct_put cl (dg_ActionID ?d) (dg_Data ?d) = Some put" by blast
  have n: "Update env (Key ''n'') (a, s) = Ret ((?closed, s), None, Some (ConfirmResult False (dg_ActionID ?d) (dg_Data ?d)))"
    "\<exists>b2. Update env (ConfirmResult False (dg_ActionID ?d) (dg_Data ?d)) (?closed, s) = Ret ((b2, s), None, None)"
    using assms(4) by (simp_all add: Update_def dialog_Update_def confirm_result_def status_def)
  from dialog_confirmed[OF p(1) assms(4) p(2), of env s] obtain b ke b2 c f m tab where
    y: "Update env (Key ''y'') (a, s) = Ret ((b, s), None, Some ke)" "Update env ke (b, s) = Ret ((b2, s), Some c, None)"
    and b2: "ap_CPClient b2 = Some cl" "\<not> dg_Active (ap_ConfirmDialog b2)" "ap_Loading b2"
    and c: "\<And>tok b3 s3. UserToken env (b2, s) = (tok, b3, s3) \<Longrightarrow>
      c (b2, s) = Ret (ResourceSaved f m tab (fst (put (cp_SetToken cl tok s3))), b3, snd (put (cp_SetToken cl tok s3)))" by blast
  have fin: "\<exists>msg b4. c (b2, s) = Ret (msg, b3, s4) \<and> Update env (Done msg) (b3, s4) = Ret ((b4, s4), None, None)
                  \<and> \<not> ap_Loading b4 \<and> ap_StatusType b4 = (if r = None then StatusSuccess else StatusError)"
    if "UserToken env (b2, s) = (tok, b3, s3)" "put (cp_SetToken cl tok s3) = (r, s4)" for tok b3 s3 r s4
  proof -
    have "\<not> dg_Active (ap_ConfirmDialog b3)" using UserToken_client[OF that(1)] b2(2) by simp
    with c[OF that(1)] that(2) show ?thesis
      by (cases r) (simp_all add: Update_def command_done_def resource_saved_def done_status_def status_def)
  qed
  show ?thesis
    using p n y b2(3) fin by (intro exI[of _ cl] exI[of _ put]) blast
qed

subsection \<open>What the forms let through\<close>

text \<open>A result that arrives while a dialog is open is dropped: the status and the spinner stay.\<close>

lemma dialog_drops_result: "dg_Active (ap_ConfirmDialog a) \<Longrightarrow> Update env (Done msg) (a, s) = Ret ((a, s), None, None)"
  by (simp add: Update_def)

text \<open>The count of data blocks has no upper bound: 257 passes and is written as 1.\<close>

definition wide_vdev :: vdev_form where
  "wide_vdev = \<lparr>fv_Name = ''v'', fv_SizeGB = ''8'', fv_Redundancy = ''replica'', fv_DataBlkCnt = ''257'', fv_ParityBlkCnt = ''0'',
     fv_FilterType = [], fv_PFS = []\<rparr>"

lemma vdev_form_block_count_wraps:
  "vdev_form_error wide_vdev = None" "v_DataBlkCnt (form_vdev i wide_vdev [] []) = 1"
  by (simp_all add: vdev_form_error_def form_vdev_def wide_vdev_def atoi_def digit_val_def equal_fold_def to_lower_def to_lower_char_def Let_def)

subsection \<open>Witnesses\<close>

definition nisd_list_client :: "nisd list cp_client" where
  "nisd_list_client = \<lparr>cp_SetToken = (\<lambda>_ s. s), cp_RefreshTopology = (\<lambda>_ s. (Ret ([], [], []), s)),
     cp_GetNisds = (\<lambda>s. (Ret s, s)),
     cp_GetVdevConfigs = (\<lambda>s. (Ret [], s)), cp_GetPFS = (\<lambda>s. (Ret [], s)), cp_PutPDU = (\<lambda>_ s. (None, s)),
     cp_PutRack = (\<lambda>_ s. (None, s)), cp_PutHypervisor = (\<lambda>_ s. (None, s)), cp_PutDevice = (\<lambda>_ s. (None, s)),
     cp_PutNisd = (\<lambda>n s. (None, filter (\<lambda>m. n_ID m \<noteq> n_ID n) s @ [n])), cp_CreateVdev = (\<lambda>_ s. (None, s)),
     cp_CreatePFS = (\<lambda>_ s. (None, s)), cp_PutPartition = None, cp_EditPFS = None, cp_DeleteVdev = None\<rparr>"

definition small_hv :: hypervisor where
  "small_hv = \<lparr>h_ID = ''h'', h_RackID = [], h_Name = ''h'', h_IPAddrs = [''10.0.0.1''], h_PortRange = ''8000-8009'', h_SSHPort = [],
     h_Dev = [], h_RDMAEnabled = False\<rparr>"

definition small_app :: "nisd list app" where
  "small_app = \<lparr>ap_CPClient = Some nisd_list_client, ap_Tenants = None, ap_Authz = None, ap_UserClient = None,
     ap_Auth = no_session,
     ap_TenantToken = [], ap_TenantUsername = [], ap_Backend = BackendMdsvcPumice, ap_RaftUUID = [], ap_GossipPath = [],
     ap_MdsvcURL = [], ap_AuthEnabled = False, ap_ActiveTab = 1, ap_PDUs = [], ap_Racks = [],
     ap_StandaloneHVs = [small_hv], ap_NISDs = [], ap_Vdevs = [], ap_PFSs = [],
     ap_Metrics = zero_metrics, ap_StatusMsg = [],
     ap_StatusType = StatusInfo, ap_Loading = False,
     ap_ConfirmDialog = (NewConfirmDialog [] [] [] ConfirmTypeInfo [] D_None)\<lparr>dg_Active := False\<rparr>, ap_uuids = 0\<rparr>"

definition small_env :: "nisd list ui_env" where
  "small_env = \<lparr>ue_new = utoa, ue_now = (\<lambda>_. 0), ue_ssh = \<lparr>sh_dial = (\<lambda>_ s. (None, s)), sh_run = (\<lambda>_ _ s. (([], None), s))\<rparr>,
     ue_gb = (\<lambda>_. []), ue_user_client = no_users_client\<rparr>"

definition small_target :: "string \<Rightarrow> nisd_target" where
  "small_target d = \<lparr>nt_Label = [], nt_TargetID = d, nt_FailureDomain = [[], [], ''h'', d], nt_NISDUUID = [], nt_HypervisorID = ''h'', nt_Size = 1\<rparr>"


definition new_pdu :: pdu_form where
  "new_pdu = \<lparr>fp_PDUID = [], fp_Name = ''pdu'', fp_Specification = [], fp_Location = [], fp_PowerCapacity = [], fp_IsEdit = False\<rparr>"

theorem confirmed_record_is_written_witness:
  "\<exists>a b ev b2 c. Update small_env (Submit (\<lambda>(a, s). Ret (handleSubmitPDUForm small_env new_pdu a, s))) (small_app, []) = Ret ((a, []), None, None)
     \<and> Update small_env (Key ''y'') (a, []) = Ret ((b, []), None, Some ev) \<and> Update small_env ev (b, []) = Ret ((b2, []), Some c, None)"
proof -
  let ?h = "\<lambda>(a, s). Ret (handleSubmitPDUForm small_env new_pdu a, s)" and ?a = "handleSubmitPDUForm small_env new_pdu small_app"
  have u: "Update small_env (Submit ?h) (small_app, []) = Ret ((?a, []), None, None)"
    by (simp add: Update_def small_app_def)
  have i: "\<not> dg_Active (ap_ConfirmDialog small_app)" by (simp add: small_app_def)
  have d: "dg_Active (ap_ConfirmDialog ?a)"
    by (simp add: handleSubmitPDUForm_def small_app_def new_pdu_def id_or_new_def trim_space_def show_dialog_def save_dialog_def NewConfirmDialog_def)
  from confirmed_record_is_written[OF form_handler.intros(1) i u d] u show ?thesis by blast
qed

end
