(* ===== verification/Tidb.thy ===== *)
theory Tidb
  imports CtlDomain UserLib Url
begin

section \<open>The second backend of the terminal client: niova-ctl/domain/mdsvctidbclient\<close>

text \<open>
  The client for \<open>mdsvc-tidb\<close>, another implementation of the control plane, which is not part of the
  repository: an HTTP exchange with it is the parameter \<open>te_Do\<close> on a state \<open>'n\<close>, and the JSON encoder and
  decoders are the record \<open>td_json\<close>. An operation maps the client and that state to a value or the text of
  an error, and to the new client and state. \<open>tidb_backend\<close> is the client as the interface \<open>cp_client\<close>.
\<close>

subsection \<open>What goes over the wire\<close>

record envelope = en_Status :: int en_Error :: string en_Payload :: string

record wire_pdu = wp_ID :: string wp_Name :: string wp_Location :: string wp_Specification :: string wp_PowerCap :: string

record wire_rack = wk_ID :: string wk_PDUID :: string wk_Name :: string wk_Location :: string wk_Specification :: string

record wire_hypervisor =
  wh_ID :: string
  wh_RackID :: string
  wh_Name :: string
  wh_PortRange :: string
  wh_SSHPort :: string
  wh_RDMAEnabled :: bool
  wh_IPAddrs :: "string list"

record wire_device =
  wd_ID :: string
  wd_HypervisorID :: string
  wd_Name :: string
  wd_DevicePath :: string
  wd_SerialNumber :: string
  wd_State :: int
  wd_Size :: int64
  wd_FailureDomain :: string

record wire_net_info = wi_IPAddr :: string wi_Port :: int

record wire_nisd =
  wn_ID :: string
  wn_PeerPort :: int
  wn_FDPduID :: string
  wn_FDRackID :: string
  wn_FDHvID :: string
  wn_FDDeviceID :: string
  wn_TotalSize :: int64
  wn_AvailableSize :: int64
  wn_SocketPath :: string
  wn_NetInfo :: "wire_net_info list"

record tidb_vdev_request =
  tv_Name :: string
  tv_SizeBytes :: int64
  tv_Redundancy :: int
  tv_DataBlkCnt :: int
  tv_ParityBlkCnt :: int
  tv_FailureDomain :: string
  tv_EntityIDs :: "string list"
  tv_PFS :: string

record tidb_vdev_resp = ts_VdevID :: string ts_Name :: string ts_ChunkCnt :: int ts_FailureDomain :: string ts_PFSID :: string

record wire_vdev =
  wv_ID :: string
  wv_Name :: string
  wv_Size :: int64
  wv_ChunkCnt :: int
  wv_Redundancy :: int
  wv_DataBlkCnt :: int
  wv_ParityBlkCnt :: int
  wv_PFSID :: "string option"
  wv_FailureDomain :: string

record wire_pfs = wf_ID :: string wf_Name :: string wf_Offset :: int wf_VdevIDs :: "string list"

record tidb_login_request = tl_Username :: string tl_Password :: string tl_TenantUUID :: string

record tidb_login_resp = tr_AccessToken :: string tr_ExpiresIn :: int

record jwt_claims = jc_UserID :: string jc_Username :: string jc_Role :: string

record wire_user = wu_ID :: string wu_Username :: string wu_Role :: string wu_Status :: int8

record tidb_user_request = tu_Username :: string tu_Password :: string tu_Role :: string

record wire_tenant =
  wt_TenantUUID :: string
  wt_SchemaName :: string
  wt_DisplayName :: string
  wt_Status :: int8
  wt_CreatedBy :: string
  wt_CreatedAt :: string

record tenant_create_resp = tc_Tenant :: wire_tenant tc_AdminUsername :: string tc_AdminPassword :: string

record chunk_info = ci_VdevID :: string ci_ChunkIdx :: int ci_NisdIDs :: "string list"

record tidb_placement =
  tp_ChunkIdx :: int
  tp_NisdIDs :: "string list"
  tp_DataBlkCnt :: int
  tp_ParityBlkCnt :: int
  tp_Redundancy :: int

record chunks_page =
  cg_VdevID :: string
  cg_StartChunkIdx :: int
  cg_NextStartChunkIdx :: int
  cg_HasMore :: bool
  cg_ChunkCnt :: int
  cg_Chunks :: "tidb_placement list"

record reassign_request =
  rq_VdevID :: string
  rq_ChunkIdx :: int
  rq_FailedReplicaIdx :: int
  rq_VdevConfigNum :: int64
  rq_SnapshotSeqno :: int64

record reassign_result = rs_NisdID :: string rs_VdevConfigNum :: int64 rs_SnapshotSeqno :: int64 rs_Applied :: bool

record mount_result =
  mr_ID :: string
  mr_MountCounter :: uint64
  mr_Size :: int64
  mr_AccessToken :: string
  mr_DataBlkCnt :: int
  mr_ParityBlkCnt :: int
  mr_Redundancy :: int
  mr_LastMountedAt :: string

datatype td_body =
    B_PDU wire_pdu | B_Rack wire_rack | B_Hypervisor wire_hypervisor | B_Device wire_device | B_Nisd wire_nisd
  | B_Vdev tidb_vdev_request | B_PFS string | B_Login tidb_login_request | B_User tidb_user_request
  | B_Tenant string | B_Mount string | B_Reassign reassign_request | B_RBAC rbac_policy | B_ABAC abac_policy

text \<open>
  A decoder gives the value or the error of \<open>json.Unmarshal\<close>. \<open>tj_list\<close> is the answer of a resource list,
  with its elements still encoded. \<open>tj_infra\<close> keeps of the infrastructure tree what is used: power units of
  racks of hypervisors. \<open>tj_claims\<close> is what the claims are after \<open>Unmarshal\<close>, whose error is ignored.
\<close>

record td_json =
  tj_body :: "td_body \<Rightarrow> string"
  tj_envelope :: "string \<Rightarrow> string + envelope"
  tj_list :: "string \<Rightarrow> string + string"
  tj_pdus :: "string \<Rightarrow> string + wire_pdu list"
  tj_racks :: "string \<Rightarrow> string + wire_rack list"
  tj_hypervisors :: "string \<Rightarrow> string + wire_hypervisor list"
  tj_infra :: "string \<Rightarrow> string + (string \<times> string list) list list list"
  tj_devices :: "string \<Rightarrow> string + wire_device list"
  tj_nisds :: "string \<Rightarrow> string + wire_nisd list"
  tj_vdevs :: "string \<Rightarrow> string + wire_vdev list"
  tj_vdev :: "string \<Rightarrow> string + tidb_vdev_resp"
  tj_pfs :: "string \<Rightarrow> string + wire_pfs"
  tj_login :: "string \<Rightarrow> string + tidb_login_resp"
  tj_claims :: "string \<Rightarrow> jwt_claims"
  tj_users :: "string \<Rightarrow> string + wire_user list"
  tj_user :: "string \<Rightarrow> string + wire_user"
  tj_tenants :: "string \<Rightarrow> string + wire_tenant list"
  tj_tenant :: "string \<Rightarrow> string + tenant_create_resp"
  tj_chunk :: "string \<Rightarrow> string + chunk_info"
  tj_chunks :: "string \<Rightarrow> string + chunks_page"
  tj_reassign :: "string \<Rightarrow> string + reassign_result"
  tj_mount :: "string \<Rightarrow> string + mount_result"
  tj_rbac :: "string \<Rightarrow> string + rbac_policy list"
  tj_abac :: "string \<Rightarrow> string + abac_policy list"

subsection \<open>client.go\<close>

text \<open>
  \<open>te_NewRequest\<close> is the error of \<open>http.NewRequest\<close>, which parses the URL. \<open>te_Do\<close> sends a request, given
  by method, URL, headers and body: its error, or the status with the body or the error of reading it.
\<close>

record 'n td_env =
  te_NewRequest :: "string \<Rightarrow> string \<Rightarrow> string option"
  te_Do :: "string \<Rightarrow> string \<Rightarrow> (string \<times> string) list \<Rightarrow> string option \<Rightarrow> 'n \<Rightarrow> (string + int \<times> (string + string)) \<times> 'n"
  te_js :: td_json

record tidb = td_BaseURL :: string td_Token :: string

definition td_New :: "string \<Rightarrow> tidb" where
  "td_New baseURL = \<lparr>td_BaseURL = rev (dropWhile (\<lambda>c. c = CHR ''/'') (rev baseURL)), td_Token = []\<rparr>"

definition td_SetToken :: "string \<Rightarrow> tidb \<Rightarrow> tidb" where
  "td_SetToken token c = c\<lparr>td_Token := token\<rparr>"

type_synonym ('a, 'n) td_op = "tidb \<times> 'n \<Rightarrow> (string + 'a) \<times> tidb \<times> 'n"

definition td_ret :: "string + 'a \<Rightarrow> ('a, 'n) td_op" where
  "td_ret r st = (r, st)"

definition td_bind :: "('a, 'n) td_op \<Rightarrow> ('a \<Rightarrow> ('b, 'n) td_op) \<Rightarrow> ('b, 'n) td_op" where
  "td_bind m k st = (case m st of (Inl err, st1) \<Rightarrow> (Inl err, st1) | (Inr x, st1) \<Rightarrow> k x st1)"

definition td_map :: "('a \<Rightarrow> 'b) \<Rightarrow> ('a, 'n) td_op \<Rightarrow> ('b, 'n) td_op" where
  "td_map f m = td_bind m (\<lambda>x. td_ret (Inr (f x)))"

text \<open>\<open>withToken\<close>: the operation runs on another client, which is then dropped.\<close>

definition withToken :: "string \<Rightarrow> ('a, 'n) td_op \<Rightarrow> ('a, 'n) td_op" where
  "withToken token m = (\<lambda>(c, n). case m (c\<lparr>td_Token := token\<rparr>, n) of (r, _, n1) \<Rightarrow> (r, c, n1))"

text \<open>\<open>url.Values.Encode\<close>: the keys in order.\<close>

definition encode_values :: "(string \<times> string) list \<Rightarrow> string" where
  "encode_values q = join ''&'' (map (\<lambda>(k, v). QueryEscape k @ ''='' @ QueryEscape v) (sort_key fst q))"

definition doRaw :: "'n td_env \<Rightarrow> string \<Rightarrow> string \<Rightarrow> (string \<times> string) list \<Rightarrow> td_body option \<Rightarrow> (envelope, 'n) td_op" where
  "doRaw ev method path query body = (\<lambda>(c, n).
     (let fullURL = td_BaseURL c @ path @ (if query = [] then [] else ''?'' @ encode_values query);
          headers = (if body = None then [] else [(''Content-Type'', ''application/json'')])
                    @ (if td_Token c = [] then [] else [(''Authorization'', ''Bearer '' @ td_Token c)])
      in case te_NewRequest ev method fullURL of
           Some err \<Rightarrow> (Inl (''mdsvctidbclient: build request: '' @ err), c, n)
         | None \<Rightarrow>
             (case te_Do ev method fullURL headers (map_option (tj_body (te_js ev)) body) n of
                (Inl err, n1) \<Rightarrow> (Inl (''mdsvctidbclient: '' @ method @ '' '' @ path @ '': '' @ err), c, n1)
              | (Inr (code, Inl err), n1) \<Rightarrow> (Inl (''mdsvctidbclient: read response: '' @ err), c, n1)
              | (Inr (code, Inr respBody), n1) \<Rightarrow>
                  if code < 200 \<or> code \<ge> 300
                  then (Inl (''mdsvctidbclient: '' @ method @ '' '' @ path @ '': http '' @ itoa code @ '': '' @ trim_space respBody), c, n1)
                  else case tj_envelope (te_js ev) respBody of
                    Inl err \<Rightarrow> (Inl (''mdsvctidbclient: decode response: '' @ err), c, n1)
                  | Inr env \<Rightarrow> (Inr env, c, n1))))"

text \<open>
  \<open>out\<close> is where the payload is decoded: a decoder and the zero value, which an answer without a payload
  leaves. \<open>nil\<close> is \<open>no_out\<close>.
\<close>

definition td_do ::
  "'n td_env \<Rightarrow> string \<Rightarrow> string \<Rightarrow> (string \<times> string) list \<Rightarrow> td_body option \<Rightarrow> (string \<Rightarrow> string + 'a) \<times> 'a \<Rightarrow> ('a, 'n) td_op" where
  "td_do ev method path query body out =
     td_bind (doRaw ev method path query body) (\<lambda>env.
       if en_Status env \<noteq> 0
       then td_ret (Inl (if en_Error env \<noteq> [] then ''mdsvctidbclient: '' @ en_Error env
                         else ''mdsvctidbclient: request failed (status '' @ itoa (en_Status env) @ '')''))
       else if en_Payload env = [] then td_ret (Inr (snd out))
       else case fst out (en_Payload env) of
         Inl err \<Rightarrow> td_ret (Inl (''mdsvctidbclient: decode payload: '' @ err))
       | Inr x \<Rightarrow> td_ret (Inr x))"

definition no_out :: "(string \<Rightarrow> string + unit) \<times> unit" where
  "no_out = (\<lambda>_. Inr (), ())"

abbreviation td_get :: "'n td_env \<Rightarrow> string \<Rightarrow> (string \<times> string) list \<Rightarrow> (string \<Rightarrow> string + 'a) \<times> 'a \<Rightarrow> ('a, 'n) td_op" where
  "td_get ev path query out \<equiv> td_do ev ''GET'' path query None out"

abbreviation td_post :: "'n td_env \<Rightarrow> string \<Rightarrow> td_body \<Rightarrow> (string \<Rightarrow> string + 'a) \<times> 'a \<Rightarrow> ('a, 'n) td_op" where
  "td_post ev path body out \<equiv> td_do ev ''POST'' path [] (Some body) out"

abbreviation td_put :: "'n td_env \<Rightarrow> string \<Rightarrow> (string \<times> string) list \<Rightarrow> td_body \<Rightarrow> (unit, 'n) td_op" where
  "td_put ev path query body \<equiv> td_do ev ''PUT'' path query (Some body) no_out"

abbreviation td_delete :: "'n td_env \<Rightarrow> string \<Rightarrow> (unit, 'n) td_op" where
  "td_delete ev path \<equiv> td_do ev ''DELETE'' path [] None no_out"

end
