(* ===== verification/TidbOps.thy ===== *)
theory TidbOps
  imports Tidb Discovery
begin

section \<open>The operations of mdsvctidbclient\<close>

text \<open>
  \<open>infra.go\<close>, \<open>nisd.go\<close>, \<open>vdev.go\<close>, \<open>pfs.go\<close>, \<open>chunk.go\<close>, \<open>users.go\<close>, \<open>tenant.go\<close>, \<open>authz.go\<close> and \<open>probe.go\<close>: each
  operation as the request it sends and what it makes of the answer; at the end the client as the
  interface that the screens use.
\<close>

subsection \<open>infra.go\<close>

text \<open>The decoder of \<open>rdma_enabled\<close>; \<open>err\<close> is the error of \<open>json.Unmarshal\<close> for a text that is no boolean.\<close>

definition flexBool :: "(string \<Rightarrow> string) \<Rightarrow> string \<Rightarrow> string + bool" where
  "flexBool err data =
     (let t = trim_space data in
      if t \<in> {''true'', ''1''} then Inr True
      else if t \<in> {''false'', ''0'', ''null''} then Inr False
      else Inl (err data))"

definition pduToWire :: "pdu \<Rightarrow> wire_pdu" where
  "pduToWire p = \<lparr>wp_ID = p_ID p, wp_Name = p_Name p, wp_Location = p_Location p, wp_Specification = p_Specification p,
     wp_PowerCap = p_PowerCapacity p\<rparr>"

definition rackToWire :: "rack \<Rightarrow> wire_rack" where
  "rackToWire r = \<lparr>wk_ID = r_ID r, wk_PDUID = r_PDUID r, wk_Name = r_Name r, wk_Location = r_Location r,
     wk_Specification = r_Specification r\<rparr>"

definition hypervisorToWire :: "hypervisor \<Rightarrow> wire_hypervisor" where
  "hypervisorToWire h = \<lparr>wh_ID = h_ID h, wh_RackID = h_RackID h, wh_Name = h_Name h, wh_PortRange = h_PortRange h,
     wh_SSHPort = h_SSHPort h, wh_RDMAEnabled = h_RDMAEnabled h, wh_IPAddrs = h_IPAddrs h\<rparr>"

definition deviceToWire :: "device \<Rightarrow> wire_device" where
  "deviceToWire d = \<lparr>wd_ID = d_ID d, wd_HypervisorID = d_HypervisorID d, wd_Name = d_Name d, wd_DevicePath = d_DevicePath d,
     wd_SerialNumber = d_SerialNumber d, wd_State = uint (d_State d), wd_Size = d_Size d, wd_FailureDomain = d_FailureDomain d\<rparr>"

definition resource_query :: "string \<Rightarrow> (string \<times> string) list" where
  "resource_query rtype = [(''type'', rtype)]"

definition td_PutPDU :: "'n td_env \<Rightarrow> pdu \<Rightarrow> (unit, 'n) td_op" where
  "td_PutPDU ev p = td_put ev ''/api/resource'' (resource_query ''pdu'') (B_PDU (pduToWire p))"

definition td_PutRack :: "'n td_env \<Rightarrow> rack \<Rightarrow> (unit, 'n) td_op" where
  "td_PutRack ev r = td_put ev ''/api/resource'' (resource_query ''rack'') (B_Rack (rackToWire r))"

definition td_PutHypervisor :: "'n td_env \<Rightarrow> hypervisor \<Rightarrow> (unit, 'n) td_op" where
  "td_PutHypervisor ev h = td_put ev ''/api/resource'' (resource_query ''hypervisor'') (B_Hypervisor (hypervisorToWire h))"

definition td_PutDevice :: "'n td_env \<Rightarrow> device \<Rightarrow> (unit, 'n) td_op" where
  "td_PutDevice ev d = td_put ev ''/api/resource'' (resource_query ''device'') (B_Device (deviceToWire d))"

text \<open>\<open>getResourceList\<close>: a list that is absent or \<open>null\<close> leaves the empty slice; its decoding error is not wrapped.\<close>

definition td_getResourceList :: "'n td_env \<Rightarrow> string \<Rightarrow> (string \<Rightarrow> string + 'a list) \<Rightarrow> ('a list, 'n) td_op" where
  "td_getResourceList ev rtype dec =
     td_bind (td_get ev ''/api/resource'' (resource_query rtype) (tj_list (te_js ev), [])) (\<lambda>resources.
       td_ret (if resources = [] \<or> resources = ''null'' then Inr [] else dec resources))"

definition wire_to_pdu :: "wire_pdu \<Rightarrow> pdu" where
  "wire_to_pdu w = \<lparr>p_ID = wp_ID w, p_Name = wp_Name w, p_Location = wp_Location w, p_PowerCapacity = wp_PowerCap w,
     p_Specification = wp_Specification w, p_Racks = []\<rparr>"

definition wire_to_rack :: "wire_rack \<Rightarrow> rack" where
  "wire_to_rack w = \<lparr>r_ID = wk_ID w, r_Name = wk_Name w, r_PDUID = wk_PDUID w, r_Location = wk_Location w,
     r_Specification = wk_Specification w, r_Hypervisors = []\<rparr>"

definition wire_to_hypervisor :: "wire_hypervisor \<Rightarrow> hypervisor" where
  "wire_to_hypervisor w = \<lparr>h_ID = wh_ID w, h_RackID = wh_RackID w, h_Name = wh_Name w, h_IPAddrs = wh_IPAddrs w,
     h_PortRange = wh_PortRange w, h_SSHPort = wh_SSHPort w, h_Dev = [], h_RDMAEnabled = wh_RDMAEnabled w\<rparr>"

definition wire_to_device :: "wire_device \<Rightarrow> device" where
  "wire_to_device w = \<lparr>d_ID = wd_ID w, d_Name = wd_Name w, d_DevicePath = wd_DevicePath w, d_SerialNumber = wd_SerialNumber w,
     d_State = word_of_int (wd_State w), d_Size = wd_Size w, d_HypervisorID = wd_HypervisorID w,
     d_FailureDomain = wd_FailureDomain w, d_Partitions = []\<rparr>"

definition td_getPDUs :: "'n td_env \<Rightarrow> (pdu list, 'n) td_op" where
  "td_getPDUs ev = td_map (map wire_to_pdu) (td_getResourceList ev ''pdu'' (tj_pdus (te_js ev)))"

definition td_getRacks :: "'n td_env \<Rightarrow> (rack list, 'n) td_op" where
  "td_getRacks ev = td_map (map wire_to_rack) (td_getResourceList ev ''rack'' (tj_racks (te_js ev)))"

text \<open>The map of addresses by identifier: a later hypervisor of the tree replaces an earlier one.\<close>

definition hypervisorIPsFromInfra :: "'n td_env \<Rightarrow> (string \<rightharpoonup> string list, 'n) td_op" where
  "hypervisorIPsFromInfra ev =
     td_map (\<lambda>pdus. map_of (rev (concat (concat pdus)))) (td_get ev ''/api/infra'' [] (tj_infra (te_js ev), []))"

definition merge_ips :: "(string \<rightharpoonup> string list) \<Rightarrow> hypervisor \<Rightarrow> hypervisor" where
  "merge_ips ips h = (if h_IPAddrs h = [] then h\<lparr>h_IPAddrs := (case ips (h_ID h) of Some a \<Rightarrow> a | None \<Rightarrow> [])\<rparr> else h)"

text \<open>An error of the second request is ignored.\<close>

definition td_getHypervisors :: "'n td_env \<Rightarrow> (hypervisor list, 'n) td_op" where
  "td_getHypervisors ev =
     td_bind (td_getResourceList ev ''hypervisor'' (tj_hypervisors (te_js ev))) (\<lambda>wire st.
       let out = map wire_to_hypervisor wire in
       case hypervisorIPsFromInfra ev st of
         (Inl err, st1) \<Rightarrow> (Inr out, st1)
       | (Inr ips, st1) \<Rightarrow> (Inr (map (merge_ips ips) out), st1))"

definition td_getDevices :: "'n td_env \<Rightarrow> (device list, 'n) td_op" where
  "td_getDevices ev = td_map (map wire_to_device) (td_getResourceList ev ''device'' (tj_devices (te_js ev)))"

definition td_RefreshTopology :: "'n td_env \<Rightarrow> string \<Rightarrow> (pdu list \<times> rack list \<times> hypervisor list, 'n) td_op" where
  "td_RefreshTopology ev token = (\<lambda>(c, n).
     td_bind (td_getPDUs ev) (\<lambda>pdus.
     td_bind (td_getRacks ev) (\<lambda>racks.
     td_bind (td_getHypervisors ev) (\<lambda>hvs.
     td_bind (td_getDevices ev) (\<lambda>devices.
       td_ret (Inr (StitchTopology pdus racks hvs devices []))))) ) (td_SetToken token c, n))"

subsection \<open>nisd.go\<close>

definition nisdFailureDomain :: "wire_nisd \<Rightarrow> string list" where
  "nisdFailureDomain w = filter (\<lambda>i. i \<noteq> []) [wn_FDPduID w, wn_FDRackID w, wn_FDHvID w, wn_FDDeviceID w]"

definition nth_or_empty :: "string list \<Rightarrow> nat \<Rightarrow> string" where
  "nth_or_empty fd i = (if i < length fd then fd ! i else [])"

definition nisdToWire :: "nisd \<Rightarrow> wire_nisd" where
  "nisdToWire n =
     \<lparr>wn_ID = n_ID n, wn_PeerPort = uint (n_PeerPort n),
      wn_FDPduID = nth_or_empty (n_FailureDomain n) 0, wn_FDRackID = nth_or_empty (n_FailureDomain n) 1,
      wn_FDHvID = nth_or_empty (n_FailureDomain n) 2, wn_FDDeviceID = nth_or_empty (n_FailureDomain n) 3,
      wn_TotalSize = n_TotalSize n, wn_AvailableSize = n_AvailableSize n, wn_SocketPath = n_SocketPath n,
      wn_NetInfo = map (\<lambda>ni. \<lparr>wi_IPAddr = ni_IPAddr ni, wi_Port = uint (ni_Port ni)\<rparr>) (n_NetInfo n)\<rparr>"

definition nisdFromWire :: "wire_nisd \<Rightarrow> nisd" where
  "nisdFromWire w =
     \<lparr>n_PeerPort = word_of_int (wn_PeerPort w), n_ID = wn_ID w, n_FailureDomain = nisdFailureDomain w,
      n_TotalSize = wn_TotalSize w, n_AvailableSize = wn_AvailableSize w, n_SocketPath = wn_SocketPath w,
      n_NetInfo = map (\<lambda>wi. \<lparr>ni_IPAddr = wi_IPAddr wi, ni_Port = word_of_int (wi_Port wi)\<rparr>) (wn_NetInfo w),
      n_NetInfoCnt = int (length (wn_NetInfo w))\<rparr>"

definition td_PutNisd :: "'n td_env \<Rightarrow> nisd \<Rightarrow> (unit, 'n) td_op" where
  "td_PutNisd ev n = td_put ev ''/api/resource'' (resource_query ''nisd'') (B_Nisd (nisdToWire n))"

definition td_GetNisds :: "'n td_env \<Rightarrow> (nisd list, 'n) td_op" where
  "td_GetNisds ev = td_map (map nisdFromWire) (td_getResourceList ev ''nisd'' (tj_nisds (te_js ev)))"

subsection \<open>vdev.go and pfs.go\<close>

definition vdev_request_of :: "vdev_config \<Rightarrow> tidb_vdev_request" where
  "vdev_request_of v =
     \<lparr>tv_Name = v_Name v, tv_SizeBytes = v_Size v, tv_Redundancy = v_Redundancy v, tv_DataBlkCnt = uint (v_DataBlkCnt v),
      tv_ParityBlkCnt = uint (v_ParityBlkCnt v), tv_FailureDomain = to_upper (v_FilterType v),
      tv_EntityIDs = (if v_FilterID v \<noteq> [] then [v_FilterID v] else []),
      tv_PFS = (if v_PFSName v = [] then v_PFSID v else v_PFSName v)\<rparr>"

text \<open>The vdev with what the server assigned.\<close>

definition td_CreateVdev :: "'n td_env \<Rightarrow> vdev_config \<Rightarrow> (vdev_config, 'n) td_op" where
  "td_CreateVdev ev v =
     td_map (\<lambda>resp. v\<lparr>v_ID := ts_VdevID resp, v_ChunkCnt := word_of_int (ts_ChunkCnt resp), v_PFSID := ts_PFSID resp\<rparr>)
       (td_post ev ''/api/vdev'' (B_Vdev (vdev_request_of v))
          (tj_vdev (te_js ev), \<lparr>ts_VdevID = [], ts_Name = [], ts_ChunkCnt = 0, ts_FailureDomain = [], ts_PFSID = []\<rparr>))"

definition wire_to_vdev :: "wire_vdev \<Rightarrow> vdev_config" where
  "wire_to_vdev w =
     \<lparr>v_ID = wv_ID w, v_Name = wv_Name w, v_Size = wv_Size w, v_Redundancy = wv_Redundancy w,
      v_ChunkCnt = word_of_int (wv_ChunkCnt w), v_DataBlkCnt = word_of_int (wv_DataBlkCnt w),
      v_ParityBlkCnt = word_of_int (wv_ParityBlkCnt w), v_VdevMountInfo = \<lparr>mi_MountCounter = 0, mi_LastUpdatedLTS = 0\<rparr>,
      v_PFSID = (case wv_PFSID w of Some i \<Rightarrow> i | None \<Rightarrow> []), v_AccessToken = [], v_FilterType = wv_FailureDomain w,
      v_FilterID = [], v_PFSName = []\<rparr>"

definition td_GetVdevConfigs :: "'n td_env \<Rightarrow> (vdev_config list, 'n) td_op" where
  "td_GetVdevConfigs ev = td_map (map wire_to_vdev) (td_getResourceList ev ''vdev'' (tj_vdevs (te_js ev)))"

text \<open>The file system with the identifier that the server assigned. \<open>%q\<close> of an identifier is a parameter.\<close>

definition td_CreatePFS :: "'n td_env \<Rightarrow> (string \<Rightarrow> string) \<Rightarrow> pfs \<Rightarrow> (pfs, 'n) td_op" where
  "td_CreatePFS ev quoted p =
     (if pf_ID p \<noteq> []
      then td_ret (Inl (''mdsvctidbclient: CreatePFS called with a pre-existing ID '' @ quoted (pf_ID p) @ '' ''
             @ map char_of [226, 128, 148 :: nat] @ '' this backend has no PFS update endpoint (domain.PFSEditor isn'' @ [CHR 0x27] @ ''t implemented)''))
      else td_map (\<lambda>resp. p\<lparr>pf_ID := wf_ID resp\<rparr>)
             (td_post ev ''/api/pfs'' (B_PFS (pf_Name p))
                (tj_pfs (te_js ev), \<lparr>wf_ID = [], wf_Name = [], wf_Offset = 0, wf_VdevIDs = []\<rparr>)))"

definition getPFSByID :: "'n td_env \<Rightarrow> string \<Rightarrow> (pfs, 'n) td_op" where
  "getPFSByID ev i =
     td_map (\<lambda>w. \<lparr>pf_ID = wf_ID w, pf_Name = wf_Name w, pf_Offset = wf_Offset w, pf_VdevIDs = wf_VdevIDs w\<rparr>)
       (td_get ev ''/api/pfs'' [(''id'', i)] (tj_pfs (te_js ev), \<lparr>wf_ID = [], wf_Name = [], wf_Offset = 0, wf_VdevIDs = []\<rparr>))"

text \<open>The loop over the vdevs, with the identifiers seen and the file systems found.\<close>

fun pfs_of_vdevs :: "'n td_env \<Rightarrow> vdev_config list \<Rightarrow> string list \<Rightarrow> pfs list \<Rightarrow> tidb \<times> 'n \<Rightarrow> pfs list \<times> tidb \<times> 'n" where
  "pfs_of_vdevs ev [] seen out st = (out, st)"
| "pfs_of_vdevs ev (v # vs) seen out st =
     (if v_PFSID v = [] \<or> v_PFSID v \<in> set seen then pfs_of_vdevs ev vs seen out st
      else case getPFSByID ev (v_PFSID v) st of
        (Inl err, st1) \<Rightarrow> pfs_of_vdevs ev vs (v_PFSID v # seen) out st1
      | (Inr p, st1) \<Rightarrow> pfs_of_vdevs ev vs (v_PFSID v # seen) (out @ [p]) st1)"

definition td_GetPFS :: "'n td_env \<Rightarrow> (pfs list, 'n) td_op" where
  "td_GetPFS ev st =
     (case td_GetVdevConfigs ev st of
        (Inl err, st1) \<Rightarrow> (Inl (''mdsvctidbclient: deriving PFS list from vdevs: '' @ err), st1)
      | (Inr vdevs, st1) \<Rightarrow> (case pfs_of_vdevs ev vdevs [] [] st1 of (out, st2) \<Rightarrow> (Inr out, st2)))"

subsection \<open>chunk.go\<close>

definition td_GetChunk :: "'n td_env \<Rightarrow> string \<Rightarrow> int \<Rightarrow> (chunk_info, 'n) td_op" where
  "td_GetChunk ev vdevID chunkIdx =
     td_get ev ''/api/chunk'' [(''vdev_id'', vdevID), (''chunk_idx'', itoa chunkIdx)]
       (tj_chunk (te_js ev), \<lparr>ci_VdevID = [], ci_ChunkIdx = 0, ci_NisdIDs = []\<rparr>)"

definition td_GetChunks :: "'n td_env \<Rightarrow> string \<Rightarrow> int \<Rightarrow> int \<Rightarrow> (chunks_page, 'n) td_op" where
  "td_GetChunks ev vdevID startChunkIdx limit =
     td_get ev ''/api/chunks''
       ([(''vdev_id'', vdevID), (''start_chunk_idx'', itoa startChunkIdx)] @ (if limit > 0 then [(''limit'', itoa limit)] else []))
       (tj_chunks (te_js ev), \<lparr>cg_VdevID = [], cg_StartChunkIdx = 0, cg_NextStartChunkIdx = 0, cg_HasMore = False, cg_ChunkCnt = 0,
          cg_Chunks = []\<rparr>)"

definition td_Reassign :: "'n td_env \<Rightarrow> string \<Rightarrow> int \<Rightarrow> int \<Rightarrow> int64 \<Rightarrow> int64 \<Rightarrow> (reassign_result, 'n) td_op" where
  "td_Reassign ev vdevID chunkIdx failedReplicaIdx vdevConfigNum snapshotSeqno =
     td_post ev ''/api/chunk/reassign''
       (B_Reassign \<lparr>rq_VdevID = vdevID, rq_ChunkIdx = chunkIdx, rq_FailedReplicaIdx = failedReplicaIdx,
          rq_VdevConfigNum = vdevConfigNum, rq_SnapshotSeqno = snapshotSeqno\<rparr>)
       (tj_reassign (te_js ev), \<lparr>rs_NisdID = [], rs_VdevConfigNum = 0, rs_SnapshotSeqno = 0, rs_Applied = False\<rparr>)"

definition td_MountVdev :: "'n td_env \<Rightarrow> string \<Rightarrow> (mount_result, 'n) td_op" where
  "td_MountVdev ev vdevID =
     td_post ev ''/api/vdev/mount'' (B_Mount vdevID)
       (tj_mount (te_js ev), \<lparr>mr_ID = [], mr_MountCounter = 0, mr_Size = 0, mr_AccessToken = [], mr_DataBlkCnt = 0,
          mr_ParityBlkCnt = 0, mr_Redundancy = 0, mr_LastMountedAt = []\<rparr>)"

definition td_DeleteVdev :: "'n td_env \<Rightarrow> string \<Rightarrow> (unit, 'n) td_op" where
  "td_DeleteVdev ev vdevID = td_delete ev (''/api/vdev/'' @ PathEscape vdevID)"

subsection \<open>users.go\<close>

text \<open>\<open>base64.RawURLEncoding\<close> has two other letters than the standard alphabet.\<close>

definition b64_url_decode :: "string \<Rightarrow> string option" where
  "b64_url_decode s =
     (if \<exists>c \<in> set s. c \<in> {CHR ''+'', CHR ''/''} then None
      else b64_decode (map (\<lambda>c. if c = CHR ''-'' then CHR ''+'' else if c = CHR ''_'' then CHR ''/'' else c) s))"

definition decodeJWTClaims :: "td_json \<Rightarrow> string \<Rightarrow> jwt_claims" where
  "decodeJWTClaims js token =
     (case split (CHR ''.'') token of
        [_, p, _] \<Rightarrow> (case b64_url_decode p of
            None \<Rightarrow> \<lparr>jc_UserID = [], jc_Username = [], jc_Role = []\<rparr>
          | Some payload \<Rightarrow> tj_claims js payload)
      | _ \<Rightarrow> \<lparr>jc_UserID = [], jc_Username = [], jc_Role = []\<rparr>)"

definition login_of_claims :: "string \<Rightarrow> tidb_login_resp \<Rightarrow> jwt_claims \<Rightarrow> login_resp" where
  "login_of_claims username resp claims =
     \<lparr>lr_AccessToken = tr_AccessToken resp, lr_TokenType = ''Bearer'', lr_UserID = jc_UserID claims,
      lr_Username = (if jc_Username claims \<noteq> [] then jc_Username claims else username), lr_UserRole = jc_Role claims,
      lr_Error = [], lr_ExpiresIn = tr_ExpiresIn resp, lr_IsAdmin = (jc_Role claims = ''admin''), lr_Success = True\<rparr>"

definition td_LoginWithTenant :: "'n td_env \<Rightarrow> string \<Rightarrow> string \<Rightarrow> string \<Rightarrow> (login_resp, 'n) td_op" where
  "td_LoginWithTenant ev username secretKey tenantUUID =
     td_map (\<lambda>resp. login_of_claims username resp (decodeJWTClaims (te_js ev) (tr_AccessToken resp)))
       (td_post ev ''/users/login'' (B_Login \<lparr>tl_Username = username, tl_Password = secretKey, tl_TenantUUID = tenantUUID\<rparr>)
          (tj_login (te_js ev), \<lparr>tr_AccessToken = [], tr_ExpiresIn = 0\<rparr>))"

definition td_Login :: "'n td_env \<Rightarrow> string \<Rightarrow> string \<Rightarrow> (login_resp, 'n) td_op" where
  "td_Login ev username secretKey = td_LoginWithTenant ev username secretKey []"

definition mapAccountStatus :: "int8 \<Rightarrow> status" where
  "mapAccountStatus s = (if s = 1 then StatusActive else StatusInactive)"

definition user_of_wire :: "wire_user \<Rightarrow> user_resp" where
  "user_of_wire u = \<lparr>ur_Username = wu_Username u, ur_UserID = wu_ID u, ur_SecretKey = [], ur_UserRole = wu_Role u,
     ur_Status = mapAccountStatus (wu_Status u), ur_Error = [], ur_Success = True\<rparr>"

text \<open>The filter of \<open>ListUsers\<close> is not used.\<close>

definition td_ListUsers :: "'n td_env \<Rightarrow> string \<Rightarrow> (user_resp list, 'n) td_op" where
  "td_ListUsers ev token = (\<lambda>(c, n).
     td_map (map user_of_wire) (td_get ev ''/api/users'' [] (tj_users (te_js ev), [])) (td_SetToken token c, n))"

definition td_CreateUser :: "'n td_env \<Rightarrow> string \<Rightarrow> user_req \<Rightarrow> (user_resp, 'n) td_op" where
  "td_CreateUser ev token req = (\<lambda>(c, n).
     td_map (\<lambda>w. (user_of_wire w)\<lparr>ur_SecretKey := uq_NewSecretKey req\<rparr>)
       (td_post ev ''/api/users''
          (B_User \<lparr>tu_Username = uq_Username req, tu_Password = uq_NewSecretKey req,
                   tu_Role = (if uq_IsAdmin req then ''admin'' else ''user'')\<rparr>)
          (tj_user (te_js ev), \<lparr>wu_ID = [], wu_Username = [], wu_Role = [], wu_Status = 0\<rparr>))
       (td_SetToken token c, n))"

definition td_CreateAdminUser :: "'n td_env \<Rightarrow> user_req \<Rightarrow> (user_resp, 'n) td_op" where
  "td_CreateAdminUser ev req = (\<lambda>(c, n).
     if td_Token c = []
     then (Inl (''mdsvctidbclient: creating a user requires being logged in as an admin against this backend (no unauthenticated bootstrap)''), c, n)
     else td_CreateUser ev (td_Token c) req (c, n))"

subsection \<open>tenant.go\<close>

definition tenantFromWire :: "wire_tenant \<Rightarrow> tenant_info" where
  "tenantFromWire w = \<lparr>ti_TenantUUID = wt_TenantUUID w, ti_SchemaName = wt_SchemaName w, ti_DisplayName = wt_DisplayName w,
     ti_Status = wt_Status w, ti_CreatedBy = wt_CreatedBy w, ti_CreatedAt = wt_CreatedAt w\<rparr>"

definition StatusString :: "tenant_info \<Rightarrow> string" where
  "StatusString t = (if ti_Status t = 1 then ''active'' else if ti_Status t = 2 then ''deleted'' else ''unknown'')"

definition TenantAdminLogin :: "'n td_env \<Rightarrow> string \<Rightarrow> string \<Rightarrow> (string \<times> int, 'n) td_op" where
  "TenantAdminLogin ev username password =
     td_map (\<lambda>resp. (tr_AccessToken resp, tr_ExpiresIn resp))
       (td_post ev ''/tenant-admin/login'' (B_Login \<lparr>tl_Username = username, tl_Password = password, tl_TenantUUID = []\<rparr>)
          (tj_login (te_js ev), \<lparr>tr_AccessToken = [], tr_ExpiresIn = 0\<rparr>))"

definition ListTenants :: "'n td_env \<Rightarrow> string \<Rightarrow> (tenant_info list, 'n) td_op" where
  "ListTenants ev tenantAdminToken =
     withToken tenantAdminToken
       (td_map (\<lambda>ws. filter (\<lambda>t. ti_Status t = 1) (map tenantFromWire ws)) (td_get ev ''/cp/tenants'' [] (tj_tenants (te_js ev), [])))"

definition CreateTenant :: "'n td_env \<Rightarrow> string \<Rightarrow> string \<Rightarrow> (tenant_create_result, 'n) td_op" where
  "CreateTenant ev tenantAdminToken displayName =
     withToken tenantAdminToken
       (td_map (\<lambda>resp. \<lparr>tt_Tenant = tenantFromWire (tc_Tenant resp), tt_AdminUsername = tc_AdminUsername resp,
                        tt_AdminPassword = tc_AdminPassword resp\<rparr>)
          (td_post ev ''/cp/tenants'' (B_Tenant displayName)
             (tj_tenant (te_js ev),
              \<lparr>tc_Tenant = \<lparr>wt_TenantUUID = [], wt_SchemaName = [], wt_DisplayName = [], wt_Status = 0, wt_CreatedBy = [], wt_CreatedAt = []\<rparr>,
               tc_AdminUsername = [], tc_AdminPassword = []\<rparr>)))"

definition DeleteTenant :: "'n td_env \<Rightarrow> string \<Rightarrow> string \<Rightarrow> (unit, 'n) td_op" where
  "DeleteTenant ev tenantAdminToken tenantUUID =
     withToken tenantAdminToken (td_delete ev (''/cp/tenants/'' @ PathEscape tenantUUID))"

subsection \<open>authz.go and probe.go\<close>

definition ListRBACPolicies :: "'n td_env \<Rightarrow> (rbac_policy list, 'n) td_op" where
  "ListRBACPolicies ev = td_get ev ''/api/authz/rbac'' [] (tj_rbac (te_js ev), [])"

definition AddRBACPolicy :: "'n td_env \<Rightarrow> rbac_policy \<Rightarrow> (unit, 'n) td_op" where
  "AddRBACPolicy ev p = td_post ev ''/api/authz/rbac'' (B_RBAC p) no_out"

definition DeleteRBACPolicy :: "'n td_env \<Rightarrow> rbac_policy \<Rightarrow> (unit, 'n) td_op" where
  "DeleteRBACPolicy ev p =
     td_delete ev (''/api/authz/rbac/'' @ PathEscape (rp_Resource p) @ ''/'' @ PathEscape (rp_Action p) @ ''/'' @ PathEscape (rp_Role p))"

definition ListABACPolicies :: "'n td_env \<Rightarrow> (abac_policy list, 'n) td_op" where
  "ListABACPolicies ev = td_get ev ''/api/authz/abac'' [] (tj_abac (te_js ev), [])"

definition AddABACPolicy :: "'n td_env \<Rightarrow> abac_policy \<Rightarrow> (unit, 'n) td_op" where
  "AddABACPolicy ev p = td_post ev ''/api/authz/abac'' (B_ABAC p) no_out"

definition DeleteABACPolicy :: "'n td_env \<Rightarrow> abac_policy \<Rightarrow> (unit, 'n) td_op" where
  "DeleteABACPolicy ev p = td_delete ev (''/api/authz/abac/'' @ PathEscape (bp_Resource p) @ ''/'' @ PathEscape (bp_Action p))"

definition ProbeAuth :: "'n td_env \<Rightarrow> string \<Rightarrow> 'n \<Rightarrow> (string + bool) \<times> 'n" where
  "ProbeAuth ev baseURL n =
     (case doRaw ev ''GET'' ''/api/infra'' [] None (td_New baseURL, n) of
        (Inl err, _, n1) \<Rightarrow> (Inl err, n1)
      | (Inr env, _, n1) \<Rightarrow> (Inr (en_Status env \<noteq> 0), n1))"

subsection \<open>The interface of the screens\<close>

definition to_effect :: "('a, 'n) td_op \<Rightarrow> (tidb \<times> 'n) effect" where
  "to_effect m st = (case m st of (Inl err, st1) \<Rightarrow> (Some err, st1) | (Inr _, st1) \<Rightarrow> (None, st1))"

definition to_go :: "('a, 'n) td_op \<Rightarrow> tidb \<times> 'n \<Rightarrow> 'a go \<times> (tidb \<times> 'n)" where
  "to_go m st = (case m st of (Inl err, st1) \<Rightarrow> (Fail err, st1) | (Inr x, st1) \<Rightarrow> (Ret x, st1))"

text \<open>There is no \<open>PartitionWriter\<close> and no \<open>PFSEditor\<close>.\<close>

definition tidb_backend :: "'n td_env \<Rightarrow> (string \<Rightarrow> string) \<Rightarrow> (tidb \<times> 'n) cp_client" where
  "tidb_backend ev quoted =
     \<lparr>cp_SetToken = (\<lambda>token (c, n). (td_SetToken token c, n)),
      cp_RefreshTopology = (\<lambda>token. to_go (td_RefreshTopology ev token)),
      cp_GetNisds = to_go (td_GetNisds ev), cp_GetVdevConfigs = to_go (td_GetVdevConfigs ev), cp_GetPFS = to_go (td_GetPFS ev),
      cp_PutPDU = (\<lambda>p. to_effect (td_PutPDU ev p)), cp_PutRack = (\<lambda>r. to_effect (td_PutRack ev r)),
      cp_PutHypervisor = (\<lambda>h. to_effect (td_PutHypervisor ev h)), cp_PutDevice = (\<lambda>d. to_effect (td_PutDevice ev d)),
      cp_PutNisd = (\<lambda>n. to_effect (td_PutNisd ev n)), cp_CreateVdev = (\<lambda>v. to_effect (td_CreateVdev ev v)),
      cp_CreatePFS = (\<lambda>p. to_effect (td_CreatePFS ev quoted p)), cp_PutPartition = None, cp_EditPFS = None,
      cp_DeleteVdev = Some (\<lambda>i. to_effect (td_DeleteVdev ev i))\<rparr>"

end
