(* ===== verification/TidbSpec.thy ===== *)
theory TidbSpec
  imports TidbOps Submit
begin

section \<open>Properties of the second backend\<close>

subsection \<open>Tokens\<close>

text \<open>A tenant operation neither reads nor changes the token of the session.\<close>

lemma withToken_session:
  "withToken token m (c\<lparr>td_Token := t\<rparr>, n) = (case withToken token m (c, n) of (r, c', n') \<Rightarrow> (r, c\<lparr>td_Token := t\<rparr>, n'))"
  by (simp add: withToken_def split: prod.splits)

lemma withToken_keeps: "fst (snd (withToken token m (c, n))) = c"
  by (simp add: withToken_def split: prod.splits)

text \<open>
  The tenant operations and the session do not meet: whatever token the client has, listing, creating
  and deleting tenants sends and answers the same, and the client has its token still.
\<close>

lemma tenant_token_separate:
  "ListTenants ev tok (c\<lparr>td_Token := t\<rparr>, n) = (case ListTenants ev tok (c, n) of (r, _, n') \<Rightarrow> (r, c\<lparr>td_Token := t\<rparr>, n'))
   \<and> CreateTenant ev tok name (c\<lparr>td_Token := t\<rparr>, n) = (case CreateTenant ev tok name (c, n) of (r, _, n') \<Rightarrow> (r, c\<lparr>td_Token := t\<rparr>, n'))
   \<and> DeleteTenant ev tok i (c\<lparr>td_Token := t\<rparr>, n) = (case DeleteTenant ev tok i (c, n) of (r, _, n') \<Rightarrow> (r, c\<lparr>td_Token := t\<rparr>, n'))"
  by (simp add: ListTenants_def CreateTenant_def DeleteTenant_def withToken_session)

subsection \<open>NISDs over the wire\<close>

lemma nth_or_empty_four:
  "[nth_or_empty fd 0, nth_or_empty fd 1, nth_or_empty fd 2, nth_or_empty fd 3]
     = take 4 fd @ replicate (4 - length fd) []"
proof -
  consider "fd = []" | a where "fd = [a]" | a b where "fd = [a, b]" | a b c where "fd = [a, b, c]"
    | a b c d e where "fd = a # b # c # d # e"
    by (metis list.exhaust)
  then show ?thesis by cases (simp_all add: nth_or_empty_def numeral_eq_Suc)
qed

lemma failure_domain_wire: "nisdFailureDomain (nisdToWire n) = filter (\<lambda>i. i \<noteq> []) (take 4 (n_FailureDomain n))"
proof -
  have "nisdFailureDomain (nisdToWire n)
      = filter (\<lambda>i. i \<noteq> []) [nth_or_empty (n_FailureDomain n) 0, nth_or_empty (n_FailureDomain n) 1,
          nth_or_empty (n_FailureDomain n) 2, nth_or_empty (n_FailureDomain n) 3]"
    by (simp add: nisdFailureDomain_def nisdToWire_def)
  then show ?thesis unfolding nth_or_empty_four by simp
qed

lemma filter_take_id: "filter P (take k xs) = xs \<longleftrightarrow> length xs \<le> k \<and> (\<forall>x \<in> set xs. P x)"
proof
  assume a: "filter P (take k xs) = xs"
  have "length (filter P (take k xs)) \<le> k" using length_filter_le[of P "take k xs"] by simp
  with a have l: "length xs \<le> k" by simp
  then have "filter P xs = xs" using a by simp
  with l show "length xs \<le> k \<and> (\<forall>x \<in> set xs. P x)" by (simp add: filter_id_conv)
qed simp

lemma net_info_copy: "map (\<lambda>x. \<lparr>ni_IPAddr = ni_IPAddr x, ni_Port = ni_Port x\<rparr>) xs = xs"
  by (rule map_idI) simp

lemma nisd_wire: "nisdFromWire (nisdToWire n)
   = n\<lparr>n_FailureDomain := filter (\<lambda>i. i \<noteq> []) (take 4 (n_FailureDomain n)), n_NetInfoCnt := int (length (n_NetInfo n))\<rparr>"
  unfolding nisdFromWire_def failure_domain_wire by (cases n) (simp add: nisdToWire_def comp_def net_info_copy)

text \<open>
  A NISD survives the way to \<open>mdsvc-tidb\<close> and back exactly when its failure domain has at most four
  levels, none of them empty, and its count of addresses is right. The partition of a target is the fifth
  level and is lost; an empty level, as a hypervisor outside the racks has two of, moves the others up.
\<close>

theorem nisd_wire_round_trip:
  "nisdFromWire (nisdToWire n) = n
   \<longleftrightarrow> length (n_FailureDomain n) \<le> 4 \<and> [] \<notin> set (n_FailureDomain n) \<and> n_NetInfoCnt n = int (length (n_NetInfo n))"
proof -
  have "nisdFromWire (nisdToWire n) = n
      \<longleftrightarrow> filter (\<lambda>i. i \<noteq> []) (take 4 (n_FailureDomain n)) = n_FailureDomain n \<and> n_NetInfoCnt n = int (length (n_NetInfo n))"
    unfolding nisd_wire by (cases n) auto
  then show ?thesis unfolding filter_take_id by auto
qed

subsection \<open>The ports of a NISD outside the racks\<close>

lemma allocated_ports_short: "n \<in> set ns \<Longrightarrow> length (n_FailureDomain n) \<le> HV_IDX \<Longrightarrow> allocated_ports hv ns = Panic"
  by (induction ns) (auto split: list.splits)

text \<open>
  C35: a crash of the terminal client on this backend. Once a NISD was created on a device of a hypervisor
  outside the racks and is listed by the server as it was written, every allocation of ports, on any
  hypervisor, panics: the NISD comes back with the two levels it has, and the third is indexed.
\<close>

theorem tidb_standalone_nisd_panics:
  assumes "t \<in> set (BuildNISDTargets [] standaloneHVs False)"
    and "cp_GetNisds (tidb_backend ev quoted) (cp_SetToken (tidb_backend ev quoted) token st) = (Ret ns, st1)"
    and "nisdFromWire (nisdToWire (created_nisd i t hv clientPort serverPort)) \<in> set ns"
    and "ParsePortRange portRange = Ret bounds"
  shows "AllocatePortPair hypervisorUUID portRange token (Some (tidb_backend ev quoted)) st = (Panic, st1)"
proof -
  from assms(1) obtain h d where "nt_FailureDomain t = [[], [], h, d]"
    by (auto simp: BuildNISDTargets_def hv_targets_def device_target_def)
  then have "length (n_FailureDomain (nisdFromWire (nisdToWire (created_nisd i t hv clientPort serverPort)))) \<le> HV_IDX"
    by (simp add: nisd_wire created_nisd_def)
  from allocated_ports_short[OF assms(3) this] have "allocated_ports hypervisorUUID ns = Panic" .
  then show ?thesis using assms(2,4) by (cases bounds) (simp add: AllocatePortPair_def)
qed

subsection \<open>The listing of file systems\<close>

lemma pfs_of_vdevs_lookup:
  assumes "\<And>i. getPFSByID ev i st = (look i, st)"
  shows "\<exists>ps. pfs_of_vdevs ev vs seen out st = (out @ ps, st)
     \<and> set ps = {p. \<exists>v \<in> set vs. v_PFSID v \<noteq> [] \<and> v_PFSID v \<notin> set seen \<and> look (v_PFSID v) = Inr p}
     \<and> length ps \<le> card ({v_PFSID v | v. v \<in> set vs} - set seen - {[]})"
proof (induction vs arbitrary: seen out)
  case Nil
  show ?case by simp
next
  case (Cons v vs)
  let ?i = "v_PFSID v" and ?ids = "\<lambda>vs. {v_PFSID v | v. v \<in> set vs}"
  show ?case
  proof (cases "?i = [] \<or> ?i \<in> set seen")
    case True
    then have "?ids (v # vs) - set seen - {[]} = ?ids vs - set seen - {[]}" by auto
    with Cons[of seen out] True show ?thesis by (auto 0 3)
  next
    case False
    let ?new = "case look ?i of Inl _ \<Rightarrow> [] | Inr p \<Rightarrow> [p]"
    have step: "pfs_of_vdevs ev (v # vs) seen out st = pfs_of_vdevs ev vs (?i # seen) (out @ ?new) st"
      using False assms[of ?i] by (simp split: sum.splits)
    from Cons[of "?i # seen" "out @ ?new"] obtain ps where
      ps: "pfs_of_vdevs ev vs (?i # seen) (out @ ?new) st = ((out @ ?new) @ ps, st)"
      "set ps = {p. \<exists>v \<in> set vs. v_PFSID v \<noteq> [] \<and> v_PFSID v \<notin> set (?i # seen) \<and> look (v_PFSID v) = Inr p}"
      "length ps \<le> card (?ids vs - set (?i # seen) - {[]})" by blast
    have new: "set ?new = {p. look ?i = Inr p}" by (auto split: sum.splits)
    have "set (?new @ ps) = {p. \<exists>w \<in> set (v # vs). v_PFSID w \<noteq> [] \<and> v_PFSID w \<notin> set seen \<and> look (v_PFSID w) = Inr p}"
    proof (rule set_eqI)
      fix p
      have "p \<in> set (?new @ ps) \<longleftrightarrow> look ?i = Inr p
          \<or> (\<exists>w \<in> set vs. v_PFSID w \<noteq> [] \<and> v_PFSID w \<noteq> ?i \<and> v_PFSID w \<notin> set seen \<and> look (v_PFSID w) = Inr p)"
        unfolding set_append new ps(2) by auto
      also have "\<dots> \<longleftrightarrow> (\<exists>w \<in> set (v # vs). v_PFSID w \<noteq> [] \<and> v_PFSID w \<notin> set seen \<and> look (v_PFSID w) = Inr p)"
        using False by (metis list.set_intros(1) list.set_intros(2) set_ConsD)
      finally show "p \<in> set (?new @ ps)
        \<longleftrightarrow> p \<in> {p. \<exists>w \<in> set (v # vs). v_PFSID w \<noteq> [] \<and> v_PFSID w \<notin> set seen \<and> look (v_PFSID w) = Inr p}" by simp
    qed
    moreover have "length (?new @ ps) \<le> card (?ids (v # vs) - set seen - {[]})"
    proof -
      have e: "?ids (v # vs) - set seen - {[]} = insert ?i (?ids vs - set (?i # seen) - {[]})" using False by auto
      have "card (insert ?i (?ids vs - set (?i # seen) - {[]})) = Suc (card (?ids vs - set (?i # seen) - {[]}))"
        by (intro card_insert_disjoint) (auto simp: Setcompr_eq_image)
      with e ps(3) show ?thesis by (simp split: sum.splits)
    qed
    ultimately show ?thesis using step ps(1) by (intro exI[of _ "?new @ ps"]) simp
  qed
qed

text \<open>
  The list of file systems. It is derived from the vdevs: it has exactly the file systems that a vdev
  names and that resolve, no more entries than identifiers named. A file system without vdevs, as every new
  one is, is not in it unless another identifier resolves to it.
\<close>

theorem tidb_GetPFS_lists:
  assumes "td_GetVdevConfigs ev st0 = (Inr vdevs, st)" and "\<And>i. getPFSByID ev i st = (look i, st)"
  shows "\<exists>ps. td_GetPFS ev st0 = (Inr ps, st)
     \<and> set ps = {p. \<exists>v \<in> set vdevs. v_PFSID v \<noteq> [] \<and> look (v_PFSID v) = Inr p}
     \<and> length ps \<le> card ({v_PFSID v | v. v \<in> set vdevs} - {[]})"
  using pfs_of_vdevs_lookup[OF assms(2), of vdevs "[]" "[]"] assms(1) by (auto simp: td_GetPFS_def)

subsection \<open>The tree of the inventory\<close>

text \<open>
  The tree shown is the join of the four tables, the addresses of a hypervisor without any being those of
  the tree of the server; the token stays in the client. When any of the tables fails, so does the whole.
\<close>

lemma tidb_RefreshTopology:
  fixes ev n and c :: tidb and token defines "c1 \<equiv> c\<lparr>td_Token := token\<rparr>"
  assumes "td_getPDUs ev (c1, n) = (Inr pdus, c1, n1)" "td_getRacks ev (c1, n1) = (Inr racks, c1, n2)"
    and "td_getResourceList ev ''hypervisor'' (tj_hypervisors (te_js ev)) (c1, n2) = (Inr wire, c1, n3)"
    and "hypervisorIPsFromInfra ev (c1, n3) = (Inr ips, c1, n4)" "td_getDevices ev (c1, n4) = (Inr devices, c1, n5)"
  shows "td_RefreshTopology ev token (c, n)
     = (Inr (StitchTopology pdus racks (map (merge_ips ips) (map wire_to_hypervisor wire)) devices []), c1, n5)"
  using assms by (simp add: td_RefreshTopology_def td_SetToken_def td_bind_def td_getHypervisors_def td_ret_def)

subsection \<open>Witnesses\<close>

text \<open>
  A server whose answers do not depend on the request, except that every file system asked for has the
  identifier of the query.
\<close>

definition demo_json :: "wire_nisd list \<Rightarrow> wire_vdev list \<Rightarrow> td_json" where
  "demo_json nisds vdevs =
     \<lparr>tj_body = (\<lambda>_. ''{}''), tj_envelope = (\<lambda>t. Inr \<lparr>en_Status = 0, en_Error = [], en_Payload = t\<rparr>), tj_list = Inr,
      tj_pdus = (\<lambda>_. Inr []), tj_racks = (\<lambda>_. Inr []), tj_hypervisors = (\<lambda>_. Inr []), tj_infra = (\<lambda>_. Inr []),
      tj_devices = (\<lambda>_. Inr []), tj_nisds = (\<lambda>_. Inr nisds), tj_vdevs = (\<lambda>_. Inr vdevs),
      tj_vdev = (\<lambda>_. Inl ''EOF''), tj_pfs = (\<lambda>t. Inr \<lparr>wf_ID = drop 12 t, wf_Name = ''fs'', wf_Offset = 0, wf_VdevIDs = []\<rparr>),
      tj_login = (\<lambda>_. Inl ''EOF''), tj_claims = (\<lambda>_. \<lparr>jc_UserID = [], jc_Username = [], jc_Role = []\<rparr>),
      tj_users = (\<lambda>_. Inl ''EOF''), tj_user = (\<lambda>_. Inl ''EOF''), tj_tenants = (\<lambda>_. Inl ''EOF''), tj_tenant = (\<lambda>_. Inl ''EOF''),
      tj_chunk = (\<lambda>_. Inl ''EOF''), tj_chunks = (\<lambda>_. Inl ''EOF''), tj_reassign = (\<lambda>_. Inl ''EOF''),
      tj_mount = (\<lambda>_. Inl ''EOF''), tj_rbac = (\<lambda>_. Inl ''EOF''), tj_abac = (\<lambda>_. Inl ''EOF'')\<rparr>"

definition demo_tidb :: "wire_nisd list \<Rightarrow> wire_vdev list \<Rightarrow> unit td_env" where
  "demo_tidb nisds vdevs =
     \<lparr>te_NewRequest = (\<lambda>_ _. None), te_Do = (\<lambda>_ url _ _ n. (Inr (200, Inr url), n)), te_js = demo_json nisds vdevs\<rparr>"

lemma demo_sel [simp]:
  "tj_list (te_js (demo_tidb ns vs)) = Inr" "tj_nisds (te_js (demo_tidb ns vs)) = (\<lambda>_. Inr ns)"
  "tj_vdevs (te_js (demo_tidb ns vs)) = (\<lambda>_. Inr vs)"
  "tj_pfs (te_js (demo_tidb ns vs)) = (\<lambda>t. Inr \<lparr>wf_ID = drop 12 t, wf_Name = ''fs'', wf_Offset = 0, wf_VdevIDs = []\<rparr>)"
  by (simp_all add: demo_tidb_def demo_json_def)

lemma demo_do:
  "path \<noteq> [] \<Longrightarrow> q \<noteq> [] \<Longrightarrow> fst body (td_BaseURL c @ path @ ''?'' @ encode_values q) = Inr x \<Longrightarrow>
   td_do (demo_tidb ns vs) m path q None body (c, u) = (Inr x, c, u)"
  by (simp add: demo_tidb_def demo_json_def td_do_def td_bind_def td_ret_def doRaw_def)

lemma demo_list: "(\<And>t. dec t = Inr xs) \<Longrightarrow> td_getResourceList (demo_tidb ns vs) rtype dec (c, u) = (Inr xs, c, u)"
  unfolding td_getResourceList_def td_bind_def resource_query_def
  by (subst demo_do[where x = "td_BaseURL c @ ''/api/resource'' @ ''?'' @ encode_values [(''type'', rtype)]"]) (simp_all add: td_ret_def)

definition lone_disk :: device where
  "lone_disk = \<lparr>d_ID = ''d1'', d_Name = ''sda'', d_DevicePath = ''/dev/sda'', d_SerialNumber = [], d_State = 0, d_Size = 100,
     d_HypervisorID = ''h1'', d_FailureDomain = [], d_Partitions = []\<rparr>"

definition lone_host :: hypervisor where
  "lone_host = \<lparr>h_ID = ''h1'', h_RackID = [], h_Name = ''h1'', h_IPAddrs = [''10.0.0.1''], h_PortRange = ''8000-8009'', h_SSHPort = [],
     h_Dev = [lone_disk], h_RDMAEnabled = False\<rparr>"

abbreviation "lone_target \<equiv> device_target [] [] lone_host lone_disk"
abbreviation "lone_nisd \<equiv> created_nisd ''n1'' lone_target lone_host 8001 8000"

theorem tidb_standalone_nisd_panics_witness:
  "AllocatePortPair ''h2'' ''8000-8009'' ''t'' (Some (tidb_backend (demo_tidb [nisdToWire lone_nisd] []) id)) (td_New ''x'', ())
     = (Panic, td_SetToken ''t'' (td_New ''x''), ())"
proof -
  let ?ev = "demo_tidb [nisdToWire lone_nisd] []" and ?c = "td_SetToken ''t'' (td_New ''x'')"
  have t: "lone_target \<in> set (BuildNISDTargets [] [lone_host] False)"
    by (simp add: BuildNISDTargets_def hv_targets_def lone_host_def)
  have g: "cp_GetNisds (tidb_backend ?ev id) (cp_SetToken (tidb_backend ?ev id) ''t'' (td_New ''x'', ()))
      = (Ret [nisdFromWire (nisdToWire lone_nisd)], ?c, ())"
    by (simp add: tidb_backend_def to_go_def td_GetNisds_def td_map_def td_bind_def td_ret_def demo_list)
  have "trim_space ''8000'' = ''8000''" "trim_space ''8009'' = ''8009''" by (simp_all add: trim_space_def is_space_def)
  moreover have "atoi ''8000'' = (8000, True)" "atoi ''8009'' = (8009, True)" by (simp_all add: atoi_def digit_val_def)
  ultimately have "ParsePortRange ''8000-8009'' = Ret (8000, 8009)" by (simp add: ParsePortRange_def)
  from tidb_standalone_nisd_panics[OF t g _ this] show ?thesis by simp
qed

definition one_vdev :: "string \<Rightarrow> wire_vdev" where
  "one_vdev f = \<lparr>wv_ID = ''v'', wv_Name = ''v'', wv_Size = 1, wv_ChunkCnt = 1, wv_Redundancy = 0, wv_DataBlkCnt = 1, wv_ParityBlkCnt = 0,
     wv_PFSID = (if f = [] then None else Some f), wv_FailureDomain = []\<rparr>"

theorem tidb_GetPFS_lists_witness:
  "\<exists>ps. td_GetPFS (demo_tidb [] [one_vdev ''f1'', one_vdev [], one_vdev ''f1'']) (td_New [], ()) = (Inr ps, td_New [], ())
     \<and> pf_ID ` set ps = {''f1''} \<and> length ps \<le> 1"
proof -
  let ?vs = "[one_vdev ''f1'', one_vdev [], one_vdev ''f1'']"
  let ?ev = "demo_tidb [] ?vs"
  define look where "look = (\<lambda>i. Inr \<lparr>pf_ID = QueryEscape i, pf_Name = ''fs'', pf_Offset = 0, pf_VdevIDs = []\<rparr> :: string + pfs)"
  have v: "td_GetVdevConfigs ?ev (td_New [], ()) = (Inr (map wire_to_vdev ?vs), td_New [], ())"
    by (simp only: td_GetVdevConfigs_def td_map_def td_bind_def td_ret_def demo_list demo_sel) simp
  have look: "getPFSByID ?ev i (td_New [], ()) = (look i, td_New [], ())" for i
  proof -
    have e: "encode_values [(''id'', i)] = ''id='' @ QueryEscape i" by (simp add: encode_values_def QueryEscape_def query_char_def unreserved_def)
    show ?thesis
      unfolding getPFSByID_def td_map_def td_bind_def look_def
      by (subst demo_do[where x = "\<lparr>wf_ID = QueryEscape i, wf_Name = ''fs'', wf_Offset = 0, wf_VdevIDs = []\<rparr>"])
        (simp_all add: e td_New_def td_ret_def)
  qed
  have p: "map v_PFSID (map wire_to_vdev ?vs) = [''f1'', [], ''f1'']" by (simp add: wire_to_vdev_def one_vdev_def)
  have ids: "{v_PFSID v | v. v \<in> set (map wire_to_vdev ?vs)} - {[]} = {''f1''}"
  proof -
    have "{v_PFSID v | v. v \<in> set (map wire_to_vdev ?vs)} = set (map v_PFSID (map wire_to_vdev ?vs))"
      by (simp only: set_map Setcompr_eq_image Collect_mem_eq)
    then show ?thesis unfolding p by auto
  qed
  have q: "QueryEscape ''f1'' = ''f1''" by (simp add: QueryEscape_def query_char_def unreserved_def)
  from tidb_GetPFS_lists[OF v look] obtain ps where ps: "td_GetPFS ?ev (td_New [], ()) = (Inr ps, td_New [], ())"
    "set ps = {p. \<exists>v \<in> set (map wire_to_vdev ?vs). v_PFSID v \<noteq> [] \<and> look (v_PFSID v) = Inr p}" "length ps \<le> 1"
    unfolding ids by auto
  have "pf_ID ` set ps = {''f1''}" unfolding ps(2) by (auto simp: wire_to_vdev_def one_vdev_def look_def q)
  with ps(1,3) show ?thesis by blast
qed

end
