(* ===== verification/Session.thy ===== *)
theory Session
  imports Submit
begin

section \<open>Sessions of the terminal client\<close>

text \<open>
  \<open>niova-ctl/ui/session.go\<close>, \<open>policy.go\<close>, and of \<open>app.go\<close>, \<open>navigation.go\<close> and \<open>update.go\<close> what concerns logins,
  the lists of users, tenants and policies, and the data fetched from the control plane. A command is a
  value of \<open>session_cmd\<close>, which \<open>run_cmd\<close> carries out; it ends in a \<open>session_msg\<close>, which \<open>on_message\<close> handles.
  \<open>CPClient\<close> never changes after the start, so a command may find its capability when it runs. The pages
  are left out; the number of the tab is kept.
\<close>

subsection \<open>policy.go\<close>

definition IsLoggedIn :: "'s app \<Rightarrow> bool" where
  "IsLoggedIn a \<longleftrightarrow> as_User (ap_Auth a) \<noteq> None"

definition backendLabel :: "'s app \<Rightarrow> string" where
  "backendLabel a =
     (if ap_Backend a = BackendMdsvcTidb
      then if ap_MdsvcURL a \<noteq> [] then ''mdsvc-tidb ('' @ ap_MdsvcURL a @ '')'' else ''mdsvc-tidb''
      else if ap_RaftUUID a \<noteq> [] then ''niova-mdsvc ('' @ ap_RaftUUID a @ '')'' else ''niova-mdsvc'')"

definition hasTenantAdminAccess :: "'s app \<Rightarrow> bool" where
  "hasTenantAdminAccess a \<longleftrightarrow> ap_Tenants a \<noteq> None"

definition tenantLabel :: "'s app \<Rightarrow> string" where
  "tenantLabel a =
     (if \<not> IsLoggedIn a \<or> \<not> hasTenantAdminAccess a then []
      else if as_TenantUUID (ap_Auth a) \<noteq> [] then as_TenantUUID (ap_Auth a) else ''default'')"

definition isAdmin :: "'s app \<Rightarrow> bool" where
  "isAdmin a \<longleftrightarrow> (if \<not> ap_AuthEnabled a then True else case as_User (ap_Auth a) of Some u \<Rightarrow> lr_IsAdmin u | None \<Rightarrow> False)"

definition hasResourceAccess :: "'s app \<Rightarrow> bool" where
  "hasResourceAccess a \<longleftrightarrow> (if \<not> ap_AuthEnabled a then True else IsLoggedIn a)"

definition hasAuthzAccess :: "'s app \<Rightarrow> bool" where
  "hasAuthzAccess a \<longleftrightarrow> isAdmin a \<and> ap_Authz a \<noteq> None"

definition canRefreshCPData :: "'s app \<Rightarrow> bool" where
  "canRefreshCPData a \<longleftrightarrow> ap_CPClient a \<noteq> None \<and> (\<not> ap_AuthEnabled a \<or> IsLoggedIn a)"

definition tabRequiresAdmin :: "int \<Rightarrow> bool" where
  "tabRequiresAdmin tab \<longleftrightarrow> tab \<in> {1, 2, 3, 4, 6, 8, 9}"

definition CalculateMetrics :: "'s app \<Rightarrow> cluster_metrics" where
  "CalculateMetrics a =
     (let hvs = AllHypervisors a in
      \<lparr>cm_PDUCount = length (ap_PDUs a), cm_RackCount = length (ap_Racks a), cm_HypervisorCount = length hvs,
       cm_DeviceCount = sum_list (map (\<lambda>h. length (h_Dev h)) hvs),
       cm_PartitionCount = sum_list (map (\<lambda>h. sum_list (map (\<lambda>d. length (d_Partitions d)) (h_Dev h))) hvs),
       cm_NISDCount = length (ap_NISDs a), cm_VdevCount = length (ap_Vdevs a), cm_PFSCount = length (ap_PFSs a)\<rparr>)"

definition clearAuthSession :: "'s app \<Rightarrow> 's app" where
  "clearAuthSession a = a\<lparr>ap_Auth := no_session\<rparr>"

definition clearTenantAdminSession :: "'s app \<Rightarrow> 's app" where
  "clearTenantAdminSession a = a\<lparr>ap_TenantToken := [], ap_TenantUsername := []\<rparr>"

definition EnsureUserClient :: "'s ui_env \<Rightarrow> 's app \<Rightarrow> string option \<times> 's app" where
  "EnsureUserClient env a =
     (if ap_UserClient a \<noteq> None then (None, a)
      else if ap_Backend a = BackendMdsvcTidb then (Some ''mdsvc-tidb client not initialized'', a)
      else if ap_RaftUUID a = [] \<or> ap_GossipPath a = []
        then (Some ''failed to initialize user client (missing raft UUID or gossip path)'', a)
      else (None, a\<lparr>ap_UserClient := Some (ue_user_client env)\<rparr>))"

subsection \<open>Commands\<close>

record refreshed =
  rd_PDUs :: "pdu list"
  rd_Racks :: "rack list"
  rd_HVs :: "hypervisor list"
  rd_Nisds :: "nisd list"
  rd_Vdevs :: "vdev_config list"
  rd_PFSs :: "pfs list"

datatype session_cmd =
    RefreshCmd
  | ListUsersCmd
  | ListTenantsCmd string
  | ListPoliciesCmd
  | LoginCmd string string string
  | CreateUserCmd user_req
  | TenantLoginCmd string string
  | CreateTenantCmd string string
  | AddPolicyCmd authz_target

datatype session_msg =
    DataRefreshed "string + refreshed"
  | UsersLoaded "string + user_resp list"
  | TenantsLoaded "string + tenant_info list"
  | AuthzLoaded "string + rbac_policy list \<times> abac_policy list"
  | UserLoggedIn "string + login_resp option" string string string
  | UserCreated "string + user_resp"
  | TenantAdminLoggedIn "string + string \<times> int" string
  | TenantCreated "string + tenant_create_result"
  | AuthzPolicySaved "string option"

type_synonym 's run = "'s ui \<Rightarrow> (session_msg \<times> 's ui) go"

text \<open>A list that cannot be read is empty, with a warning.\<close>

definition or_none :: "'x list go \<times> 's \<Rightarrow> ('x list \<times> 's) go" where
  "or_none r = (case r of (Ret xs, s) \<Rightarrow> Ret (xs, s) | (Fail err, s) \<Rightarrow> Ret ([], s) | (Panic, s) \<Rightarrow> Panic)"

text \<open>When it is not safe to ask, the answer is empty lists and no error.\<close>

definition refresh_cmd :: "'s ui_env \<Rightarrow> 's run" where
  "refresh_cmd env st =
     (if \<not> canRefreshCPData (fst st)
      then Ret (DataRefreshed (Inr \<lparr>rd_PDUs = [], rd_Racks = [], rd_HVs = [], rd_Nisds = [], rd_Vdevs = [], rd_PFSs = []\<rparr>), st)
      else case UserToken env st of (token, a, s) \<Rightarrow>
        (case ap_CPClient a of
           None \<Rightarrow> Panic
         | Some cl \<Rightarrow>
             (case cp_RefreshTopology cl token s of
                (Panic, s1) \<Rightarrow> Panic
              | (Fail err, s1) \<Rightarrow> Ret (DataRefreshed (Inl err), a, s1)
              | (Ret (pdus, racks, hvs), s1) \<Rightarrow>
                  go_bind (or_none (cp_GetNisds cl (cp_SetToken cl token s1))) (\<lambda>(nisds, s2).
                  go_bind (or_none (cp_GetVdevConfigs cl s2)) (\<lambda>(vdevs, s3).
                  go_bind (or_none (cp_GetPFS cl s3)) (\<lambda>(pfss, s4).
                    Ret (DataRefreshed (Inr \<lparr>rd_PDUs = pdus, rd_Racks = racks, rd_HVs = hvs, rd_Nisds = nisds, rd_Vdevs = vdevs,
                           rd_PFSs = pfss\<rparr>), a, s4)))))))"

definition list_users_cmd :: "'s ui_env \<Rightarrow> 's run" where
  "list_users_cmd env st =
     (case UserToken env st of (token, a, s) \<Rightarrow>
       (case ap_UserClient a of
          None \<Rightarrow> Panic
        | Some uc \<Rightarrow> (case us_ListUsers uc token s of (r, s1) \<Rightarrow> Ret (UsersLoaded r, a, s1))))"

definition list_tenants_cmd :: "string \<Rightarrow> 's run" where
  "list_tenants_cmd token = (\<lambda>(a, s).
     case ap_Tenants a of
       None \<Rightarrow> Panic
     | Some tm \<Rightarrow> (case tm_ListTenants tm token s of (r, s1) \<Rightarrow> Ret (TenantsLoaded r, a, s1)))"

definition list_policies_cmd :: "'s run" where
  "list_policies_cmd = (\<lambda>(a, s).
     case ap_Authz a of
       None \<Rightarrow> Panic
     | Some am \<Rightarrow>
         (case am_ListRBACPolicies am s of
            (Inl err, s1) \<Rightarrow> Ret (AuthzLoaded (Inl (''failed to list RBAC policies: '' @ err)), a, s1)
          | (Inr rbac, s1) \<Rightarrow>
              (case am_ListABACPolicies am s1 of
                 (Inl err, s2) \<Rightarrow> Ret (AuthzLoaded (Inl (''failed to list ABAC policies: '' @ err)), a, s2)
               | (Inr abac, s2) \<Rightarrow> Ret (AuthzLoaded (Inr (rbac, abac)), a, s2))))"

definition login_cmd :: "string \<Rightarrow> string \<Rightarrow> string \<Rightarrow> 's run" where
  "login_cmd username secretKey tenantUUID = (\<lambda>(a, s).
     case ap_UserClient a of
       None \<Rightarrow> Panic
     | Some uc \<Rightarrow> (case us_LoginWithTenant uc username secretKey tenantUUID s of
         (r, s1) \<Rightarrow> Ret (UserLoggedIn r username secretKey tenantUUID, a, s1)))"

definition create_user_cmd :: "'s ui_env \<Rightarrow> user_req \<Rightarrow> 's run" where
  "create_user_cmd env req st =
     (case ap_UserClient (fst st) of
        None \<Rightarrow> Panic
      | Some uc \<Rightarrow>
          if \<not> IsLoggedIn (fst st)
          then case us_CreateAdminUser uc req (snd st) of (r, s1) \<Rightarrow> Ret (UserCreated r, fst st, s1)
          else case UserToken env st of (token, a, s) \<Rightarrow> (case us_CreateUser uc token req s of (r, s1) \<Rightarrow> Ret (UserCreated r, a, s1)))"

definition tenant_login_cmd :: "string \<Rightarrow> string \<Rightarrow> 's run" where
  "tenant_login_cmd username password = (\<lambda>(a, s).
     case ap_Tenants a of
       None \<Rightarrow> Panic
     | Some tm \<Rightarrow> (case tm_TenantAdminLogin tm username password s of (r, s1) \<Rightarrow> Ret (TenantAdminLoggedIn r username, a, s1)))"

definition create_tenant_cmd :: "string \<Rightarrow> string \<Rightarrow> 's run" where
  "create_tenant_cmd token displayName = (\<lambda>(a, s).
     case ap_Tenants a of
       None \<Rightarrow> Panic
     | Some tm \<Rightarrow> (case tm_CreateTenant tm token displayName s of (r, s1) \<Rightarrow> Ret (TenantCreated r, a, s1)))"

definition add_policy_cmd :: "authz_target \<Rightarrow> 's run" where
  "add_policy_cmd target = (\<lambda>(a, s).
     case ap_Authz a of
       None \<Rightarrow> Panic
     | Some am \<Rightarrow>
         (case (case target of RBACTarget p \<Rightarrow> am_AddRBACPolicy am p | ABACTarget p \<Rightarrow> am_AddABACPolicy am p) s of
            (err, s1) \<Rightarrow> Ret (AuthzPolicySaved err, a, s1)))"

definition run_cmd :: "'s ui_env \<Rightarrow> session_cmd \<Rightarrow> 's run" where
  "run_cmd env cmd =
     (case cmd of
        RefreshCmd \<Rightarrow> refresh_cmd env
      | ListUsersCmd \<Rightarrow> list_users_cmd env
      | ListTenantsCmd token \<Rightarrow> list_tenants_cmd token
      | ListPoliciesCmd \<Rightarrow> list_policies_cmd
      | LoginCmd u k t \<Rightarrow> login_cmd u k t
      | CreateUserCmd req \<Rightarrow> create_user_cmd env req
      | TenantLoginCmd u p \<Rightarrow> tenant_login_cmd u p
      | CreateTenantCmd token n \<Rightarrow> create_tenant_cmd token n
      | AddPolicyCmd target \<Rightarrow> add_policy_cmd target)"

subsection \<open>Tabs: session.go and navigation.go\<close>

text \<open>A handler gives the new state and the command it returns, if any. It may panic.\<close>

type_synonym 's switch = "'s ui \<Rightarrow> ('s ui \<times> session_cmd option) go"

definition loadUsersView :: "'s ui_env \<Rightarrow> 's switch" where
  "loadUsersView env = (\<lambda>(a0, s).
     let a = a0\<lparr>ap_ActiveTab := 0\<rparr> in
     if \<not> isAdmin a then Ret ((status StatusError ''Error: admin role required to view user accounts'' a, s), None)
     else case EnsureUserClient env a of
       (Some err, a1) \<Rightarrow> Ret ((status StatusError err a1, s), None)
     | (None, a1) \<Rightarrow> Ret ((a1, s), Some ListUsersCmd))"

abbreviation no_tenants :: string where
  "no_tenants \<equiv> ''Tenant management is only available against the mdsvc-tidb backend''"

abbreviation no_tenant_login :: string where
  "no_tenant_login \<equiv> ''Not logged in as tenant-admin '' @ map char_of [226, 128, 148 :: nat] @ '' run :tenant-login first''"

abbreviation no_policies :: string where
  "no_policies \<equiv> ''Authorization policy management is only available against the mdsvc-tidb backend''"

definition loadTenantsView :: "'s switch" where
  "loadTenantsView = (\<lambda>(a0, s).
     let a = a0\<lparr>ap_ActiveTab := 10\<rparr> in
     if ap_Tenants a = None then Ret ((status StatusError no_tenants a, s), None)
     else if ap_TenantToken a = [] then Ret ((status StatusError no_tenant_login a, s), None)
     else Ret ((a, s), Some (ListTenantsCmd (ap_TenantToken a))))"

text \<open>The token is set before the command is returned.\<close>

definition loadAuthzView :: "'s ui_env \<Rightarrow> 's switch" where
  "loadAuthzView env st =
     (if \<not> isAdmin (fst st)
      then Ret ((status StatusError ''Error: admin role required to manage authorization policies'' (fst st), snd st), None)
      else if ap_Authz (fst st) = None then Ret ((status StatusError no_policies (fst st), snd st), None)
      else go_bind (with_token env st) (\<lambda>(_, st1). Ret (st1, Some ListPoliciesCmd)))"

definition SwitchToTab :: "'s ui_env \<Rightarrow> int \<Rightarrow> 's switch" where
  "SwitchToTab env tab st =
     (if 1 \<le> tab \<and> tab \<le> 9 \<and> ap_AuthEnabled (fst st) \<and> \<not> IsLoggedIn (fst st)
      then Ret ((status StatusError ''Error: Authentication required to view storage resources'' (fst st), snd st), None)
      else let st1 = ((fst st)\<lparr>ap_ActiveTab := tab\<rparr>, snd st) in
        if tab = 0 then loadUsersView env st1
        else if tab = 10 then loadTenantsView st1
        else if tab = 11 then loadAuthzView env st1
        else Ret (st1, None))"

definition cancelForm :: "'s ui_env \<Rightarrow> 's switch" where
  "cancelForm env st =
     (if \<not> IsLoggedIn (fst st) then Ret (st, None) else SwitchToTab env (ap_ActiveTab (fst st)) st)"

definition GetAvailableTabSequence :: "'s app \<Rightarrow> int list" where
  "GetAvailableTabSequence a =
     (let seq = (if IsLoggedIn a then [1, 2, 3, 4, 5, 6, 7, 8, 9] @ (if isAdmin a then [0] else []) else [])
                @ (if ap_TenantToken a \<noteq> [] then [10] else [])
                @ (if IsLoggedIn a \<and> hasAuthzAccess a then [11] else [])
      in if seq = [] then [0] else seq)"

text \<open>The place of the tab in a list, 0 when it is not there.\<close>

fun tab_index :: "int \<Rightarrow> int list \<Rightarrow> nat option" where
  "tab_index tab [] = None"
| "tab_index tab (t # ts) = (if t = tab then Some 0 else map_option Suc (tab_index tab ts))"

definition current_index :: "'s app \<Rightarrow> nat" where
  "current_index a = (case tab_index (ap_ActiveTab a) (GetAvailableTabSequence a) of Some i \<Rightarrow> i | None \<Rightarrow> 0)"

definition NextTab :: "'s ui_env \<Rightarrow> 's switch" where
  "NextTab env st =
     (let seq = GetAvailableTabSequence (fst st)
      in SwitchToTab env (seq ! ((current_index (fst st) + 1) mod length seq)) st)"

definition PrevTab :: "'s ui_env \<Rightarrow> 's switch" where
  "PrevTab env st =
     (let seq = GetAvailableTabSequence (fst st)
      in SwitchToTab env (seq ! ((current_index (fst st) + length seq - 1) mod length seq)) st)"

subsection \<open>Messages: update.go\<close>

text \<open>The handlers of messages give the commands they return, in order.\<close>

type_synonym 's handle = "'s ui \<Rightarrow> ('s ui \<times> session_cmd list) go"

definition then_switch :: "session_cmd list \<Rightarrow> 's switch \<Rightarrow> 's handle" where
  "then_switch cmds sw st = go_bind (sw st) (\<lambda>(st1, c). Ret (st1, cmds @ (case c of Some x \<Rightarrow> [x] | None \<Rightarrow> [])))"

text \<open>\<open>busy\<close>: the page is a form or an open inspection, which is not replaced.\<close>

definition data_refreshed :: "'s ui_env \<Rightarrow> bool \<Rightarrow> string + refreshed \<Rightarrow> 's handle" where
  "data_refreshed env busy r = (\<lambda>(a0, s).
     let a = a0\<lparr>ap_Loading := False\<rparr> in
     case r of
       Inl err \<Rightarrow> Ret ((status StatusError (''Failed to refresh: '' @ err) a, s), [])
     | Inr d \<Rightarrow>
         (let a1 = a\<lparr>ap_PDUs := rd_PDUs d, ap_Racks := rd_Racks d, ap_StandaloneHVs := rd_HVs d, ap_NISDs := rd_Nisds d,
                      ap_Vdevs := rd_Vdevs d, ap_PFSs := rd_PFSs d\<rparr>;
              a2 = status StatusSuccess ''Data refreshed successfully!'' (a1\<lparr>ap_Metrics := CalculateMetrics a1\<rparr>);
              tab = ap_ActiveTab a2
          in if tab = 0 then then_switch [] (loadUsersView env) (a2, s)
             else if tab = 10 then then_switch [] loadTenantsView (a2, s)
             else if tab = 11 then then_switch [] (loadAuthzView env) (a2, s)
             else if 1 \<le> tab \<and> tab \<le> 9 \<and> \<not> busy then then_switch [] (cancelForm env) (a2, s)
             else Ret ((a2, s), [])))"

definition users_loaded :: "string + user_resp list \<Rightarrow> 's handle" where
  "users_loaded r = (\<lambda>(a, s).
     Ret ((case r of Inl err \<Rightarrow> status StatusError (''Failed to list users: '' @ err) a | Inr us \<Rightarrow> a\<lparr>ap_StatusMsg := []\<rparr>, s), []))"

definition tenants_loaded :: "string + tenant_info list \<Rightarrow> 's handle" where
  "tenants_loaded r = (\<lambda>(a, s).
     Ret ((case r of Inl err \<Rightarrow> status StatusError (''Failed to list tenants: '' @ err) a | Inr ts \<Rightarrow> a\<lparr>ap_StatusMsg := []\<rparr>, s), []))"

definition authz_loaded :: "string + rbac_policy list \<times> abac_policy list \<Rightarrow> 's handle" where
  "authz_loaded r = (\<lambda>(a, s).
     Ret ((case r of Inl err \<Rightarrow> status StatusError err a | Inr ps \<Rightarrow> a\<lparr>ap_ActiveTab := 11, ap_StatusMsg := []\<rparr>, s), []))"

text \<open>A response that is \<open>nil\<close> without an error panics.\<close>

definition user_logged_in :: "'s ui_env \<Rightarrow> string + login_resp option \<Rightarrow> string \<Rightarrow> string \<Rightarrow> string \<Rightarrow> 's handle" where
  "user_logged_in env r username secretKey tenantUUID = (\<lambda>(a, s).
     case r of
       Inl err \<Rightarrow> Ret ((status StatusError (''Login failed: '' @ err) a, s), [])
     | Inr None \<Rightarrow> Panic
     | Inr (Some resp) \<Rightarrow>
         (let auth = \<lparr>as_User = Some resp, as_Username = username, as_SecretKey = secretKey, as_TenantUUID = tenantUUID,
                      as_LoginTime = ue_now env s\<rparr>;
              a1 = clearTenantAdminSession (a\<lparr>ap_Auth := auth\<rparr>);
              a2 = status StatusSuccess (''Successfully logged in as '' @ lr_Username resp
                     @ (if tenantUUID \<noteq> [] then '' (Tenant: '' @ tenantUUID @ '')'' else [])) a1
          in case ap_CPClient a2 of
               None \<Rightarrow> then_switch [] (SwitchToTab env 1) (a2, s)
             | Some cl \<Rightarrow> then_switch [RefreshCmd] (SwitchToTab env 1) (a2, cp_SetToken cl (lr_AccessToken resp) s)))"

definition user_created :: "string + user_resp \<Rightarrow> 's handle" where
  "user_created r = (\<lambda>(a, s).
     Ret ((case r of Inl err \<Rightarrow> status StatusError (''User creation failed: '' @ err) a
          | Inr u \<Rightarrow> status StatusSuccess ''User created successfully!'' a, s), []))"

definition tenant_admin_logged_in :: "string + string \<times> int \<Rightarrow> string \<Rightarrow> 's handle" where
  "tenant_admin_logged_in r username = (\<lambda>(a, s).
     case r of
       Inl err \<Rightarrow> Ret ((status StatusError (''Tenant-admin login failed: '' @ err) a, s), [])
     | Inr (token, expiresIn) \<Rightarrow>
         (let a1 = clearAuthSession a;
              s1 = (case ap_CPClient a1 of Some cl \<Rightarrow> cp_SetToken cl [] s | None \<Rightarrow> s);
              a2 = status StatusSuccess (''Logged in as tenant-admin '' @ username) (a1\<lparr>ap_TenantToken := token, ap_TenantUsername := username\<rparr>)
          in then_switch [] loadTenantsView (a2, s1)))"

definition tenant_created :: "string + tenant_create_result \<Rightarrow> 's handle" where
  "tenant_created r = (\<lambda>(a, s).
     Ret ((case r of Inl err \<Rightarrow> status StatusError (''Tenant creation failed: '' @ err) a
          | Inr t \<Rightarrow> status StatusSuccess ''Tenant created successfully!'' a, s), []))"

definition authz_policy_saved :: "'s ui_env \<Rightarrow> string option \<Rightarrow> 's handle" where
  "authz_policy_saved env r = (\<lambda>(a, s).
     case r of
       Some err \<Rightarrow> Ret ((status StatusError (''Failed to save policy: '' @ err) a, s), [])
     | None \<Rightarrow> then_switch [] (loadAuthzView env) (status StatusSuccess ''Policy saved.'' a, s))"

definition on_message :: "'s ui_env \<Rightarrow> bool \<Rightarrow> session_msg \<Rightarrow> 's handle" where
  "on_message env busy msg =
     (case msg of
        DataRefreshed r \<Rightarrow> data_refreshed env busy r
      | UsersLoaded r \<Rightarrow> users_loaded r
      | TenantsLoaded r \<Rightarrow> tenants_loaded r
      | AuthzLoaded r \<Rightarrow> authz_loaded r
      | UserLoggedIn r u k t \<Rightarrow> user_logged_in env r u k t
      | UserCreated r \<Rightarrow> user_created r
      | TenantAdminLoggedIn r u \<Rightarrow> tenant_admin_logged_in r u
      | TenantCreated r \<Rightarrow> tenant_created r
      | AuthzPolicySaved r \<Rightarrow> authz_policy_saved env r)"

subsection \<open>What the operator asks for\<close>

datatype request =
    SubmitUserLogin string string string
  | SubmitUserCreate string string bool
  | SubmitTenantAdminLogin string string
  | SubmitTenantCreate string
  | SubmitAuthzPolicy authz_target
  | Switch int
  | Next
  | Prev
  | CancelForm
  | LoadUsers
  | LoadTenants
  | LoadAuthz
  | Refresh

definition submit_user_login :: "'s ui_env \<Rightarrow> string \<Rightarrow> string \<Rightarrow> string \<Rightarrow> 's switch" where
  "submit_user_login env username secretKey tenantUUID = (\<lambda>(a, s).
     case EnsureUserClient env a of
       (Some err, a1) \<Rightarrow> Ret ((status StatusError err a1, s), None)
     | (None, a1) \<Rightarrow> Ret ((a1, s), Some (LoginCmd username secretKey tenantUUID)))"

definition submit_user_create :: "'s ui_env \<Rightarrow> string \<Rightarrow> string \<Rightarrow> bool \<Rightarrow> 's switch" where
  "submit_user_create env username secretKey admin = (\<lambda>(a, s).
     case EnsureUserClient env a of
       (Some err, a1) \<Rightarrow> Ret ((status StatusError err a1, s), None)
     | (None, a1) \<Rightarrow> Ret ((a1, s), Some (CreateUserCmd
         \<lparr>uq_Username = username, uq_UserID = [], uq_NewSecretKey = secretKey, uq_IsUpdate = False, uq_IsAdmin = admin\<rparr>)))"

definition submit_tenant_admin_login :: "string \<Rightarrow> string \<Rightarrow> 's switch" where
  "submit_tenant_admin_login username password = (\<lambda>(a, s).
     if ap_Tenants a = None then Ret ((status StatusError no_tenants a, s), None)
     else Ret ((a, s), Some (TenantLoginCmd username password)))"

definition submit_tenant_create :: "string \<Rightarrow> 's switch" where
  "submit_tenant_create displayName = (\<lambda>(a, s).
     if ap_Tenants a = None then Ret ((status StatusError no_tenants a, s), None)
     else if ap_TenantToken a = [] then Ret ((status StatusError no_tenant_login a, s), None)
     else Ret ((a, s), Some (CreateTenantCmd (ap_TenantToken a) displayName)))"

definition submit_authz_policy :: "'s ui_env \<Rightarrow> authz_target \<Rightarrow> 's switch" where
  "submit_authz_policy env target st =
     (if ap_Authz (fst st) = None then Ret ((status StatusError no_policies (fst st), snd st), None)
      else go_bind (with_token env st) (\<lambda>(_, st1). Ret (st1, Some (AddPolicyCmd target))))"

text \<open>The key that refreshes.\<close>

definition refresh_key :: "'s switch" where
  "refresh_key = (\<lambda>(a, s).
     if canRefreshCPData a
     then Ret (((status StatusInfo ''Refreshing topology and metrics...'' a)\<lparr>ap_Loading := True\<rparr>, s), Some RefreshCmd)
     else Ret ((a, s), None))"

definition on_request :: "'s ui_env \<Rightarrow> request \<Rightarrow> 's switch" where
  "on_request env req =
     (case req of
        SubmitUserLogin u k t \<Rightarrow> submit_user_login env u k t
      | SubmitUserCreate u k admin \<Rightarrow> submit_user_create env u k admin
      | SubmitTenantAdminLogin u p \<Rightarrow> submit_tenant_admin_login u p
      | SubmitTenantCreate n \<Rightarrow> submit_tenant_create n
      | SubmitAuthzPolicy t \<Rightarrow> submit_authz_policy env t
      | Switch tab \<Rightarrow> SwitchToTab env tab
      | Next \<Rightarrow> NextTab env
      | Prev \<Rightarrow> PrevTab env
      | CancelForm \<Rightarrow> cancelForm env
      | LoadUsers \<Rightarrow> loadUsersView env
      | LoadTenants \<Rightarrow> loadTenantsView
      | LoadAuthz \<Rightarrow> loadAuthzView env
      | Refresh \<Rightarrow> refresh_key)"

text \<open>
  The program as a step relation: the operator asks for something, a pending command runs beside \<open>Update\<close> and
  leaves its message, a message is handled. Commands and messages come in any order.
\<close>

type_synonym 's session = "'s ui \<times> session_cmd list \<times> session_msg list"

inductive session_step :: "'s ui_env \<Rightarrow> 's session \<Rightarrow> 's session \<Rightarrow> bool" for env where
  asked: "on_request env req st = Ret (st1, c) \<Longrightarrow>
    session_step env (st, cmds, msgs) (st1, (case c of Some x \<Rightarrow> x # cmds | None \<Rightarrow> cmds), msgs)"
| ran: "c \<in> set cmds \<Longrightarrow> run_cmd env c st = Ret (m, st1) \<Longrightarrow>
    session_step env (st, cmds, msgs) (st1, remove1 c cmds, m # msgs)"
| handled: "m \<in> set msgs \<Longrightarrow> on_message env busy m st = Ret (st1, cs) \<Longrightarrow>
    session_step env (st, cmds, msgs) (st1, cs @ cmds, remove1 m msgs)"

subsection \<open>The start: app.go\<close>

text \<open>
  The two backends as \<open>NewApp\<close> makes them: the second with its interfaces and the outcome of \<open>ProbeAuth\<close>, the
  first with that of \<open>ProbeServerAuth\<close> or, when it cannot be made, not at all. A probe that fails counts as
  authentication switched off.
\<close>

record 's backends =
  bk_tidb :: "'s cp_client"
  bk_tenants :: "'s tenant_manager"
  bk_authz :: "'s authz_manager"
  bk_users :: "'s user_service"
  bk_probe :: "string + bool"
  bk_pumice :: "('s cp_client \<times> bool) option"

definition NewApp :: "bool \<Rightarrow> string \<Rightarrow> string \<Rightarrow> string \<Rightarrow> 's backends \<Rightarrow> 's app" where
  "NewApp cpEnabled raftUUID gossipPath mdsvcURL bk =
     (let tidb = (mdsvcURL \<noteq> []); pumice = (if \<not> tidb \<and> cpEnabled then bk_pumice bk else None) in
      \<lparr>ap_CPClient = (if tidb then Some (bk_tidb bk) else map_option fst pumice),
       ap_Tenants = (if tidb then Some (bk_tenants bk) else None), ap_Authz = (if tidb then Some (bk_authz bk) else None),
       ap_UserClient = (if tidb then Some (bk_users bk) else None), ap_Auth = no_session, ap_TenantToken = [],
       ap_TenantUsername = [], ap_Backend = (if tidb then BackendMdsvcTidb else BackendMdsvcPumice), ap_RaftUUID = raftUUID,
       ap_GossipPath = gossipPath, ap_MdsvcURL = mdsvcURL,
       ap_AuthEnabled = (if tidb then (case bk_probe bk of Inr enabled \<Rightarrow> enabled | Inl err \<Rightarrow> False)
                         else case pumice of Some (_, auth) \<Rightarrow> auth | None \<Rightarrow> False),
       ap_ActiveTab = 1, ap_PDUs = [], ap_Racks = [], ap_StandaloneHVs = [], ap_NISDs = [], ap_Vdevs = [], ap_PFSs = [],
       ap_Metrics = zero_metrics, ap_StatusMsg = [], ap_StatusType = StatusInfo, ap_Loading = False,
       ap_ConfirmDialog = \<lparr>dg_Title = [], dg_Message = [], dg_Details = [], dg_Type = ConfirmTypeInfo, dg_ActionID = [],
         dg_Data = D_None, dg_Selection = False, dg_Active = False\<rparr>, ap_uuids = 0\<rparr>)"

text \<open>The command a starting program runs.\<close>

definition Init_app :: "'s app \<Rightarrow> 's app \<times> session_cmd list" where
  "Init_app a = (if ap_AuthEnabled a \<and> \<not> IsLoggedIn a then (a, []) else (a\<lparr>ap_Loading := True\<rparr>, [RefreshCmd]))"

inductive reachable :: "'s ui_env \<Rightarrow> 's session \<Rightarrow> bool" for env where
  started: "Init_app (NewApp cpEnabled raftUUID gossipPath mdsvcURL bk) = (a, cmds) \<Longrightarrow> reachable env ((a, s), cmds, [])"
| stepped: "reachable env x \<Longrightarrow> session_step env x y \<Longrightarrow> reachable env y"

end
