(* ===== verification/SessionSpec.thy ===== *)
theory SessionSpec
  imports Session
begin

section \<open>Properties of the sessions\<close>

subsection \<open>What a step keeps\<close>

text \<open>What stays when only the status line, the tab, the loading flag or the user client changes.\<close>

named_theorems session_steps

definition session_inv :: "'s app \<Rightarrow> bool" where
  "session_inv a \<longleftrightarrow>
     (as_User (ap_Auth a) = None \<longrightarrow> ap_Auth a = no_session)
     \<and> (as_User (ap_Auth a) \<noteq> None \<longrightarrow> ap_TenantToken a = [] \<and> ap_TenantUsername a = [])
     \<and> ap_Metrics a = CalculateMetrics a"

lemma status_fields [simp]:
  "ap_Auth (status t m a) = ap_Auth a" "ap_TenantToken (status t m a) = ap_TenantToken a"
  "ap_TenantUsername (status t m a) = ap_TenantUsername a" "ap_Metrics (status t m a) = ap_Metrics a"
  "ap_Tenants (status t m a) = ap_Tenants a" "ap_Authz (status t m a) = ap_Authz a" "ap_CPClient (status t m a) = ap_CPClient a"
  "ap_AuthEnabled (status t m a) = ap_AuthEnabled a" "ap_ActiveTab (status t m a) = ap_ActiveTab a"
  "CalculateMetrics (status t m a) = CalculateMetrics a" "ap_UserClient (status t m a) = ap_UserClient a"
  by (simp_all add: status_def CalculateMetrics_def AllHypervisors_def)

lemma CalculateMetrics_other [simp]:
  "CalculateMetrics (a\<lparr>ap_Auth := x\<rparr>) = CalculateMetrics a" "CalculateMetrics (a\<lparr>ap_TenantToken := t\<rparr>) = CalculateMetrics a"
  "CalculateMetrics (a\<lparr>ap_TenantUsername := t\<rparr>) = CalculateMetrics a" "CalculateMetrics (a\<lparr>ap_UserClient := u\<rparr>) = CalculateMetrics a"
  "CalculateMetrics (a\<lparr>ap_ActiveTab := n\<rparr>) = CalculateMetrics a" "CalculateMetrics (a\<lparr>ap_Loading := b\<rparr>) = CalculateMetrics a"
  "CalculateMetrics (a\<lparr>ap_StatusMsg := m\<rparr>) = CalculateMetrics a" "CalculateMetrics (a\<lparr>ap_Metrics := c\<rparr>) = CalculateMetrics a"
  by (simp_all add: CalculateMetrics_def AllHypervisors_def)

lemma session_inv_other [simp]:
  "session_inv (status t m a) = session_inv a" "session_inv (a\<lparr>ap_UserClient := u\<rparr>) = session_inv a"
  "session_inv (a\<lparr>ap_ActiveTab := n\<rparr>) = session_inv a" "session_inv (a\<lparr>ap_Loading := b\<rparr>) = session_inv a"
  "session_inv (a\<lparr>ap_StatusMsg := m'\<rparr>) = session_inv a"
  by (simp_all add: session_inv_def)

lemma EnsureTokenValid_inv [session_steps]:
  assumes "session_inv a" and "EnsureTokenValid env (a, s) = (a1, s1)"
  shows "session_inv a1"
  using assms unfolding EnsureTokenValid_def
  by (auto simp: Let_def session_inv_def split: option.splits prod.splits sum.splits if_splits)

lemma UserToken_inv [session_steps]: "session_inv a \<Longrightarrow> UserToken env (a, s) = (t, a1, s1) \<Longrightarrow> session_inv a1"
  by (cases "EnsureTokenValid env (a, s)") (auto simp: UserToken_def Let_def dest: EnsureTokenValid_inv)

lemma with_token_inv [session_steps]: "session_inv a \<Longrightarrow> with_token env (a, s) = Ret (cl, a1, s1) \<Longrightarrow> session_inv a1"
  by (cases "UserToken env (a, s)") (auto simp: with_token_def dest: UserToken_inv split: option.splits)

lemma EnsureUserClient_inv [session_steps]: "session_inv a \<Longrightarrow> EnsureUserClient env a = (e, a1) \<Longrightarrow> session_inv a1"
  by (auto simp: EnsureUserClient_def split: if_splits)

text \<open>No user, no token, and no change.\<close>

lemma UserToken_logged_out: "as_User (ap_Auth a) = None \<Longrightarrow> UserToken env (a, s) = ([], a, s)"
  by (simp add: UserToken_def EnsureTokenValid_def Let_def)

subsection \<open>Every step\<close>

lemma loadUsersView_inv [session_steps]:
  "session_inv a \<Longrightarrow> loadUsersView env (a, s) = Ret ((a1, s1), c) \<Longrightarrow> session_inv a1"
  by (cases "EnsureUserClient env (a\<lparr>ap_ActiveTab := 0\<rparr>)")
    (auto simp: loadUsersView_def Let_def dest!: EnsureUserClient_inv[rotated] split: if_splits option.splits)

lemma loadTenantsView_inv [session_steps]:
  "session_inv a \<Longrightarrow> loadTenantsView (a, s) = Ret ((a1, s1), c) \<Longrightarrow> session_inv a1"
  by (auto simp: loadTenantsView_def Let_def split: if_splits)

lemma loadAuthzView_inv [session_steps]:
  "session_inv a \<Longrightarrow> loadAuthzView env (a, s) = Ret ((a1, s1), c) \<Longrightarrow> session_inv a1"
  by (cases "with_token env (a, s)") (auto simp: loadAuthzView_def dest: with_token_inv split: if_splits)

lemma SwitchToTab_inv [session_steps]:
  "session_inv a \<Longrightarrow> SwitchToTab env tab (a, s) = Ret ((a1, s1), c) \<Longrightarrow> session_inv a1"
  by (auto simp: SwitchToTab_def Let_def split: if_splits
      dest: loadUsersView_inv[rotated] loadTenantsView_inv[rotated] loadAuthzView_inv[rotated])

lemma cancelForm_inv [session_steps]:
  "session_inv a \<Longrightarrow> cancelForm env (a, s) = Ret ((a1, s1), c) \<Longrightarrow> session_inv a1"
  by (auto simp: cancelForm_def dest: SwitchToTab_inv split: if_splits)

lemma then_switch_inv:
  assumes "\<And>s1 c a1. sw (a, s) = Ret ((a1, s1), c) \<Longrightarrow> session_inv a1" and "then_switch cmds sw (a, s) = Ret ((a1, s1), cs)"
  shows "session_inv a1"
  using assms by (cases "sw (a, s)") (auto simp: then_switch_def)

lemma on_request_inv:
  assumes "session_inv a" and "on_request env req (a, s) = Ret ((a1, s1), c)"
  shows "session_inv a1"
proof (cases req)
  case (SubmitUserLogin u k t)
  with assms show ?thesis
    by (cases "EnsureUserClient env a") (auto simp: on_request_def submit_user_login_def dest: EnsureUserClient_inv split: option.splits)
next
  case (SubmitUserCreate u k b)
  with assms show ?thesis
    by (cases "EnsureUserClient env a") (auto simp: on_request_def submit_user_create_def dest: EnsureUserClient_inv split: option.splits)
next
  case (SubmitAuthzPolicy t)
  with assms show ?thesis
    by (cases "with_token env (a, s)") (auto simp: on_request_def submit_authz_policy_def dest: with_token_inv split: if_splits)
qed (use assms in \<open>auto simp: on_request_def submit_tenant_admin_login_def submit_tenant_create_def refresh_key_def NextTab_def
      PrevTab_def Let_def split: if_splits dest: session_steps\<close>)

lemma run_cmd_inv:
  assumes "session_inv a" and "run_cmd env cmd (a, s) = Ret (m, a1, s1)"
  shows "session_inv a1"
proof -
  obtain t b s2 where u: "UserToken env (a, s) = (t, b, s2)" by (cases "UserToken env (a, s)") auto
  with assms(1) have b: "session_inv b" by (rule UserToken_inv)
  show ?thesis
  proof (cases cmd)
    case RefreshCmd
    with assms u b show ?thesis
      by (auto simp: run_cmd_def refresh_cmd_def go_bind_Ret_iff split: if_splits option.splits go.splits prod.splits)
  qed (use assms u b in \<open>auto simp: run_cmd_def list_users_cmd_def list_tenants_cmd_def list_policies_cmd_def login_cmd_def
        create_user_cmd_def tenant_login_cmd_def create_tenant_cmd_def add_policy_cmd_def
        split: option.splits prod.splits sum.splits if_splits\<close>)
qed

lemma data_refreshed_inv:
  assumes "session_inv a" and "data_refreshed env busy r (a, s) = Ret ((a1, s1), cs)"
  shows "session_inv a1"
proof (cases r)
  case (Inl err)
  with assms show ?thesis by (auto simp: data_refreshed_def)
next
  case (Inr d)
  define b where "b = a\<lparr>ap_Loading := False, ap_PDUs := rd_PDUs d, ap_Racks := rd_Racks d, ap_StandaloneHVs := rd_HVs d,
    ap_NISDs := rd_Nisds d, ap_Vdevs := rd_Vdevs d, ap_PFSs := rd_PFSs d\<rparr>"
  define c where "c = status StatusSuccess ''Data refreshed successfully!'' (b\<lparr>ap_Metrics := CalculateMetrics b\<rparr>)"
  have c: "session_inv c" using assms(1) by (simp add: session_inv_def c_def b_def)
  have "data_refreshed env busy r (a, s)
      = (if ap_ActiveTab c = 0 then then_switch [] (loadUsersView env) (c, s)
         else if ap_ActiveTab c = 10 then then_switch [] loadTenantsView (c, s)
         else if ap_ActiveTab c = 11 then then_switch [] (loadAuthzView env) (c, s)
         else if 1 \<le> ap_ActiveTab c \<and> ap_ActiveTab c \<le> 9 \<and> \<not> busy then then_switch [] (cancelForm env) (c, s)
         else Ret ((c, s), []))"
    using Inr by (simp add: data_refreshed_def c_def b_def Let_def)
  with assms(2) c show ?thesis
    by (auto split: if_splits elim!: then_switch_inv[rotated] dest: session_steps)
qed

lemma user_logged_in_inv:
  assumes "session_inv a" and "user_logged_in env r u k t (a, s) = Ret ((a1, s1), cs)"
  shows "session_inv a1"
proof (cases r)
  case (Inr ro)
  with assms(2) obtain resp where r: "r = Inr (Some resp)" by (cases ro) (auto simp: user_logged_in_def)
  let ?auth = "\<lparr>as_User = Some resp, as_Username = u, as_SecretKey = k, as_TenantUUID = t, as_LoginTime = ue_now env s\<rparr>"
  have "session_inv (clearTenantAdminSession (a\<lparr>ap_Auth := ?auth\<rparr>))"
    using assms(1) by (simp add: session_inv_def clearTenantAdminSession_def)
  with assms(2) r show ?thesis
    by (auto simp: user_logged_in_def Let_def split: option.splits elim!: then_switch_inv[rotated] dest: SwitchToTab_inv[rotated])
qed (use assms in \<open>auto simp: user_logged_in_def\<close>)

lemma tenant_admin_logged_in_inv:
  assumes "session_inv a" and "tenant_admin_logged_in r u (a, s) = Ret ((a1, s1), cs)"
  shows "session_inv a1"
proof (cases r)
  case (Inr p)
  have "session_inv ((clearAuthSession a)\<lparr>ap_TenantToken := fst p, ap_TenantUsername := u\<rparr>)"
    using assms(1) by (simp add: session_inv_def clearAuthSession_def no_session_def)
  with assms(2) Inr show ?thesis
    by (cases p) (auto simp: tenant_admin_logged_in_def Let_def elim!: then_switch_inv[rotated] dest: loadTenantsView_inv[rotated])
qed (use assms in \<open>auto simp: tenant_admin_logged_in_def\<close>)

lemma on_message_inv:
  assumes "session_inv a" and "on_message env busy m (a, s) = Ret ((a1, s1), cs)"
  shows "session_inv a1"
proof (cases m)
  case (AuthzPolicySaved r)
  with assms show ?thesis
    by (auto simp: on_message_def authz_policy_saved_def split: option.splits elim!: then_switch_inv[rotated]
        dest: loadAuthzView_inv[rotated])
qed (use assms in \<open>auto simp: on_message_def users_loaded_def tenants_loaded_def authz_loaded_def user_created_def tenant_created_def
      split: sum.splits dest: data_refreshed_inv user_logged_in_inv tenant_admin_logged_in_inv\<close>)

lemma reachable_inv: "reachable env x \<Longrightarrow> session_inv (fst (fst x))"
proof (induction rule: reachable.induct)
  case (started cpEnabled raftUUID gossipPath mdsvcURL bk a cmds s)
  then show ?case
    by (auto simp: Init_app_def NewApp_def session_inv_def Let_def CalculateMetrics_def AllHypervisors_def zero_metrics_def
        no_session_def pdu_hypervisors_def split: if_splits)
next
  case (stepped x y)
  from stepped(2) stepped(3) show ?case
    by cases (auto dest: on_request_inv run_cmd_inv on_message_inv)
qed

section \<open>Sessions\<close>


lemma tenant_session_logged_out:
  "reachable env ((a, s), cmds, msgs) \<Longrightarrow> ap_TenantToken a \<noteq> [] \<Longrightarrow> \<not> IsLoggedIn a"
  using reachable_inv[of env "((a, s), cmds, msgs)"] by (auto simp: session_inv_def IsLoggedIn_def)

lemma not_admin: "ap_AuthEnabled a \<Longrightarrow> \<not> IsLoggedIn a \<Longrightarrow> \<not> isAdmin a"
  by (simp add: isAdmin_def IsLoggedIn_def)

lemma isAdmin_tab [simp]: "isAdmin (a\<lparr>ap_ActiveTab := n\<rparr>) = isAdmin a"
  by (simp add: isAdmin_def)

text \<open>Without a user, where authentication is on, a switch of the tab starts nothing but a list of tenants.\<close>

lemma switch_logged_out:
  assumes "ap_AuthEnabled a" "\<not> IsLoggedIn a" and "SwitchToTab env tab (a, s) = Ret (st1, Some c)"
  shows "\<exists>token. c = ListTenantsCmd token \<and> token = ap_TenantToken a \<and> token \<noteq> []"
  using assms not_admin[OF assms(1,2)]
  by (auto simp: SwitchToTab_def Let_def loadUsersView_def loadTenantsView_def loadAuthzView_def split: if_splits)


text \<open>
  Where authentication is off nobody logs in, and the list of tabs is then the users alone: the arrow keys
  lead there from everywhere, never to the resources.
\<close>

lemma arrow_keys_without_auth:
  assumes "\<not> IsLoggedIn a" "ap_TenantToken a = []"
  shows "NextTab env (a, s) = SwitchToTab env 0 (a, s)" "PrevTab env (a, s) = SwitchToTab env 0 (a, s)"
  using assms by (simp_all add: NextTab_def PrevTab_def GetAvailableTabSequence_def current_index_def Let_def)

subsection \<open>Witnesses\<close>

definition demo_tenants :: "unit tenant_manager" where
  "demo_tenants = \<lparr>tm_TenantAdminLogin = (\<lambda>u p s. (Inr (''tok'', 60), s)), tm_ListTenants = (\<lambda>t s. (Inr [], s)),
     tm_CreateTenant = (\<lambda>t n s. (Inl ''refused'', s)), tm_DeleteTenant = (\<lambda>t i s. (None, s))\<rparr>"

definition demo_backends :: "unit cp_client \<Rightarrow> unit authz_manager \<Rightarrow> unit user_service \<Rightarrow> unit backends" where
  "demo_backends cl am us = \<lparr>bk_tidb = cl, bk_tenants = demo_tenants, bk_authz = am, bk_users = us, bk_probe = Inr True, bk_pumice = None\<rparr>"

text \<open>A tenant administrator logs in.\<close>

lemma demo_session:
  "\<exists>a cmds msgs. reachable env ((a, ()), cmds, msgs) \<and> ap_AuthEnabled a \<and> ap_TenantToken a = ''tok''"
proof -
  define a where "a = NewApp False [] [] ''http://x'' (demo_backends cl am us)"
  have ini: "Init_app a = (a, [])" by (simp add: a_def Init_app_def NewApp_def IsLoggedIn_def no_session_def demo_backends_def)
  then have r0: "reachable env ((a, ()), [], [])" unfolding a_def by (rule reachable.started)
  have t: "ap_Tenants a = Some demo_tenants" "ap_AuthEnabled a" by (simp_all add: a_def NewApp_def demo_backends_def)
  have "on_request env (SubmitTenantAdminLogin ''root'' ''pw'') (a, ()) = Ret ((a, ()), Some (TenantLoginCmd ''root'' ''pw''))"
    using t by (simp add: on_request_def submit_tenant_admin_login_def)
  from session_step.asked[OF this, of "[]" "[]"] have "reachable env ((a, ()), [TenantLoginCmd ''root'' ''pw''], [])"
    using reachable.stepped[OF r0] by simp
  moreover have "run_cmd env (TenantLoginCmd ''root'' ''pw'') (a, ()) = Ret (TenantAdminLoggedIn (Inr (''tok'', 60)) ''root'', a, ())"
    using t by (simp add: run_cmd_def tenant_login_cmd_def demo_tenants_def)
  ultimately have "reachable env ((a, ()), [], [TenantAdminLoggedIn (Inr (''tok'', 60)) ''root''])"
    using reachable.stepped session_step.ran[of "TenantLoginCmd ''root'' ''pw''" "[TenantLoginCmd ''root'' ''pw'']" env "(a, ())"]
    by fastforce
  moreover have "\<exists>b cs. on_message env False (TenantAdminLoggedIn (Inr (''tok'', 60)) ''root'') (a, ()) = Ret ((b, ()), cs)
      \<and> ap_AuthEnabled b \<and> ap_TenantToken b = ''tok''"
    using t by (simp add: on_message_def tenant_admin_logged_in_def clearAuthSession_def loadTenantsView_def then_switch_def Let_def)
  ultimately show ?thesis
    using reachable.stepped session_step.handled[where m = "TenantAdminLoggedIn (Inr (''tok'', 60)) ''root''"
      and msgs = "[TenantAdminLoggedIn (Inr (''tok'', 60)) ''root'']" and env = env and st = "(a, ())" and cmds = "[]" and busy = False]
    by fastforce
qed



end
