(* ===== verification/Pumice.thy ===== *)
theory Pumice
  imports UserClient Submit
begin

section \<open>The first backend of the terminal client\<close>

text \<open>
  \<open>niova-ctl/domain/mdsvcpumiceclient/\<close>: the two client libraries behind the interfaces of the screens. The
  state has a client of each library and the network of their discovery handlers. Logging is left out.
\<close>

subsection \<open>Operations of the libraries as operations of the backend\<close>

type_synonym 'n pumice = "client \<times> user_client \<times> 'n"

definition via_client :: "('a, 'n) cli_op \<Rightarrow> 'n pumice \<Rightarrow> 'a go \<times> 'n pumice" where
  "via_client m st = (case st of (c, u, n) \<Rightarrow> (case m (c, n) of (r, c1, n1) \<Rightarrow> (r, c1, u, n1)))"

text \<open>
  \<open>_, err := ...; return err\<close>. The operations do not panic when they are called with a record
  (\<open>backend_writes_return\<close>), nor do those of the user client (\<open>user_operations_return\<close>).
\<close>

definition write_effect :: "('a, 'n) cli_op \<Rightarrow> 'n pumice effect" where
  "write_effect m st =
     (case via_client m st of
        (Fail err, st1) \<Rightarrow> (Some err, st1)
      | (_, st1) \<Rightarrow> (None, st1))"

definition via_user :: "('a, 'n) user_op \<Rightarrow> 'n pumice \<Rightarrow> (string + 'a) \<times> 'n pumice" where
  "via_user m st =
     (case st of (c, u, n) \<Rightarrow>
       (case m (u, n) of
          (Ret x, u1, n1) \<Rightarrow> (Inr x, c, u1, n1)
        | (Fail err, u1, n1) \<Rightarrow> (Inl err, c, u1, n1)
        | (Panic, u1, n1) \<Rightarrow> (Inl [], c, u1, n1)))"

subsection \<open>controlplane.go\<close>

definition all_of :: get_req where
  "all_of = \<lparr>g_ID = [], g_GetAll = True, g_Fields = []\<rparr>"

text \<open>A list that cannot be fetched is empty.\<close>

definition or_empty :: "('x list, 'n) cli_op \<Rightarrow> ('x list, 'n) cli_op" where
  "or_empty m st = (case m st of (Fail err, st1) \<Rightarrow> (Ret [], st1) | r \<Rightarrow> r)"

definition RefreshCPData ::
  "'n cli_env \<Rightarrow> client option \<Rightarrow> string \<Rightarrow> 'n \<Rightarrow> (pdu list \<times> rack list \<times> hypervisor list) go \<times> client option \<times> 'n" where
  "RefreshCPData ev cpClient token n =
     (case cpClient of
        None \<Rightarrow> (Ret ([], [], []), None, n)
      | Some c \<Rightarrow>
          (case op_bind (or_empty (client_GetPDUs ev (Some all_of))) (\<lambda>pdus.
                op_bind (or_empty (client_GetRacks ev (Some all_of))) (\<lambda>racks.
                op_bind (or_empty (client_GetHypervisor ev (Some all_of))) (\<lambda>hvs.
                op_bind (or_empty (client_GetDevices ev all_of)) (\<lambda>devices.
                op_bind (or_empty (Client.GetPartition ev all_of)) (\<lambda>partitions.
                  op_ret (StitchTopology pdus racks hvs devices partitions)))))) (Client.SetToken token c, n) of
             (r, c1, n1) \<Rightarrow> (r, Some c1, n1)))"

definition refresh_topology ::
  "'n cli_env \<Rightarrow> string \<Rightarrow> 'n pumice \<Rightarrow> (pdu list \<times> rack list \<times> hypervisor list) go \<times> 'n pumice" where
  "refresh_topology ev token st =
     (case st of (c, u, n) \<Rightarrow>
       (case RefreshCPData ev (Some c) token n of (r, c1, n1) \<Rightarrow> (r, case c1 of Some x \<Rightarrow> x | None \<Rightarrow> c, u, n1)))"

text \<open>\<open>VdevReq{Vdev: vdev}\<close> has the zero filter.\<close>

definition no_filter :: filter_req where
  "no_filter = \<lparr>f_ID = [], f_Type = FD_ANY\<rparr>"

text \<open>Every capability is there. \<open>PutPFS\<close> creates and edits.\<close>

definition pumice_backend :: "'n cli_env \<Rightarrow> 'n pumice cp_client" where
  "pumice_backend ev =
     \<lparr>cp_SetToken = (\<lambda>token (c, u, n). (Client.SetToken token c, u, n)),
      cp_RefreshTopology = refresh_topology ev,
      cp_GetNisds = via_client (client_GetNisds ev all_of),
      cp_GetVdevConfigs = via_client (Client.GetVdevConfigs ev (Some all_of)),
      cp_GetPFS = via_client (Client.GetPFS ev (Some all_of)),
      cp_PutPDU = (\<lambda>p. write_effect (Client.PutPDU ev (Some p))),
      cp_PutRack = (\<lambda>r. write_effect (Client.PutRack ev (Some r))),
      cp_PutHypervisor = (\<lambda>h. write_effect (Client.PutHypervisor ev (Some h))),
      cp_PutDevice = (\<lambda>d. write_effect (Client.PutDevice ev (Some d))),
      cp_PutNisd = (\<lambda>x. write_effect (Client.PutNisd ev (Some x))),
      cp_CreateVdev = (\<lambda>v. write_effect (Client.CreateVdev ev (Some (Some v, no_filter)))),
      cp_CreatePFS = (\<lambda>p. write_effect (Client.PutPFS ev (Some p))),
      cp_PutPartition = Some (\<lambda>p. write_effect (Client.PutPartition ev (Some p))),
      cp_EditPFS = Some (\<lambda>p. write_effect (Client.PutPFS ev (Some p))),
      cp_DeleteVdev = Some (\<lambda>i. write_effect (Client.DeleteVdev ev (Some i)))\<rparr>"

definition NewControlPlaneClient :: "'n cli_env \<Rightarrow> client option \<Rightarrow> 'n pumice cp_client option" where
  "NewControlPlaneClient ev cp = (case cp of None \<Rightarrow> None | Some _ \<Rightarrow> Some (pumice_backend ev))"

text \<open>\<open>json\<close> is the constant \<open>pumicecommon.JSON\<close>, \<open>appUUID\<close> a new UUID.\<close>

definition InitControlPlane :: "string \<Rightarrow> string \<Rightarrow> string \<Rightarrow> string \<Rightarrow> client option" where
  "InitControlPlane json appUUID raftUUID gossipPath =
     (if raftUUID = [] \<or> gossipPath = [] then None else Some (InitCliCFuncs json appUUID))"

text \<open>The probe asks for a NISD that does not exist: authentication is on unless that fails at the lookup of its key.\<close>

definition ProbeServerAuth :: "'n cli_env \<Rightarrow> string \<Rightarrow> client option \<Rightarrow> 'n \<Rightarrow> bool go \<times> client option \<times> 'n" where
  "ProbeServerAuth ev newID cpClient n =
     (case cpClient of
        None \<Rightarrow> (Ret False, None, n)
      | Some c \<Rightarrow>
          (case client_GetNisds ev \<lparr>g_ID = newID, g_GetAll = False, g_Fields = []\<rparr> (c, n) of
             (Ret _, c1, n1) \<Rightarrow> (Ret False, Some c1, n1)
           | (Fail err, c1, n1) \<Rightarrow> (Ret (\<not> contains ''Failed to lookup for key'' err), Some c1, n1)
           | (Panic, c1, n1) \<Rightarrow> (Panic, Some c1, n1)))"

subsection \<open>user.go\<close>

definition pumice_LoginWithTenant ::
  "'n cli_env \<Rightarrow> string \<Rightarrow> string \<Rightarrow> string \<Rightarrow> 'n pumice \<Rightarrow> (string + login_resp option) \<times> 'n pumice" where
  "pumice_LoginWithTenant ev username secretKey tenantUUID st =
     (if tenantUUID \<noteq> [] then (Inl (''tenant-scoped login isn'' @ squote @ ''t supported against niova-mdsvc''), st)
      else (case via_user (uc_Login ev username secretKey) st of (r, st1) \<Rightarrow> (map_sum id Some r, st1)))"

definition pumice_users :: "'n cli_env \<Rightarrow> 'n pumice user_service" where
  "pumice_users ev =
     \<lparr>us_LoginWithTenant = pumice_LoginWithTenant ev,
      us_ListUsers = (\<lambda>token. via_user (uc_ListUsers ev token \<lparr>ug_UserID = [], ug_Username = []\<rparr>)),
      us_CreateUser = (\<lambda>token req. via_user (uc_CreateUser ev token req)),
      us_CreateAdminUser = (\<lambda>req. via_user (uc_CreateAdminUser ev (Some req)))\<rparr>"

definition NewUserClient :: "'n cli_env \<Rightarrow> user_client option \<Rightarrow> 'n pumice user_service option" where
  "NewUserClient ev uc = (case uc of None \<Rightarrow> None | Some _ \<Rightarrow> Some (pumice_users ev))"

definition InitUserClient :: "string \<Rightarrow> string \<Rightarrow> string \<Rightarrow> user_client option" where
  "InitUserClient appUUID raftUUID gossipPath =
     (if raftUUID = [] \<or> gossipPath = [] then None else Some \<lparr>uc_appUUID = appUUID, uc_writeSeq = 0\<rparr>)"

end
