(* ===== verification/ClientTotal.thy ===== *)
theory ClientTotal
  imports ClientSpec
begin

section \<open>The operations of the clients return\<close>

text \<open>
  Neither client library panics when it is called with a record, whatever the network answers: the errors of
  the transport, of the proxy and of the decoder are values.
\<close>

text \<open>An operation of a library, on its client and the network, that does not panic.\<close>

definition returns :: "('c \<times> 'n \<Rightarrow> 'a go \<times> 'c \<times> 'n) \<Rightarrow> bool" where
  "returns m \<longleftrightarrow> (\<forall>st. fst (m st) \<noteq> Panic)"

named_theorems returning

lemma restResult_returns [simp]: "restResult js res \<noteq> Panic"
  by (auto simp: restResult_def split: prod.splits option.splits)

lemma decodeEnvelope_returns [simp]: "decodeEnvelope js w body \<noteq> Panic"
  by (auto simp: decodeEnvelope_def split: sum.splits option.splits)

lemma go_bind_panics: "go_bind r k = Panic \<longleftrightarrow> r = Panic \<or> (\<exists>x. r = Ret x \<and> k x = Panic)"
  by (cases r) simp_all

lemma op_bind_returns [returning]: "returns m \<Longrightarrow> (\<And>x. returns (k x)) \<Longrightarrow> returns (op_bind m k)"
  by (auto simp: returns_def op_bind_def split: prod.split go.split) (metis fst_conv)

lemma uop_bind_returns [returning]: "returns m \<Longrightarrow> (\<And>x. returns (k x)) \<Longrightarrow> returns (uop_bind m k)"
  by (auto simp: returns_def uop_bind_def split: prod.split go.split) (metis fst_conv)

lemma wrap_error_returns [returning]: "returns m \<Longrightarrow> returns (wrap_error p m)"
  by (auto simp: returns_def wrap_error_def split: prod.split go.split) (metis fst_conv)

lemma ends_return [returning]:
  "r \<noteq> Panic \<Longrightarrow> returns (op_go r)" "returns nextRncui" "returns (rest_send ev m path body h)"
  "returns (restPut ev path body rn)" "returns (restPost ev path body rn)"
  "r \<noteq> Panic \<Longrightarrow> returns (uop_go r)" "returns uc_nextRncui" "returns (uc_send ev m path body h)"
  by (auto simp: returns_def op_go_def nextRncui_def rest_send_def restPut_def restPost_def uop_go_def uc_nextRncui_def
      uc_send_def split: prod.splits)

lemma rest_writes_return [returning]:
  "returns (restWritten ev nm body)" "returns (restWriteResource ev t d)" "returns (restWrite ev path d)" "returns (restDelete ev path)"
proof -
  show w: "returns (restWritten ev nm body)" for nm body
    unfolding restWritten_def by (intro returning) simp_all
  have "returns (\<lambda>(c, s). rest_send ev ''DELETE'' path [] (restHeaders (ccf_token c) False @ [(rncuiHeader, rn)]) (c, s))" for rn
    using ends_return(3)[of ev "''DELETE''" path "[]"] by (auto simp: returns_def)
  then show "returns (restDelete ev path)"
    unfolding restDelete_def by (intro returning w)
  show "returns (restWriteResource ev t d)" "returns (restWrite ev path d)"
    unfolding restWriteResource_def restWrite_def by (intro returning w)+
qed

lemma backend_writes_return:
  "returns (Client.PutPDU ev (Some p))" "returns (Client.PutRack ev (Some r))" "returns (Client.PutHypervisor ev (Some h))"
  "returns (Client.PutDevice ev (Some d))" "returns (Client.PutNisd ev (Some n))" "returns (Client.PutPartition ev (Some pt))"
  "returns (Client.PutPFS ev (Some f))" "returns (Client.CreateVdev ev (Some (Some v, flt)))" "returns (Client.DeleteVdev ev (Some i))"
proof -
  show "returns (Client.DeleteVdev ev (Some i))"
    unfolding DeleteVdev_def by (auto intro: returning)
  show "returns (Client.CreateVdev ev (Some (Some v, flt)))"
    unfolding CreateVdev_def option.case prod.case by (intro returning) simp_all
qed (simp_all add: client_bodies returning)

lemma user_operations_return:
  "returns (uc_Login ev username secretKey)" "returns (uc_ListUsers ev token req)"
  "returns (uc_CreateUser ev token user)" "returns (uc_CreateAdminUser ev (Some user))"
proof -
  show "returns (uc_Login ev username secretKey)"
    by (auto simp: returns_def uc_Login_def LoginWithTenant_def Let_def split: prod.splits option.splits go.splits)
qed (auto simp: uc_ListUsers_def uc_CreateUser_def uc_CreateAdminUser_def uc_restGet_def uc_restWrite_def userRespFromREST_def
    go_bind_panics intro!: returning)

end
