(* ===== verification/PumiceSpec.thy ===== *)
theory PumiceSpec
  imports Pumice SubmitSpec ClientTotal
begin

section \<open>From a dialog to the control plane\<close>

text \<open>
  The terminal client on its first backend, before the proxy: what an answer in a dialog makes arrive at
  PMDB. The transport of the proxy records its calls, as in \<open>ClientSpec\<close>.
\<close>

subsection \<open>Writes of the backend\<close>

text \<open>What a dialog for one record sends: the body, the function and its argument. A record without its key is refused.\<close>

fun dialog_write :: "(string \<Rightarrow> bool) \<Rightarrow> confirm_data \<Rightarrow> (dto \<times> string \<times> any) option" where
  "dialog_write ok (Submit.D_PDU p) =
     (if p_ID p = [] then None else Some (Client.D_PDU (toRestPDU p), PUT_PDU, A_PDU (p\<lparr>p_Racks := []\<rparr>)))"
| "dialog_write ok (Submit.D_Rack r) =
     (if r_ID r = [] then None else Some (Client.D_Rack (toRestRack r), PUT_RACK, A_Rack (r\<lparr>r_Hypervisors := []\<rparr>)))"
| "dialog_write ok (Submit.D_Hypervisor h) =
     (if h_ID h = [] then None else Some (Client.D_Hypervisor (toRestHypervisor h), PUT_HYPERVISOR, A_Hypervisor (h\<lparr>h_Dev := []\<rparr>)))"
| "dialog_write ok (Submit.D_Device d) =
     (if d_ID d = [] then None else Some (Client.D_Device (toRestDevice d), PUT_DEVICE, A_Device (d\<lparr>d_Partitions := []\<rparr>)))"
| "dialog_write ok (Submit.D_Nisd n) =
     (if n_ID n = [] then None
      else Some (Client.D_NISD (toRestNISD n), PUT_NISD, A_Nisd (n\<lparr>n_NetInfoCnt := int (length (n_NetInfo n))\<rparr>)))"
| "dialog_write ok (Submit.D_Vdev v) =
     (if 0 < sint (v_Size v) \<and> v_DataBlkCnt v \<noteq> 0
      then Some (Client.D_CreateVdev (create_vdev_body v no_filter), CREATE_VDEV,
                 A_VdevReq (Some (vdevCfg_of ok (create_vdev_body v no_filter))) no_filter)
      else None)"
| "dialog_write ok _ = None"

lemma write_effect_state: "snd (m (c, n)) = (c1, n1) \<Longrightarrow> snd (write_effect m (c, u, n)) = (c1, u, n1)"
  by (cases "m (c, n)"; cases "fst (m (c, n))") (auto simp: write_effect_def via_client_def)

lemma direct_put_arrives:
  assumes px: "px_sendFuncReqFn px = Some (recording ans)" and link: "linked ev px" and uuid: "plain_uuid c"
    and put: "direct_put (pumice_backend ev) actionID data = Some put"
    and w: "dialog_write (px_uuid_ok px) data = Some (d, name, payload)" and json: "delivered (ev_js ev) (px_json px) d"
  shows "snd (put (c, u, log)) = (next_write c, u, log @ [client_call c name payload])"
proof -
  note e = entity_writes_arrive[OF px link uuid]
  have ok: "\<forall>n. f_Type no_filter \<noteq> FD_Other n" by (simp add: no_filter_def)
  note v = create_vdev_arrives[OF px link uuid _ _ _ ok]
  show ?thesis
    using put w json
    by (cases data) (auto simp: pumice_backend_def split: if_splits intro!: write_effect_state e dest!: v)
qed

subsection \<open>The session\<close>

text \<open>Logging in again reads only, and leaves the first client and its counter alone.\<close>

lemma pumice_login_reads:
  assumes "px_sendFuncReqFn px = Some (recording ans)" and "linked ev px"
    and "us_LoginWithTenant (pumice_users ev) username secretKey t (c, u, log) = (r, st)"
  shows "\<exists>u1 cs. st = (c, u1, log @ cs) \<and> filter cl_write cs = []"
proof (cases "t = []")
  case False
  with assms(3) show ?thesis by (auto simp: pumice_users_def pumice_LoginWithTenant_def)
next
  case True
  from uc_Login_reads[OF assms(1,2), of username secretKey u log] obtain cs where
    cs: "snd (uc_Login ev username secretKey (u, log)) = (u, log @ cs)" "filter cl_write cs = []" by blast
  from cs(1) have "st = (c, u, log @ cs)"
    using assms(3) True
    by (auto simp: pumice_users_def pumice_LoginWithTenant_def via_user_def split: prod.splits go.splits)
  with cs(2) show ?thesis by blast
qed

lemma UserToken_reads:
  assumes "px_sendFuncReqFn px = Some (recording ans)" and "linked ev px"
    and "ap_CPClient a = Some (pumice_backend ev)" "ap_UserClient a \<in> {None, Some (pumice_users ev)}"
    and "UserToken env (a, c, u, log) = (tok, b, st)"
  shows "\<exists>c1 u1 cs. st = (c1, u1, log @ cs) \<and> filter cl_write cs = [] \<and> Client.SetToken tok c1 = Client.SetToken tok c"
proof -
  have keep: "\<exists>u1 cs. st' = (c, u1, log @ cs) \<and> filter cl_write cs = []"
    if "us_LoginWithTenant (pumice_users ev) i k t (c, u, log) = (r, st')" for i k t r st'
    by (rule pumice_login_reads[OF assms(1,2) that])
  have same: "\<exists>c1 u1 cs. (c, u, log) = (c1, u1, log @ cs) \<and> filter cl_write cs = [] \<and> Client.SetToken tok c1 = Client.SetToken tok c"
    by auto
  show ?thesis
    using assms(3-5) same
    by (auto simp: UserToken_def EnsureTokenValid_def Let_def pumice_backend_def SetToken_def
        split: option.splits if_splits prod.splits sum.splits dest!: keep)
qed

section \<open>Properties\<close>


section \<open>Witness\<close>

text \<open>A new PDU on an empty cluster, whose UUID is \<open>pdu7\<close>.\<close>

definition pdu7 :: pdu where
  "pdu7 = \<lparr>p_ID = ''pdu7'', p_Name = ''pdu'', p_Location = [], p_PowerCapacity = [], p_Specification = [], p_Racks = []\<rparr>"

definition pdu_proxy :: "call list proxy" where
  "pdu_proxy = sample_proxy\<lparr>px_json := sample_codec\<lparr>js_PDU := (\<lambda>_. Inr (toRestPDU pdu7))\<rparr>\<rparr>"

definition pdu_env :: "call list cli_env" where
  "pdu_env = \<lparr>ev_sd = proxy_link sample_json (\<lambda>_ s. (([], 301, None), s)) (\<lambda>_ _ _ s. ((None, None), s)) pdu_proxy,
     ev_js = sample_json, ev_fx = sample_func_codec, ev_quote = (\<lambda>s. s)\<rparr>"

definition pdu_ui :: "call list pumice ui_env" where
  "pdu_ui = \<lparr>ue_new = (\<lambda>_. ''pdu7''), ue_now = (\<lambda>_. 0), ue_ssh = \<lparr>sh_dial = (\<lambda>_ s. (None, s)), sh_run = (\<lambda>_ _ s. (([], None), s))\<rparr>,
     ue_gb = (\<lambda>_. []), ue_user_client = pumice_users pdu_env\<rparr>"

definition pdu_app :: "call list pumice app" where
  "pdu_app = \<lparr>ap_CPClient = Some (pumice_backend pdu_env), ap_Tenants = None, ap_Authz = None, ap_UserClient = None,
     ap_Auth = no_session, ap_TenantToken = [], ap_TenantUsername = [], ap_Backend = BackendMdsvcPumice, ap_RaftUUID = [],
     ap_GossipPath = [], ap_MdsvcURL = [], ap_AuthEnabled = False, ap_ActiveTab = 1, ap_PDUs = [], ap_Racks = [],
     ap_StandaloneHVs = [], ap_NISDs = [], ap_Vdevs = [], ap_PFSs = [], ap_Metrics = zero_metrics, ap_StatusMsg = [],
     ap_StatusType = StatusInfo, ap_Loading = False,
     ap_ConfirmDialog = (NewConfirmDialog [] [] [] ConfirmTypeInfo [] D_None)\<lparr>dg_Active := False\<rparr>, ap_uuids = 0\<rparr>"


end
