(* ===== verification/Ncpc.thy ===== *)
theory Ncpc
  imports PmdbServer UserClient KvServer
begin

section \<open>The command line client: ncpc\<close>

text \<open>
  \<open>ncpc/ncpc.go\<close>: raw keys, topologies and single operations of the client libraries. The service discovery
  handler of PumiceDB, files, encoders and UUIDs are parameters on a state \<open>'s\<close>; \<open>nc_uuids\<close> counts the UUIDs drawn.
  Logging and the two displays that never end (\<open>processGeneral\<close>, \<open>processNisd\<close>) are left out.
\<close>

subsection \<open>Data\<close>

record client_req = cq_Request :: kv_request cq_Response :: kv_response

definition zero_kv_request :: kv_request where
  "zero_kv_request = \<lparr>kr_Operation = 0, kr_Key = [], kr_Prefix = [], kr_Value = [], kr_Rncui = [], kr_CheckSum = [],
     kr_SeqNum = 0, kr_Consistent = False\<rparr>"

definition zero_kv_response :: kv_response where
  "zero_kv_response = \<lparr>ks_Status = 0, ks_Key = [], ks_Prefix = [], ks_ResultMap = [], ks_ContinueRead = False, ks_SeqNum = 0,
     ks_SnapMiss = False\<rparr>"

record ncpc =
  nc_requestKey :: string
  nc_requestValue :: string
  nc_clientReqArr :: "client_req list"
  nc_raftUUID :: string
  nc_operation :: string
  nc_resultFile :: string
  nc_lookoutID :: string
  nc_relaxedConsistency :: bool
  nc_count :: int
  nc_seed :: int
  nc_valSize :: int
  nc_seqNum :: uint64
  nc_userToken :: string
  nc_username :: string
  nc_password :: string
  nc_regenerateNISDUUIDs :: bool
  nc_useServer :: "string option"
  nc_uuids :: nat

text \<open>\<open>opData\<close> with its two parts; the times are never set.\<close>

record op_data =
  od_Opcode :: string
  od_Key :: string
  od_Value :: string
  od_Status :: int
  od_ResponseValue :: string
  od_SequenceNumber :: uint64

record member = mb_Name :: string mb_Status :: string mb_Tags :: "(string \<times> string) list"

record nisd_data = nd_UUID :: string nd_Status :: string nd_WriteSize :: string

datatype lease_op = LeaseGET | LeaseLOOKUP | LeaseREFRESH | LeaseInvalid

text \<open>
  \<open>ne_request\<close> is \<open>Request\<close> of the discovery handler (for a chosen server, when one is chosen): the body, the
  path, whether it writes; the bytes and the error. \<open>ne_dec\<close> decodes a reply into a response that is there
  already. \<open>ne_order n\<close> is the order in which \<open>n\<close> goroutines get to send, \<open>ne_rand seed n k\<close> the \<open>k\<close>-th sequence of
  \<open>n\<close> letters (\<open>randSeq\<close>) of a generator. The encoders of structs do not fail.
\<close>

record 's ncpc_env =
  ne_cli :: "'s cli_env"
  ne_ready :: "'s \<Rightarrow> string option \<times> 's"
  ne_request :: "string option \<Rightarrow> string \<Rightarrow> string \<Rightarrow> bool \<Rightarrow> 's \<Rightarrow> (string \<times> string option) \<times> 's"
  ne_config :: "'s \<Rightarrow> string + string"
  ne_members :: "'s \<Rightarrow> member list"
  ne_lease :: "lease_op \<Rightarrow> string \<Rightarrow> string \<Rightarrow> string \<Rightarrow> 's \<Rightarrow> (string + string) \<times> 's"
  ne_enc :: "kv_request \<Rightarrow> string"
  ne_dec :: "string \<Rightarrow> kv_response \<Rightarrow> string option \<times> kv_response"
  ne_enc_lookout :: "string \<Rightarrow> string \<Rightarrow> string"
  ne_json_reqs :: "client_req list \<Rightarrow> string"
  ne_json_op :: "op_data \<Rightarrow> string"
  ne_json_members :: "member list \<Rightarrow> string"
  ne_json_nisds :: "(string \<times> nisd_data) list \<Rightarrow> string"
  ne_json_pdus :: "pdu list \<Rightarrow> string"
  ne_json_vdevs :: "vdev_config list \<Rightarrow> string"
  ne_dec_pdus :: "string \<Rightarrow> string + pdu list"
  ne_dec_pdu :: "string \<Rightarrow> string + pdu"
  ne_dec_nisd :: "string \<Rightarrow> string + nisd"
  ne_dec_device :: "string \<Rightarrow> string + device"
  ne_uuid :: "nat \<Rightarrow> string"
  ne_parse_uuid :: "string \<Rightarrow> string + string"
  ne_decompress :: "string \<Rightarrow> string + string"
  ne_order :: "nat \<Rightarrow> nat list"
  ne_rand :: "int \<Rightarrow> int \<Rightarrow> nat \<Rightarrow> string"
  ne_json_ids :: "string list \<Rightarrow> string"
  ne_read_file :: "string \<Rightarrow> 's \<Rightarrow> string + string"
  ne_write_file :: "string \<Rightarrow> string \<Rightarrow> 's \<Rightarrow> string option \<times> 's"
  ne_append_file :: "string \<Rightarrow> string \<Rightarrow> 's \<Rightarrow> 's"
  ne_mkdir :: "string \<Rightarrow> 's \<Rightarrow> string option \<times> 's"
  ne_create_temp :: "string \<Rightarrow> 's \<Rightarrow> (string + string) \<times> 's"
  ne_sync :: "string \<Rightarrow> 's \<Rightarrow> string option \<times> 's"
  ne_rename :: "string \<Rightarrow> string \<Rightarrow> 's \<Rightarrow> string option \<times> 's"
  ne_remove :: "string \<Rightarrow> 's \<Rightarrow> 's"
  ne_logger :: "string option"
  ne_JSON :: string

type_synonym 's nst = "ncpc \<times> 's"

text \<open>A pair of bytes and an error, as Go returns them; \<open>None\<close> is \<open>nil\<close>.\<close>

type_synonym data_err = "string option \<times> string option"

definition draw_uuid :: "'s ncpc_env \<Rightarrow> ncpc \<Rightarrow> string \<times> ncpc" where
  "draw_uuid env h = (ne_uuid env (nc_uuids h), h\<lparr>nc_uuids := nc_uuids h + 1\<rparr>)"

definition prepareOutput :: "int \<Rightarrow> string \<Rightarrow> string \<Rightarrow> string \<Rightarrow> uint64 \<Rightarrow> op_data" where
  "prepareOutput stat operation key val seqNo =
     \<lparr>od_Opcode = operation, od_Key = key, od_Value = val, od_Status = stat, od_ResponseValue = val, od_SequenceNumber = seqNo\<rparr>"

definition result_path :: "ncpc \<Rightarrow> string" where
  "result_path h = nc_resultFile h @ ''.json''"

definition complete_data :: "'s ncpc_env \<Rightarrow> string \<Rightarrow> 's nst \<Rightarrow> string option \<times> 's nst" where
  "complete_data env data st =
     (case st of (h, s) \<Rightarrow> (case ne_write_file env (result_path h) data s of (e, s1) \<Rightarrow> (e, h, s1)))"

text \<open>Errors of \<open>writeData2Json\<close> are logged.\<close>

definition writeData2Json :: "'s ncpc_env \<Rightarrow> op_data \<Rightarrow> 's nst \<Rightarrow> 's nst" where
  "writeData2Json env d st = snd (complete_data env (ne_json_op env d) st)"

definition waitServiceInit :: "'s ncpc_env \<Rightarrow> 's nst \<Rightarrow> string option \<times> 's nst" where
  "waitServiceInit env st =
     (case st of (h, s) \<Rightarrow>
       (case ne_ready env s of
          (None, s1) \<Rightarrow> (None, h, s1)
        | (Some err, s1) \<Rightarrow> (Some err, writeData2Json env (prepareOutput (- 1) ''setup'' [] err 0) (h, s1))))"

subsection \<open>Raw keys\<close>

text \<open>Go: \<open>requestKey[len(requestKey)-1:] == "*"\<close>; an empty key panics.\<close>

definition isRangeRequest :: "string \<Rightarrow> bool go" where
  "isRangeRequest requestKey = (if requestKey = [] then Panic else Ret (last requestKey = CHR ''*''))"

definition isSingleWriteReqValid :: "ncpc \<Rightarrow> bool" where
  "isSingleWriteReqValid cli \<longleftrightarrow> \<not> (nc_operation cli = ''write'' \<and> nc_count cli = 1 \<and> nc_requestValue cli = [])"

definition prepNSendReq :: "'s ncpc_env \<Rightarrow> string \<Rightarrow> bool \<Rightarrow> nat \<Rightarrow> 's nst \<Rightarrow> string option \<times> 's nst" where
  "prepNSendReq env rncui isWrite itr st =
     (case st of (h, s) \<Rightarrow>
       let arr = nc_clientReqArr h; rq = arr ! itr in
       (case ne_request env (nc_useServer h) (ne_enc env (cq_Request rq)) (''/app?rncui='' @ rncui @ ''&wsn=0'') isWrite s of
          ((rsb, Some err), s1) \<Rightarrow> (Some err, h, s1)
        | ((rsb, None), s1) \<Rightarrow>
            (case ne_dec env rsb (cq_Response rq) of
               (err, resp) \<Rightarrow> (err, h\<lparr>nc_clientReqArr := arr[itr := rq\<lparr>cq_Response := resp\<rparr>]\<rparr>, s1))))"

text \<open>
  The goroutines send in any order; the errors of sending are overwritten by that of the JSON encoder, which is none.
\<close>

definition set_write :: "client_req \<Rightarrow> client_req" where
  "set_write r = r\<lparr>cq_Request := (cq_Request r)\<lparr>kr_Operation := KV_WRITE\<rparr>\<rparr>"

definition write_keys :: "'s ncpc_env \<Rightarrow> bool \<Rightarrow> 's nst \<Rightarrow> data_err \<times> 's nst" where
  "write_keys env wresult st =
     (case st of (h, s) \<Rightarrow>
       let k = nc_uuids h; n = length (nc_clientReqArr h);
           h1 = h\<lparr>nc_operation := ''write'', nc_clientReqArr := map set_write (nc_clientReqArr h), nc_uuids := k + n\<rparr> in
       (case fold (\<lambda>i st. snd (prepNSendReq env (ne_uuid env (k + i) @ '':0:0:0:0'') True i st)) (ne_order env n) (h1, s) of
          (h2, s2) \<Rightarrow>
            let file = ne_json_reqs env (nc_clientReqArr h2) in
            if wresult then (case complete_data env file (h2, s2) of (err, st3) \<Rightarrow> ((None, err), st3))
            else ((Some file, None), h2, s2)))"

definition read_key :: "'s ncpc_env \<Rightarrow> 's nst \<Rightarrow> data_err \<times> 's nst" where
  "read_key env st =
     (case st of (h, s) \<Rightarrow>
       let creq = \<lparr>cq_Request = zero_kv_request\<lparr>kr_Operation := KV_READ, kr_Key := nc_requestKey h\<rparr>,
                   cq_Response = zero_kv_response\<rparr>;
           h1 = h\<lparr>nc_clientReqArr := nc_clientReqArr h @ [creq], nc_operation := ''read''\<rparr> in
       (case prepNSendReq env [] False 0 (h1, s) of
          (Some err, st1) \<Rightarrow> ((None, Some err), st1)
        | (None, (h2, s2)) \<Rightarrow> ((Some (ne_json_reqs env (nc_clientReqArr h2)), None), h2, s2)))"

text \<open>
  The loop of \<open>rangeRead\<close>: the key and the sequence number of the next request, the response, which every page
  is decoded into, and what was read so far. An error of the request is logged; an empty reply ends the loop.
\<close>

definition copy_map :: "(string \<times> string) list \<Rightarrow> (string \<times> string) list \<Rightarrow> (string \<times> string) list" where
  "copy_map dst src = fold (\<lambda>(k, v) m. alist_update k v m) src dst"

definition page_request :: "kv_request \<Rightarrow> string \<Rightarrow> uint64 \<Rightarrow> kv_request" where
  "page_request req key seqNum = req\<lparr>kr_Key := key, kr_SeqNum := seqNum\<rparr>"

partial_function (option) range_loop ::
  "'s ncpc_env \<Rightarrow> string option \<Rightarrow> kv_request \<Rightarrow> string \<Rightarrow> uint64 \<Rightarrow> kv_response \<Rightarrow> (string \<times> string) list \<Rightarrow> 's
   \<Rightarrow> (kv_request \<times> kv_response \<times> (string \<times> string) list \<times> 's) option" where
  "range_loop env srv req key seqNum rso resultMap s =
     (case ne_request env srv (ne_enc env (page_request req key seqNum)) ''/app'' False s of
        ((rsb, err), s1) \<Rightarrow>
          if rsb = [] then Some (page_request req key seqNum, rso\<lparr>ks_Status := - 1, ks_Key := key\<rparr>, resultMap, s1)
          else (case ne_dec env rsb rso of
              (Some err, rso1) \<Rightarrow> Some (page_request req key seqNum, rso1, resultMap, s1)
            | (None, rso1) \<Rightarrow>
                let resultMap1 = copy_map resultMap (ks_ResultMap rso1) in
                if ks_ContinueRead rso1
                then range_loop env srv (page_request req key seqNum) (ks_Key rso1) (ks_SeqNum rso1) rso1 resultMap1 s1
                else Some (page_request req key seqNum, rso1, resultMap1, s1)))"

text \<open>The result goes into the map of the first response, which is this one.\<close>

definition set_first_map :: "(string \<times> string) list \<Rightarrow> client_req list \<Rightarrow> client_req list" where
  "set_first_map m arr =
     (case arr of [] \<Rightarrow> [] | r # rs \<Rightarrow> r\<lparr>cq_Response := (cq_Response r)\<lparr>ks_ResultMap := m\<rparr>\<rparr> # rs)"

definition range_request :: "ncpc \<Rightarrow> kv_request" where
  "range_request h = zero_kv_request\<lparr>kr_Operation := KV_RANGE_READ, kr_Key := butlast (nc_requestKey h),
     kr_Prefix := butlast (nc_requestKey h), kr_Consistent := \<not> nc_relaxedConsistency h\<rparr>"

definition rangeRead :: "'s ncpc_env \<Rightarrow> 's nst \<Rightarrow> (data_err \<times> 's nst) option" where
  "rangeRead env st =
     (case st of (h, s) \<Rightarrow>
       let h1 = h\<lparr>nc_operation := ''read''\<rparr>; req = range_request h in
       (case range_loop env (nc_useServer h) req (kr_Key req) (nc_seqNum h) zero_kv_response [] s of
          None \<Rightarrow> None
        | Some (req1, rso, m, s1) \<Rightarrow>
            let arr = set_first_map m (nc_clientReqArr h @ [\<lparr>cq_Request = req1, cq_Response = rso\<rparr>])
            in Some ((Some (ne_json_reqs env arr), None), h1\<lparr>nc_clientReqArr := arr\<rparr>, s1)))"

text \<open>Sample data: \<open>generateVdevRange\<close>. The requests so far, and how many UUIDs and random sequences were drawn.\<close>

record gen = gn_arr :: "client_req list" gn_uuids :: nat gn_rands :: nat

definition gen_uuid :: "'s ncpc_env \<Rightarrow> gen \<Rightarrow> string \<times> gen" where
  "gen_uuid env g = (ne_uuid env (gn_uuids g), g\<lparr>gn_uuids := gn_uuids g + 1\<rparr>)"

definition appendReq :: "string \<Rightarrow> string \<Rightarrow> gen \<Rightarrow> gen" where
  "appendReq key val g = g\<lparr>gn_arr := gn_arr g @ [\<lparr>cq_Request = zero_kv_request\<lparr>kr_Key := key, kr_Value := val\<rparr>,
     cq_Response = zero_kv_response\<rparr>]\<rparr>"

definition append_rand :: "'s ncpc_env \<Rightarrow> ncpc \<Rightarrow> string \<Rightarrow> gen \<Rightarrow> gen" where
  "append_rand env h key g =
     appendReq key (ne_rand env (nc_seed h) (nc_valSize h) (gn_rands g)) (g\<lparr>gn_rands := gn_rands g + 1\<rparr>)"

definition gen_node ::
  "'s ncpc_env \<Rightarrow> nat \<Rightarrow> string list \<times> (string \<Rightarrow> string list) \<times> gen \<Rightarrow> string list \<times> (string \<Rightarrow> string list) \<times> gen" where
  "gen_node env n = (\<lambda>(nodes, nisds, g).
     let (node, g1) = gen_uuid env g;
         (nisds1, g2) = fold (\<lambda>_ (m, g). let (u, g') = gen_uuid env g in (m(node := m node @ [u]), g')) [0..<n] (nisds, g1)
     in (nodes @ [node], nisds1, appendReq (''node.'' @ node @ ''.NISD-UUIDs'') (ne_json_ids env (nisds1 node)) g2))"

definition gen_nisd ::
  "'s ncpc_env \<Rightarrow> ncpc \<Rightarrow> nat \<Rightarrow> (string \<Rightarrow> string list) \<Rightarrow> string \<Rightarrow> string \<Rightarrow> string list \<times> gen \<Rightarrow> string list \<times> gen" where
  "gen_nisd env h n nisds node nisd = (\<lambda>(vdevs, g).
     let prefix = ''nisd.'' @ nisd;
         (rn, g1) = gen_uuid env g;
         g2 = appendReq (prefix @ ''.Node-UUID'') node g1;
         g3 = appendReq (prefix @ ''.NISD-UUIDs'') (ne_json_ids env (nisds rn)) g2;
         g4 = append_rand env h (prefix @ ''.Config-Info'') g3
     in fold (\<lambda>_ (vs, g). let (u, g') = gen_uuid env g in (vs @ [u], append_rand env h (prefix @ ''.'' @ u) g')) [0..<n] (vdevs, g4))"

definition gen_vdev :: "'s ncpc_env \<Rightarrow> ncpc \<Rightarrow> nat \<Rightarrow> string \<Rightarrow> gen \<Rightarrow> gen" where
  "gen_vdev env h n v g =
     (let prefix = ''v.'' @ v in
      fold (\<lambda>j g. let (u, g') = gen_uuid env g in append_rand env h (prefix @ ''.c'' @ utoa j @ ''.'' @ u) g') [0..<n]
        (append_rand env h (prefix @ ''.User-Token'') g))"

definition generateVdevRange :: "'s ncpc_env \<Rightarrow> ncpc \<Rightarrow> client_req list \<times> ncpc" where
  "generateVdevRange env h =
     (let n = nat (nc_count h);
          (nodes, nisds, g1) = fold (\<lambda>_. gen_node env n) [0..<n] ([], \<lambda>_. [], \<lparr>gn_arr = [], gn_uuids = nc_uuids h, gn_rands = 0\<rparr>);
          (vdevs, g2) = fold (\<lambda>node. fold (gen_nisd env h n nisds node) (nisds node)) nodes ([], g1);
          g3 = fold (gen_vdev env h n) vdevs g2
      in (gn_arr g3, h\<lparr>nc_uuids := gn_uuids g3\<rparr>))"

definition getKVArray :: "'s ncpc_env \<Rightarrow> ncpc \<Rightarrow> client_req list \<times> ncpc" where
  "getKVArray env h =
     (if nc_requestKey h = [] \<and> nc_requestValue h = []
      then generateVdevRange env h
      else (nc_clientReqArr h @ [\<lparr>cq_Request = zero_kv_request\<lparr>kr_Key := nc_requestKey h, kr_Value := nc_requestValue h\<rparr>,
              cq_Response = zero_kv_response\<rparr>], h))"

definition prepWriteReq :: "client_req list \<Rightarrow> ncpc \<Rightarrow> ncpc" where
  "prepWriteReq rArr h = h\<lparr>nc_clientReqArr := rArr\<rparr>"

text \<open>\<open>None\<close>: it does not return.\<close>

definition processReadWriteReq :: "'s ncpc_env \<Rightarrow> client_req list \<Rightarrow> 's nst \<Rightarrow> (data_err \<times> 's nst) go option" where
  "processReadWriteReq env rArr st =
     (case waitServiceInit env st of
        (Some err, st1) \<Rightarrow> Some (Ret ((None, Some err), st1))
      | (None, (h, s)) \<Rightarrow>
          if nc_operation h = ''rw'' then
            (case write_keys env True (prepWriteReq rArr h, s) of
               ((data, Some err), st1) \<Rightarrow> Some (Ret ((data, Some err), st1))
             | ((data, None), st1) \<Rightarrow> Some (Ret (read_key env st1)))
          else if nc_operation h = ''write'' then Some (Ret (write_keys env False (prepWriteReq rArr h, s)))
          else if nc_operation h = ''read'' then
            (case isRangeRequest (nc_requestKey h) of
               Ret False \<Rightarrow> Some (Ret (read_key env (h, s)))
             | Ret True \<Rightarrow> map_option Ret (rangeRead env (h, s))
             | _ \<Rightarrow> Some Panic)
          else Some (Ret ((None, None), h, s)))"

subsection \<open>The cluster\<close>

definition processConfig :: "'s ncpc_env \<Rightarrow> 's nst \<Rightarrow> data_err \<times> 's nst" where
  "processConfig env st =
     (case ne_config env (snd st) of Inl err \<Rightarrow> ((None, Some err), st) | Inr d \<Rightarrow> ((Some d, None), st))"

definition processMembership :: "'s ncpc_env \<Rightarrow> 's nst \<Rightarrow> data_err \<times> 's nst" where
  "processMembership env st = ((Some (ne_json_members env (ne_members env (snd st))), None), st)"

definition processGossip :: "'s ncpc_env \<Rightarrow> 's nst \<Rightarrow> data_err \<times> 's nst" where
  "processGossip env st =
     (case st of (h, s) \<Rightarrow>
       (case ne_config env s of
          Inl err \<Rightarrow> ((None, Some err), st)
        | Inr d \<Rightarrow> ((Some d, None), h, ne_append_file env (result_path h) d s)))"

text \<open>One tag of a lookout: the compressed UUID of a NISD and its state; a tag without a value panics.\<close>

definition nisd_tag :: "'s ncpc_env \<Rightarrow> string \<times> string \<Rightarrow> (string \<times> nisd_data) list \<Rightarrow> (string \<times> nisd_data) list go" where
  "nisd_tag env = (\<lambda>(cuuid, val) m.
     case ne_decompress env cuuid of
       Inl err \<Rightarrow> Ret m
     | Inr i \<Rightarrow>
         if val = [] then Panic
         else Ret (alist_update i \<lparr>nd_UUID = (case ne_parse_uuid env i of Inr u \<Rightarrow> u | Inl err \<Rightarrow> []),
                nd_Status = (if hd val = CHR ''1'' then ''Alive'' else ''Dead''), nd_WriteSize = []\<rparr> m))"

fun fold_go :: "('x \<Rightarrow> 't \<Rightarrow> 't go) \<Rightarrow> 'x list \<Rightarrow> 't \<Rightarrow> 't go" where
  "fold_go f [] t = Ret t"
| "fold_go f (x # xs) t = go_bind (f x t) (fold_go f xs)"

definition getNISDInfo :: "'s ncpc_env \<Rightarrow> 's \<Rightarrow> (string \<times> nisd_data) list go" where
  "getNISDInfo env s =
     fold_go (\<lambda>node m. if map_of (mb_Tags node) ''Type'' = Some ''LOOKOUT'' \<and> mb_Status node = ''alive''
                      then fold_go (nisd_tag env) (mb_Tags node) m else Ret m) (ne_members env s) []"

definition processProxyStat :: "'s ncpc_env \<Rightarrow> 's nst \<Rightarrow> data_err \<times> 's nst" where
  "processProxyStat env st =
     (case st of (h, s) \<Rightarrow>
       let h1 = h\<lparr>nc_useServer := Some (nc_requestKey h)\<rparr> in
       (case ne_request env (nc_useServer h1) [] ''/stat'' False s of ((b, err), s1) \<Rightarrow> ((Some b, err), h1, s1)))"

definition prepareLOInfoRequest :: "'s ncpc_env \<Rightarrow> ncpc \<Rightarrow> string + string" where
  "prepareLOInfoRequest env h =
     (case ne_parse_uuid env (nc_requestKey h) of
        Inl err \<Rightarrow> Inl err
      | Inr u \<Rightarrow> Inr (ne_enc_lookout env u (nc_requestValue h)))"

definition processLookoutInfo :: "'s ncpc_env \<Rightarrow> 's nst \<Rightarrow> data_err \<times> 's nst" where
  "processLookoutInfo env st =
     (case st of (h, s) \<Rightarrow>
       let h1 = h\<lparr>nc_useServer := Some (nc_lookoutID h)\<rparr> in
       (case prepareLOInfoRequest env h1 of
          Inl err \<Rightarrow> ((None, Some err), h1, s)
        | Inr b \<Rightarrow>
            (case ne_request env (nc_useServer h1) b ''/v1/'' False s of
               ((r, Some err), s1) \<Rightarrow> ((None, Some err), h1, s1)
             | ((r, None), s1) \<Rightarrow> ((Some r, None), h1, s1))))"

definition getLeaseOperationType :: "string \<Rightarrow> lease_op" where
  "getLeaseOperationType op =
     (if op = ''GetLease'' then LeaseGET else if op = ''LookupLease'' then LeaseLOOKUP
      else if op = ''RefreshLease'' then LeaseREFRESH else LeaseInvalid)"

text \<open>\<open>ne_lease\<close> is the lease client: the operation, the resource, the client and the idempotency key.\<close>

definition performLeaseReq :: "'s ncpc_env \<Rightarrow> string \<Rightarrow> string \<Rightarrow> 's nst \<Rightarrow> data_err \<times> 's nst" where
  "performLeaseReq env resource client st =
     (case st of (h, s) \<Rightarrow>
       let s1 = snd (ne_ready env s); op = getLeaseOperationType (nc_operation h) in
       (case ne_parse_uuid env (nc_raftUUID h) of
          Inl err \<Rightarrow> ((None, Some err), h, s1)
        | Inr _ \<Rightarrow>
            let (rncui, h1) = (if op = LeaseLOOKUP then ([], h) else (case draw_uuid env h of (u, h1) \<Rightarrow> (u @ '':0:0:0:0'', h1))) in
            (case ne_lease env op resource client rncui s1 of
               (Inl err, s2) \<Rightarrow> ((None, Some err), h1, s2)
             | (Inr d, s2) \<Rightarrow> ((Some d, None), h1, s2))))"

text \<open>The file is written beside its target and renamed; the temporary name is removed in every case.
  \<open>ne_sync\<close> is \<open>Sync\<close> and \<open>Close\<close>.\<close>

definition DumpVdevConfigsToJSON :: "'s ncpc_env \<Rightarrow> vdev_config list \<Rightarrow> string \<Rightarrow> 's \<Rightarrow> string option \<times> 's" where
  "DumpVdevConfigsToJSON env vdevs filePath s =
     (case ne_mkdir env (filepath_Dir filePath) s of
        (Some err, s1) \<Rightarrow> (Some err, s1)
      | (None, s1) \<Rightarrow>
          (case ne_create_temp env (filepath_Dir filePath) s1 of
             (Inl err, s2) \<Rightarrow> (Some err, s2)
           | (Inr tmp, s2) \<Rightarrow>
               (case (case ne_write_file env tmp (ne_json_vdevs env vdevs) s2 of
                        (Some err, s3) \<Rightarrow> (Some err, s3)
                      | (None, s3) \<Rightarrow>
                          (case ne_sync env tmp s3 of
                             (Some err, s4) \<Rightarrow> (Some err, s4)
                           | (None, s4) \<Rightarrow> ne_rename env tmp filePath s4)) of
                  (err, s5) \<Rightarrow> (err, ne_remove env tmp s5))))"

subsection \<open>Topologies\<close>

definition ensureUserToken :: "'s ncpc_env \<Rightarrow> 's nst \<Rightarrow> (string option \<times> 's nst) go" where
  "ensureUserToken env st =
     (case st of (h, s) \<Rightarrow>
       if nc_userToken h \<noteq> [] then Ret (None, st)
       else if nc_username h = [] \<or> nc_password h = []
         then Ret (Some ''authentication required: provide -ut <token> or both -user and -pass'', st)
       else
         let (u, h1) = draw_uuid env h in
         (case uc_Login (ne_cli env) (nc_username h) (nc_password h) (\<lparr>uc_appUUID = u, uc_writeSeq = 0\<rparr>, s) of
            (Fail err, _, s1) \<Rightarrow> Ret (Some (''login failed: '' @ err), h1, s1)
          | (Panic, _, s1) \<Rightarrow> Panic
          | (Ret resp, _, s1) \<Rightarrow>
              if lr_Success resp then Ret (None, h1\<lparr>nc_userToken := lr_AccessToken resp\<rparr>, s1)
              else Ret (Some (''login failed: '' @ lr_Error resp), h1, s1)))"

text \<open>The NISD of a partition. A hypervisor with fewer than two addresses panics; the port is cut to 16 bits.\<close>

definition topology_nisd :: "string \<Rightarrow> string \<Rightarrow> hypervisor \<Rightarrow> string \<Rightarrow> device_partition \<Rightarrow> int \<Rightarrow> nisd go" where
  "topology_nisd pduID rackID hv devID part port =
     (case h_IPAddrs hv of
        a # b # _ \<Rightarrow>
          Ret \<lparr>n_PeerPort = word_of_int port, n_ID = pt_NISDUUID part,
               n_FailureDomain = [pduID, rackID, h_ID hv, devID, pt_PartitionID part], n_TotalSize = pt_Size part,
               n_AvailableSize = pt_Size part, n_SocketPath = [],
               n_NetInfo = [\<lparr>ni_IPAddr = a, ni_Port = word_of_int port\<rparr>, \<lparr>ni_IPAddr = b, ni_Port = word_of_int port\<rparr>],
               n_NetInfoCnt = 2\<rparr>
      | _ \<Rightarrow> Panic)"

text \<open>The next port, the client and the network. The write of a NISD may fail; the port is used up.\<close>

type_synonym 's topo = "int \<times> client \<times> 's"

definition topo_put_nisd :: "'s cli_env \<Rightarrow> nisd \<Rightarrow> 's topo \<Rightarrow> 's topo go" where
  "topo_put_nisd ev n t =
     (case t of (port, st) \<Rightarrow>
       (case Client.PutNisd ev (Some n) st of
          (Panic, _) \<Rightarrow> Panic
        | (_, st1) \<Rightarrow> Ret (port + 2, st1)))"

definition regen_partition ::
  "'s ncpc_env \<Rightarrow> string \<Rightarrow> string \<Rightarrow> hypervisor \<Rightarrow> string \<Rightarrow> device_partition \<Rightarrow> ncpc \<times> 's topo \<Rightarrow> (device_partition \<times> ncpc \<times> 's topo) go" where
  "regen_partition env pduID rackID hv devID p t =
     (case t of (h, port, st) \<Rightarrow>
       let (u, h1) = draw_uuid env h; p1 = p\<lparr>pt_NISDUUID := u\<rparr> in
       go_bind (topology_nisd pduID rackID hv devID p1 port) (\<lambda>n.
       go_bind (topo_put_nisd (ne_cli env) n (port, st)) (\<lambda>t1. Ret (p1, h1, t1))))"

fun map_go :: "('x \<Rightarrow> 't \<Rightarrow> ('x \<times> 't) go) \<Rightarrow> 'x list \<Rightarrow> 't \<Rightarrow> ('x list \<times> 't) go" where
  "map_go f [] t = Ret ([], t)"
| "map_go f (x # xs) t = go_bind (f x t) (\<lambda>(y, t1). go_bind (map_go f xs t1) (\<lambda>(ys, t2). Ret (y # ys, t2)))"

text \<open>The nested loops, which change the partitions in place.\<close>

definition regen_device ::
  "'s ncpc_env \<Rightarrow> string \<Rightarrow> string \<Rightarrow> hypervisor \<Rightarrow> device \<Rightarrow> ncpc \<times> 's topo \<Rightarrow> (device \<times> ncpc \<times> 's topo) go" where
  "regen_device env pduID rackID hv dev t =
     go_bind (map_go (regen_partition env pduID rackID hv (d_ID dev)) (d_Partitions dev) t)
       (\<lambda>(ps, t1). Ret (dev\<lparr>d_Partitions := ps\<rparr>, t1))"

definition regen_hypervisor ::
  "'s ncpc_env \<Rightarrow> string \<Rightarrow> string \<Rightarrow> hypervisor \<Rightarrow> ncpc \<times> 's topo \<Rightarrow> (hypervisor \<times> ncpc \<times> 's topo) go" where
  "regen_hypervisor env pduID rackID hv t =
     go_bind (map_go (regen_device env pduID rackID hv) (h_Dev hv) t) (\<lambda>(ds, t1). Ret (hv\<lparr>h_Dev := ds\<rparr>, t1))"

definition regen_rack :: "'s ncpc_env \<Rightarrow> string \<Rightarrow> rack \<Rightarrow> ncpc \<times> 's topo \<Rightarrow> (rack \<times> ncpc \<times> 's topo) go" where
  "regen_rack env pduID rack t =
     go_bind (map_go (regen_hypervisor env pduID (r_ID rack)) (r_Hypervisors rack) t)
       (\<lambda>(hs, t1). Ret (rack\<lparr>r_Hypervisors := hs\<rparr>, t1))"

definition regen_pdu :: "'s ncpc_env \<Rightarrow> pdu \<Rightarrow> ncpc \<times> 's topo \<Rightarrow> (pdu \<times> ncpc \<times> 's topo) go" where
  "regen_pdu env pdu t =
     go_bind (map_go (regen_rack env (p_ID pdu)) (p_Racks pdu) t) (\<lambda>(rs, t1). Ret (pdu\<lparr>p_Racks := rs\<rparr>, t1))"

definition regenerateNISDUUIDs :: "'s ncpc_env \<Rightarrow> pdu list \<Rightarrow> ncpc \<times> client \<times> 's \<Rightarrow> (pdu list \<times> ncpc \<times> 's topo) go" where
  "regenerateNISDUUIDs env pdus t = (case t of (h, st) \<Rightarrow> map_go (regen_pdu env) pdus (h, 13000, st))"

definition stored :: "response_xml go \<Rightarrow> bool" where
  "stored r = (case r of Ret x \<Rightarrow> rx_Success x | _ \<Rightarrow> False)"

text \<open>A node and, when its write went well, what is below it.\<close>

definition topo_node :: "(response_xml, 's) cli_op \<Rightarrow> ('s topo \<Rightarrow> 's topo go) \<Rightarrow> 's topo \<Rightarrow> 's topo go" where
  "topo_node m below t =
     (case t of (port, st) \<Rightarrow>
       (case m st of
          (Panic, _) \<Rightarrow> Panic
        | (r, st1) \<Rightarrow> if stored r then below (port, st1) else Ret (port, st1)))"

definition topo_partition ::
  "'s cli_env \<Rightarrow> string \<Rightarrow> string \<Rightarrow> hypervisor \<Rightarrow> string \<Rightarrow> device_partition \<Rightarrow> 's topo \<Rightarrow> 's topo go" where
  "topo_partition ev pduID rackID hv devID part t =
     go_bind (topology_nisd pduID rackID hv devID part (fst t)) (\<lambda>n. topo_put_nisd ev n t)"

definition topo_device :: "'s cli_env \<Rightarrow> string \<Rightarrow> string \<Rightarrow> hypervisor \<Rightarrow> device \<Rightarrow> 's topo \<Rightarrow> 's topo go" where
  "topo_device ev pduID rackID hv dev =
     topo_node (Client.PutDevice ev (Some dev)) (fold_go (topo_partition ev pduID rackID hv (d_ID dev)) (d_Partitions dev))"

definition topo_hypervisor :: "'s cli_env \<Rightarrow> string \<Rightarrow> string \<Rightarrow> hypervisor \<Rightarrow> 's topo \<Rightarrow> 's topo go" where
  "topo_hypervisor ev pduID rackID hv =
     topo_node (Client.PutHypervisor ev (Some hv)) (fold_go (topo_device ev pduID rackID hv) (h_Dev hv))"

definition topo_rack :: "'s cli_env \<Rightarrow> string \<Rightarrow> rack \<Rightarrow> 's topo \<Rightarrow> 's topo go" where
  "topo_rack ev pduID rack =
     topo_node (Client.PutRack ev (Some rack)) (fold_go (topo_hypervisor ev pduID (r_ID rack)) (r_Hypervisors rack))"

definition topo_pdu :: "'s cli_env \<Rightarrow> pdu \<Rightarrow> 's topo \<Rightarrow> 's topo go" where
  "topo_pdu ev pdu = topo_node (Client.PutPDU ev (Some pdu)) (fold_go (topo_rack ev (p_ID pdu)) (p_Racks pdu))"

definition load_topology :: "'s ncpc_env \<Rightarrow> string \<Rightarrow> string + pdu list" where
  "load_topology env d =
     (case ne_dec_pdus env d of
        Inr pdus \<Rightarrow> Inr pdus
      | Inl err \<Rightarrow> (case ne_dec_pdu env d of Inr single \<Rightarrow> Inr [single] | Inl _ \<Rightarrow> Inl (''invalid topology JSON: '' @ err)))"

text \<open>The client of the writes is a new one.\<close>

definition write_topology :: "'s ncpc_env \<Rightarrow> pdu list \<Rightarrow> 's nst \<Rightarrow> (pdu list \<times> 's nst) go" where
  "write_topology env pdus st =
     (case st of (h, s) \<Rightarrow>
       let (u, h1) = draw_uuid env h; c = InitCliCFuncs (ne_JSON env) u in
       if nc_regenerateNISDUUIDs h
       then go_bind (regenerateNISDUUIDs env pdus (h1, c, s)) (\<lambda>(ps, h2, port, c1, s1). Ret (ps, h2, s1))
       else go_bind (fold_go (topo_pdu (ne_cli env)) pdus (13000, c, s)) (\<lambda>(port, c1, s1). Ret (pdus, h1, s1)))"

abbreviation topoOutputFile :: string where "topoOutputFile \<equiv> ''topology-output.json''"

definition populateTopology :: "'s ncpc_env \<Rightarrow> string \<Rightarrow> 's nst \<Rightarrow> (string option \<times> 's nst) go" where
  "populateTopology env jsonPath st =
     (if jsonPath = [] then Ret (Some ''topology JSON file path is required (-v <path>)'', st)
      else go_bind (ensureUserToken env st) (\<lambda>(err, h, s).
        case err of
          Some e \<Rightarrow> Ret (Some e, h, s)
        | None \<Rightarrow>
            (case ne_read_file env jsonPath s of
               Inl e \<Rightarrow> Ret (Some (''failed to read topology JSON: '' @ e), h, s)
             | Inr d \<Rightarrow>
                 (case load_topology env d of
                    Inl e \<Rightarrow> Ret (Some e, h, s)
                  | Inr pdus \<Rightarrow>
                      go_bind (write_topology env pdus (h, s)) (\<lambda>(ps, h1, s1).
                        case ne_write_file env topoOutputFile (ne_json_pdus env ps) s1 of
                          (None, s2) \<Rightarrow> Ret (None, h1, s2)
                        | (Some e, s2) \<Rightarrow>
                            Ret (Some (''failed to write topology output to '' @ topoOutputFile @ '': '' @ e), h1, s2))))))"

subsection \<open>The program\<close>

record ncpc_args =
  ag_NFlag :: nat
  ag_nisdDetails :: string
  ag_vdevSize :: int64
  ag_vdevOutputFile :: string
  ag_vdevID :: string
  ag_chunkNum :: string

text \<open>What an operation prints, and how it goes on: to the end of the program, or out of it at once.\<close>

datatype ncpc_out = Out_None | Out_Bytes "string option" | Out_Vdevs "vdev list" | Out_Chunk string

datatype 's flow = Go_on data_err ncpc_out "'s nst" | Os_Exit int "'s nst"

text \<open>An operation of the client library that ends the program when it fails.\<close>

definition or_exit :: "int \<Rightarrow> ('a, 's) cli_op \<Rightarrow> client \<Rightarrow> ('a \<Rightarrow> 's nst \<Rightarrow> 's flow) \<Rightarrow> 's nst \<Rightarrow> 's flow go" where
  "or_exit code m c k st =
     (case st of (h, s) \<Rightarrow>
       (case m (c, s) of
          (Panic, _) \<Rightarrow> Panic
        | (Fail err, _, s1) \<Rightarrow> Ret (Os_Exit code (h, s1))
        | (Ret x, _, s1) \<Rightarrow> Ret (k x (h, s1))))"

text \<open>One that only logs its failure.\<close>

definition or_log :: "('a, 's) cli_op \<Rightarrow> client \<Rightarrow> ('a option \<Rightarrow> 's nst \<Rightarrow> 's flow) \<Rightarrow> 's nst \<Rightarrow> 's flow go" where
  "or_log m c k st =
     (case st of (h, s) \<Rightarrow>
       (case m (c, s) of
          (Panic, _) \<Rightarrow> Panic
        | (Fail err, _, s1) \<Rightarrow> Ret (k None (h, s1))
        | (Ret x, _, s1) \<Rightarrow> Ret (k (Some x) (h, s1))))"

text \<open>One of the user client, for which the program makes a client of its own.\<close>

definition as_user :: "'s ncpc_env \<Rightarrow> ('a, 's) user_op \<Rightarrow> ('a \<Rightarrow> bool) \<Rightarrow> ('a \<Rightarrow> 's nst \<Rightarrow> 's flow) \<Rightarrow> 's nst \<Rightarrow> 's flow go" where
  "as_user env m good k st =
     (case st of (h, s) \<Rightarrow>
       if nc_username h = [] \<or> nc_password h = [] then Ret (Os_Exit (- 1) st)
       else
         let (u, h1) = draw_uuid env h in
         (case m (\<lparr>uc_appUUID = u, uc_writeSeq = 0\<rparr>, s) of
            (Panic, _) \<Rightarrow> Panic
          | (Fail err, _, s1) \<Rightarrow> Ret (Os_Exit (- 1) (h1, s1))
          | (Ret x, _, s1) \<Rightarrow> Ret (if good x then k x (h1, s1) else Os_Exit (- 1) (h1, s1))))"

abbreviation sample_vdev_uuid :: string where "sample_vdev_uuid \<equiv> ''ebd099a1-b123-4473-b6c9-580e37f70677''"

text \<open>The operations of the client library \<open>c\<close>; an operation that is not known does nothing.\<close>

definition library_command :: "'s ncpc_env \<Rightarrow> ncpc_args \<Rightarrow> client \<Rightarrow> 's nst \<Rightarrow> 's flow go" where
  "library_command env args c st =
     (let op = nc_operation (fst st); ev = ne_cli env; go_on = Go_on (None, ne_logger env) in
      if op = ''CreateSnap'' then or_log (CreateSnap ev sample_vdev_uuid [200, 100] ''sample1'') c (\<lambda>_. go_on Out_None) st
      else if op = ''ReadSnapByName'' then or_log (client_ReadSnapByName ev ''sample1'') c (\<lambda>r. go_on (Out_Bytes (Option.bind r id))) st
      else if op = ''ReadSnapForVdev'' then or_log (client_ReadSnapForVdev ev sample_vdev_uuid) c (\<lambda>r. go_on (Out_Bytes (Option.bind r id))) st
      else if op = ''WriteNisd'' then
        (case ne_dec_nisd env (ag_nisdDetails args) of
           Inl err \<Rightarrow> Ret (Os_Exit (- 1) st)
         | Inr n \<Rightarrow> or_exit (- 1) (Client.PutNisd ev (Some n)) c (\<lambda>_. go_on Out_None) st)
      else if op = ''WriteDevice'' then
        (case ne_dec_device env (ag_nisdDetails args) of
           Inl err \<Rightarrow> Ret (Os_Exit (- 1) st)
         | Inr d \<Rightarrow> or_exit (- 1) (Client.PutDevice ev (Some d)) c (\<lambda>_. go_on Out_None) st)
      else if op = ''CreateVdev'' then
        or_exit (- 1) (Client.CreateVdev ev (Some (Some ((new_vdev [])\<lparr>v_Size := ag_vdevSize args\<rparr>), \<lparr>f_ID = [], f_Type = FD_ANY\<rparr>)))
          c (\<lambda>_. go_on Out_None) st
      else if op = ''GetVdevConfigs'' then
        or_exit 1 (Client.GetVdevConfigs ev (Some \<lparr>g_ID = [], g_GetAll = False, g_Fields = []\<rparr>)) c
          (\<lambda>vdevs (h, s). go_on Out_None (h, snd (DumpVdevConfigsToJSON env vdevs (ag_vdevOutputFile args) s))) st
      else if op = ''PopulateTopology'' then
        go_bind (populateTopology env (nc_requestValue (fst st)) st) (\<lambda>(err, st1).
          Ret (case err of Some e \<Rightarrow> Os_Exit (- 1) st1 | None \<Rightarrow> Go_on (None, None) Out_None st1))
      else if op = ''Login'' then
        as_user env (uc_Login ev (nc_username (fst st)) (nc_password (fst st))) lr_Success (\<lambda>_. go_on Out_None) st
      else if op = ''CreateAdminUser'' then
        as_user env (uc_CreateAdminUser ev (Some \<lparr>uq_Username = nc_username (fst st), uq_UserID = [],
          uq_NewSecretKey = nc_password (fst st), uq_IsUpdate = False, uq_IsAdmin = True\<rparr>)) ur_Success (\<lambda>_. go_on Out_None) st
      else if op = ''GetVdev'' then
        (if ag_vdevID args = [] then Ret (Os_Exit 1 st)
         else or_exit 1 (GetVdevsWithChunkInfo ev (Some \<lparr>g_ID = ag_vdevID args, g_GetAll = False, g_Fields = []\<rparr>)) c
                (\<lambda>v. go_on (Out_Vdevs v)) st)
      else if op = ''GetChunk'' then
        (if ag_vdevID args = [] \<or> ag_chunkNum args = [] then Ret (Os_Exit 1 st)
         else or_exit 1 (GetChunkNisd ev (Some \<lparr>g_ID = ag_vdevID args @ ''/'' @ ag_chunkNum args, g_GetAll = False, g_Fields = []\<rparr>)) c
                (\<lambda>v. go_on (Out_Chunk v)) st)
      else Ret (go_on Out_None st))"

definition with_data :: "data_err \<times> 's nst \<Rightarrow> 's flow go option" where
  "with_data r = (case r of (de, st) \<Rightarrow> Some (Ret (Go_on de Out_None st)))"

text \<open>\<open>None\<close>: the displays, and a range that is read for ever.\<close>

definition command :: "'s ncpc_env \<Rightarrow> ncpc_args \<Rightarrow> client \<Rightarrow> 's nst \<Rightarrow> 's flow go option" where
  "command env args c st =
     (let h = fst st; s = snd st; op = nc_operation h in
      if op \<in> {''rw'', ''write'', ''read''} then
        (case getKVArray env h of (rArr, h1) \<Rightarrow>
          map_option (\<lambda>r. go_bind r (\<lambda>(de, st1). Ret (Go_on de Out_None st1))) (processReadWriteReq env rArr (h1, s)))
      else if op = ''config'' then with_data (processConfig env st)
      else if op = ''membership'' then with_data (processMembership env st)
      else if op \<in> {''general'', ''nisd''} then None
      else if op = ''Gossip'' then Some (Ret (Go_on (None, ne_logger env) Out_None st))
      else if op = ''NISDGossip'' then
        Some (go_bind (getNISDInfo env s) (\<lambda>m. Ret (Go_on (Some (ne_json_nisds env m), ne_logger env) Out_None st)))
      else if op = ''PMDBGossip'' then with_data (processGossip env st)
      else if op = ''ProxyStat'' then with_data (processProxyStat env st)
      else if op = ''LookoutInfo'' then with_data (processLookoutInfo env st)
      else if op \<in> {''GetLease'', ''LookupLease'', ''RefreshLease''}
        then with_data (performLeaseReq env (nc_requestKey h) (nc_requestValue h) st)
      else Some (library_command env args c st))"

text \<open>The exit code, what was printed and the end of the state. \<open>usage\<close> exits with 0.\<close>

definition ncpc_main :: "'s ncpc_env \<Rightarrow> ncpc_args \<Rightarrow> 's nst \<Rightarrow> (int \<times> ncpc_out \<times> 's nst) go option" where
  "ncpc_main env args st =
     (if ag_NFlag args = 0 \<or> \<not> isSingleWriteReqValid (fst st) then Some (Ret (0, Out_None, st))
      else case snd (waitServiceInit env st) of (h, s) \<Rightarrow>
        (case draw_uuid env h of (u, h1) \<Rightarrow>
          (case command env args (InitCliCFuncs (ne_JSON env) u) (h1, s) of
             None \<Rightarrow> None
           | Some r \<Rightarrow> Some (go_bind r (\<lambda>fl. Ret (case fl of
                 Os_Exit code st1 \<Rightarrow> (code, Out_None, st1)
               | Go_on (data, Some err) out st1 \<Rightarrow> (- 1, out, st1)
               | Go_on (None, None) out st1 \<Rightarrow> (0, out, st1)
               | Go_on (Some d, None) out st1 \<Rightarrow> (0, out, snd (complete_data env d st1))))))))"

end
