(* ===== verification/NcpcSpec.thy ===== *)
theory NcpcSpec
  imports Ncpc ClientTotal StoreLemmas KvSpec
begin

section \<open>The command line client before the server\<close>

subsection \<open>Decoding into a response that is there\<close>

text \<open>
  \<open>encoding/gob\<close> leaves out fields with the zero value, and a decoder leaves a field alone that is not sent;
  the entries of a map are added to those that are there.
\<close>

definition gob_into :: "kv_response \<Rightarrow> kv_response \<Rightarrow> kv_response" where
  "gob_into old r =
     \<lparr>ks_Status = (if ks_Status r = 0 then ks_Status old else ks_Status r),
      ks_Key = (if ks_Key r = [] then ks_Key old else ks_Key r),
      ks_Prefix = (if ks_Prefix r = [] then ks_Prefix old else ks_Prefix r),
      ks_ResultMap = copy_map (ks_ResultMap old) (ks_ResultMap r),
      ks_ContinueRead = (ks_ContinueRead old \<or> ks_ContinueRead r),
      ks_SeqNum = (if ks_SeqNum r = 0 then ks_SeqNum old else ks_SeqNum r),
      ks_SnapMiss = (ks_SnapMiss old \<or> ks_SnapMiss r)\<rparr>"

lemma alist_update_new: "k \<notin> fst ` set m \<Longrightarrow> alist_update k v m = m @ [(k, v)]"
  by (induction m) auto

lemma copy_map_append: "distinct (map fst (dst @ src)) \<Longrightarrow> copy_map dst src = dst @ src"
proof (induction src arbitrary: dst)
  case (Cons p src)
  then have "alist_update (fst p) (snd p) dst = dst @ [p]" by (subst alist_update_new) (auto simp: image_iff)
  with Cons.IH[of "dst @ [p]"] Cons.prems show ?case by (simp add: copy_map_def split_beta)
qed (simp add: copy_map_def)

lemma copy_map_empty [simp]: "distinct (map fst src) \<Longrightarrow> copy_map [] src = src"
  using copy_map_append[of "[]" src] by simp

text \<open>
  What the client relies on of its way to the server: requests and replies arrive as they were sent, a read that
  the callback of the server does not answer becomes an error, and a write gets the reply of the proxy.
\<close>

definition kv_linked ::
  "'s ncpc_env \<Rightarrow> (string \<Rightarrow> string + kv_request) \<Rightarrow> (kv_response \<Rightarrow> string) \<Rightarrow> string \<Rightarrow> 's data_store \<Rightarrow> int \<Rightarrow> bool" where
  "kv_linked env decode enc err ds sz \<longleftrightarrow>
     (\<forall>req. decode (ne_enc env req) = Inr req)
   \<and> (\<forall>r. enc r \<noteq> []) \<and> (\<forall>r old. ne_dec env (enc r) old = (None, gob_into old r))
   \<and> (\<forall>srv req path s. ne_request env srv (ne_enc env req) path False s
        = ((case kv_Read decode (\<lambda>r. Inr (int (length (enc r)))) ds sz (ne_enc env req) s of
              (_, Some resp) \<Rightarrow> (enc resp, None) | (_, None) \<Rightarrow> ([], Some err)), s))
   \<and> (\<forall>srv req path s. ne_request env srv (ne_enc env req) path True s
        = (case kv_Apply decode ds (ne_enc env req) s of
             (r, s1) \<Rightarrow> ((enc (zero_kv_response\<lparr>ks_Status := if r < 0 then 1 else 0\<rparr>), None), s1)))"

lemma linked_codec:
  assumes "kv_linked env decode enc err ds sz"
  shows "decode (ne_enc env req) = Inr req" "enc r \<noteq> []" "ne_dec env (enc r) old = (None, gob_into old r)"
  using assms by (auto simp: kv_linked_def)

lemma linked_read:
  assumes "kv_linked env decode enc err ds sz"
  shows "ne_request env srv (ne_enc env req) path False s
     = ((case kv_answer ds sz req s of Some (Inr resp) \<Rightarrow> (enc resp, None) | _ \<Rightarrow> ([], Some err)), s)"
  using assms linked_codec(1)[OF assms, of req]
  by (auto simp: kv_linked_def kv_Read_def split: option.splits sum.splits)

lemma linked_write:
  assumes "kv_linked env decode enc err ds sz"
  shows "ne_request env srv (ne_enc env req) path True s
     = (case ds_Write ds s (kr_Key req) (kr_Value req) of
          (e, s1) \<Rightarrow> ((enc (zero_kv_response\<lparr>ks_Status := if e = None then 0 else 1\<rparr>), None), s1))"
  using assms linked_codec(1)[OF assms, of req]
  by (auto simp: kv_linked_def kv_Apply_def split: prod.splits option.splits)

subsection \<open>Ranges\<close>

text \<open>The page of the range that starts at a key.\<close>

definition range_page :: "'s data_store \<Rightarrow> int \<Rightarrow> kv_request \<Rightarrow> 's \<Rightarrow> string + range_result" where
  "range_page ds sz req s =
     ds_RangeRead ds s \<lparr>ra_Key = kr_Key req, ra_Prefix = kr_Prefix req, ra_BufSize = sz - encodingOverhead, ra_Consistent = True,
       ra_SeqNum = kr_SeqNum req\<rparr>"

definition page_response :: "kv_request \<Rightarrow> range_result \<Rightarrow> kv_response" where
  "page_response req r =
     \<lparr>ks_Status = 0, ks_Key = rr_LastKey r, ks_Prefix = kr_Key req, ks_ResultMap = rr_ResultMap r,
      ks_ContinueRead = (rr_LastKey r \<noteq> []), ks_SeqNum = rr_SeqNum r, ks_SnapMiss = rr_SnapMiss r\<rparr>"

lemma range_answer:
  "kr_Operation req = KV_RANGE_READ \<Longrightarrow> range_page ds sz req s = Inr r \<Longrightarrow> kv_answer ds sz req s = Some (Inr (page_response req r))"
  by (simp add: kv_answer_def range_page_def page_response_def)

lemma range_step:
  assumes "kv_linked env decode enc err ds sz" and "kr_Operation req = KV_RANGE_READ"
    and "range_page ds sz (page_request req key seqNum) s = Inr r"
  shows "range_loop env srv req key seqNum rso m s =
     (let req1 = page_request req key seqNum; rso1 = gob_into rso (page_response req1 r); m1 = copy_map m (ks_ResultMap rso1) in
      if ks_ContinueRead rso1 then range_loop env srv req1 (ks_Key rso1) (ks_SeqNum rso1) rso1 m1 s else Some (req1, rso1, m1, s))"
proof -
  have "kr_Operation (page_request req key seqNum) = KV_RANGE_READ" using assms(2) by (simp add: page_request_def)
  from range_answer[OF this assms(3)] linked_read[OF assms(1)] linked_codec[OF assms(1)] show ?thesis
    by (subst range_loop.simps) (simp add: Let_def)
qed

text \<open>
  A response that once said that there is more goes on saying so, because \<open>false\<close> is not sent: the loop never ends.
\<close>

lemma range_loop_diverges:
  assumes link: "kv_linked env decode enc err ds sz" and total: "\<And>req. \<exists>r. range_page ds sz req s = Inr r"
    and "kr_Operation req = KV_RANGE_READ" "ks_ContinueRead rso"
  shows "range_loop env srv req key seqNum rso m s = None"
proof -
  have False if "range_loop env srv req key seqNum rso m s = Some y" for y
    using that assms
  proof (induction rule: range_loop.raw_induct[rotated, consumes 1, case_names step])
    case (step loop env srv req key seqNum rso m s y)
    let ?req = "page_request req key seqNum"
    obtain r where r: "range_page ds sz ?req s = Inr r" using step.prems(2) by blast
    have op: "kr_Operation ?req = KV_RANGE_READ" using step.prems(3) by (simp add: page_request_def)
    let ?o = "gob_into rso (page_response ?req r)"
    from step.hyps linked_read[OF step.prems(1), of srv ?req "''/app''" s] range_answer[OF op r] linked_codec[OF step.prems(1)]
    have "loop env srv ?req (ks_Key ?o) (ks_SeqNum ?o) ?o (copy_map m (ks_ResultMap ?o)) s = Some y"
      using step.prems(4) by (simp add: Let_def gob_into_def)
    from step.IH[OF this step.prems(1,2) op] step.prems(4) show False by (simp add: gob_into_def)
  qed
  then show ?thesis by (cases "range_loop env srv req key seqNum rso m s") auto
qed

subsection \<open>Writes in any order\<close>

lemma fold_updates:
  assumes "distinct js" and "inj_on key (set js)"
  shows "(\<forall>i \<in> set js. fold (\<lambda>i m. m(key i \<mapsto> val i)) js m (key i) = Some (val i))
     \<and> (\<forall>k. k \<notin> key ` set js \<longrightarrow> fold (\<lambda>i m. m(key i \<mapsto> val i)) js m k = m k)"
  using assms
proof (induction js arbitrary: m)
  case (Cons j js)
  from Cons.IH[of "m(key j \<mapsto> val j)"] Cons.prems show ?case
    by (auto simp: inj_on_def)
qed simp

text \<open>Sending changes no request, and leaves the store with the pairs sent.\<close>

definition sent :: "ncpc \<Rightarrow> nat \<Rightarrow> kv_request" where
  "sent h i = cq_Request (nc_clientReqArr h ! i)"

lemma prepNSendReq_writes:
  assumes "kv_linked env decode enc err ds sz" and "store_exact ds cont" and "i < length (nc_clientReqArr h)"
    and "prepNSendReq env rncui True i (h, s) = (e, h1, s1)"
  shows "e = None" "map cq_Request (nc_clientReqArr h1) = map cq_Request (nc_clientReqArr h)"
    "cont s1 = (cont s)(kr_Key (sent h i) \<mapsto> kr_Value (sent h i))"
proof -
  obtain e' s' where w: "ds_Write ds s (kr_Key (sent h i)) (kr_Value (sent h i)) = (e', s')" by (metis surj_pair)
  have n: "e' = None" using assms(2) w by (simp add: store_exact_def) (metis fst_conv)
  from assms(4) linked_write[OF assms(1)] linked_codec(3)[OF assms(1)] w n
  have r: "e = None" "s1 = s'" "map cq_Request (nc_clientReqArr h1) = (map cq_Request (nc_clientReqArr h))[i := sent h i]"
    by (auto simp: prepNSendReq_def sent_def Let_def map_update)
  then show "e = None" "map cq_Request (nc_clientReqArr h1) = map cq_Request (nc_clientReqArr h)"
    using assms(3) by (simp_all add: sent_def list_update_same_conv)
  show "cont s1 = (cont s)(kr_Key (sent h i) \<mapsto> kr_Value (sent h i))"
    using sound_write[OF exact_sound[OF assms(2)] w] r(2) n by simp
qed

lemma sent_eq: "map cq_Request (nc_clientReqArr h1) = map cq_Request (nc_clientReqArr h) \<Longrightarrow> i < length (nc_clientReqArr h) \<Longrightarrow> sent h1 i = sent h i"
  unfolding sent_def by (metis length_map nth_map)

lemma write_fold:
  assumes "kv_linked env decode enc err ds sz" and "store_exact ds cont"
  shows "set js \<subseteq> {..<length (nc_clientReqArr h)} \<Longrightarrow>
     fold (\<lambda>i st. snd (prepNSendReq env (rn i) True i st)) js (h, s) = (h2, s2) \<Longrightarrow>
     map cq_Request (nc_clientReqArr h2) = map cq_Request (nc_clientReqArr h)
     \<and> cont s2 = fold (\<lambda>i m. m(kr_Key (sent h i) \<mapsto> kr_Value (sent h i))) js (cont s)"
proof (induction js arbitrary: h s)
  case (Cons j js)
  obtain e h1 s1 where p: "prepNSendReq env (rn j) True j (h, s) = (e, h1, s1)" by (metis surj_pair)
  have j: "j < length (nc_clientReqArr h)" using Cons.prems(1) by simp
  note w = prepNSendReq_writes[OF assms j p]
  have len: "length (nc_clientReqArr h1) = length (nc_clientReqArr h)" using w(2) by (metis length_map)
  have "fold (\<lambda>i m. m(kr_Key (sent h1 i) \<mapsto> kr_Value (sent h1 i))) js (cont s1)
      = fold (\<lambda>i m. m(kr_Key (sent h i) \<mapsto> kr_Value (sent h i))) js (cont s1)"
    by (rule fold_cong) (use Cons.prems(1) sent_eq[OF w(2)] in auto)
  with Cons.IH[of h1 s1] Cons.prems p w len show ?case by (simp del: fun_upd_apply)
qed simp

subsection \<open>Topologies\<close>

text \<open>Calls whose writes carry no token, and operations of a client without a token, which make such calls.\<close>

definition tokenless :: "call list \<Rightarrow> bool" where
  "tokenless cs \<longleftrightarrow> (\<forall>w \<in> set cs. cl_write w \<longrightarrow> rq_Token (cl_req w) = [])"

definition quiet :: "('a, call list) cli_op \<Rightarrow> bool" where
  "quiet m \<longleftrightarrow> (\<forall>c log. ccf_token c = [] \<longrightarrow> (\<exists>cs. snd (m (c, log)) = (next_write c, log @ cs) \<and> tokenless cs))"

lemma tokenless_append [simp]: "tokenless (cs @ ds) \<longleftrightarrow> tokenless cs \<and> tokenless ds"
  by (auto simp: tokenless_def)

lemma put_quiet:
  assumes "px_sendFuncReqFn px = Some (recording ans)" and "linked ev px"
  shows "quiet (restWriteResource ev t d)"
  unfolding quiet_def
proof (intro allI impI)
  fix c :: client and log :: "call list"
  assume c: "ccf_token c = []"
  let ?r = "link_request ''PUT'' [''api'', ''resource''] [(''type'', t)] (je_dto (ev_js ev) d) (restHeaders (ccf_token c) True @ [(rncuiHeader, rncui_of c)])"
  have "tokenFromRequest ?r = []"
    using c by (simp add: link_token) (simp add: tokenFromRequest_def link_request_def query_get_def)
  with restMux_calls[of px ?r log] assms(1) obtain cs where "snd (restMux px ?r log) = log @ cs" "tokenless cs"
    by (auto simp: calls_ok_def transport_def call_list_ok_def write_call_ok_def tokenless_def list_all_iff)
  then show "\<exists>cs. snd (restWriteResource ev t d (c, log)) = (next_write c, log @ cs) \<and> tokenless cs"
    unfolding client_put_resource[OF assms(2)] mux_routes(1)[symmetric] by blast
qed

text \<open>A step, with or without a result, that keeps an invariant when it returns.\<close>

definition keeps :: "('t \<Rightarrow> bool) \<Rightarrow> ('t \<Rightarrow> 't go) \<Rightarrow> bool" where
  "keeps I f \<longleftrightarrow> (\<forall>t t'. I t \<longrightarrow> f t = Ret t' \<longrightarrow> I t')"

definition keeps_with :: "('t \<Rightarrow> bool) \<Rightarrow> ('t \<Rightarrow> ('y \<times> 't) go) \<Rightarrow> bool" where
  "keeps_with I f \<longleftrightarrow> (\<forall>t y t'. I t \<longrightarrow> f t = Ret (y, t') \<longrightarrow> I t')"

lemma keepsD: "keeps I f \<Longrightarrow> I t \<Longrightarrow> f t = Ret t' \<Longrightarrow> I t'"
  unfolding keeps_def by blast

lemma keeps_withD: "keeps_with I f \<Longrightarrow> I t \<Longrightarrow> f t = Ret (y, t') \<Longrightarrow> I t'"
  unfolding keeps_with_def by blast

lemma keeps_bind: "keeps I f \<Longrightarrow> keeps I g \<Longrightarrow> keeps I (\<lambda>t. go_bind (f t) g)"
  unfolding keeps_def go_bind_Ret_iff by blast

lemma keeps_fold_go: "\<forall>x \<in> set xs. keeps I (f x) \<Longrightarrow> keeps I (fold_go f xs)"
proof (induction xs)
  case Nil
  show ?case by (simp add: keeps_def)
next
  case (Cons x xs)
  then have "keeps I (\<lambda>t. go_bind (f x t) (fold_go f xs))" by (intro keeps_bind) simp_all
  then show ?case by (simp add: keeps_def)
qed

lemma keeps_map_go: "\<forall>x \<in> set xs. keeps_with I (f x) \<Longrightarrow> keeps_with I (map_go f xs)"
proof (induction xs)
  case Nil
  show ?case by (simp add: keeps_with_def)
next
  case (Cons x xs)
  then have k: "keeps_with I (f x)" "keeps_with I (map_go f xs)" by simp_all
  show ?case unfolding keeps_with_def
  proof (intro allI impI)
    fix t ys t'
    assume t: "I t" "map_go f (x # xs) t = Ret (ys, t')"
    then obtain y t1 zs where "f x t = Ret (y, t1)" "map_go f xs t1 = Ret (zs, t')" by (auto simp: go_bind_Ret_iff)
    from keeps_withD[OF k(2) keeps_withD[OF k(1) t(1) this(1)] this(2)] show "I t'" .
  qed
qed

text \<open>A loop body that puts the result of an inner loop into a record.\<close>

lemma keeps_with_map: "keeps_with I f \<Longrightarrow> keeps_with I (\<lambda>t. go_bind (f t) (\<lambda>(y, t1). Ret (g y, t1)))"
  unfolding keeps_with_def by (auto simp: go_bind_Ret_iff)

lemma fold_go_returns: "\<forall>x \<in> set xs. \<forall>t. \<exists>t'. f x t = Ret t' \<Longrightarrow> \<exists>t'. fold_go f xs t = Ret t'"
proof (induction xs arbitrary: t)
  case (Cons x xs)
  from Cons.prems obtain t1 where "f x t = Ret t1" by fastforce
  with Cons.IH[of t1] Cons.prems show ?case by simp
qed simp

lemma map_go_returns: "\<forall>x \<in> set xs. \<forall>t. \<exists>r. f x t = Ret r \<Longrightarrow> \<exists>r. map_go f xs t = Ret r"
proof (induction xs arbitrary: t)
  case (Cons x xs)
  from Cons.prems obtain y t1 where f: "f x t = Ret (y, t1)" by fastforce
  obtain r where "map_go f xs t1 = Ret r" using Cons.IH[of t1] Cons.prems by auto
  with f show ?case by (cases r) simp
qed simp

text \<open>What holds all along: the client has no token, and the calls so far are without.\<close>

definition topo_inv :: "call list \<Rightarrow> call list topo \<Rightarrow> bool" where
  "topo_inv log0 t \<longleftrightarrow> (case t of (port, c, log) \<Rightarrow> ccf_token c = [] \<and> (\<exists>cs. log = log0 @ cs \<and> tokenless cs))"

lemma quiet_inv:
  assumes "quiet m" and "topo_inv log0 (port, st)"
  shows "topo_inv log0 (n, snd (m st))"
proof -
  obtain c log where st: "st = (c, log)" by (cases st)
  with assms(2) obtain cs where l: "log = log0 @ cs" "tokenless cs" "ccf_token c = []" by (auto simp: topo_inv_def)
  from assms(1)[unfolded quiet_def, rule_format, OF l(3), of log] obtain ds where "snd (m st) = (next_write c, log @ ds)" "tokenless ds"
    unfolding st by blast
  with l show ?thesis by (simp add: topo_inv_def)
qed

lemma topo_node_inv:
  assumes "topo_inv l (port, snd (m st))" and "keeps (topo_inv l) below" and "topo_node m below (port, st) = Ret t'"
  shows "topo_inv l t'"
proof -
  obtain r st1 where m: "m st = (r, st1)" by (cases "m st")
  from assms(3) m have "below (port, st1) = Ret t' \<or> t' = (port, st1)" by (cases r) (auto simp: topo_node_def split: if_splits)
  moreover from assms(1) m have i: "topo_inv l (port, st1)" by simp
  ultimately show ?thesis using keepsD[OF assms(2) i] by blast
qed

lemma keeps_topo_node: "quiet m \<Longrightarrow> keeps (topo_inv log0) below \<Longrightarrow> keeps (topo_inv log0) (topo_node m below)"
  unfolding keeps_def[of _ "topo_node m below"]
proof (intro allI impI)
  fix t t' assume q: "quiet m" and b: "keeps (topo_inv log0) below" and t: "topo_inv log0 t" "topo_node m below t = Ret t'"
  obtain port st where p: "t = (port, st)" by (cases t)
  from topo_node_inv[OF quiet_inv[OF q t(1)[unfolded p]] b t(2)[unfolded p]] show "topo_inv log0 t'" .
qed

lemma keeps_put_nisd: "quiet (Client.PutNisd ev (Some n)) \<Longrightarrow> keeps (topo_inv log0) (topo_put_nisd ev n)"
  unfolding keeps_def
proof (intro allI impI)
  fix t t' assume q: "quiet (Client.PutNisd ev (Some n))" and t: "topo_inv log0 t" "topo_put_nisd ev n t = Ret t'"
  obtain port st where p: "t = (port, st)" by (cases t)
  obtain r st1 where m: "Client.PutNisd ev (Some n) st = (r, st1)" by (cases "Client.PutNisd ev (Some n) st")
  from quiet_inv[OF q t(1)[unfolded p], of "port + 2"] m have "topo_inv log0 (port + 2, st1)" by simp
  moreover from t(2) p m have "t' = (port + 2, st1)" by (cases r) (simp_all add: topo_put_nisd_def)
  ultimately show "topo_inv log0 t'" by simp
qed

lemma keeps_topo_racks:
  assumes px: "px_sendFuncReqFn px = Some (recording ans)" "linked ev px"
  shows "keeps (topo_inv log0) (fold_go (topo_rack ev pduID) racks)"
proof -
  note q = put_quiet[OF px]
  have part: "keeps (topo_inv log0) (topo_partition ev p r hv d part)" for p r hv d part
    using keeps_put_nisd[of ev] q unfolding client_bodies[symmetric]
    by (auto simp: keeps_def topo_partition_def go_bind_Ret_iff client_bodies)
  show ?thesis
    unfolding topo_rack_def topo_hypervisor_def topo_device_def client_bodies
    by (intro keeps_topo_node q keeps_fold_go ballI part)
qed

lemma keeps_topo_pdu:
  assumes px: "px_sendFuncReqFn px = Some (recording ans)" "linked ev px"
  shows "keeps (topo_inv log0) (topo_pdu ev pdu)"
  unfolding topo_pdu_def client_bodies by (intro keeps_topo_node put_quiet[OF px] keeps_topo_racks[OF px])

lemma keeps_regenerate:
  assumes px: "px_sendFuncReqFn px = Some (recording ans)" "linked (ne_cli env) px"
  shows "keeps_with (\<lambda>(h, t). topo_inv log0 t) (regen_partition env p r hv d part)"
proof -
  have "quiet (Client.PutNisd (ne_cli env) (Some n))" for n unfolding client_bodies by (rule put_quiet[OF px])
  from keepsD[OF keeps_put_nisd[OF this]] show ?thesis
    unfolding keeps_with_def by (auto simp: regen_partition_def go_bind_Ret_iff Let_def split: prod.splits)
qed

text \<open>The loops return when every hypervisor has two addresses, whatever becomes of the writes.\<close>

definition addressed :: "pdu list \<Rightarrow> bool" where
  "addressed pdus \<longleftrightarrow> (\<forall>pdu \<in> set pdus. \<forall>rack \<in> set (p_Racks pdu). \<forall>hv \<in> set (r_Hypervisors rack). 2 \<le> length (h_IPAddrs hv))"

lemma topology_nisd_returns: "2 \<le> length (h_IPAddrs hv) \<Longrightarrow> \<exists>n. topology_nisd p r hv d part port = Ret n"
  by (auto simp: topology_nisd_def Suc_le_length_iff numeral_2_eq_2)

lemma topo_put_nisd_returns: "\<exists>t'. topo_put_nisd ev n t = Ret t'"
  using backend_writes_return(5)[of ev n]
  by (auto simp: returns_def topo_put_nisd_def split: prod.split go.split) (metis fst_conv)

lemma topo_node_returns: "returns m \<Longrightarrow> \<forall>t. \<exists>t'. below t = Ret t' \<Longrightarrow> \<exists>t'. topo_node m below t = Ret t'"
  by (auto simp: returns_def topo_node_def split: prod.split go.split) (metis fst_conv)

lemma addressed_each: "addressed pdus \<Longrightarrow> pdu \<in> set pdus \<Longrightarrow> addressed [pdu]"
  by (simp add: addressed_def)

lemma topo_pdu_returns:
  assumes "addressed [pdu]"
  shows "\<exists>t'. topo_pdu ev pdu t = Ret t'"
proof -
  have part: "\<exists>t'. topo_partition ev p r hv d part t = Ret t'" if "2 \<le> length (h_IPAddrs hv)" for p r hv d part t
  proof -
    from topology_nisd_returns[OF that] obtain n where "topology_nisd p r hv d part (fst t) = Ret n" by blast
    with topo_put_nisd_returns[of ev n t] show ?thesis by (simp add: topo_partition_def)
  qed
  have dev: "\<exists>t'. topo_device ev p r hv dev t = Ret t'" if "2 \<le> length (h_IPAddrs hv)" for p r hv dev t
    unfolding topo_device_def by (intro topo_node_returns backend_writes_return allI fold_go_returns ballI part that)
  have hv: "\<exists>t'. topo_hypervisor ev p r hv t = Ret t'" if "2 \<le> length (h_IPAddrs hv)" for p r hv t
    unfolding topo_hypervisor_def by (intro topo_node_returns backend_writes_return allI fold_go_returns ballI dev that)
  have rack: "\<exists>t'. topo_rack ev p rack t = Ret t'" if "rack \<in> set (p_Racks pdu)" for p rack t
    unfolding topo_rack_def
    by (intro topo_node_returns backend_writes_return allI fold_go_returns ballI hv) (use assms that in \<open>simp add: addressed_def\<close>)
  show ?thesis
    unfolding topo_pdu_def by (intro topo_node_returns backend_writes_return allI fold_go_returns ballI rack)
qed

lemma regen_partition_returns: "2 \<le> length (h_IPAddrs hv) \<Longrightarrow> \<exists>r. regen_partition env p k hv d part t = Ret r"
proof -
  assume a: "2 \<le> length (h_IPAddrs hv)"
  obtain h port st where t: "t = (h, port, st)" by (cases t)
  obtain u h1 where u: "draw_uuid env h = (u, h1)" by (metis surj_pair)
  from topology_nisd_returns[OF a] obtain n where "topology_nisd p k hv d (part\<lparr>pt_NISDUUID := u\<rparr>) port = Ret n" by blast
  moreover from topo_put_nisd_returns obtain t1 where "topo_put_nisd (ne_cli env) n (port, st) = Ret t1" by blast
  ultimately show ?thesis by (cases t1) (simp add: regen_partition_def t u)
qed

lemma mapped_returns: "\<exists>r. m = Ret r \<Longrightarrow> \<exists>r. go_bind m (\<lambda>(y, t1). Ret (g y, t1)) = Ret r"
  by auto

lemma regenerate_returns:
  assumes "addressed pdus"
  shows "\<exists>r. regenerateNISDUUIDs env pdus t = Ret r"
proof -
  have dev: "\<exists>r. regen_device env p k hv dev t = Ret r" if "2 \<le> length (h_IPAddrs hv)" for p k hv dev t
    unfolding regen_device_def by (intro mapped_returns map_go_returns ballI allI regen_partition_returns that)
  have hv: "\<exists>r. regen_hypervisor env p k hv t = Ret r" if "2 \<le> length (h_IPAddrs hv)" for p k hv t
    unfolding regen_hypervisor_def by (intro mapped_returns map_go_returns ballI allI dev that)
  have pdu: "\<exists>r. regen_pdu env pdu t = Ret r" if "pdu \<in> set pdus" for pdu t
    unfolding regen_pdu_def regen_rack_def
    by (intro mapped_returns map_go_returns ballI allI hv) (use assms that in \<open>simp add: addressed_def\<close>)
  obtain h st where t: "t = (h, st)" by (cases t)
  show ?thesis unfolding regenerateNISDUUIDs_def t prod.case by (intro map_go_returns ballI allI pdu)
qed

lemma keeps_regenerateNISDUUIDs:
  assumes "px_sendFuncReqFn px = Some (recording ans)" "linked (ne_cli env) px"
    and "topo_inv log0 (13000, st)" "regenerateNISDUUIDs env pdus (h, st) = Ret (ps, h1, t1)"
  shows "topo_inv log0 t1"
proof -
  let ?I = "\<lambda>(h :: ncpc, t). topo_inv log0 t"
  have k: "keeps_with ?I (map_go (regen_pdu env) pdus)"
    unfolding regen_pdu_def regen_rack_def regen_hypervisor_def regen_device_def
    by (intro keeps_map_go ballI keeps_with_map keeps_regenerate[OF assms(1,2)])
  have "map_go (regen_pdu env) pdus (h, 13000, st) = Ret (ps, h1, t1)" using assms(4) by (simp add: regenerateNISDUUIDs_def)
  from keeps_withD[OF k _ this] assms(3) show ?thesis by simp
qed

text \<open>The writes of a topology return, without tokens.\<close>

lemma write_topology_quiet:
  assumes "px_sendFuncReqFn px = Some (recording ans)" "linked (ne_cli env) px" and "addressed pdus"
  shows "\<exists>ps h1 cs. write_topology env pdus (h, log) = Ret (ps, h1, log @ cs) \<and> tokenless cs"
proof -
  obtain u h0 where u: "draw_uuid env h = (u, h0)" by (metis surj_pair)
  let ?c = "InitCliCFuncs (ne_JSON env) u"
  have i: "topo_inv log (13000, ?c, log)" by (simp add: topo_inv_def InitCliCFuncs_def tokenless_def)
  show ?thesis
  proof (cases "nc_regenerateNISDUUIDs h")
    case True
    from regenerate_returns[OF assms(3)] obtain ps h1 port c1 s1
      where r: "regenerateNISDUUIDs env pdus (h0, ?c, log) = Ret (ps, h1, port, c1, s1)" by (metis surj_pair)
    from keeps_regenerateNISDUUIDs[OF assms(1,2) i r] obtain cs where "s1 = log @ cs" "tokenless cs" by (auto simp: topo_inv_def)
    with True r u show ?thesis by (simp add: write_topology_def)
  next
    case False
    have "\<forall>p \<in> set pdus. \<forall>t. \<exists>t'. topo_pdu (ne_cli env) p t = Ret t'"
      using topo_pdu_returns addressed_each[OF assms(3)] by blast
    from fold_go_returns[OF this] obtain port c1 s1
      where r: "fold_go (topo_pdu (ne_cli env)) pdus (13000, ?c, log) = Ret (port, c1, s1)" by (metis surj_pair)
    from keepsD[OF keeps_fold_go[OF ballI[OF keeps_topo_pdu[OF assms(1,2)]]] i r] obtain cs where "s1 = log @ cs" "tokenless cs"
      by (auto simp: topo_inv_def)
    with False r u show ?thesis by (simp add: write_topology_def)
  qed
qed

text \<open>The first of them is that of the first PDU.\<close>

lemma write_topology_first:
  assumes px: "px_sendFuncReqFn px = Some (recording ans)" "linked (ne_cli env) px"
    and c: "c = InitCliCFuncs (ne_JSON env) (fst (draw_uuid env h))" "plain_uuid c"
    and p: "delivered (ev_js (ne_cli env)) (px_json px) (D_PDU (toRestPDU p))" "p_ID p \<noteq> []"
    and r: "\<not> nc_regenerateNISDUUIDs h" "write_topology env (p # rest) (h, log) = Ret (ps, h1, log1)"
  shows "\<exists>cs. log1 = log @ client_call c PUT_PDU (A_PDU (p\<lparr>p_Racks := []\<rparr>)) # cs"
proof -
  let ?w = "client_call c PUT_PDU (A_PDU (p\<lparr>p_Racks := []\<rparr>))" and ?ev = "ne_cli env"
  obtain u h0 where u: "draw_uuid env h = (u, h0)" by (metis surj_pair)
  from r u c(1) obtain t1 port c1
    where t: "topo_pdu ?ev p (13000, c, log) = Ret t1" "fold_go (topo_pdu ?ev) rest t1 = Ret (port, c1, log1)"
    by (auto simp: write_topology_def go_bind_Ret_iff)
  from entity_writes_arrive(1)[OF px c(2) p] have "topo_inv (log @ [?w]) (13000, snd (Client.PutPDU ?ev (Some p) (c, log)))"
    using c(1) by (simp add: topo_inv_def InitCliCFuncs_def tokenless_def)
  from topo_node_inv[OF this keeps_topo_racks[OF px] t(1)[unfolded topo_pdu_def]] have "topo_inv (log @ [?w]) t1" .
  from keepsD[OF keeps_fold_go[OF ballI[OF keeps_topo_pdu[OF px]]] this t(2)] show ?thesis by (auto simp: topo_inv_def)
qed

section \<open>Properties\<close>


text \<open>
  The default operation. \<open>rw\<close> writes a key and then fails, always: its read sends the request at the head of
  the list, which is still the write, and the server refuses that as a read.
\<close>

lemma rw_writes_then_fails:
  assumes "kv_linked env decode enc err ds sz" and "ne_ready env s = (None, s)" "ne_order env 1 = [0]"
    and "nc_operation h = ''rw''" "nc_clientReqArr h = []" "nc_requestKey h \<noteq> []"
    and "ds_Write ds s (nc_requestKey h) (nc_requestValue h) = (None, s1)" "\<And>d. ne_write_file env (result_path h) d s1 = (None, s2)"
  shows "\<exists>h1. processReadWriteReq env (fst (getKVArray env h)) (h, s) = Some (Ret ((None, Some err), h1, s2))"
proof -
  let ?r = "\<lparr>cq_Request = zero_kv_request\<lparr>kr_Key := nc_requestKey h, kr_Value := nc_requestValue h\<rparr>, cq_Response = zero_kv_response\<rparr>"
  have arr: "fst (getKVArray env h) = [?r]" using assms(5,6) by (simp add: getKVArray_def)
  let ?h = "h\<lparr>nc_operation := ''write'', nc_clientReqArr := [set_write ?r], nc_uuids := nc_uuids h + 1\<rparr>"
  obtain h2 where w: "prepNSendReq env (ne_uuid env (nc_uuids h) @ '':0:0:0:0'') True 0 (?h, s) = (None, h2, s1)"
    and h2: "map cq_Request (nc_clientReqArr h2) = [cq_Request (set_write ?r)]" "nc_resultFile h2 = nc_resultFile h"
    using linked_write[OF assms(1)] linked_codec(3)[OF assms(1)] assms(7)
    by (auto simp: prepNSendReq_def Let_def set_write_def)
  from h2(2) assms(8) have f: "complete_data env d (h2, s1) = (None, h2, s2)" for d
    by (simp add: complete_data_def result_path_def)
  have wk: "write_keys env True (prepWriteReq [?r] h, s) = ((None, None), h2, s2)"
    using w f assms(3) by (simp add: write_keys_def prepWriteReq_def Let_def)
  obtain r0 where a2: "nc_clientReqArr h2 = [r0]" "cq_Request r0 = cq_Request (set_write ?r)" using h2(1) by auto
  have no: "kv_answer ds sz (cq_Request (set_write ?r)) s2 = None" by (simp add: kv_answer_def set_write_def)
  have "\<exists>h1. read_key env (h2, s2) = ((None, Some err), h1, s2)"
    using linked_read[OF assms(1)] no a2 by (simp add: read_key_def prepNSendReq_def Let_def)
  with wk assms(2,4) arr show ?thesis by (auto simp: processReadWriteReq_def waitServiceInit_def)
qed

text \<open>
  C39: reading a range from a server that answers every range. When the first page is the last one, the result is
  that page. Otherwise the program does not return: every page is decoded into the same response, in which the mark
  that there is more is never cleared, since zero values are not transmitted.
\<close>

theorem range_returns_iff:
  assumes "kv_linked env decode enc err ds sz" and "ne_ready env s = (None, s)"
    and "nc_operation h = ''read''" "nc_requestKey h = prefix @ ''*''" "nc_clientReqArr h = []"
    and "\<And>req. \<exists>r. range_page ds sz req s = Inr r"
    and "range_page ds sz ((range_request h)\<lparr>kr_SeqNum := nc_seqNum h\<rparr>) s = Inr page" "distinct (map fst (rr_ResultMap page))"
  shows "(rr_LastKey page \<noteq> [] \<longrightarrow> processReadWriteReq env rArr (h, s) = None)
     \<and> (rr_LastKey page = [] \<longrightarrow> (\<exists>h1 rq rs. processReadWriteReq env rArr (h, s) = Some (Ret ((Some (ne_json_reqs env [rq]), None), h1, s))
          \<and> cq_Response rq = rs \<and> ks_ResultMap rs = rr_ResultMap page \<and> kr_Prefix (cq_Request rq) = prefix))"
proof -
  let ?q = "range_request h" and ?req = "(range_request h)\<lparr>kr_SeqNum := nc_seqNum h\<rparr>"
  have q: "page_request ?q (kr_Key ?q) (nc_seqNum h) = ?req" "kr_Operation ?q = KV_RANGE_READ" "kr_Prefix ?q = prefix"
    using assms(4) by (simp_all add: page_request_def range_request_def)
  have op: "kr_Operation ?req = KV_RANGE_READ" using q(2) by simp
  let ?o = "gob_into zero_kv_response (page_response ?req page)"
  have o: "ks_ResultMap ?o = rr_ResultMap page" "ks_ContinueRead ?o = (rr_LastKey page \<noteq> [])"
    using assms(8) by (simp_all add: gob_into_def page_response_def zero_kv_response_def)
  from range_step[OF assms(1) q(2), of "kr_Key ?q" "nc_seqNum h" s page "nc_useServer h" zero_kv_response "[]"] assms(7,8) q(1) o
  have l: "range_loop env (nc_useServer h) ?q (kr_Key ?q) (nc_seqNum h) zero_kv_response [] s
      = (if rr_LastKey page = [] then Some (?req, ?o, rr_ResultMap page, s)
         else range_loop env (nc_useServer h) ?req (ks_Key ?o) (ks_SeqNum ?o) ?o (rr_ResultMap page) s)"
    by (simp add: Let_def)
  have d: "range_loop env (nc_useServer h) ?req (ks_Key ?o) (ks_SeqNum ?o) ?o (rr_ResultMap page) s = None" if "rr_LastKey page \<noteq> []"
    by (rule range_loop_diverges[OF assms(1,6) op]) (use that o(2) in simp)
  have g: "isRangeRequest (nc_requestKey h) = Ret True" using assms(4) by (simp add: isRangeRequest_def)
  have p: "processReadWriteReq env rArr (h, s) = map_option Ret (rangeRead env (h, s))"
    using assms(2,3) g by (simp add: processReadWriteReq_def waitServiceInit_def)
  have "rangeRead env (h, s) = None" if "rr_LastKey page \<noteq> []"
    using l d that by (simp add: rangeRead_def Let_def)
  moreover define rq where "rq = \<lparr>cq_Request = ?req, cq_Response = ?o\<lparr>ks_ResultMap := rr_ResultMap page\<rparr>\<rparr>"
  have "rangeRead env (h, s) = Some ((Some (ne_json_reqs env [rq]), None), h\<lparr>nc_operation := ''read'', nc_clientReqArr := [rq]\<rparr>, s)"
    if "rr_LastKey page = []"
    using l that assms(5) by (simp add: rangeRead_def Let_def set_first_map_def rq_def)
  moreover have "ks_ResultMap (cq_Response rq) = rr_ResultMap page" "kr_Prefix (cq_Request rq) = prefix"
    using q(3) by (simp_all add: rq_def)
  ultimately show ?thesis using p by auto
qed

text \<open>
  C38: \<open>PopulateTopology\<close> with a token. When the file can be read, every hypervisor has two addresses and the
  output can be written, it reports success whatever the control plane answers; and none of the writes it made
  carries the token, since the client that writes is a new one.
\<close>

theorem populate_topology_reports_success:
  assumes "px_sendFuncReqFn px = Some (recording ans)" "linked (ne_cli env) px"
    and "path \<noteq> []" "nc_userToken h \<noteq> []" "ne_read_file env path log = Inr d" "load_topology env d = Inr pdus" "addressed pdus"
    and "\<And>d l. ne_write_file env topoOutputFile d l = (None, l)"
  shows "\<exists>h1 cs. populateTopology env path (h, log) = Ret (None, h1, log @ cs)
     \<and> (\<forall>w \<in> set cs. cl_write w \<longrightarrow> rq_Token (cl_req w) = [])
     \<and> (\<forall>p rest. pdus = p # rest \<and> p_ID p \<noteq> [] \<and> \<not> nc_regenerateNISDUUIDs h
         \<and> delivered (ev_js (ne_cli env)) (px_json px) (D_PDU (toRestPDU p))
         \<and> plain_uuid (InitCliCFuncs (ne_JSON env) (fst (draw_uuid env h)))
         \<longrightarrow> (\<exists>w ws. cs = w # ws \<and> cl_write w \<and> cl_name w = PUT_PDU \<and> rq_Payload (cl_req w) = A_PDU (p\<lparr>p_Racks := []\<rparr>)))"
proof -
  from write_topology_quiet[OF assms(1,2,7)] obtain ps h1 cs
    where "write_topology env pdus (h, log) = Ret (ps, h1, log @ cs)" "tokenless cs" by blast
  note w = this
  have "\<exists>w ws. cs = w # ws \<and> cl_write w \<and> cl_name w = PUT_PDU \<and> rq_Payload (cl_req w) = A_PDU (p\<lparr>p_Racks := []\<rparr>)"
    if "pdus = p # rest" "p_ID p \<noteq> []" "\<not> nc_regenerateNISDUUIDs h" "delivered (ev_js (ne_cli env)) (px_json px) (D_PDU (toRestPDU p))"
      "plain_uuid (InitCliCFuncs (ne_JSON env) (fst (draw_uuid env h)))" for p rest
    using write_topology_first[OF assms(1,2) refl that(5,4,2,3), of rest log ps h1 "log @ cs"] w(1) that(1)
    by (auto simp: client_call_def cpreq_def)
  moreover from w assms(3-6,8) have "populateTopology env path (h, log) = Ret (None, h1, log @ cs)"
    by (simp add: populateTopology_def ensureUserToken_def)
  ultimately show ?thesis using w(2) by (intro exI[of _ h1] exI[of _ cs]) (auto simp: tokenless_def)
qed

text \<open>
  \<open>CreateVdev\<close> of the command line. The vdev has a size only, so that the proxy refuses it: the program ends
  with \<open>-1\<close>, and nothing was asked of the control plane.
\<close>

lemma ncpc_create_vdev_refused:
  assumes "linked (ne_cli env) px" "ag_NFlag args \<noteq> 0" "nc_operation h = ''CreateVdev''" "ne_ready env s = (None, s)"
    and "delivered (ev_js (ne_cli env)) (px_json px)
       (D_CreateVdev (create_vdev_body ((new_vdev [])\<lparr>v_Size := ag_vdevSize args\<rparr>) \<lparr>f_ID = [], f_Type = FD_ANY\<rparr>))"
    and "\<And>m. \<exists>e. decodeEnvelope (ev_js (ne_cli env)) want_CreateVdev (je_body (ev_js (ne_cli env)) (ErrorBody StatusInvalidRequest m)) = Fail e"
  shows "ncpc_main env args (h, s) = Some (Ret (- 1, Out_None, snd (draw_uuid env h), s))"
proof -
  let ?v = "(new_vdev [])\<lparr>v_Size := ag_vdevSize args\<rparr>" and ?f = "\<lparr>f_ID = [], f_Type = FD_ANY\<rparr>"
  have v: "v_DataBlkCnt ?v = 0" by (simp add: new_vdev_def)
  obtain u h1 where u: "draw_uuid env h = (u, h1)" by (metis surj_pair)
  then have h1: "nc_operation h1 = ''CreateVdev''" using assms(3) by (auto simp: draw_uuid_def)
  let ?c = "InitCliCFuncs (ne_JSON env) u"
  note ref = create_vdev_refused[OF assms(1,5) v, of ?c s]
  from ref(2) obtain m where m: "fst (Client.CreateVdev (ne_cli env) (Some (Some ?v, ?f)) (?c, s))
    = (case decodeEnvelope (ev_js (ne_cli env)) want_CreateVdev (je_body (ev_js (ne_cli env)) (ErrorBody StatusInvalidRequest m)) of
         Ret x \<Rightarrow> Ret \<lparr>rx_Name = [], rx_ID = cvp_vdev_id x, rx_Error = [], rx_Success = True\<rparr> | Fail e \<Rightarrow> Fail e | Panic \<Rightarrow> Panic)" by blast
  from assms(6)[of m] obtain e where "decodeEnvelope (ev_js (ne_cli env)) want_CreateVdev (je_body (ev_js (ne_cli env)) (ErrorBody StatusInvalidRequest m)) = Fail e" by blast
  with m have "fst (Client.CreateVdev (ne_cli env) (Some (Some ?v, ?f)) (?c, s)) = Fail e" by simp
  with ref(1) have r: "Client.CreateVdev (ne_cli env) (Some (Some ?v, ?f)) (?c, s) = (Fail e, next_write ?c, s)"
    by (simp add: prod_eq_iff)
  have "library_command env args ?c (h1, s) = Ret (Os_Exit (- 1) (h1, s))"
    using h1 r by (simp add: library_command_def or_exit_def Let_def)
  with assms(2-4) u h1 show ?thesis
    by (simp add: ncpc_main_def command_def isSingleWriteReqValid_def waitServiceInit_def Let_def)
qed

section \<open>Witnesses\<close>

subsection \<open>A wire\<close>

text \<open>Strings are framed: every character after a \<open>1\<close>, the end as a \<open>0\<close>.\<close>

fun frame :: "string \<Rightarrow> string" where
  "frame [] = ''0''"
| "frame (c # s) = CHR ''1'' # c # frame s"

fun unframe :: "string \<Rightarrow> string \<times> string" where
  "unframe (a # t) =
     (if a = CHR ''1'' then (case t of [] \<Rightarrow> ([], []) | c # r \<Rightarrow> (case unframe r of (s, u) \<Rightarrow> (c # s, u))) else ([], t))"
| "unframe [] = ([], [])"

lemma unframe_frame [simp]: "unframe (frame s @ t) = (s, t)"
  by (induction s) simp_all

fun unframes :: "nat \<Rightarrow> string \<Rightarrow> string list" where
  "unframes 0 s = []"
| "unframes (Suc n) s = (case unframe s of (x, t) \<Rightarrow> x # unframes n t)"

definition wire :: "string list \<Rightarrow> string" where
  "wire xs = frame (replicate (length xs) CHR ''x'') @ concat (map frame xs)"

definition unwire :: "string \<Rightarrow> string list" where
  "unwire s = (case unframe s of (n, t) \<Rightarrow> unframes (length n) t)"

lemma unwire_wire [simp]: "unwire (wire xs) = xs"
proof -
  have "unframes (length xs) (concat (map frame xs)) = xs" by (induction xs) simp_all
  then show ?thesis by (simp add: unwire_def wire_def)
qed

lemma wire_nonempty [simp]: "wire xs \<noteq> []"
  by (cases xs) (simp_all add: wire_def)

text \<open>Numbers and truth values as strings.\<close>

definition wire_int :: "int \<Rightarrow> string" where
  "wire_int i = (if i < 0 then CHR ''-'' # replicate (nat (- i)) CHR ''x'' else replicate (nat i) CHR ''x'')"

definition unwire_int :: "string \<Rightarrow> int" where
  "unwire_int s = (case s of [] \<Rightarrow> 0 | c # r \<Rightarrow> if c = CHR ''-'' then - int (length r) else int (length s))"

lemma unwire_wire_int [simp]: "unwire_int (wire_int i) = i"
proof (cases "i \<le> 0")
  case False
  then obtain n where "nat i = Suc n" "i = int (Suc n)" by (metis nat_0_le not0_implies_Suc not_le order_less_le zero_less_nat_eq less_numeral_extra(3))
  then show ?thesis by (simp add: unwire_int_def wire_int_def)
next
  case True
  then show ?thesis by (cases "i = 0") (simp_all add: unwire_int_def wire_int_def)
qed

definition wire_bool :: "bool \<Rightarrow> string" where
  "wire_bool b = (if b then ''1'' else [])"

lemma wire_bool_iff [simp]: "wire_bool b = [] \<longleftrightarrow> \<not> b"
  by (simp add: wire_bool_def)

definition wire_request :: "kv_request \<Rightarrow> string" where
  "wire_request r = wire [wire_int (kr_Operation r), kr_Key r, kr_Prefix r, kr_Value r, kr_Rncui r, kr_CheckSum r,
     wire_int (uint (kr_SeqNum r)), wire_bool (kr_Consistent r)]"

definition unwire_request :: "string \<Rightarrow> string + kv_request" where
  "unwire_request s =
     (case unwire s of
        [a, b, c, d, e, f, g, h] \<Rightarrow>
          Inr \<lparr>kr_Operation = unwire_int a, kr_Key = b, kr_Prefix = c, kr_Value = d, kr_Rncui = e, kr_CheckSum = f,
            kr_SeqNum = word_of_int (unwire_int g), kr_Consistent = (h \<noteq> [])\<rparr>
      | _ \<Rightarrow> Inl ''EOF'')"

lemma unwire_wire_request [simp]: "unwire_request (wire_request r) = Inr r"
  by (simp add: unwire_request_def wire_request_def)

fun pairs_of :: "string list \<Rightarrow> (string \<times> string) list" where
  "pairs_of (a # b # r) = (a, b) # pairs_of r"
| "pairs_of _ = []"

lemma pairs_of_concat [simp]: "pairs_of (concat (map (\<lambda>(k, v). [k, v]) m)) = m"
  by (induction m) auto

definition wire_response :: "kv_response \<Rightarrow> string" where
  "wire_response r = wire ([wire_int (ks_Status r), ks_Key r, ks_Prefix r, wire_bool (ks_ContinueRead r),
     wire_int (uint (ks_SeqNum r)), wire_bool (ks_SnapMiss r)] @ concat (map (\<lambda>(k, v). [k, v]) (ks_ResultMap r)))"

definition unwire_response :: "string \<Rightarrow> kv_response" where
  "unwire_response s =
     (case unwire s of
        a # b # c # d # e # f # m \<Rightarrow>
          \<lparr>ks_Status = unwire_int a, ks_Key = b, ks_Prefix = c, ks_ResultMap = pairs_of m, ks_ContinueRead = (d \<noteq> []),
            ks_SeqNum = word_of_int (unwire_int e), ks_SnapMiss = (f \<noteq> [])\<rparr>
      | _ \<Rightarrow> zero_kv_response)"

lemma unwire_wire_response [simp]: "unwire_response (wire_response r) = r"
  by (simp add: unwire_response_def wire_response_def)

lemma wire_response_nonempty [simp]: "wire_response r \<noteq> []"
  by (simp add: wire_response_def)

text \<open>A server with a store, the wire before it, and goroutines that send the last request first.\<close>

definition sample_ncpc :: "'s cli_env \<Rightarrow> 's data_store \<Rightarrow> pdu list \<Rightarrow> 's ncpc_env" where
  "sample_ncpc cli ds pdus = \<lparr>ne_cli = cli, ne_ready = (\<lambda>s. (None, s)),
     ne_request = (\<lambda>_ body _ isWrite s.
       if isWrite then (case kv_Apply unwire_request ds body s of
            (r, s1) \<Rightarrow> ((wire_response (zero_kv_response\<lparr>ks_Status := if r < 0 then 1 else 0\<rparr>), None), s1))
       else ((case kv_Read unwire_request (\<lambda>r. Inr (int (length (wire_response r)))) ds 4096 body s of
            (_, Some resp) \<Rightarrow> (wire_response resp, None) | (_, None) \<Rightarrow> ([], Some ''read failed'')), s)),
     ne_config = (\<lambda>_. Inl ''no config''), ne_members = (\<lambda>_. []), ne_lease = (\<lambda>_ _ _ _ s. (Inl ''no lease'', s)),
     ne_enc = wire_request, ne_dec = (\<lambda>b old. (None, gob_into old (unwire_response b))), ne_enc_lookout = (\<lambda>u c. u @ c),
     ne_json_reqs = (\<lambda>_. ''[]''), ne_json_op = (\<lambda>_. ''{}''), ne_json_members = (\<lambda>_. ''{}''), ne_json_nisds = (\<lambda>_. ''{}''),
     ne_json_pdus = (\<lambda>_. ''[]''), ne_json_vdevs = (\<lambda>_. ''[]''), ne_dec_pdus = (\<lambda>_. Inr pdus), ne_dec_pdu = (\<lambda>_. Inl ''EOF''),
     ne_dec_nisd = (\<lambda>_. Inl ''EOF''), ne_dec_device = (\<lambda>_. Inl ''EOF''), ne_uuid = (\<lambda>n. ''u'' @ utoa n), ne_parse_uuid = Inr,
     ne_decompress = Inr, ne_order = (\<lambda>n. rev [0..<n]), ne_rand = (\<lambda>_ _ _. ''r''), ne_json_ids = (\<lambda>_. ''[]''),
     ne_read_file = (\<lambda>_ _. Inr ''[]''), ne_write_file = (\<lambda>_ _ s. (None, s)), ne_append_file = (\<lambda>_ _ s. s), ne_mkdir = (\<lambda>_ s. (None, s)),
     ne_create_temp = (\<lambda>_ s. (Inr ''tmp'', s)), ne_sync = (\<lambda>_ s. (None, s)), ne_rename = (\<lambda>_ _ s. (None, s)), ne_remove = (\<lambda>_ s. s),
     ne_logger = None, ne_JSON = ''json''\<rparr>"

lemma sample_linked: "kv_linked (sample_ncpc cli ds pdus) unwire_request wire_response ''read failed'' ds 4096"
  by (simp add: kv_linked_def sample_ncpc_def)

definition sample_handler :: ncpc where
  "sample_handler = \<lparr>nc_requestKey = ''a*'', nc_requestValue = [], nc_clientReqArr = [], nc_raftUUID = ''raft'', nc_operation = ''read'',
     nc_resultFile = ''out'', nc_lookoutID = [], nc_relaxedConsistency = False, nc_count = 1, nc_seed = 1, nc_valSize = 8, nc_seqNum = 0,
     nc_userToken = ''token'', nc_username = [], nc_password = [], nc_regenerateNISDUUIDs = False, nc_useServer = None, nc_uuids = 0\<rparr>"

definition no_cli :: "'s cli_env" where
  "no_cli = \<lparr>ev_sd = \<lparr>sd_TillReady = (\<lambda>s. (None, s)), sd_RESTRequest = (\<lambda>_ _ _ _ s. (([], 500, None), s)),
     sd_Request = (\<lambda>_ _ _ s. ((None, None), s))\<rparr>, ev_js = sample_json, ev_fx = sample_func_codec, ev_quote = (\<lambda>s. s)\<rparr>"

definition sample_key :: "string \<Rightarrow> string \<Rightarrow> client_req" where
  "sample_key k v = \<lparr>cq_Request = zero_kv_request\<lparr>kr_Key := k, kr_Value := v\<rparr>, cq_Response = zero_kv_response\<rparr>"


text \<open>A server that answers every range with one page, and says where to go on.\<close>

definition page_store :: "string \<Rightarrow> (string \<times> string) list data_store" where
  "page_store last_key = mem_store\<lparr>ds_RangeRead := (\<lambda>_ _.
     Inr \<lparr>rr_ResultMap = [(''a1'', ''1'')], rr_LastKey = last_key, rr_SeqNum = 0, rr_SnapMiss = False\<rparr>)\<rparr>"

theorem range_returns_iff_witness:
  "processReadWriteReq (sample_ncpc no_cli (page_store ''a1'') []) [] (sample_handler, []) = None
   \<and> (\<exists>h1. processReadWriteReq (sample_ncpc no_cli (page_store []) []) [] (sample_handler, [])
        = Some (Ret ((Some ''[]'', None), h1, [])))"
proof -
  let ?page = "\<lambda>k. \<lparr>rr_ResultMap = [(''a1'', ''1'')], rr_LastKey = k, rr_SeqNum = 0, rr_SnapMiss = False\<rparr>"
  have page: "range_page (page_store k) 4096 req [] = Inr (?page k)" for k req
    by (simp add: range_page_def page_store_def)
  have j: "ne_json_reqs (sample_ncpc no_cli (page_store k) []) r = ''[]''" for k r by (simp add: sample_ncpc_def)
  have h: "nc_operation sample_handler = ''read''" "nc_requestKey sample_handler = ''a'' @ ''*''" "nc_clientReqArr sample_handler = []"
    "ne_ready (sample_ncpc no_cli (page_store k) []) ([] :: (string \<times> string) list) = (None, [])" for k
    by (simp_all add: sample_handler_def sample_ncpc_def)
  have "\<exists>r. range_page (page_store k) 4096 req [] = Inr r" for k req by (simp add: page)
  note r = range_returns_iff[OF sample_linked h(4,1-3) this page, of _ "[]", unfolded j]
  from r[of "''a1''"] r[of "[]"] show ?thesis by auto
qed

definition pdu9 :: pdu where
  "pdu9 = \<lparr>p_ID = ''pdu9'', p_Name = ''pdu'', p_Location = [], p_PowerCapacity = [], p_Specification = [], p_Racks = [rack7]\<rparr>"

definition pdu9_proxy :: "call list proxy" where
  "pdu9_proxy = sample_proxy\<lparr>px_json := sample_codec\<lparr>js_PDU := (\<lambda>_. Inr (toRestPDU pdu9))\<rparr>\<rparr>"

definition pdu9_cli :: "call list cli_env" where
  "pdu9_cli = \<lparr>ev_sd = proxy_link sample_json (\<lambda>_ s. (([], 301, None), s)) (\<lambda>_ _ _ s. ((None, None), s)) pdu9_proxy,
     ev_js = sample_json, ev_fx = sample_func_codec, ev_quote = (\<lambda>s. s)\<rparr>"

definition log_store :: "call list data_store" where
  "log_store = \<lparr>ds_Read = (\<lambda>_ _. Inl []), ds_Write = (\<lambda>s _ _. (None, s)), ds_Delete = (\<lambda>s _. (None, s)), ds_RangeRead = (\<lambda>_ _. Inl [])\<rparr>"

theorem populate_topology_reports_success_witness:
  "\<exists>h1 w ws. populateTopology (sample_ncpc pdu9_cli log_store [pdu9]) ''topology.json'' (sample_handler, []) = Ret (None, h1, w # ws)
     \<and> cl_name w = PUT_PDU \<and> rq_Payload (cl_req w) = A_PDU (pdu9\<lparr>p_Racks := []\<rparr>) \<and> rq_Token (cl_req w) = []"
proof -
  let ?env = "sample_ncpc pdu9_cli log_store [pdu9]"
  have px: "\<exists>ans. px_sendFuncReqFn pdu9_proxy = Some (recording ans)" "linked (ne_cli ?env) pdu9_proxy"
    by (auto simp: pdu9_proxy_def pdu9_cli_def sample_proxy_def sample_ncpc_def)
  then obtain ans where ans: "px_sendFuncReqFn pdu9_proxy = Some (recording ans)" by blast
  have e: "nc_userToken sample_handler \<noteq> []" "ne_read_file ?env ''topology.json'' [] = Inr ''[]''" "load_topology ?env ''[]'' = Inr [pdu9]"
    "addressed [pdu9]" "\<And>d l. ne_write_file ?env topoOutputFile d l = (None, l)" "''topology.json'' \<noteq> []"
    "p_ID pdu9 \<noteq> []" "\<not> nc_regenerateNISDUUIDs sample_handler" "ev_js (ne_cli ?env) = sample_json"
    by (simp_all add: sample_handler_def sample_ncpc_def load_topology_def addressed_def pdu9_def rack7_def pdu9_cli_def)
  have "delivered (ev_js (ne_cli ?env)) (px_json pdu9_proxy) (D_PDU (toRestPDU pdu9))" by (simp add: pdu9_proxy_def)
  moreover have "plain_uuid (InitCliCFuncs (ne_JSON ?env) (fst (draw_uuid ?env sample_handler)))"
    by (simp add: sample_ncpc_def draw_uuid_def plain_uuid_def InitCliCFuncs_def is_space_def)
  ultimately show ?thesis
    using populate_topology_reports_success[OF ans px(2) e(6,1-5)] e(7,8) by fastforce
qed

end
