(* ===== verification/Spec2Isabelle.thy ===== *)
theory Spec2Isabelle
  imports AllocTerm VdevSpec RestUser ClientSpec FuncSpec ImportSpec GossipSpec KvSpec SubmitSpec TidbSpec SessionSpec PumiceSpec NcpcSpec
begin

text \<open>
  A verification library for the control plane of Niova block storage, the Go program under
  \<open>src/controlplane/\<close>.

  The program. The control plane keeps the inventory of a storage cluster (power distribution units,
  racks, hypervisors, devices, partitions and the NISDs, the daemons that serve the data), the virtual
  devices (vdevs) allocated on it, snapshots, parallel file systems and users. It is a state machine
  replicated by PumiceDB: a write request is prepared on the leader by a write-prep function, which
  returns changes (\<open>FuncIntrm\<close>), the changes go through the Raft log, and an apply function performs them
  on every replica; reads are answered by the leader. A proxy offers the same functions over HTTP, both
  as \<open>/func\<close> calls and as a REST API.

  Theories and sources (paths under \<open>src/controlplane/\<close>).

  \<^item> \<open>Prelude\<close>: Go itself. Results of fallible code (\<open>'a go\<close>: a value, an error, a panic), byte strings with
    the functions of \<open>strings\<close>, decimal numbers as \<open>strconv\<close> reads and prints them, machine integers.
  \<^item> \<open>CPLib\<close>, \<open>UserLib\<close>, \<open>Envelope\<close>: \<open>ctlplanefuncs/lib/\<close> and \<open>user/lib/\<close>. The structs as records, the pure
    functions (\<open>ParseFD\<close>, \<open>Count8GBChunks\<close>, \<open>MarshalText\<close>, validation), secret keys and their encryption,
    \<open>CPReq\<close> and \<open>CPResp\<close>, the changes, the data store, \<open>applyKV\<close> and \<open>deleteKV\<close>.
  \<^item> \<open>Hierarchy\<close>: \<open>ctlplanefuncs/server/hierarchy.go\<close>, the five trees the allocator searches. \<open>HierarchyInv\<close>
    has the invariant \<open>hier_ok\<close> and the abstraction \<open>habs\<close> (a set of placements).
  \<^item> \<open>Populate\<close>, \<open>Parser\<close>: \<open>server/populate.go\<close> and \<open>server/parser.go\<close>, the two directions between structs and
    keys. \<open>ParserOrder\<close> shows that a parser does not depend on the order of a Go map, \<open>RoundTrip\<close> that
    what is written is read back.
  \<^item> \<open>Alloc\<close>, \<open>Vdev\<close>, \<open>Handlers\<close>: \<open>server/srvctlplanefuncs.go\<close>. The allocator of vdevs; both phases of
    creating, deleting and mounting a vdev; every other handler. \<open>AllocSpec\<close>, \<open>AllocRefine\<close> and \<open>AllocTerm\<close>
    refine the allocator to spending from a table of free sizes and settle when it returns; \<open>StoreLemmas\<close>,
    \<open>VdevSpec\<close> and \<open>EntitySpec\<close> follow a request through the store.
  \<^item> \<open>Authorizer\<close>, \<open>Auth\<close>: \<open>authorizer/authorizer.go\<close>, \<open>auth/jwt/jwt-token.go\<close> and the token checks of the
    server.
  \<^item> \<open>UserServer\<close>, \<open>UserSpec\<close>: \<open>user/server/\<close>, users and logins.
  \<^item> \<open>PmdbServer\<close>, \<open>PmdbServerSpec\<close>: \<open>pmdbServer/pmdbServer.go\<close>, the table of handlers, a replica with its log
    as the step relation \<open>server_step\<close>, and the hierarchy a starting server builds.
  \<^item> \<open>RestTypes\<close>, \<open>Proxy\<close>, \<open>ProxyRest\<close>: \<open>restapi/\<close> and \<open>proxy/restapi*.go\<close>, the REST API: structs, status
    codes, \<open>callFunc\<close>, every HTTP handler and the route table. \<open>ProxySpec\<close> has the rules about responses
    and calls, \<open>ProxyData\<close> what is asked for and returned, \<open>RestServer\<close> puts the proxy before the server,
    \<open>RestUser\<close> follows a user from creation to login.
  \<^item> \<open>FuncProxy\<close>: \<open>proxy/translator.go\<close>, \<open>proxy/metrics.go\<close> and the callbacks of \<open>proxy/proxy.go\<close> for calls
    by name. \<open>FuncSpec\<close> has what a callback answers, computed without encodings.
  \<^item> \<open>Url\<close>, \<open>Client\<close>, \<open>UserClient\<close>: escaping and parsing of URLs as \<open>net/url\<close> does them, and the two client
    libraries \<open>ctlplanefuncs/client/\<close> and \<open>user/client/\<close>. \<open>ClientLink\<close> connects a client to the proxy by
    an HTTP exchange without losses, \<open>ClientSpec\<close> shows what then arrives at PMDB, \<open>ClientTotal\<close> that the
    operations return.
  \<^item> \<open>CtlDomain\<close>, \<open>InfraImport\<close>: \<open>niova-ctl/domain/\<close>, what the terminal client computes: the inventory tree,
    targets for NISDs, the allocation of ports, the import of an inventory from a file. \<open>CtlSpec\<close> and
    \<open>ImportSpec\<close> have the properties.
  \<^item> \<open>Gossip\<close>, \<open>GossipSpec\<close>: the configuration that \<open>pmdbServer/pmdbServer.go\<close> reads from \<open>.peer\<close> files and
    gossips and that \<open>proxy/proxy.go\<close> checks and writes down, and that it is the same.
  \<^item> \<open>KvServer\<close>, \<open>KvSpec\<close>: the callbacks of \<open>pmdbServer/pmdbServer.go\<close> for raw keys, and what they let a
    caller do to the keys of users.
  \<^item> \<open>Discovery\<close>, \<open>DiscoverySpec\<close>: \<open>niova-ctl/domain/storage.go\<close> and \<open>ssh.go\<close>, disks found and partitioned
    by commands over SSH; which disks are skipped and when a partition table is overwritten.
  \<^item> \<open>Submit\<close>, \<open>SubmitSpec\<close>: \<open>niova-ctl/ui/app_submit_handlers.go\<close> with \<open>session.go\<close>, \<open>components/dialog.go\<close>
    and the messages of \<open>update.go\<close>: from a form over its dialog to the write; ports of a batch of NISDs.
  \<^item> \<open>Tidb\<close>, \<open>TidbOps\<close>, \<open>TidbSpec\<close>: \<open>niova-ctl/domain/mdsvctidbclient/\<close>, the client of the second backend, its
    structs on the wire and its requests, as an instance of the interface of \<open>CtlDomain\<close>; what survives the wire.
  \<^item> \<open>Session\<close>, \<open>SessionSpec\<close>: \<open>niova-ctl/ui/session.go\<close>, \<open>policy.go\<close>, \<open>navigation.go\<close> and the set-up in
    \<open>app.go\<close>: logins, tokens and tabs as the step relation \<open>session_step\<close>; a user and a tenant administrator
    are never both logged in, and the latter reads no inventory.
  \<^item> \<open>Pumice\<close>, \<open>PumiceSpec\<close>: \<open>niova-ctl/domain/mdsvcpumiceclient/\<close>, the two client libraries as the first backend;
    a dialog that is confirmed, followed over the client and the proxy to the write that reaches PMDB.
  \<^item> \<open>Ncpc\<close>, \<open>NcpcSpec\<close>: \<open>ncpc/ncpc.go\<close>, the command line: keys written and read before the callbacks of
    \<open>KvServer\<close>, topologies written by the client library, and which of its operations cannot succeed.

  State. The store is a value of an arbitrary type \<open>'s\<close> with the operations \<open>'s data_store\<close>; its contract
  is \<open>store_sound\<close> (what an operation that succeeds does) or \<open>store_exact\<close> (it succeeds), which
  \<open>mem_store\<close>, an association list, satisfies. The hierarchy is the record \<open>hier\<close> with an explicit memory
  of \<open>*Nisd\<close> pointers, because the trees and the allocation map alias the same structs. A handler is a
  function of its arguments and the state; an apply handler returns the new state.

  Parameters. What is not under \<open>src/\<close> is an argument: PumiceDB (the data store, and \<open>pmdb_client\<close> in the
  proxy), the B-tree of \<open>tidwall/btree\<close> (\<open>btree\<close>, contract \<open>btree_ok\<close>, instance \<open>alist_btree\<close>), the JWT library
  (\<open>env\<close>, contract \<open>jwt_ok\<close>), UUIDs. So are the parts of the Go library whose result is not determined
  (random numbers, the clock, the order in which goroutines run), AES-GCM (\<open>encrypter\<close>, contract \<open>aead_ok\<close>) and the codecs: a decoder
  gives back the encoded value or, as an argument, an error.

  Fuel and bounds. No definition uses fuel. The retry loop of the allocator, the paging of
  \<open>PopulateHierarchy\<close> and that of \<open>rangeRead\<close> are \<open>partial_function (option)\<close>, \<open>None\<close> being a loop that does not end;
  \<open>AllocNISDs_returns\<close>, \<open>alloc_blocks_diverges\<close> and
  \<open>range_returns_iff\<close> say when. Integers that wrap in Go are words.

  Not modelled. The start-up of the processes (flags, starting the Serf agent, waiting for a leader), the
  bound on the number of concurrent calls, and the dump of the hierarchy (input and output, logging); the
  GOB, JSON and XML encoders (third-party code or reflection); of \<open>ncpc\<close> the flags and the two displays that
  never end; of \<open>niova-ctl\<close> the screens; the deployment helpers (\<open>configApplication\<close>,
  \<open>containerConfigManager\<close>, \<open>monitor\<close>).
\<close>

end
